(* ===== verification/Forge_Prelude.thy ===== *)
theory Forge_Prelude
  imports Complex_Main "HOL-Library.Char_ord" "HOL-Library.List_Lexorder"
begin

text \<open>
  Shared vocabulary of the ForgedTTC development.

  \<^item> \<open>'e + 'a\<close> is the result of code that may throw: \<open>Inl\<close> is the thrown error. \<open>bindE\<close> sequences
    two such computations and \<open>guardE\<close> is \<open>if (!ok) throw e\<close>.
  \<^item> \<open>('s, 'e, 'a) tx\<close> is a computation that also reads and writes a state (the database):
    \<open>tx_bind\<close>, \<open>tx_return\<close>, \<open>tx_throw\<close>, \<open>tx_gets\<close>, \<open>tx_modify\<close>. An error leaves the state as it was
    when the error was thrown; \<open>atomically\<close> is the transaction bracket that rolls back to the state
    before the whole computation.
  \<^item> \<open>latest_by\<close> is \<open>ORDER BY key DESC LIMIT 1\<close>, \<open>distinct_on\<close> is \<open>SELECT DISTINCT ON\<close>.
  The collections \<open>res_simps\<close> and \<open>tx_simps\<close> hold the rewrite rules that unfold the two monads,
  \<open>resE\<close> and \<open>txE\<close> the elimination rules that take a successful run apart.
\<close>

named_theorems res_simps \<open>unfolding of the result monad\<close>
named_theorems tx_simps \<open>unfolding of the transaction monad\<close>
named_theorems resE \<open>inversion of successful results\<close>
named_theorems txE \<open>inversion of successful transactions\<close>

section \<open>Results\<close>

definition bindE :: "'err + 'a \<Rightarrow> ('a \<Rightarrow> 'err + 'b) \<Rightarrow> 'err + 'b" where
  "bindE m f = (case m of Inl e \<Rightarrow> Inl e | Inr a \<Rightarrow> f a)"

definition guardE :: "bool \<Rightarrow> 'e \<Rightarrow> 'e + unit" where
  "guardE b e = (if b then Inr () else Inl e)"

definition isOk :: "'e + 'a \<Rightarrow> bool" where
  "isOk m = (case m of Inl _ \<Rightarrow> False | Inr _ \<Rightarrow> True)"

fun mapE :: "('a \<Rightarrow> 'e + 'b) \<Rightarrow> 'a list \<Rightarrow> 'e + 'b list" where
  "mapE f [] = Inr []"
| "mapE f (x # xs) = bindE (f x) (\<lambda>y. bindE (mapE f xs) (\<lambda>ys. Inr (y # ys)))"

lemma bindE_simps [simp, res_simps]:
  "bindE (Inl e) f = Inl e"
  "bindE (Inr a) f = f a"
  by (simp_all add: bindE_def)

lemma guardE_simps [simp, res_simps]:
  "guardE True e = Inr ()"
  "guardE False e = Inl e"
  by (simp_all add: guardE_def)

lemma isOk_simps [simp]:
  "isOk (Inl e) = False"
  "isOk (Inr a) = True"
  by (simp_all add: isOk_def)

lemma isOk_iff: "isOk m \<longleftrightarrow> (\<exists>a. m = Inr a)"
  by (cases m) simp_all

lemma isOk_run: "isOk (fst run) \<Longrightarrow> \<exists>a. run = (Inr a, snd run)"
  by (cases run; cases "fst run") (auto simp: isOk_def)

lemma bindE_Inr [resE]: "bindE m f = Inr y \<longleftrightarrow> (\<exists>a. m = Inr a \<and> f a = Inr y)"
  by (cases m) simp_all

lemma bindE_Inl: "bindE m f = Inl e \<longleftrightarrow> m = Inl e \<or> (\<exists>a. m = Inr a \<and> f a = Inl e)"
  by (cases m) simp_all

lemma guardE_Inr [resE]: "guardE b e = Inr u \<longleftrightarrow> b"
  by (simp add: guardE_def)

lemma guardE_Inl: "guardE b e = Inl e' \<longleftrightarrow> \<not> b \<and> e' = e"
  by (auto simp: guardE_def)

lemma bindE_guard_if [res_simps]: "bindE (guardE b e) f = (if b then f () else Inl e)"
  by simp

lemma bindE_guard_if_Inr [resE]:
  "(if b then (Inl e :: 'e + 'a) else m) = Inr y \<longleftrightarrow> \<not> b \<and> m = Inr y"
  by simp

lemma mapE_Inr_iff:
  "mapE f xs = Inr ys \<longleftrightarrow>
     length ys = length xs \<and> (\<forall>i < length xs. f (xs ! i) = Inr (ys ! i))"
proof (induction xs arbitrary: ys)
  case Nil
  show ?case by auto
next
  case (Cons x xs)
  show ?case
  proof (cases ys)
    case Nil
    then show ?thesis by (auto simp: bindE_Inr)
  next
    case (Cons y ys')
    then show ?thesis by (auto simp: bindE_Inr Cons.IH nth_Cons less_Suc_eq_0_disj split: nat.splits)
  qed
qed

lemma mapE_length: "mapE f xs = Inr ys \<Longrightarrow> length ys = length xs"
  by (simp add: mapE_Inr_iff)

lemma mapE_nth: "mapE f xs = Inr ys \<Longrightarrow> i < length xs \<Longrightarrow> f (xs ! i) = Inr (ys ! i)"
  by (simp add: mapE_Inr_iff)

lemma mapE_set: "mapE f xs = Inr ys \<Longrightarrow> y \<in> set ys \<Longrightarrow> \<exists>x \<in> set xs. f x = Inr y"
  by (metis in_set_conv_nth mapE_length mapE_nth)

section \<open>Stateful computations\<close>

type_synonym ('s, 'e, 'a) tx = "'s \<Rightarrow> ('e + 'a) \<times> 's"

definition tx_return :: "'a \<Rightarrow> ('s, 'e, 'a) tx" where
  "tx_return a = (\<lambda>s. (Inr a, s))"

definition tx_throw :: "'e \<Rightarrow> ('s, 'e, 'a) tx" where
  "tx_throw e = (\<lambda>s. (Inl e, s))"

definition tx_bind :: "('s, 'e, 'a) tx \<Rightarrow> ('a \<Rightarrow> ('s, 'e, 'b) tx) \<Rightarrow> ('s, 'e, 'b) tx" where
  "tx_bind m f = (\<lambda>s. case m s of (Inl e, s') \<Rightarrow> (Inl e, s') | (Inr a, s') \<Rightarrow> f a s')"

definition tx_gets :: "('s \<Rightarrow> 'a) \<Rightarrow> ('s, 'e, 'a) tx" where
  "tx_gets f = (\<lambda>s. (Inr (f s), s))"

definition tx_modify :: "('s \<Rightarrow> 's) \<Rightarrow> ('s, 'e, unit) tx" where
  "tx_modify f = (\<lambda>s. (Inr (), f s))"

definition tx_lift :: "'e + 'a \<Rightarrow> ('s, 'e, 'a) tx" where
  "tx_lift r = (\<lambda>s. (r, s))"

definition tx_guard :: "bool \<Rightarrow> 'e \<Rightarrow> ('s, 'e, unit) tx" where
  "tx_guard b e = tx_lift (guardE b e)"

definition tx_update :: "('s \<Rightarrow> 'e + 's) \<Rightarrow> ('s, 'e, unit) tx" where
  "tx_update f = (\<lambda>s. case f s of Inl e \<Rightarrow> (Inl e, s) | Inr s' \<Rightarrow> (Inr (), s'))"

fun tx_forM :: "'a list \<Rightarrow> ('a \<Rightarrow> ('s, 'e, unit) tx) \<Rightarrow> ('s, 'e, unit) tx" where
  "tx_forM [] f = tx_return ()"
| "tx_forM (x # xs) f = tx_bind (f x) (\<lambda>_. tx_forM xs f)"

fun tx_mapM :: "('a \<Rightarrow> ('s, 'e, 'b) tx) \<Rightarrow> 'a list \<Rightarrow> ('s, 'e, 'b list) tx" where
  "tx_mapM f [] = tx_return []"
| "tx_mapM f (x # xs) = tx_bind (f x) (\<lambda>y. tx_bind (tx_mapM f xs) (\<lambda>ys. tx_return (y # ys)))"

definition atomically :: "('s, 'e, 'a) tx \<Rightarrow> ('s, 'e, 'a) tx" where
  "atomically m = (\<lambda>s. case m s of (Inl e, _) \<Rightarrow> (Inl e, s) | (Inr a, s') \<Rightarrow> (Inr a, s'))"

lemma tx_run [simp, tx_simps]:
  "tx_return a s = (Inr a, s)"
  "tx_throw e s = (Inl e, s)"
  "tx_gets f s = (Inr (f s), s)"
  "tx_modify g s = (Inr (), g s)"
  "tx_lift r s = (r, s)"
  by (simp_all add: tx_return_def tx_throw_def tx_gets_def tx_modify_def tx_lift_def)

lemma tx_guard_run [simp, tx_simps]: "tx_guard b e s = (if b then (Inr (), s) else (Inl e, s))"
  by (simp add: tx_guard_def guardE_def)

lemma tx_update_run [tx_simps]:
  "tx_update f s = (case f s of Inl e \<Rightarrow> (Inl e, s) | Inr s' \<Rightarrow> (Inr (), s'))"
  by (simp add: tx_update_def)

lemma tx_bind_run [tx_simps]:
  "tx_bind m f s = (case m s of (Inl e, s') \<Rightarrow> (Inl e, s') | (Inr a, s') \<Rightarrow> f a s')"
  by (simp add: tx_bind_def)

lemma tx_bind_simps [simp]:
  "tx_bind (tx_return a) f s = f a s"
  "tx_bind (tx_throw e) f s = (Inl e, s)"
  "tx_bind (tx_gets g) f s = f (g s) s"
  "tx_bind (tx_modify h) k s = k () (h s)"
  "tx_bind (tx_lift (Inl e)) f s = (Inl e, s)"
  "tx_bind (tx_lift (Inr a)) f s = f a s"
  "tx_bind (tx_guard b e) k s = (if b then k () s else (Inl e, s))"
  by (simp_all add: tx_bind_def)

lemma tx_bind_Inr [txE]:
  "tx_bind m f s = (Inr y, t) \<longleftrightarrow> (\<exists>a u. m s = (Inr a, u) \<and> f a u = (Inr y, t))"
  by (auto simp: tx_bind_def split: prod.splits sum.splits)

lemma tx_update_Inr [txE]: "tx_update f s = (Inr u, t) \<longleftrightarrow> f s = Inr t"
  by (auto simp: tx_update_def split: sum.splits)

lemma tx_lift_Inr [txE]: "tx_lift r s = (Inr a, t) \<longleftrightarrow> r = Inr a \<and> t = s"
  by auto

lemma atomically_Inr [txE]: "atomically m s = (Inr a, t) \<longleftrightarrow> m s = (Inr a, t)"
  by (auto simp: atomically_def split: prod.splits sum.splits)

lemma atomically_Inl: "atomically m s = (Inl e, t) \<longleftrightarrow> t = s \<and> (\<exists>u. m s = (Inl e, u))"
  by (auto simp: atomically_def split: prod.splits sum.splits)

lemma atomically_rollback: "fst (atomically m s) = Inl e \<Longrightarrow> snd (atomically m s) = s"
  by (auto simp: atomically_def split: prod.splits sum.splits)

text \<open>A relation between the state before and after that every step of a loop keeps, the loop keeps.\<close>

lemma tx_forM_rel:
  assumes refl: "\<And>s. R s s" and trans: "\<And>s t u. R s t \<Longrightarrow> R t u \<Longrightarrow> R s u"
    and step: "\<And>x s r t. x \<in> set xs \<Longrightarrow> f x s = (r, t) \<Longrightarrow> R s t"
  shows "tx_forM xs f s = (r, t) \<Longrightarrow> R s t"
  using step
proof (induction xs arbitrary: s)
  case Nil
  then show ?case by (auto intro: refl)
next
  case (Cons x xs)
  obtain a u where fx: "f x s = (a, u)" by (cases "f x s")
  then have xu: "R s u" using Cons.prems(2) [of x s a u] by simp
  show ?case
  proof (cases a)
    case (Inl e)
    with Cons.prems(1) fx xu show ?thesis by (simp add: tx_bind_def)
  next
    case (Inr b)
    with Cons.prems(1) fx have "tx_forM xs f u = (r, t)" by (simp add: tx_bind_def)
    then have "R u t" by (rule Cons.IH) (use Cons.prems(2) in \<open>auto\<close>)
    with xu show ?thesis by (rule trans)
  qed
qed

section \<open>Rows\<close>

primrec latest_by :: "('r \<Rightarrow> 'k::linorder) \<Rightarrow> 'r list \<Rightarrow> 'r option" where
  "latest_by key [] = None"
| "latest_by key (r # rs) =
     (case latest_by key rs of
        None \<Rightarrow> Some r
      | Some m \<Rightarrow> (if key r < key m then Some m else Some r))"

lemma latest_by_None [simp]: "latest_by key rs = None \<longleftrightarrow> rs = []"
  by (cases rs) (auto split: option.splits)

lemma latest_by_in: "latest_by key rs = Some m \<Longrightarrow> m \<in> set rs"
  by (induction rs arbitrary: m) (auto split: option.splits if_splits)

lemma latest_by_max: "latest_by key rs = Some m \<Longrightarrow> r \<in> set rs \<Longrightarrow> key r \<le> key m"
proof (induction rs arbitrary: m)
  case Nil
  then show ?case by simp
next
  case (Cons x xs)
  show ?case
  proof (cases "latest_by key xs")
    case None
    with Cons.prems show ?thesis by simp
  next
    case (Some m')
    with Cons.prems Cons.IH [of m'] show ?thesis by (auto split: if_splits)
  qed
qed

lemma latest_by_append_max:
  "(\<And>r. r \<in> set rs \<Longrightarrow> key r < key x) \<Longrightarrow> latest_by key (rs @ [x]) = Some x"
  by (induction rs) auto

text \<open>\<open>SELECT DISTINCT ON (group)\<close> ordered by a descending key: the latest row of every group.\<close>

definition distinct_on :: "('r \<Rightarrow> 'g) \<Rightarrow> ('r \<Rightarrow> 'k::linorder) \<Rightarrow> 'r list \<Rightarrow> 'r list" where
  "distinct_on grp key rs =
     List.map_filter (\<lambda>g. latest_by key (filter (\<lambda>r. grp r = g) rs)) (remdups (map grp rs))"

lemma distinct_on_iff:
  "m \<in> set (distinct_on grp key rs) \<longleftrightarrow>
     latest_by key (filter (\<lambda>r. grp r = grp m) rs) = Some m"
proof
  assume "m \<in> set (distinct_on grp key rs)"
  then obtain g where g: "latest_by key (filter (\<lambda>r. grp r = g) rs) = Some m"
    by (auto simp: distinct_on_def List.map_filter_def)
  then have "m \<in> set (filter (\<lambda>r. grp r = g) rs)" by (rule latest_by_in)
  with g show "latest_by key (filter (\<lambda>r. grp r = grp m) rs) = Some m" by simp
next
  assume l: "latest_by key (filter (\<lambda>r. grp r = grp m) rs) = Some m"
  then have "m \<in> set (filter (\<lambda>r. grp r = grp m) rs)" by (rule latest_by_in)
  with l show "m \<in> set (distinct_on grp key rs)"
    by (force simp: distinct_on_def List.map_filter_def)
qed

lemma find_SomeD: "find P xs = Some x \<Longrightarrow> x \<in> set xs \<and> P x"
  by (auto simp: find_Some_iff)

lemma find_None_iff_all: "find P xs = None \<longleftrightarrow> (\<forall>x \<in> set xs. \<not> P x)"
  by (auto simp: find_None_iff)

text \<open>\<open>[...new Set(xs)]\<close>: duplicates dropped, first occurrences kept in order.\<close>

definition js_unique :: "'a list \<Rightarrow> 'a list" where
  "js_unique xs = rev (remdups (rev xs))"

lemma js_unique_set [simp]: "set (js_unique xs) = set xs"
  by (simp add: js_unique_def)

lemma js_unique_distinct [simp]: "distinct (js_unique xs)"
  by (simp add: js_unique_def)

lemma js_unique_id: "distinct xs \<Longrightarrow> js_unique xs = xs"
  by (simp add: js_unique_def distinct_remdups_id)

text \<open>An insert into a table with uniqueness constraints: it fails when a present row clashes.\<close>

definition insert_unique :: "('r \<Rightarrow> 'r \<Rightarrow> bool) \<Rightarrow> 'e \<Rightarrow> 'r \<Rightarrow> 'r list \<Rightarrow> 'e + 'r list" where
  "insert_unique clash e r rs = (if list_ex (clash r) rs then Inl e else Inr (rs @ [r]))"

lemma insert_unique_Inr [resE]:
  "insert_unique clash e r rs = Inr rs' \<longleftrightarrow> rs' = rs @ [r] \<and> (\<forall>q \<in> set rs. \<not> clash r q)"
  by (auto simp: insert_unique_def list_ex_iff)

text \<open>Case analysis on a bounded integer: \<open>list_ex ((=) n) [0..hi]\<close> unfolds to the cases.\<close>

lemma bounded_int_cases: "0 \<le> n \<Longrightarrow> n \<le> hi \<Longrightarrow> list_ex ((=) n) [0..hi]"
  by (auto simp: list_ex_iff)

lemmas upto_cases = upto.simps [of 0] upto.simps [of 1]

section \<open>Text\<close>

definition in_range :: "char \<Rightarrow> char \<Rightarrow> char \<Rightarrow> bool" where
  "in_range lo hi c \<longleftrightarrow> lo \<le> c \<and> c \<le> hi"

definition is_lower_hex :: "char \<Rightarrow> bool" where
  "is_lower_hex c \<longleftrightarrow> in_range (CHR ''0'') (CHR ''9'') c \<or> in_range (CHR ''a'') (CHR ''f'') c"

definition is_alnum :: "char \<Rightarrow> bool" where
  "is_alnum c \<longleftrightarrow> in_range (CHR ''0'') (CHR ''9'') c \<or> in_range (CHR ''a'') (CHR ''z'') c
     \<or> in_range (CHR ''A'') (CHR ''Z'') c"

definition is_digit :: "char \<Rightarrow> bool" where
  "is_digit c \<longleftrightarrow> in_range (CHR ''0'') (CHR ''9'') c"

end
