(* ===== verification/Js_Values.thy ===== *)
theory Js_Values
  imports Forge_Prelude
begin

text \<open>
  The JavaScript values the TypeScript sources handle.

  A \<open>jsnum\<close> is an IEEE binary64 number: a rational, an infinity or NaN (the two zeros are one value,
  which \<open>===\<close>, \<open><\<close> and \<open>JSON.stringify\<close> do not tell apart either). \<open>fl64\<close> rounds a rational to
  binary64, to nearest, ties to even, with gradual underflow and overflow to an infinity, so that
  every arithmetic operation is the exact one followed by \<open>fl64\<close>.

  A \<open>jsval\<close> is a value of type \<open>unknown\<close>. Objects keep the order of their own enumerable keys.
  \<open>JHost\<close> is an object with a prototype of its own (a Date, a Map, a class instance), \<open>JOther\<close> a
  function, symbol or bigint, and \<open>JBack\<close> an entry that refers back to an object it is inside of, so
  that cyclic values are finite terms. A character of a \<open>string\<close> is the UTF-16 code unit of the same
  number: the model's strings are the JavaScript strings over U+0000 to U+00FF.

  The second half translates the checks that the sources repeat file by file (\<open>isRecord\<close>,
  \<open>exactFields\<close>, \<open>isSha256\<close>, \<open>safeInteger\<close>) and proves what they accept.
\<close>

named_theorems js_simps \<open>evaluation of JavaScript operators\<close>

section \<open>Numbers\<close>

datatype jsnum = Fin rat | PosInf | NegInf | NaN

text \<open>\<open>ilog2 x\<close> is the exponent of the leading binary digit of \<open>x\<close>.\<close>

fun int_log2 :: "int \<Rightarrow> int" where
  "int_log2 n = (if n < 2 then 0 else 1 + int_log2 (n div 2))"

declare int_log2.simps [simp del]

definition ilog2 :: "rat \<Rightarrow> int" where
  "ilog2 x = (case quotient_of \<bar>x\<bar> of (p, q) \<Rightarrow>
     (let e = int_log2 p - int_log2 q in if 2 powi e \<le> \<bar>x\<bar> then e else e - 1))"

definition round_half_even :: "rat \<Rightarrow> int" where
  "round_half_even x =
     (let n = \<lfloor>x\<rfloor>; d = x - of_int n
      in if d < 1 / 2 then n else if 1 / 2 < d then n + 1 else if even n then n else n + 1)"

definition fl64 :: "rat \<Rightarrow> jsnum" where
  "fl64 x =
     (if x = 0 then Fin 0
      else let e = max (ilog2 x - 52) (-1074);
               y = of_int (round_half_even (x / 2 powi e)) * 2 powi e
           in if 2 ^ 1024 \<le> y then PosInf else if y \<le> - (2 ^ 1024) then NegInf else Fin y)"

definition is_double :: "jsnum \<Rightarrow> bool" where
  "is_double n = (case n of Fin x \<Rightarrow> fl64 x = Fin x | _ \<Rightarrow> True)"

fun num_eq :: "jsnum \<Rightarrow> jsnum \<Rightarrow> bool" where
  "num_eq (Fin a) (Fin b) = (a = b)"
| "num_eq PosInf PosInf = True"
| "num_eq NegInf NegInf = True"
| "num_eq _ _ = False"

fun num_lt :: "jsnum \<Rightarrow> jsnum \<Rightarrow> bool" where
  "num_lt (Fin a) (Fin b) = (a < b)"
| "num_lt (Fin a) PosInf = True"
| "num_lt NegInf (Fin b) = True"
| "num_lt NegInf PosInf = True"
| "num_lt _ _ = False"

fun num_le :: "jsnum \<Rightarrow> jsnum \<Rightarrow> bool" where
  "num_le (Fin a) (Fin b) = (a \<le> b)"
| "num_le NaN _ = False"
| "num_le _ NaN = False"
| "num_le NegInf _ = True"
| "num_le _ PosInf = True"
| "num_le _ _ = False"

fun num_neg :: "jsnum \<Rightarrow> jsnum" where
  "num_neg (Fin a) = Fin (- a)"
| "num_neg PosInf = NegInf"
| "num_neg NegInf = PosInf"
| "num_neg NaN = NaN"

fun num_add :: "jsnum \<Rightarrow> jsnum \<Rightarrow> jsnum" where
  "num_add (Fin a) (Fin b) = fl64 (a + b)"
| "num_add NaN _ = NaN"
| "num_add _ NaN = NaN"
| "num_add PosInf NegInf = NaN"
| "num_add NegInf PosInf = NaN"
| "num_add PosInf _ = PosInf"
| "num_add _ PosInf = PosInf"
| "num_add NegInf _ = NegInf"
| "num_add _ NegInf = NegInf"

definition num_sub :: "jsnum \<Rightarrow> jsnum \<Rightarrow> jsnum" where
  "num_sub a b = num_add a (num_neg b)"

definition inf_sign :: "bool \<Rightarrow> jsnum" where
  "inf_sign pos = (if pos then PosInf else NegInf)"

fun num_mul :: "jsnum \<Rightarrow> jsnum \<Rightarrow> jsnum" where
  "num_mul (Fin a) (Fin b) = fl64 (a * b)"
| "num_mul NaN _ = NaN"
| "num_mul _ NaN = NaN"
| "num_mul (Fin a) b = (if a = 0 then NaN else inf_sign ((0 < a) = (b = PosInf)))"
| "num_mul a (Fin b) = (if b = 0 then NaN else inf_sign ((0 < b) = (a = PosInf)))"
| "num_mul a b = inf_sign (a = b)"

text \<open>Division of finite numbers; a zero divisor gives the infinity of the dividend's sign, or NaN.\<close>

fun num_div :: "jsnum \<Rightarrow> jsnum \<Rightarrow> jsnum" where
  "num_div (Fin a) (Fin b) =
     (if b \<noteq> 0 then fl64 (a / b) else if a = 0 then NaN else inf_sign (0 < a))"
| "num_div NaN _ = NaN"
| "num_div _ NaN = NaN"
| "num_div (Fin a) _ = Fin 0"
| "num_div a (Fin b) = (if a = PosInf then inf_sign (0 \<le> b) else inf_sign (b < 0))"
| "num_div _ _ = NaN"

fun num_abs :: "jsnum \<Rightarrow> jsnum" where
  "num_abs (Fin a) = Fin \<bar>a\<bar>"
| "num_abs NaN = NaN"
| "num_abs _ = PosInf"

definition num_min :: "jsnum \<Rightarrow> jsnum \<Rightarrow> jsnum" where
  "num_min a b = (if a = NaN \<or> b = NaN then NaN else if num_le a b then a else b)"

definition num_max :: "jsnum \<Rightarrow> jsnum \<Rightarrow> jsnum" where
  "num_max a b = (if a = NaN \<or> b = NaN then NaN else if num_le a b then b else a)"

definition isFinite :: "jsnum \<Rightarrow> bool" where
  "isFinite n = (case n of Fin _ \<Rightarrow> True | _ \<Rightarrow> False)"

definition isInteger :: "jsnum \<Rightarrow> bool" where
  "isInteger n = (case n of Fin x \<Rightarrow> of_int \<lfloor>x\<rfloor> = x | _ \<Rightarrow> False)"

definition max_safe_integer :: int where
  "max_safe_integer = 2 ^ 53 - 1"

definition isSafeInteger :: "jsnum \<Rightarrow> bool" where
  "isSafeInteger n =
     (case n of Fin x \<Rightarrow> of_int \<lfloor>x\<rfloor> = x \<and> \<bar>\<lfloor>x\<rfloor>\<bar> \<le> max_safe_integer | _ \<Rightarrow> False)"

abbreviation IntN :: "int \<Rightarrow> jsnum" where
  "IntN i \<equiv> Fin (of_int i)"

lemma num_le_total: "a \<noteq> NaN \<Longrightarrow> b \<noteq> NaN \<Longrightarrow> num_le a b \<or> num_le b a"
  by (cases a; cases b) auto

lemma num_lt_iff: "a \<noteq> NaN \<Longrightarrow> b \<noteq> NaN \<Longrightarrow> num_lt a b \<longleftrightarrow> \<not> num_le b a"
  by (cases a; cases b) auto

lemma num_le_trans: "num_le a b \<Longrightarrow> num_le b c \<Longrightarrow> num_le a c"
  by (cases a; cases b; cases c) auto

lemma num_eq_iff: "num_eq a b \<longleftrightarrow> a = b \<and> a \<noteq> NaN"
  by (cases a; cases b) auto

lemma isSafeInteger_iff: "isSafeInteger n \<longleftrightarrow> (\<exists>i. n = IntN i \<and> \<bar>i\<bar> \<le> max_safe_integer)"
  by (auto simp: isSafeInteger_def split: jsnum.splits)

lemma isInteger_iff: "isInteger n \<longleftrightarrow> (\<exists>i. n = IntN i)"
  by (auto simp: isInteger_def split: jsnum.splits)

section \<open>Values\<close>

datatype jsval =
    JUndef
  | JNull
  | JBool bool
  | JNum jsnum
  | JStr string
  | JArr "jsval list"
  | JObj "(string \<times> jsval) list"
  | JHost "(string \<times> jsval) list"
  | JOther
  | JBack nat

text \<open>\<open>a === b\<close>. Two object values of the model are never the same reference.\<close>

fun strict_eq :: "jsval \<Rightarrow> jsval \<Rightarrow> bool" where
  "strict_eq JUndef JUndef = True"
| "strict_eq JNull JNull = True"
| "strict_eq (JBool a) (JBool b) = (a = b)"
| "strict_eq (JNum a) (JNum b) = num_eq a b"
| "strict_eq (JStr a) (JStr b) = (a = b)"
| "strict_eq _ _ = False"

fun objectKeys :: "jsval \<Rightarrow> string list" where
  "objectKeys (JObj kvs) = map fst kvs"
| "objectKeys (JHost kvs) = map fst kvs"
| "objectKeys _ = []"

fun getProp :: "jsval \<Rightarrow> string \<Rightarrow> jsval" where
  "getProp (JObj kvs) k = (case map_of kvs k of None \<Rightarrow> JUndef | Some v \<Rightarrow> v)"
| "getProp (JHost kvs) k = (case map_of kvs k of None \<Rightarrow> JUndef | Some v \<Rightarrow> v)"
| "getProp _ _ = JUndef"

fun isRecord :: "jsval \<Rightarrow> bool" where
  "isRecord (JObj _) = True"
| "isRecord (JHost _) = True"
| "isRecord (JBack _) = True"
| "isRecord _ = False"

definition exactFields :: "jsval \<Rightarrow> string list \<Rightarrow> bool" where
  "exactFields v expected =
     (let actual = sort (objectKeys v); wanted = sort expected
      in length actual = length wanted
         \<and> list_all (\<lambda>i. actual ! i = wanted ! i) [0..<length actual])"

definition isSha256 :: "jsval \<Rightarrow> bool" where
  "isSha256 v = (case v of JStr s \<Rightarrow> length s = 64 \<and> list_all is_lower_hex s | _ \<Rightarrow> False)"

definition safeInteger :: "jsval \<Rightarrow> int \<Rightarrow> int \<Rightarrow> bool" where
  "safeInteger v minimum maximum =
     (case v of
        JNum n \<Rightarrow> isSafeInteger n \<and> num_le (IntN minimum) n \<and> num_le n (IntN maximum)
      | _ \<Rightarrow> False)"

definition sameStringArray :: "jsval \<Rightarrow> string list \<Rightarrow> bool" where
  "sameStringArray v expected =
     (case v of
        JArr xs \<Rightarrow> length xs = length expected
          \<and> list_all (\<lambda>i. strict_eq (xs ! i) (JStr (expected ! i))) [0..<length xs]
      | _ \<Rightarrow> False)"

definition is_string :: "jsval \<Rightarrow> bool" where
  "is_string v = (case v of JStr _ \<Rightarrow> True | _ \<Rightarrow> False)"

lemma strict_eq_prim [js_simps]:
  "strict_eq v (JStr s) \<longleftrightarrow> v = JStr s"
  "strict_eq v (JBool b) \<longleftrightarrow> v = JBool b"
  "strict_eq v JNull \<longleftrightarrow> v = JNull"
  "strict_eq v (JNum (Fin x)) \<longleftrightarrow> v = JNum (Fin x)"
  by (cases v; simp add: num_eq_iff; blast)+

lemma list_eq_by_index:
  "length xs = length ys \<and> list_all (\<lambda>i. xs ! i = ys ! i) [0..<length xs] \<longleftrightarrow> xs = ys"
  by (auto simp: list_all_iff intro: nth_equalityI)

text \<open>The field check accepts exactly the objects with the expected set of keys.\<close>

lemma exactFields_sort: "exactFields v fs \<longleftrightarrow> sort (objectKeys v) = sort fs"
  by (simp add: exactFields_def Let_def list_eq_by_index)

lemma sort_eq_iff_set:
  assumes "distinct xs" "distinct ys"
  shows "sort xs = sort ys \<longleftrightarrow> set xs = set ys"
  using assms by (metis set_sort sorted_distinct_set_unique sorted_sort distinct_sort)

lemma exactFields_iff:
  "distinct (objectKeys v) \<Longrightarrow> distinct fs \<Longrightarrow>
     exactFields v fs \<longleftrightarrow> set (objectKeys v) = set fs"
  by (simp add: exactFields_sort sort_eq_iff_set)

lemma exactFields_keys: "exactFields v fs \<Longrightarrow> set (objectKeys v) = set fs"
  by (metis exactFields_sort set_sort)

lemma isSha256_iff: "isSha256 v \<longleftrightarrow> (\<exists>s. v = JStr s \<and> length s = 64 \<and> list_all is_lower_hex s)"
  by (auto simp: isSha256_def split: jsval.splits)

lemma safeInteger_iff:
  assumes "- max_safe_integer \<le> lo" "hi \<le> max_safe_integer"
  shows "safeInteger v lo hi \<longleftrightarrow> (\<exists>i. v = JNum (IntN i) \<and> lo \<le> i \<and> i \<le> hi)"
  using assms by (force simp: safeInteger_def isSafeInteger_iff split: jsval.splits)

lemma sameStringArray_iff: "sameStringArray v ss \<longleftrightarrow> v = JArr (map JStr ss)"
proof (cases v)
  case (JArr xs)
  have "(length xs = length ss \<and> (\<forall>i < length xs. xs ! i = JStr (ss ! i))) \<longleftrightarrow> xs = map JStr ss"
    by (auto intro: nth_equalityI)
  with JArr show ?thesis by (auto simp: sameStringArray_def list_all_iff js_simps)
qed (simp_all add: sameStringArray_def)

lemma is_string_iff [js_simps]: "is_string v \<longleftrightarrow> (\<exists>s. v = JStr s)"
  by (cases v) (auto simp: is_string_def)

end
