(* ===== verification/Js_Text.thy ===== *)
theory Js_Text
  imports Js_Values
begin

text \<open>
  The text of JavaScript values: \<open>Number::toString\<close> (the shortest decimal that reads back as the same
  binary64 number, in the notation ECMAScript prescribes), \<open>JSON.stringify\<close> on values, the UTF-8 byte
  length of a string, and the string helpers the sources call (\<open>toLowerCase\<close>, \<open>trim\<close>, \<open>split\<close>,
  \<open>startsWith\<close>).
\<close>

section \<open>Numbers as text\<close>

fun dec_digits :: "int \<Rightarrow> string" where
  "dec_digits n =
     (if n < 10 then [char_of (48 + n)] else dec_digits (n div 10) @ [char_of (48 + n mod 10)])"

declare dec_digits.simps [simp del]

fun find_down_exp :: "nat \<Rightarrow> rat \<Rightarrow> nat \<Rightarrow> nat" where
  "find_down_exp 0 x m = m"
| "find_down_exp (Suc fuel) x m = (if 1 \<le> x * 10 ^ m then m else find_down_exp fuel x (Suc m))"

text \<open>The \<open>n\<close> with \<open>10^(n-1) \<le> x < 10^n\<close>; the least positive binary64 number is above \<open>10^(-324)\<close>,
  so 330 steps reach every number below 1.\<close>

definition dec_exp :: "rat \<Rightarrow> int" where
  "dec_exp x = (if 1 \<le> x then int (length (dec_digits \<lfloor>x\<rfloor>)) else 1 - int (find_down_exp 330 x 1))"

fun shortest_from :: "nat \<Rightarrow> rat \<Rightarrow> int \<Rightarrow> nat \<Rightarrow> int \<times> nat \<times> int" where
  "shortest_from fuel x n k =
     (let s = round_half_even (x * 10 powi (int k - n)) in
      if fuel = 0 \<or> fl64 (of_int s * 10 powi (n - int k)) = Fin x
      then (if s = 10 ^ k then (10 ^ (k - 1), k, n + 1) else (s, k, n))
      else shortest_from (fuel - 1) x n (Suc k))"

declare shortest_from.simps [simp del]

text \<open>Seventeen significant digits always read back as the same number.\<close>

definition shortest :: "rat \<Rightarrow> int \<times> nat \<times> int" where
  "shortest x = shortest_from 16 x (dec_exp x) 1"

definition exp_text :: "int \<Rightarrow> string" where
  "exp_text e = (if 0 \<le> e then ''e+'' else ''e-'') @ dec_digits \<bar>e\<bar>"

definition pos_to_string :: "rat \<Rightarrow> string" where
  "pos_to_string x =
     (if of_int \<lfloor>x\<rfloor> = x \<and> \<lfloor>x\<rfloor> \<le> max_safe_integer then dec_digits \<lfloor>x\<rfloor>
      else case shortest x of (s, k, n) \<Rightarrow>
        (let ds = dec_digits s in
         if int k \<le> n \<and> n \<le> 21 then ds @ replicate (nat n - k) (CHR ''0'')
         else if 0 < n \<and> n \<le> 21 then take (nat n) ds @ ''.'' @ drop (nat n) ds
         else if -6 < n \<and> n \<le> 0 then ''0.'' @ replicate (nat (- n)) (CHR ''0'') @ ds
         else if k = 1 then ds @ exp_text (n - 1)
         else take 1 ds @ ''.'' @ drop 1 ds @ exp_text (n - 1)))"

fun num_to_string :: "jsnum \<Rightarrow> string" where
  "num_to_string NaN = ''NaN''"
| "num_to_string PosInf = ''Infinity''"
| "num_to_string NegInf = ''-Infinity''"
| "num_to_string (Fin x) =
     (if x = 0 then ''0'' else if x < 0 then ''-'' @ pos_to_string (- x) else pos_to_string x)"

section \<open>JSON text\<close>

lemma less_eq_char_int: "c \<le> d \<longleftrightarrow> (of_char c :: int) \<le> of_char d"
  by (metis less_eq_char_def of_nat_le_iff of_nat_of_char)

definition hex_digit :: "int \<Rightarrow> char" where
  "hex_digit n = (if n < 10 then char_of (48 + n) else char_of (87 + n))"

definition json_char :: "char \<Rightarrow> string" where
  "json_char c =
     (let n = of_char c :: int in
      if n = 34 then [char_of (92 :: int), char_of (34 :: int)]
      else if n = 92 then [char_of (92 :: int), char_of (92 :: int)]
      else if n = 8 then [char_of (92 :: int), CHR ''b'']
      else if n = 9 then [char_of (92 :: int), CHR ''t'']
      else if n = 10 then [char_of (92 :: int), CHR ''n'']
      else if n = 12 then [char_of (92 :: int), CHR ''f'']
      else if n = 13 then [char_of (92 :: int), CHR ''r'']
      else if n < 32 then char_of (92 :: int) # ''u00'' @ [hex_digit (n div 16), hex_digit (n mod 16)]
      else [c])"

text \<open>Evaluation by the bits of the character: an escape is only looked for where there is one.\<close>

definition json_escape :: "char \<Rightarrow> string" where
  "json_escape c = json_char c"

lemma json_char_code [code]:
  "json_char (Char b0 b1 b2 b3 b4 b5 b6 b7) =
     (if (b5 \<or> b6 \<or> b7) \<and> (b7 \<or> b6 \<or> b4 \<or> b3 \<or> b2 \<or> \<not> b1 \<or> b0) \<and> (b7 \<or> \<not> b6 \<or> b5 \<or> \<not> b4 \<or> \<not> b3 \<or> \<not> b2 \<or> b1 \<or> b0)
      then [Char b0 b1 b2 b3 b4 b5 b6 b7] else json_escape (Char b0 b1 b2 b3 b4 b5 b6 b7))"
  by (cases b0; cases b1; cases b2; cases b3; cases b4; cases b5; cases b6; cases b7)
    (simp_all add: json_char_def json_escape_def)

lemmas json_escape_code [code] = json_escape_def [unfolded json_char_def]

definition json_quote :: "string \<Rightarrow> string" where
  "json_quote s = [char_of (34 :: int)] @ concat (map json_char s) @ [char_of (34 :: int)]"

fun join :: "string \<Rightarrow> string list \<Rightarrow> string" where
  "join sep [] = []"
| "join sep [x] = x"
| "join sep (x # y # ys) = x @ sep @ join sep (y # ys)"

text \<open>\<open>JSON.stringify\<close>: \<open>None\<close> is the value \<open>undefined\<close> it returns for values with no JSON text. Array
  entries without text become \<open>null\<close>, object members without text are left out.\<close>

fun stringify :: "jsval \<Rightarrow> string option" where
  "stringify JNull = Some ''null''"
| "stringify (JBool b) = Some (if b then ''true'' else ''false'')"
| "stringify (JNum n) = Some (if isFinite n then num_to_string n else ''null'')"
| "stringify (JStr s) = Some (json_quote s)"
| "stringify (JArr xs) =
     Some (''['' @ join '','' (map (\<lambda>x. case stringify x of None \<Rightarrow> ''null'' | Some t \<Rightarrow> t) xs) @ '']'')"
| "stringify (JObj kvs) =
     Some (''{'' @ join '',''
       (concat (map (\<lambda>(k, v). case stringify v of None \<Rightarrow> [] | Some t \<Rightarrow> [json_quote k @ '':'' @ t]) kvs)) @ ''}'')"
| "stringify (JHost kvs) =
     Some (''{'' @ join '',''
       (concat (map (\<lambda>(k, v). case stringify v of None \<Rightarrow> [] | Some t \<Rightarrow> [json_quote k @ '':'' @ t]) kvs)) @ ''}'')"
| "stringify JUndef = None"
| "stringify JOther = None"
| "stringify (JBack n) = None"

definition char_bytes :: "char \<Rightarrow> nat" where
  "char_bytes c = (if of_char c < (128 :: int) then 1 else 2)"

lemma char_bytes_code [code]: "char_bytes (Char b0 b1 b2 b3 b4 b5 b6 b7) = (if b7 then 2 else 1)"
  by (cases b0; cases b1; cases b2; cases b3; cases b4; cases b5; cases b6; cases b7) (simp_all add: char_bytes_def)

definition byteLength :: "string \<Rightarrow> nat" where
  "byteLength s = sum_list (map char_bytes s)"

lemma byteLength_simps [simp]:
  "byteLength [] = 0"
  "byteLength (c # s) = char_bytes c + byteLength s"
  "byteLength (s @ t) = byteLength s + byteLength t"
  by (simp_all add: byteLength_def)

lemma char_bytes_pos: "1 \<le> char_bytes c \<and> char_bytes c \<le> 2"
  by (simp add: char_bytes_def)

lemma length_le_byteLength: "length s \<le> byteLength s"
proof (induction s)
  case (Cons c s)
  with char_bytes_pos [of c] show ?case by simp
qed simp

lemma byteLength_le_double: "byteLength s \<le> 2 * length s"
proof (induction s)
  case (Cons c s)
  with char_bytes_pos [of c] show ?case by simp
qed simp

section \<open>Strings\<close>

definition to_lower_char :: "char \<Rightarrow> char" where
  "to_lower_char c =
     (let n = of_char c :: int in
      if (65 \<le> n \<and> n \<le> 90) \<or> (192 \<le> n \<and> n \<le> 222 \<and> n \<noteq> 215) then char_of (n + 32) else c)"

definition toLowerCase :: "string \<Rightarrow> string" where
  "toLowerCase = map to_lower_char"

definition is_space :: "char \<Rightarrow> bool" where
  "is_space c = (let n = of_char c :: int in (9 \<le> n \<and> n \<le> 13) \<or> n = 32 \<or> n = 160)"

definition trim :: "string \<Rightarrow> string" where
  "trim s = rev (dropWhile is_space (rev (dropWhile is_space s)))"

fun split_on :: "char \<Rightarrow> string \<Rightarrow> string list" where
  "split_on c [] = [[]]"
| "split_on c (x # xs) =
     (if x = c then [] # split_on c xs
      else case split_on c xs of [] \<Rightarrow> [[x]] | y # ys \<Rightarrow> (x # y) # ys)"

definition startsWith :: "string \<Rightarrow> string \<Rightarrow> bool" where
  "startsWith p s \<longleftrightarrow> take (length p) s = p"

definition endsWith :: "string \<Rightarrow> string \<Rightarrow> bool" where
  "endsWith p s \<longleftrightarrow> startsWith (rev p) (rev s)"

lemma trim_Nil_iff: "trim s = [] \<longleftrightarrow> (\<forall>c \<in> set s. is_space c)"
proof
  assume "trim s = []"
  then have "\<forall>c \<in> set (dropWhile is_space s). is_space c"
    by (simp add: trim_def dropWhile_eq_Nil_conv)
  moreover have "set s = set (takeWhile is_space s) \<union> set (dropWhile is_space s)"
    by (metis set_append takeWhile_dropWhile_id)
  ultimately show "\<forall>c \<in> set s. is_space c" by (auto dest: set_takeWhileD)
next
  assume "\<forall>c \<in> set s. is_space c"
  then show "trim s = []" by (auto simp: trim_def dropWhile_eq_Nil_conv dest: set_dropWhileD)
qed

lemma split_on_nonempty: "split_on c s \<noteq> []"
  by (induction s) (auto split: list.splits)

lemma startsWith_append [simp]: "startsWith p (p @ s)"
  by (simp add: startsWith_def)

end
