(* ===== verification/Gateway_Db.thy ===== *)
theory Gateway_Db
  imports Js_Text
begin

text \<open>
  The gateway's database and its transaction bracket (packages/gateway/src/db.ts).

  A table is the list of its rows in insertion order, a row a record with the columns the modelled
  statements read or write, as infra/migrations declares them (columns that every insert fills with the
  same constant and no statement reads, such as \<open>lifecycle_version\<close>, are left out); a \<open>timestamptz\<close> is its milliseconds since
  the epoch, a \<open>bigserial\<close> column is filled from a counter of the database record (a rolled-back insert
  leaves a gap in PostgreSQL, which no statement can observe through the order of the numbers). Each SQL statement of
  the sources becomes a list expression over these tables; a uniqueness constraint makes the insert
  fail with \<open>DbError\<close>. Identifiers that the code or the database draws at random, and the clock,
  are arguments of the operations.

  \<open>withGatewayTransaction\<close> runs its body on the whole database and keeps the new state only when the
  body returns and the server accepts the commit. Serializable transactions are therefore single steps
  of the model.
\<close>

section \<open>Errors\<close>

text \<open>\<open>HttpError\<close> is \<open>Object.assign(new Error(message), {statusCode})\<close>, \<open>CodedError\<close> has a \<open>code\<close> (empty
  when the object has none) and further fields as well, \<open>PlainError\<close> is a bare \<open>Error\<close> and \<open>DbError\<close> an error raised by the
  database.\<close>

datatype gw_error =
    HttpError nat string
  | CodedError nat string string "(string \<times> jsval) list"
  | PlainError string
  | DbError string

fun error_message :: "gw_error \<Rightarrow> string" where
  "error_message (HttpError _ m) = m"
| "error_message (CodedError _ _ m _) = m"
| "error_message (PlainError m) = m"
| "error_message (DbError m) = m"

fun error_status :: "gw_error \<Rightarrow> nat option" where
  "error_status (HttpError c _) = Some c"
| "error_status (CodedError c _ _ _) = Some c"
| "error_status _ = None"

fun error_code :: "gw_error \<Rightarrow> string option" where
  "error_code (CodedError _ code _ _) = Some code"
| "error_code _ = None"

section \<open>Users\<close>

record CurrentUser =
  user_id :: string
  user_name :: "string option"
  user_email :: "string option"
  user_image :: "string option"

section \<open>Consent ledger rows\<close>

datatype ConsentPurpose =
    PhotoscanProcessing | TelemetrySharing | PatternContribution | LeaderboardPublication | TrainingReuse

datatype ConsentAction = Grant | Withdraw

datatype ConsentSubjectKind = AccountSubject | ObjectBlobSubject | TelemetryLogSubject | ModelSubject

record ConsentRow =
  cr_id :: string
  cr_ledger_version :: string
  cr_owner_user_id :: string
  cr_purpose :: ConsentPurpose
  cr_subject_kind :: ConsentSubjectKind
  cr_subject_id :: string
  cr_policy_version :: string
  cr_notice_hash :: string
  cr_action :: ConsentAction
  cr_evidence :: jsval
  cr_idempotency_key :: "string option"
  cr_previous_event_id :: "string option"
  cr_event_sequence :: nat
  cr_created_at :: int

section \<open>Objects, models, telemetry, jobs\<close>

datatype Visibility = VPrivate | VUnlisted | VPublic

datatype UploadStatus = UStaged | UComplete

record ObjectBlobRow =
  ob_id :: string
  ob_owner_user_id :: "string option"
  ob_visibility :: Visibility
  ob_cache_key :: "string option"
  ob_bucket :: string
  ob_object_key :: string
  ob_content_type :: "string option"
  ob_byte_size :: "int option"
  ob_sha256 :: "string option"
  ob_upload_status :: UploadStatus
  ob_verified_at :: "int option"
  ob_verification_error_code :: "string option"
  ob_metadata :: jsval
  ob_created_at :: int

record ModelRow =
  mr_id :: string
  mr_owner_user_id :: "string option"
  mr_status :: string
  mr_contract_hash :: string
  mr_validator_report :: jsval
  mr_contract :: jsval
  mr_source_artifact_id :: "string option"
  mr_visibility :: Visibility
  mr_name :: string
  mr_archetype :: "string option"
  mr_lineage :: jsval
  mr_created_at :: int
  mr_updated_at :: int

record ShareRow =
  sh_id :: string
  sh_model_id :: string
  sh_owner_user_id :: string
  sh_contract_hash :: string
  sh_contract :: jsval
  sh_validator_report :: jsval
  sh_created_at :: int
  sh_revoked_at :: "int option"

record TelemetryRow =
  tl_id :: string
  tl_owner_user_id :: "string option"
  tl_model_id :: "string option"
  tl_source :: string
  tl_captured_at :: int
  tl_tape :: jsval
  tl_privacy :: jsval

text \<open>A job with the rows that are deleted with it: its events, the log of its attempts and the calls to
  the provider. \<open>JNull\<close> in \<open>jb_output\<close> is the absence of an output.\<close>

datatype JobStatus = JQueued | JRunning | JSucceeded | JFailed | JCancelled

datatype Provider = Fixture | Local | Modal

record ProviderFields =
  pf_call_id :: "string option"
  pf_function_version :: "int option"
  pf_environment :: "string option"
  pf_deployment_contract_hash :: "string option"
  pf_submitted_at :: "int option"
  pf_completed_at :: "int option"
  pf_cancelled_at :: "int option"
  pf_cost_usd :: "rat option"
  pf_billing_report_id :: "string option"
  pf_cost_reconciled_at :: "int option"

record JobEventRow =
  je_id :: nat
  je_event :: string
  je_payload :: jsval
  je_created_at :: int

record JobAttemptRow =
  ja_attempt :: int
  ja_outcome :: string
  ja_error_code :: "string option"
  ja_finished_at :: "int option"

record ProviderCallRow =
  pc_call_id :: string
  pc_status :: string

record JobRow =
  jb_id :: string
  jb_owner_user_id :: "string option"
  jb_kind :: string
  jb_status :: JobStatus
  jb_input :: jsval
  jb_error :: "string option"
  jb_last_error_code :: "string option"
  jb_created_at :: int
  jb_finished_at :: "int option"
  jb_lease_token :: "string option"
  jb_lease_expires_at :: "int option"
  jb_provider :: Provider
  jb_idempotency_key :: "string option"
  jb_output :: jsval
  jb_cost_credits :: int
  jb_attempts :: int
  jb_max_attempts :: int
  jb_timeout_seconds :: int
  jb_available_at :: int
  jb_started_at :: "int option"
  jb_provider_fields :: ProviderFields
  jb_cancel_requested_at :: "int option"
  jb_credit_refunded_at :: "int option"
  jb_observability_request_id :: "string option"
  jb_observability_trace_id :: string
  jb_observability_parent_span_id :: "string option"
  jb_events :: "JobEventRow list"
  jb_attempt_log :: "JobAttemptRow list"
  jb_provider_calls :: "ProviderCallRow list"

record PatternRow =
  pl_owner_user_id :: "string option"
  pl_source_model_id :: "string option"
  pl_source_artifact_id :: "string option"

record LeaderboardRow =
  lb_id :: string
  lb_user_id :: "string option"
  lb_course_id :: string

text \<open>Courses, listings, classroom and moderation rows, of which only the keys, the owner and the references
  to other tables take part in a modelled statement.\<close>

record CourseRow =
  co_id :: string
  co_owner_user_id :: "string option"

record ListingRow =
  ml_id :: string
  ml_owner_user_id :: "string option"
  ml_model_id :: "string option"
  ml_course_id :: "string option"

record GeneratedArtifactRow =
  ga_artifact_id :: string
  ga_owner_user_id :: "string option"

record SignoffRow =
  sg_id :: string
  sg_owner_user_id :: "string option"

record ReportRow =
  mo_id :: string
  mo_reporter_user_id :: "string option"

record AssignmentRow =
  as_id :: string
  as_owner_user_id :: "string option"
  as_course_id :: "string option"

record SubmissionRow =
  su_id :: string
  su_assignment_id :: string
  su_student_user_id :: "string option"
  su_model_id :: "string option"

record AccountRow =
  ac_id :: string
  ac_user_id :: string

section \<open>Lifecycle rows\<close>

datatype LifecycleSubjectKind = UserSubject | ObjectSubject | AuditSubject

datatype LegalHoldReason = Litigation | Regulatory | SecurityIncident | BillingDispute

datatype HoldAction = Place | Release

record HoldRow =
  hr_id :: string
  hr_hold_key :: string
  hr_action :: HoldAction
  hr_subject_kind :: LifecycleSubjectKind
  hr_subject_digest :: string
  hr_reason_code :: LegalHoldReason
  hr_authority_reference :: string
  hr_jurisdiction :: string
  hr_evidence_reference :: string
  hr_expires_at :: int
  hr_idempotency_key :: string
  hr_previous_event_id :: "string option"
  hr_event_sequence :: nat
  hr_created_at :: int

datatype BackupStatus = Available | Deleting | Deleted | DeleteFailed

record BackupRow =
  br_id :: string
  br_provider :: string
  br_external_reference :: string
  br_manifest_sha256 :: string
  br_captured_at :: int
  br_delete_after :: int
  br_status :: BackupStatus
  br_deleted_at :: "int option"
  br_last_error_code :: "string option"
  br_created_at :: int
  br_updated_at :: int

record BackupSubjectRow =
  bs_backup_id :: string
  bs_subject_kind :: LifecycleSubjectKind
  bs_subject_digest :: string

record TombstoneRow =
  ts_id :: string
  ts_deletion_id :: string
  ts_subject_kind :: LifecycleSubjectKind
  ts_subject_digest :: string
  ts_primary_deleted_at :: int
  ts_backup_delete_after :: int
  ts_tombstone_expires_at :: int
  ts_backup_deleted_at :: "int option"

datatype RestoreResult = Eligible | Blocked

record RestoreTestRow =
  rt_id :: string
  rt_backup_id :: string
  rt_manifest_sha256 :: string
  rt_result :: RestoreResult
  rt_blocked_subject_count :: nat
  rt_evidence_reference :: string
  rt_tested_at :: int

record LifecycleEventRow =
  le_id :: string
  le_event_type :: string
  le_subject_kind :: "string option"
  le_subject_digest :: "string option"
  le_actor_kind :: string
  le_reason_code :: string
  le_evidence_reference :: "string option"
  le_details :: jsval
  le_created_at :: int

record SessionRow =
  se_session_token :: string
  se_user_id :: string
  se_expires :: int

record TokenRow =
  vt_identifier :: string
  vt_expires :: int

record RefusalRow =
  rf_id :: string
  rf_owner_user_id :: "string option"
  rf_created_at :: int

section \<open>Recorder rows\<close>

datatype MaterializationStatus = MStaged | Materialized

record MaterializationRow =
  ma_id :: string
  ma_owner_user_id :: string
  ma_artifact_id :: string
  ma_status :: MaterializationStatus
  ma_manifest_blob_id :: string
  ma_frame_blob_id :: string
  ma_index_blob_id :: string
  ma_replay_blob_id :: string
  ma_receipt_blob_id :: string
  ma_upload_plan :: jsval
  ma_aggregate_byte_size :: int
  ma_gateway_object_integrity_verified :: bool
  ma_verification_error_code :: "string option"
  ma_created_at :: int
  ma_materialized_at :: "int option"

record AdmissionRow =
  ad_id :: string
  ad_owner_user_id :: string
  ad_materialization_id :: string
  ad_telemetry_log_id :: string
  ad_model_id :: string
  ad_verification :: jsval
  ad_replay_file_sha256 :: string
  ad_frame_count :: int
  ad_duration_s :: jsnum
  ad_created_at :: int

section \<open>Credits, usage and gates\<close>

record CreditAccountRow =
  ca_user_id :: string
  ca_balance_credits :: int

record CreditLedgerRow =
  cl_user_id :: string
  cl_delta_credits :: int
  cl_reason :: string
  cl_source_kind :: string
  cl_source_id :: "string option"
  cl_idempotency_key :: "string option"
  cl_created_at :: int

record UsageRow =
  us_user_id :: "string option"
  us_event_kind :: string
  us_provider :: "string option"
  us_units :: jsval
  us_cost_credits :: int
  us_idempotency_key :: "string option"

datatype GateStatus = GBlocked | GAccepted | GRevoked

record GateRow =
  gs_id :: string
  gs_gate_key :: string
  gs_status :: GateStatus
  gs_policy_version :: string
  gs_jurisdiction :: string
  gs_reviewer :: string
  gs_evidence :: jsval
  gs_evidence_url :: "string option"
  gs_effective_at :: "int option"
  gs_revoked_at :: "int option"
  gs_created_at :: int
  gs_updated_at :: int

section \<open>Artifacts, offers, usage\<close>

record PhotoscanRow =
  ph_id :: string
  ph_owner_user_id :: "string option"
  ph_job_id :: "string option"
  ph_source_blob_ids :: "string list"
  ph_artifact_blob_id :: "string option"
  ph_scale_axes_ports :: jsval
  ph_refit_primitives :: jsval
  ph_candidate_component :: jsval
  ph_validator_report :: jsval
  ph_created_at :: int

record PolicyRow =
  po_id :: string
  po_owner_user_id :: "string option"
  po_job_id :: "string option"
  po_model_id :: "string option"
  po_task_kind :: string
  po_scorecard :: jsval
  po_policy_metadata :: jsval
  po_artifact_blob_id :: "string option"
  po_export_gate :: string
  po_created_at :: int

record ReplayRow =
  rp_id :: string
  rp_owner_user_id :: "string option"
  rp_model_id :: "string option"
  rp_tape :: jsval
  rp_verification :: jsval
  rp_tamper_hash :: "string option"
  rp_created_at :: int

record MaintenanceRow =
  mn_id :: string
  mn_owner_user_id :: "string option"
  mn_model_id :: "string option"
  mn_record_kind :: string
  mn_severity :: string
  mn_summary :: string
  mn_payload :: jsval

record VendorOfferRow =
  vo_id :: string
  vo_component_id :: string
  vo_vendor :: string
  vo_sku :: "string option"
  vo_url :: string
  vo_price :: "jsnum option"
  vo_currency :: "string option"
  vo_availability :: string
  vo_source :: string
  vo_provenance :: jsval
  vo_fetched_at :: int
  vo_created_at :: int

record QuoteRequestRow =
  qr_id :: string
  qr_owner_user_id :: "string option"
  qr_model_id :: "string option"
  qr_job_id :: "string option"
  qr_artifact_blob_id :: "string option"
  qr_process :: string
  qr_material :: string
  qr_profile :: jsval
  qr_quantity :: int
  qr_dfm_artifact :: jsval
  qr_status :: string
  qr_created_at :: int
  qr_updated_at :: int

record QuoteOfferRow =
  qo_id :: string
  qo_request_id :: string
  qo_provider :: string
  qo_provider_quote_id :: "string option"
  qo_quote_url :: string
  qo_price :: "jsnum option"
  qo_currency :: "string option"
  qo_lead_time_days :: "int option"
  qo_expires_at :: "string option"
  qo_terms :: jsval
  qo_created_at :: int

record RollupRow =
  ru_bucket_date :: int
  ru_listing_id :: string
  ru_listing_kind :: string
  ru_views :: int
  ru_equips :: int
  ru_quote_clicks :: int
  ru_policy_downloads :: int
  ru_training_jobs :: int
  ru_credits_spent :: jsnum

section \<open>The database\<close>

record gateway_db =
  transactional :: bool
  commit_accepted :: bool
  users :: "CurrentUser list"
  object_blobs :: "ObjectBlobRow list"
  model_registry :: "ModelRow list"
  telemetry_logs :: "TelemetryRow list"
  jobs :: "JobRow list"
  pattern_library :: "PatternRow list"
  leaderboard_runs :: "LeaderboardRow list"
  user_consent_events :: "ConsentRow list"
  consent_sequence :: nat
  legal_hold_events :: "HoldRow list"
  hold_sequence :: nat
  backup_records :: "BackupRow list"
  backup_subjects :: "BackupSubjectRow list"
  deletion_tombstones :: "TombstoneRow list"
  backup_restore_tests :: "RestoreTestRow list"
  data_lifecycle_events :: "LifecycleEventRow list"
  sessions :: "SessionRow list"
  verification_tokens :: "TokenRow list"
  generation_refusals :: "RefusalRow list"
  recorder_archive_materializations :: "MaterializationRow list"
  recorder_archive_admissions :: "AdmissionRow list"
  credit_accounts :: "CreditAccountRow list"
  credit_ledger :: "CreditLedgerRow list"
  usage_events :: "UsageRow list"
  platform_gate_signoffs :: "GateRow list"
  job_event_sequence :: nat
  share_snapshots :: "ShareRow list"
  photoscan_artifacts :: "PhotoscanRow list"
  policy_artifacts :: "PolicyRow list"
  replay_artifacts :: "ReplayRow list"
  maintenance_records :: "MaintenanceRow list"
  vendor_offers :: "VendorOfferRow list"
  print_quote_requests :: "QuoteRequestRow list"
  print_quote_offers :: "QuoteOfferRow list"
  marketplace_usage_rollups :: "RollupRow list"
  courses :: "CourseRow list"
  marketplace_listings :: "ListingRow list"
  generated_artifacts :: "GeneratedArtifactRow list"
  policy_signoffs :: "SignoffRow list"
  moderation_reports :: "ReportRow list"
  classroom_assignments :: "AssignmentRow list"
  classroom_submissions :: "SubmissionRow list"
  accounts :: "AccountRow list"

type_synonym 'a gtx = "(gateway_db, gw_error, 'a) tx"

definition empty_db :: gateway_db where
  "empty_db = \<lparr>transactional = True, commit_accepted = True, users = [], object_blobs = [],
     model_registry = [], telemetry_logs = [], jobs = [], pattern_library = [], leaderboard_runs = [],
     user_consent_events = [], consent_sequence = 1, legal_hold_events = [], hold_sequence = 1,
     backup_records = [], backup_subjects = [], deletion_tombstones = [], backup_restore_tests = [],
     data_lifecycle_events = [], sessions = [], verification_tokens = [], generation_refusals = [],
     recorder_archive_materializations = [], recorder_archive_admissions = [], credit_accounts = [],
     credit_ledger = [], usage_events = [], platform_gate_signoffs = [], job_event_sequence = 1,
     share_snapshots = [], photoscan_artifacts = [], policy_artifacts = [], replay_artifacts = [], maintenance_records = [],
     vendor_offers = [], print_quote_requests = [], print_quote_offers = [], marketplace_usage_rollups = [],
     courses = [], marketplace_listings = [], generated_artifacts = [], policy_signoffs = [], moderation_reports = [],
     classroom_assignments = [], classroom_submissions = [], accounts = []\<rparr>"

section \<open>Shared queries\<close>

text \<open>\<open>ON DELETE SET NULL\<close>: a reference to one of the deleted rows becomes null.\<close>

definition sever :: "string list \<Rightarrow> string option \<Rightarrow> string option" where
  "sever ids ref = (case ref of None \<Rightarrow> None | Some i \<Rightarrow> if i \<in> set ids then None else Some i)"

definition owned_blob :: "string \<Rightarrow> string \<Rightarrow> gateway_db \<Rightarrow> ObjectBlobRow option" where
  "owned_blob blobId userId db = find (\<lambda>r. ob_id r = blobId \<and> ob_owner_user_id r = Some userId) (object_blobs db)"

text \<open>The concatenation \<open>||\<close> of JSON documents with an object on the right.\<close>

definition json_concat :: "jsval \<Rightarrow> (string \<times> jsval) list \<Rightarrow> jsval" where
  "json_concat v kvs =
     (case v of
        JUndef \<Rightarrow> JObj kvs
      | JObj old \<Rightarrow> JObj (filter (\<lambda>kv. fst kv \<notin> fst ` set kvs) old @ kvs)
      | JArr xs \<Rightarrow> JArr (xs @ [JObj kvs])
      | _ \<Rightarrow> JArr [v, JObj kvs])"

lemma map_of_removed: "k \<in> set ks \<Longrightarrow> map_of (filter (\<lambda>kv. fst kv \<notin> set ks) kvs) k = None"
  by (induction kvs) auto

lemma getProp_json_concat:
  assumes "isRecord (json_concat v kvs)" "map_of kvs k = Some w"
  shows "getProp (json_concat v kvs) k = w"
proof (cases v)
  case (JObj old)
  have "k \<in> fst ` set kvs" using assms(2) by (auto dest: map_of_SomeD intro: rev_image_eqI)
  then have "map_of (filter (\<lambda>kv. fst kv \<notin> fst ` set kvs) old) k = None"
    using map_of_removed [of k "map fst kvs" old] by simp
  with JObj assms(2) show ?thesis by (simp add: json_concat_def map_add_def)
qed (use assms in \<open>simp_all add: json_concat_def\<close>)

lemma find_append: "find P (xs @ ys) = (case find P xs of None \<Rightarrow> find P ys | Some x \<Rightarrow> Some x)"
  by (induction xs) auto

section \<open>Transactions\<close>

definition withGatewayTransaction :: "'a gtx \<Rightarrow> 'a gtx" where
  "withGatewayTransaction operation = (\<lambda>db.
     if \<not> transactional db
     then (Inl (HttpError 503 ''database transaction support is required''), db)
     else case operation db of
            (Inl e, _) \<Rightarrow> (Inl e, db)
          | (Inr r, db') \<Rightarrow>
              (if commit_accepted db then (Inr r, db')
               else (Inl (DbError ''could not serialize access''), db)))"

lemma withGatewayTransaction_Inr [txE]:
  "withGatewayTransaction m db = (Inr r, db') \<longleftrightarrow>
     transactional db \<and> commit_accepted db \<and> m db = (Inr r, db')"
  by (auto simp: withGatewayTransaction_def split: prod.splits sum.splits)

lemma withGatewayTransaction_Inl:
  "withGatewayTransaction m db = (Inl e, db') \<Longrightarrow> db' = db"
  by (auto simp: withGatewayTransaction_def split: prod.splits sum.splits if_splits)

lemma withGatewayTransaction_live:
  "transactional db \<Longrightarrow> commit_accepted db \<Longrightarrow>
     withGatewayTransaction m db = (case m db of (Inl e, _) \<Rightarrow> (Inl e, db) | (Inr r, db') \<Rightarrow> (Inr r, db'))"
  by (auto simp: withGatewayTransaction_def split: prod.splits sum.splits)

text \<open>What a rolled-back or a committed transaction can do to the state: nothing, or what its body did.\<close>

lemma withGatewayTransaction_cases:
  assumes "withGatewayTransaction m db = (r, db')"
  shows "db' = db \<or> (\<exists>a. r = Inr a \<and> m db = (Inr a, db'))"
  using assms by (cases r) (auto simp: txE dest: withGatewayTransaction_Inl)

end
