(* ===== verification/Ledger.thy ===== *)
theory Ledger
  imports Forge_Prelude
begin

text \<open>
  The contract of an append-only event table with a sequence column, which the consent ledger and the
  legal-hold ledger both provide: an append adds one row at the end and draws the next sequence number.
  What their clients rely on is proved once here: sequence numbers stay below the counter, an appended
  row is the latest of every selection it belongs to, and it changes no selection it is not part of.
\<close>

definition seq_below :: "('r \<Rightarrow> nat) \<Rightarrow> nat \<Rightarrow> 'r list \<Rightarrow> bool" where
  "seq_below sq n rows \<longleftrightarrow> (\<forall>r \<in> set rows. sq r < n)"

lemma seq_below_Nil [simp]: "seq_below sq n []"
  by (simp add: seq_below_def)

locale event_ledger =
  fixes events :: "'db \<Rightarrow> 'r list"
    and next_seq :: "'db \<Rightarrow> nat"
    and sq :: "'r \<Rightarrow> nat"
    and append_event :: "'r \<Rightarrow> 'db \<Rightarrow> 'db"
  assumes events_append: "events (append_event r db) = events db @ [r]"
    and next_append: "next_seq (append_event r db) = Suc (next_seq db)"
begin

lemma seq_below_append:
  "seq_below sq (next_seq db) (events db) \<Longrightarrow> sq r = next_seq db \<Longrightarrow>
     seq_below sq (next_seq (append_event r db)) (events (append_event r db))"
  by (auto simp: seq_below_def events_append next_append less_SucI)

lemma latest_append_in:
  assumes "seq_below sq (next_seq db) (events db)" "sq r = next_seq db" "P r"
  shows "latest_by sq (filter P (events (append_event r db))) = Some r"
proof -
  have "\<And>q. q \<in> set (filter P (events db)) \<Longrightarrow> sq q < sq r"
    using assms(1,2) by (auto simp: seq_below_def)
  then have "latest_by sq (filter P (events db) @ [r]) = Some r" by (rule latest_by_append_max)
  with \<open>P r\<close> show ?thesis by (simp add: events_append)
qed

lemma latest_append_out:
  "\<not> P r \<Longrightarrow> latest_by sq (filter P (events (append_event r db))) = latest_by sq (filter P (events db))"
  by (simp add: events_append)

lemma latest_append:
  "seq_below sq (next_seq db) (events db) \<Longrightarrow> sq r = next_seq db \<Longrightarrow>
     latest_by sq (filter P (events (append_event r db))) =
       (if P r then Some r else latest_by sq (filter P (events db)))"
  by (simp add: latest_append_in latest_append_out)

end

end
