(* ===== verification/Legal_Holds.thy ===== *)
theory Legal_Holds
  imports Gateway_Db Ledger
begin

text \<open>
  The first part of packages/gateway/src/dataLifecycle.ts: policy constants, the legal-hold ledger and
  the lifecycle side of an account deletion (hold check, tombstones, audit event). The backup catalogue
  and the retention sweep follow in \<open>Backup_Catalogue\<close> and \<open>Retention_Sweep\<close>.

  \<open>sha\<close> is SHA-256 in hex, a parameter. \<open>now\<close> and every timestamp are milliseconds; a timestamp that
  the caller sends as text is given as the time \<open>new Date\<close> reads from it, \<open>None\<close> for an invalid one.
  \<open>fresh\<close> supplies the random identifiers of one call. Advisory locks do not change the state: they
  order transactions, which are single steps here. Where the sources sort lock keys and identifiers
  with \<open>localeCompare\<close> or in SQL, the keys are lower-case hex text under a fixed prefix and the order
  is that of the code units.
\<close>

section \<open>Policy constants\<close>

definition DATA_LIFECYCLE_FORMAT_VERSION :: string where
  "DATA_LIFECYCLE_FORMAT_VERSION = ''1.0.0''"

definition RETENTION_POLICY_VERSION :: string where
  "RETENTION_POLICY_VERSION = ''1.0.0''"

definition BACKUP_MAX_DAYS :: int where "BACKUP_MAX_DAYS = 30"
definition TOMBSTONE_DAYS :: int where "TOMBSTONE_DAYS = 45"
definition LEGAL_HOLD_MAX_DAYS :: int where "LEGAL_HOLD_MAX_DAYS = 365"
definition BACKUP_DELETE_LEASE_MINUTES :: int where "BACKUP_DELETE_LEASE_MINUTES = 15"

record RetentionPolicy =
  rp_dataClass :: string
  rp_primaryRule :: string
  rp_primaryRetentionDays :: "int option"
  rp_backupMaxDays :: int
  rp_tombstoneDays :: int
  rp_legalBasis :: string

definition RETENTION_POLICIES :: "RetentionPolicy list" where
  "RETENTION_POLICIES =
    [\<lparr>rp_dataClass = ''user-content'', rp_primaryRule = ''account-lifetime-or-owner-deletion'',
      rp_primaryRetentionDays = None, rp_backupMaxDays = BACKUP_MAX_DAYS, rp_tombstoneDays = TOMBSTONE_DAYS,
      rp_legalBasis = ''contract-or-consent-until-owner-deletion; explicit current legal hold may defer''\<rparr>,
     \<lparr>rp_dataClass = ''consent-history'', rp_primaryRule = ''account-lifetime-or-owner-deletion'',
      rp_primaryRetentionDays = None, rp_backupMaxDays = BACKUP_MAX_DAYS, rp_tombstoneDays = TOMBSTONE_DAYS,
      rp_legalBasis = ''accountability while account exists; explicit current legal hold may defer''\<rparr>,
     \<lparr>rp_dataClass = ''safety-refusal-audit'', rp_primaryRule = ''expire-after-created-at'',
      rp_primaryRetentionDays = Some 90, rp_backupMaxDays = BACKUP_MAX_DAYS, rp_tombstoneDays = TOMBSTONE_DAYS,
      rp_legalBasis = ''bounded safety and abuse prevention audit''\<rparr>,
     \<lparr>rp_dataClass = ''auth-operational'', rp_primaryRule = ''expire-after-native-expiry'',
      rp_primaryRetentionDays = Some 30, rp_backupMaxDays = BACKUP_MAX_DAYS, rp_tombstoneDays = TOMBSTONE_DAYS,
      rp_legalBasis = ''security and authentication operations''\<rparr>,
     \<lparr>rp_dataClass = ''job-operational'', rp_primaryRule = ''expire-after-terminal-at'',
      rp_primaryRetentionDays = Some 30, rp_backupMaxDays = BACKUP_MAX_DAYS, rp_tombstoneDays = TOMBSTONE_DAYS,
      rp_legalBasis = ''service operation and incident diagnosis''\<rparr>,
     \<lparr>rp_dataClass = ''lifecycle-audit'', rp_primaryRule = ''expire-after-created-at'',
      rp_primaryRetentionDays = Some 400, rp_backupMaxDays = BACKUP_MAX_DAYS, rp_tombstoneDays = TOMBSTONE_DAYS,
      rp_legalBasis = ''pseudonymous accountability evidence for deletion and restore suppression''\<rparr>]"

section \<open>Identifiers and references\<close>

fun kind_text :: "LifecycleSubjectKind \<Rightarrow> string" where
  "kind_text UserSubject = ''user''"
| "kind_text ObjectSubject = ''object''"
| "kind_text AuditSubject = ''audit''"

type_synonym sha_fun = "string \<Rightarrow> string"

definition digestLifecycleSubject ::
  "sha_fun \<Rightarrow> LifecycleSubjectKind \<Rightarrow> string \<Rightarrow> gw_error + string" where
  "digestLifecycleSubject sha kind subjectId =
     (if trim subjectId = [] then Inl (HttpError 400 ''lifecycle subject ID is required'')
      else Inr (sha (kind_text kind @ '':'' @ subjectId)))"

definition reference_char :: "char \<Rightarrow> bool" where
  "reference_char c \<longleftrightarrow> is_alnum c \<or> c \<in> set ''._:/-''"

definition boundedReference :: "string \<Rightarrow> string \<Rightarrow> nat \<Rightarrow> nat \<Rightarrow> gw_error + string" where
  "boundedReference value fld mx mn =
     (if value = [] \<or> \<not> list_all reference_char value \<or> length value < mn \<or> mx < length value
      then Inl (HttpError 400 (fld @ '' must be a bounded opaque reference''))
      else Inr value)"

definition day_ms :: int where "day_ms = 86400000"

definition addDays :: "int \<Rightarrow> int \<Rightarrow> int" where
  "addDays t days = t + days * day_ms"

definition lockLifecycleSubjectDigest :: "LifecycleSubjectKind \<Rightarrow> string \<Rightarrow> unit gtx" where
  "lockLifecycleSubjectDigest kind digest = tx_return ()"

definition lockLifecycleSubject :: "sha_fun \<Rightarrow> LifecycleSubjectKind \<Rightarrow> string \<Rightarrow> unit gtx" where
  "lockLifecycleSubject sha kind subjectId =
     tx_bind (tx_lift (digestLifecycleSubject sha kind subjectId)) (\<lambda>d. lockLifecycleSubjectDigest kind d)"

section \<open>Legal holds\<close>

record LegalHoldEvent =
  lh_id :: string
  lh_holdKey :: string
  lh_action :: HoldAction
  lh_subjectKind :: LifecycleSubjectKind
  lh_subjectDigest :: string
  lh_reasonCode :: LegalHoldReason
  lh_authorityReference :: string
  lh_jurisdiction :: string
  lh_evidenceReference :: string
  lh_expiresAt :: int
  lh_previousEventId :: "string option"
  lh_eventSequence :: string
  lh_createdAt :: int

definition mapHold :: "HoldRow \<Rightarrow> LegalHoldEvent" where
  "mapHold row =
     \<lparr>lh_id = hr_id row, lh_holdKey = hr_hold_key row, lh_action = hr_action row,
      lh_subjectKind = hr_subject_kind row, lh_subjectDigest = hr_subject_digest row,
      lh_reasonCode = hr_reason_code row, lh_authorityReference = hr_authority_reference row,
      lh_jurisdiction = hr_jurisdiction row, lh_evidenceReference = hr_evidence_reference row,
      lh_expiresAt = hr_expires_at row, lh_previousEventId = hr_previous_event_id row,
      lh_eventSequence = dec_digits (int (hr_event_sequence row)), lh_createdAt = hr_created_at row\<rparr>"

record LegalHoldInput =
  li_action :: HoldAction
  li_holdKey :: string
  li_subjectKind :: LifecycleSubjectKind
  li_subjectId :: string
  li_reasonCode :: LegalHoldReason
  li_authorityReference :: string
  li_jurisdiction :: string
  li_evidenceReference :: string
  li_expiresAt :: "int option"
  li_idempotencyKey :: string

text \<open>The column checks of the table \<open>legal_hold_events\<close> that the code's own validation does not
  imply: the key columns exclude the slash.\<close>

definition legal_hold_events_check :: "HoldRow \<Rightarrow> bool" where
  "legal_hold_events_check row \<longleftrightarrow>
     CHR ''/'' \<notin> set (hr_hold_key row) \<and> CHR ''/'' \<notin> set (hr_jurisdiction row)
     \<and> CHR ''/'' \<notin> set (hr_idempotency_key row)"

definition hold_clash :: "HoldRow \<Rightarrow> HoldRow \<Rightarrow> bool" where
  "hold_clash a b \<longleftrightarrow> hr_id a = hr_id b \<or> hr_idempotency_key a = hr_idempotency_key b"

definition insert_hold :: "HoldRow \<Rightarrow> gateway_db \<Rightarrow> gw_error + gateway_db" where
  "insert_hold row db =
     (if \<not> legal_hold_events_check row then Inl (DbError ''check constraint'')
      else bindE (insert_unique hold_clash (DbError ''unique constraint'') row (legal_hold_events db))
        (\<lambda>rows. Inr (db\<lparr>legal_hold_events := rows, hold_sequence := Suc (hold_sequence db)\<rparr>)))"

definition holds_of :: "string \<Rightarrow> LifecycleSubjectKind \<Rightarrow> string \<Rightarrow> gateway_db \<Rightarrow> HoldRow list" where
  "holds_of holdKey kind digest db =
     filter (\<lambda>r. hr_hold_key r = holdKey \<and> hr_subject_kind r = kind \<and> hr_subject_digest r = digest)
       (legal_hold_events db)"

definition recordLegalHold_body ::
  "sha_fun \<Rightarrow> string \<Rightarrow> int \<Rightarrow> LegalHoldInput \<Rightarrow> string \<Rightarrow> LegalHoldEvent gtx" where
  "recordLegalHold_body sha newId now input subjectDigest =
     tx_bind (lockLifecycleSubject sha (li_subjectKind input) (li_subjectId input)) (\<lambda>_.
     tx_bind (tx_gets (\<lambda>db. find (\<lambda>r. hr_idempotency_key r = li_idempotencyKey input) (legal_hold_events db))) (\<lambda>existing.
     case existing of
       Some row \<Rightarrow>
         (let event = mapHold row in
          if lh_action event \<noteq> li_action input \<or> lh_holdKey event \<noteq> li_holdKey input
             \<or> lh_subjectKind event \<noteq> li_subjectKind input \<or> lh_subjectDigest event \<noteq> subjectDigest
          then tx_throw (HttpError 409 ''legal-hold idempotency key was reused'')
          else tx_return event)
     | None \<Rightarrow>
         tx_bind (tx_gets (\<lambda>db. latest_by hr_event_sequence
             (holds_of (li_holdKey input) (li_subjectKind input) subjectDigest db))) (\<lambda>previous.
         if li_action input = Release \<and> (case previous of None \<Rightarrow> True | Some p \<Rightarrow> hr_action p \<noteq> Place)
         then tx_throw (HttpError 409 ''legal hold is not active'')
         else
           (let expiresAt = (if li_action input = Release then map_option hr_expires_at previous
                             else li_expiresAt input) in
            case expiresAt of
              None \<Rightarrow> tx_throw (HttpError 400 ''legal hold expiry must be in the future'')
            | Some ex \<Rightarrow>
                if ex \<le> now then tx_throw (HttpError 400 ''legal hold expiry must be in the future'')
                else if addDays now LEGAL_HOLD_MAX_DAYS < ex
                then tx_throw (HttpError 400 ''legal hold requires review within 365 days'')
                else
                  tx_bind (tx_gets (\<lambda>db.
                    \<lparr>hr_id = newId, hr_hold_key = li_holdKey input, hr_action = li_action input,
                     hr_subject_kind = li_subjectKind input, hr_subject_digest = subjectDigest,
                     hr_reason_code = li_reasonCode input,
                     hr_authority_reference = li_authorityReference input,
                     hr_jurisdiction = li_jurisdiction input,
                     hr_evidence_reference = li_evidenceReference input, hr_expires_at = ex,
                     hr_idempotency_key = li_idempotencyKey input,
                     hr_previous_event_id = map_option hr_id previous,
                     hr_event_sequence = hold_sequence db, hr_created_at = now\<rparr>)) (\<lambda>row.
                  tx_bind (tx_update (insert_hold row)) (\<lambda>_.
                  tx_return (mapHold row)))))))"

definition recordLegalHold ::
  "sha_fun \<Rightarrow> string \<Rightarrow> int \<Rightarrow> LegalHoldInput \<Rightarrow> LegalHoldEvent gtx" where
  "recordLegalHold sha newId now input =
     tx_bind (tx_lift (boundedReference (li_holdKey input) ''holdKey'' 120 3)) (\<lambda>_.
     tx_bind (tx_lift (boundedReference (li_authorityReference input) ''authorityReference'' 160 3)) (\<lambda>_.
     tx_bind (tx_lift (boundedReference (li_evidenceReference input) ''evidenceReference'' 200 3)) (\<lambda>_.
     tx_bind (tx_lift (boundedReference (li_jurisdiction input) ''jurisdiction'' 35 2)) (\<lambda>_.
     tx_bind (tx_lift (boundedReference (li_idempotencyKey input) ''idempotencyKey'' 160 3)) (\<lambda>_.
     tx_bind (tx_lift (digestLifecycleSubject sha (li_subjectKind input) (li_subjectId input))) (\<lambda>subjectDigest.
     withGatewayTransaction (recordLegalHold_body sha newId now input subjectDigest)))))))"

definition active_hold_rows :: "LifecycleSubjectKind \<Rightarrow> string \<Rightarrow> int \<Rightarrow> gateway_db \<Rightarrow> HoldRow list" where
  "active_hold_rows kind digest now db =
     sort_key hr_event_sequence
       (filter (\<lambda>r. hr_action r = Place \<and> now < hr_expires_at r)
         (distinct_on hr_hold_key hr_event_sequence
           (filter (\<lambda>r. hr_subject_kind r = kind \<and> hr_subject_digest r = digest) (legal_hold_events db))))"

definition activeLegalHolds ::
  "sha_fun \<Rightarrow> LifecycleSubjectKind \<Rightarrow> string \<Rightarrow> int \<Rightarrow> LegalHoldEvent list gtx" where
  "activeLegalHolds sha kind subjectId now =
     tx_bind (tx_lift (digestLifecycleSubject sha kind subjectId)) (\<lambda>subjectDigest.
     tx_gets (\<lambda>db. map mapHold (active_hold_rows kind subjectDigest now db)))"

text \<open>The loop that appends the holds of every object to those of the user.\<close>

definition account_holds ::
  "sha_fun \<Rightarrow> string \<Rightarrow> string list \<Rightarrow> int \<Rightarrow> LegalHoldEvent list gtx" where
  "account_holds sha userId objectIds now =
     tx_bind (activeLegalHolds sha UserSubject userId now) (\<lambda>hs.
     tx_bind (tx_mapM (\<lambda>oid. activeLegalHolds sha ObjectSubject oid now) objectIds) (\<lambda>hss.
     tx_return (hs @ concat hss)))"

section \<open>Account status and deletion\<close>

record AccountLifecycleStatus =
  as_lifecycleVersion :: string
  as_policyVersion :: string
  as_activeLegalHoldCount :: nat
  as_cataloguedBackupCount :: nat
  as_latestBackupDeleteAfter :: "int option"

definition object_id_text :: "string \<Rightarrow> string \<Rightarrow> string" where
  "object_id_text bucket objectKey = bucket @ ''/'' @ objectKey"

definition blobs_of_user :: "string \<Rightarrow> gateway_db \<Rightarrow> ObjectBlobRow list" where
  "blobs_of_user userId db =
     sort_key ob_bucket (sort_key ob_object_key
       (filter (\<lambda>bl. ob_owner_user_id bl = Some userId) (object_blobs db)))"

text \<open>The backups, not yet deleted, that list the user or one of the user's objects.\<close>

definition catalogued_backups :: "sha_fun \<Rightarrow> string \<Rightarrow> string \<Rightarrow> gateway_db \<Rightarrow> BackupRow list" where
  "catalogued_backups sha userDigest userId db =
     (let objectDigests = map (\<lambda>bl. sha (''object:'' @ ob_bucket bl @ ''/'' @ ob_object_key bl))
            (filter (\<lambda>bl. ob_owner_user_id bl = Some userId) (object_blobs db))
      in filter (\<lambda>b. br_status b \<noteq> Deleted \<and>
           list_ex (\<lambda>s. bs_backup_id s = br_id b \<and>
             ((bs_subject_kind s = UserSubject \<and> bs_subject_digest s = userDigest)
              \<or> (bs_subject_kind s = ObjectSubject \<and> bs_subject_digest s \<in> set objectDigests)))
             (backup_subjects db)) (backup_records db))"

definition max_option :: "int list \<Rightarrow> int option" where
  "max_option xs = (if xs = [] then None else Some (Max (set xs)))"

definition accountLifecycleStatus :: "sha_fun \<Rightarrow> string \<Rightarrow> int \<Rightarrow> AccountLifecycleStatus gtx" where
  "accountLifecycleStatus sha userId now =
     tx_bind (tx_gets (blobs_of_user userId)) (\<lambda>objectRows.
     tx_bind (account_holds sha userId
         (map (\<lambda>bl. object_id_text (ob_bucket bl) (ob_object_key bl)) objectRows) now) (\<lambda>holds.
     tx_bind (tx_lift (digestLifecycleSubject sha UserSubject userId)) (\<lambda>userDigest.
     tx_bind (tx_gets (catalogued_backups sha userDigest userId)) (\<lambda>backups.
     tx_return \<lparr>as_lifecycleVersion = DATA_LIFECYCLE_FORMAT_VERSION,
       as_policyVersion = RETENTION_POLICY_VERSION, as_activeLegalHoldCount = length holds,
       as_cataloguedBackupCount = length (remdups (map br_id backups)),
       as_latestBackupDeleteAfter = max_option (map br_delete_after backups)\<rparr>))))"

definition legalHoldError :: "nat \<Rightarrow> gw_error" where
  "legalHoldError holdCount =
     CodedError 423 ''LEGAL_HOLD_ACTIVE'' ''account deletion is deferred by an active legal hold''
       [(''policyVersion'', JStr RETENTION_POLICY_VERSION),
        (''activeHoldCount'', JNum (IntN (int holdCount))),
        (''reviewRequired'', JBool True)]"

fun lifecycleErrorResponse :: "gw_error \<Rightarrow> (nat \<times> (string \<times> jsval) list) option" where
  "lifecycleErrorResponse (CodedError status code message details) =
     (if code = ''LEGAL_HOLD_ACTIVE'' \<or> code = ''TOMBSTONE_RESTORE_BLOCKED''
      then Some (status, [(''error'', JStr message), (''code'', JStr code)] @ details)
      else None)"
| "lifecycleErrorResponse _ = None"

record AccountDeletionLifecycle =
  dl_deletionId :: string
  dl_userDigest :: string
  dl_tombstoneId :: string
  dl_backupDeleteAfter :: int
  dl_tombstoneExpiresAt :: int
  dl_objectTombstoneCount :: nat

record DeletionInput =
  di_userId :: string
  di_objectKeys :: "(string \<times> string) list"
  di_deletionId :: string

definition tombstone_clash :: "TombstoneRow \<Rightarrow> TombstoneRow \<Rightarrow> bool" where
  "tombstone_clash a b \<longleftrightarrow>
     ts_id a = ts_id b
     \<or> (ts_subject_kind a = ts_subject_kind b \<and> ts_subject_digest a = ts_subject_digest b)"

definition insert_tombstone :: "TombstoneRow \<Rightarrow> gateway_db \<Rightarrow> gw_error + gateway_db" where
  "insert_tombstone t db =
     bindE (insert_unique tombstone_clash (DbError ''unique constraint'') t (deletion_tombstones db))
       (\<lambda>rows. Inr (db\<lparr>deletion_tombstones := rows\<rparr>))"

definition insert_lifecycle_event :: "LifecycleEventRow \<Rightarrow> gateway_db \<Rightarrow> gw_error + gateway_db" where
  "insert_lifecycle_event ev db =
     bindE (insert_unique (\<lambda>a b. le_id a = le_id b) (DbError ''unique constraint'') ev (data_lifecycle_events db))
       (\<lambda>rows. Inr (db\<lparr>data_lifecycle_events := rows\<rparr>))"

definition mk_tombstone ::
  "string \<Rightarrow> string \<Rightarrow> LifecycleSubjectKind \<Rightarrow> string \<Rightarrow> int \<Rightarrow> TombstoneRow" where
  "mk_tombstone newId deletionId kind digest now =
     \<lparr>ts_id = newId, ts_deletion_id = deletionId, ts_subject_kind = kind, ts_subject_digest = digest,
      ts_primary_deleted_at = now, ts_backup_delete_after = addDays now BACKUP_MAX_DAYS,
      ts_tombstone_expires_at = addDays now TOMBSTONE_DAYS, ts_backup_deleted_at = None\<rparr>"

text \<open>\<open>fresh 0\<close> names the user's tombstone, \<open>fresh 1\<close> the audit event and \<open>fresh (i + 2)\<close> the tombstone
  of the \<open>i\<close>-th object.\<close>

definition insert_object_tombstones ::
  "sha_fun \<Rightarrow> (nat \<Rightarrow> string) \<Rightarrow> int \<Rightarrow> DeletionInput \<Rightarrow> unit gtx" where
  "insert_object_tombstones sha fresh now input =
     tx_forM (zip [0..<length (di_objectKeys input)] (di_objectKeys input)) (\<lambda>(i, bucket, objectKey).
       tx_bind (tx_lift (digestLifecycleSubject sha ObjectSubject (object_id_text bucket objectKey))) (\<lambda>d.
       tx_update (insert_tombstone (mk_tombstone (fresh (i + 2)) (di_deletionId input) ObjectSubject d now))))"

definition deletion_writes ::
  "sha_fun \<Rightarrow> (nat \<Rightarrow> string) \<Rightarrow> int \<Rightarrow> DeletionInput \<Rightarrow> AccountDeletionLifecycle gtx" where
  "deletion_writes sha fresh now input =
     tx_bind (tx_lift (digestLifecycleSubject sha UserSubject (di_userId input))) (\<lambda>userDigest.
     tx_bind (tx_update (insert_tombstone
         (mk_tombstone (fresh 0) (di_deletionId input) UserSubject userDigest now))) (\<lambda>_.
     tx_bind (insert_object_tombstones sha fresh now input) (\<lambda>_.
     tx_bind (tx_update (insert_lifecycle_event
         \<lparr>le_id = fresh 1, le_event_type = ''deletion-primary-complete'', le_subject_kind = Some ''user'',
          le_subject_digest = Some userDigest, le_actor_kind = ''owner'',
          le_reason_code = ''owner-account-deletion'', le_evidence_reference = Some (di_deletionId input),
          le_details = JObj [(''objectTombstoneCount'', JNum (IntN (int (length (di_objectKeys input)))))],
          le_created_at = now\<rparr>)) (\<lambda>_.
     tx_return \<lparr>dl_deletionId = di_deletionId input, dl_userDigest = userDigest, dl_tombstoneId = fresh 0,
       dl_backupDeleteAfter = addDays now BACKUP_MAX_DAYS,
       dl_tombstoneExpiresAt = addDays now TOMBSTONE_DAYS,
       dl_objectTombstoneCount = length (di_objectKeys input)\<rparr>))))"

definition prepareAccountDeletionLifecycle ::
  "sha_fun \<Rightarrow> (nat \<Rightarrow> string) \<Rightarrow> int \<Rightarrow> DeletionInput \<Rightarrow> AccountDeletionLifecycle gtx" where
  "prepareAccountDeletionLifecycle sha fresh now input =
     (let objectIds = sort (js_unique (map (\<lambda>(bucket, objectKey). object_id_text bucket objectKey) (di_objectKeys input)))
      in
      tx_bind (tx_lift (mapE (\<lambda>(kind, sid). bindE (digestLifecycleSubject sha kind sid)
          (\<lambda>d. Inr (kind_text kind @ '':'' @ d, kind, sid)))
          ((UserSubject, di_userId input) # map (\<lambda>sid. (ObjectSubject, sid)) objectIds))) (\<lambda>subjects.
      tx_bind (tx_forM (sort_key fst subjects) (\<lambda>(_, kind, sid). lockLifecycleSubject sha kind sid)) (\<lambda>_.
      tx_bind (account_holds sha (di_userId input) objectIds now) (\<lambda>holds.
      if holds \<noteq> [] then tx_throw (legalHoldError (length holds))
      else deletion_writes sha fresh now input))))"

definition recordLegalHoldBlockedDeletion :: "sha_fun \<Rightarrow> string \<Rightarrow> string \<Rightarrow> int \<Rightarrow> unit gtx" where
  "recordLegalHoldBlockedDeletion sha newId userId now =
     tx_bind (tx_lift (digestLifecycleSubject sha UserSubject userId)) (\<lambda>d.
     tx_update (insert_lifecycle_event
       \<lparr>le_id = newId, le_event_type = ''legal-hold-blocked'', le_subject_kind = Some ''user'',
        le_subject_digest = Some d, le_actor_kind = ''owner'', le_reason_code = ''active-legal-hold'',
        le_evidence_reference = None, le_details = JObj [], le_created_at = now\<rparr>))"

section \<open>The hold ledger as an event ledger\<close>

definition append_hold :: "HoldRow \<Rightarrow> gateway_db \<Rightarrow> gateway_db" where
  "append_hold row db =
     db\<lparr>legal_hold_events := legal_hold_events db @ [row], hold_sequence := Suc (hold_sequence db)\<rparr>"

interpretation hold_ledger: event_ledger legal_hold_events hold_sequence hr_event_sequence append_hold
  by unfold_locales (simp_all add: append_hold_def)

definition hold_row_ok :: "HoldRow \<Rightarrow> bool" where
  "hold_row_ok r \<longleftrightarrow>
     hr_created_at r < hr_expires_at r \<and> hr_expires_at r \<le> addDays (hr_created_at r) LEGAL_HOLD_MAX_DAYS"

text \<open>The invariant of the ledger: sequence numbers below the counter, one row per idempotency key,
  and every event's expiry after its creation and within the review period.\<close>

definition hold_inv :: "gateway_db \<Rightarrow> bool" where
  "hold_inv db \<longleftrightarrow>
     seq_below hr_event_sequence (hold_sequence db) (legal_hold_events db)
     \<and> distinct (map hr_idempotency_key (legal_hold_events db))
     \<and> (\<forall>r \<in> set (legal_hold_events db). hold_row_ok r)"

lemma digest_Inr [resE]:
  "digestLifecycleSubject sha kind sid = Inr d \<longleftrightarrow> trim sid \<noteq> [] \<and> d = sha (kind_text kind @ '':'' @ sid)"
  by (auto simp: digestLifecycleSubject_def)

lemma lock_run [simp]:
  "lockLifecycleSubjectDigest kind d db = (Inr (), db)"
  by (simp add: lockLifecycleSubjectDigest_def)

lemma lock_Inr [txE]:
  "lockLifecycleSubject sha kind sid db = (Inr u, db') \<longleftrightarrow> trim sid \<noteq> [] \<and> db' = db"
  by (auto simp: lockLifecycleSubject_def txE resE)

lemma insert_hold_Inr [resE]:
  "insert_hold row db = Inr db' \<longleftrightarrow>
     legal_hold_events_check row \<and> (\<forall>q \<in> set (legal_hold_events db). \<not> hold_clash row q)
     \<and> db' = append_hold row db"
  by (auto simp: insert_hold_def append_hold_def resE)

text \<open>What a successful call did: returned the event already stored under the key, or appended one.\<close>

definition hold_replayed ::
  "LegalHoldInput \<Rightarrow> string \<Rightarrow> LegalHoldEvent \<Rightarrow> gateway_db \<Rightarrow> gateway_db \<Rightarrow> bool" where
  "hold_replayed input d ev db db' \<longleftrightarrow>
     db' = db \<and> (\<exists>row \<in> set (legal_hold_events db).
       hr_idempotency_key row = li_idempotencyKey input \<and> ev = mapHold row
       \<and> hr_action row = li_action input \<and> hr_hold_key row = li_holdKey input
       \<and> hr_subject_kind row = li_subjectKind input \<and> hr_subject_digest row = d)"

definition hold_appended ::
  "string \<Rightarrow> int \<Rightarrow> LegalHoldInput \<Rightarrow> string \<Rightarrow> LegalHoldEvent \<Rightarrow> gateway_db \<Rightarrow> gateway_db \<Rightarrow> bool" where
  "hold_appended newId now input d ev db db' \<longleftrightarrow>
     (\<exists>row previous.
       db' = append_hold row db \<and> ev = mapHold row
       \<and> (\<forall>q \<in> set (legal_hold_events db). \<not> hold_clash row q)
       \<and> previous = latest_by hr_event_sequence (holds_of (li_holdKey input) (li_subjectKind input) d db)
       \<and> (li_action input = Release \<longrightarrow> (\<exists>p. previous = Some p \<and> hr_action p = Place))
       \<and> hr_id row = newId \<and> hr_hold_key row = li_holdKey input \<and> hr_action row = li_action input
       \<and> hr_subject_kind row = li_subjectKind input \<and> hr_subject_digest row = d
       \<and> hr_idempotency_key row = li_idempotencyKey input
       \<and> hr_previous_event_id row = map_option hr_id previous
       \<and> hr_event_sequence row = hold_sequence db \<and> hr_created_at row = now \<and> hold_row_ok row)"

lemma recordLegalHold_body_Inr:
  assumes "recordLegalHold_body sha newId now input d db = (Inr ev, db')"
  shows "hold_replayed input d ev db db' \<or> hold_appended newId now input d ev db db'"
proof (cases "find (\<lambda>r. hr_idempotency_key r = li_idempotencyKey input) (legal_hold_events db)")
  case (Some row)
  with assms have "hold_replayed input d ev db db'"
    by (auto simp: recordLegalHold_body_def txE hold_replayed_def mapHold_def Let_def
        split: if_splits dest: find_SomeD)
  then show ?thesis ..
next
  case None
  with assms have "hold_appended newId now input d ev db db'"
    by (auto simp: recordLegalHold_body_def txE resE hold_appended_def hold_row_ok_def Let_def
        split: if_splits option.splits)
  then show ?thesis ..
qed

lemma recordLegalHold_Inr:
  assumes "recordLegalHold sha newId now input db = (Inr ev, db')"
  obtains d where "digestLifecycleSubject sha (li_subjectKind input) (li_subjectId input) = Inr d"
    and "hold_replayed input d ev db db' \<or> hold_appended newId now input d ev db db'"
proof -
  from assms obtain d where
    d: "digestLifecycleSubject sha (li_subjectKind input) (li_subjectId input) = Inr d"
    and body: "recordLegalHold_body sha newId now input d db = (Inr ev, db')"
    unfolding recordLegalHold_def txE by auto
  from recordLegalHold_body_Inr [OF body] d that show ?thesis by blast
qed

section \<open>Properties of the hold ledger\<close>

lemma hold_appended_inv:
  assumes "hold_inv db" and "hold_appended newId now input d ev db db'"
  shows "hold_inv db'"
proof -
  from assms(2) obtain row where db': "db' = append_hold row db"
    and fresh: "\<forall>q \<in> set (legal_hold_events db). \<not> hold_clash row q"
    and sq: "hr_event_sequence row = hold_sequence db" and ok: "hold_row_ok row"
    by (auto simp: hold_appended_def)
  from assms(1) sq have "seq_below hr_event_sequence (hold_sequence db') (legal_hold_events db')"
    unfolding db' by (intro hold_ledger.seq_below_append) (simp_all add: hold_inv_def)
  moreover have "distinct (map hr_idempotency_key (legal_hold_events db'))"
    using assms(1) fresh by (auto simp: db' hold_inv_def hold_ledger.events_append hold_clash_def)
  moreover have "\<forall>r \<in> set (legal_hold_events db'). hold_row_ok r"
    using assms(1) ok by (auto simp: db' hold_inv_def hold_ledger.events_append)
  ultimately show ?thesis by (simp add: hold_inv_def)
qed

text \<open>An error of the hold operation leaves the database as it was.\<close>

lemma recordLegalHold_Inl: "recordLegalHold sha newId now input db = (Inl e, db') \<Longrightarrow> db' = db"
  unfolding recordLegalHold_def
  by (auto simp: tx_bind_def split: sum.splits prod.splits dest: withGatewayTransaction_Inl)

lemma recordLegalHold_inv:
  assumes "hold_inv db" and "recordLegalHold sha newId now input db = (r, db')"
  shows "hold_inv db'"
proof (cases r)
  case (Inl e)
  with assms recordLegalHold_Inl show ?thesis by blast
next
  case (Inr ev)
  with assms(2) have "recordLegalHold sha newId now input db = (Inr ev, db')" by simp
  then show ?thesis
    by (rule recordLegalHold_Inr)
      (use assms(1) hold_appended_inv in \<open>auto simp: hold_replayed_def\<close>)
qed

text \<open>Which holds are active: the latest event of the hold key places it and has not expired.\<close>

lemma active_hold_rows_iff:
  "r \<in> set (active_hold_rows kind d now db) \<longleftrightarrow>
     hr_action r = Place \<and> now < hr_expires_at r \<and> hr_subject_kind r = kind \<and> hr_subject_digest r = d
     \<and> latest_by hr_event_sequence (holds_of (hr_hold_key r) kind d db) = Some r"
proof -
  have sel: "filter (\<lambda>q. hr_subject_kind q = kind \<and> hr_subject_digest q = d \<and> hr_hold_key q = hr_hold_key r)
      (legal_hold_events db) = holds_of (hr_hold_key r) kind d db"
    unfolding holds_of_def by (rule filter_cong) auto
  have mem: "latest_by hr_event_sequence (holds_of (hr_hold_key r) kind d db) = Some r \<Longrightarrow>
      hr_subject_kind r = kind \<and> hr_subject_digest r = d"
    by (drule latest_by_in) (simp add: holds_of_def)
  show ?thesis
    using mem by (auto simp: active_hold_rows_def distinct_on_iff sel)
qed

lemma activeLegalHolds_run:
  "activeLegalHolds sha kind sid now db =
     (if trim sid = [] then (Inl (HttpError 400 ''lifecycle subject ID is required''), db)
      else (Inr (map mapHold (active_hold_rows kind (sha (kind_text kind @ '':'' @ sid)) now db)), db))"
  by (simp add: activeLegalHolds_def digestLifecycleSubject_def)

lemma holds_of_append:
  "hold_inv db \<Longrightarrow> hr_event_sequence row = hold_sequence db \<Longrightarrow>
     latest_by hr_event_sequence (holds_of k kind d (append_hold row db)) =
       (if hr_hold_key row = k \<and> hr_subject_kind row = kind \<and> hr_subject_digest row = d then Some row
        else latest_by hr_event_sequence (holds_of k kind d db))"
  unfolding holds_of_def by (subst hold_ledger.latest_append) (simp_all add: hold_inv_def)

lemma hold_appended_latest:
  assumes "hold_inv db" and "hold_appended newId now input d ev db db'"
  obtains row where "ev = mapHold row" and "hr_action row = li_action input" and
    "latest_by hr_event_sequence (holds_of (li_holdKey input) (li_subjectKind input) d db') = Some row"
proof -
  from assms(2) obtain row where "db' = append_hold row db" "ev = mapHold row"
    "hr_hold_key row = li_holdKey input" "hr_action row = li_action input"
    "hr_subject_kind row = li_subjectKind input" "hr_subject_digest row = d"
    "hr_event_sequence row = hold_sequence db"
    by (auto simp: hold_appended_def)
  with that [of row] holds_of_append [OF assms(1)] show ?thesis by simp
qed

text \<open>A key that is not in use rules out the replay branch.\<close>

lemma fresh_key_appends:
  "hold_replayed input d ev db db' \<or> hold_appended newId now input d ev db db' \<Longrightarrow>
     li_idempotencyKey input \<notin> hr_idempotency_key ` set (legal_hold_events db) \<Longrightarrow>
     hold_appended newId now input d ev db db'"
  by (auto simp: hold_replayed_def) (metis imageI)

lemma placed_hold_is_active:
  assumes "hold_inv db" and "recordLegalHold sha newId now input db = (Inr ev, db')"
    and "li_action input = Place"
    and "li_idempotencyKey input \<notin> hr_idempotency_key ` set (legal_hold_events db)"
    and "t < lh_expiresAt ev"
  shows "\<exists>hs. activeLegalHolds sha (li_subjectKind input) (li_subjectId input) t db' = (Inr hs, db')
           \<and> ev \<in> set hs"
proof -
  from assms(2) obtain d where
    d: "digestLifecycleSubject sha (li_subjectKind input) (li_subjectId input) = Inr d"
    and out: "hold_replayed input d ev db db' \<or> hold_appended newId now input d ev db db'"
    by (rule recordLegalHold_Inr)
  from fresh_key_appends [OF out assms(4)] have app: "hold_appended newId now input d ev db db'" .
  obtain row where row: "ev = mapHold row" "hr_action row = li_action input"
    "latest_by hr_event_sequence (holds_of (li_holdKey input) (li_subjectKind input) d db') = Some row"
    by (rule hold_appended_latest [OF assms(1) app])
  from row(3) have "hr_hold_key row = li_holdKey input" "hr_subject_kind row = li_subjectKind input"
    "hr_subject_digest row = d"
    by (auto dest!: latest_by_in simp: holds_of_def)
  with row assms(3,5) have "row \<in> set (active_hold_rows (li_subjectKind input) d t db')"
    by (simp add: active_hold_rows_iff mapHold_def)
  with d row(1) show ?thesis by (auto simp: activeLegalHolds_run resE)
qed

lemma released_hold_is_inactive:
  assumes "hold_inv db" and "recordLegalHold sha newId now input db = (Inr ev, db')"
    and "li_action input = Release"
    and "li_idempotencyKey input \<notin> hr_idempotency_key ` set (legal_hold_events db)"
    and "activeLegalHolds sha (li_subjectKind input) (li_subjectId input) t db' = (Inr hs, db'')"
    and "h \<in> set hs"
  shows "lh_holdKey h \<noteq> li_holdKey input"
proof
  assume key: "lh_holdKey h = li_holdKey input"
  from assms(2) obtain d where
    d: "digestLifecycleSubject sha (li_subjectKind input) (li_subjectId input) = Inr d"
    and out: "hold_replayed input d ev db db' \<or> hold_appended newId now input d ev db db'"
    by (rule recordLegalHold_Inr)
  from fresh_key_appends [OF out assms(4)] have app: "hold_appended newId now input d ev db db'" .
  obtain row where row: "hr_action row = li_action input"
    "latest_by hr_event_sequence (holds_of (li_holdKey input) (li_subjectKind input) d db') = Some row"
    by (rule hold_appended_latest [OF assms(1) app])
  from assms(5,6) d obtain q where "h = mapHold q" "q \<in> set (active_hold_rows (li_subjectKind input) d t db')"
    by (auto simp: activeLegalHolds_run resE split: if_splits)
  with key row assms(3) show False by (auto simp: active_hold_rows_iff mapHold_def)
qed

text \<open>Retrying a recorded request returns the stored event and writes nothing.\<close>

lemma hold_stored:
  assumes "hold_replayed input d ev db db' \<or> hold_appended newId now input d ev db db'"
  obtains row where "row \<in> set (legal_hold_events db')" "ev = mapHold row"
    "hr_idempotency_key row = li_idempotencyKey input" "hr_action row = li_action input"
    "hr_hold_key row = li_holdKey input" "hr_subject_kind row = li_subjectKind input"
    "hr_subject_digest row = d"
  using assms
proof
  assume "hold_replayed input d ev db db'"
  with that show ?thesis by (auto simp: hold_replayed_def)
next
  assume "hold_appended newId now input d ev db db'"
  then obtain row where "db' = append_hold row db" "ev = mapHold row"
    "hr_idempotency_key row = li_idempotencyKey input" "hr_action row = li_action input"
    "hr_hold_key row = li_holdKey input" "hr_subject_kind row = li_subjectKind input"
    "hr_subject_digest row = d"
    by (auto simp: hold_appended_def)
  with that [of row] show ?thesis by (simp add: hold_ledger.events_append)
qed

lemma find_key_distinct:
  "distinct (map f xs) \<Longrightarrow> x \<in> set xs \<Longrightarrow> f x = k \<Longrightarrow> find (\<lambda>y. f y = k) xs = Some x"
  by (induction xs) auto

lemma recordLegalHold_replay:
  assumes "hold_inv db" and "recordLegalHold sha newId now input db = (Inr ev, db')"
    and "transactional db'" and "commit_accepted db'"
  shows "recordLegalHold sha newId' now' input db' = (Inr ev, db')"
proof -
  from assms(2) obtain d where
    d: "digestLifecycleSubject sha (li_subjectKind input) (li_subjectId input) = Inr d"
    and out: "hold_replayed input d ev db db' \<or> hold_appended newId now input d ev db db'"
    by (rule recordLegalHold_Inr)
  from assms(2) have refs:
    "\<exists>a. boundedReference (li_holdKey input) ''holdKey'' 120 3 = Inr a"
    "\<exists>a. boundedReference (li_authorityReference input) ''authorityReference'' 160 3 = Inr a"
    "\<exists>a. boundedReference (li_evidenceReference input) ''evidenceReference'' 200 3 = Inr a"
    "\<exists>a. boundedReference (li_jurisdiction input) ''jurisdiction'' 35 2 = Inr a"
    "\<exists>a. boundedReference (li_idempotencyKey input) ''idempotencyKey'' 160 3 = Inr a"
    unfolding recordLegalHold_def txE by blast+
  have inv': "hold_inv db'" using assms(1,2) by (rule recordLegalHold_inv)
  from out obtain row where row: "row \<in> set (legal_hold_events db')" "ev = mapHold row"
    "hr_idempotency_key row = li_idempotencyKey input" "hr_action row = li_action input"
    "hr_hold_key row = li_holdKey input" "hr_subject_kind row = li_subjectKind input"
    "hr_subject_digest row = d"
    by (rule hold_stored)
  have "find (\<lambda>r. hr_idempotency_key r = li_idempotencyKey input) (legal_hold_events db') = Some row"
    using inv' row(1,3) by (intro find_key_distinct) (simp_all add: hold_inv_def)
  then have "recordLegalHold_body sha newId' now' input d db' = (Inr ev, db')"
    using d row by (auto simp: recordLegalHold_body_def tx_bind_run lockLifecycleSubject_def mapHold_def Let_def)
  with refs d assms(3,4) show ?thesis
    by (auto simp: recordLegalHold_def withGatewayTransaction_def)
qed

section \<open>Properties of account deletion\<close>

lemma activeLegalHolds_state: "snd (activeLegalHolds sha kind sid now db) = db"
  by (simp add: activeLegalHolds_run)

lemma mapM_active_run:
  "\<forall>sid \<in> set sids. trim sid \<noteq> [] \<Longrightarrow>
     tx_mapM (\<lambda>sid. activeLegalHolds sha kind sid now) sids db =
       (Inr (map (\<lambda>sid. map mapHold (active_hold_rows kind (sha (kind_text kind @ '':'' @ sid)) now db)) sids), db)"
  by (induction sids) (simp_all add: tx_bind_run activeLegalHolds_run)

definition account_hold_rows :: "sha_fun \<Rightarrow> string \<Rightarrow> string list \<Rightarrow> int \<Rightarrow> gateway_db \<Rightarrow> HoldRow list" where
  "account_hold_rows sha userId objectIds now db =
     active_hold_rows UserSubject (sha (''user:'' @ userId)) now db
     @ concat (map (\<lambda>oid. active_hold_rows ObjectSubject (sha (''object:'' @ oid)) now db) objectIds)"

lemma account_holds_run:
  "trim userId \<noteq> [] \<Longrightarrow> \<forall>oid \<in> set objectIds. trim oid \<noteq> [] \<Longrightarrow>
     account_holds sha userId objectIds now db =
       (Inr (map mapHold (account_hold_rows sha userId objectIds now db)), db)"
  by (simp add: account_holds_def tx_bind_run activeLegalHolds_run mapM_active_run account_hold_rows_def
      map_concat comp_def)

lemma forM_lock_run:
  "\<forall>x \<in> set xs. trim (snd (snd x)) \<noteq> [] \<Longrightarrow>
     tx_forM xs (\<lambda>(_, kind, sid). lockLifecycleSubject sha kind sid) db = (Inr (), db)"
  by (induction xs) (auto simp: tx_bind_run lockLifecycleSubject_def digestLifecycleSubject_def)

lemma mapE_all_ok: "(\<And>x. x \<in> set xs \<Longrightarrow> f x = Inr (g x)) \<Longrightarrow> mapE f xs = Inr (map g xs)"
  by (induction xs) simp_all

definition deletion_ids :: "DeletionInput \<Rightarrow> string list" where
  "deletion_ids input =
     sort (js_unique (map (\<lambda>(bucket, objectKey). object_id_text bucket objectKey) (di_objectKeys input)))"

definition deletion_subjects :: "sha_fun \<Rightarrow> DeletionInput \<Rightarrow> (LifecycleSubjectKind \<times> string) list" where
  "deletion_subjects sha input =
     (UserSubject, sha (''user:'' @ di_userId input))
     # map (\<lambda>(b, k). (ObjectSubject, sha (''object:'' @ object_id_text b k))) (di_objectKeys input)"

lemma object_id_not_blank [simp]: "trim (object_id_text b k) \<noteq> []"
  by (simp add: trim_Nil_iff object_id_text_def is_space_def)

lemma deletion_ids_not_blank: "oid \<in> set (deletion_ids input) \<Longrightarrow> trim oid \<noteq> []"
  by (auto simp: deletion_ids_def)

lemma deletion_locks_run:
  assumes "trim (di_userId input) \<noteq> []"
  shows "\<exists>subjects. mapE (\<lambda>(kind, sid). bindE (digestLifecycleSubject sha kind sid)
        (\<lambda>d. Inr (kind_text kind @ '':'' @ d, kind, sid)))
        ((UserSubject, di_userId input) # map (\<lambda>sid. (ObjectSubject, sid)) (deletion_ids input)) = Inr subjects
      \<and> tx_forM (sort_key fst subjects) (\<lambda>(_, kind, sid). lockLifecycleSubject sha kind sid) db = (Inr (), db)"
proof -
  let ?xs = "(UserSubject, di_userId input) # map (\<lambda>sid. (ObjectSubject, sid)) (deletion_ids input)"
  let ?g = "\<lambda>(kind, sid). (kind_text kind @ '':'' @ sha (kind_text kind @ '':'' @ sid), kind, sid)"
  have "mapE (\<lambda>(kind, sid). bindE (digestLifecycleSubject sha kind sid)
      (\<lambda>d. Inr (kind_text kind @ '':'' @ d, kind, sid))) ?xs = Inr (map ?g ?xs)"
    using assms deletion_ids_not_blank by (intro mapE_all_ok) (auto simp: digestLifecycleSubject_def)
  moreover have "tx_forM (sort_key fst (map ?g ?xs)) (\<lambda>(_, kind, sid). lockLifecycleSubject sha kind sid) db = (Inr (), db)"
    using assms deletion_ids_not_blank by (intro forM_lock_run, unfold set_sort) auto
  ultimately show ?thesis by blast
qed

text \<open>Until the hold check, the preparation of a deletion only reads.\<close>

lemma deletion_hold_check:
  assumes "trim (di_userId input) \<noteq> []"
  shows "prepareAccountDeletionLifecycle sha fresh now input db =
     (let rows = account_hold_rows sha (di_userId input) (deletion_ids input) now db in
      if rows \<noteq> [] then (Inl (legalHoldError (length rows)), db)
      else deletion_writes sha fresh now input db)"
proof -
  obtain subjects where
    1: "mapE (\<lambda>(kind, sid). bindE (digestLifecycleSubject sha kind sid)
        (\<lambda>d. Inr (kind_text kind @ '':'' @ d, kind, sid)))
        ((UserSubject, di_userId input) # map (\<lambda>sid. (ObjectSubject, sid)) (deletion_ids input)) = Inr subjects"
    and 2: "tx_forM (sort_key fst subjects) (\<lambda>(_, kind, sid). lockLifecycleSubject sha kind sid) db = (Inr (), db)"
    using deletion_locks_run [OF assms] by blast
  have 3: "account_holds sha (di_userId input) (deletion_ids input) now db =
      (Inr (map mapHold (account_hold_rows sha (di_userId input) (deletion_ids input) now db)), db)"
    using assms deletion_ids_not_blank by (intro account_holds_run) auto
  show ?thesis
    unfolding prepareAccountDeletionLifecycle_def Let_def deletion_ids_def [symmetric]
    by (simp only: 1 tx_bind_simps) (simp add: tx_bind_run 2 3)
qed

lemma insert_tombstone_Inr [resE]:
  "insert_tombstone t db = Inr db' \<longleftrightarrow>
     (\<forall>q \<in> set (deletion_tombstones db). \<not> tombstone_clash t q)
     \<and> db' = db\<lparr>deletion_tombstones := deletion_tombstones db @ [t]\<rparr>"
  by (auto simp: insert_tombstone_def resE)

lemma insert_lifecycle_event_Inr [resE]:
  "insert_lifecycle_event ev db = Inr db' \<longleftrightarrow>
     (\<forall>q \<in> set (data_lifecycle_events db). le_id ev \<noteq> le_id q)
     \<and> db' = db\<lparr>data_lifecycle_events := data_lifecycle_events db @ [ev]\<rparr>"
  by (auto simp: insert_lifecycle_event_def resE)

definition subject_of :: "TombstoneRow \<Rightarrow> LifecycleSubjectKind \<times> string" where
  "subject_of t = (ts_subject_kind t, ts_subject_digest t)"

lemma forM_insert_tombstones:
  assumes "tx_forM xs (\<lambda>x. tx_update (insert_tombstone (f x))) db = (Inr u, db')"
  shows "db' = db\<lparr>deletion_tombstones := deletion_tombstones db @ map f xs\<rparr>"
  using assms
proof (induction xs arbitrary: db)
  case Nil
  then show ?case by simp
next
  case (Cons x xs)
  from Cons.prems have
    "tx_forM xs (\<lambda>x. tx_update (insert_tombstone (f x)))
       (db\<lparr>deletion_tombstones := deletion_tombstones db @ [f x]\<rparr>) = (Inr u, db')"
    by (auto simp: txE resE)
  from Cons.IH [OF this] show ?case by simp
qed

lemma insert_object_tombstones_Inr:
  assumes "insert_object_tombstones sha fresh now input db = (Inr u, db')"
  obtains ts where "db' = db\<lparr>deletion_tombstones := deletion_tombstones db @ ts\<rparr>"
    and "map subject_of ts = map (\<lambda>(b, k). (ObjectSubject, sha (''object:'' @ object_id_text b k))) (di_objectKeys input)"
    and "\<forall>t \<in> set ts. \<exists>newId kind d. t = mk_tombstone newId (di_deletionId input) kind d now"
proof -
  let ?f = "\<lambda>(i, b, k). mk_tombstone (fresh (i + 2)) (di_deletionId input) ObjectSubject
              (sha (''object:'' @ object_id_text b k)) now"
  let ?xs = "zip [0..<length (di_objectKeys input)] (di_objectKeys input)"
  have "insert_object_tombstones sha fresh now input = tx_forM ?xs (\<lambda>x. tx_update (insert_tombstone (?f x)))"
    unfolding insert_object_tombstones_def
    by (rule arg_cong [where f = "tx_forM _"])
      (auto simp: fun_eq_iff digestLifecycleSubject_def)
  with assms have "db' = db\<lparr>deletion_tombstones := deletion_tombstones db @ map ?f ?xs\<rparr>"
    by (simp add: forM_insert_tombstones)
  moreover have "map subject_of (map ?f ?xs) =
      map (\<lambda>(b, k). (ObjectSubject, sha (''object:'' @ object_id_text b k))) (di_objectKeys input)"
    by (rule nth_equalityI) (auto simp: subject_of_def mk_tombstone_def split: prod.splits)
  moreover have "\<forall>t \<in> set (map ?f ?xs). \<exists>newId kind d. t = mk_tombstone newId (di_deletionId input) kind d now"
    by (auto split: prod.splits)
  ultimately show ?thesis by (rule that)
qed

text \<open>A deletion that goes through found no active hold and wrote one tombstone per subject.\<close>

lemma prepareAccountDeletion_Inr:
  assumes "prepareAccountDeletionLifecycle sha fresh now input db = (Inr r, db')"
  obtains ts ev where
    "db' = db\<lparr>deletion_tombstones := deletion_tombstones db @ ts,
              data_lifecycle_events := data_lifecycle_events db @ [ev]\<rparr>"
    and "map subject_of ts = deletion_subjects sha input"
    and "\<forall>t \<in> set ts. \<exists>newId kind d. t = mk_tombstone newId (di_deletionId input) kind d now"
    and "account_hold_rows sha (di_userId input) (deletion_ids input) now db = []"
    and "trim (di_userId input) \<noteq> []"
proof -
  from assms have user: "trim (di_userId input) \<noteq> []"
    unfolding prepareAccountDeletionLifecycle_def Let_def txE by (auto simp: resE)
  from assms deletion_hold_check [OF user, of sha fresh now db]
  have none: "account_hold_rows sha (di_userId input) (deletion_ids input) now db = []"
    and wr: "deletion_writes sha fresh now input db = (Inr r, db')"
    by (auto simp: Let_def split: if_splits)
  let ?t = "mk_tombstone (fresh 0) (di_deletionId input) UserSubject (sha (''user:'' @ di_userId input)) now"
  from wr obtain u mid ev where
    objs: "insert_object_tombstones sha fresh now input
      (db\<lparr>deletion_tombstones := deletion_tombstones db @ [?t]\<rparr>) = (Inr u, mid)"
    and db': "db' = mid\<lparr>data_lifecycle_events := data_lifecycle_events mid @ [ev]\<rparr>"
    unfolding deletion_writes_def txE resE by auto
  obtain ts where ts: "mid = db\<lparr>deletion_tombstones := (deletion_tombstones db @ [?t]) @ ts\<rparr>"
    "map subject_of ts = map (\<lambda>(b, k). (ObjectSubject, sha (''object:'' @ object_id_text b k))) (di_objectKeys input)"
    "\<forall>t \<in> set ts. \<exists>newId kind d. t = mk_tombstone newId (di_deletionId input) kind d now"
    using objs by (rule insert_object_tombstones_Inr) simp
  show ?thesis
  proof (rule that)
    show "db' = db\<lparr>deletion_tombstones := deletion_tombstones db @ (?t # ts),
              data_lifecycle_events := data_lifecycle_events db @ [ev]\<rparr>"
      using db' ts(1) by simp
    show "map subject_of (?t # ts) = deletion_subjects sha input"
      using ts(2) by (simp add: deletion_subjects_def subject_of_def mk_tombstone_def)
    show "\<forall>t \<in> set (?t # ts). \<exists>newId kind d. t = mk_tombstone newId (di_deletionId input) kind d now"
      using ts(3) by auto
  qed (fact none user)+
qed

end
