(* ===== verification/Backup_Catalogue.thy ===== *)
theory Backup_Catalogue
  imports Legal_Holds
begin

text \<open>
  The backup catalogue of packages/gateway/src/dataLifecycle.ts: registering a backup with its subject
  manifest, reconciling it with deletion tombstones, evaluating whether a backup may be restored, and
  deleting expired backups through the provider's adapter.

  The adapter is a parameter: \<open>Inr ()\<close> when the provider deleted the backup, \<open>Inl name\<close> with the name of
  the thrown error (empty when the thrown value is no \<open>Error\<close>). The table's own check on \<open>provider\<close> is
  narrower than the code's validation (no slash), so an insert can fail on it; its other checks follow
  from what the code validates.
\<close>

section \<open>Records\<close>

record BackupRecord =
  bk_id :: string
  bk_provider :: string
  bk_externalReference :: string
  bk_manifestSha256 :: string
  bk_capturedAt :: int
  bk_deleteAfter :: int
  bk_status :: BackupStatus
  bk_deletedAt :: "int option"

definition mapBackup :: "BackupRow \<Rightarrow> BackupRecord" where
  "mapBackup row =
     \<lparr>bk_id = br_id row, bk_provider = br_provider row, bk_externalReference = br_external_reference row,
      bk_manifestSha256 = br_manifest_sha256 row, bk_capturedAt = br_captured_at row,
      bk_deleteAfter = br_delete_after row, bk_status = br_status row, bk_deletedAt = br_deleted_at row\<rparr>"

record BackupInput =
  bi_provider :: string
  bi_externalReference :: string
  bi_manifestSha256 :: string
  bi_capturedAt :: "int option"
  bi_deleteAfter :: "int option"
  bi_subjects :: "(LifecycleSubjectKind \<times> string) list"

section \<open>Registration\<close>

definition reconcile_tombstone :: "BackupRecord \<Rightarrow> TombstoneRow \<Rightarrow> unit gtx" where
  "reconcile_tombstone backup row =
     (if ts_primary_deleted_at row < bk_capturedAt backup
      then tx_throw (HttpError 409 ''backup subject was captured after primary deletion'')
      else if ts_tombstone_expires_at row < bk_deleteAfter backup
      then tx_throw (HttpError 409 ''backup deletion deadline exceeds the restore-suppression window'')
      else if bk_status backup \<noteq> Deleted
      then tx_modify (\<lambda>db. db\<lparr>deletion_tombstones :=
             map (\<lambda>t. if ts_id t = ts_id row then t\<lparr>ts_backup_deleted_at := None\<rparr> else t) (deletion_tombstones db)\<rparr>)
      else tx_return ())"

definition tombstones_of :: "LifecycleSubjectKind \<Rightarrow> string \<Rightarrow> gateway_db \<Rightarrow> TombstoneRow list" where
  "tombstones_of kind digest db =
     filter (\<lambda>t. ts_subject_kind t = kind \<and> ts_subject_digest t = digest) (deletion_tombstones db)"

definition reconcile_subject :: "BackupRecord \<Rightarrow> LifecycleSubjectKind \<times> string \<Rightarrow> unit gtx" where
  "reconcile_subject backup subj =
     tx_bind (tx_gets (tombstones_of (fst subj) (snd subj))) (\<lambda>rows.
     tx_forM rows (reconcile_tombstone backup))"

definition reconcileBackupSubjectsWithTombstones ::
  "BackupRecord \<Rightarrow> (LifecycleSubjectKind \<times> string) list \<Rightarrow> unit gtx" where
  "reconcileBackupSubjectsWithTombstones backup subjects =
     tx_forM subjects (reconcile_subject backup)"

text \<open>The map of subjects by \<open>kind:digest\<close>; its values are used by kind and digest only.\<close>

definition uniqueSubjects ::
  "sha_fun \<Rightarrow> (LifecycleSubjectKind \<times> string) list \<Rightarrow> gw_error + (LifecycleSubjectKind \<times> string) list" where
  "uniqueSubjects sha subjects =
     bindE (mapE (\<lambda>(kind, sid). bindE (digestLifecycleSubject sha kind sid) (\<lambda>d. Inr (kind, d))) subjects)
       (\<lambda>ds. Inr (js_unique ds))"

definition subject_key :: "LifecycleSubjectKind \<times> string \<Rightarrow> string" where
  "subject_key s = kind_text (fst s) @ '':'' @ snd s"

definition subject_keys_of_backup :: "string \<Rightarrow> gateway_db \<Rightarrow> string list" where
  "subject_keys_of_backup backupId db =
     sort (map (\<lambda>s. subject_key (bs_subject_kind s, bs_subject_digest s))
       (filter (\<lambda>s. bs_backup_id s = backupId) (backup_subjects db)))"

definition backup_clash :: "BackupRow \<Rightarrow> BackupRow \<Rightarrow> bool" where
  "backup_clash a b \<longleftrightarrow>
     br_id a = br_id b
     \<or> (br_provider a = br_provider b \<and> br_external_reference a = br_external_reference b)"

definition insert_backup :: "BackupRow \<Rightarrow> gateway_db \<Rightarrow> gw_error + gateway_db" where
  "insert_backup row db =
     bindE (guardE (CHR ''/'' \<notin> set (br_provider row)) (DbError ''check constraint'')) (\<lambda>_.
     bindE (insert_unique backup_clash (DbError ''unique constraint'') row (backup_records db))
       (\<lambda>rows. Inr (db\<lparr>backup_records := rows\<rparr>)))"

definition insert_backup_subject :: "BackupSubjectRow \<Rightarrow> gateway_db \<Rightarrow> gw_error + gateway_db" where
  "insert_backup_subject row db =
     bindE (insert_unique (=) (DbError ''unique constraint'') row (backup_subjects db))
       (\<lambda>rows. Inr (db\<lparr>backup_subjects := rows\<rparr>))"

definition registerBackup_existing ::
  "BackupInput \<Rightarrow> int \<Rightarrow> int \<Rightarrow> (LifecycleSubjectKind \<times> string) list \<Rightarrow> BackupRow \<Rightarrow> BackupRecord gtx" where
  "registerBackup_existing input capturedAt deleteAfter subjects row =
     (if br_manifest_sha256 row \<noteq> bi_manifestSha256 input \<or> br_captured_at row \<noteq> capturedAt
         \<or> br_delete_after row \<noteq> deleteAfter
      then tx_throw (HttpError 409 ''backup reference was reused with different metadata'')
      else
        tx_bind (tx_gets (subject_keys_of_backup (br_id row))) (\<lambda>actualSubjects.
        if actualSubjects \<noteq> sort (map subject_key subjects)
        then tx_throw (HttpError 409 ''backup reference was reused with a different subject manifest'')
        else
          tx_bind (reconcileBackupSubjectsWithTombstones (mapBackup row) subjects) (\<lambda>_.
          tx_return (mapBackup row))))"

text \<open>\<open>fresh 0\<close> names the new backup and \<open>fresh 1\<close> its audit event.\<close>

definition registerBackup_new ::
  "sha_fun \<Rightarrow> (nat \<Rightarrow> string) \<Rightarrow> int \<Rightarrow> BackupInput \<Rightarrow> int \<Rightarrow> int \<Rightarrow>
     (LifecycleSubjectKind \<times> string) list \<Rightarrow> BackupRecord gtx" where
  "registerBackup_new sha fresh now input capturedAt deleteAfter subjects =
     (let row = \<lparr>br_id = fresh 0, br_provider = bi_provider input,
            br_external_reference = bi_externalReference input, br_manifest_sha256 = bi_manifestSha256 input,
            br_captured_at = capturedAt, br_delete_after = deleteAfter, br_status = Available,
            br_deleted_at = None, br_last_error_code = None, br_created_at = now, br_updated_at = now\<rparr>
      in
      tx_bind (tx_update (insert_backup row)) (\<lambda>_.
      tx_bind (tx_forM subjects (\<lambda>(kind, digest). tx_update (insert_backup_subject
          \<lparr>bs_backup_id = fresh 0, bs_subject_kind = kind, bs_subject_digest = digest\<rparr>))) (\<lambda>_.
      tx_bind (tx_update (insert_lifecycle_event
          \<lparr>le_id = fresh 1, le_event_type = ''backup-registered'', le_subject_kind = Some ''backup'',
           le_subject_digest = Some (sha (''backup:'' @ fresh 0)), le_actor_kind = ''operator'',
           le_reason_code = ''catalogued-backup'', le_evidence_reference = Some (bi_externalReference input),
           le_details = JObj [(''subjectCount'', JNum (IntN (int (length subjects))))],
           le_created_at = now\<rparr>)) (\<lambda>_.
      tx_bind (reconcileBackupSubjectsWithTombstones (mapBackup row) subjects) (\<lambda>_.
      tx_return (mapBackup row))))))"

definition registerBackup_tx ::
  "sha_fun \<Rightarrow> (nat \<Rightarrow> string) \<Rightarrow> int \<Rightarrow> BackupInput \<Rightarrow> int \<Rightarrow> int \<Rightarrow>
     (LifecycleSubjectKind \<times> string) list \<Rightarrow> BackupRecord gtx" where
  "registerBackup_tx sha fresh now input capturedAt deleteAfter subjects =
     tx_bind (tx_forM (sort_key subject_key subjects) (\<lambda>(kind, digest). lockLifecycleSubjectDigest kind digest)) (\<lambda>_.
     tx_bind (tx_gets (\<lambda>db. find (\<lambda>r. br_provider r = bi_provider input
         \<and> br_external_reference r = bi_externalReference input) (backup_records db))) (\<lambda>existing.
     case existing of
       Some row \<Rightarrow> registerBackup_existing input capturedAt deleteAfter subjects row
     | None \<Rightarrow> registerBackup_new sha fresh now input capturedAt deleteAfter subjects))"

definition registerBackup ::
  "sha_fun \<Rightarrow> (nat \<Rightarrow> string) \<Rightarrow> int \<Rightarrow> BackupInput \<Rightarrow> BackupRecord gtx" where
  "registerBackup sha fresh now input =
     tx_bind (tx_lift (boundedReference (bi_provider input) ''provider'' 80 3)) (\<lambda>_.
     tx_bind (tx_lift (boundedReference (bi_externalReference input) ''externalReference'' 200 3)) (\<lambda>_.
     if \<not> isSha256 (JStr (bi_manifestSha256 input))
     then tx_throw (HttpError 400 ''backup manifest SHA-256 is invalid'')
     else
       case (bi_capturedAt input, bi_deleteAfter input) of
         (Some capturedAt, Some deleteAfter) \<Rightarrow>
           if deleteAfter \<le> capturedAt
           then tx_throw (HttpError 400 ''backup capture/delete timestamps are invalid'')
           else if addDays capturedAt BACKUP_MAX_DAYS < deleteAfter
           then tx_throw (HttpError 400 ''backup retention exceeds 30 days'')
           else if now + 5 * 60000 < capturedAt
           then tx_throw (HttpError 400 ''backup capture time is in the future'')
           else if bi_subjects input = []
           then tx_throw (HttpError 400 ''backup subject manifest is required'')
           else
             tx_bind (tx_lift (uniqueSubjects sha (bi_subjects input))) (\<lambda>subjects.
             withGatewayTransaction (registerBackup_tx sha fresh now input capturedAt deleteAfter subjects))
       | _ \<Rightarrow> tx_throw (HttpError 400 ''backup capture/delete timestamps are invalid'')))"

section \<open>Restore evaluation\<close>

record RestoreEvaluation =
  re_restoreTestId :: string
  re_backupId :: string
  re_result :: RestoreResult
  re_blockedSubjectCount :: nat

definition subjects_of_backup :: "string \<Rightarrow> gateway_db \<Rightarrow> (LifecycleSubjectKind \<times> string) list" where
  "subjects_of_backup backupId db =
     map (\<lambda>s. (bs_subject_kind s, bs_subject_digest s))
       (filter (\<lambda>s. bs_backup_id s = backupId) (backup_subjects db))"

definition blocked_subjects :: "string \<Rightarrow> int \<Rightarrow> gateway_db \<Rightarrow> (LifecycleSubjectKind \<times> string) list" where
  "blocked_subjects backupId now db =
     remdups (filter (\<lambda>s. list_ex (\<lambda>t. subject_of t = s \<and> now < ts_tombstone_expires_at t)
         (deletion_tombstones db)) (subjects_of_backup backupId db))"

definition insert_restore_test :: "RestoreTestRow \<Rightarrow> gateway_db \<Rightarrow> gw_error + gateway_db" where
  "insert_restore_test row db =
     bindE (insert_unique (\<lambda>a b. rt_id a = rt_id b) (DbError ''unique constraint'') row (backup_restore_tests db))
       (\<lambda>rows. Inr (db\<lparr>backup_restore_tests := rows\<rparr>))"

definition evaluateRestore_body ::
  "sha_fun \<Rightarrow> (nat \<Rightarrow> string) \<Rightarrow> int \<Rightarrow> string \<Rightarrow> string \<Rightarrow> string \<Rightarrow> RestoreEvaluation gtx" where
  "evaluateRestore_body sha fresh now backupId manifestSha256 evidenceReference =
     tx_bind (tx_gets (subjects_of_backup backupId)) (\<lambda>subjects.
     tx_bind (tx_forM (sort_key subject_key subjects) (\<lambda>(kind, digest). lockLifecycleSubjectDigest kind digest)) (\<lambda>_.
     tx_bind (tx_gets (\<lambda>db. find (\<lambda>r. br_id r = backupId) (backup_records db))) (\<lambda>found.
     case found of
       None \<Rightarrow> tx_throw (HttpError 404 ''backup record not found'')
     | Some row \<Rightarrow>
         if br_manifest_sha256 row \<noteq> manifestSha256
         then tx_throw (HttpError 409 ''backup manifest checksum mismatch'')
         else if br_status row \<noteq> Available \<or> br_delete_after row \<le> now
         then tx_throw (HttpError 409 ''backup is not eligible for restore'')
         else
           tx_bind (tx_gets (blocked_subjects backupId now)) (\<lambda>blocked.
           (let result = (if blocked \<noteq> [] then Blocked else Eligible) in
            tx_bind (tx_update (insert_restore_test
                \<lparr>rt_id = fresh 0, rt_backup_id = backupId, rt_manifest_sha256 = manifestSha256, rt_result = result,
                 rt_blocked_subject_count = length blocked, rt_evidence_reference = evidenceReference,
                 rt_tested_at = now\<rparr>)) (\<lambda>_.
            tx_bind (tx_update (insert_lifecycle_event
                \<lparr>le_id = fresh 1,
                 le_event_type = (if result = Blocked then ''restore-blocked'' else ''restore-eligible''),
                 le_subject_kind = Some ''backup'', le_subject_digest = Some (sha (''backup:'' @ backupId)),
                 le_actor_kind = ''operator'',
                 le_reason_code = (if result = Blocked then ''active-deletion-tombstone'' else ''tombstone-check-passed''),
                 le_evidence_reference = Some evidenceReference,
                 le_details = JObj [(''blockedSubjectCount'', JNum (IntN (int (length blocked))))],
                 le_created_at = now\<rparr>)) (\<lambda>_.
            tx_return \<lparr>re_restoreTestId = fresh 0, re_backupId = backupId, re_result = result,
              re_blockedSubjectCount = length blocked\<rparr>)))))))"

definition evaluateRestoreCandidate ::
  "sha_fun \<Rightarrow> (nat \<Rightarrow> string) \<Rightarrow> int \<Rightarrow> string \<Rightarrow> string \<Rightarrow> string \<Rightarrow> RestoreEvaluation gtx" where
  "evaluateRestoreCandidate sha fresh now backupId manifestSha256 evidenceReference =
     tx_bind (tx_lift (boundedReference evidenceReference ''evidenceReference'' 200 3)) (\<lambda>evidence.
     withGatewayTransaction (evaluateRestore_body sha fresh now backupId manifestSha256 evidence))"

section \<open>Deletion of expired backups\<close>

type_synonym backup_adapter = "BackupRecord \<Rightarrow> string + unit"

definition lease_ms :: int where "lease_ms = BACKUP_DELETE_LEASE_MINUTES * 60000"

definition claimable :: "int \<Rightarrow> BackupRow \<Rightarrow> bool" where
  "claimable now r \<longleftrightarrow>
     br_status r \<in> {Available, DeleteFailed} \<or> (br_status r = Deleting \<and> br_updated_at r \<le> now - lease_ms)"

definition due_backups :: "int \<Rightarrow> int \<Rightarrow> gateway_db \<Rightarrow> BackupRow list" where
  "due_backups now limit db =
     take (nat (max 1 (min limit 200)))
       (sort_key br_delete_after (sort_key br_id
         (filter (\<lambda>r. br_delete_after r \<le> now \<and> claimable now r) (backup_records db))))"

definition update_backups :: "(BackupRow \<Rightarrow> bool) \<Rightarrow> (BackupRow \<Rightarrow> BackupRow) \<Rightarrow> gateway_db \<Rightarrow> gateway_db" where
  "update_backups sel upd db =
     db\<lparr>backup_records := map (\<lambda>r. if sel r then upd r else r) (backup_records db)\<rparr>"

definition live_backup_of :: "TombstoneRow \<Rightarrow> gateway_db \<Rightarrow> bool" where
  "live_backup_of t db \<longleftrightarrow>
     list_ex (\<lambda>s. (bs_subject_kind s, bs_subject_digest s) = subject_of t \<and>
       list_ex (\<lambda>b. br_id b = bs_backup_id s \<and> br_status b \<noteq> Deleted) (backup_records db)) (backup_subjects db)"

definition settle_tombstones :: "string \<Rightarrow> int \<Rightarrow> gateway_db \<Rightarrow> gateway_db" where
  "settle_tombstones backupId now db =
     db\<lparr>deletion_tombstones := map (\<lambda>t.
       if ts_backup_deleted_at t = None
          \<and> list_ex (\<lambda>s. bs_backup_id s = backupId \<and> (bs_subject_kind s, bs_subject_digest s) = subject_of t)
              (backup_subjects db)
          \<and> \<not> live_backup_of t db
       then t\<lparr>ts_backup_deleted_at := Some now\<rparr> else t) (deletion_tombstones db)\<rparr>"

fun thrown_name :: "gw_error \<Rightarrow> string" where
  "thrown_name (DbError _) = ''error''"
| "thrown_name _ = ''Error''"

definition finish_backup :: "sha_fun \<Rightarrow> string \<Rightarrow> int \<Rightarrow> BackupRecord \<Rightarrow> unit gtx" where
  "finish_backup sha eventId now backup =
     withGatewayTransaction (
       tx_bind (tx_modify (update_backups (\<lambda>r. br_id r = bk_id backup \<and> br_status r = Deleting)
         (\<lambda>r. r\<lparr>br_status := Deleted, br_deleted_at := Some now, br_last_error_code := None, br_updated_at := now\<rparr>))) (\<lambda>_.
       tx_bind (tx_modify (settle_tombstones (bk_id backup) now)) (\<lambda>_.
       tx_update (insert_lifecycle_event
         \<lparr>le_id = eventId, le_event_type = ''backup-deleted'', le_subject_kind = Some ''backup'',
          le_subject_digest = Some (sha (''backup:'' @ bk_id backup)), le_actor_kind = ''system'',
          le_reason_code = ''retention-expiry'', le_evidence_reference = Some (bk_externalReference backup),
          le_details = JObj [], le_created_at = now\<rparr>))))"

definition fail_backup :: "sha_fun \<Rightarrow> string \<Rightarrow> int \<Rightarrow> BackupRecord \<Rightarrow> string \<Rightarrow> unit gtx" where
  "fail_backup sha eventId now backup name =
     (let errorCode = (if name \<noteq> [] then take 120 name else ''BackupDeleteError'') in
      tx_bind (tx_modify (update_backups (\<lambda>r. br_id r = bk_id backup \<and> br_status r = Deleting)
        (\<lambda>r. r\<lparr>br_status := DeleteFailed, br_last_error_code := Some errorCode, br_updated_at := now\<rparr>))) (\<lambda>_.
      tx_update (insert_lifecycle_event
        \<lparr>le_id = eventId, le_event_type = ''backup-delete-failed'', le_subject_kind = Some ''backup'',
         le_subject_digest = Some (sha (''backup:'' @ bk_id backup)), le_actor_kind = ''system'',
         le_reason_code = ''adapter-failure'', le_evidence_reference = Some (bk_externalReference backup),
         le_details = JObj [(''errorCode'', JStr errorCode)], le_created_at = now\<rparr>)))"

text \<open>One candidate: claim it, call the adapter, settle. \<open>None\<close> when another worker holds the claim,
  otherwise whether the backup was deleted.\<close>

definition delete_candidate ::
  "sha_fun \<Rightarrow> string \<Rightarrow> string \<Rightarrow> backup_adapter \<Rightarrow> int \<Rightarrow> BackupRow \<Rightarrow> bool option gtx" where
  "delete_candidate sha eventId failureId deleteBackup now candidate =
     tx_bind (tx_gets (\<lambda>db. find (\<lambda>r. br_id r = br_id candidate \<and> claimable now r) (backup_records db))) (\<lambda>claimed.
     case claimed of
       None \<Rightarrow> tx_return None
     | Some row \<Rightarrow>
         (let backup = mapBackup (row\<lparr>br_status := Deleting, br_last_error_code := None, br_updated_at := now\<rparr>) in
          tx_bind (tx_modify (update_backups (\<lambda>r. br_id r = br_id candidate \<and> claimable now r)
            (\<lambda>r. r\<lparr>br_status := Deleting, br_last_error_code := None, br_updated_at := now\<rparr>))) (\<lambda>_.
          case deleteBackup backup of
            Inl name \<Rightarrow> tx_bind (fail_backup sha failureId now backup name) (\<lambda>_. tx_return (Some False))
          | Inr _ \<Rightarrow> (\<lambda>db. case finish_backup sha eventId now backup db of
              (Inr _, db') \<Rightarrow> (Inr (Some True), db')
            | (Inl e, db') \<Rightarrow>
                tx_bind (fail_backup sha failureId now backup (thrown_name e)) (\<lambda>_. tx_return (Some False)) db'))))"

fun delete_loop ::
  "sha_fun \<Rightarrow> (nat \<Rightarrow> string) \<Rightarrow> backup_adapter \<Rightarrow> int \<Rightarrow> nat \<Rightarrow> BackupRow list \<Rightarrow>
     string list \<Rightarrow> string list \<Rightarrow> (string list \<times> string list) gtx" where
  "delete_loop sha fresh deleteBackup now i [] deleted failed = tx_return (deleted, failed)"
| "delete_loop sha fresh deleteBackup now i (c # cs) deleted failed =
     tx_bind (delete_candidate sha (fresh (2 * i)) (fresh (2 * i + 1)) deleteBackup now c) (\<lambda>outcome.
       case outcome of
         None \<Rightarrow> delete_loop sha fresh deleteBackup now (Suc i) cs deleted failed
       | Some True \<Rightarrow> delete_loop sha fresh deleteBackup now (Suc i) cs (deleted @ [br_id c]) failed
       | Some False \<Rightarrow> delete_loop sha fresh deleteBackup now (Suc i) cs deleted (failed @ [br_id c]))"

definition deleteExpiredBackups ::
  "sha_fun \<Rightarrow> (nat \<Rightarrow> string) \<Rightarrow> backup_adapter \<Rightarrow> int \<Rightarrow> int \<Rightarrow> (string list \<times> string list) gtx" where
  "deleteExpiredBackups sha fresh deleteBackup now limit =
     tx_bind (tx_gets (due_backups now limit)) (\<lambda>due.
     delete_loop sha fresh deleteBackup now 0 due [] [])"

end
