(* ===== verification/Retention_Sweep.thy ===== *)
theory Retention_Sweep
  imports Backup_Catalogue
begin

text \<open>
  \<open>runPrimaryRetentionSweep\<close> of packages/gateway/src/dataLifecycle.ts: one serializable transaction that
  counts, or deletes and counts, the rows whose retention has ended and that no legal hold protects.
  The foreign keys of infra/migrations are part of the model: a hold event that a later event names as its
  predecessor and a backup that a restore test names cannot be deleted (0017, 0018), the subjects of a deleted
  backup go with it, and the references to a deleted job become null (0006, 0012, 0022).
\<close>

section \<open>Protection by holds\<close>

definition latest_holds :: "gateway_db \<Rightarrow> HoldRow list" where
  "latest_holds db =
     distinct_on (\<lambda>r. (hr_subject_kind r, hr_subject_digest r, hr_hold_key r)) hr_event_sequence
       (legal_hold_events db)"

definition held :: "LifecycleSubjectKind \<Rightarrow> string \<Rightarrow> int \<Rightarrow> gateway_db \<Rightarrow> bool" where
  "held kind digest now db \<longleftrightarrow>
     list_ex (\<lambda>h. hr_action h = Place \<and> now < hr_expires_at h
       \<and> hr_subject_kind h = kind \<and> hr_subject_digest h = digest) (latest_holds db)"

definition user_held :: "sha_fun \<Rightarrow> string option \<Rightarrow> int \<Rightarrow> gateway_db \<Rightarrow> bool" where
  "user_held sha owner now db \<longleftrightarrow>
     (case owner of None \<Rightarrow> False | Some u \<Rightarrow> held UserSubject (sha (''user:'' @ u)) now db)"

definition audit_held :: "sha_fun \<Rightarrow> string \<Rightarrow> int \<Rightarrow> gateway_db \<Rightarrow> bool" where
  "audit_held sha subject now db \<longleftrightarrow> held AuditSubject (sha (''audit:'' @ subject)) now db"

section \<open>What has expired\<close>

definition session_expired :: "int \<Rightarrow> SessionRow \<Rightarrow> bool" where
  "session_expired now r \<longleftrightarrow> se_expires r \<le> now"

definition token_expired :: "int \<Rightarrow> TokenRow \<Rightarrow> bool" where
  "token_expired now r \<longleftrightarrow> vt_expires r \<le> now"

definition refusal_expired :: "sha_fun \<Rightarrow> int \<Rightarrow> gateway_db \<Rightarrow> RefusalRow \<Rightarrow> bool" where
  "refusal_expired sha now db r \<longleftrightarrow>
     rf_created_at r \<le> addDays now (-90) \<and>
     \<not> (user_held sha (rf_owner_user_id r) now db \<or> audit_held sha (''generation-refusal/'' @ rf_id r) now db)"

definition job_expired :: "sha_fun \<Rightarrow> int \<Rightarrow> gateway_db \<Rightarrow> JobRow \<Rightarrow> bool" where
  "job_expired sha now db j \<longleftrightarrow>
     jb_status j \<in> {JSucceeded, JFailed, JCancelled}
     \<and> (case jb_finished_at j of Some t \<Rightarrow> t | None \<Rightarrow> jb_created_at j) \<le> addDays now (-30) \<and>
     \<not> (user_held sha (jb_owner_user_id j) now db \<or> audit_held sha (''job/'' @ jb_id j) now db)"

definition hold_group :: "HoldRow \<Rightarrow> LifecycleSubjectKind \<times> string \<times> string" where
  "hold_group r = (hr_subject_kind r, hr_subject_digest r, hr_hold_key r)"

definition hold_event_expired :: "int \<Rightarrow> gateway_db \<Rightarrow> HoldRow \<Rightarrow> bool" where
  "hold_event_expired now db e \<longleftrightarrow>
     list_all (\<lambda>q. hold_group q = hold_group e \<longrightarrow> hr_created_at q \<le> addDays now (-400)) (legal_hold_events db) \<and>
     list_ex (\<lambda>l. hold_group l = hold_group e \<and> \<not> (hr_action l = Place \<and> now < hr_expires_at l)) (latest_holds db)"

definition restore_test_expired :: "sha_fun \<Rightarrow> int \<Rightarrow> gateway_db \<Rightarrow> RestoreTestRow \<Rightarrow> bool" where
  "restore_test_expired sha now db t \<longleftrightarrow>
     rt_tested_at t \<le> addDays now (-400) \<and> \<not> audit_held sha (''backup-restore/'' @ rt_id t) now db"

definition backup_record_expired :: "sha_fun \<Rightarrow> int \<Rightarrow> gateway_db \<Rightarrow> BackupRow \<Rightarrow> bool" where
  "backup_record_expired sha now db b \<longleftrightarrow>
     br_status b = Deleted
     \<and> (case br_deleted_at b of None \<Rightarrow> False | Some t \<Rightarrow> t \<le> addDays now (-400))
     \<and> \<not> audit_held sha (''backup/'' @ br_id b) now db
     \<and> \<not> list_ex (\<lambda>t. rt_backup_id t = br_id b \<and>
           (addDays now (-400) < rt_tested_at t \<or> audit_held sha (''backup-restore/'' @ rt_id t) now db))
         (backup_restore_tests db)"

definition lifecycle_event_expired :: "sha_fun \<Rightarrow> int \<Rightarrow> gateway_db \<Rightarrow> LifecycleEventRow \<Rightarrow> bool" where
  "lifecycle_event_expired sha now db e \<longleftrightarrow>
     le_created_at e \<le> addDays now (-400) \<and> \<not> audit_held sha (''lifecycle-event/'' @ le_id e) now db"

definition tombstone_finalizable :: "int \<Rightarrow> gateway_db \<Rightarrow> TombstoneRow \<Rightarrow> bool" where
  "tombstone_finalizable now db t \<longleftrightarrow>
     ts_backup_deleted_at t = None \<and> ts_backup_delete_after t \<le> now \<and> \<not> live_backup_of t db"

definition tombstone_expired :: "int \<Rightarrow> TombstoneRow \<Rightarrow> bool" where
  "tombstone_expired now t \<longleftrightarrow> ts_backup_deleted_at t \<noteq> None \<and> ts_tombstone_expires_at t \<le> now"

section \<open>The sweep\<close>

type_synonym sweep_counts = "(string \<times> nat) list"

definition count_if :: "('a \<Rightarrow> bool) \<Rightarrow> 'a list \<Rightarrow> nat" where
  "count_if P xs = length (filter P xs)"

text \<open>Deleting a job clears the references to it: \<open>job_id\<close> is \<open>ON DELETE SET NULL\<close> in \<open>photoscan_artifacts\<close>
  (infra/migrations/0006), \<open>policy_artifacts\<close> (0022) and \<open>print_quote_requests\<close> (0012). What is deleted with a
  job (its events, provider calls and attempts) is part of its row, and no table refers to sessions, tokens or
  refusals.\<close>

definition delete_expired_jobs :: "sha_fun \<Rightarrow> int \<Rightarrow> gateway_db \<Rightarrow> gateway_db" where
  "delete_expired_jobs sha now db =
     (let ids = map jb_id (filter (job_expired sha now db) (jobs db)) in
      db\<lparr>jobs := filter (\<lambda>j. \<not> job_expired sha now db j) (jobs db),
         photoscan_artifacts := map (\<lambda>r. r\<lparr>ph_job_id := sever ids (ph_job_id r)\<rparr>) (photoscan_artifacts db),
         policy_artifacts := map (\<lambda>r. r\<lparr>po_job_id := sever ids (po_job_id r)\<rparr>) (policy_artifacts db),
         print_quote_requests := map (\<lambda>r. r\<lparr>qr_job_id := sever ids (qr_job_id r)\<rparr>) (print_quote_requests db)\<rparr>)"

text \<open>The four queries of the first loop, each its count and its removal.\<close>

definition sweep_queries :: "sha_fun \<Rightarrow> int \<Rightarrow> (string \<times> (gateway_db \<Rightarrow> nat) \<times> (gateway_db \<Rightarrow> gateway_db)) list" where
  "sweep_queries sha now =
    [(''expiredSessions'',
      \<lambda>db. count_if (session_expired now) (sessions db),
      \<lambda>db. db\<lparr>sessions := filter (\<lambda>r. \<not> session_expired now r) (sessions db)\<rparr>),
     (''expiredVerificationTokens'',
      \<lambda>db. count_if (token_expired now) (verification_tokens db),
      \<lambda>db. db\<lparr>verification_tokens := filter (\<lambda>r. \<not> token_expired now r) (verification_tokens db)\<rparr>),
     (''expiredRefusalAudits'',
      \<lambda>db. count_if (refusal_expired sha now db) (generation_refusals db),
      \<lambda>db. db\<lparr>generation_refusals := filter (\<lambda>r. \<not> refusal_expired sha now db r) (generation_refusals db)\<rparr>),
     (''expiredJobs'',
      \<lambda>db. count_if (job_expired sha now db) (jobs db),
      delete_expired_jobs sha now)]"

fun run_queries ::
  "bool \<Rightarrow> (string \<times> (gateway_db \<Rightarrow> nat) \<times> (gateway_db \<Rightarrow> gateway_db)) list \<Rightarrow> sweep_counts gtx" where
  "run_queries execute [] = tx_return []"
| "run_queries execute ((key, count, remove) # qs) =
     tx_bind (tx_gets count) (\<lambda>n.
     tx_bind (if execute then tx_modify remove else tx_return ()) (\<lambda>_.
     tx_bind (run_queries execute qs) (\<lambda>rest. tx_return ((key, n) # rest))))"

definition delete_hold_event :: "string \<Rightarrow> gateway_db \<Rightarrow> gw_error + gateway_db" where
  "delete_hold_event eventId db =
     (if list_ex (\<lambda>r. hr_previous_event_id r = Some eventId) (filter (\<lambda>r. hr_id r \<noteq> eventId) (legal_hold_events db))
      then Inl (DbError ''foreign key constraint'')
      else Inr (db\<lparr>legal_hold_events := filter (\<lambda>r. hr_id r \<noteq> eventId) (legal_hold_events db)\<rparr>))"

definition delete_restore_tests :: "string list \<Rightarrow> gateway_db \<Rightarrow> gateway_db" where
  "delete_restore_tests ids db =
     db\<lparr>backup_restore_tests := filter (\<lambda>t. rt_id t \<notin> set ids) (backup_restore_tests db)\<rparr>"

definition delete_backup_records :: "string list \<Rightarrow> gateway_db \<Rightarrow> gw_error + gateway_db" where
  "delete_backup_records ids db =
     (if list_ex (\<lambda>t. rt_backup_id t \<in> set ids) (backup_restore_tests db)
      then Inl (DbError ''foreign key constraint'')
      else Inr (db\<lparr>backup_records := filter (\<lambda>b. br_id b \<notin> set ids) (backup_records db),
                   backup_subjects := filter (\<lambda>s. bs_backup_id s \<notin> set ids) (backup_subjects db)\<rparr>))"

definition delete_due_backups :: "BackupRow list \<Rightarrow> unit gtx" where
  "delete_due_backups backups =
     (if backups = [] then tx_return () else tx_update (delete_backup_records (map br_id backups)))"

definition delete_lifecycle_events :: "string list \<Rightarrow> gateway_db \<Rightarrow> gateway_db" where
  "delete_lifecycle_events ids db =
     db\<lparr>data_lifecycle_events := filter (\<lambda>e. le_id e \<notin> set ids) (data_lifecycle_events db)\<rparr>"

definition finalize_tombstones :: "int \<Rightarrow> gateway_db \<Rightarrow> gateway_db" where
  "finalize_tombstones now db =
     db\<lparr>deletion_tombstones := map (\<lambda>t. if tombstone_finalizable now db t
        then t\<lparr>ts_backup_deleted_at := Some now\<rparr> else t) (deletion_tombstones db)\<rparr>"

definition drop_tombstones :: "int \<Rightarrow> gateway_db \<Rightarrow> gateway_db" where
  "drop_tombstones now db =
     db\<lparr>deletion_tombstones := filter (\<lambda>t. \<not> tombstone_expired now t) (deletion_tombstones db)\<rparr>"

definition counts_json :: "sweep_counts \<Rightarrow> jsval" where
  "counts_json counts = JObj (map (\<lambda>(k, n). (k, JNum (IntN (int n)))) counts)"

text \<open>The optional evidence reference: an absent and an empty one are both stored as \<open>null\<close>.\<close>

definition sweep_evidence :: "string option \<Rightarrow> gw_error + string option" where
  "sweep_evidence evidenceReference =
     (case evidenceReference of
        None \<Rightarrow> Inr None
      | Some r \<Rightarrow> if r = [] then Inr None
                 else bindE (boundedReference r ''evidenceReference'' 200 3) (\<lambda>v. Inr (Some v)))"

text \<open>The end of an executed sweep: the audit event with the counts.\<close>

definition sweep_record :: "string \<Rightarrow> int \<Rightarrow> string option \<Rightarrow> sweep_counts \<Rightarrow> sweep_counts gtx" where
  "sweep_record eventId now evidenceReference counts =
     tx_bind (tx_lift (sweep_evidence evidenceReference)) (\<lambda>evidence.
     tx_bind (tx_update (insert_lifecycle_event
        \<lparr>le_id = eventId, le_event_type = ''retention-sweep'', le_subject_kind = None, le_subject_digest = None,
         le_actor_kind = ''system'', le_reason_code = ''scheduled-retention'', le_evidence_reference = evidence,
         le_details = counts_json counts, le_created_at = now\<rparr>)) (\<lambda>_.
      tx_return counts))"

definition sweep_execute ::
  "string \<Rightarrow> int \<Rightarrow> string option \<Rightarrow> sweep_counts \<Rightarrow> HoldRow list \<Rightarrow> RestoreTestRow list \<Rightarrow>
     BackupRow list \<Rightarrow> LifecycleEventRow list \<Rightarrow> sweep_counts gtx" where
  "sweep_execute eventId now evidenceReference counts holdEvents restoreTests backups events =
     tx_bind (tx_forM holdEvents (\<lambda>e. tx_update (delete_hold_event (hr_id e)))) (\<lambda>_.
     tx_bind (tx_modify (delete_restore_tests (map rt_id restoreTests))) (\<lambda>_.
     tx_bind (delete_due_backups backups) (\<lambda>_.
     tx_bind (tx_modify (delete_lifecycle_events (map le_id events))) (\<lambda>_.
     tx_bind (tx_gets (\<lambda>db. count_if (tombstone_finalizable now db) (deletion_tombstones db))) (\<lambda>finalized.
     tx_bind (tx_modify (finalize_tombstones now)) (\<lambda>_.
     tx_bind (tx_gets (\<lambda>db. count_if (tombstone_expired now) (deletion_tombstones db))) (\<lambda>expired.
     tx_bind (tx_modify (drop_tombstones now)) (\<lambda>_.
     sweep_record eventId now evidenceReference
       (counts @ [(''finalizedTombstones'', finalized), (''expiredTombstones'', expired)])))))))))"

definition sweep_body ::
  "sha_fun \<Rightarrow> string \<Rightarrow> int \<Rightarrow> bool \<Rightarrow> string option \<Rightarrow> sweep_counts gtx" where
  "sweep_body sha eventId now execute evidenceReference =
     tx_bind (run_queries execute (sweep_queries sha now)) (\<lambda>counts.
     tx_bind (tx_gets (\<lambda>db. rev (sort_key hr_event_sequence
         (filter (hold_event_expired now db) (legal_hold_events db))))) (\<lambda>holdEvents.
     tx_bind (tx_gets (\<lambda>db. filter (restore_test_expired sha now db) (backup_restore_tests db))) (\<lambda>restoreTests.
     tx_bind (tx_gets (\<lambda>db. filter (backup_record_expired sha now db) (backup_records db))) (\<lambda>backups.
     tx_bind (tx_gets (\<lambda>db. filter (lifecycle_event_expired sha now db) (data_lifecycle_events db))) (\<lambda>events.
     (let counts' = counts @ [(''expiredLegalHoldEvents'', length holdEvents),
            (''expiredBackupRestoreTests'', length restoreTests), (''expiredBackupRecords'', length backups),
            (''expiredLifecycleEvents'', length events)] in
      if execute then sweep_execute eventId now evidenceReference counts' holdEvents restoreTests backups events
      else
        tx_bind (tx_gets (\<lambda>db. count_if (tombstone_finalizable now db) (deletion_tombstones db))) (\<lambda>finalizable.
        tx_bind (tx_gets (\<lambda>db. count_if (tombstone_expired now) (deletion_tombstones db))) (\<lambda>expired.
        tx_return (counts' @ [(''finalizedTombstones'', finalizable), (''expiredTombstones'', expired)])))))))))"

definition runPrimaryRetentionSweep ::
  "sha_fun \<Rightarrow> string \<Rightarrow> int \<Rightarrow> bool \<Rightarrow> string option \<Rightarrow> sweep_counts gtx" where
  "runPrimaryRetentionSweep sha eventId now execute evidenceReference =
     withGatewayTransaction (sweep_body sha eventId now execute evidenceReference)"

end
