(* ===== verification/Sweep_Correct.thy ===== *)
theory Sweep_Correct
  imports Retention_Sweep
begin

text \<open>
  What an executed retention sweep does, as a specification over the database before it: which rows the retention
  policy and the holds in force keep, which references become null and which tombstones are settled. The sweep
  reaches that state, in the order in which the code deletes, without running into a foreign key.
\<close>

section \<open>Specification\<close>

text \<open>The specification is written from the retention policy (\<open>RETENTION_POLICIES\<close> and docs/DECISIONS.md, D35) and
  does not use the predicates of the sweep. A hold is in force while its latest event places it and has not
  expired; it protects a subject given by its digest.\<close>

definition same_hold :: "HoldRow \<Rightarrow> HoldRow \<Rightarrow> bool" where
  "same_hold a b \<longleftrightarrow> hr_subject_kind a = hr_subject_kind b \<and> hr_subject_digest a = hr_subject_digest b
     \<and> hr_hold_key a = hr_hold_key b"

definition in_force :: "int \<Rightarrow> gateway_db \<Rightarrow> HoldRow \<Rightarrow> bool" where
  "in_force now db h \<longleftrightarrow> h \<in> set (legal_hold_events db) \<and> hr_action h = Place \<and> now < hr_expires_at h
     \<and> (\<forall>e \<in> set (legal_hold_events db). same_hold e h \<longrightarrow> hr_event_sequence e \<le> hr_event_sequence h)"

definition protected :: "int \<Rightarrow> gateway_db \<Rightarrow> LifecycleSubjectKind \<Rightarrow> string \<Rightarrow> bool" where
  "protected now db kind digest \<longleftrightarrow>
     (\<exists>h. in_force now db h \<and> hr_subject_kind h = kind \<and> hr_subject_digest h = digest)"

definition protected_audit :: "sha_fun \<Rightarrow> int \<Rightarrow> gateway_db \<Rightarrow> string \<Rightarrow> bool" where
  "protected_audit sha now db subject \<longleftrightarrow> protected now db AuditSubject (sha (''audit:'' @ subject))"

definition protected_owner :: "sha_fun \<Rightarrow> int \<Rightarrow> gateway_db \<Rightarrow> string option \<Rightarrow> bool" where
  "protected_owner sha now db owner \<longleftrightarrow> (\<exists>u. owner = Some u \<and> protected now db UserSubject (sha (''user:'' @ u)))"

text \<open>The days that the published policy keeps a class of data, and a row that is younger.\<close>

definition policy_days :: "string \<Rightarrow> int" where
  "policy_days dataClass =
     (case find (\<lambda>p. rp_dataClass p = dataClass) RETENTION_POLICIES of
        None \<Rightarrow> 0 | Some p \<Rightarrow> (case rp_primaryRetentionDays p of None \<Rightarrow> 0 | Some d \<Rightarrow> d))"

definition fresh_under :: "string \<Rightarrow> int \<Rightarrow> int \<Rightarrow> bool" where
  "fresh_under dataClass now t \<longleftrightarrow> now < t + policy_days dataClass * (24 * 60 * 60 * 1000)"

definition keep_refusal :: "sha_fun \<Rightarrow> int \<Rightarrow> gateway_db \<Rightarrow> RefusalRow \<Rightarrow> bool" where
  "keep_refusal sha now db r \<longleftrightarrow> fresh_under ''safety-refusal-audit'' now (rf_created_at r)
     \<or> protected_owner sha now db (rf_owner_user_id r) \<or> protected_audit sha now db (''generation-refusal/'' @ rf_id r)"

definition keep_job :: "sha_fun \<Rightarrow> int \<Rightarrow> gateway_db \<Rightarrow> JobRow \<Rightarrow> bool" where
  "keep_job sha now db j \<longleftrightarrow> jb_status j = JQueued \<or> jb_status j = JRunning
     \<or> fresh_under ''job-operational'' now (case jb_finished_at j of None \<Rightarrow> jb_created_at j | Some t \<Rightarrow> t)
     \<or> protected_owner sha now db (jb_owner_user_id j) \<or> protected_audit sha now db (''job/'' @ jb_id j)"

definition keep_hold_event :: "int \<Rightarrow> gateway_db \<Rightarrow> HoldRow \<Rightarrow> bool" where
  "keep_hold_event now db e \<longleftrightarrow>
     (\<exists>q \<in> set (legal_hold_events db). same_hold q e \<and> fresh_under ''lifecycle-audit'' now (hr_created_at q))
     \<or> (\<exists>h. in_force now db h \<and> same_hold h e)"

definition keep_restore_test :: "sha_fun \<Rightarrow> int \<Rightarrow> gateway_db \<Rightarrow> RestoreTestRow \<Rightarrow> bool" where
  "keep_restore_test sha now db t \<longleftrightarrow> fresh_under ''lifecycle-audit'' now (rt_tested_at t)
     \<or> protected_audit sha now db (''backup-restore/'' @ rt_id t)"

definition keep_backup :: "sha_fun \<Rightarrow> int \<Rightarrow> gateway_db \<Rightarrow> BackupRow \<Rightarrow> bool" where
  "keep_backup sha now db b \<longleftrightarrow> br_status b \<noteq> Deleted
     \<or> (case br_deleted_at b of None \<Rightarrow> True | Some t \<Rightarrow> fresh_under ''lifecycle-audit'' now t)
     \<or> protected_audit sha now db (''backup/'' @ br_id b)
     \<or> (\<exists>t \<in> set (backup_restore_tests db). rt_backup_id t = br_id b \<and> keep_restore_test sha now db t)"

definition keep_lifecycle_event :: "sha_fun \<Rightarrow> int \<Rightarrow> gateway_db \<Rightarrow> LifecycleEventRow \<Rightarrow> bool" where
  "keep_lifecycle_event sha now db e \<longleftrightarrow> fresh_under ''lifecycle-audit'' now (le_created_at e)
     \<or> protected_audit sha now db (''lifecycle-event/'' @ le_id e)"

text \<open>A tombstone waits for the backups until their deadline and until no backup of its subject is left; then its
  backups count as deleted, and it goes once its own expiry has passed.\<close>

definition awaits_backups :: "int \<Rightarrow> gateway_db \<Rightarrow> TombstoneRow \<Rightarrow> bool" where
  "awaits_backups now db t \<longleftrightarrow> ts_backup_deleted_at t = None \<and> (now < ts_backup_delete_after t
     \<or> (\<exists>s \<in> set (backup_subjects db). \<exists>b \<in> set (backup_records db). bs_backup_id s = br_id b \<and> br_status b \<noteq> Deleted
          \<and> bs_subject_kind s = ts_subject_kind t \<and> bs_subject_digest s = ts_subject_digest t))"

definition closed_tombstone :: "int \<Rightarrow> gateway_db \<Rightarrow> TombstoneRow \<Rightarrow> TombstoneRow" where
  "closed_tombstone now db t =
     (if ts_backup_deleted_at t = None \<and> \<not> awaits_backups now db t then t\<lparr>ts_backup_deleted_at := Some now\<rparr> else t)"

definition without_jobs :: "string set \<Rightarrow> string option \<Rightarrow> string option" where
  "without_jobs gone ref = (if ref \<in> Some ` gone then None else ref)"

definition retention_spec :: "sha_fun \<Rightarrow> int \<Rightarrow> gateway_db \<Rightarrow> gateway_db" where
  "retention_spec sha now db =
     (let gone = {jb_id j |j. j \<in> set (jobs db) \<and> \<not> keep_job sha now db j} in
      db\<lparr>sessions := filter (\<lambda>r. now < se_expires r) (sessions db),
         verification_tokens := filter (\<lambda>r. now < vt_expires r) (verification_tokens db),
         generation_refusals := filter (keep_refusal sha now db) (generation_refusals db),
         jobs := filter (keep_job sha now db) (jobs db),
         photoscan_artifacts := map (\<lambda>r. r\<lparr>ph_job_id := without_jobs gone (ph_job_id r)\<rparr>) (photoscan_artifacts db),
         policy_artifacts := map (\<lambda>r. r\<lparr>po_job_id := without_jobs gone (po_job_id r)\<rparr>) (policy_artifacts db),
         print_quote_requests := map (\<lambda>r. r\<lparr>qr_job_id := without_jobs gone (qr_job_id r)\<rparr>) (print_quote_requests db),
         legal_hold_events := filter (keep_hold_event now db) (legal_hold_events db),
         backup_restore_tests := filter (keep_restore_test sha now db) (backup_restore_tests db),
         backup_records := filter (keep_backup sha now db) (backup_records db),
         backup_subjects := filter (\<lambda>s. \<forall>b \<in> set (backup_records db). br_id b = bs_backup_id s \<longrightarrow> keep_backup sha now db b)
           (backup_subjects db),
         data_lifecycle_events := filter (keep_lifecycle_event sha now db) (data_lifecycle_events db),
         deletion_tombstones := map (closed_tombstone now db)
           (filter (\<lambda>t. now < ts_tombstone_expires_at t \<or> awaits_backups now db t) (deletion_tombstones db))\<rparr>)"

section \<open>The state the sweep computes\<close>

text \<open>The same state, with the predicates of the sweep read in the database before it.\<close>

definition tombstone_over :: "int \<Rightarrow> gateway_db \<Rightarrow> TombstoneRow \<Rightarrow> bool" where
  "tombstone_over now db t \<longleftrightarrow>
     ts_tombstone_expires_at t \<le> now \<and> (ts_backup_deleted_at t \<noteq> None \<or> tombstone_finalizable now db t)"

definition settled :: "int \<Rightarrow> gateway_db \<Rightarrow> TombstoneRow \<Rightarrow> TombstoneRow" where
  "settled now db t = (if tombstone_finalizable now db t then t\<lparr>ts_backup_deleted_at := Some now\<rparr> else t)"

definition expired_jobs :: "sha_fun \<Rightarrow> int \<Rightarrow> gateway_db \<Rightarrow> string list" where
  "expired_jobs sha now db = map jb_id (filter (job_expired sha now db) (jobs db))"

definition retained :: "sha_fun \<Rightarrow> int \<Rightarrow> gateway_db \<Rightarrow> gateway_db" where
  "retained sha now db =
     db\<lparr>sessions := filter (\<lambda>r. \<not> session_expired now r) (sessions db),
        verification_tokens := filter (\<lambda>r. \<not> token_expired now r) (verification_tokens db),
        generation_refusals := filter (\<lambda>r. \<not> refusal_expired sha now db r) (generation_refusals db),
        jobs := filter (\<lambda>j. \<not> job_expired sha now db j) (jobs db),
        photoscan_artifacts := map (\<lambda>r. r\<lparr>ph_job_id := sever (expired_jobs sha now db) (ph_job_id r)\<rparr>) (photoscan_artifacts db),
        policy_artifacts := map (\<lambda>r. r\<lparr>po_job_id := sever (expired_jobs sha now db) (po_job_id r)\<rparr>) (policy_artifacts db),
        print_quote_requests :=
          map (\<lambda>r. r\<lparr>qr_job_id := sever (expired_jobs sha now db) (qr_job_id r)\<rparr>) (print_quote_requests db),
        legal_hold_events := filter (\<lambda>e. \<not> hold_event_expired now db e) (legal_hold_events db),
        backup_restore_tests := filter (\<lambda>t. \<not> restore_test_expired sha now db t) (backup_restore_tests db),
        backup_records := filter (\<lambda>b. \<not> backup_record_expired sha now db b) (backup_records db),
        backup_subjects := filter (\<lambda>s. \<not> list_ex (\<lambda>b. br_id b = bs_backup_id s \<and> backup_record_expired sha now db b)
            (backup_records db)) (backup_subjects db),
        data_lifecycle_events := filter (\<lambda>e. \<not> lifecycle_event_expired sha now db e) (data_lifecycle_events db),
        deletion_tombstones := map (settled now db) (filter (\<lambda>t. \<not> tombstone_over now db t) (deletion_tombstones db))\<rparr>"

text \<open>Primary keys and the unique sequence numbers of the hold events, and their chain: a predecessor belongs to the
  same hold and is older.\<close>

definition keys_ok :: "gateway_db \<Rightarrow> bool" where
  "keys_ok db \<longleftrightarrow>
     distinct (map hr_id (legal_hold_events db)) \<and> distinct (map hr_event_sequence (legal_hold_events db))
     \<and> distinct (map rt_id (backup_restore_tests db))
     \<and> distinct (map br_id (backup_records db)) \<and> distinct (map le_id (data_lifecycle_events db))"

definition hold_links :: "gateway_db \<Rightarrow> bool" where
  "hold_links db \<longleftrightarrow>
     (\<forall>e \<in> set (legal_hold_events db). \<forall>p. hr_previous_event_id e = Some p \<longrightarrow>
        (\<exists>q \<in> set (legal_hold_events db). hr_id q = p \<and> hold_group q = hold_group e
            \<and> hr_event_sequence q < hr_event_sequence e))"

section \<open>Filtering by key and by row\<close>

lemma filter_by_key:
  assumes "distinct (map key xs)"
  shows "filter (\<lambda>x. key x \<notin> set (map key (filter P xs))) xs = filter (\<lambda>x. \<not> P x) xs"
proof (rule filter_cong [OF refl])
  fix x assume "x \<in> set xs"
  with assms show "(key x \<notin> set (map key (filter P xs))) = (\<not> P x)"
    by (auto simp: distinct_map inj_on_def)
qed

lemma filter_by_key_perm:
  assumes "distinct (map key xs)" and "set ys = set (filter P xs)"
  shows "filter (\<lambda>x. key x \<notin> set (map key ys)) xs = filter (\<lambda>x. \<not> P x) xs"
  using filter_by_key [OF assms(1), of P] assms(2) by simp

lemma tx_update_ok: "f s = Inr s' \<Longrightarrow> tx_update f s = (Inr (), s')"
  by (simp add: tx_update_def)

section \<open>The hold events\<close>

definition undeletable_free :: "HoldRow list \<Rightarrow> HoldRow list \<Rightarrow> bool" where
  "undeletable_free es rows \<longleftrightarrow>
     (\<forall>e \<in> set es. \<forall>r \<in> set rows. hr_previous_event_id r = Some (hr_id e) \<longrightarrow>
        r \<in> set es \<and> hr_event_sequence e < hr_event_sequence r)"

lemma delete_hold_events_run:
  assumes "sorted_wrt (\<lambda>a b. hr_event_sequence b \<le> hr_event_sequence a) es"
    and "undeletable_free es (legal_hold_events db)"
  shows "tx_forM es (\<lambda>e. tx_update (delete_hold_event (hr_id e))) db =
     (Inr (), db\<lparr>legal_hold_events := filter (\<lambda>r. hr_id r \<notin> set (map hr_id es)) (legal_hold_events db)\<rparr>)"
  using assms
proof (induction es arbitrary: db)
  case (Cons e es)
  let ?db = "db\<lparr>legal_hold_events := filter (\<lambda>r. hr_id r \<noteq> hr_id e) (legal_hold_events db)\<rparr>"
  have "\<not> list_ex (\<lambda>r. hr_previous_event_id r = Some (hr_id e))
      (filter (\<lambda>r. hr_id r \<noteq> hr_id e) (legal_hold_events db))"
    using Cons.prems by (fastforce simp: list_ex_iff undeletable_free_def)
  then have del: "delete_hold_event (hr_id e) db = Inr ?db" by (simp add: delete_hold_event_def)
  have "undeletable_free es (legal_hold_events ?db)"
    using Cons.prems(2) by (auto simp: undeletable_free_def)
  with Cons.prems(1) have "tx_forM es (\<lambda>e. tx_update (delete_hold_event (hr_id e))) ?db =
     (Inr (), ?db\<lparr>legal_hold_events := filter (\<lambda>r. hr_id r \<notin> set (map hr_id es)) (legal_hold_events ?db)\<rparr>)"
    by (intro Cons.IH) simp_all
  with tx_update_ok [where f = "delete_hold_event (hr_id e)", OF del] show ?case by (simp add: tx_bind_run conj_commute)
qed simp

lemma hold_event_expired_group:
  "hold_group q = hold_group e \<Longrightarrow> hold_event_expired now db q = hold_event_expired now db e"
  by (simp add: hold_event_expired_def)

lemma expired_events_undeletable_free:
  assumes "distinct (map hr_id (legal_hold_events db))" and "hold_links db"
    and "set es = set (filter (hold_event_expired now db) (legal_hold_events db))"
  shows "undeletable_free es (legal_hold_events db)"
  unfolding undeletable_free_def
proof (intro ballI impI)
  fix e r assume e: "e \<in> set es" and r: "r \<in> set (legal_hold_events db)"
    and link: "hr_previous_event_id r = Some (hr_id e)"
  from assms(2) r link obtain q where q: "q \<in> set (legal_hold_events db)" "hr_id q = hr_id e"
    "hold_group q = hold_group r" "hr_event_sequence q < hr_event_sequence r"
    unfolding hold_links_def by blast
  with e assms(1,3) have "q = e" by (auto simp: distinct_map inj_on_def)
  with q r e assms(3) hold_event_expired_group [of e r now db]
  show "r \<in> set es \<and> hr_event_sequence e < hr_event_sequence r" by auto
qed

lemma sorted_desc: "sorted_wrt (\<lambda>a b. f b \<le> f a) (rev (sort_key f xs))"
  using sorted_sort_key [of f xs] by (simp add: sorted_wrt_rev sorted_map)

lemma expired_hold_events_run:
  assumes "distinct (map hr_id (legal_hold_events db))" and "hold_links db"
  shows "tx_forM (rev (sort_key hr_event_sequence (filter (hold_event_expired now db) (legal_hold_events db))))
      (\<lambda>e. tx_update (delete_hold_event (hr_id e))) db =
    (Inr (), db\<lparr>legal_hold_events := filter (\<lambda>e. \<not> hold_event_expired now db e) (legal_hold_events db)\<rparr>)"
proof -
  let ?es = "rev (sort_key hr_event_sequence (filter (hold_event_expired now db) (legal_hold_events db)))"
  have set: "set ?es = set (filter (hold_event_expired now db) (legal_hold_events db))" by simp
  show ?thesis
    unfolding delete_hold_events_run [OF sorted_desc expired_events_undeletable_free [OF assms set]]
    by (subst filter_by_key_perm [OF assms(1) set]) simp
qed

section \<open>The first queries\<close>

definition queried :: "sha_fun \<Rightarrow> int \<Rightarrow> gateway_db \<Rightarrow> gateway_db" where
  "queried sha now db =
     db\<lparr>sessions := filter (\<lambda>r. \<not> session_expired now r) (sessions db),
        verification_tokens := filter (\<lambda>r. \<not> token_expired now r) (verification_tokens db),
        generation_refusals := filter (\<lambda>r. \<not> refusal_expired sha now db r) (generation_refusals db),
        jobs := filter (\<lambda>j. \<not> job_expired sha now db j) (jobs db),
        photoscan_artifacts := map (\<lambda>r. r\<lparr>ph_job_id := sever (expired_jobs sha now db) (ph_job_id r)\<rparr>) (photoscan_artifacts db),
        policy_artifacts := map (\<lambda>r. r\<lparr>po_job_id := sever (expired_jobs sha now db) (po_job_id r)\<rparr>) (policy_artifacts db),
        print_quote_requests :=
          map (\<lambda>r. r\<lparr>qr_job_id := sever (expired_jobs sha now db) (qr_job_id r)\<rparr>) (print_quote_requests db)\<rparr>"

lemma held_cong: "legal_hold_events db' = legal_hold_events db \<Longrightarrow> held kind d now db' = held kind d now db"
  by (simp add: held_def latest_holds_def)

lemma expiry_cong:
  assumes "legal_hold_events db' = legal_hold_events db"
  shows "refusal_expired sha now db' = refusal_expired sha now db"
    and "job_expired sha now db' = job_expired sha now db"
    and "hold_event_expired now db' = hold_event_expired now db"
    and "restore_test_expired sha now db' = restore_test_expired sha now db"
    and "lifecycle_event_expired sha now db' = lifecycle_event_expired sha now db"
    and "backup_restore_tests db' = backup_restore_tests db \<Longrightarrow>
           backup_record_expired sha now db' = backup_record_expired sha now db"
proof -
  have audit: "audit_held sha x now db' = audit_held sha x now db" and user: "user_held sha o' now db' = user_held sha o' now db"
    for x o'
    using held_cong [OF assms] by (simp_all add: audit_held_def user_held_def split: option.splits)
  show "refusal_expired sha now db' = refusal_expired sha now db"
    by (simp add: fun_eq_iff refusal_expired_def audit user)
  show "job_expired sha now db' = job_expired sha now db"
    by (simp add: fun_eq_iff job_expired_def audit user)
  show "hold_event_expired now db' = hold_event_expired now db"
    by (simp add: fun_eq_iff hold_event_expired_def latest_holds_def assms)
  show "restore_test_expired sha now db' = restore_test_expired sha now db"
    by (simp add: fun_eq_iff restore_test_expired_def audit)
  show "lifecycle_event_expired sha now db' = lifecycle_event_expired sha now db"
    by (simp add: fun_eq_iff lifecycle_event_expired_def audit)
  show "backup_record_expired sha now db' = backup_record_expired sha now db"
    if "backup_restore_tests db' = backup_restore_tests db"
    by (simp add: fun_eq_iff backup_record_expired_def audit that)
qed

lemma run_queries_run:
  "\<exists>counts. run_queries True (sweep_queries sha now) db = (Inr counts, queried sha now db)"
proof -
  have "refusal_expired sha now (db\<lparr>sessions := a, verification_tokens := b\<rparr>) = refusal_expired sha now db"
    "job_expired sha now (db\<lparr>sessions := a, verification_tokens := b, generation_refusals := c\<rparr>) = job_expired sha now db"
    for a b c by (rule expiry_cong, simp)+
  then show ?thesis by (simp add: sweep_queries_def tx_bind_run queried_def delete_expired_jobs_def expired_jobs_def Let_def)
qed

lemma run_queries_dry: "\<exists>counts. run_queries False qs db = (Inr counts, db)"
proof (induction qs)
  case (Cons q qs)
  then show ?case by (cases q) (auto simp: tx_bind_run)
qed simp

section \<open>Backups and tombstones\<close>

lemma expired_backup_untested:
  assumes "distinct (map rt_id (backup_restore_tests db))"
    and "b \<in> set (backup_records db)" "backup_record_expired sha now db b"
    and "t \<in> set (backup_restore_tests db)" "\<not> restore_test_expired sha now db t"
  shows "rt_backup_id t \<noteq> br_id b"
  using assms by (auto simp: backup_record_expired_def restore_test_expired_def list_ex_iff not_le)

lemma live_backup_retained:
  assumes "distinct (map br_id (backup_records db))"
    and "backup_records db' = filter (\<lambda>b. \<not> backup_record_expired sha now db b) (backup_records db)"
    and "backup_subjects db' = filter (\<lambda>s. \<not> list_ex (\<lambda>b. br_id b = bs_backup_id s \<and> backup_record_expired sha now db b)
            (backup_records db)) (backup_subjects db)"
  shows "live_backup_of t db' = live_backup_of t db"
proof -
  have "live_backup_of t db" if "live_backup_of t db'"
    using that by (auto simp: live_backup_of_def list_ex_iff assms(2,3))
  moreover have "live_backup_of t db'" if live: "live_backup_of t db"
  proof -
    from live obtain s b where s: "s \<in> set (backup_subjects db)" "(bs_subject_kind s, bs_subject_digest s) = subject_of t"
      and b: "b \<in> set (backup_records db)" "br_id b = bs_backup_id s" "br_status b \<noteq> Deleted"
      by (auto simp: live_backup_of_def list_ex_iff)
    from b have keep: "\<not> backup_record_expired sha now db b" by (simp add: backup_record_expired_def)
    have only: "q = b" if "q \<in> set (backup_records db)" "br_id q = br_id b" for q
      using assms(1) b(1) that by (auto simp: distinct_map inj_on_def)
    have "\<not> (\<exists>q \<in> set (backup_records db). br_id q = bs_backup_id s \<and> backup_record_expired sha now db q)"
      using only b(2) keep by metis
    with s(1) have "s \<in> set (backup_subjects db')" by (simp add: assms(3) list_ex_iff)
    moreover have "b \<in> set (backup_records db')" using b(1) keep by (simp add: assms(2))
    ultimately show ?thesis unfolding live_backup_of_def list_ex_iff using s(2) b(2,3) by blast
  qed
  ultimately show ?thesis by blast
qed

lemma tombstones_settled:
  assumes "\<And>t. tombstone_finalizable now db' t = tombstone_finalizable now db t"
  shows "drop_tombstones now (finalize_tombstones now db') =
     db'\<lparr>deletion_tombstones := map (settled now db) (filter (\<lambda>t. \<not> tombstone_over now db t) (deletion_tombstones db'))\<rparr>"
proof -
  have over: "tombstone_expired now (settled now db t) = tombstone_over now db t" for t
    by (cases "tombstone_finalizable now db t")
      (auto simp: settled_def tombstone_expired_def tombstone_over_def)
  have fin: "finalize_tombstones now db' = db'\<lparr>deletion_tombstones := map (settled now db) (deletion_tombstones db')\<rparr>"
    by (simp add: finalize_tombstones_def assms settled_def [abs_def])
  show ?thesis
    unfolding fin drop_tombstones_def by (simp add: filter_map comp_def over)
qed

section \<open>The executed sweep\<close>

definition held_back :: "sha_fun \<Rightarrow> int \<Rightarrow> gateway_db \<Rightarrow> gateway_db" where
  "held_back sha now db = (queried sha now db)\<lparr>
     legal_hold_events := filter (\<lambda>e. \<not> hold_event_expired now db e) (legal_hold_events db),
     backup_restore_tests := filter (\<lambda>t. \<not> restore_test_expired sha now db t) (backup_restore_tests db)\<rparr>"

lemma sweep_backups_run:
  assumes "keys_ok db"
  shows "delete_due_backups (filter (backup_record_expired sha now db) (backup_records db)) (held_back sha now db) =
    (Inr (), (held_back sha now db)\<lparr>
       backup_records := filter (\<lambda>b. \<not> backup_record_expired sha now db b) (backup_records db),
       backup_subjects := filter (\<lambda>s. \<not> list_ex (\<lambda>b. br_id b = bs_backup_id s \<and> backup_record_expired sha now db b)
            (backup_records db)) (backup_subjects db)\<rparr>)" (is "?run = (_, ?db')")
proof (cases "filter (backup_record_expired sha now db) (backup_records db) = []")
  case True
  then have none: "\<not> backup_record_expired sha now db b" if "b \<in> set (backup_records db)" for b
    using that by (auto simp: filter_empty_conv)
  then have "filter (\<lambda>b. \<not> backup_record_expired sha now db b) (backup_records db) = backup_records db"
    "filter (\<lambda>s. \<not> list_ex (\<lambda>b. br_id b = bs_backup_id s \<and> backup_record_expired sha now db b)
            (backup_records db)) (backup_subjects db) = backup_subjects db"
    by (auto simp: filter_id_conv list_ex_iff)
  then show ?thesis using True by (simp add: delete_due_backups_def held_back_def queried_def)
next
  case False
  let ?ids = "map br_id (filter (backup_record_expired sha now db) (backup_records db))"
  have ids: "distinct (map br_id (backup_records db))" "distinct (map rt_id (backup_restore_tests db))"
    using assms by (simp_all add: keys_ok_def)
  have "rt_backup_id t \<notin> set ?ids" if "t \<in> set (backup_restore_tests (held_back sha now db))" for t
    using that expired_backup_untested [OF ids(2)] by (fastforce simp: held_back_def)
  moreover have "filter (\<lambda>s. bs_backup_id s \<notin> set ?ids) (backup_subjects db) =
      filter (\<lambda>s. \<not> list_ex (\<lambda>b. br_id b = bs_backup_id s \<and> backup_record_expired sha now db b)
            (backup_records db)) (backup_subjects db)"
    by (rule filter_cong) (force simp: list_ex_iff)+
  ultimately have "delete_backup_records ?ids (held_back sha now db) = Inr ?db'"
    using filter_by_key [OF ids(1), of "backup_record_expired sha now db"]
    by (simp add: delete_backup_records_def list_ex_iff held_back_def queried_def del: set_map)
  with False show ?thesis by (simp add: delete_due_backups_def tx_update_def)
qed

lemma finalizable_cong:
  "live_backup_of t db' = live_backup_of t db \<Longrightarrow> tombstone_finalizable now db' t = tombstone_finalizable now db t"
  by (simp add: tombstone_finalizable_def)

lemma sweep_body_run:
  assumes keys: "keys_ok db" and links: "hold_links db"
  shows "\<exists>counts. sweep_body sha eventId now True evidence db =
     sweep_record eventId now evidence counts (retained sha now db)"
proof -
  let ?q = "queried sha now db"
  obtain counts where q: "run_queries True (sweep_queries sha now) db = (Inr counts, ?q)"
    using run_queries_run by blast
  have same: "legal_hold_events ?q = legal_hold_events db" "backup_restore_tests ?q = backup_restore_tests db"
    "backup_records ?q = backup_records db" "data_lifecycle_events ?q = data_lifecycle_events db"
    by (simp_all add: queried_def)
  note cong = expiry_cong(3-5) [OF same(1)] expiry_cong(6) [OF same(1,2)]
  have links': "hold_links ?q" "distinct (map hr_id (legal_hold_events ?q))"
    using links keys by (simp_all add: hold_links_def keys_ok_def same)
  note holds = expired_hold_events_run [OF links'(2,1), of now, unfolded cong same]
  have tests: "delete_restore_tests (map rt_id (filter (restore_test_expired sha now db) (backup_restore_tests db)))
      (?q\<lparr>legal_hold_events := filter (\<lambda>e. \<not> hold_event_expired now db e) (legal_hold_events db)\<rparr>)
      = held_back sha now db"
    using filter_by_key [of rt_id "backup_restore_tests db" "restore_test_expired sha now db"] keys
    by (simp add: delete_restore_tests_def held_back_def same keys_ok_def)
  define b where "b = (held_back sha now db)\<lparr>
       backup_records := filter (\<lambda>b. \<not> backup_record_expired sha now db b) (backup_records db),
       backup_subjects := filter (\<lambda>s. \<not> list_ex (\<lambda>b. br_id b = bs_backup_id s \<and> backup_record_expired sha now db b)
            (backup_records db)) (backup_subjects db)\<rparr>"
  note backups = sweep_backups_run [OF keys, of sha now, folded b_def]
  define e where "e = delete_lifecycle_events (map le_id (filter (lifecycle_event_expired sha now db) (data_lifecycle_events db))) b"
  have e: "e = b\<lparr>data_lifecycle_events := filter (\<lambda>e. \<not> lifecycle_event_expired sha now db e) (data_lifecycle_events db)\<rparr>"
    using filter_by_key [of le_id "data_lifecycle_events db" "lifecycle_event_expired sha now db"] keys
    by (simp add: e_def delete_lifecycle_events_def b_def held_back_def queried_def keys_ok_def)
  have live: "live_backup_of t e = live_backup_of t db" for t
    by (rule live_backup_retained) (use keys in \<open>simp_all add: keys_ok_def e b_def\<close>)
  have final: "drop_tombstones now (finalize_tombstones now e) = retained sha now db"
    by (subst tombstones_settled [where db = db, OF finalizable_cong [OF live]])
      (simp add: retained_def e b_def held_back_def queried_def)
  show ?thesis
    unfolding sweep_body_def sweep_execute_def
    by (simp add: tx_bind_run q cong same holds tests backups e_def [symmetric] final Let_def) (rule exI, rule refl)
qed

lemma sweep_dry: "runPrimaryRetentionSweep sha eventId now False evidence db = (r, db') \<Longrightarrow> db' = db"
  using run_queries_dry [of "sweep_queries sha now" db]
  by (auto simp: runPrimaryRetentionSweep_def sweep_body_def withGatewayTransaction_def tx_bind_run Let_def
      split: if_splits)

text \<open>Whatever a sweep answers, the database is the one before it or the specified one with the audit event.\<close>

lemma sweep_outcome:
  assumes "keys_ok db" "hold_links db"
    and "runPrimaryRetentionSweep sha eventId now execute evidence db = (r, db')"
  shows "db' = db \<or> (\<exists>event. db' = (retained sha now db)\<lparr>data_lifecycle_events :=
      data_lifecycle_events (retained sha now db) @ [event]\<rparr>)"
proof (cases execute)
  case False
  with assms(3) have "db' = db" by (auto dest: sweep_dry)
  then show ?thesis ..
next
  case True
  obtain counts where run: "sweep_body sha eventId now True evidence db =
     sweep_record eventId now evidence counts (retained sha now db)"
    using sweep_body_run [OF assms(1,2)] by blast
  from withGatewayTransaction_cases [OF assms(3) [unfolded runPrimaryRetentionSweep_def]]
  consider "db' = db" | a where "sweep_record eventId now evidence counts (retained sha now db) = (Inr a, db')"
    using True run by auto
  then show ?thesis by cases (auto simp: sweep_record_def txE resE)
qed

lemma sweep_commits:
  assumes "keys_ok db" "hold_links db" "transactional db" "commit_accepted db"
    and "sweep_evidence evidence = Inr reference" "eventId \<notin> le_id ` set (data_lifecycle_events db)"
  shows "\<exists>counts event. runPrimaryRetentionSweep sha eventId now True evidence db =
     (Inr counts, (retained sha now db)\<lparr>data_lifecycle_events := data_lifecycle_events (retained sha now db) @ [event]\<rparr>)
     \<and> le_event_type event = ''retention-sweep'' \<and> le_details event = counts_json counts"
proof -
  obtain counts where run: "sweep_body sha eventId now True evidence db =
     sweep_record eventId now evidence counts (retained sha now db)"
    using sweep_body_run [OF assms(1,2)] by blast
  have "\<forall>q \<in> set (data_lifecycle_events (retained sha now db)). eventId \<noteq> le_id q"
    using assms(6) by (auto simp: retained_def)
  then show ?thesis
    using assms(3-5) run
    by (simp add: runPrimaryRetentionSweep_def withGatewayTransaction_def sweep_record_def tx_bind_run tx_update_run
        insert_lifecycle_event_def insert_unique_def list_ex_iff) (rule exI, rule conjI, rule refl, simp)
qed

section \<open>The sweep's predicates meet the specification\<close>

lemma hold_group_same: "hold_group a = hold_group b \<longleftrightarrow> same_hold a b"
  by (auto simp: hold_group_def same_hold_def)

lemma in_force_iff:
  assumes "distinct (map hr_event_sequence (legal_hold_events db))"
  shows "in_force now db h \<longleftrightarrow> h \<in> set (latest_holds db) \<and> hr_action h = Place \<and> now < hr_expires_at h"
proof -
  let ?grp = "filter (\<lambda>r. hold_group r = hold_group h) (legal_hold_events db)"
  have latest: "h \<in> set (latest_holds db) \<longleftrightarrow> latest_by hr_event_sequence ?grp = Some h"
    by (simp add: latest_holds_def distinct_on_iff hold_group_def)
  have "latest_by hr_event_sequence ?grp = Some h \<longleftrightarrow>
      h \<in> set (legal_hold_events db) \<and> (\<forall>e \<in> set (legal_hold_events db). same_hold e h \<longrightarrow> hr_event_sequence e \<le> hr_event_sequence h)"
  proof
    assume "latest_by hr_event_sequence ?grp = Some h"
    then show "h \<in> set (legal_hold_events db) \<and> (\<forall>e \<in> set (legal_hold_events db). same_hold e h \<longrightarrow>
        hr_event_sequence e \<le> hr_event_sequence h)" using latest_by_in [of hr_event_sequence ?grp h] latest_by_max [of hr_event_sequence ?grp h]
      by (auto simp: hold_group_same)
  next
    assume r: "h \<in> set (legal_hold_events db) \<and> (\<forall>e \<in> set (legal_hold_events db). same_hold e h \<longrightarrow>
        hr_event_sequence e \<le> hr_event_sequence h)"
    then have "h \<in> set ?grp" by simp
    then have "?grp \<noteq> []" by (metis empty_iff empty_set)
    then obtain m where m: "latest_by hr_event_sequence ?grp = Some m"
      by (metis latest_by_None option.exhaust)
    then have in_grp: "m \<in> set ?grp" by (rule latest_by_in)
    with m r \<open>h \<in> set ?grp\<close> have "hr_event_sequence m = hr_event_sequence h"
      using latest_by_max [OF m, of h] by (auto simp: hold_group_same)
    with assms in_grp r have "m = h" by (auto simp: distinct_map inj_on_def)
    with m show "latest_by hr_event_sequence ?grp = Some h" by simp
  qed
  with latest show ?thesis by (auto simp: in_force_def)
qed

lemma protected_iff:
  assumes "distinct (map hr_event_sequence (legal_hold_events db))"
  shows "protected now db kind digest \<longleftrightarrow> held kind digest now db"
    and "protected_audit sha now db subject \<longleftrightarrow> audit_held sha subject now db"
    and "protected_owner sha now db owner \<longleftrightarrow> user_held sha owner now db"
proof -
  show base: "protected now db kind digest \<longleftrightarrow> held kind digest now db" for kind digest
    by (auto simp: protected_def held_def list_ex_iff in_force_iff [OF assms])
  show "protected_audit sha now db subject \<longleftrightarrow> audit_held sha subject now db"
    by (simp add: protected_audit_def audit_held_def base)
  show "protected_owner sha now db owner \<longleftrightarrow> user_held sha owner now db"
    by (simp add: protected_owner_def user_held_def base split: option.splits)
qed

lemma fresh_under_iff:
  "fresh_under ''safety-refusal-audit'' now t \<longleftrightarrow> \<not> t \<le> addDays now (-90)"
  "fresh_under ''job-operational'' now t \<longleftrightarrow> \<not> t \<le> addDays now (-30)"
  "fresh_under ''lifecycle-audit'' now t \<longleftrightarrow> \<not> t \<le> addDays now (-400)"
  by (auto simp: fresh_under_def policy_days_def RETENTION_POLICIES_def addDays_def day_ms_def)

lemma keep_iff:
  assumes "distinct (map hr_event_sequence (legal_hold_events db))"
  shows "keep_refusal sha now db r \<longleftrightarrow> \<not> refusal_expired sha now db r"
    and "keep_job sha now db j \<longleftrightarrow> \<not> job_expired sha now db j"
    and "keep_restore_test sha now db t \<longleftrightarrow> \<not> restore_test_expired sha now db t"
    and "keep_backup sha now db b \<longleftrightarrow> \<not> backup_record_expired sha now db b"
    and "keep_lifecycle_event sha now db ev \<longleftrightarrow> \<not> lifecycle_event_expired sha now db ev"
proof -
  note iffs = protected_iff [OF assms] fresh_under_iff
  show "keep_refusal sha now db r \<longleftrightarrow> \<not> refusal_expired sha now db r"
    by (auto simp: keep_refusal_def refusal_expired_def iffs)
  show "keep_job sha now db j \<longleftrightarrow> \<not> job_expired sha now db j"
    by (cases "jb_status j"; cases "jb_finished_at j") (auto simp: keep_job_def job_expired_def iffs)
  show "keep_restore_test sha now db t \<longleftrightarrow> \<not> restore_test_expired sha now db t" for t
    by (auto simp: keep_restore_test_def restore_test_expired_def iffs)
  then show "keep_backup sha now db b \<longleftrightarrow> \<not> backup_record_expired sha now db b"
    by (cases "br_deleted_at b") (auto simp: keep_backup_def backup_record_expired_def restore_test_expired_def list_ex_iff iffs)
  show "keep_lifecycle_event sha now db ev \<longleftrightarrow> \<not> lifecycle_event_expired sha now db ev"
    by (auto simp: keep_lifecycle_event_def lifecycle_event_expired_def iffs)
qed

text \<open>Every event of the ledger belongs to a hold with a latest event.\<close>

lemma latest_of_group:
  assumes "e \<in> set (legal_hold_events db)"
  obtains l where "l \<in> set (latest_holds db)" "hold_group l = hold_group e"
proof -
  let ?grp = "filter (\<lambda>r. hold_group r = hold_group e) (legal_hold_events db)"
  obtain l where l: "latest_by hr_event_sequence ?grp = Some l"
    using assms by (cases "latest_by hr_event_sequence ?grp") (auto simp: filter_empty_conv)
  then have "hold_group l = hold_group e" by (auto dest: latest_by_in)
  with l that show ?thesis by (auto simp: latest_holds_def distinct_on_iff hold_group_def)
qed

lemma keep_hold_event_iff:
  assumes "distinct (map hr_event_sequence (legal_hold_events db))" and e: "e \<in> set (legal_hold_events db)"
  shows "keep_hold_event now db e \<longleftrightarrow> \<not> hold_event_expired now db e"
proof -
  from e obtain l where l: "l \<in> set (latest_holds db)" "hold_group l = hold_group e" by (rule latest_of_group)
  then have only: "h = l" if "h \<in> set (latest_holds db)" "hold_group h = hold_group e" for h
    using that by (auto simp: latest_holds_def distinct_on_iff hold_group_def)
  have "list_ex (\<lambda>l. hold_group l = hold_group e \<and> \<not> (hr_action l = Place \<and> now < hr_expires_at l)) (latest_holds db)
      \<longleftrightarrow> \<not> (hr_action l = Place \<and> now < hr_expires_at l)"
    unfolding list_ex_iff using l only by metis
  then have "hold_event_expired now db e \<longleftrightarrow>
      (\<forall>q \<in> set (legal_hold_events db). same_hold q e \<longrightarrow> hr_created_at q \<le> addDays now (-400))
      \<and> \<not> (hr_action l = Place \<and> now < hr_expires_at l)"
    by (simp add: hold_event_expired_def list_all_iff hold_group_same)
  moreover have "(\<exists>h. in_force now db h \<and> same_hold h e) \<longleftrightarrow> hr_action l = Place \<and> now < hr_expires_at l"
    unfolding in_force_iff [OF assms(1)] hold_group_same [symmetric] using l only by metis
  ultimately show ?thesis by (auto simp: keep_hold_event_def fresh_under_iff)
qed

lemma awaits_backups_iff:
  "awaits_backups now db t \<longleftrightarrow> ts_backup_deleted_at t = None \<and> \<not> tombstone_finalizable now db t"
  unfolding awaits_backups_def tombstone_finalizable_def live_backup_of_def subject_of_def list_ex_iff prod.inject
  by (metis not_le)

lemma without_jobs_sever: "without_jobs (set ids) = sever ids"
  by (auto simp: fun_eq_iff without_jobs_def sever_def split: option.splits)

lemma retained_meets_spec:
  assumes "keys_ok db"
  shows "retained sha now db = retention_spec sha now db"
proof -
  from assms have seqs: "distinct (map hr_event_sequence (legal_hold_events db))" by (simp add: keys_ok_def)
  note keep = keep_iff [OF seqs]
  have jobs: "{jb_id j |j. j \<in> set (jobs db) \<and> \<not> keep_job sha now db j} = set (expired_jobs sha now db)"
    by (auto simp: expired_jobs_def keep)
  have holds: "filter (keep_hold_event now db) (legal_hold_events db)
      = filter (\<lambda>e. \<not> hold_event_expired now db e) (legal_hold_events db)"
    by (rule filter_cong) (simp_all add: keep_hold_event_iff [OF seqs])
  have over: "filter (\<lambda>t. now < ts_tombstone_expires_at t \<or> awaits_backups now db t) (deletion_tombstones db)
      = filter (\<lambda>t. \<not> tombstone_over now db t) (deletion_tombstones db)"
    by (rule filter_cong) (auto simp: awaits_backups_iff tombstone_over_def not_le)
  have closed: "closed_tombstone now db = settled now db"
    by (auto simp: fun_eq_iff closed_tombstone_def settled_def awaits_backups_iff tombstone_finalizable_def)
  have subjects: "filter (\<lambda>s. \<forall>b \<in> set (backup_records db). br_id b = bs_backup_id s \<longrightarrow> keep_backup sha now db b) (backup_subjects db)
      = filter (\<lambda>s. \<not> list_ex (\<lambda>b. br_id b = bs_backup_id s \<and> backup_record_expired sha now db b) (backup_records db)) (backup_subjects db)"
    by (rule filter_cong) (auto simp: keep list_ex_iff)
  show ?thesis
    unfolding retained_def retention_spec_def Let_def jobs without_jobs_sever holds over closed subjects
    by (simp add: keep [abs_def] session_expired_def token_expired_def not_le)
qed

section \<open>The chain of hold events is kept\<close>

lemma hold_appended_links:
  assumes "hold_inv db" "hold_links db" "hold_appended newId now input d ev db db'"
  shows "hold_links db'"
proof -
  from assms(3) obtain row where db': "db' = append_hold row db"
    and prev: "hr_previous_event_id row =
      map_option hr_id (latest_by hr_event_sequence (holds_of (li_holdKey input) (li_subjectKind input) d db))"
    and row: "hr_hold_key row = li_holdKey input" "hr_subject_kind row = li_subjectKind input"
      "hr_subject_digest row = d" "hr_event_sequence row = hold_sequence db"
    by (auto simp: hold_appended_def)
  have "\<exists>q \<in> set (legal_hold_events db). hr_id q = p \<and> hold_group q = hold_group row
      \<and> hr_event_sequence q < hr_event_sequence row" if "hr_previous_event_id row = Some p" for p
  proof -
    from that prev obtain q where "hr_id q = p"
      "latest_by hr_event_sequence (holds_of (li_holdKey input) (li_subjectKind input) d db) = Some q" by auto
    with row assms(1) show ?thesis
      by (intro bexI [of _ q]) (auto dest!: latest_by_in simp: holds_of_def hold_group_def hold_inv_def seq_below_def)
  qed
  with assms(2) show ?thesis by (auto simp: hold_links_def db' hold_ledger.events_append)
qed

lemma recordLegalHold_links:
  assumes "hold_inv db" "hold_links db" "recordLegalHold sha newId now input db = (r, db')"
  shows "hold_links db'"
proof (cases r)
  case (Inl e)
  with assms recordLegalHold_Inl show ?thesis by blast
next
  case (Inr ev)
  with assms(3) have "recordLegalHold sha newId now input db = (Inr ev, db')" by simp
  then show ?thesis
    by (rule recordLegalHold_Inr) (use assms(1,2) hold_appended_links in \<open>auto simp: hold_replayed_def\<close>)
qed

lemma retained_links: "hold_links db \<Longrightarrow> hold_links (retained sha now db)"
  unfolding hold_links_def by (simp add: retained_def) (metis hold_event_expired_group)

section \<open>What holds and tombstones keep\<close>

lemma active_hold_events_kept:
  assumes "h \<in> set (latest_holds db)" "hr_action h = Place" "now < hr_expires_at h" "hold_group e = hold_group h"
  shows "\<not> hold_event_expired now db e"
proof
  assume "hold_event_expired now db e"
  then obtain l where l: "l \<in> set (latest_holds db)" "hold_group l = hold_group e"
    "\<not> (hr_action l = Place \<and> now < hr_expires_at l)"
    by (auto simp: hold_event_expired_def list_ex_iff)
  with assms have "l = h" by (auto simp: latest_holds_def distinct_on_iff hold_group_def)
  with l assms show False by simp
qed

lemma settled_kept:
  assumes "t \<in> set ts" "now < ts_tombstone_expires_at t"
  shows "\<exists>u. u \<in> set ts \<and> \<not> tombstone_over now db u \<and> subject_of (settled now db u) = subject_of t
     \<and> ts_tombstone_expires_at (settled now db u) = ts_tombstone_expires_at t"
  using assms by (intro exI [of _ t]) (auto simp: settled_def subject_of_def tombstone_over_def)

text \<open>What the specification keeps because of a hold in force.\<close>

lemma spec_keeps_backup:
  assumes "keys_ok db" and "b \<in> set (backup_records db)"
    and "protected_audit sha now db (''backup/'' @ br_id b) \<or> (\<exists>t \<in> set (backup_restore_tests db). rt_backup_id t = br_id b
           \<and> (addDays now (-400) < rt_tested_at t \<or> protected_audit sha now db (''backup-restore/'' @ rt_id t)))"
  shows "b \<in> set (backup_records (retention_spec sha now db))
     \<and> (\<forall>s \<in> set (backup_subjects db). bs_backup_id s = br_id b \<longrightarrow> s \<in> set (backup_subjects (retention_spec sha now db)))"
proof -
  have "keep_backup sha now db b"
    using assms(3) by (auto simp: keep_backup_def keep_restore_test_def fresh_under_iff not_le)
  moreover have "q = b" if "q \<in> set (backup_records db)" "br_id q = br_id b" for q
    using assms(1,2) that by (auto simp: keys_ok_def distinct_map inj_on_def)
  ultimately show ?thesis using assms(2) by (auto simp: retention_spec_def Let_def)
qed

lemma spec_keeps_tombstone:
  assumes "t \<in> set (deletion_tombstones db)" and "now < ts_tombstone_expires_at t"
  shows "\<exists>u \<in> set (deletion_tombstones (retention_spec sha now db)). subject_of u = subject_of t
     \<and> ts_tombstone_expires_at u = ts_tombstone_expires_at t"
proof -
  have "closed_tombstone now db t \<in> set (deletion_tombstones (retention_spec sha now db))"
    using assms by (simp add: retention_spec_def Let_def)
  then show ?thesis by (rule rev_bexI) (simp add: closed_tombstone_def subject_of_def)
qed

lemma spec_keeps_held:
  assumes "keys_ok db"
  shows "(\<forall>x \<in> set (generation_refusals db). protected_owner sha now db (rf_owner_user_id x)
            \<or> protected_audit sha now db (''generation-refusal/'' @ rf_id x) \<longrightarrow> x \<in> set (generation_refusals (retention_spec sha now db)))
       \<and> (\<forall>j \<in> set (jobs db). protected_owner sha now db (jb_owner_user_id j)
            \<or> protected_audit sha now db (''job/'' @ jb_id j) \<longrightarrow> j \<in> set (jobs (retention_spec sha now db)))
       \<and> (\<forall>t \<in> set (backup_restore_tests db). protected_audit sha now db (''backup-restore/'' @ rt_id t)
            \<longrightarrow> t \<in> set (backup_restore_tests (retention_spec sha now db)))
       \<and> (\<forall>b \<in> set (backup_records db). protected_audit sha now db (''backup/'' @ br_id b)
              \<or> (\<exists>t \<in> set (backup_restore_tests db). rt_backup_id t = br_id b
                   \<and> (addDays now (-400) < rt_tested_at t \<or> protected_audit sha now db (''backup-restore/'' @ rt_id t)))
            \<longrightarrow> b \<in> set (backup_records (retention_spec sha now db))
              \<and> (\<forall>s \<in> set (backup_subjects db). bs_backup_id s = br_id b \<longrightarrow> s \<in> set (backup_subjects (retention_spec sha now db))))
       \<and> (\<forall>e \<in> set (data_lifecycle_events db). protected_audit sha now db (''lifecycle-event/'' @ le_id e)
            \<longrightarrow> e \<in> set (data_lifecycle_events (retention_spec sha now db)))
       \<and> (\<forall>h. in_force now db h \<longrightarrow>
            (\<forall>e \<in> set (legal_hold_events db). same_hold e h \<longrightarrow> e \<in> set (legal_hold_events (retention_spec sha now db))))
       \<and> (\<forall>t \<in> set (deletion_tombstones db). now < ts_tombstone_expires_at t \<longrightarrow>
            (\<exists>u \<in> set (deletion_tombstones (retention_spec sha now db)). subject_of u = subject_of t
               \<and> ts_tombstone_expires_at u = ts_tombstone_expires_at t))"
  using spec_keeps_backup [OF assms, of _ sha now] spec_keeps_tombstone [of _ db now sha]
  by (auto simp: retention_spec_def Let_def keep_refusal_def keep_job_def keep_restore_test_def keep_lifecycle_event_def
      keep_hold_event_def same_hold_def)

end
