(* ===== verification/Account_Data.thy ===== *)
theory Account_Data
  imports Legal_Holds
begin

text \<open>
  Account deletion (packages/gateway/src/accountData.ts): the purge of every table that holds rows of the
  account, in the order of \<open>purgeSteps\<close>, inside one serializable transaction, and the receipt.

  A purge step is the \<open>DELETE\<close> statement with the referential actions that infra/migrations declares on
  the deleted rows: \<open>ON DELETE SET NULL\<close> clears the reference of the rows that stay, \<open>ON DELETE CASCADE\<close>
  deletes them, a reference without an action makes the statement fail. The consent ledger has a trigger
  that rejects every update, so clearing its self-reference in a row that stays fails as well. The last
  statement, on \<open>users\<close>, finds no row that refers to the account any more (\<open>purged\<close> below), so that none
  of the actions on the foreign keys to \<open>users\<close> applies.

  The references to policies and replays in leaderboard runs and submissions are columns that the rows of the
  model do not have. The receipt leaves out its members that are constants of its type (the format version
  and the flags that are always true).

  \<open>deleteObjects\<close>, the adapter that removes the payloads from the object store, is a parameter.
\<close>

section \<open>Statements\<close>

definition refers :: "string list \<Rightarrow> string option \<Rightarrow> bool" where
  "refers ids ref = (case ref of None \<Rightarrow> False | Some i \<Rightarrow> i \<in> set ids)"

definition owned_models :: "string \<Rightarrow> gateway_db \<Rightarrow> string list" where
  "owned_models uid db = map mr_id (filter (\<lambda>r. mr_owner_user_id r = Some uid) (model_registry db))"

definition owned_courses :: "string \<Rightarrow> gateway_db \<Rightarrow> string list" where
  "owned_courses uid db = map co_id (filter (\<lambda>r. co_owner_user_id r = Some uid) (courses db))"

definition owned_assignments :: "string \<Rightarrow> gateway_db \<Rightarrow> string list" where
  "owned_assignments uid db = map as_id (filter (\<lambda>r. as_owner_user_id r = Some uid) (classroom_assignments db))"

definition owned_generated :: "string \<Rightarrow> gateway_db \<Rightarrow> string list" where
  "owned_generated uid db =
     map ga_artifact_id (filter (\<lambda>r. ga_owner_user_id r = Some uid) (generated_artifacts db))"

definition affected :: "('r \<Rightarrow> bool) \<Rightarrow> 'r list \<Rightarrow> nat" where
  "affected P rows = length (filter P rows)"

definition remaining :: "('r \<Rightarrow> bool) \<Rightarrow> 'r list \<Rightarrow> 'r list" where
  "remaining P rows = filter (\<lambda>r. \<not> P r) rows"

definition purge_consentEvents :: "string \<Rightarrow> nat gtx" where
  "purge_consentEvents uid db =
     (let gone = \<lambda>r. cr_owner_user_id r = uid;
          ids = map cr_id (filter gone (user_consent_events db));
          kept = remaining gone (user_consent_events db)
      in if list_ex (\<lambda>r. refers ids (cr_previous_event_id r)) kept
         then (Inl (DbError ''user consent events are append-only''), db)
         else (Inr (affected gone (user_consent_events db)), db\<lparr>user_consent_events := kept\<rparr>))"

definition purge_patternContributions :: "string \<Rightarrow> nat gtx" where
  "purge_patternContributions uid db =
     (let gone = \<lambda>r. pl_owner_user_id r = Some uid \<or> refers (owned_generated uid db) (pl_source_artifact_id r)
      in (Inr (affected gone (pattern_library db)), db\<lparr>pattern_library := remaining gone (pattern_library db)\<rparr>))"

definition purge_policySignoffs :: "string \<Rightarrow> nat gtx" where
  "purge_policySignoffs uid db =
     (let gone = \<lambda>r. sg_owner_user_id r = Some uid
      in (Inr (affected gone (policy_signoffs db)), db\<lparr>policy_signoffs := remaining gone (policy_signoffs db)\<rparr>))"

definition purge_moderationReports :: "string \<Rightarrow> nat gtx" where
  "purge_moderationReports uid db =
     (let gone = \<lambda>r. mo_reporter_user_id r = Some uid
      in (Inr (affected gone (moderation_reports db)), db\<lparr>moderation_reports := remaining gone (moderation_reports db)\<rparr>))"

definition purge_classroomSubmissions :: "string \<Rightarrow> nat gtx" where
  "purge_classroomSubmissions uid db =
     (let gone = \<lambda>r. su_student_user_id r = Some uid \<or> su_assignment_id r \<in> set (owned_assignments uid db)
      in (Inr (affected gone (classroom_submissions db)),
          db\<lparr>classroom_submissions := remaining gone (classroom_submissions db)\<rparr>))"

definition purge_classroomAssignments :: "string \<Rightarrow> nat gtx" where
  "purge_classroomAssignments uid db =
     (let gone = \<lambda>r. as_owner_user_id r = Some uid
      in (Inr (affected gone (classroom_assignments db)),
          db\<lparr>classroom_assignments := remaining gone (classroom_assignments db),
             classroom_submissions :=
               remaining (\<lambda>r. su_assignment_id r \<in> set (owned_assignments uid db)) (classroom_submissions db)\<rparr>))"

definition listing_of_account :: "string \<Rightarrow> gateway_db \<Rightarrow> ListingRow \<Rightarrow> bool" where
  "listing_of_account uid db l \<longleftrightarrow> ml_owner_user_id l = Some uid
     \<or> refers (owned_models uid db) (ml_model_id l) \<or> refers (owned_courses uid db) (ml_course_id l)"

definition account_listings :: "string \<Rightarrow> gateway_db \<Rightarrow> string list" where
  "account_listings uid db = map ml_id (filter (listing_of_account uid db) (marketplace_listings db))"

definition purge_marketplaceUsageRollups :: "string \<Rightarrow> nat gtx" where
  "purge_marketplaceUsageRollups uid db =
     (let gone = \<lambda>r. ru_listing_id r \<in> set (account_listings uid db)
      in (Inr (affected gone (marketplace_usage_rollups db)),
          db\<lparr>marketplace_usage_rollups := remaining gone (marketplace_usage_rollups db)\<rparr>))"

definition purge_marketplaceListings :: "string \<Rightarrow> nat gtx" where
  "purge_marketplaceListings uid db =
     (let gone = listing_of_account uid db
      in (Inr (affected gone (marketplace_listings db)),
          db\<lparr>marketplace_listings := remaining gone (marketplace_listings db),
             marketplace_usage_rollups :=
               remaining (\<lambda>r. ru_listing_id r \<in> set (account_listings uid db)) (marketplace_usage_rollups db)\<rparr>))"

definition quote_of_account :: "string \<Rightarrow> gateway_db \<Rightarrow> QuoteRequestRow \<Rightarrow> bool" where
  "quote_of_account uid db r \<longleftrightarrow> qr_owner_user_id r = Some uid \<or> refers (owned_models uid db) (qr_model_id r)"

definition account_quotes :: "string \<Rightarrow> gateway_db \<Rightarrow> string list" where
  "account_quotes uid db = map qr_id (filter (quote_of_account uid db) (print_quote_requests db))"

definition purge_printQuoteOffers :: "string \<Rightarrow> nat gtx" where
  "purge_printQuoteOffers uid db =
     (let gone = \<lambda>q. qo_request_id q \<in> set (account_quotes uid db)
      in (Inr (affected gone (print_quote_offers db)), db\<lparr>print_quote_offers := remaining gone (print_quote_offers db)\<rparr>))"

definition purge_printQuoteRequests :: "string \<Rightarrow> nat gtx" where
  "purge_printQuoteRequests uid db =
     (let gone = quote_of_account uid db
      in (Inr (affected gone (print_quote_requests db)),
          db\<lparr>print_quote_requests := remaining gone (print_quote_requests db),
             print_quote_offers :=
               remaining (\<lambda>q. qo_request_id q \<in> set (account_quotes uid db)) (print_quote_offers db)\<rparr>))"

definition purge_leaderboardRuns :: "string \<Rightarrow> nat gtx" where
  "purge_leaderboardRuns uid db =
     (let gone = \<lambda>r. lb_user_id r = Some uid \<or> lb_course_id r \<in> set (owned_courses uid db)
      in (Inr (affected gone (leaderboard_runs db)), db\<lparr>leaderboard_runs := remaining gone (leaderboard_runs db)\<rparr>))"

definition purge_maintenanceRecords :: "string \<Rightarrow> nat gtx" where
  "purge_maintenanceRecords uid db =
     (let gone = \<lambda>r. mn_owner_user_id r = Some uid
      in (Inr (affected gone (maintenance_records db)),
          db\<lparr>maintenance_records := remaining gone (maintenance_records db)\<rparr>))"

definition purge_recorderArchiveAdmissions :: "string \<Rightarrow> nat gtx" where
  "purge_recorderArchiveAdmissions uid db =
     (let gone = \<lambda>r. ad_owner_user_id r = uid
      in (Inr (affected gone (recorder_archive_admissions db)),
          db\<lparr>recorder_archive_admissions := remaining gone (recorder_archive_admissions db)\<rparr>))"

definition purge_telemetryLogs :: "string \<Rightarrow> nat gtx" where
  "purge_telemetryLogs uid db =
     (let gone = \<lambda>r. tl_owner_user_id r = Some uid;
          ids = map tl_id (filter gone (telemetry_logs db))
      in (Inr (affected gone (telemetry_logs db)),
          db\<lparr>telemetry_logs := remaining gone (telemetry_logs db),
             recorder_archive_admissions :=
               remaining (\<lambda>r. ad_telemetry_log_id r \<in> set ids) (recorder_archive_admissions db)\<rparr>))"

definition purge_recorderArchiveMaterializations :: "string \<Rightarrow> nat gtx" where
  "purge_recorderArchiveMaterializations uid db =
     (let gone = \<lambda>r. ma_owner_user_id r = uid;
          ids = map ma_id (filter gone (recorder_archive_materializations db))
      in (Inr (affected gone (recorder_archive_materializations db)),
          db\<lparr>recorder_archive_materializations := remaining gone (recorder_archive_materializations db),
             recorder_archive_admissions :=
               remaining (\<lambda>r. ad_materialization_id r \<in> set ids) (recorder_archive_admissions db)\<rparr>))"

definition purge_policyArtifacts :: "string \<Rightarrow> nat gtx" where
  "purge_policyArtifacts uid db =
     (let gone = \<lambda>r. po_owner_user_id r = Some uid
      in (Inr (affected gone (policy_artifacts db)), db\<lparr>policy_artifacts := remaining gone (policy_artifacts db)\<rparr>))"

definition purge_replayArtifacts :: "string \<Rightarrow> nat gtx" where
  "purge_replayArtifacts uid db =
     (let gone = \<lambda>r. rp_owner_user_id r = Some uid
      in (Inr (affected gone (replay_artifacts db)), db\<lparr>replay_artifacts := remaining gone (replay_artifacts db)\<rparr>))"

definition purge_photoscanArtifacts :: "string \<Rightarrow> nat gtx" where
  "purge_photoscanArtifacts uid db =
     (let gone = \<lambda>r. ph_owner_user_id r = Some uid
      in (Inr (affected gone (photoscan_artifacts db)),
          db\<lparr>photoscan_artifacts := remaining gone (photoscan_artifacts db)\<rparr>))"

definition purge_jobs :: "string \<Rightarrow> nat gtx" where
  "purge_jobs uid db =
     (let gone = \<lambda>r. jb_owner_user_id r = Some uid;
          ids = map jb_id (filter gone (jobs db))
      in (Inr (affected gone (jobs db)),
          db\<lparr>jobs := remaining gone (jobs db),
             photoscan_artifacts := map (\<lambda>r. r\<lparr>ph_job_id := sever ids (ph_job_id r)\<rparr>) (photoscan_artifacts db),
             policy_artifacts := map (\<lambda>r. r\<lparr>po_job_id := sever ids (po_job_id r)\<rparr>) (policy_artifacts db),
             print_quote_requests := map (\<lambda>r. r\<lparr>qr_job_id := sever ids (qr_job_id r)\<rparr>) (print_quote_requests db)\<rparr>))"

definition purge_courses :: "string \<Rightarrow> nat gtx" where
  "purge_courses uid db =
     (let gone = \<lambda>r. co_owner_user_id r = Some uid;
          ids = owned_courses uid db
      in (Inr (affected gone (courses db)),
          db\<lparr>courses := remaining gone (courses db),
             leaderboard_runs := remaining (\<lambda>r. lb_course_id r \<in> set ids) (leaderboard_runs db),
             marketplace_listings :=
               map (\<lambda>r. r\<lparr>ml_course_id := sever ids (ml_course_id r)\<rparr>) (marketplace_listings db),
             classroom_assignments :=
               map (\<lambda>r. r\<lparr>as_course_id := sever ids (as_course_id r)\<rparr>) (classroom_assignments db)\<rparr>))"

definition purge_shareSnapshots :: "string \<Rightarrow> nat gtx" where
  "purge_shareSnapshots uid db =
     (let gone = \<lambda>r. sh_owner_user_id r = uid
      in (Inr (affected gone (share_snapshots db)), db\<lparr>share_snapshots := remaining gone (share_snapshots db)\<rparr>))"

definition sever_models :: "string list \<Rightarrow> gateway_db \<Rightarrow> gateway_db" where
  "sever_models ids db =
     db\<lparr>share_snapshots := remaining (\<lambda>r. sh_model_id r \<in> set ids) (share_snapshots db),
        recorder_archive_admissions := remaining (\<lambda>r. ad_model_id r \<in> set ids) (recorder_archive_admissions db),
        replay_artifacts := map (\<lambda>r. r\<lparr>rp_model_id := sever ids (rp_model_id r)\<rparr>) (replay_artifacts db),
        policy_artifacts := map (\<lambda>r. r\<lparr>po_model_id := sever ids (po_model_id r)\<rparr>) (policy_artifacts db),
        telemetry_logs := map (\<lambda>r. r\<lparr>tl_model_id := sever ids (tl_model_id r)\<rparr>) (telemetry_logs db),
        maintenance_records := map (\<lambda>r. r\<lparr>mn_model_id := sever ids (mn_model_id r)\<rparr>) (maintenance_records db),
        marketplace_listings := map (\<lambda>r. r\<lparr>ml_model_id := sever ids (ml_model_id r)\<rparr>) (marketplace_listings db),
        print_quote_requests := map (\<lambda>r. r\<lparr>qr_model_id := sever ids (qr_model_id r)\<rparr>) (print_quote_requests db),
        classroom_submissions := map (\<lambda>r. r\<lparr>su_model_id := sever ids (su_model_id r)\<rparr>) (classroom_submissions db),
        pattern_library := map (\<lambda>r. r\<lparr>pl_source_model_id := sever ids (pl_source_model_id r)\<rparr>) (pattern_library db)\<rparr>"

definition purge_models :: "string \<Rightarrow> nat gtx" where
  "purge_models uid db =
     (let gone = \<lambda>r. mr_owner_user_id r = Some uid
      in (Inr (affected gone (model_registry db)),
          (sever_models (owned_models uid db) db)\<lparr>model_registry := remaining gone (model_registry db)\<rparr>))"

definition purge_generatedArtifacts :: "string \<Rightarrow> nat gtx" where
  "purge_generatedArtifacts uid db =
     (let gone = \<lambda>r. ga_owner_user_id r = Some uid;
          ids = owned_generated uid db
      in (Inr (affected gone (generated_artifacts db)),
          db\<lparr>generated_artifacts := remaining gone (generated_artifacts db),
             model_registry := map (\<lambda>r. r\<lparr>mr_source_artifact_id := sever ids (mr_source_artifact_id r)\<rparr>) (model_registry db),
             pattern_library :=
               map (\<lambda>r. r\<lparr>pl_source_artifact_id := sever ids (pl_source_artifact_id r)\<rparr>) (pattern_library db)\<rparr>))"

definition purge_generationRefusals :: "string \<Rightarrow> nat gtx" where
  "purge_generationRefusals uid db =
     (let gone = \<lambda>r. rf_owner_user_id r = Some uid
      in (Inr (affected gone (generation_refusals db)),
          db\<lparr>generation_refusals := remaining gone (generation_refusals db)\<rparr>))"

definition purge_usageEvents :: "string \<Rightarrow> nat gtx" where
  "purge_usageEvents uid db =
     (let gone = \<lambda>r. us_user_id r = Some uid
      in (Inr (affected gone (usage_events db)), db\<lparr>usage_events := remaining gone (usage_events db)\<rparr>))"

definition purge_creditLedger :: "string \<Rightarrow> nat gtx" where
  "purge_creditLedger uid db =
     (let gone = \<lambda>r. cl_user_id r = uid
      in (Inr (affected gone (credit_ledger db)), db\<lparr>credit_ledger := remaining gone (credit_ledger db)\<rparr>))"

definition purge_creditAccounts :: "string \<Rightarrow> nat gtx" where
  "purge_creditAccounts uid db =
     (let gone = \<lambda>r. ca_user_id r = uid
      in (Inr (affected gone (credit_accounts db)), db\<lparr>credit_accounts := remaining gone (credit_accounts db)\<rparr>))"

definition purge_accounts :: "string \<Rightarrow> nat gtx" where
  "purge_accounts uid db =
     (let gone = \<lambda>r. ac_user_id r = uid
      in (Inr (affected gone (accounts db)), db\<lparr>accounts := remaining gone (accounts db)\<rparr>))"

definition purge_sessions :: "string \<Rightarrow> nat gtx" where
  "purge_sessions uid db =
     (let gone = \<lambda>r. se_user_id r = uid
      in (Inr (affected gone (sessions db)), db\<lparr>sessions := remaining gone (sessions db)\<rparr>))"

definition materialization_blobs :: "MaterializationRow \<Rightarrow> string list" where
  "materialization_blobs r =
     [ma_manifest_blob_id r, ma_frame_blob_id r, ma_index_blob_id r, ma_replay_blob_id r, ma_receipt_blob_id r]"

definition purge_objectBlobs :: "string \<Rightarrow> nat gtx" where
  "purge_objectBlobs uid db =
     (let gone = \<lambda>r. ob_owner_user_id r = Some uid;
          ids = map ob_id (filter gone (object_blobs db))
      in if list_ex (\<lambda>m. list_ex (\<lambda>b. b \<in> set ids) (materialization_blobs m)) (recorder_archive_materializations db)
         then (Inl (DbError ''update or delete on table object_blobs violates foreign key constraint''), db)
         else (Inr (affected gone (object_blobs db)),
               db\<lparr>object_blobs := remaining gone (object_blobs db),
                  photoscan_artifacts :=
                    map (\<lambda>r. r\<lparr>ph_artifact_blob_id := sever ids (ph_artifact_blob_id r)\<rparr>) (photoscan_artifacts db),
                  policy_artifacts :=
                    map (\<lambda>r. r\<lparr>po_artifact_blob_id := sever ids (po_artifact_blob_id r)\<rparr>) (policy_artifacts db),
                  print_quote_requests :=
                    map (\<lambda>r. r\<lparr>qr_artifact_blob_id := sever ids (qr_artifact_blob_id r)\<rparr>) (print_quote_requests db)\<rparr>))"

definition purgeSteps :: "(string \<times> (string \<Rightarrow> nat gtx)) list" where
  "purgeSteps =
     [(''consentEvents'', purge_consentEvents),
      (''patternContributions'', purge_patternContributions),
      (''policySignoffs'', purge_policySignoffs),
      (''moderationReports'', purge_moderationReports),
      (''classroomSubmissions'', purge_classroomSubmissions),
      (''classroomAssignments'', purge_classroomAssignments),
      (''marketplaceUsageRollups'', purge_marketplaceUsageRollups),
      (''marketplaceListings'', purge_marketplaceListings),
      (''printQuoteOffers'', purge_printQuoteOffers),
      (''printQuoteRequests'', purge_printQuoteRequests),
      (''leaderboardRuns'', purge_leaderboardRuns),
      (''maintenanceRecords'', purge_maintenanceRecords),
      (''recorderArchiveAdmissions'', purge_recorderArchiveAdmissions),
      (''telemetryLogs'', purge_telemetryLogs),
      (''recorderArchiveMaterializations'', purge_recorderArchiveMaterializations),
      (''policyArtifacts'', purge_policyArtifacts),
      (''replayArtifacts'', purge_replayArtifacts),
      (''photoscanArtifacts'', purge_photoscanArtifacts),
      (''jobs'', purge_jobs),
      (''courses'', purge_courses),
      (''shareSnapshots'', purge_shareSnapshots),
      (''models'', purge_models),
      (''generatedArtifacts'', purge_generatedArtifacts),
      (''generationRefusals'', purge_generationRefusals),
      (''usageEvents'', purge_usageEvents),
      (''creditLedger'', purge_creditLedger),
      (''creditAccounts'', purge_creditAccounts),
      (''accounts'', purge_accounts),
      (''sessions'', purge_sessions),
      (''objectBlobs'', purge_objectBlobs)]"

section \<open>The deletion\<close>

record AccountDeletionReceipt =
  rc_deletionId :: string
  rc_deletedAt :: int
  rc_tombstoneId :: string
  rc_backupDeleteAfter :: int
  rc_tombstoneExpiresAt :: int
  rc_objectTombstoneCount :: nat
  rc_counts :: "(string \<times> nat) list"

fun run_purgeSteps :: "(string \<times> (string \<Rightarrow> nat gtx)) list \<Rightarrow> string \<Rightarrow> (string \<times> nat) list gtx" where
  "run_purgeSteps [] uid = tx_return []"
| "run_purgeSteps ((key, step) # steps) uid =
     tx_bind (step uid) (\<lambda>n.
     tx_bind (run_purgeSteps steps uid) (\<lambda>counts. tx_return ((key, n) # counts)))"

definition stored_refs :: "string \<Rightarrow> gateway_db \<Rightarrow> (string \<times> string) list" where
  "stored_refs uid db =
     sort_key fst (sort_key snd (map (\<lambda>r. (ob_bucket r, ob_object_key r))
       (filter (\<lambda>r. ob_owner_user_id r = Some uid) (object_blobs db))))"

definition purge_tokens :: "string option \<Rightarrow> nat gtx" where
  "purge_tokens email db =
     (case email of
        None \<Rightarrow> (Inr 0, db)
      | Some e \<Rightarrow> if e = [] then (Inr 0, db)
          else (let gone = \<lambda>t. vt_identifier t = e
                in (Inr (affected gone (verification_tokens db)),
                    db\<lparr>verification_tokens := remaining gone (verification_tokens db)\<rparr>)))"

definition delete_user_row :: "string \<Rightarrow> nat gtx" where
  "delete_user_row uid db =
     (let gone = \<lambda>u. user_id u = uid
      in (Inr (affected gone (users db)), db\<lparr>users := remaining gone (users db)\<rparr>))"

definition deletion_body ::
  "sha_fun \<Rightarrow> (nat \<Rightarrow> string) \<Rightarrow> string \<Rightarrow> int \<Rightarrow> ((string \<times> string) list \<Rightarrow> gw_error + unit) \<Rightarrow> string
     \<Rightarrow> AccountDeletionReceipt gtx" where
  "deletion_body sha fresh deletionId now deleteObjects uid =
     tx_bind (tx_gets (\<lambda>db. find (\<lambda>u. user_id u = uid) (users db))) (\<lambda>account.
     case account of
       None \<Rightarrow> tx_throw (HttpError 404 ''account not found'')
     | Some row \<Rightarrow>
         tx_bind (tx_gets (stored_refs uid)) (\<lambda>blobs.
         tx_bind (prepareAccountDeletionLifecycle sha fresh now
             \<lparr>di_userId = uid, di_objectKeys = blobs, di_deletionId = deletionId\<rparr>) (\<lambda>lifecycle.
         tx_bind (run_purgeSteps purgeSteps uid) (\<lambda>counts.
         tx_bind (purge_tokens (user_email row)) (\<lambda>tokens.
         tx_bind (tx_lift (deleteObjects blobs)) (\<lambda>_.
         tx_bind (delete_user_row uid) (\<lambda>deleted.
         if deleted \<noteq> 1 then tx_throw (HttpError 409 ''account changed during deletion'')
         else tx_return
           \<lparr>rc_deletionId = deletionId, rc_deletedAt = now, rc_tombstoneId = dl_tombstoneId lifecycle,
            rc_backupDeleteAfter = dl_backupDeleteAfter lifecycle,
            rc_tombstoneExpiresAt = dl_tombstoneExpiresAt lifecycle,
            rc_objectTombstoneCount = dl_objectTombstoneCount lifecycle,
            rc_counts = counts @ [(''verificationTokens'', tokens), (''users'', 1)]\<rparr>)))))))"

definition deleteUserData ::
  "sha_fun \<Rightarrow> (nat \<Rightarrow> string) \<Rightarrow> string \<Rightarrow> string \<Rightarrow> int \<Rightarrow> ((string \<times> string) list \<Rightarrow> gw_error + unit)
     \<Rightarrow> CurrentUser \<Rightarrow> AccountDeletionReceipt gtx" where
  "deleteUserData sha fresh deletionId blockedId now deleteObjects user db =
     (case withGatewayTransaction (deletion_body sha fresh deletionId now deleteObjects (user_id user)) db of
        (Inr receipt, db') \<Rightarrow> (Inr receipt, db')
      | (Inl e, db') \<Rightarrow>
          (if error_code e = Some ''LEGAL_HOLD_ACTIVE''
           then (case recordLegalHoldBlockedDeletion sha blockedId (user_id user) now db' of
                   (Inl e', db'') \<Rightarrow> (Inl e', db'')
                 | (Inr _, db'') \<Rightarrow> (Inl e, db''))
           else (Inl e, db')))"

end
