(* ===== verification/Account_Purge.thy ===== *)
theory Account_Purge
  imports Account_Data
begin

text \<open>
  What the purge of an account (\<open>purgeSteps\<close> and \<open>deleteUserData\<close> of accountData.ts) does to every table:
  no row of the account is left, and the rows of the others stay.
\<close>

section \<open>Rows that name an account\<close>

text \<open>For every table with a column that refers to \<open>users\<close>: the step that purges it and the values of the
  column.\<close>

definition account_columns :: "((string \<Rightarrow> nat gtx) \<times> (gateway_db \<Rightarrow> string option list)) list" where
  "account_columns =
     [(purge_consentEvents, \<lambda>db. map (\<lambda>r. Some (cr_owner_user_id r)) (user_consent_events db)),
      (purge_patternContributions, \<lambda>db. map pl_owner_user_id (pattern_library db)),
      (purge_policySignoffs, \<lambda>db. map sg_owner_user_id (policy_signoffs db)),
      (purge_moderationReports, \<lambda>db. map mo_reporter_user_id (moderation_reports db)),
      (purge_classroomSubmissions, \<lambda>db. map su_student_user_id (classroom_submissions db)),
      (purge_classroomAssignments, \<lambda>db. map as_owner_user_id (classroom_assignments db)),
      (purge_marketplaceListings, \<lambda>db. map ml_owner_user_id (marketplace_listings db)),
      (purge_printQuoteRequests, \<lambda>db. map qr_owner_user_id (print_quote_requests db)),
      (purge_leaderboardRuns, \<lambda>db. map lb_user_id (leaderboard_runs db)),
      (purge_maintenanceRecords, \<lambda>db. map mn_owner_user_id (maintenance_records db)),
      (purge_recorderArchiveAdmissions, \<lambda>db. map (\<lambda>r. Some (ad_owner_user_id r)) (recorder_archive_admissions db)),
      (purge_telemetryLogs, \<lambda>db. map tl_owner_user_id (telemetry_logs db)),
      (purge_recorderArchiveMaterializations,
         \<lambda>db. map (\<lambda>r. Some (ma_owner_user_id r)) (recorder_archive_materializations db)),
      (purge_policyArtifacts, \<lambda>db. map po_owner_user_id (policy_artifacts db)),
      (purge_replayArtifacts, \<lambda>db. map rp_owner_user_id (replay_artifacts db)),
      (purge_photoscanArtifacts, \<lambda>db. map ph_owner_user_id (photoscan_artifacts db)),
      (purge_jobs, \<lambda>db. map jb_owner_user_id (jobs db)),
      (purge_courses, \<lambda>db. map co_owner_user_id (courses db)),
      (purge_shareSnapshots, \<lambda>db. map (\<lambda>r. Some (sh_owner_user_id r)) (share_snapshots db)),
      (purge_models, \<lambda>db. map mr_owner_user_id (model_registry db)),
      (purge_generatedArtifacts, \<lambda>db. map ga_owner_user_id (generated_artifacts db)),
      (purge_generationRefusals, \<lambda>db. map rf_owner_user_id (generation_refusals db)),
      (purge_usageEvents, \<lambda>db. map us_user_id (usage_events db)),
      (purge_creditLedger, \<lambda>db. map (\<lambda>r. Some (cl_user_id r)) (credit_ledger db)),
      (purge_creditAccounts, \<lambda>db. map (\<lambda>r. Some (ca_user_id r)) (credit_accounts db)),
      (purge_accounts, \<lambda>db. map (\<lambda>r. Some (ac_user_id r)) (accounts db)),
      (purge_sessions, \<lambda>db. map (\<lambda>r. Some (se_user_id r)) (sessions db)),
      (purge_objectBlobs, \<lambda>db. map ob_owner_user_id (object_blobs db))]"

definition purged :: "string \<Rightarrow> gateway_db \<Rightarrow> bool" where
  "purged uid db \<longleftrightarrow> list_all (\<lambda>c. Some uid \<notin> set (snd c db)) account_columns"

lemmas purge_defs =
  purge_consentEvents_def purge_patternContributions_def purge_policySignoffs_def purge_moderationReports_def
  purge_classroomSubmissions_def purge_classroomAssignments_def purge_marketplaceUsageRollups_def
  purge_marketplaceListings_def purge_printQuoteOffers_def purge_printQuoteRequests_def purge_leaderboardRuns_def
  purge_maintenanceRecords_def purge_recorderArchiveAdmissions_def purge_telemetryLogs_def
  purge_recorderArchiveMaterializations_def purge_policyArtifacts_def purge_replayArtifacts_def
  purge_photoscanArtifacts_def purge_jobs_def purge_courses_def purge_shareSnapshots_def purge_models_def
  purge_generatedArtifacts_def purge_generationRefusals_def purge_usageEvents_def purge_creditLedger_def
  purge_creditAccounts_def purge_accounts_def purge_sessions_def purge_objectBlobs_def sever_models_def

text \<open>Every step deletes what its table holds of the account.\<close>

lemma remaining_none: "(\<And>r. f r = x \<Longrightarrow> P r) \<Longrightarrow> x \<notin> f ` set (remaining P rows)"
  by (auto simp: remaining_def)

lemma step_clears:
  assumes "(step, column) \<in> set account_columns" and "step uid db = (Inr n, db')"
  shows "Some uid \<notin> set (column db')"
proof -
  have "list_all (\<lambda>(step, column). step uid db = (Inr n, db') \<longrightarrow> Some uid \<notin> set (column db')) account_columns"
    unfolding account_columns_def list.pred_inject prod.case
    by (intro conjI impI TrueI; clarsimp simp: purge_defs Let_def remaining_def listing_of_account_def quote_of_account_def
        split: if_splits)
  with assms show ?thesis by (auto simp: list_all_iff)
qed

text \<open>No step brings back a row of any account.\<close>

definition shrinks :: "gateway_db \<Rightarrow> gateway_db \<Rightarrow> bool" where
  "shrinks db db' \<longleftrightarrow> list_all (\<lambda>c. set (snd c db') \<subseteq> set (snd c db)) account_columns"

lemma remaining_subset: "f ` set (remaining P rows) \<subseteq> f ` set rows"
  by (auto simp: remaining_def)

lemma same_owner_subset: "(\<And>r. f (g r) = f r) \<Longrightarrow> f ` set (map g rows) \<subseteq> f ` set rows"
  by auto

lemma purge_shrinks:
  assumes "(key, step) \<in> set purgeSteps" and "step uid db = (Inr n, db')"
  shows "shrinks db db'"
proof -
  have "list_all (\<lambda>(key, step). step uid db = (Inr n, db') \<longrightarrow> shrinks db db') purgeSteps"
    unfolding purgeSteps_def list.pred_inject prod.case
    by (intro conjI impI TrueI; clarsimp simp: purge_defs Let_def shrinks_def account_columns_def remaining_subset
        same_owner_subset image_image split: if_splits)
  with assms show ?thesis by (auto simp: list_all_iff)
qed


lemma shrinks_refl: "shrinks db db"
  by (simp add: shrinks_def list_all_iff)

lemma shrinks_trans: "shrinks s t \<Longrightarrow> shrinks t u \<Longrightarrow> shrinks s u"
  unfolding shrinks_def list_all_iff by (meson subset_trans)

lemma shrinks_purged: "shrinks db db' \<Longrightarrow> c \<in> set account_columns \<Longrightarrow> Some uid \<notin> set (snd c db) \<Longrightarrow> Some uid \<notin> set (snd c db')"
  unfolding shrinks_def list_all_iff by blast

lemma run_purgeSteps_shrinks:
  assumes "run_purgeSteps steps uid db = (Inr counts, db')" and "set steps \<subseteq> set purgeSteps"
  shows "shrinks db db'"
  using assms
proof (induction steps uid arbitrary: db counts rule: run_purgeSteps.induct)
  case (1 uid)
  then show ?case by (simp add: shrinks_refl)
next
  case (2 key step steps uid)
  from "2.prems"(1) obtain n mid counts' where step: "step uid db = (Inr n, mid)"
    and rest: "run_purgeSteps steps uid mid = (Inr counts', db')" by (auto simp: txE)
  from "2.prems"(2) have "(key, step) \<in> set purgeSteps" "set steps \<subseteq> set purgeSteps" by auto
  with step rest "2.IH" have "shrinks db mid" "shrinks mid db'" by (simp_all add: purge_shrinks)
  then show ?case by (rule shrinks_trans)
qed

lemma run_purgeSteps_clears:
  assumes "run_purgeSteps steps uid db = (Inr counts, db')" and "set steps \<subseteq> set purgeSteps"
    and "(key, step) \<in> set steps" and "(step, column) \<in> set account_columns"
  shows "Some uid \<notin> set (column db')"
  using assms
proof (induction steps uid arbitrary: db counts rule: run_purgeSteps.induct)
  case (1 uid)
  then show ?case by simp
next
  case (2 key' step' steps uid)
  from "2.prems"(1) obtain n mid counts' where step: "step' uid db = (Inr n, mid)"
    and rest: "run_purgeSteps steps uid mid = (Inr counts', db')" by (auto simp: txE)
  show ?case
  proof (cases "(key, step) \<in> set steps")
    case True
    with "2.IH" [OF rest] "2.prems"(2,4) show ?thesis by simp
  next
    case False
    with "2.prems"(3,4) step have "Some uid \<notin> set (column mid)" by (auto dest: step_clears)
    moreover have "shrinks mid db'" using rest "2.prems"(2) by (auto intro: run_purgeSteps_shrinks)
    ultimately show ?thesis using shrinks_purged [of mid db' "(step, column)"] "2.prems"(4) by simp
  qed
qed

lemma account_columns_purged: "fst ` set account_columns \<subseteq> snd ` set purgeSteps"
  unfolding account_columns_def purgeSteps_def by simp

lemma run_purgeSteps_purged:
  assumes "run_purgeSteps purgeSteps uid db = (Inr counts, db')"
  shows "purged uid db'"
  unfolding purged_def list_all_iff
proof
  fix c assume c: "c \<in> set account_columns"
  with account_columns_purged obtain key where "(key, fst c) \<in> set purgeSteps" by fastforce
  with c show "Some uid \<notin> set (snd c db')"
    using run_purgeSteps_clears [OF assms order_refl, of key "fst c" "snd c"] by simp
qed

section \<open>Rows of the others\<close>

text \<open>What a deletion has to leave alone: the rows of other accounts, except those that hang on a row of the
  account (runs on its courses, submissions to its assignments, listings, quotes, snapshots and admissions of
  its models, its generated artifacts, telemetry or archives). Of the tables whose references may be cleared, the
  rows up to those references. \<open>before\<close> is the database at the start.\<close>

definition account_telemetry :: "string \<Rightarrow> gateway_db \<Rightarrow> string list" where
  "account_telemetry uid db = map tl_id (filter (\<lambda>r. tl_owner_user_id r = Some uid) (telemetry_logs db))"

definition account_archives :: "string \<Rightarrow> gateway_db \<Rightarrow> string list" where
  "account_archives uid db = map ma_id (filter (\<lambda>r. ma_owner_user_id r = uid) (recorder_archive_materializations db))"

definition kept_tables where
  "kept_tables uid db =
     (filter (\<lambda>r. cr_owner_user_id r \<noteq> uid) (user_consent_events db),
      filter (\<lambda>r. sg_owner_user_id r \<noteq> Some uid) (policy_signoffs db),
      filter (\<lambda>r. mo_reporter_user_id r \<noteq> Some uid) (moderation_reports db),
      filter (\<lambda>r. jb_owner_user_id r \<noteq> Some uid) (jobs db),
      filter (\<lambda>r. co_owner_user_id r \<noteq> Some uid) (courses db),
      filter (\<lambda>r. ga_owner_user_id r \<noteq> Some uid) (generated_artifacts db),
      filter (\<lambda>r. rf_owner_user_id r \<noteq> Some uid) (generation_refusals db),
      filter (\<lambda>r. us_user_id r \<noteq> Some uid) (usage_events db),
      filter (\<lambda>r. cl_user_id r \<noteq> uid) (credit_ledger db),
      filter (\<lambda>r. ca_user_id r \<noteq> uid) (credit_accounts db),
      filter (\<lambda>r. ac_user_id r \<noteq> uid) (accounts db),
      filter (\<lambda>r. se_user_id r \<noteq> uid) (sessions db),
      filter (\<lambda>r. ob_owner_user_id r \<noteq> Some uid) (object_blobs db),
      filter (\<lambda>r. ma_owner_user_id r \<noteq> uid) (recorder_archive_materializations db),
      legal_hold_events db, backup_records db, backup_subjects db, backup_restore_tests db,
      platform_gate_signoffs db, vendor_offers db)"

definition kept_rows where
  "kept_rows uid db =
     (map (mr_source_artifact_id_update (\<lambda>_. None)) (filter (\<lambda>r. mr_owner_user_id r \<noteq> Some uid) (model_registry db)),
      map (\<lambda>r. r\<lparr>ph_job_id := None, ph_artifact_blob_id := None\<rparr>)
        (filter (\<lambda>r. ph_owner_user_id r \<noteq> Some uid) (photoscan_artifacts db)),
      map (\<lambda>r. r\<lparr>po_job_id := None, po_model_id := None, po_artifact_blob_id := None\<rparr>)
        (filter (\<lambda>r. po_owner_user_id r \<noteq> Some uid) (policy_artifacts db)),
      map (\<lambda>r. r\<lparr>rp_model_id := None\<rparr>) (filter (\<lambda>r. rp_owner_user_id r \<noteq> Some uid) (replay_artifacts db)),
      map (\<lambda>r. r\<lparr>tl_model_id := None\<rparr>) (filter (\<lambda>r. tl_owner_user_id r \<noteq> Some uid) (telemetry_logs db)),
      map (\<lambda>r. r\<lparr>mn_model_id := None\<rparr>) (filter (\<lambda>r. mn_owner_user_id r \<noteq> Some uid) (maintenance_records db)),
      map (\<lambda>r. r\<lparr>as_course_id := None\<rparr>) (filter (\<lambda>r. as_owner_user_id r \<noteq> Some uid) (classroom_assignments db)))"

definition kept_dependents where
  "kept_dependents uid before db =
     (filter (\<lambda>r. lb_user_id r \<noteq> Some uid \<and> lb_course_id r \<notin> set (owned_courses uid before)) (leaderboard_runs db),
      map (\<lambda>r. r\<lparr>su_model_id := None\<rparr>) (filter (\<lambda>r. su_student_user_id r \<noteq> Some uid
        \<and> su_assignment_id r \<notin> set (owned_assignments uid before)) (classroom_submissions db)),
      filter (\<lambda>r. sh_owner_user_id r \<noteq> uid \<and> sh_model_id r \<notin> set (owned_models uid before)) (share_snapshots db),
      filter (\<lambda>r. ad_owner_user_id r \<noteq> uid \<and> ad_model_id r \<notin> set (owned_models uid before)
        \<and> ad_telemetry_log_id r \<notin> set (account_telemetry uid before)
        \<and> ad_materialization_id r \<notin> set (account_archives uid before)) (recorder_archive_admissions db))"

text \<open>What the account owns only ever becomes less.\<close>

definition owns_within :: "string \<Rightarrow> gateway_db \<Rightarrow> gateway_db \<Rightarrow> bool" where
  "owns_within uid before db \<longleftrightarrow>
     set (owned_models uid db) \<subseteq> set (owned_models uid before) \<and> set (owned_courses uid db) \<subseteq> set (owned_courses uid before)
     \<and> set (owned_assignments uid db) \<subseteq> set (owned_assignments uid before)
     \<and> set (account_telemetry uid db) \<subseteq> set (account_telemetry uid before)
     \<and> set (account_archives uid db) \<subseteq> set (account_archives uid before)"

lemma filter_remaining: "(\<And>r. P r \<Longrightarrow> \<not> Q r) \<Longrightarrow> filter P (remaining Q rows) = filter P rows"
  by (induction rows) (auto simp: remaining_def)

lemma filter_map_same: "(\<And>r. P (g r) = P r) \<Longrightarrow> filter P (map g rows) = map g (filter P rows)"
  by (induction rows) auto

lemma owned_remaining: "set (map f (filter P (remaining Q rows))) \<subseteq> set (map f (filter P rows))"
  by (auto simp: remaining_def)

lemma purge_keeps_tables:
  assumes "(key, step) \<in> set purgeSteps" and "step uid db = (Inr n, db')"
  shows "kept_tables uid db' = kept_tables uid db"
proof -
  have "list_all (\<lambda>(key, step). step uid db = (Inr n, db') \<longrightarrow> kept_tables uid db' = kept_tables uid db) purgeSteps"
    unfolding purgeSteps_def list.pred_inject prod.case
    by (intro conjI impI TrueI; clarsimp simp: purge_defs Let_def kept_tables_def filter_remaining split: if_splits)
  with assms show ?thesis by (auto simp: list_all_iff)
qed

lemma purge_keeps_rows:
  assumes "(key, step) \<in> set purgeSteps" and "step uid db = (Inr n, db')"
  shows "kept_rows uid db' = kept_rows uid db"
proof -
  have "list_all (\<lambda>(key, step). step uid db = (Inr n, db') \<longrightarrow> kept_rows uid db' = kept_rows uid db) purgeSteps"
    unfolding purgeSteps_def list.pred_inject prod.case
    by (intro conjI impI TrueI; clarsimp simp: purge_defs Let_def kept_rows_def filter_remaining filter_map_same comp_def
        split: if_splits)
  with assms show ?thesis by (auto simp: list_all_iff)
qed


lemma purge_owns_within:
  assumes "(key, step) \<in> set purgeSteps" and "step uid db = (Inr n, db')"
  shows "owns_within uid db db'"
proof -
  have "list_all (\<lambda>(key, step). step uid db = (Inr n, db') \<longrightarrow> owns_within uid db db') purgeSteps"
    unfolding purgeSteps_def list.pred_inject prod.case
    by (intro conjI impI TrueI; clarsimp simp: purge_defs Let_def owns_within_def owned_models_def owned_courses_def
        owned_assignments_def account_telemetry_def account_archives_def filter_map_same comp_def remaining_def split: if_splits)
  with assms show ?thesis by (auto simp: list_all_iff)
qed

lemma purge_keeps_dependents:
  assumes "(key, step) \<in> set purgeSteps" and "step uid db = (Inr n, db')" and "owns_within uid before db"
  shows "kept_dependents uid before db' = kept_dependents uid before db"
proof -
  have "list_all (\<lambda>(key, step). step uid db = (Inr n, db') \<longrightarrow>
      kept_dependents uid before db' = kept_dependents uid before db) purgeSteps"
    unfolding purgeSteps_def list.pred_inject prod.case
    by (intro conjI impI TrueI; insert assms(3); clarsimp simp: purge_defs Let_def kept_dependents_def filter_map_same comp_def
        owns_within_def account_telemetry_def account_archives_def split: if_splits;
        (intro conjI)?; (rule filter_remaining | rule arg_cong [where f = "map _"], rule filter_remaining); auto)
  with assms show ?thesis by (auto simp: list_all_iff)
qed


lemma owns_within_trans: "owns_within uid s t \<Longrightarrow> owns_within uid t u \<Longrightarrow> owns_within uid s u"
  unfolding owns_within_def by blast

lemma owns_within_refl: "owns_within uid s s"
  by (simp add: owns_within_def)

lemma run_purgeSteps_keeps:
  assumes "run_purgeSteps steps uid db = (Inr counts, db')" and "set steps \<subseteq> set purgeSteps" and "owns_within uid before db"
  shows "kept_tables uid db' = kept_tables uid db \<and> kept_rows uid db' = kept_rows uid db
    \<and> kept_dependents uid before db' = kept_dependents uid before db"
  using assms
proof (induction steps uid arbitrary: db counts rule: run_purgeSteps.induct)
  case (1 uid)
  then show ?case by simp
next
  case (2 key step steps uid)
  from "2.prems"(1) obtain n mid counts' where step: "step uid db = (Inr n, mid)"
    and rest: "run_purgeSteps steps uid mid = (Inr counts', db')" by (auto simp: txE)
  from "2.prems"(2) have key: "(key, step) \<in> set purgeSteps" and steps: "set steps \<subseteq> set purgeSteps" by auto
  have "owns_within uid before mid"
    using "2.prems"(3) purge_owns_within [OF key step] by (rule owns_within_trans)
  with "2.IH" rest steps purge_keeps_tables [OF key step] purge_keeps_rows [OF key step]
    purge_keeps_dependents [OF key step "2.prems"(3)]
  show ?case by simp
qed

section \<open>Tables outside the purge\<close>

definition unpurged where
  "unpurged db = (hold_sequence db, transactional db, commit_accepted db, users db, verification_tokens db, deletion_tombstones db, data_lifecycle_events db)"

lemma purge_unpurged:
  assumes "(key, step) \<in> set purgeSteps" and "step uid db = (Inr n, db')"
  shows "unpurged db' = unpurged db"
proof -
  have "list_all (\<lambda>(key, step). step uid db = (Inr n, db') \<longrightarrow> unpurged db' = unpurged db) purgeSteps"
    unfolding purgeSteps_def list.pred_inject prod.case
    by (intro conjI impI TrueI; clarsimp simp: purge_defs Let_def unpurged_def split: if_splits)
  with assms show ?thesis by (auto simp: list_all_iff)
qed

lemma run_purgeSteps_unpurged:
  assumes "run_purgeSteps steps uid db = (Inr counts, db')" and "set steps \<subseteq> set purgeSteps"
  shows "unpurged db' = unpurged db \<and> map fst counts = map fst steps"
  using assms
proof (induction steps uid arbitrary: db counts rule: run_purgeSteps.induct)
  case (1 uid)
  then show ?case by simp
next
  case (2 key step steps uid)
  from "2.prems"(1) obtain n mid counts' where step: "step uid db = (Inr n, mid)"
    and rest: "run_purgeSteps steps uid mid = (Inr counts', db')" and "counts = (key, n) # counts'" by (auto simp: txE)
  moreover from "2.prems"(2) have "(key, step) \<in> set purgeSteps" "set steps \<subseteq> set purgeSteps" by auto
  ultimately show ?case using "2.IH" purge_unpurged [of key step] by simp
qed

section \<open>The whole deletion\<close>

definition account_deletion :: "string \<Rightarrow> string \<Rightarrow> gateway_db \<Rightarrow> DeletionInput" where
  "account_deletion deletionId uid db =
     \<lparr>di_userId = uid, di_objectKeys = stored_refs uid db, di_deletionId = deletionId\<rparr>"

definition drop_tokens :: "string option \<Rightarrow> TokenRow list \<Rightarrow> TokenRow list" where
  "drop_tokens email rows = (case email of None \<Rightarrow> rows | Some e \<Rightarrow> if e = [] then rows else remaining (\<lambda>t. vt_identifier t = e) rows)"

lemma purge_tokens_run:
  "purge_tokens email db = (Inr (length (verification_tokens db) - length (drop_tokens email (verification_tokens db))),
     db\<lparr>verification_tokens := drop_tokens email (verification_tokens db)\<rparr>)"
proof -
  have "affected P rows = length rows - length (remaining P rows)" for P and rows :: "TokenRow list"
    using sum_length_filter_compl [of P rows] by (simp add: affected_def remaining_def)
  then show ?thesis by (simp add: purge_tokens_def drop_tokens_def Let_def split: option.split)
qed

lemma deleteUserData_Inr:
  assumes "deleteUserData sha fresh deletionId blockedId now deleteObjects user db = (Inr receipt, db')"
  obtains row lifecycle mid counts post where
    "find (\<lambda>u. user_id u = user_id user) (users db) = Some row"
    and "prepareAccountDeletionLifecycle sha fresh now (account_deletion deletionId (user_id user) db) db = (Inr lifecycle, mid)"
    and "run_purgeSteps purgeSteps (user_id user) mid = (Inr counts, post)"
    and "deleteObjects (stored_refs (user_id user) db) = Inr ()"
    and "length (filter (\<lambda>u. user_id u = user_id user) (users db)) = 1"
    and "db' = post\<lparr>verification_tokens := drop_tokens (user_email row) (verification_tokens post),
                   users := remaining (\<lambda>u. user_id u = user_id user) (users post)\<rparr>"
    and "map fst (rc_counts receipt) = map fst counts @ [''verificationTokens'', ''users'']"
proof -
  have tx: "deletion_body sha fresh deletionId now deleteObjects (user_id user) db = (Inr receipt, db')"
    using assms by (auto simp: deleteUserData_def withGatewayTransaction_Inr split: prod.splits sum.splits if_splits)
  then obtain row where row: "find (\<lambda>u. user_id u = user_id user) (users db) = Some row"
    by (auto simp: deletion_body_def txE split: option.splits)
  with tx obtain lifecycle mid counts post where
    prep: "prepareAccountDeletionLifecycle sha fresh now (account_deletion deletionId (user_id user) db) db = (Inr lifecycle, mid)"
    and purge: "run_purgeSteps purgeSteps (user_id user) mid = (Inr counts, post)"
    and objs: "deleteObjects (stored_refs (user_id user) db) = Inr ()"
    and one: "affected (\<lambda>u. user_id u = user_id user) (users post) = 1"
    and db': "db' = post\<lparr>verification_tokens := drop_tokens (user_email row) (verification_tokens post),
                   users := remaining (\<lambda>u. user_id u = user_id user) (users post)\<rparr>"
    and keys: "map fst (rc_counts receipt) = map fst counts @ [''verificationTokens'', ''users'']"
    by (auto simp: deletion_body_def txE purge_tokens_run delete_user_row_def Let_def account_deletion_def split: if_splits)
  obtain ts ev where "mid = db\<lparr>deletion_tombstones := deletion_tombstones db @ ts,
      data_lifecycle_events := data_lifecycle_events db @ [ev]\<rparr>"
    using prep by (rule prepareAccountDeletion_Inr)
  then have "users post = users db"
    using run_purgeSteps_unpurged [OF purge order_refl] by (simp add: unpurged_def)
  with one have "length (filter (\<lambda>u. user_id u = user_id user) (users db)) = 1" by (simp add: affected_def)
  with row prep purge objs db' keys show ?thesis using that by blast
qed

lemma prepared_owns:
  assumes "prepareAccountDeletionLifecycle sha fresh now input db = (Inr lifecycle, mid)"
  shows "owns_within uid db mid \<and> kept_tables uid mid = kept_tables uid db \<and> kept_rows uid mid = kept_rows uid db
    \<and> kept_dependents uid db mid = kept_dependents uid db db \<and> users mid = users db
    \<and> verification_tokens mid = verification_tokens db"
proof -
  obtain ts ev where "mid = db\<lparr>deletion_tombstones := deletion_tombstones db @ ts,
      data_lifecycle_events := data_lifecycle_events db @ [ev]\<rparr>"
    using assms by (rule prepareAccountDeletion_Inr)
  then show ?thesis
    by (simp add: owns_within_def owned_models_def owned_courses_def owned_assignments_def account_telemetry_def
        account_archives_def kept_tables_def kept_rows_def kept_dependents_def)
qed

lemma deleteUserData_keeps:
  assumes "deleteUserData sha fresh deletionId blockedId now deleteObjects user db = (Inr receipt, db')"
  shows "kept_tables (user_id user) db' = kept_tables (user_id user) db"
    and "kept_rows (user_id user) db' = kept_rows (user_id user) db"
    and "kept_dependents (user_id user) db db' = kept_dependents (user_id user) db db"
    and "purged (user_id user) db'"
    and "users db' = remaining (\<lambda>u. user_id u = user_id user) (users db)"
proof -
  let ?uid = "user_id user"
  obtain row :: CurrentUser and lifecycle mid counts post where
    prep: "prepareAccountDeletionLifecycle sha fresh now (account_deletion deletionId ?uid db) db = (Inr lifecycle, mid)"
    and purge: "run_purgeSteps purgeSteps ?uid mid = (Inr counts, post)"
    and db': "db' = post\<lparr>verification_tokens := drop_tokens (user_email row) (verification_tokens post),
                   users := remaining (\<lambda>u. user_id u = ?uid) (users post)\<rparr>"
    by (rule deleteUserData_Inr [OF assms]) blast
  note keeps = run_purgeSteps_keeps [OF purge order_refl, of db] and prepared = prepared_owns [OF prep, of ?uid]
  have "kept_tables ?uid db' = kept_tables ?uid post" "kept_rows ?uid db' = kept_rows ?uid post"
    "kept_dependents ?uid db db' = kept_dependents ?uid db post"
    by (simp_all add: db' kept_tables_def kept_rows_def kept_dependents_def)
  with keeps prepared show "kept_tables ?uid db' = kept_tables ?uid db" "kept_rows ?uid db' = kept_rows ?uid db"
    "kept_dependents ?uid db db' = kept_dependents ?uid db db" by simp_all
  have "purged ?uid post" using purge by (rule run_purgeSteps_purged)
  then show "purged ?uid db'" by (simp add: purged_def account_columns_def db')
  show "users db' = remaining (\<lambda>u. user_id u = ?uid) (users db)"
    using run_purgeSteps_unpurged [OF purge order_refl] prepared by (simp add: db' unpurged_def)
qed

text \<open>A deletion that fails leaves the database as it was, or adds the audit event of a blocked deletion.\<close>

lemma deleteUserData_Inl:
  assumes "deleteUserData sha fresh deletionId blockedId now deleteObjects user db = (Inl e, db')"
  shows "db' = db \<or> (\<exists>ev. le_event_type ev = ''legal-hold-blocked'' \<and> le_id ev = blockedId
    \<and> db' = db\<lparr>data_lifecycle_events := data_lifecycle_events db @ [ev]\<rparr>)"
proof -
  obtain r t where tx: "withGatewayTransaction (deletion_body sha fresh deletionId now deleteObjects (user_id user)) db = (r, t)"
    by fastforce
  with assms obtain e' where r: "r = Inl e'" by (cases r) (auto simp: deleteUserData_def)
  with tx have t: "t = db" by (auto dest: withGatewayTransaction_Inl)
  show ?thesis
  proof (cases "error_code e' = Some ''LEGAL_HOLD_ACTIVE''")
    case False
    with assms tx r t show ?thesis by (simp add: deleteUserData_def)
  next
    case True
    obtain r2 u where rec: "recordLegalHoldBlockedDeletion sha blockedId (user_id user) now db = (r2, u)" by fastforce
    with True assms tx r t have "db' = u" by (cases r2) (simp_all add: deleteUserData_def)
    show ?thesis
    proof (cases r2)
      case (Inl e2)
      with rec \<open>db' = u\<close> show ?thesis
        by (auto simp: recordLegalHoldBlockedDeletion_def tx_bind_run tx_update_run split: sum.splits)
    next
      case (Inr _)
      with rec have "recordLegalHoldBlockedDeletion sha blockedId (user_id user) now db = (Inr (), u)" by simp
      then obtain ev where "le_event_type ev = ''legal-hold-blocked''" "le_id ev = blockedId"
        "insert_lifecycle_event ev db = Inr u"
        unfolding recordLegalHoldBlockedDeletion_def txE by force
      with \<open>db' = u\<close> show ?thesis by (auto simp: insert_lifecycle_event_Inr)
    qed
  qed
qed


text \<open>After the lifecycle records are written, the purge leaves backups and tombstones alone.\<close>

lemma deleteUserData_lifecycle:
  assumes "deleteUserData sha fresh deletionId blockedId now deleteObjects user db = (Inr receipt, db')"
  obtains lifecycle mid where
    "prepareAccountDeletionLifecycle sha fresh now (account_deletion deletionId (user_id user) db) db = (Inr lifecycle, mid)"
    and "backup_records db' = backup_records mid" and "backup_subjects db' = backup_subjects mid"
    and "deletion_tombstones db' = deletion_tombstones mid" and "data_lifecycle_events db' = data_lifecycle_events mid"
proof -
  let ?uid = "user_id user"
  obtain row :: CurrentUser and lifecycle mid counts post where
    prep: "prepareAccountDeletionLifecycle sha fresh now (account_deletion deletionId ?uid db) db = (Inr lifecycle, mid)"
    and purge: "run_purgeSteps purgeSteps ?uid mid = (Inr counts, post)"
    and db': "db' = post\<lparr>verification_tokens := drop_tokens (user_email row) (verification_tokens post),
                   users := remaining (\<lambda>u. user_id u = ?uid) (users post)\<rparr>"
    by (rule deleteUserData_Inr [OF assms]) blast
  have "kept_tables ?uid post = kept_tables ?uid mid"
    using run_purgeSteps_keeps [OF purge order_refl owns_within_refl] by simp
  with run_purgeSteps_unpurged [OF purge order_refl] prep show ?thesis
    by (intro that) (simp_all add: db' kept_tables_def unpurged_def)
qed

lemma deleteUserData_sequence:
  assumes "deleteUserData sha fresh deletionId blockedId now deleteObjects user db = (Inr receipt, db')"
  shows "hold_sequence db' = hold_sequence db"
proof -
  let ?uid = "user_id user"
  obtain row :: CurrentUser and lifecycle mid counts post where
    prep: "prepareAccountDeletionLifecycle sha fresh now (account_deletion deletionId ?uid db) db = (Inr lifecycle, mid)"
    and purge: "run_purgeSteps purgeSteps ?uid mid = (Inr counts, post)"
    and db': "db' = post\<lparr>verification_tokens := drop_tokens (user_email row) (verification_tokens post),
                   users := remaining (\<lambda>u. user_id u = ?uid) (users post)\<rparr>"
    by (rule deleteUserData_Inr [OF assms]) blast
  from prep have "hold_sequence mid = hold_sequence db" by (rule prepareAccountDeletion_Inr) simp
  with run_purgeSteps_unpurged [OF purge order_refl] show ?thesis by (simp add: db' unpurged_def)
qed

text \<open>A table that a purged account has no row in is the table of the others.\<close>

lemma all_others: "x \<notin> set (map f rows) \<Longrightarrow> filter (\<lambda>r. f r \<noteq> x) rows = rows"
  by (induction rows) auto

lemma deleteUserData_tables:
  assumes "deleteUserData sha fresh deletionId blockedId now deleteObjects user db = (Inr receipt, db')"
  shows "credit_ledger db' = filter (\<lambda>r. cl_user_id r \<noteq> user_id user) (credit_ledger db)"
    and "credit_accounts db' = filter (\<lambda>r. ca_user_id r \<noteq> user_id user) (credit_accounts db)"
    and "jobs db' = filter (\<lambda>r. jb_owner_user_id r \<noteq> Some (user_id user)) (jobs db)"
    and "user_consent_events db' = filter (\<lambda>r. cr_owner_user_id r \<noteq> user_id user) (user_consent_events db)"
    and "object_blobs db' = filter (\<lambda>r. ob_owner_user_id r \<noteq> Some (user_id user)) (object_blobs db)"
proof -
  note keeps = deleteUserData_keeps [OF assms]
  have "user_id user \<notin> set (map cl_user_id (credit_ledger db'))" "user_id user \<notin> set (map ca_user_id (credit_accounts db'))"
    "Some (user_id user) \<notin> set (map jb_owner_user_id (jobs db'))"
    "user_id user \<notin> set (map cr_owner_user_id (user_consent_events db'))"
    "Some (user_id user) \<notin> set (map ob_owner_user_id (object_blobs db'))"
    using keeps(4) by (auto simp: purged_def account_columns_def)
  note others = this [THEN all_others]
  from keeps(1) show "credit_ledger db' = filter (\<lambda>r. cl_user_id r \<noteq> user_id user) (credit_ledger db)"
    "credit_accounts db' = filter (\<lambda>r. ca_user_id r \<noteq> user_id user) (credit_accounts db)"
    "jobs db' = filter (\<lambda>r. jb_owner_user_id r \<noteq> Some (user_id user)) (jobs db)"
    "user_consent_events db' = filter (\<lambda>r. cr_owner_user_id r \<noteq> user_id user) (user_consent_events db)"
    "object_blobs db' = filter (\<lambda>r. ob_owner_user_id r \<noteq> Some (user_id user)) (object_blobs db)"
    unfolding kept_tables_def prod.inject others by simp_all
qed

end
