(* ===== verification/Restore_Safety.thy ===== *)
theory Restore_Safety
  imports Retention_Sweep Account_Purge
begin

text \<open>
  The lifecycle operations as one state machine over a clock, the database and the set of deletions
  that have happened, with the invariants that make restore suppression work: a backup never outlives
  the tombstone of a subject it contains, and a tombstone stays until its expiry.
\<close>

section \<open>What the invariants see\<close>

definition bview :: "gateway_db \<Rightarrow> (string \<times> int \<times> int) list" where
  "bview db = map (\<lambda>b. (br_id b, br_captured_at b, br_delete_after b)) (backup_records db)"

definition tomb_view :: "TombstoneRow \<Rightarrow> (LifecycleSubjectKind \<times> string) \<times> int \<times> int" where
  "tomb_view t = (subject_of t, ts_primary_deleted_at t, ts_tombstone_expires_at t)"

definition tview :: "gateway_db \<Rightarrow> ((LifecycleSubjectKind \<times> string) \<times> int \<times> int) list" where
  "tview db = map tomb_view (deletion_tombstones db)"

definition same_view :: "gateway_db \<Rightarrow> gateway_db \<Rightarrow> bool" where
  "same_view db db' \<longleftrightarrow>
     bview db' = bview db \<and> tview db' = tview db \<and> backup_subjects db' = backup_subjects db"

lemma same_view_refl [simp]: "same_view db db"
  by (simp add: same_view_def)

lemma same_view_trans: "same_view a b \<Longrightarrow> same_view b c \<Longrightarrow> same_view a c"
  by (simp add: same_view_def)

lemma same_view_other_tables [simp]:
  "same_view db (db\<lparr>data_lifecycle_events := x\<rparr>)"
  "same_view db (db\<lparr>backup_restore_tests := y\<rparr>)"
  "same_view db (append_hold row db)"
  by (simp_all add: same_view_def bview_def tview_def append_hold_def)

lemma map_update_view:
  "(\<And>x. v (upd x) = v x) \<Longrightarrow> map v (map (\<lambda>x. if sel x then upd x else x) xs) = map v xs"
  by simp

lemma same_view_update_backups:
  "(\<And>r. br_id (upd r) = br_id r \<and> br_captured_at (upd r) = br_captured_at r \<and> br_delete_after (upd r) = br_delete_after r)
     \<Longrightarrow> same_view db (update_backups sel upd db)"
  by (auto simp: same_view_def bview_def tview_def update_backups_def)

lemma same_view_tombstones:
  "map tomb_view ts = map tomb_view (deletion_tombstones db) \<Longrightarrow> same_view db (db\<lparr>deletion_tombstones := ts\<rparr>)"
  by (simp add: same_view_def bview_def tview_def)

lemma tomb_view_deleted_at [simp]: "tomb_view (t\<lparr>ts_backup_deleted_at := x\<rparr>) = tomb_view t"
  by (simp add: tomb_view_def subject_of_def)

section \<open>Operations that keep the view\<close>

lemma recordLegalHold_view:
  assumes "recordLegalHold sha newId now input db = (r, db')"
  shows "same_view db db'"
proof (cases r)
  case (Inl e)
  with assms recordLegalHold_Inl show ?thesis by fastforce
next
  case (Inr ev)
  with assms have "recordLegalHold sha newId now input db = (Inr ev, db')" by simp
  then show ?thesis
    by (rule recordLegalHold_Inr) (auto simp: hold_replayed_def hold_appended_def)
qed

lemma reconcile_tombstone_view:
  assumes "reconcile_tombstone backup row db = (r, db')"
  shows "same_view db db'"
proof -
  have "same_view db (db\<lparr>deletion_tombstones := map (\<lambda>t. if ts_id t = ts_id row
      then t\<lparr>ts_backup_deleted_at := None\<rparr> else t) (deletion_tombstones db)\<rparr>)"
    by (rule same_view_tombstones) simp
  with assms show ?thesis by (auto simp: reconcile_tombstone_def split: if_splits)
qed

lemma reconcile_rows_view:
  "tx_forM rows (reconcile_tombstone backup) db = (r, db') \<Longrightarrow> same_view db db'"
  by (rule tx_forM_rel [where R = same_view])
    (auto intro: same_view_trans dest: reconcile_tombstone_view)

lemma reconcile_subject_view: "reconcile_subject backup subj db = (r, db') \<Longrightarrow> same_view db db'"
  by (auto simp: reconcile_subject_def dest: reconcile_rows_view)

lemma reconcile_view:
  assumes "reconcileBackupSubjectsWithTombstones backup subjects db = (r, db')"
  shows "same_view db db'"
  using assms unfolding reconcileBackupSubjectsWithTombstones_def
  by (rule tx_forM_rel [where R = same_view, rotated 3])
    (auto intro: same_view_trans dest: reconcile_subject_view)

lemma finish_backup_view: "finish_backup sha ev now backup db = (r, db') \<Longrightarrow> same_view db db'"
proof -
  assume run: "finish_backup sha ev now backup db = (r, db')"
  define u where "u = update_backups (\<lambda>r. br_id r = bk_id backup \<and> br_status r = Deleting)
         (\<lambda>r. r\<lparr>br_status := Deleted, br_deleted_at := Some now, br_last_error_code := None, br_updated_at := now\<rparr>) db"
  have 1: "same_view db u" unfolding u_def by (rule same_view_update_backups) simp
  have 2: "same_view u (settle_tombstones (bk_id backup) now u)"
    unfolding settle_tombstones_def by (rule same_view_tombstones) simp
  from run have "db' = db \<or> (\<exists>x. db' = (settle_tombstones (bk_id backup) now u)\<lparr>data_lifecycle_events := x\<rparr>)"
    unfolding finish_backup_def
    by (auto dest!: withGatewayTransaction_cases simp: u_def [symmetric] txE resE)
  with 1 2 show "same_view db db'" by (auto intro: same_view_trans)
qed

lemma fail_backup_view: "fail_backup sha ev now backup name db = (r, db') \<Longrightarrow> same_view db db'"
proof -
  assume run: "fail_backup sha ev now backup name db = (r, db')"
  define code where "code = (if name \<noteq> [] then take 120 name else ''BackupDeleteError'')"
  define u where "u = update_backups (\<lambda>r. br_id r = bk_id backup \<and> br_status r = Deleting)
        (\<lambda>r. r\<lparr>br_status := DeleteFailed, br_last_error_code := Some code, br_updated_at := now\<rparr>) db"
  have 1: "same_view db u" unfolding u_def by (rule same_view_update_backups) simp
  from run have "db' = u \<or> (\<exists>x. db' = u\<lparr>data_lifecycle_events := x\<rparr>)"
    by (auto simp: fail_backup_def Let_def code_def [symmetric] u_def [symmetric] tx_update_run resE split: sum.splits)
  with 1 show "same_view db db'" by (auto intro: same_view_trans)
qed

lemma delete_candidate_view:
  assumes "delete_candidate sha ev ev2 adapter now c db = (r, db')"
  shows "same_view db db'"
proof (cases "find (\<lambda>r. br_id r = br_id c \<and> claimable now r) (backup_records db)")
  case None
  with assms show ?thesis by (simp add: delete_candidate_def)
next
  case (Some row)
  define backup where "backup = mapBackup (row\<lparr>br_status := Deleting, br_last_error_code := None, br_updated_at := now\<rparr>)"
  define u where "u = update_backups (\<lambda>r. br_id r = br_id c \<and> claimable now r)
            (\<lambda>r. r\<lparr>br_status := Deleting, br_last_error_code := None, br_updated_at := now\<rparr>) db"
  have 1: "same_view db u" unfolding u_def by (rule same_view_update_backups) simp
  have 2: "same_view u db'"
  proof (cases "adapter backup")
    case (Inl name)
    obtain a m where "fail_backup sha ev2 now backup name u = (a, m)" by (cases "fail_backup sha ev2 now backup name u")
    with assms Some Inl show ?thesis
      by (auto simp: delete_candidate_def Let_def backup_def [symmetric] u_def [symmetric] tx_bind_run
          split: sum.splits dest: fail_backup_view)
  next
    case (Inr x)
    obtain a m where fin: "finish_backup sha ev now backup u = (a, m)" by (cases "finish_backup sha ev now backup u")
    then have um: "same_view u m" by (rule finish_backup_view)
    show ?thesis
    proof (cases a)
      case (Inr y)
      with assms Some \<open>adapter backup = Inr x\<close> fin um show ?thesis
        by (auto simp: delete_candidate_def Let_def backup_def [symmetric] u_def [symmetric])
    next
      case (Inl e)
      obtain b n where fb: "fail_backup sha ev2 now backup (thrown_name e) m = (b, n)"
        by (cases "fail_backup sha ev2 now backup (thrown_name e) m")
      with assms Some \<open>adapter backup = Inr x\<close> fin Inl have "db' = n"
        by (auto simp: delete_candidate_def Let_def backup_def [symmetric] u_def [symmetric] tx_bind_run split: sum.splits)
      with um fail_backup_view [OF fb] show ?thesis by (auto intro: same_view_trans)
    qed
  qed
  from 1 2 show ?thesis by (rule same_view_trans)
qed

lemma delete_loop_view:
  "delete_loop sha fresh adapter now i cs ds fs db = (r, db') \<Longrightarrow> same_view db db'"
proof (induction cs arbitrary: i ds fs db)
  case Nil
  then show ?case by simp
next
  case (Cons c cs)
  obtain a m where dc: "delete_candidate sha (fresh (2 * i)) (fresh (2 * i + 1)) adapter now c db = (a, m)"
    by (cases "delete_candidate sha (fresh (2 * i)) (fresh (2 * i + 1)) adapter now c db")
  then have 1: "same_view db m" by (rule delete_candidate_view)
  have "same_view m db'"
  proof (cases a)
    case (Inl e)
    with Cons.prems dc show ?thesis by (simp add: tx_bind_run)
  next
    case (Inr x)
    with Cons.prems dc Cons.IH show ?thesis
      by (auto simp: tx_bind_run split: option.splits bool.splits)
  qed
  with 1 show ?case by (rule same_view_trans)
qed

lemma deleteExpiredBackups_view:
  "deleteExpiredBackups sha fresh adapter now limit db = (r, db') \<Longrightarrow> same_view db db'"
  by (auto simp: deleteExpiredBackups_def dest: delete_loop_view)

lemma forM_lock_digest [simp]:
  "tx_forM xs (\<lambda>(kind, digest). lockLifecycleSubjectDigest kind digest) db = (Inr (), db)"
  by (induction xs) (auto simp: tx_bind_run lockLifecycleSubjectDigest_def)

lemma insert_restore_test_Inr [resE]:
  "insert_restore_test row db = Inr db' \<longleftrightarrow>
     (\<forall>q \<in> set (backup_restore_tests db). rt_id row \<noteq> rt_id q)
     \<and> db' = db\<lparr>backup_restore_tests := backup_restore_tests db @ [row]\<rparr>"
  by (auto simp: insert_restore_test_def resE)

text \<open>What a successful restore evaluation established.\<close>

lemma evaluateRestore_Inr:
  assumes "evaluateRestoreCandidate sha fresh now backupId manifest evidence db = (Inr ev, db')"
  shows "same_view db db'"
    and "\<exists>row \<in> set (backup_records db). br_id row = backupId \<and> br_status row = Available \<and> now < br_delete_after row
           \<and> br_manifest_sha256 row = manifest"
    and "re_result ev = (if blocked_subjects backupId now db = [] then Eligible else Blocked)"
proof -
  from assms have "evaluateRestore_body sha fresh now backupId manifest evidence db = (Inr ev, db')"
    unfolding evaluateRestoreCandidate_def txE resE by (auto simp: boundedReference_def split: if_splits)
  then have body: "same_view db db' \<and> (\<exists>row \<in> set (backup_records db). br_id row = backupId \<and> br_status row = Available
      \<and> now < br_delete_after row \<and> br_manifest_sha256 row = manifest)
      \<and> re_result ev = (if blocked_subjects backupId now db = [] then Eligible else Blocked)"
    unfolding evaluateRestore_body_def
    by (auto simp: txE resE Let_def same_view_def bview_def tview_def split: option.splits if_splits dest!: find_SomeD)
  from body show "same_view db db'" by blast
  from body show "\<exists>row \<in> set (backup_records db). br_id row = backupId \<and> br_status row = Available \<and> now < br_delete_after row
           \<and> br_manifest_sha256 row = manifest" by blast
  from body show "re_result ev = (if blocked_subjects backupId now db = [] then Eligible else Blocked)" by blast
qed

lemma evaluateRestore_view:
  assumes "evaluateRestoreCandidate sha fresh now backupId manifest evidence db = (r, db')"
  shows "same_view db db'"
proof (cases r)
  case (Inr ev)
  with assms evaluateRestore_Inr(1) show ?thesis by blast
next
  case (Inl e)
  with assms have "db' = db"
    unfolding evaluateRestoreCandidate_def
    by (auto simp: tx_bind_run split: sum.splits dest: withGatewayTransaction_Inl)
  then show ?thesis by simp
qed

section \<open>Registration\<close>

definition clears_tombstones :: "int \<Rightarrow> int \<Rightarrow> LifecycleSubjectKind \<times> string \<Rightarrow> gateway_db \<Rightarrow> bool" where
  "clears_tombstones captured deleteAfter subj db \<longleftrightarrow>
     (\<forall>v \<in> set (tview db). fst v = subj \<longrightarrow> captured \<le> fst (snd v) \<and> deleteAfter \<le> snd (snd v))"

lemma clears_tombstones_view:
  "same_view db db' \<Longrightarrow> clears_tombstones c d subj db' = clears_tombstones c d subj db"
  by (simp add: clears_tombstones_def same_view_def)

lemma reconcile_rows_checked:
  "tx_forM rows (reconcile_tombstone backup) db = (Inr u, db') \<Longrightarrow> t \<in> set rows \<Longrightarrow>
     bk_capturedAt backup \<le> ts_primary_deleted_at t \<and> bk_deleteAfter backup \<le> ts_tombstone_expires_at t"
proof (induction rows arbitrary: db)
  case (Cons x rows)
  then obtain v m where x: "reconcile_tombstone backup x db = (Inr v, m)"
    and rest: "tx_forM rows (reconcile_tombstone backup) m = (Inr u, db')"
    by (auto simp: txE)
  from x have "bk_capturedAt backup \<le> ts_primary_deleted_at x \<and> bk_deleteAfter backup \<le> ts_tombstone_expires_at x"
    by (auto simp: reconcile_tombstone_def split: if_splits)
  with Cons.IH [OF rest] Cons.prems(2) show ?case by auto
qed simp

lemma reconcile_checked:
  assumes "reconcileBackupSubjectsWithTombstones backup subjects db = (Inr u, db')" and "subj \<in> set subjects"
  shows "clears_tombstones (bk_capturedAt backup) (bk_deleteAfter backup) subj db"
  using assms unfolding reconcileBackupSubjectsWithTombstones_def
proof (induction subjects arbitrary: db)
  case (Cons x xs)
  from Cons.prems(1) obtain v m where
    sub: "reconcile_subject backup x db = (Inr v, m)"
    and rest: "tx_forM xs (reconcile_subject backup) m = (Inr u, db')"
    by (auto simp: txE)
  from sub have rows: "tx_forM (tombstones_of (fst x) (snd x) db) (reconcile_tombstone backup) db = (Inr v, m)"
    by (simp add: reconcile_subject_def)
  have view: "same_view db m" using sub by (rule reconcile_subject_view)
  show ?case
  proof (cases "subj = x")
    case True
    with reconcile_rows_checked [OF rows] show ?thesis
      by (auto simp: clears_tombstones_def tview_def tomb_view_def subject_of_def tombstones_of_def)
  next
    case False
    with Cons.prems(2) have "subj \<in> set xs" by simp
    from Cons.IH [OF rest this] view show ?thesis by (simp add: clears_tombstones_view)
  qed
qed simp

lemma insert_backup_Inr [resE]:
  "insert_backup row db = Inr db' \<longleftrightarrow>
     CHR ''/'' \<notin> set (br_provider row) \<and> (\<forall>q \<in> set (backup_records db). \<not> backup_clash row q)
     \<and> db' = db\<lparr>backup_records := backup_records db @ [row]\<rparr>"
  by (auto simp: insert_backup_def resE)

lemma insert_backup_subject_Inr [resE]:
  "insert_backup_subject row db = Inr db' \<longleftrightarrow>
     row \<notin> set (backup_subjects db) \<and> db' = db\<lparr>backup_subjects := backup_subjects db @ [row]\<rparr>"
  by (auto simp: insert_backup_subject_def resE)

definition subject_row :: "string \<Rightarrow> LifecycleSubjectKind \<times> string \<Rightarrow> BackupSubjectRow" where
  "subject_row bid s = \<lparr>bs_backup_id = bid, bs_subject_kind = fst s, bs_subject_digest = snd s\<rparr>"

lemma forM_insert_subjects:
  "tx_forM subjects (\<lambda>(kind, digest). tx_update (insert_backup_subject
      \<lparr>bs_backup_id = bid, bs_subject_kind = kind, bs_subject_digest = digest\<rparr>)) db = (Inr u, db') \<Longrightarrow>
    db' = db\<lparr>backup_subjects := backup_subjects db @ map (subject_row bid) subjects\<rparr>"
proof (induction subjects arbitrary: db)
  case (Cons x xs)
  then have "tx_forM xs (\<lambda>(kind, digest). tx_update (insert_backup_subject
      \<lparr>bs_backup_id = bid, bs_subject_kind = kind, bs_subject_digest = digest\<rparr>))
      (db\<lparr>backup_subjects := backup_subjects db @ [subject_row bid x]\<rparr>) = (Inr u, db')"
    by (auto simp: txE resE subject_row_def split: prod.splits)
  from Cons.IH [OF this] show ?case by simp
qed simp

text \<open>A registration either leaves the view alone or adds one backup that respects every tombstone.\<close>

definition backup_added :: "string \<Rightarrow> int \<Rightarrow> gateway_db \<Rightarrow> gateway_db \<Rightarrow> bool" where
  "backup_added bid now db db' \<longleftrightarrow>
     (\<exists>captured deleteAfter subjects.
        bview db' = bview db @ [(bid, captured, deleteAfter)] \<and> tview db' = tview db
        \<and> backup_subjects db' = backup_subjects db @ map (subject_row bid) subjects
        \<and> bid \<notin> fst ` set (bview db)
        \<and> captured < deleteAfter \<and> deleteAfter \<le> addDays captured BACKUP_MAX_DAYS \<and> captured \<le> now + 300000
        \<and> (\<forall>subj \<in> set subjects. clears_tombstones captured deleteAfter subj db))"

lemma registerBackup_new_Inr:
  assumes "registerBackup_new sha fresh now input captured deleteAfter subjects db = (Inr rec, db')"
    and "captured < deleteAfter" "deleteAfter \<le> addDays captured BACKUP_MAX_DAYS" "captured \<le> now + 300000"
  shows "backup_added (fresh 0) now db db'"
proof -
  define row where "row = \<lparr>br_id = fresh 0, br_provider = bi_provider input,
            br_external_reference = bi_externalReference input, br_manifest_sha256 = bi_manifestSha256 input,
            br_captured_at = captured, br_delete_after = deleteAfter, br_status = Available,
            br_deleted_at = None, br_last_error_code = None, br_created_at = now, br_updated_at = now\<rparr>"
  define db1 where "db1 = db\<lparr>backup_records := backup_records db @ [row],
    backup_subjects := backup_subjects db @ map (subject_row (fresh 0)) subjects\<rparr>"
  from assms(1) obtain x u where
    fresh: "\<forall>q \<in> set (backup_records db). \<not> backup_clash row q"
    and rec: "reconcileBackupSubjectsWithTombstones (mapBackup row) subjects
       (db1\<lparr>data_lifecycle_events := x\<rparr>) = (Inr u, db')"
    unfolding registerBackup_new_def Let_def row_def [symmetric] txE resE db1_def
    by (auto dest!: forM_insert_subjects)
  have v: "same_view (db1\<lparr>data_lifecycle_events := x\<rparr>) db'" using rec by (rule reconcile_view)
  have "\<forall>subj \<in> set subjects. clears_tombstones captured deleteAfter subj (db1\<lparr>data_lifecycle_events := x\<rparr>)"
    using reconcile_checked [OF rec] by (simp add: mapBackup_def row_def)
  then have "\<forall>subj \<in> set subjects. clears_tombstones captured deleteAfter subj db"
    by (simp add: clears_tombstones_def tview_def db1_def)
  moreover have "fresh 0 \<notin> fst ` set (bview db)"
    using fresh by (auto simp: bview_def backup_clash_def row_def)
  moreover have "bview db' = bview db @ [(fresh 0, captured, deleteAfter)]" "tview db' = tview db"
    "backup_subjects db' = backup_subjects db @ map (subject_row (fresh 0)) subjects"
    using v by (simp_all add: same_view_def bview_def tview_def db1_def row_def)
  ultimately show ?thesis using assms(2-4) unfolding backup_added_def by blast
qed

lemma registerBackup_effect:
  assumes "registerBackup sha fresh now input db = (r, db')"
  shows "same_view db db' \<or> backup_added (fresh 0) now db db'"
proof (cases r)
  case (Inl e)
  with assms have "db' = db"
    unfolding registerBackup_def
    by (auto simp: tx_bind_run split: sum.splits option.splits if_splits dest: withGatewayTransaction_Inl)
  then show ?thesis by simp
next
  case (Inr rec)
  from assms [unfolded Inr registerBackup_def txE]
  obtain captured deleteAfter subjects where
    bounds: "captured < deleteAfter" "deleteAfter \<le> addDays captured BACKUP_MAX_DAYS" "captured \<le> now + 300000"
    and body: "registerBackup_tx sha fresh now input captured deleteAfter subjects db = (Inr rec, db')"
    by (auto simp: txE resE not_le not_less split: option.splits if_splits)
  show ?thesis
  proof (cases "find (\<lambda>r. br_provider r = bi_provider input \<and> br_external_reference r = bi_externalReference input)
        (backup_records db)")
    case None
    with body bounds show ?thesis by (auto simp: registerBackup_tx_def tx_bind_run dest: registerBackup_new_Inr)
  next
    case (Some row)
    with body have "same_view db db'"
      by (auto simp: registerBackup_tx_def tx_bind_run registerBackup_existing_def split: if_splits sum.splits prod.splits
          dest: reconcile_view)
    then show ?thesis ..
  qed
qed

section \<open>The sweep\<close>

text \<open>A sweep drops whole backups with their subjects, and tombstones that have expired, nothing else.\<close>

definition swept :: "int \<Rightarrow> gateway_db \<Rightarrow> gateway_db \<Rightarrow> bool" where
  "swept now db db' \<longleftrightarrow>
     (\<exists>ids. bview db' = filter (\<lambda>v. fst v \<notin> ids) (bview db)
        \<and> backup_subjects db' = filter (\<lambda>s. bs_backup_id s \<notin> ids) (backup_subjects db))
     \<and> set (tview db') \<subseteq> set (tview db)
     \<and> (\<forall>v \<in> set (tview db). v \<in> set (tview db') \<or> snd (snd v) \<le> now)"

lemma same_view_swept: "same_view db db' \<Longrightarrow> swept now db db'"
  unfolding swept_def same_view_def by (auto intro!: exI [of _ "{}"])

lemma run_queries_view:
  assumes "\<And>key count remove x. (key, count, remove) \<in> set qs \<Longrightarrow> same_view x (remove x)"
  shows "run_queries ex qs db = (r, db') \<Longrightarrow> same_view db db'"
  using assms
proof (induction qs arbitrary: db r db')
  case (Cons q qs)
  obtain key count remove where q: "q = (key, count, remove)" by (cases q)
  define m where "m = (if ex then remove db else db)"
  have 1: "same_view db m" using Cons.prems(2) [of key count remove db] by (simp add: m_def q)
  obtain a n where run: "run_queries ex qs m = (a, n)" by (cases "run_queries ex qs m")
  have 2: "same_view m n" using run by (rule Cons.IH) (use Cons.prems(2) in \<open>auto\<close>)
  from Cons.prems(1) run have "db' = n"
    by (cases ex; cases a) (auto simp: tx_bind_run m_def q)
  with 1 2 show ?case by (auto intro: same_view_trans)
qed simp

lemma sweep_queries_view: "(key, count, remove) \<in> set (sweep_queries sha now) \<Longrightarrow> same_view x (remove x)"
  by (auto simp: sweep_queries_def same_view_def bview_def tview_def delete_expired_jobs_def Let_def)

lemma delete_hold_events_view:
  "tx_forM es (\<lambda>e. tx_update (delete_hold_event (hr_id e))) db = (r, db') \<Longrightarrow> same_view db db'"
  by (rule tx_forM_rel [where R = same_view])
    (auto intro: same_view_trans simp: tx_update_run delete_hold_event_def same_view_def bview_def tview_def
      split: if_splits sum.splits)

lemma delete_backup_records_effect:
  "delete_backup_records ids db = Inr db' \<Longrightarrow>
     bview db' = filter (\<lambda>v. fst v \<notin> set ids) (bview db)
     \<and> backup_subjects db' = filter (\<lambda>s. bs_backup_id s \<notin> set ids) (backup_subjects db) \<and> tview db' = tview db"
  by (auto simp: delete_backup_records_def bview_def tview_def filter_map comp_def split: if_splits)

lemma finalize_view: "same_view db (finalize_tombstones now db)"
  unfolding finalize_tombstones_def by (rule same_view_tombstones) simp

lemma drop_tombstones_effect:
  "bview (drop_tombstones now db) = bview db"
  "backup_subjects (drop_tombstones now db) = backup_subjects db"
  "set (tview (drop_tombstones now db)) \<subseteq> set (tview db)"
  "v \<in> set (tview db) \<Longrightarrow> v \<in> set (tview (drop_tombstones now db)) \<or> snd (snd v) \<le> now"
  by (auto simp: drop_tombstones_def bview_def tview_def tombstone_expired_def tomb_view_def)

lemma sweep_execute_swept:
  assumes "sweep_execute evId now evidence counts hs rts bs es db = (Inr r, db')"
  shows "swept now db db'"
proof -
  from assms obtain a b u v x where
    h: "tx_forM hs (\<lambda>e. tx_update (delete_hold_event (hr_id e))) db = (Inr u, a)"
    and b: "(if bs = [] then tx_return () else tx_update (delete_backup_records (map br_id bs)))
        (delete_restore_tests (map rt_id rts) a) = (Inr v, b)"
    and db': "db' = (drop_tombstones now (finalize_tombstones now
        (delete_lifecycle_events (map le_id es) b)))\<lparr>data_lifecycle_events := x\<rparr>"
    unfolding sweep_execute_def sweep_record_def delete_due_backups_def txE resE by auto
  have 1: "same_view db a" using h by (rule delete_hold_events_view)
  have 2: "same_view a (delete_restore_tests (map rt_id rts) a)"
    by (simp add: delete_restore_tests_def)
  have 3: "\<exists>ids. bview b = filter (\<lambda>v. fst v \<notin> ids) (bview db)
      \<and> backup_subjects b = filter (\<lambda>s. bs_backup_id s \<notin> ids) (backup_subjects db) \<and> tview b = tview db"
  proof (cases "bs = []")
    case True
    with b 1 2 show ?thesis by (intro exI [of _ "{}"]) (auto simp: same_view_def)
  next
    case False
    with b have "delete_backup_records (map br_id bs) (delete_restore_tests (map rt_id rts) a) = Inr b"
      by (simp add: txE)
    from delete_backup_records_effect [OF this] 1 2 show ?thesis
      by (intro exI [of _ "set (map br_id bs)"]) (auto simp: same_view_def)
  qed
  have 4: "same_view b (finalize_tombstones now (delete_lifecycle_events (map le_id es) b))"
    by (rule same_view_trans [OF _ finalize_view]) (simp add: delete_lifecycle_events_def)
  define c where "c = finalize_tombstones now (delete_lifecycle_events (map le_id es) b)"
  have db'c: "bview db' = bview (drop_tombstones now c)" "tview db' = tview (drop_tombstones now c)"
    "backup_subjects db' = backup_subjects (drop_tombstones now c)"
    by (simp_all add: db' c_def bview_def tview_def)
  have cb: "bview c = bview b" "tview c = tview b" "backup_subjects c = backup_subjects b"
    using 4 by (simp_all add: c_def same_view_def)
  from 3 obtain ids where ids: "bview b = filter (\<lambda>v. fst v \<notin> ids) (bview db)"
    "backup_subjects b = filter (\<lambda>s. bs_backup_id s \<notin> ids) (backup_subjects db)" "tview b = tview db"
    by blast
  show ?thesis
    unfolding swept_def db'c drop_tombstones_effect(1,2) cb ids
    using drop_tombstones_effect(3) [of now c] drop_tombstones_effect(4) [of _ c now] cb(2) ids(3) by auto
qed

lemma sweep_effect:
  assumes "runPrimaryRetentionSweep sha evId now execute evidence db = (r, db')"
  shows "swept now db db'"
proof -
  from withGatewayTransaction_cases [OF assms [unfolded runPrimaryRetentionSweep_def]]
  consider "db' = db" | a where "sweep_body sha evId now execute evidence db = (Inr a, db')" by blast
  then show ?thesis
  proof cases
    case 1
    then show ?thesis by (simp add: same_view_swept)
  next
    case (2 a)
    then obtain counts m where q: "run_queries execute (sweep_queries sha now) db = (Inr counts, m)"
      unfolding sweep_body_def txE by blast
    with 2 have rest: "db' = m \<or> (\<exists>c h t b e. sweep_execute evId now evidence c h t b e m = (Inr a, db'))"
      unfolding sweep_body_def by (cases execute) (auto simp: tx_bind_run Let_def)
    have view: "same_view db m" using sweep_queries_view q by (rule run_queries_view)
    from rest have "swept now m db'" by (auto intro: sweep_execute_swept same_view_swept)
    with view show ?thesis unfolding swept_def same_view_def by simp
  qed
qed

section \<open>The lifecycle machine\<close>

text \<open>
  A state is the clock, the database and the set of deletions \<open>(subject, time)\<close> that have been
  committed. Each lifecycle operation is a step at the current clock, whatever its result; every other
  writer of the gateway (\<open>elsewhere\<close>) leaves backups, their subjects and the tombstones alone.
\<close>

type_synonym deletion_log = "((LifecycleSubjectKind \<times> string) \<times> int) set"

inductive lifecycle_reach :: "sha_fun \<Rightarrow> int \<Rightarrow> gateway_db \<Rightarrow> deletion_log \<Rightarrow> bool" for sha where
  start: "lifecycle_reach sha clk empty_db {}"
| tick: "lifecycle_reach sha clk db dels \<Longrightarrow> clk \<le> clk' \<Longrightarrow> lifecycle_reach sha clk' db dels"
| elsewhere: "lifecycle_reach sha clk db dels \<Longrightarrow> same_view db db' \<Longrightarrow> lifecycle_reach sha clk db' dels"
| hold: "lifecycle_reach sha clk db dels \<Longrightarrow> recordLegalHold sha newId clk input db = (r1, db') \<Longrightarrow>
     lifecycle_reach sha clk db' dels"
| delete: "lifecycle_reach sha clk db dels \<Longrightarrow>
     withGatewayTransaction (prepareAccountDeletionLifecycle sha fresh clk dinput) db = (Inr r2, db') \<Longrightarrow>
     lifecycle_reach sha clk db' (dels \<union> (\<lambda>s. (s, clk)) ` set (deletion_subjects sha dinput))"
| account: "lifecycle_reach sha clk db dels \<Longrightarrow>
     deleteUserData sha fresh deletionId blockedId clk deleteObjects user db = (Inr r7, db') \<Longrightarrow>
     lifecycle_reach sha clk db'
       (dels \<union> (\<lambda>s. (s, clk)) ` set (deletion_subjects sha (account_deletion deletionId (user_id user) db)))"
| refused: "lifecycle_reach sha clk db dels \<Longrightarrow>
     deleteUserData sha fresh deletionId blockedId clk deleteObjects user db = (Inl e, db') \<Longrightarrow>
     lifecycle_reach sha clk db' dels"
| register: "lifecycle_reach sha clk db dels \<Longrightarrow> registerBackup sha fresh clk binput db = (r3, db') \<Longrightarrow>
     lifecycle_reach sha clk db' dels"
| evaluate: "lifecycle_reach sha clk db dels \<Longrightarrow>
     evaluateRestoreCandidate sha fresh clk bid manifest evidence db = (r4, db') \<Longrightarrow>
     lifecycle_reach sha clk db' dels"
| expire: "lifecycle_reach sha clk db dels \<Longrightarrow>
     deleteExpiredBackups sha fresh adapter clk limit db = (r5, db') \<Longrightarrow> lifecycle_reach sha clk db' dels"
| sweep: "lifecycle_reach sha clk db dels \<Longrightarrow>
     runPrimaryRetentionSweep sha evId clk execute reference db = (r6, db') \<Longrightarrow> lifecycle_reach sha clk db' dels"


section \<open>Invariants\<close>

definition backups_ok :: "int \<Rightarrow> gateway_db \<Rightarrow> bool" where
  "backups_ok clk db \<longleftrightarrow>
     (\<forall>(bid, captured, deleteAfter) \<in> set (bview db).
        captured \<le> clk + 300000 \<and> deleteAfter \<le> addDays captured BACKUP_MAX_DAYS)
     \<and> (\<forall>s \<in> set (backup_subjects db). bs_backup_id s \<in> fst ` set (bview db))"

text \<open>No catalogued backup is kept beyond the tombstone of a subject it contains.\<close>

definition tombstones_outlive :: "gateway_db \<Rightarrow> bool" where
  "tombstones_outlive db \<longleftrightarrow>
     (\<forall>(bid, captured, deleteAfter) \<in> set (bview db). \<forall>s \<in> set (backup_subjects db). \<forall>v \<in> set (tview db).
        bs_backup_id s = bid \<longrightarrow> (bs_subject_kind s, bs_subject_digest s) = fst v \<longrightarrow> deleteAfter \<le> snd (snd v))"

text \<open>Every deletion still has its tombstone, until its 45 days are over.\<close>

definition deletions_suppressed :: "int \<Rightarrow> gateway_db \<Rightarrow> deletion_log \<Rightarrow> bool" where
  "deletions_suppressed clk db dels \<longleftrightarrow>
     (\<forall>(subj, t) \<in> dels. addDays t TOMBSTONE_DAYS \<le> clk
        \<or> (\<exists>v \<in> set (tview db). fst v = subj \<and> addDays t TOMBSTONE_DAYS \<le> snd (snd v)))"

definition lifecycle_inv :: "int \<Rightarrow> gateway_db \<Rightarrow> deletion_log \<Rightarrow> bool" where
  "lifecycle_inv clk db dels \<longleftrightarrow>
     backups_ok clk db \<and> tombstones_outlive db \<and> deletions_suppressed clk db dels"

lemmas lifecycle_inv_defs = lifecycle_inv_def backups_ok_def tombstones_outlive_def deletions_suppressed_def

lemma inv_empty: "lifecycle_inv clk empty_db {}"
  by (simp add: lifecycle_inv_defs bview_def tview_def empty_db_def)

lemma inv_tick: "lifecycle_inv clk db dels \<Longrightarrow> clk \<le> clk' \<Longrightarrow> lifecycle_inv clk' db dels"
  unfolding lifecycle_inv_defs by fastforce

lemma inv_same_view: "lifecycle_inv clk db dels \<Longrightarrow> same_view db db' \<Longrightarrow> lifecycle_inv clk db' dels"
  by (simp add: lifecycle_inv_defs same_view_def)

lemma inv_swept:
  assumes "lifecycle_inv clk db dels" and "swept clk db db'"
  shows "lifecycle_inv clk db' dels"
proof -
  from assms(2) obtain ids where b: "bview db' = filter (\<lambda>v. fst v \<notin> ids) (bview db)"
    and s: "backup_subjects db' = filter (\<lambda>s. bs_backup_id s \<notin> ids) (backup_subjects db)"
    and t: "set (tview db') \<subseteq> set (tview db)"
    and keep: "\<forall>v \<in> set (tview db). v \<in> set (tview db') \<or> snd (snd v) \<le> clk"
    unfolding swept_def by blast
  have "backups_ok clk db'"
    using assms(1) by (fastforce simp: lifecycle_inv_def backups_ok_def b s)
  moreover have "tombstones_outlive db'"
    using assms(1) t unfolding lifecycle_inv_def tombstones_outlive_def b s split_beta
    by (meson filter_is_subset subsetD)
  moreover have "deletions_suppressed clk db' dels"
    using assms(1) keep by (fastforce simp: lifecycle_inv_def deletions_suppressed_def)
  ultimately show ?thesis by (simp add: lifecycle_inv_def)
qed

lemma inv_backup_added:
  assumes "lifecycle_inv clk db dels" and "backup_added bid clk db db'"
  shows "lifecycle_inv clk db' dels"
proof -
  from assms(2) obtain captured deleteAfter subjects where
    b: "bview db' = bview db @ [(bid, captured, deleteAfter)]" and t: "tview db' = tview db"
    and s: "backup_subjects db' = backup_subjects db @ map (subject_row bid) subjects"
    and fresh: "bid \<notin> fst ` set (bview db)"
    and bounds: "deleteAfter \<le> addDays captured BACKUP_MAX_DAYS" "captured \<le> clk + 300000"
    and clear: "\<forall>subj \<in> set subjects. clears_tombstones captured deleteAfter subj db"
    unfolding backup_added_def by blast
  have old: "bs_backup_id q \<in> fst ` set (bview db)" if "q \<in> set (backup_subjects db)" for q
    using assms(1) that by (simp add: lifecycle_inv_def backups_ok_def)
  have "backups_ok clk db'"
    using assms(1) bounds by (auto simp: lifecycle_inv_def backups_ok_def b s subject_row_def)
  moreover have "tombstones_outlive db'"
    unfolding tombstones_outlive_def split_beta
  proof (intro ballI impI)
    fix x q v
    assume x: "x \<in> set (bview db')" and q: "q \<in> set (backup_subjects db')" and v: "v \<in> set (tview db')"
      and id: "bs_backup_id q = fst x" and subj: "(bs_subject_kind q, bs_subject_digest q) = fst v"
    show "snd (snd x) \<le> snd (snd v)"
    proof (cases "q \<in> set (backup_subjects db)")
      case True
      with old id fresh x b have "x \<in> set (bview db)" by auto
      with True v id subj t assms(1) show ?thesis
        by (fastforce simp: lifecycle_inv_def tombstones_outlive_def)
    next
      case False
      with q s obtain y where y: "y \<in> set subjects" "q = subject_row bid y" by auto
      with id x b fresh have "x = (bid, captured, deleteAfter)" by (force simp: subject_row_def)
      with y subj v t clear show ?thesis by (auto simp: clears_tombstones_def subject_row_def)
    qed
  qed
  moreover have "deletions_suppressed clk db' dels"
    using assms(1) by (simp add: lifecycle_inv_def deletions_suppressed_def t)
  ultimately show ?thesis by (simp add: lifecycle_inv_def)
qed

lemma addDays_mono: "a \<le> b \<Longrightarrow> addDays t a \<le> addDays t b"
  by (simp add: addDays_def day_ms_def)

lemma inv_deleted:
  assumes "lifecycle_inv clk db dels"
    and "prepareAccountDeletionLifecycle sha fresh clk input db = (Inr r, db')"
  shows "lifecycle_inv clk db' (dels \<union> (\<lambda>s. (s, clk)) ` set (deletion_subjects sha input))"
proof -
  from assms(2) obtain ts ev where
    db': "db' = db\<lparr>deletion_tombstones := deletion_tombstones db @ ts,
              data_lifecycle_events := data_lifecycle_events db @ [ev]\<rparr>"
    and subj: "map subject_of ts = deletion_subjects sha input"
    and mk: "\<forall>t \<in> set ts. \<exists>newId kind d. t = mk_tombstone newId (di_deletionId input) kind d clk"
    by (rule prepareAccountDeletion_Inr)
  have b: "bview db' = bview db" and s: "backup_subjects db' = backup_subjects db"
    and t: "tview db' = tview db @ map tomb_view ts"
    by (simp_all add: db' bview_def tview_def)
  have ts: "\<forall>v \<in> set (map tomb_view ts). snd (snd v) = addDays clk TOMBSTONE_DAYS"
    using mk by (force simp: tomb_view_def mk_tombstone_def)
  have outlive: "deleteAfter \<le> addDays clk TOMBSTONE_DAYS"
    if "(bid, captured, deleteAfter) \<in> set (bview db)" for bid captured deleteAfter
  proof -
    from assms(1) that have "captured \<le> clk + 300000" "deleteAfter \<le> addDays captured BACKUP_MAX_DAYS"
      by (auto simp: lifecycle_inv_def backups_ok_def)
    then show ?thesis by (simp add: addDays_def day_ms_def BACKUP_MAX_DAYS_def TOMBSTONE_DAYS_def)
  qed
  have "backups_ok clk db'" using assms(1) by (simp add: lifecycle_inv_def backups_ok_def b s)
  moreover have "tombstones_outlive db'"
    using assms(1) ts outlive by (fastforce simp: lifecycle_inv_def tombstones_outlive_def b s t)
  moreover have "deletions_suppressed clk db' (dels \<union> (\<lambda>s. (s, clk)) ` set (deletion_subjects sha input))"
  proof -
    have "\<exists>v \<in> set (tview db'). fst v = subj' \<and> addDays clk TOMBSTONE_DAYS \<le> snd (snd v)"
      if "subj' \<in> set (deletion_subjects sha input)" for subj'
    proof -
      from that subj obtain x where "x \<in> set ts" "subject_of x = subj'" by (metis imageE list.set_map)
      with ts show ?thesis by (intro bexI [of _ "tomb_view x"]) (auto simp: t tomb_view_def)
    qed
    with assms(1) show ?thesis by (fastforce simp: lifecycle_inv_def deletions_suppressed_def t)
  qed
  ultimately show ?thesis by (simp add: lifecycle_inv_def)
qed

lemma inv_account:
  assumes "lifecycle_inv clk db dels"
    and "deleteUserData sha fresh deletionId blockedId clk deleteObjects user db = (Inr r, db')"
  shows "lifecycle_inv clk db' (dels \<union> (\<lambda>s. (s, clk)) ` set (deletion_subjects sha (account_deletion deletionId (user_id user) db)))"
proof -
  obtain lifecycle mid where
    prep: "prepareAccountDeletionLifecycle sha fresh clk (account_deletion deletionId (user_id user) db) db = (Inr lifecycle, mid)"
    and "backup_records db' = backup_records mid" and "backup_subjects db' = backup_subjects mid"
    and "deletion_tombstones db' = deletion_tombstones mid"
    using assms(2) by (rule deleteUserData_lifecycle)
  then have "same_view mid db'" by (simp add: same_view_def bview_def tview_def)
  with inv_deleted [OF assms(1) prep] show ?thesis by (rule inv_same_view)
qed

lemma deleteUserData_refused_view:
  "deleteUserData sha fresh deletionId blockedId clk deleteObjects user db = (Inl e, db') \<Longrightarrow> same_view db db'"
  by (auto dest!: deleteUserData_Inl)

lemma lifecycle_reach_inv: "lifecycle_reach sha clk db dels \<Longrightarrow> lifecycle_inv clk db dels"
proof (induction rule: lifecycle_reach.induct)
  case start
  show ?case by (rule inv_empty)
next
  case tick
  then show ?case by (blast intro: inv_tick)
next
  case elsewhere
  then show ?case by (blast intro: inv_same_view)
next
  case hold
  then show ?case by (blast intro: inv_same_view recordLegalHold_view)
next
  case delete
  then show ?case by (blast intro: inv_deleted dest: withGatewayTransaction_Inr [THEN iffD1])
next
  case account
  then show ?case by (blast intro: inv_account)
next
  case refused
  then show ?case by (blast intro: inv_same_view deleteUserData_refused_view)
next
  case register
  then show ?case by (blast intro: inv_same_view inv_backup_added dest: registerBackup_effect)
next
  case evaluate
  then show ?case by (blast intro: inv_same_view evaluateRestore_view)
next
  case expire
  then show ?case by (blast intro: inv_same_view deleteExpiredBackups_view)
next
  case sweep
  then show ?case by (blast intro: inv_swept sweep_effect)
qed

section \<open>Deleted data does not come back\<close>

lemma blocked_subjects_Nil:
  "blocked_subjects bid now db = [] \<longleftrightarrow>
     (\<forall>s \<in> set (backup_subjects db). \<forall>v \<in> set (tview db).
        bs_backup_id s = bid \<longrightarrow> (bs_subject_kind s, bs_subject_digest s) = fst v \<longrightarrow> snd (snd v) \<le> now)"
  by (auto simp: blocked_subjects_def subjects_of_backup_def filter_empty_conv list_ex_iff tview_def tomb_view_def
      not_less)

lemma eligible_restore_recent_capture:
  assumes inv: "lifecycle_inv clk db dels"
    and ev: "evaluateRestoreCandidate sha fresh clk bid manifest evidence db = (Inr ev, db')"
    and elig: "re_result ev = Eligible"
    and subj: "(kind, digest) \<in> set (subjects_of_backup bid db)"
    and del: "((kind, digest), t) \<in> dels"
  shows "\<exists>b \<in> set (backup_records db). br_id b = bid \<and> addDays t 15 < br_captured_at b"
proof -
  from evaluateRestore_Inr(2) [OF ev] obtain b where b: "b \<in> set (backup_records db)" "br_id b = bid"
    "clk < br_delete_after b" by blast
  from elig evaluateRestore_Inr(3) [OF ev] have free: "blocked_subjects bid clk db = []"
    by (auto split: if_splits)
  from subj obtain s where s: "s \<in> set (backup_subjects db)" "bs_backup_id s = bid"
    "(bs_subject_kind s, bs_subject_digest s) = (kind, digest)"
    by (auto simp: subjects_of_backup_def)
  have "addDays t TOMBSTONE_DAYS \<le> clk"
  proof (rule ccontr)
    assume late: "\<not> addDays t TOMBSTONE_DAYS \<le> clk"
    with inv del obtain v where "v \<in> set (tview db)" "fst v = (kind, digest)" "addDays t TOMBSTONE_DAYS \<le> snd (snd v)"
      by (fastforce simp: lifecycle_inv_def deletions_suppressed_def)
    with free s late show False by (fastforce simp: blocked_subjects_Nil)
  qed
  moreover have "br_delete_after b \<le> addDays (br_captured_at b) BACKUP_MAX_DAYS"
    using inv b by (fastforce simp: lifecycle_inv_def backups_ok_def bview_def)
  ultimately have "addDays t 15 < br_captured_at b"
    using b(3) by (simp add: addDays_def day_ms_def BACKUP_MAX_DAYS_def TOMBSTONE_DAYS_def)
  with b show ?thesis by blast
qed

end
