(* ===== verification/Tx_Relations.thy ===== *)
theory Tx_Relations
  imports Gateway_Db
begin

text \<open>
  What a computation does to the state, as a relation between the state before and the state after,
  whether it succeeds or fails: a reflexive and transitive relation is kept by a composition when the
  parts keep it. And what a computation that only reads depends on.
\<close>

definition keeps :: "('s \<Rightarrow> 's \<Rightarrow> bool) \<Rightarrow> ('s, 'e, 'a) tx \<Rightarrow> bool" where
  "keeps R m \<longleftrightarrow> (\<forall>s r t. m s = (r, t) \<longrightarrow> R s t)"

lemma keepsD: "keeps R m \<Longrightarrow> m s = (r, t) \<Longrightarrow> R s t"
  by (auto simp: keeps_def)

locale tx_rel =
  fixes R :: "'s \<Rightarrow> 's \<Rightarrow> bool"
  assumes R_refl: "R s s"
    and R_trans: "R s t \<Longrightarrow> R t u \<Longrightarrow> R s u"
begin

lemma keeps_read:
  "keeps R (tx_return a)" "keeps R (tx_throw e)" "keeps R (tx_gets f)" "keeps R (tx_lift r)" "keeps R (tx_guard b e)"
  by (auto simp: keeps_def R_refl split: if_splits)

lemma keeps_modify: "(\<And>s. R s (g s)) \<Longrightarrow> keeps R (tx_modify g)"
  by (auto simp: keeps_def)

lemma keeps_bind:
  assumes "keeps R m" "\<And>a. keeps R (f a)"
  shows "keeps R (tx_bind m f)"
  unfolding keeps_def
proof (intro allI impI)
  fix s r t assume run: "tx_bind m f s = (r, t)"
  obtain x u where m: "m s = (x, u)" by (cases "m s")
  with assms(1) have "R s u" by (rule keepsD)
  with run m show "R s t"
    by (cases x) (auto simp: tx_bind_def intro: R_trans dest: keepsD [OF assms(2)])
qed

lemma keeps_if: "(b \<Longrightarrow> keeps R m) \<Longrightarrow> (\<not> b \<Longrightarrow> keeps R n) \<Longrightarrow> keeps R (if b then m else n)"
  by simp

lemma keeps_option: "keeps R m \<Longrightarrow> (\<And>a. keeps R (f a)) \<Longrightarrow> keeps R (case x of None \<Rightarrow> m | Some a \<Rightarrow> f a)"
  by (cases x) simp_all

lemma keeps_list: "keeps R m \<Longrightarrow> (\<And>y ys. keeps R (f y ys)) \<Longrightarrow> keeps R (case xs of [] \<Rightarrow> m | y # ys \<Rightarrow> f y ys)"
  by (cases xs) simp_all

lemmas keeps_intros = keeps_read keeps_modify keeps_bind keeps_if keeps_option keeps_list

end

text \<open>A transaction keeps what its body keeps: it commits the state of the body or goes back.\<close>

lemma keeps_transaction:
  assumes "tx_rel R" "keeps R m"
  shows "keeps R (withGatewayTransaction m)"
  using assms(2) tx_rel.R_refl [OF assms(1)]
  by (auto simp: keeps_def withGatewayTransaction_def split: prod.splits sum.splits if_splits)

text \<open>A computation that only reads, and reads the state only through the view \<open>f\<close>: two states with the same
  view give the same result.\<close>

definition reads :: "('s \<Rightarrow> 'v) \<Rightarrow> ('s, 'e, 'a) tx \<Rightarrow> bool" where
  "reads f m \<longleftrightarrow> (\<exists>h. \<forall>s. m s = (h (f s), s))"

lemma reads_run: "reads f m \<Longrightarrow> f t = f s \<Longrightarrow> m s = (r, s') \<Longrightarrow> m t = (r, t)"
  unfolding reads_def by auto

lemma reads_same: "reads f m \<Longrightarrow> m s = (r, t) \<Longrightarrow> t = s"
  unfolding reads_def by auto

lemma readsI: "(\<And>s. m s = (h (f s), s)) \<Longrightarrow> reads f m"
  unfolding reads_def by fast

lemma reads_basic:
  "reads f (tx_return a)" "reads f (tx_throw e)" "reads f (tx_lift r)" "reads f (tx_guard b e)"
  by (rule readsI [of _ "\<lambda>_. Inr a"], simp) (rule readsI [of _ "\<lambda>_. Inl e"], simp, rule readsI [of _ "\<lambda>_. r"], simp,
    rule readsI [of _ "\<lambda>_. guardE b e"], simp add: guardE_def)

lemma reads_gets:
  assumes "\<And>s t. f s = f t \<Longrightarrow> g s = g t"
  shows "reads f (tx_gets g)"
proof (rule readsI [of _ "\<lambda>v. Inr (g (SOME t. f t = v))"])
  fix s
  have "f (SOME t. f t = f s) = f s" by (rule someI) (rule refl)
  then have "g (SOME t. f t = f s) = g s" by (rule assms)
  then show "tx_gets g s = (Inr (g (SOME t. f t = f s)), s)" by simp
qed

lemma reads_bind:
  assumes "reads f m" "\<And>a. reads f (g a)"
  shows "reads f (tx_bind m g)"
proof -
  from assms(1) obtain h where m: "m s = (h (f s), s)" for s unfolding reads_def by blast
  from assms(2) obtain k where g: "g a s = (k a (f s), s)" for a s
    unfolding reads_def using choice [of "\<lambda>a h. \<forall>s. g a s = (h (f s), s)"] by blast
  have "tx_bind m g s = ((\<lambda>v. case h v of Inl e \<Rightarrow> Inl e | Inr a \<Rightarrow> k a v) (f s), s)" for s
    by (simp add: tx_bind_def m g split: sum.splits)
  then show ?thesis by (rule readsI)
qed

lemma reads_if: "(b \<Longrightarrow> reads f m) \<Longrightarrow> (\<not> b \<Longrightarrow> reads f n) \<Longrightarrow> reads f (if b then m else n)"
  by simp

lemma reads_option: "reads f m \<Longrightarrow> (\<And>a. reads f (g a)) \<Longrightarrow> reads f (case x of None \<Rightarrow> m | Some a \<Rightarrow> g a)"
  by (cases x) simp_all

lemma reads_list: "reads f m \<Longrightarrow> (\<And>y ys. reads f (g y ys)) \<Longrightarrow> reads f (case xs of [] \<Rightarrow> m | y # ys \<Rightarrow> g y ys)"
  by (cases xs) simp_all

lemma reads_forM: "(\<And>x. reads f (g x)) \<Longrightarrow> reads f (tx_forM xs g)"
  by (induction xs) (simp_all add: reads_basic reads_bind)

lemmas reads_intros = reads_basic reads_gets reads_bind reads_if reads_option reads_list reads_forM

end
