(* ===== verification/Hold_History.thy ===== *)
theory Hold_History
  imports Sweep_Correct Restore_Safety Tx_Relations
begin

text \<open>
  What becomes of a legal hold after it has been placed: whatever lifecycle operations follow, as long as
  no request releases or shortens it, its latest event stays in the ledger and stays in force until it expires.
\<close>

section \<open>Operations that leave the hold ledger alone\<close>

definition same_holds :: "gateway_db \<Rightarrow> gateway_db \<Rightarrow> bool" where
  "same_holds db db' \<longleftrightarrow> legal_hold_events db' = legal_hold_events db \<and> hold_sequence db' = hold_sequence db"

lemma same_holds_refl: "same_holds db db"
  by (simp add: same_holds_def)

lemma same_holds_trans: "same_holds a b \<Longrightarrow> same_holds b c \<Longrightarrow> same_holds a c"
  by (simp add: same_holds_def)

interpretation hold_frame: tx_rel same_holds
  by unfold_locales (auto intro: same_holds_refl same_holds_trans)

lemma keeps_update_holds: "(\<And>s s'. f s = Inr s' \<Longrightarrow> same_holds s s') \<Longrightarrow> keeps same_holds (tx_update f)"
  by (auto simp: keeps_def tx_update_run same_holds_refl split: sum.splits)

lemma keeps_forM_holds: "(\<And>x. keeps same_holds (f x)) \<Longrightarrow> keeps same_holds (tx_forM xs f)"
  by (induction xs) (simp_all add: hold_frame.keeps_read hold_frame.keeps_bind)

lemma hold_frame_writes:
  "keeps same_holds (tx_update (insert_backup row))" "keeps same_holds (tx_update (insert_backup_subject subj))"
  "keeps same_holds (tx_update (insert_lifecycle_event ev))" "keeps same_holds (tx_update (insert_restore_test rt))"
  "keeps same_holds (tx_update (delete_backup_records ids))"
  "keeps same_holds (tx_modify (update_backups sel upd))" "keeps same_holds (tx_modify (settle_tombstones bid now))"
  "keeps same_holds (tx_modify (delete_restore_tests ids))" "keeps same_holds (tx_modify (delete_lifecycle_events ids))"
  "keeps same_holds (tx_modify (finalize_tombstones now))" "keeps same_holds (tx_modify (drop_tombstones now))"
  "keeps same_holds (reconcile_tombstone backup t)" "keeps same_holds (lockLifecycleSubjectDigest kind d)"
  by (auto intro!: keeps_update_holds hold_frame.keeps_intros
      simp: resE same_holds_def update_backups_def settle_tombstones_def delete_restore_tests_def delete_lifecycle_events_def
        finalize_tombstones_def drop_tombstones_def reconcile_tombstone_def lockLifecycleSubjectDigest_def delete_backup_records_def
      split: if_splits)

lemma keeps_pair_forM: "(\<And>a b. keeps same_holds (f a b)) \<Longrightarrow> keeps same_holds (tx_forM xs (\<lambda>(a, b). f a b))"
  by (rule keeps_forM_holds) auto

lemmas hold_frame_intros = hold_frame.keeps_intros hold_frame_writes keeps_pair_forM keeps_forM_holds keeps_transaction [OF hold_frame.tx_rel_axioms]

lemma reconcile_frame: "keeps same_holds (reconcileBackupSubjectsWithTombstones backup subjects)"
  unfolding reconcileBackupSubjectsWithTombstones_def reconcile_subject_def by (intro hold_frame_intros)

lemma registerBackup_frame: "keeps same_holds (registerBackup sha fresh now input)"
  unfolding registerBackup_def registerBackup_tx_def registerBackup_existing_def registerBackup_new_def Let_def prod.case
  by (cases "bi_capturedAt input"; cases "bi_deleteAfter input"; simp only: prod.case option.case;
      intro hold_frame_intros reconcile_frame)

lemma evaluateRestore_frame: "keeps same_holds (evaluateRestoreCandidate sha fresh now bid manifest evidence)"
  unfolding evaluateRestoreCandidate_def evaluateRestore_body_def Let_def by (intro hold_frame_intros)

lemma delete_candidate_frame: "keeps same_holds (delete_candidate sha a b adapter now c)"
proof -
  have fail: "keeps same_holds (fail_backup sha ev now backup name)" for ev backup name
    unfolding fail_backup_def Let_def by (intro hold_frame_intros)
  have finish: "keeps same_holds (finish_backup sha ev now backup)" for ev backup
    unfolding finish_backup_def by (intro hold_frame_intros)
  have settle: "keeps same_holds (\<lambda>db. case finish_backup sha a now backup db of (Inr _, db') \<Rightarrow> (Inr (Some True), db')
      | (Inl e, db') \<Rightarrow> tx_bind (fail_backup sha b now backup (thrown_name e)) (\<lambda>_. tx_return (Some False)) db')" for backup
    unfolding keeps_def
  proof (intro allI impI)
    fix s r t
    assume run: "(case finish_backup sha a now backup s of (Inr _, db') \<Rightarrow> (Inr (Some True), db')
      | (Inl e, db') \<Rightarrow> tx_bind (fail_backup sha b now backup (thrown_name e)) (\<lambda>_. tx_return (Some False)) db') = (r, t)"
    obtain x u where fin: "finish_backup sha a now backup s = (x, u)" by fastforce
    then have su: "same_holds s u" using finish keepsD by metis
    show "same_holds s t"
    proof (cases x)
      case (Inl e)
      obtain y v where fb: "fail_backup sha b now backup (thrown_name e) u = (y, v)" by fastforce
      with run fin Inl have "t = v" by (cases y) (auto simp: tx_bind_run)
      with su keepsD [OF fail fb] show ?thesis by (auto intro: same_holds_trans)
    qed (use run fin su in auto)
  qed
  show ?thesis
    unfolding delete_candidate_def Let_def
    by (intro hold_frame_intros) (auto intro!: hold_frame_intros fail settle split: sum.splits)
qed

lemma deleteExpired_frame: "keeps same_holds (deleteExpiredBackups sha fresh adapter now limit)"
proof -
  have "keeps same_holds (delete_loop sha fresh adapter now i cs ds fs)" for i cs ds fs
    by (induction cs arbitrary: i ds fs)
      (auto intro!: hold_frame_intros delete_candidate_frame split: option.splits bool.splits)
  then show ?thesis unfolding deleteExpiredBackups_def by (intro hold_frame_intros)
qed

lemma deletion_frame:
  assumes "withGatewayTransaction (prepareAccountDeletionLifecycle sha fresh now input) db = (r, db')"
  shows "same_holds db db'"
  using withGatewayTransaction_cases [OF assms]
  by (auto elim: prepareAccountDeletion_Inr simp: same_holds_def)

lemma kept_tables_holds: "kept_tables uid db' = kept_tables uid db \<Longrightarrow> legal_hold_events db' = legal_hold_events db"
  by (simp add: kept_tables_def)

lemma deleteUserData_frame:
  assumes "deleteUserData sha fresh deletionId blockedId now deleteObjects user db = (r, db')"
  shows "same_holds db db'"
proof (cases r)
  case (Inl e)
  with assms deleteUserData_Inl show ?thesis by (fastforce simp: same_holds_def)
next
  case (Inr receipt)
  with assms have run: "deleteUserData sha fresh deletionId blockedId now deleteObjects user db = (Inr receipt, db')" by simp
  have "legal_hold_events db' = legal_hold_events db" using deleteUserData_keeps(1) [OF run] by (rule kept_tables_holds)
  moreover have "hold_sequence db' = hold_sequence db" using run by (rule deleteUserData_sequence)
  ultimately show ?thesis by (simp add: same_holds_def)
qed

section \<open>The sweep\<close>

lemma sweep_queries_frame: "run_queries ex (sweep_queries sha now) db = (r, db') \<Longrightarrow> same_holds db db'"
proof -
  have "keeps same_holds (run_queries ex (sweep_queries sha now))"
    unfolding sweep_queries_def run_queries.simps
    by (intro hold_frame_intros) (simp_all add: same_holds_def delete_expired_jobs_def Let_def)
  then show "run_queries ex (sweep_queries sha now) db = (r, db') \<Longrightarrow> same_holds db db'" by (rule keepsD)
qed

text \<open>A sweep removes hold events only by the identifiers of expired ones.\<close>

lemma delete_hold_events_by_id:
  assumes "tx_forM es (\<lambda>e. tx_update (delete_hold_event (hr_id e))) db = (Inr u, db')"
  shows "legal_hold_events db' = filter (\<lambda>r. hr_id r \<notin> hr_id ` set es) (legal_hold_events db) \<and> hold_sequence db' = hold_sequence db"
  using assms
proof (induction es arbitrary: db)
  case (Cons e es)
  from Cons.prems obtain m where del: "delete_hold_event (hr_id e) db = Inr m"
    and rest: "tx_forM es (\<lambda>e. tx_update (delete_hold_event (hr_id e))) m = (Inr u, db')" by (auto simp: txE)
  from del have m: "legal_hold_events m = filter (\<lambda>r. hr_id r \<noteq> hr_id e) (legal_hold_events db)" "hold_sequence m = hold_sequence db"
    by (auto simp: delete_hold_event_def split: if_splits)
  show ?case using Cons.IH [OF rest] by (simp add: m conj_commute)
qed simp

lemma sweep_hold_events:
  assumes "runPrimaryRetentionSweep sha evId now execute evidence db = (r, db')"
  shows "\<exists>es. set es \<subseteq> {e \<in> set (legal_hold_events db). hold_event_expired now db e}
     \<and> legal_hold_events db' = filter (\<lambda>r. hr_id r \<notin> hr_id ` set es) (legal_hold_events db)
     \<and> hold_sequence db' = hold_sequence db"
proof -
  have none: ?thesis if "same_holds db db'"
    using that by (intro exI [of _ "[]"]) (simp add: same_holds_def)
  from withGatewayTransaction_cases [OF assms [unfolded runPrimaryRetentionSweep_def]]
  consider "db' = db" | a where "sweep_body sha evId now execute evidence db = (Inr a, db')" by blast
  then show ?thesis
  proof cases
    case 1
    then show ?thesis using none by (simp add: same_holds_refl)
  next
    case (2 a)
    then obtain counts m where q: "run_queries execute (sweep_queries sha now) db = (Inr counts, m)"
      unfolding sweep_body_def txE by blast
    then have view: "same_holds db m" by (rule sweep_queries_frame)
    let ?es = "rev (sort_key hr_event_sequence (filter (hold_event_expired now m) (legal_hold_events m)))"
    from 2 q have "db' = m \<or> (\<exists>c t b e. sweep_execute evId now evidence c ?es t b e m = (Inr a, db'))"
      unfolding sweep_body_def by (cases execute) (auto simp: tx_bind_run Let_def)
    then show ?thesis
    proof
      assume "db' = m"
      with view none show ?thesis by simp
    next
      assume "\<exists>c t b e. sweep_execute evId now evidence c ?es t b e m = (Inr a, db')"
      then obtain c t b e where ex: "sweep_execute evId now evidence c ?es t b e m = (Inr a, db')" by blast
      then obtain u n where del: "tx_forM ?es (\<lambda>e. tx_update (delete_hold_event (hr_id e))) m = (Inr u, n)"
        unfolding sweep_execute_def txE by blast
      let ?rest = "tx_bind (tx_modify (delete_restore_tests (map rt_id t))) (\<lambda>_.
         tx_bind (delete_due_backups b) (\<lambda>_.
         tx_bind (tx_modify (delete_lifecycle_events (map le_id e))) (\<lambda>_.
         tx_bind (tx_gets (\<lambda>db. count_if (tombstone_finalizable now db) (deletion_tombstones db))) (\<lambda>finalized.
         tx_bind (tx_modify (finalize_tombstones now)) (\<lambda>_.
         tx_bind (tx_gets (\<lambda>db. count_if (tombstone_expired now) (deletion_tombstones db))) (\<lambda>expired.
         tx_bind (tx_modify (drop_tombstones now)) (\<lambda>_.
         sweep_record evId now evidence (c @ [(''finalizedTombstones'', finalized), (''expiredTombstones'', expired)]))))))))"
      have "keeps same_holds ?rest"
        unfolding delete_due_backups_def sweep_record_def by (intro hold_frame_intros)
      moreover from ex del have "?rest n = (Inr a, db')" unfolding sweep_execute_def by (simp add: tx_bind_run)
      ultimately have "same_holds n db'" by (rule keepsD)
      moreover have "hold_event_expired now m = hold_event_expired now db"
        using view by (intro expiry_cong(3)) (simp add: same_holds_def)
      ultimately show ?thesis
        using delete_hold_events_by_id [OF del] view by (intro exI [of _ ?es]) (auto simp: same_holds_def)
    qed
  qed
qed

section \<open>Histories after a hold\<close>

text \<open>What can happen from a state on, every operation with whatever result, and the hold requests among it.
  \<open>elsewhere\<close> is any other writer of the gateway: none touches the hold ledger, to which migration 0017
  refuses updates.\<close>

inductive hold_history :: "sha_fun \<Rightarrow> int \<Rightarrow> gateway_db \<Rightarrow> LegalHoldInput list \<Rightarrow> int \<Rightarrow> gateway_db \<Rightarrow> bool"
  for sha clk0 db0 where
  start: "hold_history sha clk0 db0 [] clk0 db0"
| tick: "hold_history sha clk0 db0 reqs clk db \<Longrightarrow> clk \<le> clk' \<Longrightarrow> hold_history sha clk0 db0 reqs clk' db"
| elsewhere: "hold_history sha clk0 db0 reqs clk db \<Longrightarrow> same_holds db db' \<Longrightarrow> hold_history sha clk0 db0 reqs clk db'"
| hold: "hold_history sha clk0 db0 reqs clk db \<Longrightarrow> recordLegalHold sha newId clk request db = (r1, db') \<Longrightarrow>
     hold_history sha clk0 db0 (reqs @ [request]) clk db'"
| delete: "hold_history sha clk0 db0 reqs clk db \<Longrightarrow>
     withGatewayTransaction (prepareAccountDeletionLifecycle sha fresh clk dinput) db = (r2, db') \<Longrightarrow>
     hold_history sha clk0 db0 reqs clk db'"
| account: "hold_history sha clk0 db0 reqs clk db \<Longrightarrow>
     deleteUserData sha fresh deletionId blockedId clk deleteObjects user db = (r3, db') \<Longrightarrow>
     hold_history sha clk0 db0 reqs clk db'"
| register: "hold_history sha clk0 db0 reqs clk db \<Longrightarrow> registerBackup sha fresh clk binput db = (r4, db') \<Longrightarrow>
     hold_history sha clk0 db0 reqs clk db'"
| evaluate: "hold_history sha clk0 db0 reqs clk db \<Longrightarrow>
     evaluateRestoreCandidate sha fresh clk bid manifest evidence db = (r5, db') \<Longrightarrow>
     hold_history sha clk0 db0 reqs clk db'"
| expire: "hold_history sha clk0 db0 reqs clk db \<Longrightarrow>
     deleteExpiredBackups sha fresh adapter clk limit db = (r6, db') \<Longrightarrow> hold_history sha clk0 db0 reqs clk db'"
| sweep: "hold_history sha clk0 db0 reqs clk db \<Longrightarrow>
     runPrimaryRetentionSweep sha evId clk execute reference db = (r7, db') \<Longrightarrow> hold_history sha clk0 db0 reqs clk db'"

text \<open>A request for the same hold: the same key and the same subject, as the ledger knows it, by its digest.\<close>

definition concerns :: "sha_fun \<Rightarrow> LegalHoldInput \<Rightarrow> LegalHoldInput \<Rightarrow> bool" where
  "concerns sha a b \<longleftrightarrow> li_holdKey a = li_holdKey b \<and> li_subjectKind a = li_subjectKind b
     \<and> sha (kind_text (li_subjectKind a) @ '':'' @ li_subjectId a) = sha (kind_text (li_subjectKind b) @ '':'' @ li_subjectId b)"

definition leaves_in_force :: "sha_fun \<Rightarrow> LegalHoldInput \<Rightarrow> int \<Rightarrow> LegalHoldInput list \<Rightarrow> bool" where
  "leaves_in_force sha input until reqs \<longleftrightarrow>
     (\<forall>r \<in> set reqs. concerns sha r input \<longrightarrow> li_action r = Place \<and> (\<forall>x. li_expiresAt r = Some x \<longrightarrow> until \<le> x))"

text \<open>The invariant: the latest event of the hold places it, for at least as long.\<close>

definition hold_stands :: "string \<Rightarrow> LifecycleSubjectKind \<Rightarrow> string \<Rightarrow> int \<Rightarrow> gateway_db \<Rightarrow> bool" where
  "hold_stands key kind d until db \<longleftrightarrow> hold_inv db \<and> distinct (map hr_id (legal_hold_events db))
     \<and> distinct (map hr_event_sequence (legal_hold_events db))
     \<and> (\<exists>row. latest_by hr_event_sequence (holds_of key kind d db) = Some row \<and> hr_action row = Place \<and> until \<le> hr_expires_at row)"

lemma hold_stands_same: "hold_stands key kind d until db \<Longrightarrow> same_holds db db' \<Longrightarrow> hold_stands key kind d until db'"
  by (simp add: hold_stands_def same_holds_def hold_inv_def holds_of_def)

lemma hold_appended_ids:
  assumes "hold_appended newId now input d ev db db'"
  shows "distinct (map hr_id (legal_hold_events db)) \<Longrightarrow> distinct (map hr_id (legal_hold_events db'))"
    and "hold_inv db \<Longrightarrow> distinct (map hr_event_sequence (legal_hold_events db)) \<Longrightarrow>
           distinct (map hr_event_sequence (legal_hold_events db'))"
proof -
  from assms obtain row where row: "db' = append_hold row db" "\<forall>q \<in> set (legal_hold_events db). \<not> hold_clash row q"
    "hr_event_sequence row = hold_sequence db" by (auto simp: hold_appended_def)
  then show "distinct (map hr_id (legal_hold_events db)) \<Longrightarrow> distinct (map hr_id (legal_hold_events db'))"
    by (auto simp: append_hold_def hold_clash_def)
  assume "hold_inv db" and seqs: "distinct (map hr_event_sequence (legal_hold_events db))"
  then have "hold_sequence db \<notin> hr_event_sequence ` set (legal_hold_events db)"
    by (metis hold_inv_def imageE less_irrefl seq_below_def)
  with row seqs show "distinct (map hr_event_sequence (legal_hold_events db'))" by (simp add: append_hold_def)
qed

lemma placed_expiry:
  assumes "recordLegalHold sha newId now input db = (Inr ev, db')" and "li_action input = Place" and "db' \<noteq> db"
  shows "li_expiresAt input = Some (lh_expiresAt ev)"
proof -
  from assms(1) obtain d where body: "recordLegalHold_body sha newId now input d db = (Inr ev, db')"
    unfolding recordLegalHold_def txE by auto
  then show ?thesis
    using assms(2,3)
    by (cases "find (\<lambda>r. hr_idempotency_key r = li_idempotencyKey input) (legal_hold_events db)")
      (auto simp: recordLegalHold_body_def txE resE mapHold_def Let_def split: if_splits option.splits)
qed

lemma hold_stands_request:
  assumes stands: "hold_stands key kind d until db" and run: "recordLegalHold sha newId now request db = (r, db')"
    and keep: "li_holdKey request = key \<Longrightarrow> li_subjectKind request = kind \<Longrightarrow>
       sha (kind_text kind @ '':'' @ li_subjectId request) = d \<Longrightarrow>
       li_action request = Place \<and> (\<forall>x. li_expiresAt request = Some x \<longrightarrow> until \<le> x)"
  shows "hold_stands key kind d until db'"
proof (cases r)
  case (Inl e)
  with run stands show ?thesis by (auto dest: recordLegalHold_Inl)
next
  case (Inr ev)
  with run have run: "recordLegalHold sha newId now request db = (Inr ev, db')" by simp
  then obtain d' where d': "digestLifecycleSubject sha (li_subjectKind request) (li_subjectId request) = Inr d'"
    and out: "hold_replayed request d' ev db db' \<or> hold_appended newId now request d' ev db db'"
    by (rule recordLegalHold_Inr)
  from d' have dig: "d' = sha (kind_text (li_subjectKind request) @ '':'' @ li_subjectId request)" by (simp add: resE)
  from stands have inv: "hold_inv db" and ids: "distinct (map hr_id (legal_hold_events db))"
    and seqs: "distinct (map hr_event_sequence (legal_hold_events db))" by (simp_all add: hold_stands_def)
  from out show ?thesis
  proof
    assume "hold_replayed request d' ev db db'"
    with stands show ?thesis by (simp add: hold_replayed_def)
  next
    assume app: "hold_appended newId now request d' ev db db'"
    then obtain row where row: "db' = append_hold row db" "ev = mapHold row" "hr_event_sequence row = hold_sequence db"
      "hr_hold_key row = li_holdKey request" "hr_action row = li_action request" "hr_subject_kind row = li_subjectKind request"
      "hr_subject_digest row = d'" by (auto simp: hold_appended_def)
    have changed: "db' \<noteq> db"
    proof
      assume "db' = db"
      then have "legal_hold_events (append_hold row db) = legal_hold_events db" using row(1) by simp
      then show False by (simp add: append_hold_def)
    qed
    have "\<exists>row. latest_by hr_event_sequence (holds_of key kind d db') = Some row \<and> hr_action row = Place \<and> until \<le> hr_expires_at row"
    proof (cases "hr_hold_key row = key \<and> hr_subject_kind row = kind \<and> hr_subject_digest row = d")
      case True
      with row dig keep have act: "li_action request = Place" and le: "\<forall>x. li_expiresAt request = Some x \<longrightarrow> until \<le> x" by auto
      have "li_expiresAt request = Some (lh_expiresAt ev)" using run act changed by (rule placed_expiry)
      with le row(2) have "until \<le> hr_expires_at row" by (simp add: mapHold_def)
      with True row act show ?thesis by (simp add: holds_of_append [OF inv])
    next
      case False
      with row(1) holds_of_append [OF inv row(3), of key kind d] stands show ?thesis by (simp add: hold_stands_def)
    qed
    with hold_appended_inv [OF inv app] hold_appended_ids(1) [OF app ids] hold_appended_ids(2) [OF app inv seqs] show ?thesis by (simp add: hold_stands_def)
  qed
qed

lemma latest_by_filter:
  assumes "latest_by sq xs = Some m" "m \<in> set (filter P xs)" "distinct (map sq xs)"
  shows "latest_by sq (filter P xs) = Some m"
proof -
  obtain n where n: "latest_by sq (filter P xs) = Some n"
    using assms(2) by (metis empty_iff empty_set latest_by_None option.exhaust)
  then have "n \<in> set xs" "sq n \<le> sq m" "sq m \<le> sq n"
    using latest_by_in [OF n] latest_by_max [OF assms(1)] latest_by_max [OF n assms(2)] by auto
  with assms(2,3) have "n = m" by (auto simp: distinct_map inj_on_def)
  with n show ?thesis by simp
qed

lemma hold_stands_sweep:
  assumes "hold_stands key kind d until db"
    and "runPrimaryRetentionSweep sha evId now execute evidence db = (r, db')" and "now < until"
  shows "hold_stands key kind d until db'"
proof -
  from assms(1) obtain row where inv: "hold_inv db" and ids: "distinct (map hr_id (legal_hold_events db))"
    and seqs: "distinct (map hr_event_sequence (legal_hold_events db))"
    and row: "latest_by hr_event_sequence (holds_of key kind d db) = Some row" "hr_action row = Place" "until \<le> hr_expires_at row"
    by (auto simp: hold_stands_def)
  have in_group: "row \<in> set (legal_hold_events db)" "hr_hold_key row = key" "hr_subject_kind row = kind" "hr_subject_digest row = d"
    using latest_by_in [OF row(1)] by (auto simp: holds_of_def)
  have "filter (\<lambda>r. hold_group r = hold_group row) (legal_hold_events db) = holds_of key kind d db"
    unfolding holds_of_def by (rule filter_cong) (auto simp: hold_group_def in_group)
  with row(1) have "row \<in> set (latest_holds db)" by (simp add: latest_holds_def distinct_on_iff hold_group_def)
  then have live: "\<not> hold_event_expired now db row"
    by (rule active_hold_events_kept) (use row assms(3) in auto)
  obtain es where es: "set es \<subseteq> {e \<in> set (legal_hold_events db). hold_event_expired now db e}"
    "legal_hold_events db' = filter (\<lambda>r. hr_id r \<notin> hr_id ` set es) (legal_hold_events db)" "hold_sequence db' = hold_sequence db"
    using sweep_hold_events [OF assms(2)] by blast
  have kept: "hr_id row \<notin> hr_id ` set es"
  proof
    assume "hr_id row \<in> hr_id ` set es"
    then obtain e where "e \<in> set es" "hr_id e = hr_id row" by auto
    with es(1) ids in_group(1) have "e = row" by (auto simp: distinct_map inj_on_def)
    with \<open>e \<in> set es\<close> es(1) live show False by auto
  qed
  have "holds_of key kind d db' = filter (\<lambda>r. hr_id r \<notin> hr_id ` set es) (holds_of key kind d db)"
    by (simp add: holds_of_def es(2) conj_commute)
  moreover have "distinct (map hr_event_sequence (holds_of key kind d db))"
    using seqs by (simp add: holds_of_def distinct_map_filter)
  moreover have "row \<in> set (filter (\<lambda>r. hr_id r \<notin> hr_id ` set es) (holds_of key kind d db))"
    using kept latest_by_in [OF row(1)] by simp
  ultimately have "latest_by hr_event_sequence (holds_of key kind d db') = Some row"
    using row(1) by (simp add: latest_by_filter)
  moreover have "hold_inv db'" using inv by (auto simp: hold_inv_def seq_below_def es distinct_map_filter)
  moreover have "distinct (map hr_id (legal_hold_events db'))" "distinct (map hr_event_sequence (legal_hold_events db'))"
    using ids seqs by (simp_all add: es distinct_map_filter)
  ultimately show ?thesis using row(2,3) by (simp add: hold_stands_def)
qed

lemma hold_history_stands:
  assumes "hold_history sha clk0 db0 reqs clk db" and "hold_stands key kind d until db0" and "clk < until"
    and "\<And>r. r \<in> set reqs \<Longrightarrow> li_holdKey r = key \<Longrightarrow> li_subjectKind r = kind \<Longrightarrow>
       sha (kind_text kind @ '':'' @ li_subjectId r) = d \<Longrightarrow>
       li_action r = Place \<and> (\<forall>x. li_expiresAt r = Some x \<longrightarrow> until \<le> x)"
  shows "hold_stands key kind d until db"
  using assms
proof (induction rule: hold_history.induct)
  case start
  then show ?case by simp
next
  case (tick reqs clk db clk')
  then show ?case by simp
next
  case (elsewhere reqs clk db db')
  then show ?case by (auto intro: hold_stands_same)
next
  case (hold reqs clk db newId request r1 db')
  have "hold_stands key kind d until db" by (rule hold.IH) (use hold.prems in auto)
  then show ?case using hold.hyps(2) by (rule hold_stands_request) (use hold.prems in auto)
next
  case (delete reqs clk db fresh dinput r2 db')
  then show ?case by (auto intro: hold_stands_same dest: deletion_frame)
next
  case (account reqs clk db fresh deletionId blockedId deleteObjects user r3 db')
  then have "hold_stands key kind d until db" by simp
  then show ?case using deleteUserData_frame [OF account.hyps(2)] by (rule hold_stands_same)
next
  case (register reqs clk db fresh binput r4 db')
  then show ?case by (auto intro: hold_stands_same dest: keepsD [OF registerBackup_frame])
next
  case (evaluate reqs clk db fresh bid manifest evidence r5 db')
  then show ?case by (auto intro: hold_stands_same dest: keepsD [OF evaluateRestore_frame])
next
  case (expire reqs clk db fresh adapter limit r6 db')
  then show ?case by (auto intro: hold_stands_same dest: keepsD [OF deleteExpired_frame])
next
  case (sweep reqs clk db evId execute reference r7 db')
  then show ?case by (auto intro: hold_stands_sweep)
qed

text \<open>A new hold stands, and a hold that stands on an account refuses its deletion.\<close>

lemma placed_hold_stands:
  assumes "hold_inv db" "distinct (map hr_id (legal_hold_events db))" "distinct (map hr_event_sequence (legal_hold_events db))"
    and "recordLegalHold sha newId now input db = (Inr ev, db')"
    and "li_action input = Place" "li_subjectKind input = UserSubject"
    and "li_idempotencyKey input \<notin> hr_idempotency_key ` set (legal_hold_events db)"
  shows "hold_stands (li_holdKey input) UserSubject (sha (''user:'' @ li_subjectId input)) (lh_expiresAt ev) db'"
proof -
  from assms(4) obtain d where
    d: "digestLifecycleSubject sha (li_subjectKind input) (li_subjectId input) = Inr d"
    and out: "hold_replayed input d ev db db' \<or> hold_appended newId now input d ev db db'"
    by (rule recordLegalHold_Inr)
  from fresh_key_appends [OF out assms(7)] have app: "hold_appended newId now input d ev db db'" .
  obtain row where row: "ev = mapHold row" "hr_action row = li_action input"
    "latest_by hr_event_sequence (holds_of (li_holdKey input) (li_subjectKind input) d db') = Some row"
    by (rule hold_appended_latest [OF assms(1) app])
  from d assms(6) have "d = sha (''user:'' @ li_subjectId input)" by (simp add: resE)
  with row assms(5,6) hold_appended_inv [OF assms(1) app] hold_appended_ids(1) [OF app assms(2)]
    hold_appended_ids(2) [OF app assms(1,3)]
  show ?thesis by (simp add: hold_stands_def mapHold_def)
qed

lemma standing_hold_refuses:
  assumes "hold_stands key UserSubject (sha (''user:'' @ di_userId input)) until db" and "now < until"
    and "trim (di_userId input) \<noteq> []"
  shows "\<exists>n > 0. prepareAccountDeletionLifecycle sha fresh now input db = (Inl (legalHoldError n), db)"
proof -
  let ?d = "sha (''user:'' @ di_userId input)"
  from assms(1) obtain row where row: "latest_by hr_event_sequence (holds_of key UserSubject ?d db) = Some row"
    "hr_action row = Place" "until \<le> hr_expires_at row" by (auto simp: hold_stands_def)
  then have "hr_hold_key row = key" "hr_subject_kind row = UserSubject" "hr_subject_digest row = ?d"
    by (auto dest!: latest_by_in simp: holds_of_def)
  with row assms(2) have "row \<in> set (active_hold_rows UserSubject ?d now db)" by (simp add: active_hold_rows_iff)
  then have "account_hold_rows sha (di_userId input) (deletion_ids input) now db \<noteq> []"
    by (auto simp: account_hold_rows_def)
  with deletion_hold_check [OF assms(3), of sha fresh now db] show ?thesis
    by (intro exI [of _ "length (account_hold_rows sha (di_userId input) (deletion_ids input) now db)"]) (simp add: Let_def)
qed

end
