(* ===== verification/Backup_Expiry.thy ===== *)
theory Backup_Expiry
  imports Backup_Catalogue
begin

text \<open>
  The deletion worker \<open>deleteExpiredBackups\<close>: a catalogued backup turns to \<open>deleted\<close> only when the
  provider's adapter deleted it, it stays \<open>deleted\<close>, and what the worker reports as deleted is so.
\<close>

definition newly_deleted :: "backup_adapter \<Rightarrow> string set \<Rightarrow> gateway_db \<Rightarrow> gateway_db \<Rightarrow> bool" where
  "newly_deleted adapter ids db db' \<longleftrightarrow>
     (\<forall>b' \<in> set (backup_records db'). br_status b' = Deleted \<longrightarrow>
        b' \<in> set (backup_records db)
        \<or> (br_id b' \<in> ids \<and> (\<exists>bk. bk_id bk = br_id b' \<and> adapter bk = Inr ())))
     \<and> (\<forall>b \<in> set (backup_records db). br_status b = Deleted \<longrightarrow> b \<in> set (backup_records db'))"

lemma newly_deleted_refl: "newly_deleted adapter ids db db"
  by (simp add: newly_deleted_def)

lemma newly_deleted_trans:
  "newly_deleted adapter ids a b \<Longrightarrow> newly_deleted adapter ids b c \<Longrightarrow> newly_deleted adapter ids a c"
  unfolding newly_deleted_def by blast

lemma newly_deleted_mono: "newly_deleted adapter ids a b \<Longrightarrow> ids \<subseteq> ids' \<Longrightarrow> newly_deleted adapter ids' a b"
  unfolding newly_deleted_def by blast

lemma newly_deleted_same: "backup_records db' = backup_records db \<Longrightarrow> newly_deleted adapter ids db db'"
  by (simp add: newly_deleted_def)

text \<open>An update that touches no deleted row, and deletes only what the adapter confirmed.\<close>

lemma newly_deleted_update:
  assumes "\<And>r. sel r \<Longrightarrow> br_status r \<noteq> Deleted"
    and "\<And>r. sel r \<Longrightarrow> br_status (upd r) = Deleted \<Longrightarrow>
      br_id (upd r) \<in> ids \<and> (\<exists>bk. bk_id bk = br_id (upd r) \<and> adapter bk = Inr ())"
  shows "newly_deleted adapter ids db (update_backups sel upd db)"
proof -
  let ?f = "\<lambda>r. if sel r then upd r else r"
  have "b' \<in> set (backup_records db) \<or> (br_id b' \<in> ids \<and> (\<exists>bk. bk_id bk = br_id b' \<and> adapter bk = Inr ()))"
    if "b' \<in> ?f ` set (backup_records db)" "br_status b' = Deleted" for b'
    using that assms(2) by (auto split: if_splits)
  moreover have "b \<in> ?f ` set (backup_records db)" if "b \<in> set (backup_records db)" "br_status b = Deleted" for b
    using that assms(1) [of b] by (intro image_eqI [of _ _ b]) auto
  ultimately show ?thesis by (simp add: newly_deleted_def update_backups_def)
qed

abbreviation claim_upd :: "int \<Rightarrow> BackupRow \<Rightarrow> BackupRow" where
  "claim_upd now r \<equiv> r\<lparr>br_status := Deleting, br_last_error_code := None, br_updated_at := now\<rparr>"

lemma finish_backup_effect:
  assumes "finish_backup sha ev now backup db = (r, db')"
  shows "db' = db \<and> \<not> isOk r \<or> backup_records db' = backup_records (update_backups
      (\<lambda>r. br_id r = bk_id backup \<and> br_status r = Deleting)
      (\<lambda>r. r\<lparr>br_status := Deleted, br_deleted_at := Some now, br_last_error_code := None, br_updated_at := now\<rparr>) db)"
proof (cases r)
  case (Inl e)
  with assms show ?thesis unfolding finish_backup_def by (auto dest: withGatewayTransaction_Inl)
next
  case (Inr u)
  with assms show ?thesis
    unfolding finish_backup_def
    by (auto simp: txE resE settle_tombstones_def insert_lifecycle_event_def)
qed

lemma finish_backup_newly:
  assumes "finish_backup sha ev now backup db = (r, db')" and "adapter backup = Inr ()"
  shows "newly_deleted adapter {bk_id backup} db db'"
proof -
  let ?upd = "\<lambda>r. r\<lparr>br_status := Deleted, br_deleted_at := Some now, br_last_error_code := None, br_updated_at := now\<rparr>"
  let ?u = "update_backups (\<lambda>r. br_id r = bk_id backup \<and> br_status r = Deleting) ?upd db"
  have 1: "newly_deleted adapter {bk_id backup} db ?u"
    by (rule newly_deleted_update) (use assms(2) in auto)
  from finish_backup_effect [OF assms(1)] have "db' = db \<or> backup_records db' = backup_records ?u" by blast
  with 1 show ?thesis
    by (auto intro: newly_deleted_refl newly_deleted_trans newly_deleted_same)
qed

lemma fail_backup_newly:
  assumes "fail_backup sha ev now backup name db = (r, db')"
  shows "newly_deleted adapter ids db db'"
proof -
  define code where "code = (if name \<noteq> [] then take 120 name else ''BackupDeleteError'')"
  define u where "u = update_backups (\<lambda>r. br_id r = bk_id backup \<and> br_status r = Deleting)
        (\<lambda>r. r\<lparr>br_status := DeleteFailed, br_last_error_code := Some code, br_updated_at := now\<rparr>) db"
  have 1: "newly_deleted adapter ids db u" unfolding u_def by (rule newly_deleted_update) auto
  from assms have "backup_records db' = backup_records u"
    by (auto simp: fail_backup_def Let_def code_def [symmetric] u_def [symmetric] tx_update_run
        insert_lifecycle_event_def insert_unique_def split: sum.splits if_splits)
  with 1 show ?thesis by (auto intro: newly_deleted_trans newly_deleted_same)
qed

lemma claim_newly:
  "newly_deleted adapter ids db (update_backups (\<lambda>r. br_id r = i \<and> claimable now r) (claim_upd now) db)"
  by (rule newly_deleted_update) (auto simp: claimable_def)

text \<open>One candidate.\<close>

lemma delete_candidate_newly:
  assumes "delete_candidate sha ev ev2 adapter now c db = (r, db')"
  shows "newly_deleted adapter {br_id c} db db'
     \<and> (r = Inr (Some True) \<longrightarrow> (\<exists>b \<in> set (backup_records db'). br_id b = br_id c \<and> br_status b = Deleted))"
proof (cases "find (\<lambda>r. br_id r = br_id c \<and> claimable now r) (backup_records db)")
  case None
  with assms show ?thesis by (auto simp: delete_candidate_def intro: newly_deleted_refl)
next
  case (Some row)
  then have row: "row \<in> set (backup_records db)" "br_id row = br_id c" "claimable now row"
    by (auto dest: find_SomeD)
  define backup where "backup = mapBackup (claim_upd now row)"
  define u where "u = update_backups (\<lambda>r. br_id r = br_id c \<and> claimable now r) (claim_upd now) db"
  have id: "bk_id backup = br_id c" using row by (simp add: backup_def mapBackup_def)
  have claimed: "claim_upd now row \<in> set (backup_records u)" using row by (auto simp: u_def update_backups_def image_iff)
  have 1: "newly_deleted adapter {br_id c} db u" unfolding u_def by (rule claim_newly)
  note unf = delete_candidate_def Let_def backup_def [symmetric] u_def [symmetric] tx_bind_run
  show ?thesis
  proof (cases "adapter backup")
    case (Inl name)
    obtain a m where fb: "fail_backup sha ev2 now backup name u = (a, m)" by (cases "fail_backup sha ev2 now backup name u")
    with assms Some Inl have "db' = m" "r \<noteq> Inr (Some True)" by (auto simp: unf split: sum.splits)
    with 1 fail_backup_newly [OF fb] show ?thesis by (auto intro: newly_deleted_trans)
  next
    case (Inr x)
    obtain a m where fin: "finish_backup sha ev now backup u = (a, m)" by (cases "finish_backup sha ev now backup u")
    have 2: "newly_deleted adapter {br_id c} u m" using finish_backup_newly [OF fin, of adapter] Inr id by simp
    show ?thesis
    proof (cases a)
      case (Inr y)
      with assms Some \<open>adapter backup = Inr x\<close> fin have "db' = m" by (auto simp: unf)
      moreover have "\<exists>b \<in> set (backup_records m). br_id b = br_id c \<and> br_status b = Deleted"
      proof -
        let ?fin = "(claim_upd now row)\<lparr>br_status := Deleted, br_deleted_at := Some now, br_last_error_code := None,
          br_updated_at := now\<rparr>"
        from finish_backup_effect [OF fin] Inr claimed row(2) id have "?fin \<in> set (backup_records m)"
          by (auto simp: update_backups_def intro!: image_eqI [of _ _ "claim_upd now row"])
        with row(2) show ?thesis by (intro bexI [of _ ?fin]) simp_all
      qed
      ultimately show ?thesis using 1 2 by (auto intro: newly_deleted_trans)
    next
      case (Inl e)
      obtain b n where fb: "fail_backup sha ev2 now backup (thrown_name e) m = (b, n)"
        by (cases "fail_backup sha ev2 now backup (thrown_name e) m")
      with assms Some \<open>adapter backup = Inr x\<close> fin Inl have "db' = n" "r \<noteq> Inr (Some True)"
        by (auto simp: unf split: sum.splits)
      with 1 2 fail_backup_newly [OF fb] show ?thesis by (auto intro: newly_deleted_trans)
    qed
  qed
qed

definition reported_deleted :: "string list \<Rightarrow> gateway_db \<Rightarrow> bool" where
  "reported_deleted ids db \<longleftrightarrow>
     (\<forall>i \<in> set ids. \<exists>b \<in> set (backup_records db). br_id b = i \<and> br_status b = Deleted)"

lemma reported_deleted_keep:
  "newly_deleted adapter ids db db' \<Longrightarrow> reported_deleted xs db \<Longrightarrow> reported_deleted xs db'"
  unfolding newly_deleted_def reported_deleted_def by blast

lemma delete_loop_newly:
  "delete_loop sha fresh adapter now i cs ds fs db = (r, db') \<Longrightarrow> reported_deleted ds db \<Longrightarrow>
     newly_deleted adapter (br_id ` set cs) db db'
     \<and> (\<forall>ds' fs'. r = Inr (ds', fs') \<longrightarrow> reported_deleted ds' db')"
proof (induction cs arbitrary: i ds fs db)
  case Nil
  then show ?case by (auto intro: newly_deleted_refl)
next
  case (Cons c cs)
  obtain a m where dc: "delete_candidate sha (fresh (2 * i)) (fresh (2 * i + 1)) adapter now c db = (a, m)"
    by (cases "delete_candidate sha (fresh (2 * i)) (fresh (2 * i + 1)) adapter now c db")
  note step = delete_candidate_newly [OF dc]
  then have 1: "newly_deleted adapter (br_id ` set (c # cs)) db m" by (auto intro: newly_deleted_mono)
  have keep: "reported_deleted ds m" using step Cons.prems(2) by (blast intro: reported_deleted_keep)
  show ?case
  proof (cases a)
    case (Inl e)
    with Cons.prems(1) dc 1 show ?thesis by (auto simp: tx_bind_run)
  next
    case (Inr x)
    define ds1 where "ds1 = (if x = Some True then ds @ [br_id c] else ds)"
    define fs1 where "fs1 = (if x = Some False then fs @ [br_id c] else fs)"
    from Inr Cons.prems(1) dc have rest: "delete_loop sha fresh adapter now (Suc i) cs ds1 fs1 m = (r, db')"
      by (auto simp: tx_bind_run ds1_def fs1_def split: option.splits bool.splits)
    have "reported_deleted ds1 m" using keep step Inr by (auto simp: ds1_def reported_deleted_def)
    note ih = Cons.IH [OF rest this]
    then have "newly_deleted adapter (br_id ` set (c # cs)) m db'" by (auto intro: newly_deleted_mono)
    with 1 ih show ?thesis by (blast intro: newly_deleted_trans)
  qed
qed

lemma deleteExpiredBackups_newly:
  assumes "deleteExpiredBackups sha fresh adapter now limit db = (r, db')"
  shows "newly_deleted adapter (br_id ` set (due_backups now limit db)) db db'
     \<and> (\<forall>ds fs. r = Inr (ds, fs) \<longrightarrow> reported_deleted ds db')"
  using delete_loop_newly [of sha fresh adapter now 0 "due_backups now limit db" "[]" "[]" db r db'] assms
  by (simp add: deleteExpiredBackups_def reported_deleted_def)

end
