(* ===== verification/Lifecycle_Claims.thy ===== *)
theory Lifecycle_Claims
  imports Hold_History Backup_Expiry
begin

text \<open>
  The properties of the data lifecycle (packages/gateway/src/dataLifecycle.ts): legal holds, account
  deletion, the retention sweep, backups and restores, each with a concrete instance.
\<close>

section \<open>Concrete data for the witnesses\<close>

definition sample_hold :: "HoldAction \<Rightarrow> string \<Rightarrow> LegalHoldInput" where
  "sample_hold action key =
     \<lparr>li_action = action, li_holdKey = ''case-1'', li_subjectKind = UserSubject, li_subjectId = ''u1'',
      li_reasonCode = Litigation, li_authorityReference = ''court'', li_jurisdiction = ''DE'',
      li_evidenceReference = ''file-7'', li_expiresAt = Some 1000, li_idempotencyKey = key\<rparr>"

definition held_db :: gateway_db where
  "held_db = snd (recordLegalHold (\<lambda>x. x) ''hld-1'' 10 (sample_hold Place ''k-1'') empty_db)"

definition sample_deletion :: DeletionInput where
  "sample_deletion = \<lparr>di_userId = ''u1'', di_objectKeys = [(''b'', ''o1'')], di_deletionId = ''del-1''\<rparr>"

lemma sample_hold_run:
  "recordLegalHold (\<lambda>x. x) ''hld-1'' 10 (sample_hold Place ''k-1'') empty_db =
     (Inr (mapHold (hd (legal_hold_events held_db))), held_db)"
  unfolding held_db_def by code_simp

lemma held_db_facts:
  "hold_inv held_db" "list_all (\<lambda>r. hr_previous_event_id r = None) (legal_hold_events held_db)" "transactional held_db" "commit_accepted held_db"
  "fst (activeLegalHolds (\<lambda>x. x) UserSubject ''u1'' 20 held_db) = Inr [mapHold (hd (legal_hold_events held_db))]"
  "recordLegalHold (\<lambda>x. x) ''hld-2'' 20 (sample_hold Release ''k-2'') held_db =
     (Inr (mapHold (legal_hold_events (snd (recordLegalHold (\<lambda>x. x) ''hld-2'' 20 (sample_hold Release ''k-2'') held_db)) ! 1)),
      snd (recordLegalHold (\<lambda>x. x) ''hld-2'' 20 (sample_hold Release ''k-2'') held_db))"
  "map hr_idempotency_key (legal_hold_events held_db) = [''k-1'']"
  by code_simp+

section \<open>Holds and deletion\<close>

text \<open>
  An active legal hold on the account, or on any object the deletion would remove, stops the
  deletion with status 423 before anything is written.
\<close>

theorem active_hold_blocks_deletion:
  assumes "trim (di_userId input) \<noteq> []"
    and "(kind = UserSubject \<and> sid = di_userId input)
      \<or> (kind = ObjectSubject \<and> sid \<in> (\<lambda>(b, k). object_id_text b k) ` set (di_objectKeys input))"
    and "fst (activeLegalHolds sha kind sid now db) = Inr (h # hs)"
  shows "\<exists>n > 0. prepareAccountDeletionLifecycle sha fresh now input db = (Inl (legalHoldError n), db)"
proof -
  let ?rows = "account_hold_rows sha (di_userId input) (deletion_ids input) now db"
  from assms(3) have "active_hold_rows kind (sha (kind_text kind @ '':'' @ sid)) now db \<noteq> []"
    by (auto simp: activeLegalHolds_run split: if_splits)
  with assms(2) have "?rows \<noteq> []"
    by (fastforce simp: account_hold_rows_def deletion_ids_def)
  with deletion_hold_check [OF assms(1), of sha fresh now db] show ?thesis
    by (intro exI [of _ "length ?rows"]) (simp add: Let_def)
qed

theorem active_hold_blocks_deletion_witness:
  "\<exists>n > 0. prepareAccountDeletionLifecycle (\<lambda>x. x) (\<lambda>i. dec_digits (int i)) 20 sample_deletion held_db
     = (Inl (legalHoldError n), held_db)"
  by (rule active_hold_blocks_deletion [where kind = UserSubject and sid = "''u1''" and hs = "[]"])
    (simp_all add: held_db_facts(5), simp_all add: sample_deletion_def trim_Nil_iff, code_simp)

text \<open>
  A deletion that goes through found no active hold on the account or its objects, and appends
  exactly one tombstone per subject: the account and each object, with backup deadline 30 days and
  expiry 45 days after the deletion, and one audit event.
\<close>

theorem deletion_leaves_tombstones:
  assumes "prepareAccountDeletionLifecycle sha fresh now input db = (Inr r, db')"
  shows "fst (activeLegalHolds sha UserSubject (di_userId input) now db) = Inr []
     \<and> (\<forall>(b, k) \<in> set (di_objectKeys input).
           fst (activeLegalHolds sha ObjectSubject (object_id_text b k) now db) = Inr [])
     \<and> (\<exists>ts ev. db' = db\<lparr>deletion_tombstones := deletion_tombstones db @ ts,
                        data_lifecycle_events := data_lifecycle_events db @ [ev]\<rparr>
          \<and> map subject_of ts = deletion_subjects sha input
          \<and> (\<forall>t \<in> set ts. ts_deletion_id t = di_deletionId input \<and> ts_primary_deleted_at t = now
               \<and> ts_backup_delete_after t = addDays now 30 \<and> ts_tombstone_expires_at t = addDays now 45
               \<and> ts_backup_deleted_at t = None))"
proof -
  from assms obtain ts ev where
    db': "db' = db\<lparr>deletion_tombstones := deletion_tombstones db @ ts,
              data_lifecycle_events := data_lifecycle_events db @ [ev]\<rparr>"
    and subj: "map subject_of ts = deletion_subjects sha input"
    and mk: "\<forall>t \<in> set ts. \<exists>newId kind d. t = mk_tombstone newId (di_deletionId input) kind d now"
    and none: "account_hold_rows sha (di_userId input) (deletion_ids input) now db = []"
    and user: "trim (di_userId input) \<noteq> []"
    by (rule prepareAccountDeletion_Inr)
  have "\<forall>t \<in> set ts. ts_deletion_id t = di_deletionId input \<and> ts_primary_deleted_at t = now
      \<and> ts_backup_delete_after t = addDays now 30 \<and> ts_tombstone_expires_at t = addDays now 45
      \<and> ts_backup_deleted_at t = None"
    using mk by (auto simp: mk_tombstone_def BACKUP_MAX_DAYS_def TOMBSTONE_DAYS_def)
  moreover have "fst (activeLegalHolds sha UserSubject (di_userId input) now db) = Inr []"
    using none user by (simp add: activeLegalHolds_run account_hold_rows_def)
  moreover have "\<forall>(b, k) \<in> set (di_objectKeys input).
      fst (activeLegalHolds sha ObjectSubject (object_id_text b k) now db) = Inr []"
    using none by (fastforce simp: activeLegalHolds_run account_hold_rows_def deletion_ids_def)
  ultimately show ?thesis using db' subj by blast
qed

theorem deletion_leaves_tombstones_witness:
  "\<exists>ts ev. snd (prepareAccountDeletionLifecycle (\<lambda>x. x) (\<lambda>i. dec_digits (int i)) 20 sample_deletion empty_db)
       = empty_db\<lparr>deletion_tombstones := ts, data_lifecycle_events := [ev]\<rparr>
     \<and> map subject_of ts = [(UserSubject, ''user:u1''), (ObjectSubject, ''object:b/o1'')]"
proof -
  let ?run = "prepareAccountDeletionLifecycle (\<lambda>x. x) (\<lambda>i. dec_digits (int i)) 20 sample_deletion empty_db"
  have "isOk (fst ?run)" by code_simp
  then obtain r where run: "?run = (Inr r, snd ?run)" by (metis isOk_iff prod.collapse)
  have "deletion_subjects (\<lambda>x. x) sample_deletion = [(UserSubject, ''user:u1''), (ObjectSubject, ''object:b/o1'')]"
    by code_simp
  with deletion_leaves_tombstones [OF run] show ?thesis by (auto simp: empty_db_def)
qed

text \<open>
  C7. A hold placed on an account under an idempotency key that was not in use protects the account as long as it
  has not expired: after any later sequence of hold requests, deletions of accounts, backup operations, sweeps and
  other writes in which no request for the same hold releases it or sets an earlier expiry, a deletion of the
  account is refused with status 423, and \<open>deleteUserData\<close> fails and changes nothing but audit events.
\<close>

theorem placed_hold_protects_account:
  assumes "hold_inv db" and "distinct (map hr_id (legal_hold_events db))" and "distinct (map hr_event_sequence (legal_hold_events db))"
    and "recordLegalHold sha newId now input db = (Inr ev, db')"
    and "li_action input = Place" and "li_subjectKind input = UserSubject"
    and "li_idempotencyKey input \<notin> hr_idempotency_key ` set (legal_hold_events db)"
    and "hold_history sha now db' requests clk later" and "leaves_in_force sha input (lh_expiresAt ev) requests"
    and "clk \<le> t" and "t < lh_expiresAt ev"
    and "di_userId deletion = li_subjectId input" and "user_id user = li_subjectId input"
  shows "(\<exists>n > 0. prepareAccountDeletionLifecycle sha fresh t deletion later = (Inl (legalHoldError n), later))
     \<and> (\<exists>e events. deleteUserData sha fresh deletionId blockedId t deleteObjects user later =
          (Inl e, later\<lparr>data_lifecycle_events := events\<rparr>))"
proof -
  let ?d = "sha (''user:'' @ li_subjectId input)"
  have "hold_stands (li_holdKey input) UserSubject ?d (lh_expiresAt ev) db'"
    using assms(1-7) by (rule placed_hold_stands)
  then have stands: "hold_stands (li_holdKey input) UserSubject ?d (lh_expiresAt ev) later"
    by (rule hold_history_stands [OF assms(8)])
      (use assms(6,9-11) in \<open>auto simp: leaves_in_force_def concerns_def\<close>)
  have user: "trim (li_subjectId input) \<noteq> []" using assms(4) by (auto elim!: recordLegalHold_Inr simp: resE)
  have refused: "\<exists>n > 0. prepareAccountDeletionLifecycle sha fresh t d later = (Inl (legalHoldError n), later)"
    if "di_userId d = li_subjectId input" for d
    using standing_hold_refuses [of "li_holdKey input" sha d "lh_expiresAt ev" later t fresh] stands assms(11) user that by simp
  moreover obtain r u where run: "deleteUserData sha fresh deletionId blockedId t deleteObjects user later = (r, u)" by fastforce
  moreover have "\<exists>e. r = Inl e"
  proof (cases r)
    case (Inr receipt)
    then show ?thesis
      using run refused [of "account_deletion deletionId (user_id user) later"] assms(13)
      by (auto simp: account_deletion_def elim!: deleteUserData_Inr)
  qed simp
  ultimately obtain e where run': "deleteUserData sha fresh deletionId blockedId t deleteObjects user later = (Inl e, u)" by blast
  from deleteUserData_Inl [OF this] have "\<exists>events. u = later\<lparr>data_lifecycle_events := events\<rparr>"
  proof
    assume "u = later"
    then have "u = later\<lparr>data_lifecycle_events := data_lifecycle_events later\<rparr>" by simp
    then show ?thesis ..
  qed blast
  with run' refused assms(12) show ?thesis by blast
qed

definition busy_db :: gateway_db where
  "busy_db = snd (runPrimaryRetentionSweep (\<lambda>x. x) ''lce-1'' 600 True None
     (snd (recordLegalHold (\<lambda>x. x) ''hld-9'' 500 (sample_hold Place ''k-1'') held_db)))"

lemma busy_db_history: "hold_history (\<lambda>x. x) 10 held_db [sample_hold Place ''k-1''] 600 busy_db"
proof -
  have "hold_history (\<lambda>x. x) 10 held_db [] 500 held_db" by (rule hold_history.tick [OF hold_history.start]) simp
  then have "hold_history (\<lambda>x. x) 10 held_db ([] @ [sample_hold Place ''k-1'']) 500
      (snd (recordLegalHold (\<lambda>x. x) ''hld-9'' 500 (sample_hold Place ''k-1'') held_db))"
    by (rule hold_history.hold) (rule prod.collapse [symmetric])
  then have "hold_history (\<lambda>x. x) 10 held_db [sample_hold Place ''k-1''] 600
      (snd (recordLegalHold (\<lambda>x. x) ''hld-9'' 500 (sample_hold Place ''k-1'') held_db))"
    by (auto intro: hold_history.tick)
  then show ?thesis unfolding busy_db_def by (rule hold_history.sweep) (rule prod.collapse [symmetric])
qed

theorem placed_hold_protects_account_witness:
  "\<exists>n > 0. prepareAccountDeletionLifecycle (\<lambda>x. x) (\<lambda>i. dec_digits (int i)) 999 sample_deletion busy_db
     = (Inl (legalHoldError n), busy_db)"
proof -
  let ?user = "\<lparr>user_id = ''u1'', user_name = None, user_email = None, user_image = None\<rparr>"
  have "hold_inv empty_db" by code_simp
  moreover have "lh_expiresAt (mapHold (hd (legal_hold_events held_db))) = 1000" by code_simp
  moreover have "leaves_in_force (\<lambda>x. x) (sample_hold Place ''k-1'') 1000 [sample_hold Place ''k-1'']"
    by (simp add: leaves_in_force_def sample_hold_def)
  ultimately show ?thesis
    using placed_hold_protects_account [OF _ _ _ sample_hold_run _ _ _ busy_db_history, of 999 sample_deletion ?user
        "\<lambda>i. dec_digits (int i)" "[]" "[]" "\<lambda>_. Inr ()"]
    by (simp add: empty_db_def sample_hold_def sample_deletion_def)
qed

text \<open>
  After a release under a new idempotency key the hold is not active at any time, whatever its
  expiry: no active hold of the subject has the released key.
\<close>

theorem released_hold_not_active:
  assumes "hold_inv db" and "recordLegalHold sha newId now input db = (Inr ev, db')"
    and "li_action input = Release"
    and "li_idempotencyKey input \<notin> hr_idempotency_key ` set (legal_hold_events db)"
    and "fst (activeLegalHolds sha (li_subjectKind input) (li_subjectId input) t db') = Inr hs"
  shows "li_holdKey input \<notin> lh_holdKey ` set hs"
proof -
  have "activeLegalHolds sha (li_subjectKind input) (li_subjectId input) t db' = (Inr hs, db')"
    using assms(5) by (metis activeLegalHolds_state prod.collapse)
  with released_hold_is_inactive [OF assms(1-4)] show ?thesis by fastforce
qed

theorem released_hold_not_active_witness:
  "''case-1'' \<notin> lh_holdKey ` set (case fst (activeLegalHolds (\<lambda>x. x) UserSubject ''u1'' 25
      (snd (recordLegalHold (\<lambda>x. x) ''hld-2'' 20 (sample_hold Release ''k-2'') held_db))) of Inr hs \<Rightarrow> hs | Inl _ \<Rightarrow> [])"
proof -
  let ?db = "snd (recordLegalHold (\<lambda>x. x) ''hld-2'' 20 (sample_hold Release ''k-2'') held_db)"
  have key: "li_idempotencyKey (sample_hold Release ''k-2'') \<notin> hr_idempotency_key ` set (legal_hold_events held_db)"
    using held_db_facts(7) by (simp add: sample_hold_def flip: set_map)
  have act: "fst (activeLegalHolds (\<lambda>x. x) UserSubject ''u1'' 25 ?db) = Inr []" by code_simp
  from released_hold_not_active [OF held_db_facts(1,6) _ key, of 25 "[]"] act show ?thesis
    by (simp add: sample_hold_def)
qed

text \<open>
  Retrying a hold request that was recorded returns the stored event and writes nothing, at any
  later time and with any newly drawn identifier.
\<close>

theorem hold_request_idempotent:
  assumes "hold_inv db" and "recordLegalHold sha newId now input db = (Inr ev, db')"
    and "transactional db'" and "commit_accepted db'"
  shows "recordLegalHold sha newId' now' input db' = (Inr ev, db')"
  using assms by (rule recordLegalHold_replay)

theorem hold_request_idempotent_witness:
  "recordLegalHold (\<lambda>x. x) ''hld-9'' 5000 (sample_hold Place ''k-1'') held_db =
     (Inr (mapHold (hd (legal_hold_events held_db))), held_db)"
proof (rule hold_request_idempotent [OF _ sample_hold_run])
  show "hold_inv empty_db" by code_simp
qed (fact held_db_facts(3,4))+

text \<open>
  Recording a hold keeps the ledger's invariants: it only ever appends, at most one event per call;
  sequence numbers stay below the counter and idempotency keys distinct; every event expires after its
  creation and within 365 days of it; every predecessor link points to an older event of the same hold.
\<close>

theorem hold_ledger_invariant:
  assumes "hold_inv db" and "hold_links db" and "recordLegalHold sha newId now input db = (r, db')"
  shows "hold_inv db' \<and> hold_links db'
     \<and> (\<exists>new. legal_hold_events db' = legal_hold_events db @ new \<and> length new \<le> 1)"
proof -
  have "\<exists>new. legal_hold_events db' = legal_hold_events db @ new \<and> length new \<le> 1"
  proof (cases r)
    case (Inl e)
    with assms(3) recordLegalHold_Inl have "db' = db" by blast
    then show ?thesis by simp
  next
    case (Inr ev)
    with assms(3) have "recordLegalHold sha newId now input db = (Inr ev, db')" by simp
    then show ?thesis
      by (rule recordLegalHold_Inr)
        (auto simp: hold_replayed_def hold_appended_def hold_ledger.events_append)
  qed
  with recordLegalHold_inv [OF assms(1,3)] recordLegalHold_links [OF assms] show ?thesis by blast
qed

theorem hold_ledger_invariant_witness: "hold_inv held_db \<and> hold_links held_db"
proof -
  have "hold_inv empty_db" by code_simp
  moreover have "hold_links empty_db" by (simp add: hold_links_def empty_db_def)
  ultimately show ?thesis using hold_ledger_invariant [OF _ _ sample_hold_run] by blast
qed

section \<open>The retention sweep\<close>

text \<open>
  C8. An executed sweep over a consistent database always commits, without meeting a foreign key, and
  leaves exactly the specified database, with one audit event that records the counts it returns. The
  specification is written from the published retention policy: what is younger than the policy's days for its
  class, still running, or protected by a hold in force stays, in the same order; the rest goes, with the
  subjects of deleted backups, and references to deleted jobs become null; tombstones whose backups are gone are
  closed, and closed ones go when they expire.
\<close>

theorem retention_sweep_spec:
  assumes "keys_ok db" and "hold_links db" and "transactional db" and "commit_accepted db"
    and "sweep_evidence evidence = Inr reference" and "eventId \<notin> le_id ` set (data_lifecycle_events db)"
  shows "\<exists>counts event. runPrimaryRetentionSweep sha eventId now True evidence db =
     (Inr counts, (retention_spec sha now db)\<lparr>data_lifecycle_events :=
        data_lifecycle_events (retention_spec sha now db) @ [event]\<rparr>)
     \<and> le_event_type event = ''retention-sweep'' \<and> le_details event = counts_json counts"
  using sweep_commits [OF assms] by (simp only: retained_meets_spec [OF assms(1)])

theorem retention_sweep_spec_witness:
  "\<exists>counts event. runPrimaryRetentionSweep (\<lambda>x. x) ''lce-1'' 5 True None
       (empty_db\<lparr>sessions := [\<lparr>se_session_token = ''a'', se_user_id = ''u'', se_expires = 3\<rparr>,
                          \<lparr>se_session_token = ''b'', se_user_id = ''u'', se_expires = 7\<rparr>]\<rparr>) =
     (Inr counts, empty_db\<lparr>sessions := [\<lparr>se_session_token = ''b'', se_user_id = ''u'', se_expires = 7\<rparr>],
                          data_lifecycle_events := [event]\<rparr>)
     \<and> le_event_type event = ''retention-sweep''"
  using retention_sweep_spec [of "empty_db\<lparr>sessions := [\<lparr>se_session_token = ''a'', se_user_id = ''u'', se_expires = 3\<rparr>,
        \<lparr>se_session_token = ''b'', se_user_id = ''u'', se_expires = 7\<rparr>]\<rparr>" None None "''lce-1''" "\<lambda>x. x" 5]
  by (auto simp: keys_ok_def hold_links_def empty_db_def sweep_evidence_def retention_spec_def Let_def)

text \<open>
  C9. No sweep deletes what a hold in force protects: refusal audits and jobs of a protected owner or named by an
  audit hold, restore tests, lifecycle events and deleted backups (with their subjects) named by an audit hold,
  backups with a restore test that is younger than 400 days or named by an audit hold, and every event of a hold
  that is in force are all still there afterwards, and so is every tombstone that has not expired.
\<close>

theorem retention_sweep_keeps_held:
  assumes "keys_ok db" and "hold_links db"
    and "runPrimaryRetentionSweep sha eventId now execute evidence db = (r, db')"
  shows "(\<forall>x \<in> set (generation_refusals db). protected_owner sha now db (rf_owner_user_id x)
            \<or> protected_audit sha now db (''generation-refusal/'' @ rf_id x) \<longrightarrow> x \<in> set (generation_refusals db'))
       \<and> (\<forall>j \<in> set (jobs db). protected_owner sha now db (jb_owner_user_id j)
            \<or> protected_audit sha now db (''job/'' @ jb_id j) \<longrightarrow> j \<in> set (jobs db'))
       \<and> (\<forall>t \<in> set (backup_restore_tests db). protected_audit sha now db (''backup-restore/'' @ rt_id t)
            \<longrightarrow> t \<in> set (backup_restore_tests db'))
       \<and> (\<forall>b \<in> set (backup_records db). protected_audit sha now db (''backup/'' @ br_id b)
              \<or> (\<exists>t \<in> set (backup_restore_tests db). rt_backup_id t = br_id b
                   \<and> (addDays now (-400) < rt_tested_at t \<or> protected_audit sha now db (''backup-restore/'' @ rt_id t)))
            \<longrightarrow> b \<in> set (backup_records db')
              \<and> (\<forall>s \<in> set (backup_subjects db). bs_backup_id s = br_id b \<longrightarrow> s \<in> set (backup_subjects db')))
       \<and> (\<forall>e \<in> set (data_lifecycle_events db). protected_audit sha now db (''lifecycle-event/'' @ le_id e)
            \<longrightarrow> e \<in> set (data_lifecycle_events db'))
       \<and> (\<forall>h. in_force now db h \<longrightarrow>
            (\<forall>e \<in> set (legal_hold_events db). same_hold e h \<longrightarrow> e \<in> set (legal_hold_events db')))
       \<and> (\<forall>t \<in> set (deletion_tombstones db). now < ts_tombstone_expires_at t \<longrightarrow>
            (\<exists>u \<in> set (deletion_tombstones db'). subject_of u = subject_of t
               \<and> ts_tombstone_expires_at u = ts_tombstone_expires_at t))"
proof -
  from sweep_outcome [OF assms] consider "db' = db"
    | event where "db' = (retention_spec sha now db)\<lparr>data_lifecycle_events :=
      data_lifecycle_events (retention_spec sha now db) @ [event]\<rparr>"
    unfolding retained_meets_spec [OF assms(1)] by blast
  then show ?thesis
  proof cases
    case 1
    then show ?thesis by blast
  next
    case (2 event)
    then have same: "generation_refusals db' = generation_refusals (retention_spec sha now db)"
      "jobs db' = jobs (retention_spec sha now db)" "backup_restore_tests db' = backup_restore_tests (retention_spec sha now db)"
      "backup_records db' = backup_records (retention_spec sha now db)"
      "backup_subjects db' = backup_subjects (retention_spec sha now db)"
      "legal_hold_events db' = legal_hold_events (retention_spec sha now db)"
      "deletion_tombstones db' = deletion_tombstones (retention_spec sha now db)"
      and more: "set (data_lifecycle_events (retention_spec sha now db)) \<subseteq> set (data_lifecycle_events db')"
      by (auto simp: 2)
    have "\<forall>e \<in> set (data_lifecycle_events db). protected_audit sha now db (''lifecycle-event/'' @ le_id e)
        \<longrightarrow> e \<in> set (data_lifecycle_events db')"
      using more by (auto simp: retention_spec_def Let_def keep_lifecycle_event_def)
    with spec_keeps_held [OF assms(1), of sha now] show ?thesis
      unfolding same by (elim conjE) (intro conjI; assumption)
  qed
qed

definition held_backup_db :: gateway_db where
  "held_backup_db = (snd (recordLegalHold (\<lambda>x. x) ''hld-1'' 10
     \<lparr>li_action = Place, li_holdKey = ''case-2'', li_subjectKind = AuditSubject, li_subjectId = ''backup/b1'',
      li_reasonCode = Litigation, li_authorityReference = ''court'', li_jurisdiction = ''DE'',
      li_evidenceReference = ''file-7'', li_expiresAt = Some 1000, li_idempotencyKey = ''k-1''\<rparr> empty_db))
     \<lparr>backup_records := [\<lparr>br_id = ''b1'', br_provider = ''s3-eu'', br_external_reference = ''snap/1'',
        br_manifest_sha256 = [], br_captured_at = addDays 0 (-500), br_delete_after = addDays 0 (-480), br_status = Deleted,
        br_deleted_at = Some (addDays 0 (-450)), br_last_error_code = None, br_created_at = addDays 0 (-500),
        br_updated_at = addDays 0 (-450)\<rparr>],
      backup_subjects := [\<lparr>bs_backup_id = ''b1'', bs_subject_kind = UserSubject, bs_subject_digest = ''d''\<rparr>]\<rparr>"

theorem retention_sweep_keeps_held_witness:
  "set (backup_records held_backup_db)
      \<subseteq> set (backup_records (snd (runPrimaryRetentionSweep (\<lambda>x. x) ''lce-1'' 20 True None held_backup_db)))"
proof -
  have "keys_ok held_backup_db" by code_simp
  moreover have "list_all (\<lambda>r. hr_previous_event_id r = None) (legal_hold_events held_backup_db)" by code_simp
  then have "hold_links held_backup_db" by (simp add: hold_links_def list_all_iff)
  moreover have ids: "list_all (\<lambda>b. br_id b = ''b1'') (backup_records held_backup_db)" by code_simp
  moreover have "audit_held (\<lambda>x. x) ''backup/b1'' 20 held_backup_db" by code_simp
  then have prot: "protected_audit (\<lambda>x. x) 20 held_backup_db ''backup/b1''"
    using \<open>keys_ok held_backup_db\<close> by (simp add: protected_iff keys_ok_def)
  moreover obtain r db' where run: "runPrimaryRetentionSweep (\<lambda>x. x) ''lce-1'' 20 True None held_backup_db = (r, db')" by fastforce
  ultimately have keep: "b \<in> set (backup_records db')" if "b \<in> set (backup_records held_backup_db)" for b
    using retention_sweep_keeps_held [OF _ _ run, THEN conjunct2, THEN conjunct2, THEN conjunct2, THEN conjunct1,
        THEN bspec, OF _ _ that] that by (simp add: list_all_iff)
  then show ?thesis unfolding run by auto
qed

text \<open>
  A dry-run sweep changes nothing.
\<close>

theorem retention_dry_run_reads_only:
  "snd (runPrimaryRetentionSweep sha eventId now False evidence db) = db"
  by (metis prod.collapse sweep_dry)

section \<open>Backups and restores\<close>

definition sample_backup :: BackupInput where
  "sample_backup =
     \<lparr>bi_provider = ''s3-eu'', bi_externalReference = ''snap/1'',
      bi_manifestSha256 = replicate 64 (CHR ''a''), bi_capturedAt = Some (addDays 0 46),
      bi_deleteAfter = Some (addDays 0 60), bi_subjects = [(UserSubject, ''u1'')]\<rparr>"

abbreviation seq_ids :: "nat \<Rightarrow> string" where
  "seq_ids i \<equiv> dec_digits (int i)"

definition deleted_db :: gateway_db where
  "deleted_db = snd (withGatewayTransaction (prepareAccountDeletionLifecycle (\<lambda>x. x) seq_ids 0 sample_deletion) empty_db)"

definition swept_db :: gateway_db where
  "swept_db = snd (runPrimaryRetentionSweep (\<lambda>x. x) ''lce-s'' (addDays 0 46) True None deleted_db)"

definition backed_db :: gateway_db where
  "backed_db = snd (registerBackup (\<lambda>x. x) (\<lambda>i. ''bkp'' @ seq_ids i) (addDays 0 46) sample_backup swept_db)"

lemma sample_deletion_run:
  "isOk (fst (withGatewayTransaction (prepareAccountDeletionLifecycle (\<lambda>x. x) seq_ids 0 sample_deletion) empty_db))"
  "deletion_subjects (\<lambda>x. x) sample_deletion = [(UserSubject, ''user:u1''), (ObjectSubject, ''object:b/o1'')]"
  by code_simp+

text \<open>The swept database, up to the counts that its audit event records.\<close>

definition swept_as :: "sweep_counts \<Rightarrow> gateway_db" where
  "swept_as counts = empty_db\<lparr>data_lifecycle_events :=
     [\<lparr>le_id = ''1'', le_event_type = ''deletion-primary-complete'', le_subject_kind = Some ''user'',
       le_subject_digest = Some ''user:u1'', le_actor_kind = ''owner'', le_reason_code = ''owner-account-deletion'',
       le_evidence_reference = Some ''del-1'', le_details = JObj [(''objectTombstoneCount'', JNum (IntN 1))], le_created_at = 0\<rparr>,
      \<lparr>le_id = ''lce-s'', le_event_type = ''retention-sweep'', le_subject_kind = None, le_subject_digest = None,
       le_actor_kind = ''system'', le_reason_code = ''scheduled-retention'', le_evidence_reference = None,
       le_details = counts_json counts, le_created_at = addDays 0 46\<rparr>]\<rparr>"

lemma swept_db_is: "\<exists>counts. swept_db = swept_as counts"
proof -
  have facts: "keys_ok deleted_db" "legal_hold_events deleted_db = []" "transactional deleted_db" "commit_accepted deleted_db"
    by code_simp+
  have ret: "retained (\<lambda>x. x) (addDays 0 46) deleted_db = empty_db\<lparr>data_lifecycle_events := take 1 (data_lifecycle_events (swept_as []))\<rparr>"
    by code_simp
  obtain counts where run: "sweep_body (\<lambda>x. x) ''lce-s'' (addDays 0 46) True None deleted_db =
      sweep_record ''lce-s'' (addDays 0 46) None counts (retained (\<lambda>x. x) (addDays 0 46) deleted_db)"
    using sweep_body_run [OF facts(1), of "\<lambda>x. x" "''lce-s''" "addDays 0 46" None] facts(2) by (auto simp: hold_links_def)
  have "swept_db = swept_as counts"
    using facts(3,4)
    by (simp add: swept_db_def runPrimaryRetentionSweep_def withGatewayTransaction_def run ret sweep_record_def tx_bind_run
        tx_update_run insert_lifecycle_event_def insert_unique_def sweep_evidence_def swept_as_def)
  then show ?thesis ..
qed

definition backed_as :: "sweep_counts \<Rightarrow> gateway_db" where
  "backed_as counts = snd (registerBackup (\<lambda>x. x) (\<lambda>i. ''bkp'' @ seq_ids i) (addDays 0 46) sample_backup (swept_as counts))"

lemma backed_db_is: "\<exists>counts. backed_db = backed_as counts"
  unfolding backed_db_def backed_as_def using swept_db_is by metis

lemma backed_as_facts:
  "map_sum id re_result (fst (evaluateRestoreCandidate (\<lambda>x. x) (\<lambda>i. ''rst'' @ seq_ids i) (addDays 0 46) ''bkp0''
     (replicate 64 (CHR ''a'')) ''ev-1'' (backed_as counts))) = Inr Eligible"
  "(UserSubject, ''user:u1'') \<in> set (subjects_of_backup ''bkp0'' (backed_as counts))"
  "fst (deleteExpiredBackups (\<lambda>x. x) (\<lambda>i. ''x'' @ seq_ids i) (\<lambda>_. Inr ()) (addDays 0 61) 10 (backed_as counts)) = Inr ([''bkp0''], [])"
  by code_simp+

lemma backed_db_reach:
  "lifecycle_reach (\<lambda>x. x) (addDays 0 46) backed_db {((UserSubject, ''user:u1''), 0), ((ObjectSubject, ''object:b/o1''), 0)}"
proof -
  let ?run = "withGatewayTransaction (prepareAccountDeletionLifecycle (\<lambda>x. x) seq_ids 0 sample_deletion) empty_db"
  obtain r where run: "?run = (Inr r, deleted_db)"
    using sample_deletion_run(1) unfolding deleted_db_def by (metis isOk_iff prod.collapse)
  have "lifecycle_reach (\<lambda>x. x) 0 deleted_db {((UserSubject, ''user:u1''), 0), ((ObjectSubject, ''object:b/o1''), 0)}"
    using lifecycle_reach.delete [OF lifecycle_reach.start run] sample_deletion_run(2) by simp
  then have "lifecycle_reach (\<lambda>x. x) (addDays 0 46) deleted_db {((UserSubject, ''user:u1''), 0), ((ObjectSubject, ''object:b/o1''), 0)}"
    by (rule lifecycle_reach.tick) (simp add: addDays_def day_ms_def)
  then have "lifecycle_reach (\<lambda>x. x) (addDays 0 46) swept_db {((UserSubject, ''user:u1''), 0), ((ObjectSubject, ''object:b/o1''), 0)}"
    by (rule lifecycle_reach.sweep) (unfold swept_db_def, rule prod.collapse [symmetric])
  then show ?thesis
    by (rule lifecycle_reach.register) (unfold backed_db_def, rule prod.collapse [symmetric])
qed

text \<open>
  C1. Deleted data does not come back through a restore: whatever the history of holds, deletions,
  registrations, evaluations, expiries and sweeps, when a restore evaluation answers \<open>eligible\<close> for a
  backup that contains a subject deleted at some time, that backup was captured more than 15 days after
  the deletion, so it cannot hold the data that was deleted then.
\<close>

theorem eligible_restore_holds_no_deleted_subject:
  assumes "lifecycle_reach sha clk db dels"
    and "evaluateRestoreCandidate sha fresh clk backupId manifest evidence db = (Inr ev, db')"
    and "re_result ev = Eligible"
    and "subj \<in> set (subjects_of_backup backupId db)" and "(subj, deletedAt) \<in> dels"
  shows "\<exists>b \<in> set (backup_records db). br_id b = backupId \<and> addDays deletedAt 15 < br_captured_at b"
  using eligible_restore_recent_capture [OF lifecycle_reach_inv [OF assms(1)] assms(2,3), of "fst subj" "snd subj" deletedAt]
    assms(4,5) by simp

theorem eligible_restore_holds_no_deleted_subject_witness:
  "\<exists>b \<in> set (backup_records backed_db). br_id b = ''bkp0'' \<and> addDays 0 15 < br_captured_at b"
proof -
  let ?run = "evaluateRestoreCandidate (\<lambda>x. x) (\<lambda>i. ''rst'' @ seq_ids i) (addDays 0 46) ''bkp0'' (replicate 64 (CHR ''a'')) ''ev-1'' backed_db"
  obtain counts where backed: "backed_db = backed_as counts" using backed_db_is by blast
  have res: "map_sum id re_result (fst ?run) = Inr Eligible" unfolding backed by (rule backed_as_facts)
  then obtain ev where "fst ?run = Inr ev" by (cases "fst ?run") simp_all
  then have run: "?run = (Inr ev, snd ?run)" by (metis prod.collapse)
  with res have elig: "re_result ev = Eligible" by (metis fst_conv map_sum.simps(2) sum.inject(2))
  have subj: "(UserSubject, ''user:u1'') \<in> set (subjects_of_backup ''bkp0'' backed_db)"
    unfolding backed by (rule backed_as_facts)
  show ?thesis
    by (rule eligible_restore_holds_no_deleted_subject [OF backed_db_reach run elig subj]) simp
qed

text \<open>
  C2. Restore suppression has no gap: in every reachable state, a catalogued backup is due for
  deletion no later than the expiry of the tombstone of any subject it contains, backups are kept at
  most 30 days after capture, and every deletion still has its tombstone until 45 days after it.
\<close>

theorem tombstones_outlive_backups:
  assumes "lifecycle_reach sha clk db dels"
  shows "tombstones_outlive db \<and> backups_ok clk db \<and> deletions_suppressed clk db dels"
  using lifecycle_reach_inv [OF assms] by (simp add: lifecycle_inv_def)

theorem tombstones_outlive_backups_witness: "tombstones_outlive backed_db"
  using tombstones_outlive_backups [OF backed_db_reach] by blast

text \<open>
  The expiry worker marks a backup deleted only when it was due and the provider's adapter
  deleted it; a deleted record is never touched again, and every backup the worker reports as deleted
  is recorded so.
\<close>

theorem backup_deleted_only_by_adapter:
  assumes "deleteExpiredBackups sha fresh adapter now limit db = (r, db')"
  shows "(\<forall>b' \<in> set (backup_records db'). br_status b' = Deleted \<longrightarrow>
        b' \<in> set (backup_records db)
        \<or> ((\<exists>b \<in> set (backup_records db). br_id b = br_id b' \<and> br_delete_after b \<le> now)
           \<and> (\<exists>bk. bk_id bk = br_id b' \<and> adapter bk = Inr ())))
     \<and> (\<forall>b \<in> set (backup_records db). br_status b = Deleted \<longrightarrow> b \<in> set (backup_records db'))
     \<and> (\<forall>deleted failed. r = Inr (deleted, failed) \<longrightarrow>
          (\<forall>i \<in> set deleted. \<exists>b \<in> set (backup_records db'). br_id b = i \<and> br_status b = Deleted))"
proof -
  have "\<exists>b \<in> set (backup_records db). br_id b = i \<and> br_delete_after b \<le> now"
    if "i \<in> br_id ` set (due_backups now limit db)" for i
    using that by (auto simp: due_backups_def dest!: in_set_takeD)
  with deleteExpiredBackups_newly [OF assms] show ?thesis
    unfolding newly_deleted_def reported_deleted_def by blast
qed

theorem backup_deleted_only_by_adapter_witness:
  "\<exists>b \<in> set (backup_records (snd (deleteExpiredBackups (\<lambda>x. x) (\<lambda>i. ''x'' @ seq_ids i) (\<lambda>_. Inr ()) (addDays 0 61) 10 backed_db))).
     br_id b = ''bkp0'' \<and> br_status b = Deleted"
proof -
  let ?run = "deleteExpiredBackups (\<lambda>x. x) (\<lambda>i. ''x'' @ seq_ids i) (\<lambda>_. Inr ()) (addDays 0 61) 10 backed_db"
  obtain counts where backed: "backed_db = backed_as counts" using backed_db_is by blast
  have "fst ?run = Inr ([''bkp0''], [])" unfolding backed by (rule backed_as_facts)
  then have run: "?run = (Inr ([''bkp0''], []), snd ?run)" by (metis prod.collapse)
  from backup_deleted_only_by_adapter [OF run] show ?thesis by simp
qed

end
