(* ===== verification/Consent.thy ===== *)
theory Consent
  imports Gateway_Db Ledger
begin

text \<open>
  The consent ledger, packages/gateway/src/consent.ts: policies, the append-only event table, the check
  that a consent is active, the transaction that runs an operation only under active consents, and the
  withdrawal with its effects on jobs, telemetry, patterns and leaderboards.

  \<open>sha\<close> is SHA-256 in hex, \<open>now\<close> and \<open>nowText\<close> are the database's \<open>now()\<close> as milliseconds and as the
  text stored inside a JSON document, \<open>newId\<close> is the identifier the table draws. An SQL \<open>NULL\<close> of a
  JSON column is \<open>JUndef\<close>. The order of a listing is that of the code units of its keys.
\<close>

section \<open>Policies\<close>

definition CONSENT_LEDGER_FORMAT_VERSION :: string where
  "CONSENT_LEDGER_FORMAT_VERSION = ''1.0.0''"

fun purpose_text :: "ConsentPurpose \<Rightarrow> string" where
  "purpose_text PhotoscanProcessing = ''photoscan.processing''"
| "purpose_text TelemetrySharing = ''telemetry.sharing''"
| "purpose_text PatternContribution = ''pattern.contribution''"
| "purpose_text LeaderboardPublication = ''leaderboard.publication''"
| "purpose_text TrainingReuse = ''training.reuse''"

fun subject_kind_text :: "ConsentSubjectKind \<Rightarrow> string" where
  "subject_kind_text AccountSubject = ''account''"
| "subject_kind_text ObjectBlobSubject = ''object-blob''"
| "subject_kind_text TelemetryLogSubject = ''telemetry-log''"
| "subject_kind_text ModelSubject = ''model''"

record ConsentPolicyDefinition =
  cp_purpose :: ConsentPurpose
  cp_subjectKind :: ConsentSubjectKind
  cp_policyVersion :: string
  cp_notice :: string

record ConsentPolicy = ConsentPolicyDefinition +
  cp_noticeHash :: string
  cp_ledgerVersion :: string

definition POLICY_DEFINITIONS :: "ConsentPolicyDefinition list" where
  "POLICY_DEFINITIONS =
    [\<lparr>cp_purpose = PhotoscanProcessing, cp_subjectKind = ObjectBlobSubject, cp_policyVersion = ''1.0.0'',
      cp_notice = ''Allow ForgedTTC to process this owned photo object into a private photoscan result. This does not allow training reuse or public sharing.''\<rparr>,
     \<lparr>cp_purpose = TelemetrySharing, cp_subjectKind = TelemetryLogSubject, cp_policyVersion = ''1.0.0'',
      cp_notice = ''Allow this owned telemetry log to be shared through an explicit product action. The log remains private until that action occurs.''\<rparr>,
     \<lparr>cp_purpose = PatternContribution, cp_subjectKind = ModelSubject, cp_policyVersion = ''1.0.0'',
      cp_notice = ''Allow non-geometric structural idioms from this owned model to enter the pattern library with source provenance. Geometry and attribution are not published.''\<rparr>,
     \<lparr>cp_purpose = LeaderboardPublication, cp_subjectKind = AccountSubject, cp_policyVersion = ''1.0.0'',
      cp_notice = ''Allow verified run results from this account to appear on public leaderboards. Withdrawal removes this account'' @ [CHR 39] @ ''s existing leaderboard rows.''\<rparr>,
     \<lparr>cp_purpose = TrainingReuse, cp_subjectKind = TelemetryLogSubject, cp_policyVersion = ''1.0.0'',
      cp_notice = ''Allow this owned telemetry log to be reused as training input. This is separate from photoscan processing, telemetry sharing, and pattern contribution.''\<rparr>]"

type_synonym hash_fun = "string \<Rightarrow> string"

definition CONSENT_POLICIES :: "hash_fun \<Rightarrow> ConsentPolicy list" where
  "CONSENT_POLICIES sha =
     map (\<lambda>p. \<lparr>cp_purpose = cp_purpose p, cp_subjectKind = cp_subjectKind p, cp_policyVersion = cp_policyVersion p,
        cp_notice = cp_notice p, cp_noticeHash = sha (cp_notice p), cp_ledgerVersion = CONSENT_LEDGER_FORMAT_VERSION\<rparr>)
       POLICY_DEFINITIONS"

definition policyFor :: "hash_fun \<Rightarrow> ConsentPurpose \<Rightarrow> gw_error + ConsentPolicy" where
  "policyFor sha purpose =
     (case find (\<lambda>c. cp_purpose c = purpose) (CONSENT_POLICIES sha) of
        None \<Rightarrow> Inl (HttpError 400 ''unsupported consent purpose'')
      | Some policy \<Rightarrow> Inr policy)"

section \<open>Events\<close>

record ConsentEvent =
  ce_id :: string
  ce_ledgerVersion :: string
  ce_ownerUserId :: string
  ce_purpose :: ConsentPurpose
  ce_subjectKind :: ConsentSubjectKind
  ce_subjectId :: string
  ce_policyVersion :: string
  ce_noticeHash :: string
  ce_action :: ConsentAction
  ce_evidence :: jsval
  ce_idempotencyKey :: "string option"
  ce_previousEventId :: "string option"
  ce_eventSequence :: string
  ce_createdAt :: int
  ce_active :: bool

definition mapEvent :: "hash_fun \<Rightarrow> ConsentRow \<Rightarrow> gw_error + ConsentEvent" where
  "mapEvent sha row =
     bindE (policyFor sha (cr_purpose row)) (\<lambda>policy. Inr
       \<lparr>ce_id = cr_id row, ce_ledgerVersion = cr_ledger_version row, ce_ownerUserId = cr_owner_user_id row,
        ce_purpose = cr_purpose row, ce_subjectKind = cr_subject_kind row, ce_subjectId = cr_subject_id row,
        ce_policyVersion = cr_policy_version row, ce_noticeHash = cr_notice_hash row, ce_action = cr_action row,
        ce_evidence = cr_evidence row, ce_idempotencyKey = cr_idempotency_key row,
        ce_previousEventId = cr_previous_event_id row,
        ce_eventSequence = dec_digits (int (cr_event_sequence row)), ce_createdAt = cr_created_at row,
        ce_active = (cr_action row = Grant \<and> cr_ledger_version row = CONSENT_LEDGER_FORMAT_VERSION
          \<and> cr_policy_version row = cp_policyVersion policy \<and> cr_notice_hash row = cp_noticeHash policy)\<rparr>)"

definition action_json :: "ConsentAction option \<Rightarrow> jsval" where
  "action_json a = (case a of None \<Rightarrow> JNull | Some Grant \<Rightarrow> JStr ''grant'' | Some Withdraw \<Rightarrow> JStr ''withdraw'')"

definition consentError :: "string \<Rightarrow> (string \<times> jsval) list \<Rightarrow> gw_error" where
  "consentError message details = CodedError 409 ''CONSENT_REQUIRED'' message details"

fun consentErrorResponse :: "gw_error \<Rightarrow> (nat \<times> (string \<times> jsval) list) option" where
  "consentErrorResponse (CodedError status code message details) =
     (if code = ''CONSENT_REQUIRED''
      then Some (409, [(''error'', JStr message), (''code'', JStr ''CONSENT_REQUIRED'')] @ details)
      else None)"
| "consentErrorResponse _ = None"

section \<open>Ownership\<close>

definition owned_telemetry :: "string \<Rightarrow> string \<Rightarrow> gateway_db \<Rightarrow> TelemetryRow option" where
  "owned_telemetry logId userId db = find (\<lambda>r. tl_id r = logId \<and> tl_owner_user_id r = Some userId) (telemetry_logs db)"

definition owned_model :: "string \<Rightarrow> string \<Rightarrow> gateway_db \<Rightarrow> ModelRow option" where
  "owned_model modelId userId db = find (\<lambda>r. mr_id r = modelId \<and> mr_owner_user_id r = Some userId) (model_registry db)"

definition assertOwnedSubject ::
  "hash_fun \<Rightarrow> CurrentUser \<Rightarrow> ConsentPurpose \<Rightarrow> ConsentSubjectKind \<Rightarrow> string \<Rightarrow> unit gtx" where
  "assertOwnedSubject sha user purpose subjectKind subjectId =
     tx_bind (tx_lift (policyFor sha purpose)) (\<lambda>policy.
     if subjectKind \<noteq> cp_subjectKind policy
     then tx_throw (HttpError 400 (purpose_text purpose @ '' requires subjectKind '' @ subject_kind_text (cp_subjectKind policy)))
     else case subjectKind of
       AccountSubject \<Rightarrow>
         if subjectId \<noteq> user_id user then tx_throw (HttpError 403 ''account consent must target the current user'')
         else tx_return ()
     | ObjectBlobSubject \<Rightarrow>
         tx_bind (tx_gets (owned_blob subjectId (user_id user))) (\<lambda>owned.
         case owned of
           None \<Rightarrow> tx_throw (HttpError 404 ''object-blob not found'')
         | Some row \<Rightarrow>
             if purpose = PhotoscanProcessing \<and> ob_upload_status row \<noteq> UComplete
             then tx_throw (CodedError 409 ''UPLOAD_INCOMPLETE'' ''photoscan source upload is not verified complete'' [])
             else tx_return ())
     | TelemetryLogSubject \<Rightarrow>
         tx_bind (tx_gets (owned_telemetry subjectId (user_id user))) (\<lambda>owned.
         if owned = None then tx_throw (HttpError 404 ''telemetry-log not found'') else tx_return ())
     | ModelSubject \<Rightarrow>
         tx_bind (tx_gets (owned_model subjectId (user_id user))) (\<lambda>owned.
         if owned = None then tx_throw (HttpError 404 ''model not found'') else tx_return ()))"

section \<open>Reading the ledger\<close>

definition consents_of :: "string \<Rightarrow> ConsentPurpose \<Rightarrow> ConsentSubjectKind \<Rightarrow> string \<Rightarrow> gateway_db \<Rightarrow> ConsentRow list" where
  "consents_of userId purpose kind subjectId db =
     filter (\<lambda>r. cr_owner_user_id r = userId \<and> cr_purpose r = purpose \<and> cr_subject_kind r = kind
         \<and> cr_subject_id r = subjectId) (user_consent_events db)"

definition latest_consent ::
  "string \<Rightarrow> ConsentPurpose \<Rightarrow> ConsentSubjectKind \<Rightarrow> string \<Rightarrow> gateway_db \<Rightarrow> ConsentRow option" where
  "latest_consent userId purpose kind subjectId db =
     latest_by cr_event_sequence (consents_of userId purpose kind subjectId db)"

definition listCurrentConsents :: "hash_fun \<Rightarrow> CurrentUser \<Rightarrow> ConsentEvent list gtx" where
  "listCurrentConsents sha user =
     tx_bind (tx_gets (\<lambda>db.
       sort_key (\<lambda>r. purpose_text (cr_purpose r)) (sort_key (\<lambda>r. subject_kind_text (cr_subject_kind r))
         (sort_key cr_subject_id
           (distinct_on (\<lambda>r. (cr_purpose r, cr_subject_kind r, cr_subject_id r)) cr_event_sequence
             (filter (\<lambda>r. cr_owner_user_id r = user_id user) (user_consent_events db))))))) (\<lambda>rows.
     tx_lift (mapE (mapEvent sha) rows))"

definition assertActiveConsent ::
  "hash_fun \<Rightarrow> CurrentUser \<Rightarrow> ConsentPurpose \<Rightarrow> ConsentSubjectKind \<Rightarrow> string \<Rightarrow> ConsentEvent gtx" where
  "assertActiveConsent sha user purpose subjectKind subjectId =
     tx_bind (assertOwnedSubject sha user purpose subjectKind subjectId) (\<lambda>_.
     tx_bind (tx_lift (policyFor sha purpose)) (\<lambda>policy.
     tx_bind (tx_gets (latest_consent (user_id user) purpose subjectKind subjectId)) (\<lambda>row.
     tx_bind (tx_lift (case row of None \<Rightarrow> Inr None | Some r \<Rightarrow> bindE (mapEvent sha r) (\<lambda>e. Inr (Some e)))) (\<lambda>event.
     case event of
       Some e \<Rightarrow>
         if ce_active e then tx_return e
         else tx_throw (consentError (purpose_text purpose @ '' consent is required'')
           [(''purpose'', JStr (purpose_text purpose)), (''subjectKind'', JStr (subject_kind_text subjectKind)),
            (''subjectId'', JStr subjectId), (''requiredPolicyVersion'', JStr (cp_policyVersion policy)),
            (''requiredNoticeHash'', JStr (cp_noticeHash policy)), (''latestAction'', action_json (Some (ce_action e)))])
     | None \<Rightarrow>
         tx_throw (consentError (purpose_text purpose @ '' consent is required'')
           [(''purpose'', JStr (purpose_text purpose)), (''subjectKind'', JStr (subject_kind_text subjectKind)),
            (''subjectId'', JStr subjectId), (''requiredPolicyVersion'', JStr (cp_policyVersion policy)),
            (''requiredNoticeHash'', JStr (cp_noticeHash policy)), (''latestAction'', action_json None)])))))"

record ConsentRequirement =
  cq_purpose :: ConsentPurpose
  cq_subjectKind :: ConsentSubjectKind
  cq_subjectId :: string

definition lock_account :: "CurrentUser \<Rightarrow> unit gtx" where
  "lock_account user =
     tx_bind (tx_gets (\<lambda>db. list_ex (\<lambda>u. user_id u = user_id user) (users db))) (\<lambda>present.
     if present then tx_return () else tx_throw (HttpError 404 ''account not found''))"

definition check_requirement :: "hash_fun \<Rightarrow> CurrentUser \<Rightarrow> ConsentRequirement \<Rightarrow> unit gtx" where
  "check_requirement sha user rq =
     tx_bind (assertActiveConsent sha user (cq_purpose rq) (cq_subjectKind rq) (cq_subjectId rq)) (\<lambda>_. tx_return ())"

definition withActiveConsents ::
  "hash_fun \<Rightarrow> CurrentUser \<Rightarrow> ConsentRequirement list \<Rightarrow> 'a gtx \<Rightarrow> 'a gtx" where
  "withActiveConsents sha user requirements operation =
     withGatewayTransaction (
       tx_bind (lock_account user) (\<lambda>_.
       tx_bind (tx_forM requirements (check_requirement sha user)) (\<lambda>_.
       operation)))"

section \<open>Withdrawal\<close>

text \<open>\<open>COALESCE(input -> key, '[]') @> to_jsonb(ARRAY[id])\<close>: the member is an array that has the text.\<close>

definition json_array_has :: "jsval \<Rightarrow> string \<Rightarrow> string \<Rightarrow> bool" where
  "json_array_has input key subjectId =
     (case getProp input key of JArr xs \<Rightarrow> JStr subjectId \<in> set xs | _ \<Rightarrow> False)"

text \<open>\<open>input ->> key = id\<close>. A number is compared by its text; the text of an array or object starts with
  a bracket or brace and is no identifier of this database.\<close>

definition json_text_is :: "jsval \<Rightarrow> string \<Rightarrow> string \<Rightarrow> bool" where
  "json_text_is input key subjectId =
     (case getProp input key of
        JStr s \<Rightarrow> s = subjectId
      | JNum n \<Rightarrow> num_to_string n = subjectId
      | JBool b \<Rightarrow> (if b then ''true'' else ''false'') = subjectId
      | _ \<Rightarrow> False)"

definition cancel_job :: "int \<Rightarrow> string \<Rightarrow> JobRow \<Rightarrow> JobRow" where
  "cancel_job now message j =
     j\<lparr>jb_status := JCancelled, jb_error := Some message, jb_last_error_code := Some ''consent-withdrawn'',
       jb_finished_at := Some now, jb_lease_token := None, jb_lease_expires_at := None\<rparr>"

definition photoscan_job_of :: "string \<Rightarrow> string \<Rightarrow> JobRow \<Rightarrow> bool" where
  "photoscan_job_of userId subjectId j \<longleftrightarrow>
     jb_owner_user_id j = Some userId \<and> jb_kind j \<in> {''photoscan.single'', ''photoscan.multiview''}
     \<and> jb_status j \<in> {JQueued, JRunning} \<and> json_array_has (jb_input j) ''sourceBlobIds'' subjectId"

definition training_job_of :: "string \<Rightarrow> string \<Rightarrow> JobRow \<Rightarrow> bool" where
  "training_job_of userId subjectId j \<longleftrightarrow>
     jb_owner_user_id j = Some userId \<and> jb_kind j \<in> {''train.policy'', ''train.offline-bc''}
     \<and> jb_status j \<in> {JQueued, JRunning}
     \<and> (json_array_has (jb_input j) ''telemetryLogIds'' subjectId \<or> json_text_is (jb_input j) ''telemetryLogId'' subjectId)"

definition make_private :: "string \<Rightarrow> TelemetryRow \<Rightarrow> TelemetryRow" where
  "make_private nowText t =
     t\<lparr>tl_privacy := json_concat (tl_privacy t) [(''sharing'', JStr ''private''), (''sharingWithdrawnAt'', JStr nowText)]\<rparr>"

fun applyWithdrawal :: "int \<Rightarrow> string \<Rightarrow> CurrentUser \<Rightarrow> ConsentPurpose \<Rightarrow> string \<Rightarrow> gateway_db \<Rightarrow> gateway_db" where
  "applyWithdrawal now nowText user PhotoscanProcessing subjectId db =
     db\<lparr>jobs := map (\<lambda>j. if photoscan_job_of (user_id user) subjectId j
        then cancel_job now ''photoscan consent withdrawn'' j else j) (jobs db)\<rparr>"
| "applyWithdrawal now nowText user TelemetrySharing subjectId db =
     db\<lparr>telemetry_logs := map (\<lambda>t. if tl_id t = subjectId \<and> tl_owner_user_id t = Some (user_id user)
        then make_private nowText t else t) (telemetry_logs db)\<rparr>"
| "applyWithdrawal now nowText user PatternContribution subjectId db =
     db\<lparr>pattern_library := filter (\<lambda>p. \<not> (pl_owner_user_id p = Some (user_id user) \<and> pl_source_model_id p = Some subjectId))
        (pattern_library db)\<rparr>"
| "applyWithdrawal now nowText user LeaderboardPublication subjectId db =
     db\<lparr>leaderboard_runs := filter (\<lambda>l. lb_user_id l \<noteq> Some (user_id user)) (leaderboard_runs db)\<rparr>"
| "applyWithdrawal now nowText user TrainingReuse subjectId db =
     db\<lparr>jobs := map (\<lambda>j. if training_job_of (user_id user) subjectId j
        then cancel_job now ''training reuse consent withdrawn'' j else j) (jobs db)\<rparr>"

section \<open>Recording consent\<close>

record ConsentInput =
  ci_purpose :: ConsentPurpose
  ci_subjectKind :: ConsentSubjectKind
  ci_subjectId :: string
  ci_policyVersion :: string
  ci_noticeHash :: string
  ci_action :: ConsentAction
  ci_locale :: "string option"
  ci_idempotencyKey :: "string option"

definition consent_clash :: "ConsentRow \<Rightarrow> ConsentRow \<Rightarrow> bool" where
  "consent_clash a b \<longleftrightarrow>
     cr_id a = cr_id b
     \<or> (cr_owner_user_id a = cr_owner_user_id b \<and> cr_idempotency_key a \<noteq> None
        \<and> cr_idempotency_key a = cr_idempotency_key b)"

definition insert_consent :: "ConsentRow \<Rightarrow> gateway_db \<Rightarrow> gw_error + gateway_db" where
  "insert_consent row db =
     bindE (insert_unique consent_clash (DbError ''unique constraint'') row (user_consent_events db))
       (\<lambda>rows. Inr (db\<lparr>user_consent_events := rows, consent_sequence := Suc (consent_sequence db)\<rparr>))"

definition find_replay :: "string \<Rightarrow> string option \<Rightarrow> gateway_db \<Rightarrow> ConsentRow option" where
  "find_replay userId key db =
     (case key of
        None \<Rightarrow> None
      | Some k \<Rightarrow> if k = [] then None
                 else find (\<lambda>r. cr_owner_user_id r = userId \<and> cr_idempotency_key r = Some k) (user_consent_events db))"

definition consent_row :: "string \<Rightarrow> int \<Rightarrow> CurrentUser \<Rightarrow> ConsentInput \<Rightarrow> gateway_db \<Rightarrow> ConsentRow" where
  "consent_row newId now user input db =
     \<lparr>cr_id = newId, cr_ledger_version = CONSENT_LEDGER_FORMAT_VERSION, cr_owner_user_id = user_id user,
      cr_purpose = ci_purpose input, cr_subject_kind = ci_subjectKind input, cr_subject_id = ci_subjectId input,
      cr_policy_version = ci_policyVersion input, cr_notice_hash = ci_noticeHash input, cr_action = ci_action input,
      cr_evidence = JObj [(''channel'', JStr ''api''), (''locale'', case ci_locale input of None \<Rightarrow> JNull | Some l \<Rightarrow> JStr l)],
      cr_idempotency_key = ci_idempotencyKey input,
      cr_previous_event_id = map_option cr_id
        (latest_consent (user_id user) (ci_purpose input) (ci_subjectKind input) (ci_subjectId input) db),
      cr_event_sequence = consent_sequence db, cr_created_at = now\<rparr>"

definition recordConsent_body ::
  "hash_fun \<Rightarrow> string \<Rightarrow> int \<Rightarrow> string \<Rightarrow> CurrentUser \<Rightarrow> ConsentInput \<Rightarrow> ConsentEvent gtx" where
  "recordConsent_body sha newId now nowText user input =
     tx_bind (lock_account user) (\<lambda>_.
     tx_bind (assertOwnedSubject sha user (ci_purpose input) (ci_subjectKind input) (ci_subjectId input)) (\<lambda>_.
     tx_bind (tx_gets (find_replay (user_id user) (ci_idempotencyKey input))) (\<lambda>existing.
     case existing of
       Some row \<Rightarrow>
         tx_bind (tx_lift (mapEvent sha row)) (\<lambda>event.
         if ce_purpose event \<noteq> ci_purpose input \<or> ce_subjectKind event \<noteq> ci_subjectKind input
            \<or> ce_subjectId event \<noteq> ci_subjectId input \<or> ce_action event \<noteq> ci_action input
         then tx_throw (HttpError 409 ''consent idempotency key was already used for a different event'')
         else tx_return event)
     | None \<Rightarrow>
         tx_bind (tx_gets (consent_row newId now user input)) (\<lambda>row.
         tx_bind (tx_update (insert_consent row)) (\<lambda>_.
         tx_bind (if ci_action input = Withdraw
                  then tx_modify (applyWithdrawal now nowText user (ci_purpose input) (ci_subjectId input))
                  else tx_return ()) (\<lambda>_.
         tx_lift (mapEvent sha row)))))))"

definition recordConsent ::
  "hash_fun \<Rightarrow> string \<Rightarrow> int \<Rightarrow> string \<Rightarrow> CurrentUser \<Rightarrow> ConsentInput \<Rightarrow> ConsentEvent gtx" where
  "recordConsent sha newId now nowText user input =
     tx_bind (tx_lift (policyFor sha (ci_purpose input))) (\<lambda>policy.
     if ci_policyVersion input \<noteq> cp_policyVersion policy \<or> ci_noticeHash input \<noteq> cp_noticeHash policy
     then tx_throw (CodedError 409 [] ''consent policy version or notice hash is stale''
       [(''requiredPolicyVersion'', JStr (cp_policyVersion policy)), (''requiredNoticeHash'', JStr (cp_noticeHash policy))])
     else withGatewayTransaction (recordConsent_body sha newId now nowText user input))"

section \<open>Identifiers in job payloads\<close>

definition nonempty_strings :: "jsval list \<Rightarrow> string list" where
  "nonempty_strings xs = concat (map (\<lambda>v. case v of JStr s \<Rightarrow> if s = [] then [] else [s] | _ \<Rightarrow> []) xs)"

definition telemetryLogIdsFromPayload :: "jsval \<Rightarrow> string list" where
  "telemetryLogIdsFromPayload payload =
     (if \<not> isRecord payload then []
      else let ids = (case getProp payload ''telemetryLogIds'' of JArr xs \<Rightarrow> nonempty_strings xs | _ \<Rightarrow> []);
               single = nonempty_strings [getProp payload ''telemetryLogId'']
           in js_unique (ids @ single))"

definition sourceBlobIdsFromPayload :: "jsval \<Rightarrow> string list" where
  "sourceBlobIdsFromPayload payload =
     (if \<not> isRecord payload then []
      else case getProp payload ''sourceBlobIds'' of JArr xs \<Rightarrow> js_unique (nonempty_strings xs) | _ \<Rightarrow> [])"

end
