(* ===== verification/Consent_Claims.thy ===== *)
theory Consent_Claims
  imports Consent
begin

text \<open>
  Properties of the consent ledger: when a consent is active, what a grant and a withdrawal do, that
  gated operations run only under active consents, and that a user's ledger is append-only and separate
  from every other user's.
\<close>

section \<open>Policies and events\<close>

lemma policyFor_ok: "\<exists>p. policyFor sha purpose = Inr p"
  by (cases purpose) (simp_all add: policyFor_def CONSENT_POLICIES_def POLICY_DEFINITIONS_def)

text \<open>A row is a current grant: its version and notice are those of the policy in force.\<close>

definition current_grant :: "hash_fun \<Rightarrow> ConsentRow \<Rightarrow> bool" where
  "current_grant sha r \<longleftrightarrow>
     cr_action r = Grant \<and> cr_ledger_version r = CONSENT_LEDGER_FORMAT_VERSION
     \<and> (case policyFor sha (cr_purpose r) of
          Inl _ \<Rightarrow> False
        | Inr p \<Rightarrow> cr_policy_version r = cp_policyVersion p \<and> cr_notice_hash r = cp_noticeHash p)"

lemma mapEvent_ok:
  obtains e where "mapEvent sha r = Inr e" and "ce_active e = current_grant sha r"
    and "ce_purpose e = cr_purpose r" "ce_subjectKind e = cr_subject_kind r" "ce_subjectId e = cr_subject_id r"
    and "ce_action e = cr_action r" "ce_id e = cr_id r"
proof -
  obtain p where "policyFor sha (cr_purpose r) = Inr p" using policyFor_ok by blast
  with that show ?thesis by (auto simp: mapEvent_def current_grant_def)
qed

lemma mapEvent_fields:
  assumes "mapEvent sha r = Inr e"
  shows "ce_active e = current_grant sha r" "ce_purpose e = cr_purpose r" "ce_subjectKind e = cr_subject_kind r"
    "ce_subjectId e = cr_subject_id r" "ce_action e = cr_action r"
  using assms by (rule_tac mapEvent_ok [of sha r]; simp)+

section \<open>Reading does not write\<close>

lemma lock_account_Inr [txE]:
  "lock_account user db = (Inr u, db') \<longleftrightarrow> (\<exists>a \<in> set (users db). user_id a = user_id user) \<and> db' = db"
  by (auto simp: lock_account_def list_ex_iff)

lemma assertOwnedSubject_state:
  assumes "assertOwnedSubject sha user purpose kind sid db = (r, db')"
  shows "db' = db"
proof -
  obtain p where "policyFor sha purpose = Inr p" using policyFor_ok by blast
  with assms show ?thesis
    by (auto simp: assertOwnedSubject_def split: ConsentSubjectKind.splits option.splits if_splits)
qed

lemma assertActiveConsent_run:
  "assertActiveConsent sha user purpose kind sid db =
     (case assertOwnedSubject sha user purpose kind sid db of
        (Inl e, s) \<Rightarrow> (Inl e, s)
      | (Inr _, s) \<Rightarrow>
          (case latest_consent (user_id user) purpose kind sid s of
             Some r \<Rightarrow> if current_grant sha r then (mapEvent sha r, s)
                       else (Inl (consentError (purpose_text purpose @ '' consent is required'')
                         (case fst (assertActiveConsent sha user purpose kind sid db) of
                            Inl (CodedError _ _ _ d) \<Rightarrow> d | _ \<Rightarrow> [])), s)
           | None \<Rightarrow> (Inl (consentError (purpose_text purpose @ '' consent is required'')
                         (case fst (assertActiveConsent sha user purpose kind sid db) of
                            Inl (CodedError _ _ _ d) \<Rightarrow> d | _ \<Rightarrow> [])), s)))"
proof -
  obtain p where p: "policyFor sha purpose = Inr p" using policyFor_ok by blast
  obtain a s where own: "assertOwnedSubject sha user purpose kind sid db = (a, s)"
    by (cases "assertOwnedSubject sha user purpose kind sid db")
  show ?thesis
  proof (cases a)
    case (Inl e)
    then show ?thesis using own by (simp add: assertActiveConsent_def tx_bind_run)
  next
    case (Inr u)
    show ?thesis
    proof (cases "latest_consent (user_id user) purpose kind sid s")
      case None
      then show ?thesis using own Inr p by (simp add: assertActiveConsent_def tx_bind_run consentError_def)
    next
      case (Some r)
      obtain e where "mapEvent sha r = Inr e" "ce_active e = current_grant sha r" by (rule mapEvent_ok)
      then show ?thesis using own Inr p Some by (simp add: assertActiveConsent_def tx_bind_run consentError_def)
    qed
  qed
qed

lemma assertActiveConsent_Inr:
  "assertActiveConsent sha user purpose kind sid db = (Inr e, db') \<longleftrightarrow>
     db' = db \<and> isOk (fst (assertOwnedSubject sha user purpose kind sid db))
     \<and> (\<exists>r. latest_consent (user_id user) purpose kind sid db = Some r \<and> current_grant sha r \<and> mapEvent sha r = Inr e)"
proof -
  obtain a s where own: "assertOwnedSubject sha user purpose kind sid db = (a, s)"
    by (cases "assertOwnedSubject sha user purpose kind sid db")
  then have s: "s = db" by (rule assertOwnedSubject_state)
  show ?thesis
    by (subst assertActiveConsent_run) (cases a; auto simp: own s split: option.splits)
qed

lemma assertActiveConsent_state: "assertActiveConsent sha user purpose kind sid db = (r, db') \<Longrightarrow> db' = db"
  by (subst (asm) assertActiveConsent_run)
    (auto split: prod.splits sum.splits option.splits if_splits dest: assertOwnedSubject_state)

section \<open>The ledger\<close>

definition append_consent :: "ConsentRow \<Rightarrow> gateway_db \<Rightarrow> gateway_db" where
  "append_consent row db =
     db\<lparr>user_consent_events := user_consent_events db @ [row], consent_sequence := Suc (consent_sequence db)\<rparr>"

interpretation consent_ledger: event_ledger user_consent_events consent_sequence cr_event_sequence append_consent
  by unfold_locales (simp_all add: append_consent_def)

definition keyed :: "ConsentRow list \<Rightarrow> (string \<times> string option) list" where
  "keyed rows = map (\<lambda>r. (cr_owner_user_id r, cr_idempotency_key r)) (filter (\<lambda>r. cr_idempotency_key r \<noteq> None) rows)"

definition consent_inv :: "gateway_db \<Rightarrow> bool" where
  "consent_inv db \<longleftrightarrow>
     seq_below cr_event_sequence (consent_sequence db) (user_consent_events db)
     \<and> distinct (keyed (user_consent_events db))
     \<and> (\<forall>r \<in> set (user_consent_events db). \<forall>p. cr_previous_event_id r = Some p \<longrightarrow>
          (\<exists>q \<in> set (user_consent_events db). cr_id q = p \<and> cr_owner_user_id q = cr_owner_user_id r
             \<and> cr_event_sequence q < cr_event_sequence r))"

lemma insert_consent_Inr [resE]:
  "insert_consent row db = Inr db' \<longleftrightarrow>
     (\<forall>q \<in> set (user_consent_events db). \<not> consent_clash row q) \<and> db' = append_consent row db"
  by (auto simp: insert_consent_def append_consent_def resE)

lemma withdrawal_frame [simp]:
  "user_consent_events (applyWithdrawal now nt user purpose sid db) = user_consent_events db"
  "consent_sequence (applyWithdrawal now nt user purpose sid db) = consent_sequence db"
  "users (applyWithdrawal now nt user purpose sid db) = users db"
  "object_blobs (applyWithdrawal now nt user purpose sid db) = object_blobs db"
  "model_registry (applyWithdrawal now nt user purpose sid db) = model_registry db"
  "transactional (applyWithdrawal now nt user purpose sid db) = transactional db"
  "commit_accepted (applyWithdrawal now nt user purpose sid db) = commit_accepted db"
  by (cases purpose; simp)+

definition consent_effect :: "int \<Rightarrow> string \<Rightarrow> CurrentUser \<Rightarrow> ConsentInput \<Rightarrow> gateway_db \<Rightarrow> gateway_db" where
  "consent_effect now nt user input db =
     (if ci_action input = Withdraw then applyWithdrawal now nt user (ci_purpose input) (ci_subjectId input) db else db)"

lemma consent_effect_frame [simp]:
  "user_consent_events (consent_effect now nt user input db) = user_consent_events db"
  "consent_sequence (consent_effect now nt user input db) = consent_sequence db"
  "users (consent_effect now nt user input db) = users db"
  "object_blobs (consent_effect now nt user input db) = object_blobs db"
  "model_registry (consent_effect now nt user input db) = model_registry db"
  "transactional (consent_effect now nt user input db) = transactional db"
  "commit_accepted (consent_effect now nt user input db) = commit_accepted db"
  by (simp_all add: consent_effect_def)

definition consent_replayed ::
  "hash_fun \<Rightarrow> CurrentUser \<Rightarrow> ConsentInput \<Rightarrow> ConsentEvent \<Rightarrow> gateway_db \<Rightarrow> gateway_db \<Rightarrow> bool" where
  "consent_replayed sha user input e db db' \<longleftrightarrow>
     db' = db \<and> (\<exists>row \<in> set (user_consent_events db). mapEvent sha row = Inr e
       \<and> cr_owner_user_id row = user_id user \<and> cr_idempotency_key row = ci_idempotencyKey input
       \<and> ci_idempotencyKey input \<noteq> None \<and> ci_idempotencyKey input \<noteq> Some []
       \<and> cr_purpose row = ci_purpose input \<and> cr_subject_kind row = ci_subjectKind input
       \<and> cr_subject_id row = ci_subjectId input \<and> cr_action row = ci_action input)"

definition consent_appended ::
  "hash_fun \<Rightarrow> string \<Rightarrow> int \<Rightarrow> string \<Rightarrow> CurrentUser \<Rightarrow> ConsentInput \<Rightarrow> ConsentEvent \<Rightarrow> gateway_db \<Rightarrow> gateway_db \<Rightarrow> bool" where
  "consent_appended sha newId now nt user input e db db' \<longleftrightarrow>
     (\<exists>row. row = consent_row newId now user input db \<and> mapEvent sha row = Inr e
       \<and> (\<forall>q \<in> set (user_consent_events db). \<not> consent_clash row q)
       \<and> db' = consent_effect now nt user input (append_consent row db)
       \<and> (cr_action row = Grant \<longrightarrow> current_grant sha row))"

lemma recordConsent_Inr:
  assumes "recordConsent sha newId now nt user input db = (Inr e, db')"
  shows "isOk (fst (assertOwnedSubject sha user (ci_purpose input) (ci_subjectKind input) (ci_subjectId input) db))"
    and "consent_replayed sha user input e db db' \<or> consent_appended sha newId now nt user input e db db'"
    and "\<exists>a \<in> set (users db). user_id a = user_id user"
proof -
  obtain p where p: "policyFor sha (ci_purpose input) = Inr p" using policyFor_ok by blast
  from assms have stale: "ci_policyVersion input = cp_policyVersion p" "ci_noticeHash input = cp_noticeHash p"
    and body: "recordConsent_body sha newId now nt user input db = (Inr e, db')"
    by (auto simp: recordConsent_def p txE split: if_splits)
  from body obtain u s where acc: "\<exists>a \<in> set (users db). user_id a = user_id user"
    and own: "assertOwnedSubject sha user (ci_purpose input) (ci_subjectKind input) (ci_subjectId input) db = (Inr u, s)"
    unfolding recordConsent_body_def txE by blast
  have s: "s = db" using own by (rule assertOwnedSubject_state)
  show "isOk (fst (assertOwnedSubject sha user (ci_purpose input) (ci_subjectKind input) (ci_subjectId input) db))"
    using own by simp
  show "\<exists>a \<in> set (users db). user_id a = user_id user" by (rule acc)
  show "consent_replayed sha user input e db db' \<or> consent_appended sha newId now nt user input e db db'"
  proof (cases "find_replay (user_id user) (ci_idempotencyKey input) db")
    case (Some row)
    then have row: "row \<in> set (user_consent_events db)" "cr_owner_user_id row = user_id user"
      "cr_idempotency_key row = ci_idempotencyKey input" "ci_idempotencyKey input \<noteq> None" "ci_idempotencyKey input \<noteq> Some []"
      by (auto simp: find_replay_def split: option.splits if_splits dest!: find_SomeD)
    have "consent_replayed sha user input e db db'"
      using body own s Some row unfolding recordConsent_body_def
      by (auto simp: txE consent_replayed_def mapEvent_fields split: if_splits)
    then show ?thesis ..
  next
    case None
    have "consent_appended sha newId now nt user input e db db'"
      using body own s None stale p unfolding recordConsent_body_def consent_appended_def
      by (cases "ci_action input")
        (auto simp: txE resE consent_effect_def consent_row_def current_grant_def)
    then show ?thesis ..
  qed
qed

lemma recordConsent_Inl: "recordConsent sha newId now nt user input db = (Inl e, db') \<Longrightarrow> db' = db"
  unfolding recordConsent_def
  by (auto simp: tx_bind_run split: sum.splits if_splits dest: withGatewayTransaction_Inl)


section \<open>The state after a recorded decision\<close>

lemma assertOwnedSubject_cong:
  assumes "object_blobs db' = object_blobs db" "model_registry db' = model_registry db"
    and "owned_telemetry sid (user_id user) db' = None \<longleftrightarrow> owned_telemetry sid (user_id user) db = None"
  shows "fst (assertOwnedSubject sha user purpose kind sid db') = fst (assertOwnedSubject sha user purpose kind sid db)"
proof -
  obtain p where "policyFor sha purpose = Inr p" using policyFor_ok by blast
  moreover have "owned_blob sid (user_id user) db' = owned_blob sid (user_id user) db"
    "owned_model sid (user_id user) db' = owned_model sid (user_id user) db"
    using assms(1,2) by (simp_all add: owned_blob_def owned_model_def)
  ultimately show ?thesis
    using assms(3) by (cases kind; cases "owned_blob sid (user_id user) db")
      (simp_all add: assertOwnedSubject_def tx_bind_run tx_throw_def)
qed

lemma make_private_id [simp]:
  "tl_id (make_private nt t) = tl_id t" "tl_owner_user_id (make_private nt t) = tl_owner_user_id t"
  by (simp_all add: make_private_def)

lemma withdrawal_owned_telemetry:
  "owned_telemetry sid uid (applyWithdrawal now nt user purpose sid' db) = None \<longleftrightarrow> owned_telemetry sid uid db = None"
  by (cases purpose) (auto simp: owned_telemetry_def find_None_iff_all ball_Un)

lemma decision_keeps_ownership:
  "fst (assertOwnedSubject sha user purpose kind sid (consent_effect now nt user' input (append_consent row db))) =
   fst (assertOwnedSubject sha user purpose kind sid db)"
proof (rule assertOwnedSubject_cong)
  show "owned_telemetry sid (user_id user) (consent_effect now nt user' input (append_consent row db)) = None
      \<longleftrightarrow> owned_telemetry sid (user_id user) db = None"
    by (auto simp: consent_effect_def withdrawal_owned_telemetry) (simp_all add: append_consent_def owned_telemetry_def)
qed (simp_all add: append_consent_def)

lemma consents_of_effect [simp]:
  "latest_consent u p k s (consent_effect now nt user input db) = latest_consent u p k s db"
  by (simp add: latest_consent_def consents_of_def)

lemma latest_after_append:
  assumes "consent_inv db"
  shows "latest_consent u p k s (append_consent (consent_row newId now user input db) db) =
     (if u = user_id user \<and> p = ci_purpose input \<and> k = ci_subjectKind input \<and> s = ci_subjectId input
      then Some (consent_row newId now user input db) else latest_consent u p k s db)"
  unfolding latest_consent_def consents_of_def
  by (subst consent_ledger.latest_append) (use assms in \<open>auto simp: consent_inv_def consent_row_def\<close>)

lemma keyed_snoc [simp]: "keyed (rows @ [r]) = keyed rows @ (if cr_idempotency_key r = None then [] else [(cr_owner_user_id r, cr_idempotency_key r)])"
  by (simp add: keyed_def)

lemma in_keyed: "x \<in> set (keyed rows) \<longleftrightarrow> (\<exists>r \<in> set rows. x = (cr_owner_user_id r, cr_idempotency_key r) \<and> cr_idempotency_key r \<noteq> None)"
  by (auto simp: keyed_def)

lemma latest_consent_SomeD:
  "latest_consent u p k s db = Some q \<Longrightarrow> q \<in> set (user_consent_events db) \<and> cr_owner_user_id q = u"
  unfolding latest_consent_def by (drule latest_by_in) (simp add: consents_of_def)

lemma consent_inv_append:
  assumes inv: "consent_inv db" and row: "row = consent_row newId now user input db"
    and fresh: "\<forall>q \<in> set (user_consent_events db). \<not> consent_clash row q"
  shows "consent_inv (append_consent row db)"
proof -
  have sq: "seq_below cr_event_sequence (consent_sequence db) (user_consent_events db)"
    using inv by (simp add: consent_inv_def)
  have "seq_below cr_event_sequence (consent_sequence (append_consent row db)) (user_consent_events (append_consent row db))"
    by (rule consent_ledger.seq_below_append [OF sq]) (simp add: row consent_row_def)
  moreover have "distinct (keyed (user_consent_events (append_consent row db)))"
    using inv fresh by (auto simp: consent_ledger.events_append consent_inv_def in_keyed consent_clash_def)
  moreover have "\<exists>q \<in> set (user_consent_events (append_consent row db)). cr_id q = p
      \<and> cr_owner_user_id q = cr_owner_user_id r \<and> cr_event_sequence q < cr_event_sequence r"
    if "r \<in> set (user_consent_events (append_consent row db))" "cr_previous_event_id r = Some p" for r p
  proof (cases "r \<in> set (user_consent_events db)")
    case True
    with inv that(2) show ?thesis by (force simp: consent_inv_def consent_ledger.events_append)
  next
    case False
    with that(1) have "r = row" by (simp add: consent_ledger.events_append)
    with that(2) obtain q where "q \<in> set (user_consent_events db)" "cr_owner_user_id q = user_id user" "cr_id q = p"
      by (auto simp: row consent_row_def dest: latest_consent_SomeD)
    with sq \<open>r = row\<close> show ?thesis
      by (force simp: row consent_row_def consent_ledger.events_append seq_below_def)
  qed
  ultimately show ?thesis unfolding consent_inv_def by blast
qed

lemma consent_inv_effect [simp]: "consent_inv (consent_effect now nt user input db) = consent_inv db"
  by (simp add: consent_inv_def)


lemma recordConsent_appended:
  assumes "find_replay (user_id user) (ci_idempotencyKey input) db = None"
    and "recordConsent sha newId now nt user input db = (Inr e, db')"
  shows "consent_appended sha newId now nt user input e db db'"
proof -
  have "\<not> consent_replayed sha user input e db db'"
    using assms(1) by (auto simp: consent_replayed_def find_replay_def find_None_iff_all split: option.splits)
  with recordConsent_Inr(2) [OF assms(2)] show ?thesis by blast
qed

lemma recordConsent_again:
  assumes "recordConsent sha newId now nt user input db = (Inr e, db')"
    and "recordConsent_body sha newId' now' nt' user input d = (Inr e', d')"
    and "transactional d = transactional db" "commit_accepted d = commit_accepted db"
  shows "recordConsent sha newId' now' nt' user input d = (Inr e', d')"
proof -
  obtain p where "policyFor sha (ci_purpose input) = Inr p" using policyFor_ok by blast
  with assms show ?thesis by (auto simp: recordConsent_def txE withGatewayTransaction_live split: if_splits)
qed

lemma check_requirement_Inr:
  "check_requirement sha user rq db = (Inr u, s) \<longleftrightarrow>
     (\<exists>e. assertActiveConsent sha user (cq_purpose rq) (cq_subjectKind rq) (cq_subjectId rq) db = (Inr e, s))"
  by (auto simp: check_requirement_def txE)

lemma check_requirements_Inr:
  "tx_forM rqs (check_requirement sha user) db = (Inr (), db') \<Longrightarrow>
     db' = db \<and> list_all (\<lambda>rq. isOk (fst (assertActiveConsent sha user (cq_purpose rq) (cq_subjectKind rq) (cq_subjectId rq) db))) rqs"
proof (induction rqs)
  case Nil
  then show ?case by simp
next
  case (Cons rq rqs)
  then obtain e s where e: "assertActiveConsent sha user (cq_purpose rq) (cq_subjectKind rq) (cq_subjectId rq) db = (Inr e, s)"
    and rest: "tx_forM rqs (check_requirement sha user) s = (Inr (), db')"
    by (auto simp: txE check_requirement_Inr)
  have "s = db" using e by (rule assertActiveConsent_state)
  with Cons.IH e rest show ?case by simp
qed

section \<open>What a withdrawal does\<close>

lemma cancelled_is_idle [simp]:
  "\<not> photoscan_job_of u sid (cancel_job now m j)" "\<not> training_job_of u sid (cancel_job now m j)"
  "jb_owner_user_id (cancel_job now m j) = jb_owner_user_id j"
  by (simp_all add: photoscan_job_of_def training_job_of_def cancel_job_def)

lemma made_private:
  "isRecord (tl_privacy (make_private nt t)) \<Longrightarrow> getProp (tl_privacy (make_private nt t)) ''sharing'' = JStr ''private''"
proof -
  define kvs where "kvs = [(''sharing'', JStr ''private''), (''sharingWithdrawnAt'', JStr nt)]"
  have kvs: "map_of kvs ''sharing'' = Some (JStr ''private'')" by (simp add: kvs_def)
  have tp: "tl_privacy (make_private nt t) = json_concat (tl_privacy t) kvs" by (simp add: make_private_def kvs_def)
  assume "isRecord (tl_privacy (make_private nt t))"
  then show ?thesis unfolding tp by (rule getProp_json_concat [OF _ kvs])
qed

lemma filter_map_other: "(\<And>x. x \<in> set xs \<Longrightarrow> P (f x) = P x) \<Longrightarrow> (\<And>x. x \<in> set xs \<Longrightarrow> P x \<Longrightarrow> f x = x) \<Longrightarrow> filter P (map f xs) = filter P xs"
  by (induction xs) auto

lemma withdrawal_stops_use:
  "case purpose of
       PhotoscanProcessing \<Rightarrow> list_all (\<lambda>j. \<not> photoscan_job_of (user_id user) sid j) (jobs (applyWithdrawal now nt user purpose sid db))
     | TelemetrySharing \<Rightarrow> list_all (\<lambda>t. tl_id t \<noteq> sid \<or> tl_owner_user_id t \<noteq> Some (user_id user)
           \<or> \<not> isRecord (tl_privacy t) \<or> getProp (tl_privacy t) ''sharing'' = JStr ''private'')
           (telemetry_logs (applyWithdrawal now nt user purpose sid db))
     | PatternContribution \<Rightarrow> list_all (\<lambda>p. pl_owner_user_id p \<noteq> Some (user_id user)
           \<or> pl_source_model_id p \<noteq> Some sid) (pattern_library (applyWithdrawal now nt user purpose sid db))
     | LeaderboardPublication \<Rightarrow> list_all (\<lambda>l. lb_user_id l \<noteq> Some (user_id user))
           (leaderboard_runs (applyWithdrawal now nt user purpose sid db))
     | TrainingReuse \<Rightarrow> list_all (\<lambda>j. \<not> training_job_of (user_id user) sid j) (jobs (applyWithdrawal now nt user purpose sid db))"
proof (cases purpose)
  case TelemetrySharing
  have "tl_id t' \<noteq> sid \<or> tl_owner_user_id t' \<noteq> Some (user_id user) \<or> \<not> isRecord (tl_privacy t')
      \<or> getProp (tl_privacy t') ''sharing'' = JStr ''private''"
    if "t' = (if tl_id t = sid \<and> tl_owner_user_id t = Some (user_id user) then make_private nt t else t)" for t t'
    using that made_private [of nt t] by auto
  with TelemetrySharing show ?thesis by (simp add: list.pred_map comp_def list.pred_True)
qed (simp_all add: list.pred_map comp_def list_all_iff ball_Un)

lemma withdrawal_leaves_others:
  "filter (\<lambda>j. jb_owner_user_id j \<noteq> Some (user_id user)) (jobs (applyWithdrawal now nt user purpose sid db))
     = filter (\<lambda>j. jb_owner_user_id j \<noteq> Some (user_id user)) (jobs db)"
  "filter (\<lambda>t. tl_owner_user_id t \<noteq> Some (user_id user)) (telemetry_logs (applyWithdrawal now nt user purpose sid db))
     = filter (\<lambda>t. tl_owner_user_id t \<noteq> Some (user_id user)) (telemetry_logs db)"
  "filter (\<lambda>p. pl_owner_user_id p \<noteq> Some (user_id user)) (pattern_library (applyWithdrawal now nt user purpose sid db))
     = filter (\<lambda>p. pl_owner_user_id p \<noteq> Some (user_id user)) (pattern_library db)"
  "filter (\<lambda>l. lb_user_id l \<noteq> Some (user_id user)) (leaderboard_runs (applyWithdrawal now nt user purpose sid db))
     = filter (\<lambda>l. lb_user_id l \<noteq> Some (user_id user)) (leaderboard_runs db)"
proof -
  have "\<not> photoscan_job_of (user_id user) sid j \<and> \<not> training_job_of (user_id user) sid j"
    if "jb_owner_user_id j \<noteq> Some (user_id user)" for j
    using that by (simp add: photoscan_job_of_def training_job_of_def)
  then show "filter (\<lambda>j. jb_owner_user_id j \<noteq> Some (user_id user)) (jobs (applyWithdrawal now nt user purpose sid db))
     = filter (\<lambda>j. jb_owner_user_id j \<noteq> Some (user_id user)) (jobs db)"
    by (cases purpose) (simp_all add: filter_map_other)
  show "filter (\<lambda>t. tl_owner_user_id t \<noteq> Some (user_id user)) (telemetry_logs (applyWithdrawal now nt user purpose sid db))
     = filter (\<lambda>t. tl_owner_user_id t \<noteq> Some (user_id user)) (telemetry_logs db)"
    by (cases purpose) (simp_all add: filter_map_other)
  show "filter (\<lambda>p. pl_owner_user_id p \<noteq> Some (user_id user)) (pattern_library (applyWithdrawal now nt user purpose sid db))
     = filter (\<lambda>p. pl_owner_user_id p \<noteq> Some (user_id user)) (pattern_library db)"
    by (cases purpose) (simp_all, rule filter_cong, auto)
  show "filter (\<lambda>l. lb_user_id l \<noteq> Some (user_id user)) (leaderboard_runs (applyWithdrawal now nt user purpose sid db))
     = filter (\<lambda>l. lb_user_id l \<noteq> Some (user_id user)) (leaderboard_runs db)"
    by (cases purpose) simp_all
qed

section \<open>Properties\<close>

text \<open>
  C21. The last decision counts. After a recorded grant the consent is active, and after a recorded
  withdrawal every use of it is refused with \<open>CONSENT_REQUIRED\<close> (status 409).
\<close>

theorem consent_follows_last_decision:
  assumes "consent_inv db" and "find_replay (user_id user) (ci_idempotencyKey input) db = None"
    and "recordConsent sha newId now nt user input db = (Inr e, db')"
  shows "case ci_action input of
      Grant \<Rightarrow> assertActiveConsent sha user (ci_purpose input) (ci_subjectKind input) (ci_subjectId input) db' = (Inr e, db')
        \<and> ce_active e
    | Withdraw \<Rightarrow> (\<exists>message details.
        assertActiveConsent sha user (ci_purpose input) (ci_subjectKind input) (ci_subjectId input) db'
          = (Inl (CodedError 409 ''CONSENT_REQUIRED'' message details), db'))"
proof -
  let ?row = "consent_row newId now user input db"
  let ?own = "\<lambda>d. assertOwnedSubject sha user (ci_purpose input) (ci_subjectKind input) (ci_subjectId input) d"
  from recordConsent_Inr [OF assms(3)] recordConsent_appended [OF assms(2,3)]
  have own: "isOk (fst (?own db))" and app: "consent_appended sha newId now nt user input e db db'" by blast+
  then have db': "db' = consent_effect now nt user input (append_consent ?row db)"
    and ev: "mapEvent sha ?row = Inr e" and cur: "cr_action ?row = Grant \<longrightarrow> current_grant sha ?row"
    by (auto simp: consent_appended_def)
  have own': "isOk (fst (?own db'))" using own unfolding db' by (simp add: decision_keeps_ownership)
  then obtain u where run: "?own db' = (Inr u, db')"
    by (metis assertOwnedSubject_state isOk_iff prod.collapse)
  have last: "latest_consent (user_id user) (ci_purpose input) (ci_subjectKind input) (ci_subjectId input) db' = Some ?row"
    using assms(1) by (simp add: db' latest_after_append)
  have act: "cr_action ?row = ci_action input" by (simp add: consent_row_def)
  show ?thesis
  proof (cases "ci_action input")
    case Grant
    with act cur have "current_grant sha ?row" by simp
    with Grant last own' ev show ?thesis by (simp add: assertActiveConsent_Inr mapEvent_fields(1) [OF ev])
  next
    case Withdraw
    with act have "\<not> current_grant sha ?row" by (simp add: current_grant_def)
    with Withdraw last run show ?thesis
      by (subst assertActiveConsent_run) (simp add: consentError_def)
  qed
qed


text \<open>
  C20. An operation under \<open>withActiveConsents\<close> runs only when the account exists and every consent it
  requires is active in the very state it runs on; otherwise, and whenever anything fails, the
  database is as before.
\<close>

theorem consent_gate:
  "(case withActiveConsents sha user rqs operation db of
      (Inr x, db') \<Rightarrow> operation db = (Inr x, db')
        \<and> list_ex (\<lambda>a. user_id a = user_id user) (users db)
        \<and> list_all (\<lambda>rq. isOk (fst (assertActiveConsent sha user (cq_purpose rq) (cq_subjectKind rq) (cq_subjectId rq) db))) rqs
    | (Inl e, db') \<Rightarrow> db' = db)"
proof (cases "withActiveConsents sha user rqs operation db")
  case (Pair r db')
  show ?thesis
  proof (cases r)
    case (Inl e)
    with Pair show ?thesis by (auto simp: withActiveConsents_def dest: withGatewayTransaction_Inl)
  next
    case (Inr x)
    with Pair obtain u where acc: "\<exists>a \<in> set (users db). user_id a = user_id user"
      and chk: "tx_forM rqs (check_requirement sha user) db = (Inr (), u)" and op: "operation u = (Inr x, db')"
      by (auto simp: withActiveConsents_def txE)
    from check_requirements_Inr [OF chk] acc op Pair Inr show ?thesis by (simp add: list_ex_iff)
  qed
qed

text \<open>
  A decision retried under its idempotency key returns the event recorded the first time and
  writes nothing, whatever the time of the retry.
\<close>

theorem consent_retry_idempotent:
  assumes "ci_idempotencyKey input = Some k" and "k \<noteq> []"
    and "find_replay (user_id user) (ci_idempotencyKey input) db = None"
    and "recordConsent sha newId now nt user input db = (Inr e, db')"
  shows "recordConsent sha newId' now' nt' user input db' = (Inr e, db')"
proof -
  let ?row = "consent_row newId now user input db"
  let ?own = "\<lambda>d. assertOwnedSubject sha user (ci_purpose input) (ci_subjectKind input) (ci_subjectId input) d"
  from recordConsent_Inr(1,3) [OF assms(4)] recordConsent_appended [OF assms(3,4)]
  have own: "isOk (fst (?own db))" and acc: "\<exists>a \<in> set (users db). user_id a = user_id user"
    and db': "db' = consent_effect now nt user input (append_consent ?row db)" and ev: "mapEvent sha ?row = Inr e"
    by (auto simp: consent_appended_def)
  have "isOk (fst (?own db'))" using own unfolding db' by (simp add: decision_keeps_ownership)
  then obtain u where run: "?own db' = (Inr u, db')" by (metis assertOwnedSubject_state isOk_iff prod.collapse)
  have "find_replay (user_id user) (Some k) db' = Some ?row"
    using assms(1-3) by (simp add: db' find_replay_def consent_ledger.events_append find_append consent_row_def)
  moreover have "lock_account user db' = (Inr (), db')"
    using acc by (simp add: lock_account_Inr db' append_consent_def)
  moreover have "ce_purpose e = ci_purpose input" "ce_subjectKind e = ci_subjectKind input"
      "ce_subjectId e = ci_subjectId input" "ce_action e = ci_action input"
    using mapEvent_fields(2-5) [OF ev] by (simp_all add: consent_row_def)
  ultimately have "recordConsent_body sha newId' now' nt' user input db' = (Inr e, db')"
    unfolding recordConsent_body_def using run assms(1) ev by (simp add: tx_bind_run)
  then show ?thesis by (rule recordConsent_again [OF assms(4)]) (simp_all add: db' append_consent_def)
qed

text \<open>
  C23. The consent ledger is append-only: a call adds at most one event, of the calling account, keeps
  sequence numbers, idempotency keys and predecessor links consistent, and leaves the current
  decision of every other account, purpose and subject as it was.
\<close>

theorem consent_ledger_append_only:
  assumes "consent_inv db" and "recordConsent sha newId now nt user input db = (r, db')"
  shows "consent_inv db'
    \<and> (user_consent_events db' = user_consent_events db
       \<or> (\<exists>row. user_consent_events db' = user_consent_events db @ [row] \<and> cr_owner_user_id row = user_id user))
    \<and> (u = user_id user \<and> p = ci_purpose input \<and> k = ci_subjectKind input \<and> s = ci_subjectId input
       \<or> latest_consent u p k s db' = latest_consent u p k s db)"
proof (cases r)
  case (Inl e)
  with assms recordConsent_Inl have "db' = db" by blast
  with assms(1) show ?thesis by simp
next
  case (Inr e)
  with assms(2) recordConsent_Inr(2) consider
    "consent_replayed sha user input e db db'" | "consent_appended sha newId now nt user input e db db'" by blast
  then show ?thesis
  proof cases
    case 1
    with assms(1) show ?thesis by (simp add: consent_replayed_def)
  next
    case 2
    then obtain row where row: "row = consent_row newId now user input db"
      and fresh: "\<forall>q \<in> set (user_consent_events db). \<not> consent_clash row q"
      and db': "db' = consent_effect now nt user input (append_consent row db)"
      unfolding consent_appended_def by blast
    have "consent_inv db'" using consent_inv_append [OF assms(1) row fresh] by (simp add: db')
    moreover have "user_consent_events db' = user_consent_events db @ [row]" "cr_owner_user_id row = user_id user"
      by (simp_all add: db' consent_ledger.events_append row consent_row_def)
    ultimately show ?thesis using latest_after_append [OF assms(1)] by (auto simp: db' row)
  qed
qed


section \<open>Concrete instances\<close>

definition sample_user :: CurrentUser where
  "sample_user = \<lparr>user_id = ''u1'', user_name = None, user_email = None, user_image = None\<rparr>"

definition consent_db :: gateway_db where
  "consent_db = empty_db\<lparr>users := [sample_user],
     leaderboard_runs := [\<lparr>lb_id = ''l1'', lb_user_id = Some ''u1'', lb_course_id = ''c1''\<rparr>, \<lparr>lb_id = ''l2'', lb_user_id = Some ''u2'', lb_course_id = ''c1''\<rparr>]\<rparr>"

definition sample_consent :: "ConsentAction \<Rightarrow> string \<Rightarrow> ConsentInput" where
  "sample_consent action key =
     \<lparr>ci_purpose = LeaderboardPublication, ci_subjectKind = AccountSubject, ci_subjectId = ''u1'',
      ci_policyVersion = ''1.0.0'', ci_noticeHash = ''n'', ci_action = action, ci_locale = None,
      ci_idempotencyKey = Some key\<rparr>"

definition run_consent :: "string \<Rightarrow> ConsentInput \<Rightarrow> gateway_db \<Rightarrow> (gw_error + ConsentEvent) \<times> gateway_db" where
  "run_consent newId input db = recordConsent (\<lambda>_. ''n'') newId 5 ''t'' sample_user input db"

definition granted_db :: gateway_db where
  "granted_db = snd (run_consent ''e1'' (sample_consent Grant ''k1'') consent_db)"

lemma consent_db_facts:
  "consent_inv consent_db" "isOk (fst (run_consent ''e1'' (sample_consent Grant ''k1'') consent_db))"
  "isOk (fst (run_consent ''e2'' (sample_consent Withdraw ''k2'') consent_db))"
  "find_replay (user_id sample_user) (ci_idempotencyKey (sample_consent Grant ''k1'')) consent_db = None"
  "find_replay (user_id sample_user) (ci_idempotencyKey (sample_consent Withdraw ''k2'')) consent_db = None"
  by (simp add: consent_inv_def consent_db_def empty_db_def keyed_def) code_simp+

lemma run_consent_ok:
  assumes "isOk (fst (run_consent newId input db))"
  obtains e where "recordConsent (\<lambda>_. ''n'') newId 5 ''t'' sample_user input db = (Inr e, snd (run_consent newId input db))"
  using assms that unfolding run_consent_def by (metis isOk_iff prod.collapse)

theorem consent_follows_last_decision_witness:
  "\<exists>e. assertActiveConsent (\<lambda>_. ''n'') sample_user LeaderboardPublication AccountSubject ''u1'' granted_db = (Inr e, granted_db)
     \<and> ce_active e"
proof -
  obtain e where "recordConsent (\<lambda>_. ''n'') ''e1'' 5 ''t'' sample_user (sample_consent Grant ''k1'') consent_db = (Inr e, granted_db)"
    unfolding granted_db_def by (rule run_consent_ok [OF consent_db_facts(2)])
  from consent_follows_last_decision [OF consent_db_facts(1,4) this] show ?thesis
    by (auto simp: sample_consent_def)
qed


theorem consent_retry_idempotent_witness:
  "\<exists>e. recordConsent (\<lambda>_. ''n'') ''e9'' 99 ''later'' sample_user (sample_consent Grant ''k1'') granted_db = (Inr e, granted_db)"
proof -
  obtain e where run: "recordConsent (\<lambda>_. ''n'') ''e1'' 5 ''t'' sample_user (sample_consent Grant ''k1'') consent_db = (Inr e, granted_db)"
    unfolding granted_db_def by (rule run_consent_ok [OF consent_db_facts(2)])
  have "ci_idempotencyKey (sample_consent Grant ''k1'') = Some ''k1''" by (simp add: sample_consent_def)
  from consent_retry_idempotent [OF this _ consent_db_facts(4) run] show ?thesis by blast
qed

theorem consent_ledger_append_only_witness:
  "consent_inv granted_db \<and> latest_consent ''u2'' LeaderboardPublication AccountSubject ''u2'' granted_db = None"
proof -
  obtain e where run: "recordConsent (\<lambda>_. ''n'') ''e1'' 5 ''t'' sample_user (sample_consent Grant ''k1'') consent_db = (Inr e, granted_db)"
    unfolding granted_db_def by (rule run_consent_ok [OF consent_db_facts(2)])
  have "latest_consent ''u2'' LeaderboardPublication AccountSubject ''u2'' consent_db = None"
    by (simp add: latest_consent_def consents_of_def consent_db_def empty_db_def)
  with consent_ledger_append_only [OF consent_db_facts(1) run, where u = "''u2''" and s = "''u2''"
      and p = LeaderboardPublication and k = AccountSubject] show ?thesis
    by (auto simp: sample_user_def)
qed

end
