(* ===== verification/Json_Limits.thy ===== *)
theory Json_Limits
  imports Gateway_Db
begin

text \<open>
  \<open>assertBoundedJson\<close> of packages/gateway/src/security.ts: one pass over a value that counts nodes and
  stops at the first limit it exceeds, then the byte limit on the JSON text. The declarative meaning is
  \<open>bounded_json\<close>; the pass accepts exactly the values with that property.

  The node counter is threaded through the pass. The set \<open>active\<close> of the objects being visited is not
  needed as state: an entry that is in it is the constructor \<open>JBack\<close> of the value.
\<close>

section \<open>Model\<close>

definition DEFAULT_JSON_BYTES :: int where "DEFAULT_JSON_BYTES = 512 * 1024"
definition DEFAULT_JSON_DEPTH :: int where "DEFAULT_JSON_DEPTH = 16"
definition DEFAULT_JSON_NODES :: int where "DEFAULT_JSON_NODES = 20000"

record JsonLimits =
  jl_maxBytes :: "int option"
  jl_maxDepth :: "int option"
  jl_maxNodes :: "int option"
  jl_maxArrayItems :: "int option"
  jl_maxObjectKeys :: "int option"
  jl_maxStringBytes :: "int option"

definition no_limits :: JsonLimits where
  "no_limits = \<lparr>jl_maxBytes = None, jl_maxDepth = None, jl_maxNodes = None, jl_maxArrayItems = None,
     jl_maxObjectKeys = None, jl_maxStringBytes = None\<rparr>"

definition or_default :: "int option \<Rightarrow> int \<Rightarrow> int" where
  "or_default x d = (case x of None \<Rightarrow> d | Some v \<Rightarrow> v)"

definition maxBytes :: "JsonLimits \<Rightarrow> int" where
  "maxBytes l = or_default (jl_maxBytes l) DEFAULT_JSON_BYTES"
definition maxDepth :: "JsonLimits \<Rightarrow> int" where
  "maxDepth l = or_default (jl_maxDepth l) DEFAULT_JSON_DEPTH"
definition maxNodes :: "JsonLimits \<Rightarrow> int" where
  "maxNodes l = or_default (jl_maxNodes l) DEFAULT_JSON_NODES"
definition maxArrayItems :: "JsonLimits \<Rightarrow> int" where
  "maxArrayItems l = or_default (jl_maxArrayItems l) 10000"
definition maxObjectKeys :: "JsonLimits \<Rightarrow> int" where
  "maxObjectKeys l = or_default (jl_maxObjectKeys l) 2000"
definition maxStringBytes :: "JsonLimits \<Rightarrow> int" where
  "maxStringBytes l = or_default (jl_maxStringBytes l) (128 * 1024)"

definition forbidden_key :: "string \<Rightarrow> bool" where
  "forbidden_key k \<longleftrightarrow> k \<in> set [''__proto__'', ''constructor'', ''prototype'']"

text \<open>The pass returns the node counter. \<open>fail m\<close> is \<open>throw httpError(label + m, 400)\<close>.\<close>

definition bad_json :: "string \<Rightarrow> string \<Rightarrow> gw_error" where
  "bad_json label m = HttpError 400 (label @ m)"

definition enter :: "JsonLimits \<Rightarrow> string \<Rightarrow> int \<Rightarrow> int \<Rightarrow> gw_error + int" where
  "enter l label depth nodes =
     (if maxNodes l < nodes + 1 then Inl (bad_json label '' exceeds the node limit'')
      else if maxDepth l < depth then Inl (bad_json label '' exceeds the nesting limit'')
      else Inr (nodes + 1))"

fun visit :: "JsonLimits \<Rightarrow> string \<Rightarrow> jsval \<Rightarrow> int \<Rightarrow> int \<Rightarrow> gw_error + int"
  and visit_items :: "JsonLimits \<Rightarrow> string \<Rightarrow> jsval list \<Rightarrow> int \<Rightarrow> int \<Rightarrow> gw_error + int"
  and visit_members :: "JsonLimits \<Rightarrow> string \<Rightarrow> (string \<times> jsval) list \<Rightarrow> int \<Rightarrow> int \<Rightarrow> gw_error + int" where
  "visit l label (JStr s) depth nodes =
     bindE (enter l label depth nodes) (\<lambda>n.
     if maxStringBytes l < int (byteLength s) then Inl (bad_json label '' contains an oversized string'')
     else Inr n)"
| "visit l label JNull depth nodes = enter l label depth nodes"
| "visit l label (JBool b) depth nodes = enter l label depth nodes"
| "visit l label (JNum x) depth nodes =
     bindE (enter l label depth nodes) (\<lambda>n.
     if \<not> isFinite x then Inl (bad_json label '' contains a non-finite number'') else Inr n)"
| "visit l label JUndef depth nodes =
     bindE (enter l label depth nodes) (\<lambda>n. Inl (bad_json label '' contains a non-JSON value''))"
| "visit l label JOther depth nodes =
     bindE (enter l label depth nodes) (\<lambda>n. Inl (bad_json label '' contains a non-JSON value''))"
| "visit l label (JBack i) depth nodes =
     bindE (enter l label depth nodes) (\<lambda>n. Inl (bad_json label '' contains a reference cycle''))"
| "visit l label (JArr xs) depth nodes =
     bindE (enter l label depth nodes) (\<lambda>n.
     if maxArrayItems l < int (length xs) then Inl (bad_json label '' exceeds the array limit'')
     else visit_items l label xs (depth + 1) n)"
| "visit l label (JHost kvs) depth nodes =
     bindE (enter l label depth nodes) (\<lambda>n. Inl (bad_json label '' contains a non-JSON object''))"
| "visit l label (JObj kvs) depth nodes =
     bindE (enter l label depth nodes) (\<lambda>n.
     if maxObjectKeys l < int (length kvs) then Inl (bad_json label '' exceeds the object-key limit'')
     else visit_members l label kvs (depth + 1) n)"
| "visit_items l label [] depth nodes = Inr nodes"
| "visit_items l label (x # xs) depth nodes =
     bindE (visit l label x depth nodes) (\<lambda>n. visit_items l label xs depth n)"
| "visit_members l label [] depth nodes = Inr nodes"
| "visit_members l label ((k, v) # kvs) depth nodes =
     (if forbidden_key k then Inl (bad_json label '' contains a forbidden object key'')
      else bindE (visit l label v depth nodes) (\<lambda>n. visit_members l label kvs depth n))"

definition assertBoundedJson :: "jsval \<Rightarrow> string \<Rightarrow> JsonLimits \<Rightarrow> gw_error + unit" where
  "assertBoundedJson v label limits =
     bindE (visit limits label v 0 0) (\<lambda>_.
     case stringify v of
       None \<Rightarrow> Inl (bad_json label '' is not JSON serializable'')
     | Some encoded \<Rightarrow>
         if maxBytes limits < int (byteLength encoded) then Inl (bad_json label '' exceeds the byte limit'')
         else Inr ())"

section \<open>Declarative meaning\<close>

fun node_count :: "jsval \<Rightarrow> nat" where
  "node_count (JArr xs) = 1 + sum_list (map node_count xs)"
| "node_count (JObj kvs) = 1 + sum_list (map (\<lambda>kv. node_count (snd kv)) kvs)"
| "node_count _ = 1"

text \<open>The depth of the deepest entry below a value at depth \<open>d\<close> stays within the limit.\<close>

fun within_depth :: "int \<Rightarrow> jsval \<Rightarrow> bool" where
  "within_depth d (JArr xs) \<longleftrightarrow> 0 \<le> d \<and> (\<forall>x \<in> set xs. within_depth (d - 1) x)"
| "within_depth d (JObj kvs) \<longleftrightarrow> 0 \<le> d \<and> (\<forall>kv \<in> set kvs. within_depth (d - 1) (snd kv))"
| "within_depth d _ \<longleftrightarrow> 0 \<le> d"

text \<open>Plain JSON data with every size within its limit.\<close>

fun plain_json :: "JsonLimits \<Rightarrow> jsval \<Rightarrow> bool" where
  "plain_json l JNull \<longleftrightarrow> True"
| "plain_json l (JBool b) \<longleftrightarrow> True"
| "plain_json l (JNum x) \<longleftrightarrow> isFinite x"
| "plain_json l (JStr s) \<longleftrightarrow> int (byteLength s) \<le> maxStringBytes l"
| "plain_json l (JArr xs) \<longleftrightarrow> int (length xs) \<le> maxArrayItems l \<and> (\<forall>x \<in> set xs. plain_json l x)"
| "plain_json l (JObj kvs) \<longleftrightarrow> int (length kvs) \<le> maxObjectKeys l
     \<and> (\<forall>kv \<in> set kvs. \<not> forbidden_key (fst kv) \<and> plain_json l (snd kv))"
| "plain_json l _ \<longleftrightarrow> False"

definition bounded_json :: "JsonLimits \<Rightarrow> jsval \<Rightarrow> bool" where
  "bounded_json l v \<longleftrightarrow>
     plain_json l v \<and> within_depth (maxDepth l) v \<and> int (node_count v) \<le> maxNodes l
     \<and> (\<exists>text. stringify v = Some text \<and> int (byteLength text) \<le> maxBytes l)"

section \<open>Equivalence\<close>

lemma enter_Inr [resE]:
  "enter l label depth nodes = Inr n \<longleftrightarrow> n = nodes + 1 \<and> n \<le> maxNodes l \<and> depth \<le> maxDepth l"
  by (auto simp: enter_def)

lemma node_count_pos: "1 \<le> node_count v"
  by (cases v) auto

lemma visit_Inr:
  "visit l label v depth nodes = Inr n \<longleftrightarrow>
     plain_json l v \<and> within_depth (maxDepth l - depth) v
     \<and> nodes + int (node_count v) \<le> maxNodes l \<and> n = nodes + int (node_count v)"
  "nodes \<le> maxNodes l \<Longrightarrow> visit_items l label xs depth nodes = Inr n \<longleftrightarrow>
     (\<forall>x \<in> set xs. plain_json l x \<and> within_depth (maxDepth l - depth) x)
     \<and> nodes + int (sum_list (map node_count xs)) \<le> maxNodes l
     \<and> n = nodes + int (sum_list (map node_count xs))"
  "nodes \<le> maxNodes l \<Longrightarrow> visit_members l label kvs depth nodes = Inr n \<longleftrightarrow>
     (\<forall>kv \<in> set kvs. \<not> forbidden_key (fst kv) \<and> plain_json l (snd kv) \<and> within_depth (maxDepth l - depth) (snd kv))
     \<and> nodes + int (sum_list (map (\<lambda>kv. node_count (snd kv)) kvs)) \<le> maxNodes l
     \<and> n = nodes + int (sum_list (map (\<lambda>kv. node_count (snd kv)) kvs))"
proof (induction l label v depth nodes and l label xs depth nodes and l label kvs depth nodes
    arbitrary: n and n and n rule: visit_visit_items_visit_members.induct)
  case (8 l label xs depth nodes)
  have "visit_items l label xs (depth + 1) (nodes + 1) = Inr n \<longleftrightarrow>
      (\<forall>x \<in> set xs. plain_json l x \<and> within_depth (maxDepth l - (depth + 1)) x)
      \<and> nodes + 1 + int (sum_list (map node_count xs)) \<le> maxNodes l
      \<and> n = nodes + 1 + int (sum_list (map node_count xs))"
    if "nodes + 1 \<le> maxNodes l" "depth \<le> maxDepth l" "int (length xs) \<le> maxArrayItems l"
    using that by (intro "8.IH") (simp_all add: enter_def)
  then show ?case by (auto simp: resE algebra_simps)
next
  case (10 l label kvs depth nodes)
  have "visit_members l label kvs (depth + 1) (nodes + 1) = Inr n \<longleftrightarrow>
      (\<forall>kv \<in> set kvs. \<not> forbidden_key (fst kv) \<and> plain_json l (snd kv) \<and> within_depth (maxDepth l - (depth + 1)) (snd kv))
      \<and> nodes + 1 + int (sum_list (map (\<lambda>kv. node_count (snd kv)) kvs)) \<le> maxNodes l
      \<and> n = nodes + 1 + int (sum_list (map (\<lambda>kv. node_count (snd kv)) kvs))"
    if "nodes + 1 \<le> maxNodes l" "depth \<le> maxDepth l" "int (length kvs) \<le> maxObjectKeys l"
    using that by (intro "10.IH") (simp_all add: enter_def)
  then show ?case by (fastforce simp: resE algebra_simps)
next
  case (12 l label x xs depth nodes)
  define m where "m = nodes + int (node_count x)"
  have x: "visit l label x depth nodes = Inr k \<longleftrightarrow>
      plain_json l x \<and> within_depth (maxDepth l - depth) x \<and> m \<le> maxNodes l \<and> k = m" for k
    unfolding m_def by (rule "12.IH"(1))
  show ?case
  proof (cases "plain_json l x \<and> within_depth (maxDepth l - depth) x \<and> m \<le> maxNodes l")
    case True
    then have "visit l label x depth nodes = Inr m" using x by simp
    with True "12.IH"(2) [of m n] show ?thesis by (auto simp: m_def)
  next
    case False
    then have "visit_items l label (x # xs) depth nodes \<noteq> Inr n" using x by (auto simp: resE)
    with False show ?thesis by (auto simp: m_def)
  qed
next
  case (14 l label k v kvs depth nodes)
  define m where "m = nodes + int (node_count v)"
  have v: "visit l label v depth nodes = Inr j \<longleftrightarrow>
      plain_json l v \<and> within_depth (maxDepth l - depth) v \<and> m \<le> maxNodes l \<and> j = m"
    if "\<not> forbidden_key k" for j
    unfolding m_def using that by (rule "14.IH"(1))
  show ?case
  proof (cases "\<not> forbidden_key k \<and> plain_json l v \<and> within_depth (maxDepth l - depth) v \<and> m \<le> maxNodes l")
    case True
    then have "visit l label v depth nodes = Inr m" using v by simp
    with True "14.IH"(2) [of m n] show ?thesis by (auto simp: m_def)
  next
    case False
    then have "visit_members l label ((k, v) # kvs) depth nodes \<noteq> Inr n" using v by (auto simp: resE)
    with False show ?thesis by (auto simp: m_def)
  qed
qed (auto simp: resE)

lemma plain_json_text: "plain_json l v \<Longrightarrow> \<exists>text. stringify v = Some text"
  by (cases v) auto

lemma visit_ok:
  "visit l label v 0 0 = Inr n \<longleftrightarrow>
     plain_json l v \<and> within_depth (maxDepth l) v \<and> int (node_count v) \<le> maxNodes l \<and> n = int (node_count v)"
  using visit_Inr(1) [of l label v 0 0 n] by simp

definition visit_error :: "string \<Rightarrow> gw_error \<Rightarrow> bool" where
  "visit_error label e \<longleftrightarrow> error_status e = Some 400 \<and> e \<noteq> bad_json label '' is not JSON serializable''"

lemma visit_error_bad_json [simp]:
  "visit_error label (bad_json label m) \<longleftrightarrow> m \<noteq> '' is not JSON serializable''"
  by (simp add: visit_error_def bad_json_def)

lemma enter_error: "enter l label depth nodes = Inl e \<Longrightarrow> visit_error label e"
  by (auto simp: enter_def split: if_splits)

lemma visit_errors:
  "visit l label v depth nodes = Inl e \<Longrightarrow> visit_error label e"
  "visit_items l label xs depth nodes = Inl e \<Longrightarrow> visit_error label e"
  "visit_members l label kvs depth nodes = Inl e \<Longrightarrow> visit_error label e"
  by (induction l label v depth nodes and l label xs depth nodes and l label kvs depth nodes
      rule: visit_visit_items_visit_members.induct)
    (auto simp: bindE_Inl dest: enter_error split: if_splits)

section \<open>Properties\<close>

text \<open>
  C25. The JSON guard accepts a value exactly when it is plain JSON data (no cycle, no function, no class
  instance, no non-finite number, no prototype-polluting key) within the depth, node, array, key, string
  and byte limits.
\<close>

theorem bounded_json_equivalence:
  "assertBoundedJson v label limits = Inr () \<longleftrightarrow> bounded_json limits v"
proof (cases "visit limits label v 0 0")
  case (Inl e)
  then have "\<not> (plain_json limits v \<and> within_depth (maxDepth limits) v \<and> int (node_count v) \<le> maxNodes limits)"
    using visit_ok [of limits label v "int (node_count v)"] by auto
  with Inl show ?thesis by (auto simp: assertBoundedJson_def bounded_json_def)
next
  case (Inr n)
  with visit_ok have "plain_json limits v \<and> within_depth (maxDepth limits) v \<and> int (node_count v) \<le> maxNodes limits"
    by blast
  with Inr show ?thesis
    by (auto simp: assertBoundedJson_def bounded_json_def split: option.splits)
qed

text \<open>
  Every refusal of the JSON guard is a 400 error, and the two branches that report a value as not
  serializable are unreachable: a value that passes the pass always has a JSON text.
\<close>

theorem bounded_json_errors:
  assumes "assertBoundedJson v label limits = Inl e"
  shows "error_status e = Some 400 \<and> e \<noteq> bad_json label '' is not JSON serializable''"
proof -
  have pass: "error_status e' = Some 400 \<and> e' \<noteq> bad_json label '' is not JSON serializable''"
    if "visit limits label v 0 0 = Inl e'" for e'
    using visit_errors(1) [OF that] by (simp add: visit_error_def)
  have "\<exists>text. stringify v = Some text" if "visit limits label v 0 0 = Inr n" for n
    using that visit_ok plain_json_text by blast
  with assms pass show ?thesis
    by (auto simp: assertBoundedJson_def bindE_Inl bad_json_def split: option.splits if_splits)
qed

theorem bounded_json_errors_witness:
  "error_status (bad_json ''body'' '' contains a non-finite number'') = Some 400"
  using bounded_json_errors [of "JArr [JNum NaN]" "''body''" no_limits "bad_json ''body'' '' contains a non-finite number''"]
  by (simp add: assertBoundedJson_def enter_def no_limits_def maxNodes_def maxDepth_def maxArrayItems_def or_default_def
      DEFAULT_JSON_NODES_def DEFAULT_JSON_DEPTH_def isFinite_def)

end
