(* ===== verification/Js_Number.thy ===== *)
theory Js_Number
  imports Js_Text
begin

text \<open>
  \<open>Number(text)\<close> of ECMAScript, on strings: surrounding white space is dropped, the empty string is 0,
  then a radix literal or a signed decimal literal with fraction and exponent, rounded to binary64, and
  NaN for everything else. Integers below \<open>2^53\<close> are exact, so decimal text of such an integer reads
  back as the integer.
\<close>

section \<open>Number of a string\<close>

definition digit_val :: "char \<Rightarrow> int" where
  "digit_val c = of_char c - 48"

definition is_hex :: "char \<Rightarrow> bool" where
  "is_hex c \<longleftrightarrow> is_lower_hex c \<or> in_range (CHR ''A'') (CHR ''F'') c"

definition hex_digit_val :: "char \<Rightarrow> int" where
  "hex_digit_val c = (if is_digit c then of_char c - 48 else of_char (to_lower_char c) - 87)"

definition digits_val :: "int \<Rightarrow> (char \<Rightarrow> int) \<Rightarrow> string \<Rightarrow> int" where
  "digits_val base f s = foldl (\<lambda>n c. base * n + f c) 0 s"

definition exponent_val :: "string \<Rightarrow> int option" where
  "exponent_val s =
     (case s of
        [] \<Rightarrow> Some 0
      | e # r \<Rightarrow>
          if e \<noteq> CHR ''e'' \<and> e \<noteq> CHR ''E'' then None
          else let neg = startsWith ''-'' r;
                   ds = (if neg \<or> startsWith ''+'' r then drop 1 r else r)
               in if ds = [] \<or> \<not> list_all is_digit ds then None
                  else Some (if neg then - digits_val 10 digit_val ds else digits_val 10 digit_val ds))"

definition unsigned_number :: "string \<Rightarrow> jsnum" where
  "unsigned_number s =
     (if s = ''Infinity'' then PosInf
      else let i = takeWhile is_digit s; r = dropWhile is_digit s;
               dot = startsWith ''.'' r;
               f = (if dot then takeWhile is_digit (drop 1 r) else []);
               e = (if dot then dropWhile is_digit (drop 1 r) else r)
           in if i = [] \<and> f = [] then NaN
              else case exponent_val e of
                     None \<Rightarrow> NaN
                   | Some x \<Rightarrow> fl64 (of_int (digits_val 10 digit_val (i @ f)) * 10 powi (x - int (length f))))"

definition radix_number :: "int \<Rightarrow> (char \<Rightarrow> bool) \<Rightarrow> string \<Rightarrow> jsnum" where
  "radix_number base ok ds =
     (if ds = [] \<or> \<not> list_all ok ds then NaN else fl64 (of_int (digits_val base hex_digit_val ds)))"

definition js_Number :: "string \<Rightarrow> jsnum" where
  "js_Number raw =
     (let s = trim raw; p = toLowerCase (take 2 s) in
      if s = [] then Fin 0
      else if p = ''0x'' then radix_number 16 is_hex (drop 2 s)
      else if p = ''0o'' then radix_number 8 (in_range (CHR ''0'') (CHR ''7'')) (drop 2 s)
      else if p = ''0b'' then radix_number 2 (in_range (CHR ''0'') (CHR ''1'')) (drop 2 s)
      else if startsWith ''-'' s then num_neg (unsigned_number (drop 1 s))
      else if startsWith ''+'' s then unsigned_number (drop 1 s)
      else unsigned_number s)"

section \<open>Exact integers\<close>

lemma int_log2_bound: "1 \<le> n \<Longrightarrow> 0 \<le> int_log2 n \<and> 2 ^ nat (int_log2 n) \<le> n"
proof (induction n rule: int_log2.induct)
  case (1 n)
  show ?case
  proof (cases "n < 2")
    case True
    then show ?thesis using "1.prems" by (simp add: int_log2.simps)
  next
    case False
    then have ih: "0 \<le> int_log2 (n div 2)" "2 ^ nat (int_log2 (n div 2)) \<le> n div 2"
      using "1.IH" by auto
    have "int_log2 n = 1 + int_log2 (n div 2)" using False by (simp add: int_log2.simps)
    then show ?thesis using ih by (auto simp: nat_add_distrib)
  qed
qed

lemma int_log2_less: "1 \<le> n \<Longrightarrow> n < 2 ^ k \<Longrightarrow> int_log2 n < int k"
  using int_log2_bound [of n] by (smt (verit) nat_less_iff power_strict_increasing_iff of_nat_0_le_iff le_less_trans
      nat_int one_less_numeral_iff semiring_norm(76))

lemma ilog2_of_int:
  assumes "n \<noteq> 0" "\<bar>n\<bar> < 2 ^ k"
  shows "ilog2 (of_int n) < int k"
proof -
  have "quotient_of \<bar>of_int n :: rat\<bar> = (\<bar>n\<bar>, 1)"
    by (simp flip: of_int_abs)
  moreover have "int_log2 1 = 0" by (simp add: int_log2.simps)
  moreover have "int_log2 \<bar>n\<bar> < int k" using assms by (intro int_log2_less) auto
  ultimately show ?thesis by (simp add: ilog2_def Let_def)
qed

lemma round_half_even_int [simp]: "round_half_even (of_int m) = m"
  by (simp add: round_half_even_def Let_def)

lemma fl64_of_int:
  assumes "\<bar>n\<bar> < 2 ^ 53"
  shows "fl64 (of_int n) = Fin (of_int n)"
proof (cases "n = 0")
  case True
  then show ?thesis by (simp add: fl64_def)
next
  case False
  define e where "e = max (ilog2 (of_int n) - 52) (-1074)"
  have "ilog2 (of_int n) < int 53" using False assms by (rule ilog2_of_int)
  then have "e \<le> 0" by (simp add: e_def)
  then obtain k where k: "e = - int k" by (metis minus_minus nonneg_int_cases neg_0_le_iff_le)
  have "(of_int n :: rat) / 2 powi e = of_int (n * 2 ^ k)" by (simp add: k power_int_minus divide_inverse)
  then have round: "round_half_even ((of_int n :: rat) / 2 powi e) = n * 2 ^ k" by (simp only: round_half_even_int)
  have y: "(of_int (n * 2 ^ k) :: rat) * 2 powi e = of_int n" by (simp add: k power_int_minus)
  have big: "(2 :: int) ^ 53 < 2 ^ 1024" by (rule power_strict_increasing) simp_all
  have "n < 2 ^ 1024" "- (2 ^ 1024) < n" using assms big by linarith+
  then have "\<not> (2 ^ 1024 :: rat) \<le> of_int n" "\<not> (of_int n :: rat) \<le> - (2 ^ 1024)"
    by (metis not_less of_int_less_iff of_int_numeral of_int_power, metis not_less of_int_less_iff of_int_minus of_int_numeral of_int_power)
  with False show ?thesis by (simp add: fl64_def Let_def e_def [symmetric] round y del: of_int_mult)
qed

text \<open>Evaluation takes the integer branch first.\<close>

lemma fl64_code [code]:
  "fl64 x =
     (if of_int \<lfloor>x\<rfloor> = x \<and> \<bar>\<lfloor>x\<rfloor>\<bar> < 9007199254740992 then Fin x
      else let e = max (ilog2 x - 52) (-1074);
               y = of_int (round_half_even (x / 2 powi e)) * 2 powi e
           in if 2 ^ 1024 \<le> y then PosInf else if y \<le> - (2 ^ 1024) then NegInf else Fin y)"
proof (cases "of_int \<lfloor>x\<rfloor> = x \<and> \<bar>\<lfloor>x\<rfloor>\<bar> < 9007199254740992")
  case True
  then have "fl64 (of_int \<lfloor>x\<rfloor>) = Fin (of_int \<lfloor>x\<rfloor>)" by (intro fl64_of_int) simp
  moreover have "of_int \<lfloor>x\<rfloor> = x" using True by blast
  ultimately have "fl64 x = Fin x" by metis
  then show ?thesis by (simp only: if_P [OF True])
next
  case False
  then have "x \<noteq> 0" by auto
  then show ?thesis unfolding if_not_P [OF False] fl64_def by (rule if_not_P)
qed

section \<open>Decimal text\<close>

lemma char_of_digits:
  "char_of (48 :: int) = CHR ''0''"
  "char_of (49 :: int) = CHR ''1''"
  "char_of (50 :: int) = CHR ''2''"
  "char_of (51 :: int) = CHR ''3''"
  "char_of (52 :: int) = CHR ''4''"
  "char_of (53 :: int) = CHR ''5''"
  "char_of (54 :: int) = CHR ''6''"
  "char_of (55 :: int) = CHR ''7''"
  "char_of (56 :: int) = CHR ''8''"
  "char_of (57 :: int) = CHR ''9''"
  by code_simp+

lemma digit_char:
  assumes "0 \<le> n" "n < 10"
  shows "is_digit (char_of (48 + n))" "digit_val (char_of (48 + n)) = n" "char_of (48 + n) = CHR ''0'' \<longleftrightarrow> n = 0"
proof -
  have "list_ex ((=) n) [0..9]" using assms by (intro bounded_int_cases) auto
  then show "is_digit (char_of (48 + n))" "digit_val (char_of (48 + n)) = n" "char_of (48 + n) = CHR ''0'' \<longleftrightarrow> n = 0"
    by (auto simp: upto_cases char_of_digits is_digit_def in_range_def less_eq_char_int digit_val_def)
qed

lemma digits_val_snoc: "digits_val base f (s @ [c]) = base * digits_val base f s + f c"
  by (simp add: digits_val_def)

lemma dec_digits_props:
  "0 \<le> n \<Longrightarrow> dec_digits n \<noteq> [] \<and> list_all is_digit (dec_digits n) \<and> digits_val 10 digit_val (dec_digits n) = n
     \<and> (n \<noteq> 0 \<longrightarrow> hd (dec_digits n) \<noteq> CHR ''0'')"
proof (induction n rule: dec_digits.induct)
  case (1 n)
  show ?case
  proof (cases "n < 10")
    case True
    then show ?thesis using "1.prems" digit_char [of n]
      by (simp add: dec_digits.simps [of n] digits_val_def)
  next
    case False
    then have ih: "dec_digits (n div 10) \<noteq> []" "list_all is_digit (dec_digits (n div 10))"
      "digits_val 10 digit_val (dec_digits (n div 10)) = n div 10" "hd (dec_digits (n div 10)) \<noteq> CHR ''0''"
      using "1.IH" "1.prems" by auto
    have "dec_digits n = dec_digits (n div 10) @ [char_of (48 + n mod 10)]"
      using False by (simp add: dec_digits.simps [of n])
    moreover have "0 \<le> n mod 10" "n mod 10 < 10" by auto
    ultimately show ?thesis using ih digit_char [of "n mod 10"] by (simp add: digits_val_snoc)
  qed
qed

lemma dec_digits_length: "0 \<le> n \<Longrightarrow> n < 10 ^ k \<Longrightarrow> 0 < k \<Longrightarrow> length (dec_digits n) \<le> k"
proof (induction n arbitrary: k rule: dec_digits.induct)
  case (1 n)
  show ?case
  proof (cases "n < 10")
    case True
    then show ?thesis using "1.prems" by (simp add: dec_digits.simps [of n])
  next
    case False
    then obtain j where j: "k = Suc j" "0 < j" using "1.prems" by (cases k; cases "k - 1") auto
    have "n div 10 < 10 ^ j" using "1.prems" j by (simp add: div_less_iff_less_mult mult.commute)
    then have "length (dec_digits (n div 10)) \<le> j" using "1.IH" [OF False, of j] "1.prems" j by simp
    then show ?thesis using False j by (simp add: dec_digits.simps [of n])
  qed
qed

text \<open>Digits are not white space, signs or letters, so decimal text takes the decimal branch.\<close>

lemma is_digit_not_special:
  "is_digit c \<Longrightarrow> \<not> is_space c \<and> c \<noteq> CHR ''-'' \<and> c \<noteq> CHR ''+'' \<and> c \<noteq> CHR ''.'' \<and> c \<noteq> CHR '':'' \<and> c \<noteq> CHR ''%''
     \<and> c \<noteq> CHR ''I'' \<and> to_lower_char c = c \<and> c \<noteq> CHR ''x'' \<and> c \<noteq> CHR ''o'' \<and> c \<noteq> CHR ''b'' \<and> c \<noteq> CHR '';''"
  by (auto simp: is_digit_def in_range_def less_eq_char_int is_space_def to_lower_char_def Let_def)

lemma trim_digits: "list_all is_digit s \<Longrightarrow> trim s = s"
proof -
  assume ds: "list_all is_digit s"
  have id: "dropWhile is_space t = t" if "list_all is_digit t" for t
    using that is_digit_not_special by (cases t) auto
  have "list_all is_digit (rev s)" using ds by (simp add: list_all_iff)
  with ds show ?thesis by (simp add: trim_def id)
qed

lemma js_Number_digits:
  assumes "s \<noteq> []" "list_all is_digit s"
  shows "js_Number s = fl64 (of_int (digits_val 10 digit_val s))"
proof -
  obtain c r where s: "s = c # r" using assms(1) by (cases s) auto
  have c: "is_digit c" using assms(2) s by simp
  have tw: "takeWhile is_digit s = s" "dropWhile is_digit s = []" using assms(2) by (auto simp: list_all_iff)
  have pre: "toLowerCase (take 2 s) \<notin> {''0x'', ''0o'', ''0b''}"
    using assms(2) is_digit_not_special by (cases r) (auto simp: s toLowerCase_def)
  have "s \<noteq> ''Infinity''" using c is_digit_not_special s by auto
  then have "unsigned_number s = fl64 (of_int (digits_val 10 digit_val s))"
    using assms(1) by (simp add: unsigned_number_def tw Let_def startsWith_def exponent_val_def)
  moreover have "\<not> startsWith ''-'' s" "\<not> startsWith ''+'' s"
    using is_digit_not_special [OF c] by (simp_all add: s startsWith_def)
  ultimately show ?thesis
    using pre assms by (simp add: js_Number_def trim_digits Let_def)
qed

text \<open>Printing a non-negative integer below \<open>2^53\<close> and reading it back.\<close>

lemma js_Number_dec_digits:
  assumes "0 \<le> n" "n < 2 ^ 53"
  shows "js_Number (dec_digits n) = IntN n"
  using dec_digits_props [OF assms(1)] assms by (simp add: js_Number_digits fl64_of_int)

end
