(* ===== verification/Network_Guard.thy ===== *)
theory Network_Guard
  imports Json_Limits Js_Number
begin

text \<open>
  The outbound-request guard of packages/gateway/src/security.ts: which addresses count as private,
  which endpoint URLs are accepted, and the bounded fetch that combines URL policy, DNS check, redirect
  refusal, size limits and the JSON guard.

  \<open>isIP\<close> is Node's \<open>net.isIP\<close>: dotted decimal with four octets and no leading zeros; eight groups of
  hexadecimal digits with at most one \<open>::\<close>, the last two groups possibly dotted, and an optional zone.
  The URL parser, DNS, the HTTP exchange, the UTF-8 decoder and \<open>JSON.parse\<close> are parameters.
\<close>

section \<open>Addresses\<close>

definition is_v4_octet :: "string \<Rightarrow> bool" where
  "is_v4_octet s \<longleftrightarrow> s \<noteq> [] \<and> length s \<le> 3 \<and> list_all is_digit s
     \<and> (hd s = CHR ''0'' \<longrightarrow> length s = 1) \<and> digits_val 10 digit_val s \<le> 255"

definition isIPv4 :: "string \<Rightarrow> bool" where
  "isIPv4 s \<longleftrightarrow> (let parts = split_on (CHR ''.'') s in length parts = 4 \<and> list_all is_v4_octet parts)"

definition is_hex_group :: "string \<Rightarrow> bool" where
  "is_hex_group s \<longleftrightarrow> s \<noteq> [] \<and> length s \<le> 4 \<and> list_all is_hex s"

text \<open>The number of 16-bit groups of one side of an address, the last possibly a dotted quad.\<close>

definition group_count :: "bool \<Rightarrow> string list \<Rightarrow> nat option" where
  "group_count dotted parts =
     (if parts = [] then Some 0
      else if \<not> list_all is_hex_group (butlast parts) then None
      else if is_hex_group (last parts) then Some (length parts)
      else if dotted \<and> isIPv4 (last parts) then Some (length parts + 1)
      else None)"

fun split_double :: "string \<Rightarrow> (string \<times> string) option" where
  "split_double (a # b # s) =
     (if a = CHR '':'' \<and> b = CHR '':'' then Some ([], s)
      else case split_double (b # s) of None \<Rightarrow> None | Some (l, r) \<Rightarrow> Some (a # l, r))"
| "split_double _ = None"

definition side_groups :: "string \<Rightarrow> string list" where
  "side_groups s = (if s = [] then [] else split_on (CHR '':'') s)"

definition ipv6_body :: "string \<Rightarrow> bool" where
  "ipv6_body s =
     (case split_double s of
        None \<Rightarrow> group_count True (split_on (CHR '':'') s) = Some 8
      | Some (l, r) \<Rightarrow>
          (case (group_count False (side_groups l), group_count True (side_groups r)) of
             (Some m, Some n) \<Rightarrow> m + n \<le> 7
           | _ \<Rightarrow> False))"

definition isIPv6 :: "string \<Rightarrow> bool" where
  "isIPv6 s =
     (let body = takeWhile (\<lambda>c. c \<noteq> CHR ''%'') s; zone = drop (length body) s in
      ipv6_body body
      \<and> (zone = [] \<or> (1 < length zone \<and> list_all (\<lambda>c. is_alnum c \<or> c \<in> set ''-.:'') (tl zone))))"

definition isIP :: "string \<Rightarrow> nat" where
  "isIP s = (if isIPv4 s then 4 else if isIPv6 s then 6 else 0)"

definition ipv4Private :: "string \<Rightarrow> bool" where
  "ipv4Private address =
     (let octets = map js_Number (split_on (CHR ''.'') address) in
      if length octets \<noteq> 4 \<or> list_ex (\<lambda>p. \<not> isInteger p) octets then True
      else let a = octets ! 0; b = octets ! 1; c = octets ! 2 in
        num_eq a (IntN 0)
        \<or> num_eq a (IntN 10)
        \<or> num_eq a (IntN 127)
        \<or> (num_eq a (IntN 100) \<and> num_le (IntN 64) b \<and> num_le b (IntN 127))
        \<or> (num_eq a (IntN 169) \<and> num_eq b (IntN 254))
        \<or> (num_eq a (IntN 172) \<and> num_le (IntN 16) b \<and> num_le b (IntN 31))
        \<or> (num_eq a (IntN 192) \<and> num_eq b (IntN 0))
        \<or> (num_eq a (IntN 192) \<and> num_eq b (IntN 168))
        \<or> (num_eq a (IntN 198) \<and> (num_eq b (IntN 18) \<or> num_eq b (IntN 19)))
        \<or> (num_eq a (IntN 198) \<and> num_eq b (IntN 51) \<and> num_eq c (IntN 100))
        \<or> (num_eq a (IntN 203) \<and> num_eq b (IntN 0) \<and> num_eq c (IntN 113))
        \<or> num_le (IntN 224) a)"

definition short_digits :: "nat \<Rightarrow> (char \<Rightarrow> bool) \<Rightarrow> string \<Rightarrow> bool" where
  "short_digits n ok s \<longleftrightarrow> s \<noteq> [] \<and> length s \<le> n \<and> list_all ok s"

definition mappedIpv4 :: "string \<Rightarrow> string option" where
  "mappedIpv4 address =
     (if toLowerCase (take 7 address) \<noteq> ''::ffff:'' then None
      else let rest = drop 7 address; dots = split_on (CHR ''.'') rest; hex = split_on (CHR '':'') rest in
        if length dots = 4 \<and> list_all (short_digits 3 is_digit) dots then Some rest
        else if length hex = 2 \<and> list_all (short_digits 4 is_hex) hex then
          (let high = digits_val 16 hex_digit_val (hex ! 0); low = digits_val 16 hex_digit_val (hex ! 1) in
           Some (join ''.'' (map dec_digits [high div 256, high mod 256, low div 256, low mod 256])))
        else None)"

definition ipv6Private :: "string \<Rightarrow> bool" where
  "ipv6Private address =
     (let normalized = takeWhile (\<lambda>c. c \<noteq> CHR ''%'') (toLowerCase address) in
      case mappedIpv4 normalized of
        Some mapped \<Rightarrow> ipv4Private mapped
      | None \<Rightarrow>
          normalized = ''::''
          \<or> normalized = ''::1''
          \<or> startsWith ''fc'' normalized
          \<or> startsWith ''fd'' normalized
          \<or> (startsWith ''fe'' normalized \<and> 2 < length normalized \<and> normalized ! 2 \<in> set ''89ab'')
          \<or> startsWith ''ff'' normalized
          \<or> startsWith ''64:ff9b:'' normalized
          \<or> startsWith ''2001:2:'' normalized
          \<or> startsWith ''2001:db8:'' normalized
          \<or> normalized = ''2001:db8::'')"

definition isPrivateAddress :: "string \<Rightarrow> bool" where
  "isPrivateAddress address =
     (let family = isIP address in
      if family = 4 then ipv4Private address
      else if family = 6 then ipv6Private address
      else True)"

section \<open>Endpoint URLs\<close>

record URL =
  url_protocol :: string
  url_username :: string
  url_password :: string
  url_hash :: string
  url_hostname :: string
  url_href :: string

record EndpointPolicy =
  ep_allowedHosts :: "string list"
  ep_allowPrivate :: bool
  ep_errorStatusCode :: "nat option"

definition strip_dot :: "string \<Rightarrow> string" where
  "strip_dot s = (if endsWith ''.'' s then butlast s else s)"

definition strip_brackets :: "string \<Rightarrow> string" where
  "strip_brackets s =
     (let t = (if startsWith ''['' s then tl s else s) in if endsWith '']'' t then butlast t else t)"

definition canonical_host :: "string \<Rightarrow> string" where
  "canonical_host h = strip_brackets (strip_dot (toLowerCase h))"

definition parseExternalHttpsUrl ::
  "(string \<Rightarrow> URL option) \<Rightarrow> string \<Rightarrow> string \<Rightarrow> EndpointPolicy \<Rightarrow> gw_error + URL" where
  "parseExternalHttpsUrl parse raw label policy =
     (let statusCode = (case ep_errorStatusCode policy of None \<Rightarrow> 503 | Some c \<Rightarrow> c) in
      case parse raw of
        None \<Rightarrow> Inl (HttpError statusCode (label @ '' must be an absolute HTTPS URL''))
      | Some url \<Rightarrow>
          if url_protocol url \<noteq> ''https:'' \<or> url_username url \<noteq> [] \<or> url_password url \<noteq> [] \<or> url_hash url \<noteq> []
          then Inl (HttpError statusCode (label @ '' must be credential-free HTTPS without a fragment''))
          else
            let hostname = canonical_host (url_hostname url) in
            if hostname = [] \<or> hostname = ''localhost'' \<or> endsWith ''.localhost'' hostname \<or> endsWith ''.local'' hostname
            then Inl (HttpError statusCode (label @ '' resolves to a private host''))
            else if \<not> ep_allowPrivate policy \<and> isIP hostname \<noteq> 0 \<and> isPrivateAddress hostname
            then Inl (HttpError statusCode (label @ '' resolves to a private address''))
            else if ep_allowedHosts policy \<noteq> []
                 \<and> hostname \<notin> set (map (\<lambda>h. strip_dot (toLowerCase h)) (ep_allowedHosts policy))
            then Inl (HttpError statusCode (label @ '' host is not allowlisted''))
            else Inr url)"

definition assertPublicEndpointResolution ::
  "(string \<Rightarrow> string list option) \<Rightarrow> URL \<Rightarrow> string \<Rightarrow> bool \<Rightarrow> gw_error + unit" where
  "assertPublicEndpointResolution resolveHost url label allowPrivate =
     (if allowPrivate then Inr ()
      else case resolveHost (url_hostname url) of
        None \<Rightarrow> Inl (HttpError 503 (label @ '' host resolution failed''))
      | Some answers \<Rightarrow>
          if answers = [] \<or> list_ex isPrivateAddress answers
          then Inl (HttpError 503 (label @ '' resolves to a private or unavailable address''))
          else Inr ())"

section \<open>Bounded fetch\<close>

text \<open>The events of a response body: chunks of bytes, reads without a value, and then the end or a
  failure of the stream.\<close>

datatype read_event = Chunk "nat list" | NoValue

record response_body =
  rb_events :: "read_event list"
  rb_fails :: bool

record http_response =
  rs_status :: int
  rs_content_length :: "string option"
  rs_content_type :: "string option"
  rs_body :: "response_body option"

text \<open>One HTTP exchange under a timeout: the response or \<open>None\<close> when \<open>fetch\<close> threw, and whether the
  timeout had fired when an error surfaced.\<close>

record http_run =
  hx_response :: "http_response option"
  hx_aborted :: bool

record BoundedFetchOptions =
  bf_policy :: EndpointPolicy
  bf_timeoutMs :: "int option"
  bf_maxResponseBytes :: "int option"
  bf_label :: string

definition DEFAULT_HTTP_TIMEOUT_MS :: int where "DEFAULT_HTTP_TIMEOUT_MS = 30000"
definition DEFAULT_HTTP_RESPONSE_BYTES :: int where "DEFAULT_HTTP_RESPONSE_BYTES = 2 * 1024 * 1024"

fun read_loop :: "read_event list \<Rightarrow> int \<Rightarrow> string \<Rightarrow> nat list \<Rightarrow> int \<Rightarrow> gw_error + nat list" where
  "read_loop [] maxB label acc sofar = Inr acc"
| "read_loop (NoValue # es) maxB label acc sofar = read_loop es maxB label acc sofar"
| "read_loop (Chunk bytes # es) maxB label acc sofar =
     (let sofar' = sofar + int (length bytes) in
      if maxB < sofar' then Inl (HttpError 503 (label @ '' response exceeds the byte limit''))
      else read_loop es maxB label (acc @ bytes) sofar')"

definition readBoundedBody :: "(nat list \<Rightarrow> string) \<Rightarrow> http_response \<Rightarrow> int \<Rightarrow> string \<Rightarrow> gw_error + string" where
  "readBoundedBody decode response maxB label =
     (case rs_body response of
        None \<Rightarrow> Inr []
      | Some body \<Rightarrow>
          bindE (read_loop (rb_events body) maxB label [] 0) (\<lambda>bytes.
          if rb_fails body then Inl (PlainError ''stream failed'') else Inr (decode bytes)))"

definition response_ok :: "http_response \<Rightarrow> bool" where
  "response_ok r \<longleftrightarrow> 200 \<le> rs_status r \<and> rs_status r \<le> 299"

definition media_type :: "string option \<Rightarrow> string" where
  "media_type h = (case h of None \<Rightarrow> [] | Some t \<Rightarrow> toLowerCase (trim (hd (split_on (CHR '';'') t))))"

definition read_response ::
  "(nat list \<Rightarrow> string) \<Rightarrow> (string \<Rightarrow> jsval option) \<Rightarrow> int \<Rightarrow> string \<Rightarrow> http_response \<Rightarrow> gw_error + jsval" where
  "read_response decode json_parse maxB label response =
     (if 300 \<le> rs_status response \<and> rs_status response < 400
      then Inl (HttpError 503 (label @ '' redirects are not allowed''))
      else
        let declaredLength = (case rs_content_length response of None \<Rightarrow> Fin 0 | Some t \<Rightarrow> js_Number t);
            contentType = media_type (rs_content_type response) in
        if isFinite declaredLength \<and> num_lt (IntN maxB) declaredLength
        then Inl (HttpError 503 (label @ '' response exceeds the byte limit''))
        else if response_ok response \<and> contentType \<noteq> ''application/json'' \<and> \<not> endsWith ''+json'' contentType
        then Inl (HttpError 503 (label @ '' returned an unsupported content type''))
        else
          bindE (readBoundedBody decode response maxB label) (\<lambda>text.
          if \<not> response_ok response
          then Inl (HttpError 503 (label @ '' failed ('' @ num_to_string (IntN (rs_status response)) @ '')''))
          else case json_parse text of
            None \<Rightarrow> Inl (HttpError 503 (label @ '' returned invalid JSON''))
          | Some v \<Rightarrow>
              (case assertBoundedJson v (label @ '' response'') (no_limits\<lparr>jl_maxBytes := Some maxB\<rparr>) of
                 Inl _ \<Rightarrow> Inl (HttpError 503 (label @ '' returned invalid JSON''))
               | Inr _ \<Rightarrow> Inr v)))"

definition fetch_timeout :: "BoundedFetchOptions \<Rightarrow> int" where
  "fetch_timeout options = max 1000 (min (or_default (bf_timeoutMs options) DEFAULT_HTTP_TIMEOUT_MS) 120000)"

definition fetch_max_bytes :: "BoundedFetchOptions \<Rightarrow> int" where
  "fetch_max_bytes options =
     max 1024 (min (or_default (bf_maxResponseBytes options) DEFAULT_HTTP_RESPONSE_BYTES) (8 * 1024 * 1024))"

definition fetch_outcome ::
  "(nat list \<Rightarrow> string) \<Rightarrow> (string \<Rightarrow> jsval option) \<Rightarrow> BoundedFetchOptions \<Rightarrow> http_run \<Rightarrow>
     gw_error + http_response \<times> jsval" where
  "fetch_outcome decode json_parse options run =
     (let label = bf_label options; timed_out = HttpError 503 (label @ '' timed out'') in
      case hx_response run of
        None \<Rightarrow> Inl (if hx_aborted run then timed_out else HttpError 503 (label @ '' request failed''))
      | Some response \<Rightarrow>
          (case read_response decode json_parse (fetch_max_bytes options) label response of
             Inl e \<Rightarrow> Inl (if hx_aborted run then timed_out else e)
           | Inr v \<Rightarrow> Inr (response, v)))"

definition fetchBoundedJson ::
  "(string \<Rightarrow> URL option) \<Rightarrow> (string \<Rightarrow> string list option) \<Rightarrow> (URL \<Rightarrow> int \<Rightarrow> http_run) \<Rightarrow>
   (nat list \<Rightarrow> string) \<Rightarrow> (string \<Rightarrow> jsval option) \<Rightarrow> string \<Rightarrow> BoundedFetchOptions \<Rightarrow>
     gw_error + http_response \<times> jsval" where
  "fetchBoundedJson parse resolveHost http decode json_parse rawUrl options =
     bindE (parseExternalHttpsUrl parse rawUrl (bf_label options) (bf_policy options)) (\<lambda>url.
     bindE (assertPublicEndpointResolution resolveHost url (bf_label options) (ep_allowPrivate (bf_policy options))) (\<lambda>_.
     fetch_outcome decode json_parse options (http url (fetch_timeout options))))"

end
