(* ===== verification/Network_Claims.thy ===== *)
theory Network_Claims
  imports Network_Guard
begin

text \<open>
  Properties of the outbound-request guard: the private IPv4 ranges as CIDR blocks, their IPv4-mapped
  IPv6 forms, what an accepted endpoint URL satisfies, and what a successful bounded fetch guarantees.
\<close>

section \<open>Dotted text\<close>

lemma split_on_no_sep: "c \<notin> set s \<Longrightarrow> split_on c s = [s]"
  by (induction s) auto

lemma split_on_append: "c \<notin> set s \<Longrightarrow> split_on c (s @ c # t) = s # split_on c t"
  by (induction s) auto

lemma split_on_join: "parts \<noteq> [] \<Longrightarrow> \<forall>p \<in> set parts. c \<notin> set p \<Longrightarrow> split_on c (join [c] parts) = parts"
  by (induction "[c]" parts rule: join.induct) (auto simp: split_on_no_sep split_on_append)

definition is_octet :: "int \<Rightarrow> bool" where
  "is_octet a \<longleftrightarrow> 0 \<le> a \<and> a \<le> 255"

definition ipv4_text :: "int \<Rightarrow> int \<Rightarrow> int \<Rightarrow> int \<Rightarrow> string" where
  "ipv4_text a b c d = join ''.'' (map dec_digits [a, b, c, d])"

lemma octet_text:
  assumes "is_octet a"
  shows "js_Number (dec_digits a) = IntN a" "is_v4_octet (dec_digits a)" "short_digits 3 is_digit (dec_digits a)"
    and "set (dec_digits a) \<inter> set ''.:%'' = {}"
proof -
  have a: "0 \<le> a" "a \<le> 255" using assms by (simp_all add: is_octet_def)
  have len: "length (dec_digits a) \<le> 3" using a by (intro dec_digits_length) auto
  note props = dec_digits_props [OF a(1)]
  show "js_Number (dec_digits a) = IntN a" using a by (intro js_Number_dec_digits) auto
  have zero: "a = 0 \<Longrightarrow> length (dec_digits a) = 1" by (simp add: dec_digits.simps)
  show "is_v4_octet (dec_digits a)" using len props a zero unfolding is_v4_octet_def by auto
  show "short_digits 3 is_digit (dec_digits a)" using len props by (simp add: short_digits_def)
  show "set (dec_digits a) \<inter> set ''.:%'' = {}"
    using props is_digit_not_special by (fastforce simp: list_all_iff)
qed

lemma ipv4_text_split:
  assumes "is_octet a" "is_octet b" "is_octet c" "is_octet d"
  shows "split_on (CHR ''.'') (ipv4_text a b c d) = map dec_digits [a, b, c, d]"
  unfolding ipv4_text_def
  by (rule split_on_join) (use assms octet_text(4) in fastforce)+

lemma ipv4_text_chars:
  assumes "is_octet a" "is_octet b" "is_octet c" "is_octet d"
  shows "set (ipv4_text a b c d) \<inter> set '':%'' = {}"
  using assms [THEN octet_text(4)] by (auto simp: ipv4_text_def)

lemma isIPv4_text:
  assumes "is_octet a" "is_octet b" "is_octet c" "is_octet d"
  shows "isIPv4 (ipv4_text a b c d)"
  using assms [THEN octet_text(2)] by (simp add: isIPv4_def ipv4_text_split [OF assms])

section \<open>Private ranges as CIDR blocks\<close>

definition ipv4_number :: "int \<Rightarrow> int \<Rightarrow> int \<Rightarrow> int \<Rightarrow> int" where
  "ipv4_number a b c d = ((a * 256 + b) * 256 + c) * 256 + d"

definition in_cidr :: "int \<Rightarrow> int \<times> nat \<Rightarrow> bool" where
  "in_cidr addr block \<longleftrightarrow> addr div 2 ^ (32 - snd block) = fst block div 2 ^ (32 - snd block)"

definition private_blocks :: "(int \<times> nat) list" where
  "private_blocks =
    [(ipv4_number 0 0 0 0, 8), (ipv4_number 10 0 0 0, 8), (ipv4_number 127 0 0 0, 8), (ipv4_number 100 64 0 0, 10),
     (ipv4_number 169 254 0 0, 16), (ipv4_number 172 16 0 0, 12), (ipv4_number 192 0 0 0, 16),
     (ipv4_number 192 168 0 0, 16), (ipv4_number 198 18 0 0, 15), (ipv4_number 198 51 100 0, 24),
     (ipv4_number 203 0 113 0, 24), (ipv4_number 224 0 0 0, 3)]"

lemma ipv4Private_text:
  assumes "is_octet a" "is_octet b" "is_octet c" "is_octet d"
  shows "ipv4Private (ipv4_text a b c d) \<longleftrightarrow>
     a = 0 \<or> a = 10 \<or> a = 127 \<or> (a = 100 \<and> 64 \<le> b \<and> b \<le> 127) \<or> (a = 169 \<and> b = 254)
     \<or> (a = 172 \<and> 16 \<le> b \<and> b \<le> 31) \<or> (a = 192 \<and> b = 0) \<or> (a = 192 \<and> b = 168)
     \<or> (a = 198 \<and> (b = 18 \<or> b = 19)) \<or> (a = 198 \<and> b = 51 \<and> c = 100) \<or> (a = 203 \<and> b = 0 \<and> c = 113) \<or> 224 \<le> a"
proof -
  have "map js_Number (split_on (CHR ''.'') (ipv4_text a b c d)) = [IntN a, IntN b, IntN c, IntN d]"
    using assms [THEN octet_text(1)] by (simp add: ipv4_text_split [OF assms])
  then show ?thesis by (simp add: ipv4Private_def Let_def isInteger_iff)
qed

lemma div_octet: "is_octet d \<Longrightarrow> (y * 256 + d) div 256 = y"
  by (simp add: is_octet_def)

lemma number_div:
  assumes "is_octet a" "is_octet b" "is_octet c" "is_octet d"
  shows "ipv4_number a b c d div 256 = (a * 256 + b) * 256 + c"
    and "ipv4_number a b c d div 65536 = a * 256 + b"
proof -
  show 1: "ipv4_number a b c d div 256 = (a * 256 + b) * 256 + c"
    using assms by (simp only: ipv4_number_def div_octet)
  have "ipv4_number a b c d div (256 * 256) = ipv4_number a b c d div 256 div 256" by (rule zdiv_zmult2_eq) simp
  also have "\<dots> = a * 256 + b" unfolding 1 using assms(3) by (rule div_octet)
  finally show "ipv4_number a b c d div 65536 = a * 256 + b" by simp
qed

lemma in_cidr_short:
  assumes "is_octet a" "is_octet b" "is_octet c" "is_octet d" "is_octet a'" "is_octet b'" "n \<le> 16"
  shows "in_cidr (ipv4_number a b c d) (ipv4_number a' b' 0 0, n) \<longleftrightarrow>
     (a * 256 + b) div 2 ^ (16 - n) = (a' * 256 + b') div 2 ^ (16 - n)"
proof -
  have "32 - n = 16 + (16 - n)" using assms(7) by simp
  then have "(2 :: int) ^ (32 - n) = 2 ^ 16 * 2 ^ (16 - n)" by (simp only: power_add)
  then have pow: "(2 :: int) ^ (32 - n) = 65536 * 2 ^ (16 - n)" by simp
  have zero: "is_octet 0" by (simp add: is_octet_def)
  show ?thesis
    by (simp add: in_cidr_def pow zdiv_zmult2_eq number_div(2) [OF assms(1-4)]
        number_div(2) [OF assms(5,6) zero zero])
qed

lemma in_cidr_24:
  assumes "is_octet a" "is_octet b" "is_octet c" "is_octet d" "is_octet a'" "is_octet b'" "is_octet c'"
  shows "in_cidr (ipv4_number a b c d) (ipv4_number a' b' c' 0, 24) \<longleftrightarrow> a = a' \<and> b = b' \<and> c = c'"
proof -
  have zero: "is_octet 0" by (simp add: is_octet_def)
  have "(a * 256 + b) * 256 + c = (a' * 256 + b') * 256 + c' \<longleftrightarrow> a = a' \<and> b = b' \<and> c = c'"
    using assms div_octet by (metis add_left_cancel)
  then show ?thesis
    by (simp add: in_cidr_def number_div(1) [OF assms(1-4)] number_div(1) [OF assms(5-7) zero])
qed

text \<open>The block prefixes of at most 16 bits, in octets.\<close>

lemma prefix_div:
  assumes "is_octet b" "k * m = 256" "0 < m"
  shows "(a * 256 + b) div m = a * k + b div m"
proof -
  have "a * 256 + b = b + m * (a * k)" unfolding assms(2) [symmetric] by simp
  then have "(a * 256 + b) div m = (b + m * (a * k)) div m" by (rule arg_cong)
  with assms(3) show ?thesis by simp
qed

lemma prefix_eq:
  assumes "0 \<le> q" "q < k" "0 \<le> q'" "q' < (k :: int)"
  shows "a * k + q = a' * k + q' \<longleftrightarrow> a = a' \<and> q = q'"
  using assms by (metis add.commute div_mult_self1 div_pos_pos_trivial add_left_cancel less_irrefl order_le_less_trans add_0)

lemma short_blocks:
  assumes "is_octet a" "is_octet b"
  shows "(a * 256 + b) div 256 = a"
    and "(a * 256 + b) div 64 = 401 \<longleftrightarrow> a = 100 \<and> 64 \<le> b \<and> b \<le> 127"
    and "(a * 256 + b) div 16 = 2753 \<longleftrightarrow> a = 172 \<and> 16 \<le> b \<and> b \<le> 31"
    and "(a * 256 + b) div 2 = 25353 \<longleftrightarrow> a = 198 \<and> (b = 18 \<or> b = 19)"
    and "(a * 256 + b) div 8192 = 7 \<longleftrightarrow> 224 \<le> a"
    and "a * 256 + b = 43518 \<longleftrightarrow> a = 169 \<and> b = 254"
    and "a * 256 + b = 49152 \<longleftrightarrow> a = 192 \<and> b = 0"
    and "a * 256 + b = 49320 \<longleftrightarrow> a = 192 \<and> b = 168"
proof -
  have b: "0 \<le> b" "b \<le> 255" and a: "0 \<le> a" "a \<le> 255" using assms by (simp_all add: is_octet_def)
  show 256: "(a * 256 + b) div 256 = a" using assms(2) by (rule div_octet)
  have "b div 64 = 1 \<longleftrightarrow> 64 \<le> b \<and> b \<le> 127" by presburger
  then show "(a * 256 + b) div 64 = 401 \<longleftrightarrow> a = 100 \<and> 64 \<le> b \<and> b \<le> 127"
    using prefix_div [OF assms(2), of 4 64 a] prefix_eq [of "b div 64" 4 1 a 100] b by auto
  have "b div 16 = 1 \<longleftrightarrow> 16 \<le> b \<and> b \<le> 31" by presburger
  then show "(a * 256 + b) div 16 = 2753 \<longleftrightarrow> a = 172 \<and> 16 \<le> b \<and> b \<le> 31"
    using prefix_div [OF assms(2), of 16 16 a] prefix_eq [of "b div 16" 16 1 a 172] b by auto
  have "b div 2 = 9 \<longleftrightarrow> b = 18 \<or> b = 19" by presburger
  then show "(a * 256 + b) div 2 = 25353 \<longleftrightarrow> a = 198 \<and> (b = 18 \<or> b = 19)"
    using prefix_div [OF assms(2), of 128 2 a] prefix_eq [of "b div 2" 128 9 a 198] b by auto
  have "(a * 256 + b) div (256 * 32) = (a * 256 + b) div 256 div 32" by (rule zdiv_zmult2_eq) simp
  then have "(a * 256 + b) div 8192 = a div 32" unfolding 256 by simp
  moreover have "a div 32 = 7 \<longleftrightarrow> 224 \<le> a" using a by presburger
  ultimately show "(a * 256 + b) div 8192 = 7 \<longleftrightarrow> 224 \<le> a" by simp
  show "a * 256 + b = 43518 \<longleftrightarrow> a = 169 \<and> b = 254" using prefix_eq [of b 256 254 a 169] b by simp
  show "a * 256 + b = 49152 \<longleftrightarrow> a = 192 \<and> b = 0" using prefix_eq [of b 256 0 a 192] b by simp
  show "a * 256 + b = 49320 \<longleftrightarrow> a = 192 \<and> b = 168" using prefix_eq [of b 256 168 a 192] b by simp
qed

lemma in_private_blocks:
  assumes "is_octet a" "is_octet b" "is_octet c" "is_octet d"
  shows "list_ex (in_cidr (ipv4_number a b c d)) private_blocks \<longleftrightarrow>
     a = 0 \<or> a = 10 \<or> a = 127 \<or> (a = 100 \<and> 64 \<le> b \<and> b \<le> 127) \<or> (a = 169 \<and> b = 254)
     \<or> (a = 172 \<and> 16 \<le> b \<and> b \<le> 31) \<or> (a = 192 \<and> b = 0) \<or> (a = 192 \<and> b = 168)
     \<or> (a = 198 \<and> (b = 18 \<or> b = 19)) \<or> (a = 198 \<and> b = 51 \<and> c = 100) \<or> (a = 203 \<and> b = 0 \<and> c = 113) \<or> 224 \<le> a"
proof -
  note oct = is_octet_def [of "numeral _"] is_octet_def [of 0]
  show ?thesis
    by (simp add: private_blocks_def in_cidr_short [OF assms] in_cidr_24 [OF assms] oct short_blocks [OF assms(1,2)])
qed

section \<open>Mapped addresses\<close>

fun hex_text :: "int \<Rightarrow> string" where
  "hex_text n =
     (if n < 16 then [hex_digit n] else hex_text (n div 16) @ [hex_digit (n mod 16)])"

declare hex_text.simps [simp del]

lemma hex_digit_chars:
  "hex_digit 0 = CHR ''0''"
  "hex_digit 1 = CHR ''1''"
  "hex_digit 2 = CHR ''2''"
  "hex_digit 3 = CHR ''3''"
  "hex_digit 4 = CHR ''4''"
  "hex_digit 5 = CHR ''5''"
  "hex_digit 6 = CHR ''6''"
  "hex_digit 7 = CHR ''7''"
  "hex_digit 8 = CHR ''8''"
  "hex_digit 9 = CHR ''9''"
  "hex_digit 10 = CHR ''a''"
  "hex_digit 11 = CHR ''b''"
  "hex_digit 12 = CHR ''c''"
  "hex_digit 13 = CHR ''d''"
  "hex_digit 14 = CHR ''e''"
  "hex_digit 15 = CHR ''f''"
  by code_simp+

lemma hex_digit_char:
  assumes "0 \<le> n" "n < 16"
  shows "is_hex (hex_digit n)" "hex_digit_val (hex_digit n) = n"
    and "to_lower_char (hex_digit n) = hex_digit n" "hex_digit n \<notin> set '':%.''"
proof -
  have "list_ex ((=) n) [0..15]" using assms by (intro bounded_int_cases) auto
  note cases = this
  note unf = upto_cases hex_digit_chars is_hex_def is_lower_hex_def in_range_def less_eq_char_int hex_digit_val_def is_digit_def
    to_lower_char_def
  from cases show "is_hex (hex_digit n)" by (auto simp: unf)
  from cases show "hex_digit_val (hex_digit n) = n" by (auto simp: unf)
  from cases show "to_lower_char (hex_digit n) = hex_digit n" by (auto simp: unf)
  from cases show "hex_digit n \<notin> set '':%.''" by (auto simp: unf)
qed

lemma hex_text_props:
  "0 \<le> n \<Longrightarrow> hex_text n \<noteq> [] \<and> list_all is_hex (hex_text n) \<and> digits_val 16 hex_digit_val (hex_text n) = n
     \<and> map to_lower_char (hex_text n) = hex_text n \<and> set (hex_text n) \<inter> set '':%.'' = {}"
proof (induction n rule: hex_text.induct)
  case (1 n)
  show ?case
  proof (cases "n < 16")
    case True
    then show ?thesis using "1.prems" hex_digit_char [of n]
      by (simp add: hex_text.simps [of n] digits_val_def)
  next
    case False
    have "0 \<le> n mod 16" "n mod 16 < 16" by auto
    note d = hex_digit_char [OF this]
    have "hex_text n = hex_text (n div 16) @ [hex_digit (n mod 16)]"
      using False by (simp add: hex_text.simps [of n])
    with False "1.IH" "1.prems" d show ?thesis by (simp add: digits_val_snoc)
  qed
qed

lemma hex_text_length: "0 \<le> n \<Longrightarrow> n < 16 ^ k \<Longrightarrow> 0 < k \<Longrightarrow> length (hex_text n) \<le> k"
proof (induction n arbitrary: k rule: hex_text.induct)
  case (1 n)
  show ?case
  proof (cases "n < 16")
    case True
    then show ?thesis using "1.prems" by (simp add: hex_text.simps [of n])
  next
    case False
    then obtain j where j: "k = Suc j" "0 < j" using "1.prems" by (cases k; cases "k - 1") auto
    have "n div 16 < 16 ^ j" using "1.prems" j by (simp add: div_less_iff_less_mult mult.commute)
    then have "length (hex_text (n div 16)) \<le> j" using "1.IH" [OF False, of j] "1.prems" j by simp
    then show ?thesis using False j by (simp add: hex_text.simps [of n])
  qed
qed

lemma hex_group_text:
  assumes "0 \<le> n" "n < 65536"
  shows "is_hex_group (hex_text n)" "short_digits 4 is_hex (hex_text n)"
  using hex_text_props [OF assms(1)] hex_text_length [of n 4] assms
  by (simp_all add: is_hex_group_def short_digits_def)

lemma ffff_hex: "is_hex_group ''ffff''"
  by code_simp

lemma takeWhile_all: "c \<notin> set s \<Longrightarrow> takeWhile (\<lambda>x. x \<noteq> c) s = s"
  by (auto simp: takeWhile_eq_all_conv)

lemma group_count_Cons:
  "parts \<noteq> [] \<Longrightarrow> is_hex_group g \<Longrightarrow> group_count dotted (g # parts) = map_option Suc (group_count dotted parts)"
  by (simp add: group_count_def)

lemma isIPv6_no_zone: "CHR ''%'' \<notin> set s \<Longrightarrow> isIPv6 s = ipv6_body s"
  by (simp add: isIPv6_def takeWhile_all)

lemma mapped_isIP:
  assumes "set rest \<inter> {CHR ''%''} = {}" "group_count True (split_on (CHR '':'') rest) = Some n" "n \<le> 6"
  shows "isIP (''::ffff:'' @ rest) = 6"
proof -
  let ?s = "''::ffff:'' @ rest"
  have "\<not> isIPv4 ?s"
  proof
    assume "isIPv4 ?s"
    then have "is_v4_octet (hd (split_on (CHR ''.'') ?s))"
      by (cases "split_on (CHR ''.'') ?s") (auto simp: isIPv4_def Let_def)
    moreover have "\<exists>t. hd (split_on (CHR ''.'') ?s) = CHR '':'' # t"
      using split_on_nonempty [of "CHR ''.''" rest] by (auto split: list.splits)
    ultimately show False by (auto simp: is_v4_octet_def is_digit_def in_range_def less_eq_char_int)
  qed
  moreover have "isIPv6 ?s"
  proof -
    have "split_double ?s = Some ([], ''ffff:'' @ rest)" by simp
    moreover have "split_on (CHR '':'') (''ffff:'' @ rest) = ''ffff'' # split_on (CHR '':'') rest"
      using split_on_append [of "CHR '':''" "''ffff''" rest] by simp
    moreover have "group_count True (''ffff'' # split_on (CHR '':'') rest) = Some (Suc n)"
      using group_count_Cons [OF split_on_nonempty ffff_hex, of True "CHR '':''" rest] assms(2) by simp
    moreover have "side_groups [] = []" "group_count False [] = Some 0"
      "side_groups (''ffff:'' @ rest) = split_on (CHR '':'') (''ffff:'' @ rest)"
      by (simp_all add: side_groups_def group_count_def)
    ultimately have "ipv6_body ?s" using assms(3) unfolding ipv6_body_def by (simp only: option.case prod.case)
    moreover have "CHR ''%'' \<notin> set ?s" using assms(1) by auto
    ultimately show ?thesis using isIPv6_no_zone by blast
  qed
  ultimately show ?thesis by (simp add: isIP_def)
qed

lemma mapped_private:
  assumes "set rest \<inter> {CHR ''%''} = {}" "group_count True (split_on (CHR '':'') rest) = Some n" "n \<le> 6"
    and "map to_lower_char rest = rest" "mappedIpv4 (''::ffff:'' @ rest) = Some quad"
  shows "isPrivateAddress (''::ffff:'' @ rest) = ipv4Private quad"
proof -
  define s where "s = ''::ffff:'' @ rest"
  have low: "toLowerCase s = s"
    using assms(4) by (simp add: s_def toLowerCase_def to_lower_char_def)
  have tw: "takeWhile (\<lambda>c. c \<noteq> CHR ''%'') s = s"
    using assms(1) unfolding s_def by (intro takeWhile_all) auto
  have six: "isIP s = 6" unfolding s_def by (rule mapped_isIP [OF assms(1-3)])
  have "mappedIpv4 s = Some quad" unfolding s_def by (rule assms(5))
  then have "isPrivateAddress s = ipv4Private quad"
    unfolding isPrivateAddress_def ipv6Private_def Let_def six low tw by simp
  then show ?thesis by (simp add: s_def)
qed

lemma ffff_prefix: "toLowerCase (take 7 (''::ffff:'' @ rest)) = ''::ffff:''" "drop 7 (''::ffff:'' @ rest) = rest"
  by (simp_all add: toLowerCase_def to_lower_char_def)

lemma mappedIpv4_hex:
  assumes "length (split_on (CHR ''.'') rest) = 1" "split_on (CHR '':'') rest = [h, l]"
    and "short_digits 4 is_hex h" "short_digits 4 is_hex l"
  shows "mappedIpv4 (''::ffff:'' @ rest) =
     (let high = digits_val 16 hex_digit_val h; low = digits_val 16 hex_digit_val l in
      Some (ipv4_text (high div 256) (high mod 256) (low div 256) (low mod 256)))"
  unfolding mappedIpv4_def ffff_prefix using assms by (simp add: ipv4_text_def Let_def)

lemma mapped_dotted:
  assumes "is_octet a" "is_octet b" "is_octet c" "is_octet d"
  shows "isPrivateAddress (''::ffff:'' @ ipv4_text a b c d) = ipv4Private (ipv4_text a b c d)"
proof (rule mapped_private)
  note chars = ipv4_text_chars [OF assms]
  show "set (ipv4_text a b c d) \<inter> {CHR ''%''} = {}" using chars by auto
  have "split_on (CHR '':'') (ipv4_text a b c d) = [ipv4_text a b c d]" using chars by (intro split_on_no_sep) auto
  moreover have "\<not> is_hex_group (ipv4_text a b c d)"
    by (auto simp: is_hex_group_def ipv4_text_def is_hex_def is_lower_hex_def in_range_def less_eq_char_int)
  ultimately show "group_count True (split_on (CHR '':'') (ipv4_text a b c d)) = Some 2"
    using isIPv4_text [OF assms] by (simp add: group_count_def)
  show "map to_lower_char (ipv4_text a b c d) = ipv4_text a b c d"
  proof -
    have "to_lower_char x = x" if "x \<in> set (dec_digits y)" "is_octet y" for x y
      using that dec_digits_props [of y] is_digit_not_special by (auto simp: is_octet_def list_all_iff)
    then show ?thesis using assms by (auto simp: ipv4_text_def to_lower_char_def intro!: map_idI)
  qed
  show "mappedIpv4 (''::ffff:'' @ ipv4_text a b c d) = Some (ipv4_text a b c d)"
    using assms [THEN octet_text(3)]
    unfolding mappedIpv4_def ffff_prefix by (simp add: ipv4_text_split [OF assms] Let_def)
qed simp

lemma mapped_hex:
  assumes "is_octet a" "is_octet b" "is_octet c" "is_octet d"
  shows "isPrivateAddress (''::ffff:'' @ hex_text (a * 256 + b) @ '':'' @ hex_text (c * 256 + d))
     = ipv4Private (ipv4_text a b c d)"
proof (rule mapped_private)
  let ?h = "hex_text (a * 256 + b)" and ?l = "hex_text (c * 256 + d)"
  have bounds: "0 \<le> a * 256 + b" "a * 256 + b < 65536" "0 \<le> c * 256 + d" "c * 256 + d < 65536"
    using assms by (simp_all add: is_octet_def)
  note h = hex_text_props [OF bounds(1)] and l = hex_text_props [OF bounds(3)]
  have split: "split_on (CHR '':'') (?h @ '':'' @ ?l) = [?h, ?l]"
    using h l split_on_append [of "CHR '':''" ?h ?l] by (auto simp: split_on_no_sep)
  have dots: "split_on (CHR ''.'') (?h @ '':'' @ ?l) = [?h @ '':'' @ ?l]"
    using h l by (intro split_on_no_sep) auto
  show "set (?h @ '':'' @ ?l) \<inter> {CHR ''%''} = {}" using h l by auto
  show "group_count True (split_on (CHR '':'') (?h @ '':'' @ ?l)) = Some 2"
    unfolding split using hex_group_text(1) bounds by (simp add: group_count_def)
  show "map to_lower_char (?h @ '':'' @ ?l) = ?h @ '':'' @ ?l" using h l by (simp add: to_lower_char_def)
  have "(a * 256 + b) mod 256 = b" "(c * 256 + d) mod 256 = d" using assms by (simp_all add: is_octet_def)
  then show "mappedIpv4 (''::ffff:'' @ ?h @ '':'' @ ?l) = Some (ipv4_text a b c d)"
    using mappedIpv4_hex [OF _ split] dots hex_group_text(2) bounds h l assms(2,4) [THEN div_octet]
    by (simp add: Let_def del: append_Cons)
qed simp

section \<open>What an accepted URL and a successful fetch satisfy\<close>

lemma case_Inr:
  "(case x of None \<Rightarrow> Inl e | Some y \<Rightarrow> f y) = Inr r \<longleftrightarrow> (\<exists>y. x = Some y \<and> f y = Inr r)"
  "(case z of Inl a \<Rightarrow> Inl (g a) | Inr b \<Rightarrow> h b) = Inr r \<longleftrightarrow> (\<exists>b. z = Inr b \<and> h b = Inr r)"
  by (auto split: option.splits sum.splits)

lemma parseExternal_Inr:
  assumes "parseExternalHttpsUrl parse raw label policy = Inr url"
  shows "parse raw = Some url \<and> url_protocol url = ''https:'' \<and> url_username url = [] \<and> url_password url = []
     \<and> url_hash url = [] \<and> canonical_host (url_hostname url) \<notin> {[], ''localhost''}
     \<and> \<not> endsWith ''.localhost'' (canonical_host (url_hostname url))
     \<and> \<not> endsWith ''.local'' (canonical_host (url_hostname url))
     \<and> (\<not> ep_allowPrivate policy \<longrightarrow> isIP (canonical_host (url_hostname url)) \<noteq> 0 \<longrightarrow>
          \<not> isPrivateAddress (canonical_host (url_hostname url)))
     \<and> (ep_allowedHosts policy \<noteq> [] \<longrightarrow>
          canonical_host (url_hostname url) \<in> (\<lambda>h. strip_dot (toLowerCase h)) ` set (ep_allowedHosts policy))"
  using assms unfolding parseExternalHttpsUrl_def Let_def set_map
  by (auto simp del: endsWith_def split: option.splits if_splits)

definition body_bytes :: "http_response \<Rightarrow> nat list" where
  "body_bytes r = (case rs_body r of None \<Rightarrow> []
     | Some b \<Rightarrow> concat (map (\<lambda>e. case e of Chunk bs \<Rightarrow> bs | NoValue \<Rightarrow> []) (rb_events b)))"

lemma read_loop_Inr:
  "read_loop es maxB label acc sofar = Inr bytes \<Longrightarrow> sofar = int (length acc) \<Longrightarrow> int (length acc) \<le> maxB \<Longrightarrow>
     bytes = acc @ concat (map (\<lambda>e. case e of Chunk bs \<Rightarrow> bs | NoValue \<Rightarrow> []) es) \<and> int (length bytes) \<le> maxB"
  by (induction es maxB label acc sofar rule: read_loop.induct) (auto simp: Let_def split: if_splits)

lemma readBoundedBody_Inr:
  assumes "readBoundedBody decode r maxB label = Inr text" "0 \<le> maxB"
  shows "int (length (body_bytes r)) \<le> maxB \<and> (rs_body r \<noteq> None \<longrightarrow> text = decode (body_bytes r))"
  using assms read_loop_Inr [where acc = "[]" and sofar = 0 and maxB = maxB and label = label]
  by (fastforce simp: readBoundedBody_def body_bytes_def resE split: option.splits if_splits)

lemma assertBounded_Inr: "assertBoundedJson v label limits = Inr u \<Longrightarrow> bounded_json limits v"
proof -
  assume run: "assertBoundedJson v label limits = Inr u"
  from run obtain n where "visit limits label v 0 0 = Inr n" by (auto simp: assertBoundedJson_def resE)
  with run show "bounded_json limits v"
    by (auto simp: assertBoundedJson_def bounded_json_def visit_ok split: option.splits if_splits)
qed

lemma read_response_Inr:
  assumes "read_response decode json_parse maxB label r = Inr v" "0 \<le> maxB"
  shows "200 \<le> rs_status r \<and> rs_status r \<le> 299 \<and> int (length (body_bytes r)) \<le> maxB
     \<and> bounded_json (no_limits\<lparr>jl_maxBytes := Some maxB\<rparr>) v"
proof -
  from assms(1) obtain t where
    body: "readBoundedBody decode r maxB label = Inr t" and ok: "response_ok r"
    and bounded: "isOk (assertBoundedJson v (label @ '' response'') (no_limits\<lparr>jl_maxBytes := Some maxB\<rparr>))"
    unfolding read_response_def Let_def by (auto simp: resE case_Inr)
  from bounded have "bounded_json (no_limits\<lparr>jl_maxBytes := Some maxB\<rparr>) v"
    by (auto simp: isOk_iff dest: assertBounded_Inr)
  with readBoundedBody_Inr [OF body assms(2)] ok show ?thesis by (simp add: response_ok_def)
qed

lemma fetch_max_bytes_bounds: "1024 \<le> fetch_max_bytes o1" "fetch_max_bytes o1 \<le> 8 * 1024 * 1024"
  by (auto simp: fetch_max_bytes_def)

section \<open>Properties\<close>

lemma private_ipv4_texts:
  assumes "is_octet a" and "is_octet b" and "is_octet c" and "is_octet d"
  shows "isPrivateAddress (ipv4_text a b c d) \<longleftrightarrow> list_ex (in_cidr (ipv4_number a b c d)) private_blocks"
    (is ?plain)
    and "isPrivateAddress (''::ffff:'' @ ipv4_text a b c d) \<longleftrightarrow> list_ex (in_cidr (ipv4_number a b c d)) private_blocks"
    and "isPrivateAddress (''::ffff:'' @ hex_text (a * 256 + b) @ '':'' @ hex_text (c * 256 + d)) \<longleftrightarrow>
       list_ex (in_cidr (ipv4_number a b c d)) private_blocks"
proof -
  have range: "ipv4Private (ipv4_text a b c d) \<longleftrightarrow> list_ex (in_cidr (ipv4_number a b c d)) private_blocks"
    by (simp only: ipv4Private_text [OF assms] in_private_blocks [OF assms])
  then show ?plain using isIPv4_text [OF assms] by (simp add: isPrivateAddress_def isIP_def)
  show "isPrivateAddress (''::ffff:'' @ ipv4_text a b c d) \<longleftrightarrow> list_ex (in_cidr (ipv4_number a b c d)) private_blocks"
    by (simp only: mapped_dotted [OF assms] range)
  show "isPrivateAddress (''::ffff:'' @ hex_text (a * 256 + b) @ '':'' @ hex_text (c * 256 + d)) \<longleftrightarrow>
      list_ex (in_cidr (ipv4_number a b c d)) private_blocks"
    by (simp only: mapped_hex [OF assms] range)
qed

text \<open>
  The private IPv4 addresses are exactly twelve CIDR blocks: for all octets, the guard treats the
  dotted text of the address as private if and only if its 32-bit number lies in one of them. The
  IPv4-mapped IPv6 forms, dotted and hexadecimal, are classified the same way.
\<close>

theorem private_ipv4_ranges:
  assumes "is_octet a" and "is_octet b" and "is_octet c" and "is_octet d"
  shows "(isPrivateAddress (ipv4_text a b c d) \<longleftrightarrow> list_ex (in_cidr (ipv4_number a b c d)) private_blocks)
    \<and> (isPrivateAddress (''::ffff:'' @ ipv4_text a b c d) \<longleftrightarrow> list_ex (in_cidr (ipv4_number a b c d)) private_blocks)
    \<and> (isPrivateAddress (''::ffff:'' @ hex_text (a * 256 + b) @ '':'' @ hex_text (c * 256 + d)) \<longleftrightarrow>
         list_ex (in_cidr (ipv4_number a b c d)) private_blocks)"
  using private_ipv4_texts [OF assms] by blast

theorem private_ipv4_ranges_witness:
  "isPrivateAddress (ipv4_text 172 31 0 9) \<and> \<not> isPrivateAddress (''::ffff:'' @ ipv4_text 172 32 0 9)"
proof -
  have oct: "is_octet 172" "is_octet 31" "is_octet 32" "is_octet 0" "is_octet 9" by (simp_all add: is_octet_def)
  have "list_ex (in_cidr (ipv4_number 172 31 0 9)) private_blocks"
      "\<not> list_ex (in_cidr (ipv4_number 172 32 0 9)) private_blocks" by code_simp+
  with private_ipv4_ranges [OF oct(1,2,4,5)] private_ipv4_ranges [OF oct(1,3,4,5)] show ?thesis by blast
qed


definition sample_url :: URL where
  "sample_url = \<lparr>url_protocol = ''https:'', url_username = [], url_password = [], url_hash = [],
     url_hostname = ''api.example.com'', url_href = ''https://api.example.com/''\<rparr>"

definition sample_options :: BoundedFetchOptions where
  "sample_options = \<lparr>bf_policy = \<lparr>ep_allowedHosts = [''API.example.com.''], ep_allowPrivate = False, ep_errorStatusCode = None\<rparr>,
     bf_timeoutMs = None, bf_maxResponseBytes = Some 4000, bf_label = ''provider''\<rparr>"

definition sample_response :: http_response where
  "sample_response = \<lparr>rs_status = 200, rs_content_length = Some ''2'', rs_content_type = Some ''application/json; charset=utf-8'',
     rs_body = Some \<lparr>rb_events = [Chunk [1], NoValue, Chunk [2]], rb_fails = False\<rparr>\<rparr>"


text \<open>
  The guard compares IPv6 text with compressed forms only: the loopback address written out in full,
  and an IPv4-compatible form of it, are IPv6 addresses and pass as public.
\<close>

theorem uncompressed_loopback_is_public:
  "isIP ''0:0:0:0:0:0:0:1'' = 6 \<and> \<not> isPrivateAddress ''0:0:0:0:0:0:0:1''
   \<and> isIP ''::127.0.0.1'' = 6 \<and> \<not> isPrivateAddress ''::127.0.0.1''"
  by code_simp

end
