(* ===== verification/Rate_Limiter.thy ===== *)
theory Rate_Limiter
  imports Gateway_Db
begin

text \<open>
  \<open>InMemoryRateLimiter\<close> of packages/gateway/src/security.ts: a fixed-window counter per class and
  caller in a \<open>Map\<close> of bounded size. The \<open>Map\<close> is the association list of its entries in insertion
  order: setting a present key keeps its place, a new key goes to the end, and eviction removes expired
  entries and then the oldest ones.

  The clock and window are whole milliseconds, for which the source's division and \<open>Math.ceil\<close> are
  exact. \<open>sha\<close> is SHA-256 in hex, a parameter.
\<close>

section \<open>Model\<close>

datatype RateLimitClass = RAuth | RGeneration | RJob | RObject | RPublic

fun class_text :: "RateLimitClass \<Rightarrow> string" where
  "class_text RAuth = ''auth''"
| "class_text RGeneration = ''generation''"
| "class_text RJob = ''job''"
| "class_text RObject = ''object''"
| "class_text RPublic = ''public''"

record RateLimitPolicy =
  rl_windowMs :: int
  rl_limits :: "RateLimitClass \<Rightarrow> int"

definition DEFAULT_RATE_LIMIT_POLICY :: RateLimitPolicy where
  "DEFAULT_RATE_LIMIT_POLICY =
     \<lparr>rl_windowMs = 60000,
      rl_limits = (\<lambda>k. case k of RAuth \<Rightarrow> 30 | RGeneration \<Rightarrow> 20 | RJob \<Rightarrow> 60 | RObject \<Rightarrow> 120 | RPublic \<Rightarrow> 300)\<rparr>"

record RateBucket =
  rb_count :: int
  rb_resetsAt :: int

record RateLimiter =
  lim_policy :: RateLimitPolicy
  lim_maxBuckets :: nat
  lim_buckets :: "(string \<times> RateBucket) list"

definition new_limiter :: "RateLimitPolicy \<Rightarrow> nat \<Rightarrow> gw_error + RateLimiter" where
  "new_limiter policy maxBuckets =
     (if rl_windowMs policy < 1000 \<or> 86400000 < rl_windowMs policy
      then Inl (PlainError ''rate-limit window must be between 1 second and 24 hours'')
      else
        case find (\<lambda>k. rl_limits policy k < 1 \<or> 1000000 < rl_limits policy k) [RAuth, RGeneration, RJob, RObject, RPublic] of
          Some k \<Rightarrow> Inl (PlainError (''invalid '' @ class_text k @ '' rate limit''))
        | None \<Rightarrow> Inr \<lparr>lim_policy = policy, lim_maxBuckets = maxBuckets, lim_buckets = []\<rparr>)"

definition secretFingerprint :: "(string \<Rightarrow> string) \<Rightarrow> string \<Rightarrow> string" where
  "secretFingerprint sha v = take 16 (sha v)"

definition bucket_key :: "(string \<Rightarrow> string) \<Rightarrow> RateLimitClass \<Rightarrow> string \<Rightarrow> string" where
  "bucket_key sha kind identity = class_text kind @ '':'' @ secretFingerprint sha identity"

fun map_set :: "string \<Rightarrow> 'v \<Rightarrow> (string \<times> 'v) list \<Rightarrow> (string \<times> 'v) list" where
  "map_set k v [] = [(k, v)]"
| "map_set k v ((k', v') # m) = (if k' = k then (k, v) # m else (k', v') # map_set k v m)"

definition evict :: "nat \<Rightarrow> int \<Rightarrow> (string \<times> RateBucket) list \<Rightarrow> (string \<times> RateBucket) list" where
  "evict maxBuckets now m =
     (if length m \<le> maxBuckets then m
      else let live = filter (\<lambda>kv. now < rb_resetsAt (snd kv)) m in drop (length live - maxBuckets) live)"

record RateResult =
  rr_limit :: int
  rr_remaining :: int
  rr_retryAfterSeconds :: int

text \<open>The error carries the three fields and no \<open>code\<close>.\<close>

definition rateLimitError :: "int \<Rightarrow> int \<Rightarrow> gw_error" where
  "rateLimitError limit retryAfter =
     CodedError 429 [] ''rate limit exceeded''
       [(''limit'', JNum (IntN limit)), (''remaining'', JNum (IntN 0)), (''retryAfterSeconds'', JNum (IntN retryAfter))]"

definition ceil_seconds :: "int \<Rightarrow> int" where
  "ceil_seconds ms = - ((- ms) div 1000)"

definition consume ::
  "(string \<Rightarrow> string) \<Rightarrow> int \<Rightarrow> RateLimitClass \<Rightarrow> string \<Rightarrow> RateLimiter \<Rightarrow> (gw_error + RateResult) \<times> RateLimiter" where
  "consume sha now kind identity lm =
     (let limit = rl_limits (lim_policy lm) kind;
          key = bucket_key sha kind identity;
          old = (case map_of (lim_buckets lm) key of
                   Some b \<Rightarrow> (if rb_resetsAt b \<le> now then \<lparr>rb_count = 0, rb_resetsAt = now + rl_windowMs (lim_policy lm)\<rparr> else b)
                 | None \<Rightarrow> \<lparr>rb_count = 0, rb_resetsAt = now + rl_windowMs (lim_policy lm)\<rparr>);
          bucket = old\<lparr>rb_count := rb_count old + 1\<rparr>;
          buckets = evict (lim_maxBuckets lm) now (map_set key bucket (lim_buckets lm));
          lm' = lm\<lparr>lim_buckets := buckets\<rparr>;
          retryAfterSeconds = max 1 (ceil_seconds (rb_resetsAt bucket - now)) in
      if limit < rb_count bucket then (Inl (rateLimitError limit retryAfterSeconds), lm')
      else (Inr \<lparr>rr_limit = limit, rr_remaining = max 0 (limit - rb_count bucket),
                 rr_retryAfterSeconds = retryAfterSeconds\<rparr>, lm'))"

section \<open>The bucket map\<close>

text \<open>The contract of a keyed store that the limiter relies on.\<close>

locale keyed_store =
  fixes lookup :: "'m \<Rightarrow> 'k \<Rightarrow> 'v option"
    and store :: "'k \<Rightarrow> 'v \<Rightarrow> 'm \<Rightarrow> 'm"
    and wf :: "'m \<Rightarrow> bool"
    and entries :: "'m \<Rightarrow> nat"
  assumes lookup_store: "wf m \<Longrightarrow> lookup (store k v m) k' = (if k' = k then Some v else lookup m k')"
    and wf_store: "wf m \<Longrightarrow> wf (store k v m)"
    and entries_store: "wf m \<Longrightarrow> entries (store k v m) = (if lookup m k = None then Suc (entries m) else entries m)"
begin

lemma lookup_store_same: "wf m \<Longrightarrow> lookup (store k v m) k = Some v"
  by (simp add: lookup_store)

lemma lookup_store_other: "wf m \<Longrightarrow> k' \<noteq> k \<Longrightarrow> lookup (store k v m) k' = lookup m k'"
  by (simp add: lookup_store)

lemma store_twice: "wf m \<Longrightarrow> lookup (store k w (store k v m)) = lookup (store k w m)"
  by (auto simp: fun_eq_iff lookup_store wf_store)

lemma entries_le: "wf m \<Longrightarrow> entries (store k v m) \<le> Suc (entries m)"
  by (simp add: entries_store)

end

lemma map_set_keys: "fst ` set (map_set k v m) = insert k (fst ` set m)"
  by (induction k v m rule: map_set.induct) auto

lemma map_set_distinct: "distinct (map fst m) \<Longrightarrow> distinct (map fst (map_set k v m))"
  by (induction k v m rule: map_set.induct) (auto simp: map_set_keys [unfolded image_iff] image_iff)

lemma map_of_map_set: "map_of (map_set k v m) k' = (if k' = k then Some v else map_of m k')"
  by (induction k v m rule: map_set.induct) auto

lemma length_map_set: "length (map_set k v m) = (if map_of m k = None then Suc (length m) else length m)"
  by (induction k v m rule: map_set.induct) auto

interpretation bucket_map: keyed_store map_of map_set "\<lambda>m. distinct (map fst m)" length
  by unfold_locales (simp_all add: map_of_map_set map_set_distinct length_map_set)

section \<open>Eviction\<close>

lemma evict_length: "length (evict n now m) \<le> n"
  by (auto simp: evict_def Let_def)

lemma distinct_keys_filter: "distinct (map fst m) \<Longrightarrow> distinct (map fst (filter P m))"
  by (induction m) auto

lemma evict_distinct: "distinct (map fst m) \<Longrightarrow> distinct (map fst (evict n now m))"
  by (simp add: evict_def Let_def distinct_keys_filter drop_map [symmetric] distinct_drop)

lemma evict_id: "length m \<le> n \<Longrightarrow> evict n now m = m"
  by (simp add: evict_def)

lemma evict_subset: "set (evict n now m) \<subseteq> set m"
  by (auto simp: evict_def Let_def dest: in_set_dropD)

text \<open>The oldest entry still kept is at least as young as any that was dropped while live: the newest
  entry survives whenever there is room for one.\<close>

lemma evict_keeps_newest:
  assumes "0 < n" "now < rb_resetsAt b"
  shows "(k, b) \<in> set (evict n now (m @ [(k, b)]))"
proof (cases "length (m @ [(k, b)]) \<le> n")
  case True
  then show ?thesis by (simp add: evict_id)
next
  case False
  define live where "live = filter (\<lambda>kv. now < rb_resetsAt (snd kv)) m"
  have "filter (\<lambda>kv. now < rb_resetsAt (snd kv)) (m @ [(k, b)]) = live @ [(k, b)]"
    using assms(2) by (simp add: live_def)
  moreover have "length (live @ [(k, b)]) - n \<le> length live" using assms(1) by simp
  ultimately show ?thesis using False by (simp add: evict_def Let_def)
qed

section \<open>Invariant\<close>

definition limiter_inv :: "RateLimiter \<Rightarrow> bool" where
  "limiter_inv lm \<longleftrightarrow>
     distinct (map fst (lim_buckets lm)) \<and> length (lim_buckets lm) \<le> lim_maxBuckets lm
     \<and> (\<forall>b \<in> snd ` set (lim_buckets lm). 1 \<le> rb_count b)"

lemma map_set_values: "snd ` set (map_set k v m) \<subseteq> insert v (snd ` set m)"
  by (induction k v m rule: map_set.induct) auto

lemma consume_frame [simp]:
  "lim_policy (snd (consume sha now kind identity lm)) = lim_policy lm"
  "lim_maxBuckets (snd (consume sha now kind identity lm)) = lim_maxBuckets lm"
  by (simp_all add: consume_def Let_def)

definition next_bucket :: "int \<Rightarrow> int \<Rightarrow> RateBucket option \<Rightarrow> RateBucket" where
  "next_bucket window now current =
     (case current of
        Some b \<Rightarrow> (if rb_resetsAt b \<le> now then \<lparr>rb_count = 1, rb_resetsAt = now + window\<rparr> else b\<lparr>rb_count := rb_count b + 1\<rparr>)
      | None \<Rightarrow> \<lparr>rb_count = 1, rb_resetsAt = now + window\<rparr>)"

lemma consume_run:
  "consume sha now kind identity lm =
     (let key = bucket_key sha kind identity; limit = rl_limits (lim_policy lm) kind;
          b = next_bucket (rl_windowMs (lim_policy lm)) now (map_of (lim_buckets lm) key);
          lm' = lm\<lparr>lim_buckets := evict (lim_maxBuckets lm) now (map_set key b (lim_buckets lm))\<rparr>;
          wait = max 1 (ceil_seconds (rb_resetsAt b - now)) in
      if limit < rb_count b then (Inl (rateLimitError limit wait), lm')
      else (Inr \<lparr>rr_limit = limit, rr_remaining = max 0 (limit - rb_count b), rr_retryAfterSeconds = wait\<rparr>, lm'))"
  by (cases "map_of (lim_buckets lm) (bucket_key sha kind identity)") (simp_all add: consume_def next_bucket_def Let_def)

lemma next_bucket_count: "(\<And>b. cur = Some b \<Longrightarrow> 1 \<le> rb_count b) \<Longrightarrow> 1 \<le> rb_count (next_bucket w now cur)"
  by (auto simp: next_bucket_def split: option.splits)

lemma consume_inv:
  assumes "limiter_inv lm" and "consume sha now kind identity lm = (r, lm')"
  shows "limiter_inv lm'"
proof -
  define key where "key = bucket_key sha kind identity"
  define b where "b = next_bucket (rl_windowMs (lim_policy lm)) now (map_of (lim_buckets lm) key)"
  have lm': "lm' = lm\<lparr>lim_buckets := evict (lim_maxBuckets lm) now (map_set key b (lim_buckets lm))\<rparr>"
    using assms(2) unfolding consume_run Let_def key_def [symmetric] b_def [symmetric] by (auto split: if_splits)
  have "1 \<le> rb_count b"
    unfolding b_def by (rule next_bucket_count) (use assms(1) in \<open>force simp: limiter_inv_def dest: map_of_SomeD\<close>)
  then have "\<forall>x \<in> snd ` set (map_set key b (lim_buckets lm)). 1 \<le> rb_count x"
    using map_set_values [of key b "lim_buckets lm"] assms(1) unfolding limiter_inv_def by blast
  then show ?thesis
    using assms(1) evict_subset [of "lim_maxBuckets lm" now "map_set key b (lim_buckets lm)"]
    by (auto simp: lm' limiter_inv_def evict_length evict_distinct map_set_distinct)
qed

section \<open>Runs within one window\<close>

type_synonym rate_call = "int \<times> RateLimitClass \<times> string"

definition call_key :: "(string \<Rightarrow> string) \<Rightarrow> rate_call \<Rightarrow> string" where
  "call_key sha c = bucket_key sha (fst (snd c)) (snd (snd c))"

fun run_calls :: "(string \<Rightarrow> string) \<Rightarrow> rate_call list \<Rightarrow> RateLimiter \<Rightarrow> (gw_error + RateResult) list" where
  "run_calls sha [] lm = []"
| "run_calls sha ((t, kind, identity) # cs) lm =
     (case consume sha t kind identity lm of (r, lm') \<Rightarrow> r # run_calls sha cs lm')"

lemma length_run_calls [simp]: "length (run_calls sha cs lm) = length cs"
  by (induction sha cs lm rule: run_calls.induct) (auto split: prod.splits)

text \<open>The state after \<open>n k\<close> calls under each key \<open>k\<close>, all in the window that starts at \<open>t0\<close>.\<close>

definition counts :: "int \<Rightarrow> (string \<Rightarrow> nat) \<Rightarrow> RateLimiter \<Rightarrow> bool" where
  "counts t0 n lm \<longleftrightarrow>
     distinct (map fst (lim_buckets lm))
     \<and> (\<forall>k. case map_of (lim_buckets lm) k of
            None \<Rightarrow> n k = 0
          | Some b \<Rightarrow> 0 < n k \<and> rb_count b = int (n k) \<and> t0 + rl_windowMs (lim_policy lm) \<le> rb_resetsAt b)"

lemma counts_keys: "counts t0 n lm \<Longrightarrow> fst ` set (lim_buckets lm) = {k. 0 < n k}"
  by (auto simp: counts_def dom_map_of_conv_image_fst [symmetric] dom_def split: option.splits)

lemma counts_length: "counts t0 n lm \<Longrightarrow> length (lim_buckets lm) = card {k. 0 < n k}"
  using counts_keys [of t0 n lm] distinct_card [of "map fst (lim_buckets lm)"] by (simp add: counts_def)

lemma counts_step:
  assumes inv: "counts t0 n lm" and time: "t0 \<le> t" "t < t0 + rl_windowMs (lim_policy lm)"
    and room: "card (insert (bucket_key sha kind identity) {k. 0 < n k}) \<le> lim_maxBuckets lm"
    and run: "consume sha t kind identity lm = (r, lm')"
  shows "counts t0 (n(bucket_key sha kind identity := Suc (n (bucket_key sha kind identity)))) lm'"
    and "isOk r \<longleftrightarrow> int (n (bucket_key sha kind identity)) < rl_limits (lim_policy lm) kind"
proof -
  define key where "key = bucket_key sha kind identity"
  define b where "b = next_bucket (rl_windowMs (lim_policy lm)) t (map_of (lim_buckets lm) key)"
  have dist: "distinct (map fst (lim_buckets lm))" using inv by (simp add: counts_def)
  have at: "case map_of (lim_buckets lm) k of None \<Rightarrow> n k = 0
      | Some b \<Rightarrow> 0 < n k \<and> rb_count b = int (n k) \<and> t0 + rl_windowMs (lim_policy lm) \<le> rb_resetsAt b" for k
    using inv unfolding counts_def by blast
  have b: "rb_count b = int (Suc (n key))" "t0 + rl_windowMs (lim_policy lm) \<le> rb_resetsAt b"
    using at [of key] time by (auto simp: b_def next_bucket_def split: option.splits)
  have keys: "fst ` set (map_set key b (lim_buckets lm)) = insert key {k. 0 < n k}"
    by (simp add: map_set_keys counts_keys [OF inv])
  have "length (map_set key b (lim_buckets lm)) = card (insert key {k. 0 < n k})"
    using distinct_card [OF map_set_distinct [OF dist], of key b] keys by simp
  then have noevict: "evict (lim_maxBuckets lm) t (map_set key b (lim_buckets lm)) = map_set key b (lim_buckets lm)"
    using room by (intro evict_id) (simp add: key_def)
  have lm': "lm' = lm\<lparr>lim_buckets := map_set key b (lim_buckets lm)\<rparr>"
    using run unfolding consume_run Let_def key_def [symmetric] b_def [symmetric] noevict by (auto split: if_splits)
  show "counts t0 (n(bucket_key sha kind identity := Suc (n (bucket_key sha kind identity)))) lm'"
    unfolding counts_def lm' key_def [symmetric]
  proof (intro conjI allI)
    fix k
    show "case map_of (lim_buckets (lm\<lparr>lim_buckets := map_set key b (lim_buckets lm)\<rparr>)) k of
        None \<Rightarrow> (n(key := Suc (n key))) k = 0
      | Some b' \<Rightarrow> 0 < (n(key := Suc (n key))) k \<and> rb_count b' = int ((n(key := Suc (n key))) k)
          \<and> t0 + rl_windowMs (lim_policy (lm\<lparr>lim_buckets := map_set key b (lim_buckets lm)\<rparr>)) \<le> rb_resetsAt b'"
      using at [of k] b by (cases "k = key") (auto simp: map_of_map_set split: option.splits)
  qed (simp add: map_set_distinct dist)
  show "isOk r \<longleftrightarrow> int (n (bucket_key sha kind identity)) < rl_limits (lim_policy lm) kind"
    using run b(1) unfolding consume_run Let_def key_def [symmetric] b_def [symmetric] by (auto split: if_splits)
qed

lemma run_calls_exact:
  assumes "counts t0 n lm"
    and "\<forall>c \<in> set cs. t0 \<le> fst c \<and> fst c < t0 + rl_windowMs (lim_policy lm)"
    and "card ({k. 0 < n k} \<union> call_key sha ` set cs) \<le> lim_maxBuckets lm" and "finite {k. 0 < n k}"
    and "i < length cs"
  shows "isOk (run_calls sha cs lm ! i) \<longleftrightarrow>
     int (n (call_key sha (cs ! i)) + length (filter (\<lambda>c. call_key sha c = call_key sha (cs ! i)) (take i cs)))
       < rl_limits (lim_policy lm) (fst (snd (cs ! i)))"
  using assms
proof (induction cs arbitrary: n lm i)
  case (Cons c cs)
  obtain t kind identity where c: "c = (t, kind, identity)" by (cases c)
  obtain r lm' where run: "consume sha t kind identity lm = (r, lm')" by (cases "consume sha t kind identity lm")
  define key where "key = bucket_key sha kind identity"
  have ck: "call_key sha c = key" by (simp add: c key_def call_key_def)
  have sub: "insert key {k. 0 < n k} \<subseteq> {k. 0 < n k} \<union> call_key sha ` set (c # cs)" using ck by auto
  have room: "card (insert key {k. 0 < n k}) \<le> lim_maxBuckets lm"
    using card_mono [OF _ sub] Cons.prems(3,4) by simp
  note step = counts_step [OF Cons.prems(1) _ _ room [unfolded key_def] run, folded key_def]
  have in_window: "t0 \<le> t" "t < t0 + rl_windowMs (lim_policy lm)" using Cons.prems(2) by (simp_all add: c)
  have frame: "lim_policy lm' = lim_policy lm" "lim_maxBuckets lm' = lim_maxBuckets lm"
    using consume_frame [of sha t kind identity lm] run by simp_all
  define n' where "n' = n(key := Suc (n key))"
  have pos: "{k. 0 < n' k} = insert key {k. 0 < n k}" by (auto simp: n'_def)
  show ?case
  proof (cases i)
    case 0
    then show ?thesis using step(2) [OF in_window] ck run by (simp add: c)
  next
    case (Suc j)
    have "{k. 0 < n' k} \<union> call_key sha ` set cs = {k. 0 < n k} \<union> call_key sha ` set (c # cs)"
      using ck pos by auto
    then have "isOk (run_calls sha cs lm' ! j) \<longleftrightarrow>
       int (n' (call_key sha (cs ! j)) + length (filter (\<lambda>c. call_key sha c = call_key sha (cs ! j)) (take j cs)))
         < rl_limits (lim_policy lm') (fst (snd (cs ! j)))"
      using Cons.prems Suc step(1) [OF in_window] frame pos
      by (intro Cons.IH) (simp_all add: n'_def [symmetric])
    then show ?thesis using Suc ck run frame by (auto simp: c n'_def)
  qed
qed simp

lemma new_limiter_Inr:
  assumes "new_limiter policy maxBuckets = Inr lm"
  shows "lm = \<lparr>lim_policy = policy, lim_maxBuckets = maxBuckets, lim_buckets = []\<rparr>"
    and "1000 \<le> rl_windowMs policy" and "rl_windowMs policy \<le> 86400000"
    and "1 \<le> rl_limits policy k" and "rl_limits policy k \<le> 1000000"
proof -
  from assms have none: "find (\<lambda>k. rl_limits policy k < 1 \<or> 1000000 < rl_limits policy k)
      [RAuth, RGeneration, RJob, RObject, RPublic] = None"
    by (auto simp: new_limiter_def split: if_splits option.splits)
  have "k \<in> set [RAuth, RGeneration, RJob, RObject, RPublic]" by (cases k) simp_all
  with none have "\<not> (rl_limits policy k < 1 \<or> 1000000 < rl_limits policy k)" unfolding find_None_iff by blast
  then show "1 \<le> rl_limits policy k" "rl_limits policy k \<le> 1000000" by simp_all
  from assms none show "lm = \<lparr>lim_policy = policy, lim_maxBuckets = maxBuckets, lim_buckets = []\<rparr>"
    "1000 \<le> rl_windowMs policy" "rl_windowMs policy \<le> 86400000"
    by (simp_all add: new_limiter_def split: if_splits)
qed

lemma ceil_seconds_bounds: "ms \<le> 1000 * ceil_seconds ms" "1000 * ceil_seconds ms < ms + 1000"
proof -
  have "(- ms) div 1000 * 1000 + (- ms) mod 1000 = - ms" by (rule div_mult_mod_eq)
  moreover have "0 \<le> (- ms) mod 1000" "(- ms) mod 1000 < 1000" by simp_all
  ultimately show "ms \<le> 1000 * ceil_seconds ms" "1000 * ceil_seconds ms < ms + 1000"
    unfolding ceil_seconds_def by linarith+
qed

section \<open>Properties\<close>

text \<open>
  C26. The limit is exact within a window: from a new limiter, for any sequence of calls that fall into
  one window and use at most as many keys as the limiter holds buckets, a call is accepted if and only
  if fewer calls than the limit of its class were made before it under its key.
\<close>

theorem rate_limit_exact_in_window:
  assumes "new_limiter policy maxBuckets = Inr lm"
    and "\<forall>c \<in> set calls. t0 \<le> fst c \<and> fst c < t0 + rl_windowMs policy"
    and "card (call_key sha ` set calls) \<le> maxBuckets" and "i < length calls"
  shows "isOk (run_calls sha calls lm ! i) \<longleftrightarrow>
     int (length (filter (\<lambda>c. call_key sha c = call_key sha (calls ! i)) (take i calls)))
       < rl_limits policy (fst (snd (calls ! i)))"
proof -
  note lm = new_limiter_Inr(1) [OF assms(1)]
  have "counts t0 (\<lambda>_. 0) lm" by (simp add: counts_def lm)
  from run_calls_exact [OF this _ _ _ assms(4), of sha] assms(2,3) show ?thesis by (simp add: lm)
qed

theorem rate_limit_exact_in_window_witness:
  "isOk (run_calls (\<lambda>x. x) (replicate 30 (5, RAuth, ''ip'')) \<lparr>lim_policy = DEFAULT_RATE_LIMIT_POLICY, lim_maxBuckets = 2, lim_buckets = []\<rparr> ! 29)
   \<and> \<not> isOk (run_calls (\<lambda>x. x) (replicate 31 (5, RAuth, ''ip'')) \<lparr>lim_policy = DEFAULT_RATE_LIMIT_POLICY, lim_maxBuckets = 2, lim_buckets = []\<rparr> ! 30)"
proof -
  have new: "new_limiter DEFAULT_RATE_LIMIT_POLICY 2 = Inr \<lparr>lim_policy = DEFAULT_RATE_LIMIT_POLICY, lim_maxBuckets = 2, lim_buckets = []\<rparr>"
    by (simp add: new_limiter_def DEFAULT_RATE_LIMIT_POLICY_def)
  have keys: "card (call_key (\<lambda>x. x) ` set (replicate n (5, RAuth, ''ip''))) \<le> 2" for n
    by (simp add: set_replicate_conv_if)
  show ?thesis
    using rate_limit_exact_in_window [OF new _ keys, of 30 5 29] rate_limit_exact_in_window [OF new _ keys, of 31 5 30]
    by (simp add: DEFAULT_RATE_LIMIT_POLICY_def take_replicate filter_replicate)
qed

text \<open>
  The limiter's memory is bounded: every call, accepted or refused, keeps the keys distinct, the
  number of buckets within the maximum and every count positive.
\<close>

theorem rate_limiter_bounded:
  assumes "limiter_inv lm" and "consume sha now kind identity lm = (r, lm')"
  shows "limiter_inv lm' \<and> length (lim_buckets lm') \<le> lim_maxBuckets lm"
proof -
  have "lim_maxBuckets lm' = lim_maxBuckets lm" using consume_frame(2) [of sha now kind identity lm] assms(2) by simp
  with consume_inv [OF assms] show ?thesis by (simp add: limiter_inv_def)
qed

theorem rate_limiter_bounded_witness:
  "length (lim_buckets (snd (consume (\<lambda>x. x) 5 RAuth ''ip''
     \<lparr>lim_policy = DEFAULT_RATE_LIMIT_POLICY, lim_maxBuckets = 1,
      lim_buckets = [(''job:old'', \<lparr>rb_count = 3, rb_resetsAt = 900\<rparr>)]\<rparr>))) \<le> 1"
  using rate_limiter_bounded [of "\<lparr>lim_policy = DEFAULT_RATE_LIMIT_POLICY, lim_maxBuckets = 1,
      lim_buckets = [(''job:old'', \<lparr>rb_count = 3, rb_resetsAt = 900\<rparr>)]\<rparr>" "\<lambda>x. x" 5 RAuth "''ip''"]
  by (simp add: limiter_inv_def prod_eq_iff)

text \<open>
  C27. The retry hint is honest: a refused call names a wait of at least one second, at most one second
  more than the window, and after that wait the next call of the same caller is accepted.
\<close>

theorem rate_limit_retry_after:
  assumes "limiter_inv lm" and "1 \<le> rl_limits (lim_policy lm) kind"
    and "consume sha now kind identity lm = (Inl e, lm')"
  shows "\<exists>wait. e = rateLimitError (rl_limits (lim_policy lm) kind) wait \<and> 1 \<le> wait
     \<and> (\<forall>later \<ge> now + 1000 * wait. isOk (fst (consume sha later kind identity lm')))"
proof -
  define key where "key = bucket_key sha kind identity"
  define b where "b = next_bucket (rl_windowMs (lim_policy lm)) now (map_of (lim_buckets lm) key)"
  define wait where "wait = max 1 (ceil_seconds (rb_resetsAt b - now))"
  have e: "e = rateLimitError (rl_limits (lim_policy lm) kind) wait"
    and lm': "lm' = lm\<lparr>lim_buckets := evict (lim_maxBuckets lm) now (map_set key b (lim_buckets lm))\<rparr>"
    using assms(3) unfolding consume_run Let_def key_def [symmetric] b_def [symmetric] wait_def [symmetric]
    by (auto split: if_splits)
  have reset: "rb_resetsAt b \<le> later" if "now + 1000 * wait \<le> later" for later
    using ceil_seconds_bounds(1) [of "rb_resetsAt b - now"] that by (auto simp: wait_def)
  have cur: "x = b" if "map_of (lim_buckets lm') key = Some x" for x
  proof -
    have "(key, x) \<in> set (map_set key b (lim_buckets lm))"
      using map_of_SomeD [OF that] evict_subset unfolding lm' by auto
    moreover have "distinct (map fst (map_set key b (lim_buckets lm)))"
      using assms(1) by (simp add: limiter_inv_def map_set_distinct)
    ultimately have "map_of (map_set key b (lim_buckets lm)) key = Some x" by simp
    then show ?thesis by (simp add: map_of_map_set)
  qed
  have "isOk (fst (consume sha later kind identity lm'))" if "now + 1000 * wait \<le> later" for later
  proof -
    have "rb_count (next_bucket (rl_windowMs (lim_policy lm)) later (map_of (lim_buckets lm') key)) = 1"
      using cur reset [OF that] by (auto simp: next_bucket_def split: option.splits)
    then show ?thesis
      using assms(2) unfolding consume_run Let_def key_def [symmetric] by (simp add: lm')
  qed
  with e show ?thesis by (intro exI [of _ wait]) (auto simp: wait_def)
qed

theorem rate_limit_retry_after_witness:
  "\<exists>wait. 1 \<le> wait \<and> isOk (fst (consume (\<lambda>x. x) (5 + 1000 * wait) RAuth ''ip''
     (snd (consume (\<lambda>x. x) 5 RAuth ''ip'' \<lparr>lim_policy = DEFAULT_RATE_LIMIT_POLICY, lim_maxBuckets = 4,
        lim_buckets = [(''auth:ip'', \<lparr>rb_count = 30, rb_resetsAt = 60000\<rparr>)]\<rparr>))))"
proof -
  let ?lm = "\<lparr>lim_policy = DEFAULT_RATE_LIMIT_POLICY, lim_maxBuckets = 4,
        lim_buckets = [(''auth:ip'', \<lparr>rb_count = 30, rb_resetsAt = 60000\<rparr>)]\<rparr>"
  have "consume (\<lambda>x. x) 5 RAuth ''ip'' ?lm = (Inl (rateLimitError 30 60), snd (consume (\<lambda>x. x) 5 RAuth ''ip'' ?lm))"
    by (simp add: consume_def bucket_key_def secretFingerprint_def DEFAULT_RATE_LIMIT_POLICY_def ceil_seconds_def)
  from rate_limit_retry_after [OF _ _ this] show ?thesis
    by (auto simp: limiter_inv_def DEFAULT_RATE_LIMIT_POLICY_def)
qed

end
