(* ===== verification/Deployment_Ladder.thy ===== *)
theory Deployment_Ladder
  imports Js_Text
begin

text \<open>
  The deployment-ladder client of the studio, packages/studio/src/deploymentLadder.ts: the rehearsal
  goes through the stages SITL, HITL, constrained and free operation, one at a time, each with its own
  physical confirmation. The desktop process that keeps the ladder is not trusted: it is the parameter
  \<open>ladder_runtime\<close>, an arbitrary function from a command and its arguments to a value or a failure, and
  every status it answers is checked before the studio uses it. A thrown \<open>Error\<close> is its message.
\<close>

section \<open>Constants\<close>

definition DEPLOYMENT_LADDER_SCHEMA_VERSION :: string where
  "DEPLOYMENT_LADDER_SCHEMA_VERSION = ''forge-deployment-ladder/1.0.0''"

definition DEPLOYMENT_LADDER_CONTROL_SCHEMA_VERSION :: string where
  "DEPLOYMENT_LADDER_CONTROL_SCHEMA_VERSION = ''forge-deployment-ladder-control/1.0.0''"

definition DEPLOYMENT_LADDER_MATURITY :: string where
  "DEPLOYMENT_LADDER_MATURITY = ''local-ux-rehearsal''"

definition DEPLOYMENT_LADDER_START_CONFIRMATION :: string where
  "DEPLOYMENT_LADDER_START_CONFIRMATION =
     ''I confirm this is a rehearsal-only ladder session and grants no hardware authority''"

definition DEPLOYMENT_LADDER_END_CONFIRMATION :: string where
  "DEPLOYMENT_LADDER_END_CONFIRMATION =
     ''I confirm this rehearsal is ended and no hardware authority was granted''"

definition DEPLOYMENT_LADDER_POLICY_RATE_HZ :: int where "DEPLOYMENT_LADDER_POLICY_RATE_HZ = 50"
definition DEPLOYMENT_LADDER_SUPERVISOR_RATE_HZ :: int where "DEPLOYMENT_LADDER_SUPERVISOR_RATE_HZ = 200"
definition DEPLOYMENT_LADDER_FALLBACK :: string where "DEPLOYMENT_LADDER_FALLBACK = ''position-hold-or-manual''"

record ladder_stage =
  st_id :: string
  st_label :: string
  st_requires :: "string list"
  st_transitionConfirmation :: "string option"

definition DEPLOYMENT_LADDER_STAGES :: "ladder_stage list" where
  "DEPLOYMENT_LADDER_STAGES =
    [\<lparr>st_id = ''sitl'', st_label = ''SITL'',
      st_requires = [''admitted model'', ''exportable scorecard'', ''passing supervisor check''],
      st_transitionConfirmation = None\<rparr>,
     \<lparr>st_id = ''hitl'', st_label = ''HITL'',
      st_requires = [''SITL pass'', ''real controller connected'', ''timing report''],
      st_transitionConfirmation = Some
        ''I physically confirm the controller is bench-connected, actuators are disabled, and the supervisor fallback is ready''\<rparr>,
     \<lparr>st_id = ''constrained'', st_label = ''Constrained Reality'',
      st_requires = [''HITL pass'', ''physical restraint'', ''observer'', ''hardware kill switch''],
      st_transitionConfirmation = Some
        ''I physically confirm the restraint, observer, hardware kill switch, and supervisor fallback are ready''\<rparr>,
     \<lparr>st_id = ''free'', st_label = ''Free Operation'',
      st_requires = [''constrained pass'', ''declared envelope'', ''fresh battery'', ''telemetry recording''],
      st_transitionConfirmation = Some
        ''I physically confirm the declared envelope, observer, hardware kill switch, fresh battery, telemetry recording, and supervisor fallback are ready''\<rparr>]"

definition STATUS_FIELDS :: "string list" where
  "STATUS_FIELDS =
    [''schemaVersion'', ''contractSchemaVersion'', ''state'', ''rehearsalMaturity'', ''sessionId'',
     ''referenceRigId'', ''modelId'', ''contractHash'', ''lockfileHash'', ''policyArtifactId'',
     ''supervisorJobId'', ''currentStage'', ''nextStage'', ''acknowledgedStages'', ''stageOrder'',
     ''physicalConfirmationStages'', ''transitionCount'', ''policyRateHz'', ''supervisorRateHz'',
     ''firmwareRateLoopUntouched'', ''missedInferenceFallback'', ''policyAdvisory'',
     ''supervisorAuthority'', ''noAutoArm'', ''clientEvidenceBound'', ''deploymentEvidenceVerified'',
     ''physicalConfirmationEvidenceVerified'', ''hardwareExecutionAuthorized'', ''deviceIdentityVerified'',
     ''fieldSessionVerified'', ''externalBetaEnabled'']"

definition STAGE_ORDER :: "string list" where
  "STAGE_ORDER = map st_id DEPLOYMENT_LADDER_STAGES"

definition PHYSICAL_STAGES :: "string list" where
  "PHYSICAL_STAGES = drop 1 STAGE_ORDER"

section \<open>Checks on single values\<close>

definition isSafeId :: "jsval \<Rightarrow> bool" where
  "isSafeId v =
     (case v of
        JStr s \<Rightarrow> 1 \<le> length s \<and> length s \<le> 128 \<and> list_all (\<lambda>c. is_alnum c \<or> c \<in> set ''._-'') s
      | _ \<Rightarrow> False)"

definition isD12Rig :: "jsval \<Rightarrow> bool" where
  "isD12Rig v \<longleftrightarrow> strict_eq v (JStr ''ref_quad_kakute-h7-source-one-5in'')
     \<or> strict_eq v (JStr ''ref_rover_waveshare-ugv-rover-pt-pi5-ros2'')"

definition isStage :: "jsval \<Rightarrow> bool" where
  "isStage v = (case v of JStr s \<Rightarrow> s \<in> set STAGE_ORDER | _ \<Rightarrow> False)"

text \<open>\<open>STAGE_ORDER.indexOf(v)\<close>, with -1 for a value that is no stage.\<close>

fun index_from :: "int \<Rightarrow> string list \<Rightarrow> jsval \<Rightarrow> int" where
  "index_from i [] v = -1"
| "index_from i (s # ss) v = (if strict_eq (JStr s) v then i else index_from (i + 1) ss v)"

definition stage_index :: "jsval \<Rightarrow> int" where
  "stage_index v = index_from 0 STAGE_ORDER v"

definition stage_at :: "int \<Rightarrow> string option" where
  "stage_at i = (if 0 \<le> i \<and> i < int (length STAGE_ORDER) then Some (STAGE_ORDER ! nat i) else None)"

definition nextDeploymentStage :: "jsval \<Rightarrow> string + string" where
  "nextDeploymentStage stage =
     (case stage_at (stage_index stage + 1) of
        None \<Rightarrow> Inl ''free operation is the final deployment-ladder stage''
      | Some nxt \<Rightarrow>
          if nxt = ''sitl'' then Inl ''free operation is the final deployment-ladder stage'' else Inr nxt)"

definition confirmationForStage :: "string \<Rightarrow> string + string" where
  "confirmationForStage stage =
     (case find (\<lambda>c. st_id c = stage) DEPLOYMENT_LADDER_STAGES of
        None \<Rightarrow> Inl (''deployment-ladder stage '' @ stage @ '' has no physical confirmation'')
      | Some entry \<Rightarrow>
          (case st_transitionConfirmation entry of
             None \<Rightarrow> Inl (''deployment-ladder stage '' @ stage @ '' has no physical confirmation'')
           | Some text \<Rightarrow> Inr text))"

section \<open>Parsing a status\<close>

definition requireExactFields :: "jsval \<Rightarrow> string list \<Rightarrow> string \<Rightarrow> string + unit" where
  "requireExactFields v expected label =
     (if \<not> isRecord v then Inl (label @ '' must be an object'')
      else if \<not> exactFields v expected then Inl (label @ '' fields have drifted'')
      else Inr ())"

definition identity_fields :: "string list" where
  "identity_fields = [''sessionId'', ''referenceRigId'', ''modelId'', ''contractHash'', ''lockfileHash'',
     ''policyArtifactId'', ''supervisorJobId'', ''currentStage'']"

definition safe_id_fields :: "string list" where
  "safe_id_fields = [''sessionId'', ''modelId'', ''policyArtifactId'', ''supervisorJobId'']"

definition status_contract :: "jsval \<Rightarrow> bool" where
  "status_contract v \<longleftrightarrow>
     strict_eq (getProp v ''schemaVersion'') (JStr DEPLOYMENT_LADDER_CONTROL_SCHEMA_VERSION)
     \<and> strict_eq (getProp v ''contractSchemaVersion'') (JStr DEPLOYMENT_LADDER_SCHEMA_VERSION)
     \<and> strict_eq (getProp v ''rehearsalMaturity'') (JStr DEPLOYMENT_LADDER_MATURITY)
     \<and> (strict_eq (getProp v ''state'') (JStr ''inactive'') \<or> strict_eq (getProp v ''state'') (JStr ''rehearsing'')
        \<or> strict_eq (getProp v ''state'') (JStr ''rehearsal-complete''))"

definition status_rates :: "jsval \<Rightarrow> bool" where
  "status_rates v \<longleftrightarrow>
     strict_eq (getProp v ''policyRateHz'') (JNum (IntN DEPLOYMENT_LADDER_POLICY_RATE_HZ))
     \<and> strict_eq (getProp v ''supervisorRateHz'') (JNum (IntN DEPLOYMENT_LADDER_SUPERVISOR_RATE_HZ))
     \<and> strict_eq (getProp v ''firmwareRateLoopUntouched'') (JBool True)
     \<and> strict_eq (getProp v ''missedInferenceFallback'') (JStr DEPLOYMENT_LADDER_FALLBACK)"

definition is_boolean :: "jsval \<Rightarrow> bool" where
  "is_boolean v = (case v of JBool _ \<Rightarrow> True | _ \<Rightarrow> False)"

definition status_authority :: "jsval \<Rightarrow> bool" where
  "status_authority v \<longleftrightarrow>
     strict_eq (getProp v ''policyAdvisory'') (JBool True)
     \<and> strict_eq (getProp v ''supervisorAuthority'') (JBool True)
     \<and> strict_eq (getProp v ''noAutoArm'') (JBool True)
     \<and> is_boolean (getProp v ''clientEvidenceBound'')
     \<and> strict_eq (getProp v ''deploymentEvidenceVerified'') (JBool False)
     \<and> strict_eq (getProp v ''physicalConfirmationEvidenceVerified'') (JBool False)
     \<and> strict_eq (getProp v ''hardwareExecutionAuthorized'') (JBool False)
     \<and> strict_eq (getProp v ''deviceIdentityVerified'') (JBool False)
     \<and> strict_eq (getProp v ''fieldSessionVerified'') (JBool False)
     \<and> strict_eq (getProp v ''externalBetaEnabled'') (JBool False)"

definition check_inactive :: "jsval \<Rightarrow> string + unit" where
  "check_inactive v =
     (if list_ex (\<lambda>field. \<not> strict_eq (getProp v field) JNull) identity_fields
      then Inl ''inactive Desktop deployment-ladder status contains rehearsal identity''
      else if \<not> strict_eq (getProp v ''nextStage'') (JStr ''sitl'') \<or> \<not> sameStringArray (getProp v ''acknowledgedStages'') []
           \<or> \<not> strict_eq (getProp v ''transitionCount'') (JNum (IntN 0))
           \<or> \<not> strict_eq (getProp v ''clientEvidenceBound'') (JBool False)
      then Inl ''inactive Desktop deployment-ladder status contains rehearsal progress''
      else Inr ())"

definition opt_str :: "string option \<Rightarrow> jsval" where
  "opt_str t = (case t of None \<Rightarrow> JNull | Some s \<Rightarrow> JStr s)"

definition check_active :: "jsval \<Rightarrow> string + unit" where
  "check_active v =
     (case find (\<lambda>field. \<not> isSafeId (getProp v field)) safe_id_fields of
        Some field \<Rightarrow> Inl (''Desktop deployment-ladder '' @ field @ '' is invalid'')
      | None \<Rightarrow>
          if \<not> isD12Rig (getProp v ''referenceRigId'') \<or> \<not> isSha256 (getProp v ''contractHash'')
             \<or> \<not> isSha256 (getProp v ''lockfileHash'') \<or> \<not> isStage (getProp v ''currentStage'')
          then Inl ''active Desktop deployment-ladder identity is invalid''
          else let index = stage_index (getProp v ''currentStage'');
                   expectedNext = stage_at (index + 1)
               in if \<not> strict_eq (getProp v ''nextStage'') (opt_str expectedNext)
                     \<or> \<not> sameStringArray (getProp v ''acknowledgedStages'') (take (nat (index + 1)) STAGE_ORDER)
                     \<or> \<not> strict_eq (getProp v ''transitionCount'') (JNum (IntN index))
                     \<or> \<not> strict_eq (getProp v ''clientEvidenceBound'') (JBool True)
                     \<or> strict_eq (getProp v ''state'') (JStr ''rehearsal-complete'')
                         \<noteq> strict_eq (getProp v ''currentStage'') (JStr ''free'')
                  then Inl ''active Desktop deployment-ladder progress is not a contiguous prefix''
                  else Inr ())"

definition parseDeploymentLadderStatus :: "jsval \<Rightarrow> string + jsval" where
  "parseDeploymentLadderStatus v =
     bindE (requireExactFields v STATUS_FIELDS ''Desktop deployment-ladder status'') (\<lambda>_.
     bindE (guardE (status_contract v) ''Desktop deployment-ladder status declares an unsupported contract or state'') (\<lambda>_.
     bindE (guardE (sameStringArray (getProp v ''stageOrder'') STAGE_ORDER
              \<and> sameStringArray (getProp v ''physicalConfirmationStages'') PHYSICAL_STAGES)
            ''Desktop deployment-ladder stage order or confirmation scope has drifted'') (\<lambda>_.
     bindE (guardE (status_rates v) ''Desktop deployment-ladder D9 control-rate authority has drifted'') (\<lambda>_.
     bindE (guardE (status_authority v) ''Desktop deployment-ladder status promotes unsupported authority'') (\<lambda>_.
     bindE (if strict_eq (getProp v ''state'') (JStr ''inactive'') then check_inactive v else check_active v) (\<lambda>_.
     Inr v))))))"

definition isPassingSupervisorDecision :: "jsval \<Rightarrow> bool" where
  "isPassingSupervisorDecision v \<longleftrightarrow>
     isRecord v \<and> exactFields v [''allowPolicy'', ''artifactKind'', ''command'', ''rateHz'', ''reasons'']
     \<and> strict_eq (getProp v ''artifactKind'') (JStr ''supervisor-decision'')
     \<and> strict_eq (getProp v ''allowPolicy'') (JBool True)
     \<and> strict_eq (getProp v ''command'') (JStr ''policy-advisory'')
     \<and> getProp v ''reasons'' = JArr []
     \<and> isRecord (getProp v ''rateHz'') \<and> exactFields (getProp v ''rateHz'') [''policyAdvisory'', ''supervisor'']
     \<and> strict_eq (getProp (getProp v ''rateHz'') ''policyAdvisory'') (JNum (IntN DEPLOYMENT_LADDER_POLICY_RATE_HZ))
     \<and> strict_eq (getProp (getProp v ''rateHz'') ''supervisor'') (JNum (IntN DEPLOYMENT_LADDER_SUPERVISOR_RATE_HZ))"

section \<open>The client's commands\<close>

record ladder_runtime =
  lr_available :: bool
  lr_invoke :: "string \<Rightarrow> jsval \<Rightarrow> string + jsval"

definition desktopDeploymentLadderAvailable :: "ladder_runtime \<Rightarrow> bool" where
  "desktopDeploymentLadderAvailable rt = lr_available rt"

definition requireDesktop :: "ladder_runtime \<Rightarrow> string + unit" where
  "requireDesktop rt = guardE (lr_available rt) ''deployment-ladder controls require FORGE Desktop''"

definition getDeploymentLadderStatus :: "ladder_runtime \<Rightarrow> string + jsval" where
  "getDeploymentLadderStatus rt =
     bindE (requireDesktop rt) (\<lambda>_.
     bindE (lr_invoke rt ''deployment_ladder_status'' JUndef) parseDeploymentLadderStatus)"

definition validateStartRequest :: "jsval \<Rightarrow> string + jsval" where
  "validateStartRequest request =
     (if \<not> isRecord request then Inl ''Desktop deployment-ladder start request must be an object''
      else case find (\<lambda>field. \<not> isSafeId (getProp request field)) safe_id_fields of
             Some field \<Rightarrow> Inl (''Desktop deployment-ladder '' @ field @ '' must use 1 through 128 safe ASCII characters'')
           | None \<Rightarrow>
               if isD12Rig (getProp request ''referenceRigId'') \<and> isSha256 (getProp request ''contractHash'')
                  \<and> isSha256 (getProp request ''lockfileHash'')
                  \<and> strict_eq (getProp request ''policyExportGate'') (JStr ''exportable'')
                  \<and> strict_eq (getProp request ''supervisorDecision'') (JStr ''policy-advisory'')
                  \<and> strict_eq (getProp request ''supervisorAllowPolicy'') (JBool True)
                  \<and> strict_eq (getProp request ''policyRateHz'') (JNum (IntN DEPLOYMENT_LADDER_POLICY_RATE_HZ))
                  \<and> strict_eq (getProp request ''supervisorRateHz'') (JNum (IntN DEPLOYMENT_LADDER_SUPERVISOR_RATE_HZ))
                  \<and> strict_eq (getProp request ''firmwareRateLoopUntouched'') (JBool True)
                  \<and> strict_eq (getProp request ''missedInferenceFallback'') (JStr DEPLOYMENT_LADDER_FALLBACK)
                  \<and> strict_eq (getProp request ''physicalConfirmation'') (JStr DEPLOYMENT_LADDER_START_CONFIRMATION)
               then Inr request
               else Inl ''Desktop deployment-ladder start request is outside the D9/D12 rehearsal contract'')"

definition bound_fields :: "string list" where
  "bound_fields = [''sessionId'', ''referenceRigId'', ''modelId'', ''contractHash'', ''lockfileHash'',
     ''policyArtifactId'', ''supervisorJobId'']"

definition same_fields :: "string list \<Rightarrow> jsval \<Rightarrow> jsval \<Rightarrow> bool" where
  "same_fields names v w \<longleftrightarrow> list_all (\<lambda>field. strict_eq (getProp v field) (getProp w field)) names"

definition startDeploymentLadder :: "jsval \<Rightarrow> ladder_runtime \<Rightarrow> string + jsval" where
  "startDeploymentLadder request rt =
     bindE (requireDesktop rt) (\<lambda>_.
     bindE (validateStartRequest request) (\<lambda>normalized.
     bindE (lr_invoke rt ''start_deployment_ladder'' (JObj [(''request'', normalized)])) (\<lambda>answer.
     bindE (parseDeploymentLadderStatus answer) (\<lambda>status.
     if \<not> strict_eq (getProp status ''state'') (JStr ''rehearsing'')
        \<or> \<not> strict_eq (getProp status ''currentStage'') (JStr ''sitl'')
        \<or> \<not> same_fields bound_fields status normalized
     then Inl ''Desktop deployment-ladder start status does not match the bounded rehearsal request''
     else Inr status))))"

fun number_of :: "jsval \<Rightarrow> jsnum" where
  "number_of (JNum n) = n"
| "number_of _ = NaN"

definition advanceDeploymentLadder :: "jsval \<Rightarrow> jsval \<Rightarrow> ladder_runtime \<Rightarrow> string + jsval" where
  "advanceDeploymentLadder expectedStatus request rt =
     bindE (requireDesktop rt) (\<lambda>_.
     if strict_eq (getProp expectedStatus ''state'') (JStr ''inactive'')
        \<or> strict_eq (getProp expectedStatus ''sessionId'') JNull
        \<or> strict_eq (getProp expectedStatus ''currentStage'') JNull
        \<or> strict_eq (getProp expectedStatus ''nextStage'') JNull
     then Inl ''no advanceable Desktop deployment-ladder rehearsal is active''
     else
       bindE (nextDeploymentStage (getProp expectedStatus ''currentStage'')) (\<lambda>expectedNext.
       bindE (confirmationForStage expectedNext) (\<lambda>confirmation.
       if \<not> strict_eq (getProp request ''sessionId'') (getProp expectedStatus ''sessionId'')
          \<or> \<not> strict_eq (getProp request ''fromStage'') (getProp expectedStatus ''currentStage'')
          \<or> \<not> strict_eq (getProp request ''toStage'') (JStr expectedNext)
          \<or> \<not> strict_eq (getProp request ''physicalConfirmation'') (JStr confirmation)
       then Inl ''Desktop deployment-ladder advance request must name the exact next stage and physical confirmation''
       else
         bindE (lr_invoke rt ''advance_deployment_ladder'' (JObj [(''request'', request)])) (\<lambda>answer.
         bindE (parseDeploymentLadderStatus answer) (\<lambda>status.
         if \<not> same_fields bound_fields status expectedStatus
            \<or> \<not> strict_eq (getProp status ''currentStage'') (JStr expectedNext)
            \<or> \<not> strict_eq (getProp status ''transitionCount'')
                 (JNum (num_add (number_of (getProp expectedStatus ''transitionCount'')) (IntN 1)))
         then Inl ''Desktop deployment-ladder transition status drifted from the active rehearsal''
         else Inr status)))))"

definition resetDeploymentLadder :: "jsval \<Rightarrow> ladder_runtime \<Rightarrow> string + jsval" where
  "resetDeploymentLadder expectedStatus rt =
     bindE (requireDesktop rt) (\<lambda>_.
     if strict_eq (getProp expectedStatus ''state'') (JStr ''inactive'')
        \<or> strict_eq (getProp expectedStatus ''sessionId'') JNull
     then Inl ''no Desktop deployment-ladder rehearsal is active''
     else
       let request = JObj [(''sessionId'', getProp expectedStatus ''sessionId''),
             (''physicalConfirmation'', JStr DEPLOYMENT_LADDER_END_CONFIRMATION)]
       in bindE (lr_invoke rt ''reset_deployment_ladder'' (JObj [(''request'', request)])) (\<lambda>answer.
          bindE (parseDeploymentLadderStatus answer) (\<lambda>status.
          if \<not> strict_eq (getProp status ''state'') (JStr ''inactive'')
             \<or> \<not> strict_eq (getProp status ''sessionId'') JNull
             \<or> \<not> strict_eq (getProp status ''currentStage'') JNull
          then Inl ''Desktop deployment-ladder reset did not return to inactive non-authority''
          else Inr status)))"

end
