(* ===== verification/Ladder_Claims.thy ===== *)
theory Ladder_Claims
  imports Deployment_Ladder Js_Number
begin

text \<open>
  Properties of the deployment-ladder client: which statuses it accepts, that no stage is skipped and no
  confirmation left out whatever the desktop process answers, and that a rehearsal can be completed.
\<close>

section \<open>Stages\<close>

lemma STAGE_ORDER_eq: "STAGE_ORDER = [''sitl'', ''hitl'', ''constrained'', ''free'']"
  by (simp add: STAGE_ORDER_def DEPLOYMENT_LADDER_STAGES_def)

lemma length_STAGE_ORDER [simp]: "length STAGE_ORDER = 4"
  by (simp add: STAGE_ORDER_eq)

lemma below_4: "(i :: nat) < 4 \<longleftrightarrow> i \<in> {0, 1, 2, 3}"
  by auto

lemma stage_index_nth: "i < 4 \<Longrightarrow> stage_index (JStr (STAGE_ORDER ! i)) = int i"
  by (auto simp: below_4 stage_index_def STAGE_ORDER_eq)

lemma isStage_iff: "isStage v \<longleftrightarrow> (\<exists>i < 4. v = JStr (STAGE_ORDER ! i))"
  by (cases v) (auto simp: isStage_def in_set_conv_nth)

lemma stage_at_nth: "stage_at (int i) = (if i < 4 then Some (STAGE_ORDER ! i) else None)"
  by (simp add: stage_at_def)

lemma stage_inj: "i < 4 \<Longrightarrow> j < 4 \<Longrightarrow> STAGE_ORDER ! i = STAGE_ORDER ! j \<longleftrightarrow> i = j"
  by (auto simp: below_4 STAGE_ORDER_eq)

lemma free_iff: "i < 4 \<Longrightarrow> STAGE_ORDER ! i = ''free'' \<longleftrightarrow> i = 3"
  by (auto simp: below_4 STAGE_ORDER_eq)

text \<open>The confirmation required before each of the three later stages.\<close>

definition confirmations :: "string list" where
  "confirmations = List.map_filter st_transitionConfirmation DEPLOYMENT_LADDER_STAGES"

lemma length_confirmations [simp]: "length confirmations = 3"
  by (simp add: confirmations_def DEPLOYMENT_LADDER_STAGES_def List.map_filter_def)

lemma stage_after:
  assumes i: "i < 4"
  shows "stage_at (stage_index (JStr (STAGE_ORDER ! i)) + 1) = (if i < 3 then Some (STAGE_ORDER ! Suc i) else None)"
    and "nat (stage_index (JStr (STAGE_ORDER ! i)) + 1) = Suc i"
proof -
  have eq: "stage_index (JStr (STAGE_ORDER ! i)) + 1 = int (Suc i)" by (simp add: stage_index_nth [OF i])
  show "stage_at (stage_index (JStr (STAGE_ORDER ! i)) + 1) = (if i < 3 then Some (STAGE_ORDER ! Suc i) else None)"
    unfolding eq stage_at_nth using i by simp
  show "nat (stage_index (JStr (STAGE_ORDER ! i)) + 1) = Suc i" unfolding eq by simp
qed

lemma nextDeploymentStage_nth:
  assumes "i < 4"
  shows "nextDeploymentStage (JStr (STAGE_ORDER ! i)) =
     (if i < 3 then Inr (STAGE_ORDER ! Suc i) else Inl ''free operation is the final deployment-ladder stage'')"
proof -
  have "STAGE_ORDER ! Suc i \<noteq> ''sitl''" if "i < 3"
    using stage_inj [of "Suc i" 0] that by (simp add: STAGE_ORDER_eq)
  then show ?thesis using assms by (simp add: nextDeploymentStage_def stage_after)
qed

lemma confirmationForStage_nth:
  "i < 3 \<Longrightarrow> confirmationForStage (STAGE_ORDER ! Suc i) = Inr (confirmations ! i)"
proof -
  assume "i < 3"
  then consider "i = 0" | "i = 1" | "i = 2" by linarith
  then show ?thesis
    by cases (simp_all add: confirmationForStage_def STAGE_ORDER_eq confirmations_def DEPLOYMENT_LADDER_STAGES_def
        List.map_filter_def)
qed

section \<open>The accepted statuses\<close>

definition constant_fields :: "(string \<times> jsval) list" where
  "constant_fields =
    [(''schemaVersion'', JStr ''forge-deployment-ladder-control/1.0.0''),
     (''contractSchemaVersion'', JStr ''forge-deployment-ladder/1.0.0''),
     (''rehearsalMaturity'', JStr ''local-ux-rehearsal''),
     (''stageOrder'', JArr (map JStr STAGE_ORDER)),
     (''physicalConfirmationStages'', JArr (map JStr PHYSICAL_STAGES)),
     (''policyRateHz'', JNum (IntN 50)), (''supervisorRateHz'', JNum (IntN 200)),
     (''firmwareRateLoopUntouched'', JBool True), (''missedInferenceFallback'', JStr ''position-hold-or-manual''),
     (''policyAdvisory'', JBool True), (''supervisorAuthority'', JBool True), (''noAutoArm'', JBool True),
     (''deploymentEvidenceVerified'', JBool False), (''physicalConfirmationEvidenceVerified'', JBool False),
     (''hardwareExecutionAuthorized'', JBool False), (''deviceIdentityVerified'', JBool False),
     (''fieldSessionVerified'', JBool False), (''externalBetaEnabled'', JBool False)]"

definition has_fields :: "(string \<times> jsval) list \<Rightarrow> jsval \<Rightarrow> bool" where
  "has_fields kvs v \<longleftrightarrow> list_all (\<lambda>(k, c). getProp v k = c) kvs"

definition ladder_idle :: "jsval \<Rightarrow> bool" where
  "ladder_idle v \<longleftrightarrow>
     has_fields ([(''state'', JStr ''inactive''), (''nextStage'', JStr ''sitl''), (''acknowledgedStages'', JArr []),
       (''transitionCount'', JNum (IntN 0)), (''clientEvidenceBound'', JBool False)]
       @ map (\<lambda>field. (field, JNull)) identity_fields) v"

definition valid_identity :: "jsval \<Rightarrow> bool" where
  "valid_identity v \<longleftrightarrow>
     list_all (\<lambda>field. isSafeId (getProp v field)) safe_id_fields
     \<and> isD12Rig (getProp v ''referenceRigId'') \<and> isSha256 (getProp v ''contractHash'') \<and> isSha256 (getProp v ''lockfileHash'')"

definition stage_fields :: "nat \<Rightarrow> (string \<times> jsval) list" where
  "stage_fields i =
    [(''state'', JStr (if i = 3 then ''rehearsal-complete'' else ''rehearsing'')),
     (''currentStage'', JStr (STAGE_ORDER ! i)),
     (''nextStage'', if i = 3 then JNull else JStr (STAGE_ORDER ! Suc i)),
     (''acknowledgedStages'', JArr (map JStr (take (Suc i) STAGE_ORDER))),
     (''transitionCount'', JNum (IntN (int i))), (''clientEvidenceBound'', JBool True)]"

definition ladder_at :: "nat \<Rightarrow> jsval \<Rightarrow> bool" where
  "ladder_at i v \<longleftrightarrow> i < 4 \<and> valid_identity v \<and> has_fields (stage_fields i) v"

lemma ladder_atD:
  assumes "ladder_at i v"
  shows "i < 4" "getProp v ''currentStage'' = JStr (STAGE_ORDER ! i)" "getProp v ''transitionCount'' = JNum (IntN (int i))"
    "getProp v ''nextStage'' = (if i = 3 then JNull else JStr (STAGE_ORDER ! Suc i))"
    "getProp v ''state'' = JStr (if i = 3 then ''rehearsal-complete'' else ''rehearsing'')"
  using assms by (simp_all add: ladder_at_def has_fields_def stage_fields_def)

lemma check_inactive_Inr:
  "getProp v ''state'' = JStr ''inactive'' \<Longrightarrow> check_inactive v = Inr u \<longleftrightarrow> ladder_idle v"
  by (simp add: check_inactive_def ladder_idle_def has_fields_def list_ex_iff list_all_iff js_simps sameStringArray_iff)

lemma find_bad_None: "find (\<lambda>x. \<not> P x) xs = None \<longleftrightarrow> list_all P xs"
  by (auto simp: find_None_iff list_all_iff)

lemma strict_eq_opt_str [simp]: "strict_eq v (opt_str t) \<longleftrightarrow> v = opt_str t"
  by (cases t) (simp_all add: opt_str_def js_simps)

lemma check_active_Inr:
  assumes "getProp v ''state'' = JStr ''rehearsing'' \<or> getProp v ''state'' = JStr ''rehearsal-complete''"
  shows "check_active v = Inr u \<longleftrightarrow> (\<exists>i. ladder_at i v)"
proof -
  have "check_active v = Inr u \<longleftrightarrow> valid_identity v \<and> isStage (getProp v ''currentStage'')
      \<and> (\<exists>i. stage_index (getProp v ''currentStage'') = i \<and> getProp v ''nextStage'' = opt_str (stage_at (i + 1))
           \<and> getProp v ''acknowledgedStages'' = JArr (map JStr (take (nat (i + 1)) STAGE_ORDER))
           \<and> getProp v ''transitionCount'' = JNum (IntN i) \<and> getProp v ''clientEvidenceBound'' = JBool True
           \<and> (getProp v ''state'' = JStr ''rehearsal-complete'' \<longleftrightarrow> getProp v ''currentStage'' = JStr ''free''))"
  proof (cases "list_all (\<lambda>field. isSafeId (getProp v field)) safe_id_fields")
    case True
    then have "find (\<lambda>field. \<not> isSafeId (getProp v field)) safe_id_fields = None" by (simp only: find_bad_None)
    with True show ?thesis
      by (simp add: check_active_def valid_identity_def js_simps sameStringArray_iff Let_def) blast
  next
    case False
    then obtain field where "find (\<lambda>field. \<not> isSafeId (getProp v field)) safe_id_fields = Some field"
      by (metis find_bad_None not_Some_eq)
    with False show ?thesis by (simp add: check_active_def valid_identity_def)
  qed
  also have "\<dots> \<longleftrightarrow> (\<exists>i. ladder_at i v)"
  proof
    assume L: "valid_identity v \<and> isStage (getProp v ''currentStage'')
      \<and> (\<exists>i. stage_index (getProp v ''currentStage'') = i \<and> getProp v ''nextStage'' = opt_str (stage_at (i + 1))
           \<and> getProp v ''acknowledgedStages'' = JArr (map JStr (take (nat (i + 1)) STAGE_ORDER))
           \<and> getProp v ''transitionCount'' = JNum (IntN i) \<and> getProp v ''clientEvidenceBound'' = JBool True
           \<and> (getProp v ''state'' = JStr ''rehearsal-complete'' \<longleftrightarrow> getProp v ''currentStage'' = JStr ''free''))"
    then obtain i where i: "i < 4" and cur: "getProp v ''currentStage'' = JStr (STAGE_ORDER ! i)"
      by (auto simp: isStage_iff)
    have "stage_at (stage_index (getProp v ''currentStage'') + 1) = (if i < 3 then Some (STAGE_ORDER ! Suc i) else None)"
      "nat (stage_index (getProp v ''currentStage'') + 1) = Suc i" "stage_index (getProp v ''currentStage'') = int i"
      using stage_after [OF i] stage_index_nth [OF i] by (simp_all only: cur)
    with L have "getProp v ''nextStage'' = opt_str (if i < 3 then Some (STAGE_ORDER ! Suc i) else None)"
      "getProp v ''acknowledgedStages'' = JArr (map JStr (take (Suc i) STAGE_ORDER))"
      "getProp v ''transitionCount'' = JNum (IntN (int i))" "getProp v ''clientEvidenceBound'' = JBool True"
      "getProp v ''state'' = JStr ''rehearsal-complete'' \<longleftrightarrow> getProp v ''currentStage'' = JStr ''free''"
      by metis+
    with L i cur assms have "ladder_at i v"
      unfolding ladder_at_def has_fields_def stage_fields_def
      by (auto simp: opt_str_def free_iff)
    then show "\<exists>i. ladder_at i v" ..
  next
    assume "\<exists>i. ladder_at i v"
    then obtain i where at: "ladder_at i v" ..
    note f = ladder_atD [OF at]
    have ix: "stage_at (stage_index (getProp v ''currentStage'') + 1) = (if i < 3 then Some (STAGE_ORDER ! Suc i) else None)"
      "nat (stage_index (getProp v ''currentStage'') + 1) = Suc i" "stage_index (getProp v ''currentStage'') = int i"
      using stage_after [OF f(1)] stage_index_nth [OF f(1)] by (simp_all only: f(2))
    have fields: "getProp v ''nextStage'' = opt_str (if i < 3 then Some (STAGE_ORDER ! Suc i) else None)"
      "getProp v ''acknowledgedStages'' = JArr (map JStr (take (Suc i) STAGE_ORDER))"
      "getProp v ''transitionCount'' = JNum (IntN (int i))" "getProp v ''clientEvidenceBound'' = JBool True"
      "getProp v ''state'' = JStr ''rehearsal-complete'' \<longleftrightarrow> getProp v ''currentStage'' = JStr ''free''"
      "isStage (getProp v ''currentStage'')" "valid_identity v"
      using at f free_iff [OF f(1)] by (auto simp: ladder_at_def has_fields_def stage_fields_def opt_str_def isStage_iff)
    show "valid_identity v \<and> isStage (getProp v ''currentStage'')
      \<and> (\<exists>i. stage_index (getProp v ''currentStage'') = i \<and> getProp v ''nextStage'' = opt_str (stage_at (i + 1))
           \<and> getProp v ''acknowledgedStages'' = JArr (map JStr (take (nat (i + 1)) STAGE_ORDER))
           \<and> getProp v ''transitionCount'' = JNum (IntN i) \<and> getProp v ''clientEvidenceBound'' = JBool True
           \<and> (getProp v ''state'' = JStr ''rehearsal-complete'' \<longleftrightarrow> getProp v ''currentStage'' = JStr ''free''))"
      by (intro conjI exI [of _ "int i"] fields)
        (simp_all only: ix(3) fields(1,2) ix(1,2) [unfolded ix(3)])
  qed
  finally show ?thesis .
qed

lemma parse_Inr_iff:
  "parseDeploymentLadderStatus v = Inr s \<longleftrightarrow>
     s = v \<and> isRecord v \<and> sort (objectKeys v) = sort STATUS_FIELDS \<and> has_fields constant_fields v
     \<and> (ladder_idle v \<or> (\<exists>i. ladder_at i v))"
proof -
  let ?three = "getProp v ''state'' = JStr ''inactive'' \<or> getProp v ''state'' = JStr ''rehearsing''
      \<or> getProp v ''state'' = JStr ''rehearsal-complete''"
  let ?rest = "(if getProp v ''state'' = JStr ''inactive'' then check_inactive v else check_active v)"
  have "parseDeploymentLadderStatus v = Inr s \<longleftrightarrow>
     s = v \<and> isRecord v \<and> exactFields v STATUS_FIELDS \<and> (has_fields constant_fields v \<and> is_boolean (getProp v ''clientEvidenceBound'') \<and> ?three)
     \<and> ?rest = Inr ()"
    unfolding parseDeploymentLadderStatus_def bindE_Inr guardE_Inr requireExactFields_def status_contract_def status_rates_def
      status_authority_def has_fields_def constant_fields_def js_simps sameStringArray_iff
    by (auto simp: DEPLOYMENT_LADDER_CONTROL_SCHEMA_VERSION_def DEPLOYMENT_LADDER_SCHEMA_VERSION_def DEPLOYMENT_LADDER_MATURITY_def
        DEPLOYMENT_LADDER_POLICY_RATE_HZ_def DEPLOYMENT_LADDER_SUPERVISOR_RATE_HZ_def DEPLOYMENT_LADDER_FALLBACK_def)
  moreover have "is_boolean (getProp v ''clientEvidenceBound'') \<and> ?three \<and> ?rest = Inr () \<longleftrightarrow>
      ladder_idle v \<or> (\<exists>i. ladder_at i v)"
  proof (cases "getProp v ''state'' = JStr ''inactive''")
    case True
    then have "\<not> (\<exists>i. ladder_at i v)" by (auto dest: ladder_atD(5) split: if_splits)
    with True show ?thesis
      by (auto simp: check_inactive_Inr ladder_idle_def has_fields_def is_boolean_def)
  next
    case False
    then have "\<not> ladder_idle v" by (simp add: ladder_idle_def has_fields_def)
    moreover have "ladder_at i v \<Longrightarrow> is_boolean (getProp v ''clientEvidenceBound'') \<and> ?three" for i
      by (auto simp: ladder_at_def has_fields_def stage_fields_def is_boolean_def)
    moreover have "check_active v = Inr () \<Longrightarrow> ?three \<Longrightarrow> (\<exists>i. ladder_at i v)"
      using False check_active_Inr by auto
    moreover have "?three \<Longrightarrow> ladder_at i v \<Longrightarrow> check_active v = Inr ()" for i
      using False check_active_Inr by auto
    ultimately show ?thesis using False by (simp only: if_False) blast
  qed
  ultimately show ?thesis by (auto simp: exactFields_sort)
qed


section \<open>Rehearsals\<close>

text \<open>A rehearsal is a start followed by advances, each made with the status the call before it returned.
  Every call may meet a different runtime. The list holds the advance requests so far.\<close>

inductive ladder_run :: "jsval list \<Rightarrow> jsval \<Rightarrow> bool" where
  ladder_start: "startDeploymentLadder request rt = Inr s \<Longrightarrow> ladder_run [] s"
| ladder_advance: "ladder_run rs s \<Longrightarrow> advanceDeploymentLadder s request rt = Inr s' \<Longrightarrow> ladder_run (rs @ [request]) s'"

lemma start_Inr:
  assumes "startDeploymentLadder request rt = Inr s"
  shows "ladder_at 0 s" "has_fields constant_fields s" "validateStartRequest request = Inr request"
    "same_fields bound_fields s request" "lr_available rt"
proof -
  from assms obtain n a where n: "validateStartRequest request = Inr n" and p: "parseDeploymentLadderStatus a = Inr s"
    and st: "getProp s ''state'' = JStr ''rehearsing''" and cur: "getProp s ''currentStage'' = JStr ''sitl''"
    and same: "same_fields bound_fields s n" and av: "lr_available rt"
    by (auto simp: startDeploymentLadder_def requireDesktop_def resE js_simps)
  have "n = request" using n by (auto simp: validateStartRequest_def split: if_splits option.splits)
  with n same show "validateStartRequest request = Inr request" "same_fields bound_fields s request" by simp_all
  from p have "has_fields constant_fields s" and "ladder_idle s \<or> (\<exists>i. ladder_at i s)" by (auto simp: parse_Inr_iff)
  with st obtain i where at: "ladder_at i s" by (auto simp: ladder_idle_def has_fields_def)
  with cur have "STAGE_ORDER ! i = STAGE_ORDER ! 0" by (auto dest: ladder_atD(2) simp: STAGE_ORDER_eq)
  with at show "ladder_at 0 s" by (metis ladder_atD(1) stage_inj zero_less_numeral)
  show "has_fields constant_fields s" by fact
  show "lr_available rt" by (rule av)
qed

lemma advance_Inr:
  assumes "advanceDeploymentLadder s request rt = Inr s'" and "ladder_at i s"
  shows "i < 3" "ladder_at (Suc i) s'" "has_fields constant_fields s'" "same_fields bound_fields s' s"
    "getProp request ''sessionId'' = getProp s ''sessionId''"
    "getProp request ''physicalConfirmation'' = JStr (confirmations ! i)"
proof -
  note at = ladder_atD [OF assms(2)]
  from assms(1) obtain nxt conf a where nxt: "nextDeploymentStage (getProp s ''currentStage'') = Inr nxt"
    and conf: "confirmationForStage nxt = Inr conf" and p: "parseDeploymentLadderStatus a = Inr s'"
    and sid: "strict_eq (getProp request ''sessionId'') (getProp s ''sessionId'')"
    and pc: "getProp request ''physicalConfirmation'' = JStr conf"
    and same: "same_fields bound_fields s' s" and cur: "getProp s' ''currentStage'' = JStr nxt"
    by (auto simp: advanceDeploymentLadder_def resE js_simps)
  show i: "i < 3" using nxt nextDeploymentStage_nth [OF at(1)] by (simp add: at(2) split: if_splits)
  have nxt': "nxt = STAGE_ORDER ! Suc i" using nxt nextDeploymentStage_nth [OF at(1)] i by (simp add: at(2))
  with conf confirmationForStage_nth [OF i] pc
  show "getProp request ''physicalConfirmation'' = JStr (confirmations ! i)" by simp
  have "isSafeId (getProp s ''sessionId'')"
    using assms(2) by (simp add: ladder_at_def valid_identity_def safe_id_fields_def)
  with sid show "getProp request ''sessionId'' = getProp s ''sessionId''"
    by (auto simp: isSafeId_def js_simps split: jsval.splits)
  from p have con: "has_fields constant_fields s'" and "ladder_idle s' \<or> (\<exists>i. ladder_at i s')" by (auto simp: parse_Inr_iff)
  with cur obtain j where atj: "ladder_at j s'" by (auto simp: ladder_idle_def has_fields_def identity_fields_def)
  with cur nxt' have "STAGE_ORDER ! j = STAGE_ORDER ! Suc i" by (auto dest: ladder_atD(2))
  with atj i have "j = Suc i" using ladder_atD(1) [OF atj] stage_inj [of j "Suc i"] by simp
  with atj show "ladder_at (Suc i) s'" by simp
  show "has_fields constant_fields s'" by (rule con)
  show "same_fields bound_fields s' s" by (rule same)
qed

lemma ladder_run_facts:
  assumes "ladder_run rs s"
  shows "ladder_at (length rs) s \<and> has_fields constant_fields s
    \<and> map (\<lambda>r. getProp r ''physicalConfirmation'') rs = map JStr (take (length rs) confirmations)
    \<and> list_all (\<lambda>r. getProp r ''sessionId'' = getProp s ''sessionId'') rs"
  using assms
proof (induction rule: ladder_run.induct)
  case (ladder_start request rt s)
  then show ?case by (simp add: start_Inr)
next
  case (ladder_advance rs s request rt s')
  then have at: "ladder_at (length rs) s" by simp
  note adv = advance_Inr [OF ladder_advance.hyps(2) at]
  have "isSafeId (getProp s ''sessionId'')"
    using at by (simp add: ladder_at_def valid_identity_def safe_id_fields_def)
  then have "getProp s' ''sessionId'' = getProp s ''sessionId''"
    using adv(4) by (auto simp: same_fields_def bound_fields_def isSafeId_def js_simps split: jsval.splits)
  with ladder_advance.IH adv show ?case by (simp add: take_Suc_conv_app_nth)
qed

section \<open>Properties\<close>

text \<open>
  The status parser accepts exactly the documented statuses: the listed keys and no others, the
  fixed schema, control rates and refusals of authority, and either the empty idle ladder or a ladder
  at one of the four stages whose acknowledged stages, next stage, transition count and state all
  follow from that stage.
\<close>

theorem ladder_status_accepted_iff:
  "parseDeploymentLadderStatus v = Inr s \<longleftrightarrow>
     s = v \<and> isRecord v \<and> sort (objectKeys v) = sort STATUS_FIELDS \<and> has_fields constant_fields v
     \<and> (ladder_idle v \<or> (\<exists>i. ladder_at i v))"
  by (rule parse_Inr_iff)

text \<open>
  C28. No stage of the ladder is skipped, whatever the desktop process answers: after \<open>n\<close> accepted
  advances the rehearsal is at stage \<open>n\<close> of SITL, HITL, constrained, free; there are at most three
  advances; the \<open>k\<close>-th of them carried the confirmation text of stage \<open>k\<close> and the session of the
  rehearsal; and the status never grants hardware execution.
\<close>

theorem ladder_no_stage_skipped:
  assumes "ladder_run rs s"
  shows "length rs \<le> 3 \<and> getProp s ''currentStage'' = JStr (STAGE_ORDER ! length rs)
    \<and> getProp s ''transitionCount'' = JNum (IntN (int (length rs)))
    \<and> map (\<lambda>r. getProp r ''physicalConfirmation'') rs = map JStr (take (length rs) confirmations)
    \<and> list_all (\<lambda>r. getProp r ''sessionId'' = getProp s ''sessionId'') rs
    \<and> getProp s ''hardwareExecutionAuthorized'' = JBool False"
proof -
  note run = ladder_run_facts [OF assms]
  then have "ladder_at (length rs) s" by simp
  note at = ladder_atD [OF this]
  have "getProp s ''hardwareExecutionAuthorized'' = JBool False"
    using run by (simp add: has_fields_def constant_fields_def)
  with run at show ?thesis by simp
qed

text \<open>A status at a given stage, with the identity fields of a request.\<close>

definition status_json :: "jsval \<Rightarrow> nat \<Rightarrow> jsval" where
  "status_json ids i = JObj (constant_fields @ stage_fields i @ map (\<lambda>field. (field, getProp ids field)) bound_fields)"

definition advance_request :: "jsval \<Rightarrow> nat \<Rightarrow> jsval" where
  "advance_request ids i = JObj [(''sessionId'', getProp ids ''sessionId''), (''fromStage'', JStr (STAGE_ORDER ! i)),
     (''toStage'', JStr (STAGE_ORDER ! Suc i)), (''physicalConfirmation'', JStr (confirmations ! i))]"


definition status_keys :: "string list" where
  "status_keys = map fst constant_fields @ map fst (stage_fields 0) @ bound_fields"

lemma status_keys_facts: "distinct status_keys" "sort status_keys = sort STATUS_FIELDS"
  by code_simp+

lemma keys_status_json: "objectKeys (status_json ids i) = status_keys"
  by (simp add: status_json_def status_keys_def stage_fields_def comp_def)

lemma status_json_prop:
  assumes "(k, v) \<in> set (constant_fields @ stage_fields i @ map (\<lambda>field. (field, getProp ids field)) bound_fields)"
  shows "getProp (status_json ids i) k = v"
proof -
  have "distinct (map fst (constant_fields @ stage_fields i @ map (\<lambda>field. (field, getProp ids field)) bound_fields))"
    using status_keys_facts(1) keys_status_json [of ids i] by (simp add: status_json_def)
  then have "map_of (constant_fields @ stage_fields i @ map (\<lambda>field. (field, getProp ids field)) bound_fields) k = Some v"
    using assms by (rule map_of_is_SomeI)
  then show ?thesis unfolding status_json_def by (simp only: getProp.simps option.case)
qed

lemma has_fields_status_json:
  "set kvs \<subseteq> set (constant_fields @ stage_fields i) \<Longrightarrow> has_fields kvs (status_json ids i)"
  unfolding has_fields_def list_all_iff by (auto intro!: status_json_prop)

lemma status_json_bound: "field \<in> set bound_fields \<Longrightarrow> getProp (status_json ids i) field = getProp ids field"
  by (rule status_json_prop) auto

lemma status_json_at:
  assumes "i < 4" "valid_identity ids"
  shows "ladder_at i (status_json ids i)"
proof -
  have "set safe_id_fields \<union> {''referenceRigId'', ''contractHash'', ''lockfileHash''} \<subseteq> set bound_fields"
    by (simp add: safe_id_fields_def bound_fields_def)
  then have "valid_identity (status_json ids i)"
    using assms(2) by (auto simp: valid_identity_def list_all_iff status_json_bound subset_iff)
  with assms(1) show ?thesis by (simp add: ladder_at_def has_fields_status_json)
qed

lemma parse_status_json:
  assumes "i < 4" "valid_identity ids"
  shows "parseDeploymentLadderStatus (status_json ids i) = Inr (status_json ids i)"
proof -
  have "isRecord (status_json ids i)" by (simp add: status_json_def)
  then show ?thesis
    using status_json_at [OF assms] status_keys_facts(2)
    by (auto simp: parse_Inr_iff keys_status_json has_fields_status_json)
qed

lemma identity_strings:
  assumes "valid_identity ids" "field \<in> set bound_fields"
  shows "\<exists>t. getProp ids field = JStr t"
  using assms
  by (auto simp: valid_identity_def bound_fields_def safe_id_fields_def isD12Rig_def isSha256_iff js_simps isSafeId_def
      split: jsval.splits)

lemma status_json_same:
  assumes "valid_identity ids"
  shows "same_fields bound_fields (status_json ids i) (status_json ids j)"
  unfolding same_fields_def list_all_iff
proof
  fix field
  assume f: "field \<in> set bound_fields"
  with assms identity_strings obtain t where "getProp ids field = JStr t" by blast
  with f show "strict_eq (getProp (status_json ids i) field) (getProp (status_json ids j) field)"
    by (simp add: status_json_bound)
qed

text \<open>
  The ladder can be climbed: from stage \<open>i\<close> of a rehearsal with a valid identity, the request that
  names the next stage and its confirmation is accepted and leads to the next stage, whenever the
  desktop process answers it with the status of that stage.
\<close>

theorem ladder_can_advance:
  assumes "valid_identity ids" and "i < 3" and "lr_available rt"
    and "lr_invoke rt ''advance_deployment_ladder'' (JObj [(''request'', advance_request ids i)]) = Inr (status_json ids (Suc i))"
  shows "advanceDeploymentLadder (status_json ids i) (advance_request ids i) rt = Inr (status_json ids (Suc i))"
proof -
  let ?s = "status_json ids i" and ?s' = "status_json ids (Suc i)"
  note at = ladder_atD [OF status_json_at [OF _ assms(1), of i]] and at' = ladder_atD [OF status_json_at [OF _ assms(1), of "Suc i"]]
  have i: "i < 4" "Suc i < 4" "i \<noteq> 3" using assms(2) by auto
  obtain t where sid: "getProp ?s ''sessionId'' = JStr t" "getProp ids ''sessionId'' = JStr t"
    using identity_strings [OF assms(1), of "''sessionId''"] status_json_bound [of "''sessionId''" ids i]
    by (auto simp: bound_fields_def)
  have req: "getProp (advance_request ids i) ''sessionId'' = JStr t"
    "getProp (advance_request ids i) ''fromStage'' = JStr (STAGE_ORDER ! i)"
    "getProp (advance_request ids i) ''toStage'' = JStr (STAGE_ORDER ! Suc i)"
    "getProp (advance_request ids i) ''physicalConfirmation'' = JStr (confirmations ! i)"
    by (simp_all add: advance_request_def sid)
  have next1: "nextDeploymentStage (getProp ?s ''currentStage'') = Inr (STAGE_ORDER ! Suc i)"
    using nextDeploymentStage_nth [OF i(1)] assms(2) by (simp add: at(2) i)
  have count: "num_add (number_of (getProp ?s ''transitionCount'')) (IntN 1) = IntN (int (Suc i))"
    using fl64_of_int [of "int i + 1"] assms(2) by (simp add: at(3) i add.commute)
  show ?thesis
    unfolding advanceDeploymentLadder_def requireDesktop_def count next1
    using assms(3,4) i
    by (simp add: js_simps at at' req sid confirmationForStage_nth [OF assms(2)] parse_status_json [OF _ assms(1)]
        status_json_same [OF assms(1)])
qed


section \<open>Concrete instances\<close>

definition sample_start :: jsval where
  "sample_start = JObj
    [(''sessionId'', JStr ''s-1''), (''referenceRigId'', JStr ''ref_quad_kakute-h7-source-one-5in''),
     (''modelId'', JStr ''m-1''), (''contractHash'', JStr (replicate 64 (CHR ''a''))),
     (''lockfileHash'', JStr (replicate 64 (CHR ''b''))), (''policyArtifactId'', JStr ''p-1''),
     (''policyExportGate'', JStr ''exportable''), (''supervisorJobId'', JStr ''j-1''),
     (''supervisorDecision'', JStr ''policy-advisory''), (''supervisorAllowPolicy'', JBool True),
     (''policyRateHz'', JNum (IntN 50)), (''supervisorRateHz'', JNum (IntN 200)),
     (''firmwareRateLoopUntouched'', JBool True), (''missedInferenceFallback'', JStr ''position-hold-or-manual''),
     (''physicalConfirmation'', JStr DEPLOYMENT_LADDER_START_CONFIRMATION)]"

definition answering :: "jsval \<Rightarrow> ladder_runtime" where
  "answering status = \<lparr>lr_available = True, lr_invoke = (\<lambda>_ _. Inr status)\<rparr>"

lemma sample_start_facts:
  "valid_identity sample_start"
  "startDeploymentLadder sample_start (answering (status_json sample_start 0)) = Inr (status_json sample_start 0)"
  by code_simp+

theorem ladder_can_advance_witness:
  "advanceDeploymentLadder (status_json sample_start 2) (advance_request sample_start 2) (answering (status_json sample_start 3))
     = Inr (status_json sample_start 3)"
  using ladder_can_advance [OF sample_start_facts(1), of 2 "answering (status_json sample_start 3)"]
  by (simp add: answering_def)

theorem ladder_no_stage_skipped_witness:
  "getProp (status_json sample_start 1) ''currentStage'' = JStr (STAGE_ORDER ! 1)
   \<and> getProp (status_json sample_start 1) ''hardwareExecutionAuthorized'' = JBool False"
proof -
  have "advanceDeploymentLadder (status_json sample_start 0) (advance_request sample_start 0) (answering (status_json sample_start 1))
      = Inr (status_json sample_start 1)"
    by code_simp
  then have "ladder_run ([] @ [advance_request sample_start 0]) (status_json sample_start 1)"
    by (rule ladder_advance [OF ladder_start [OF sample_start_facts(2)]])
  from ladder_no_stage_skipped [OF this] show ?thesis by simp
qed

end
