(* ===== verification/Js_Objects.thy ===== *)
theory Js_Objects
  imports Js_Text
begin

text \<open>
  Operations on JavaScript objects that several components use: the own members of an object, the object
  literal \<open>{...v, k: x}\<close>, \<open>String(v)\<close>, and the decimal text of an index.
\<close>

definition nat_text :: "nat \<Rightarrow> string" where
  "nat_text n = dec_digits (int n)"

text \<open>\<open>String(value)\<close> of a JSON value; the elements of an array are joined with commas.\<close>

fun js_String :: "jsval \<Rightarrow> string" where
  "js_String (JStr s) = s"
| "js_String (JNum n) = num_to_string n"
| "js_String (JBool b) = (if b then ''true'' else ''false'')"
| "js_String JNull = ''null''"
| "js_String JUndef = ''undefined''"
| "js_String (JArr xs) = join '','' (map (\<lambda>x. if x = JNull \<or> x = JUndef then [] else js_String x) xs)"
| "js_String _ = ''[object Object]''"

fun own_fields :: "jsval \<Rightarrow> (string \<times> jsval) list" where
  "own_fields (JObj kvs) = kvs"
| "own_fields (JHost kvs) = kvs"
| "own_fields _ = []"

text \<open>\<open>{...kvs, [k]: v}\<close>.\<close>

definition set_member :: "(string \<times> jsval) list \<Rightarrow> string \<times> jsval \<Rightarrow> (string \<times> jsval) list" where
  "set_member kvs kv =
     (if list_ex (\<lambda>old. fst old = fst kv) kvs then map (\<lambda>old. if fst old = fst kv then kv else old) kvs else kvs @ [kv])"

definition spread :: "jsval \<Rightarrow> (string \<times> jsval) list \<Rightarrow> jsval" where
  "spread v news = JObj (foldl set_member (case v of JObj kvs \<Rightarrow> kvs | JHost kvs \<Rightarrow> kvs | _ \<Rightarrow> []) news)"

section \<open>Members of an extended object\<close>

lemma spread_member:
  assumes "own_fields v = kvs"
  shows "getProp (spread v [(k, x)]) l = (if l = k then x else case map_of kvs l of None \<Rightarrow> JUndef | Some y \<Rightarrow> y)"
proof -
  have fields: "(case v of JObj kvs \<Rightarrow> kvs | JHost kvs \<Rightarrow> kvs | _ \<Rightarrow> []) = own_fields v" by (cases v) simp_all
  have member: "map_of (set_member kvs (k, x)) l = (if l = k then Some x else map_of kvs l)"
  proof (cases "list_ex (\<lambda>old. fst old = k) kvs")
    case True
    have "map_of (map (\<lambda>old. if fst old = k then (k, x) else old) ys) l
        = (if l = k \<and> list_ex (\<lambda>old. fst old = k) ys then Some x else map_of ys l)" for ys
      by (induction ys) auto
    with True show ?thesis by (auto simp: set_member_def)
  next
    case False
    then show ?thesis by (auto simp: set_member_def map_add_def list_ex_iff split: option.split) (metis fst_conv map_of_SomeD)
  qed
  show ?thesis by (simp add: spread_def fields assms member)
qed

lemma getProp_own: "getProp v l = (case map_of (own_fields v) l of None \<Rightarrow> JUndef | Some y \<Rightarrow> y)"
  by (cases v) simp_all

lemma getProp_spread: "getProp (spread v (xs @ [(k, x)])) l = (if l = k then x else getProp (spread v xs) l)"
proof -
  have "spread v (xs @ [(k, x)]) = spread (spread v xs) [(k, x)]" by (simp add: spread_def)
  then show ?thesis using spread_member [OF refl, of "spread v xs" k x l] by (simp add: getProp_own)
qed

lemma getProp_spread1: "getProp (spread v [(k, x)]) l = (if l = k then x else getProp v l)"
  using spread_member [OF refl, of v k x l] by (simp add: getProp_own)

lemma getProp_spread3:
  "getProp (spread v [a, b, (k, x)]) l = (if l = k then x else getProp (spread v [a, b]) l)"
  "getProp (spread v [a, (k, x)]) l = (if l = k then x else getProp (spread v [a]) l)"
  using getProp_spread [of v "[a, b]" k x l] getProp_spread [of v "[a]" k x l] by simp_all

end
