(* ===== verification/Ghost_Replay.thy ===== *)
theory Ghost_Replay
  imports Js_Number Js_Objects
begin

text \<open>
  The ghost overlay of the studio, packages/studio/src/ghostReplay.ts: a recorded flight is drawn next to
  the predicted one. \<open>parseGhostReplay\<close> checks the untrusted overlay document, \<open>seekGhostReplay\<close> finds the
  two recorded points around a time with two binary searches (first in the coarse seek index, then
  between the points it addresses) and interpolates, \<open>projectGhostReplay\<close> draws both paths.

  Numbers are binary64 throughout. \<open>Math.hypot\<close>, which ECMAScript leaves to the implementation, is the
  parameter \<open>hypot\<close>. A point is the list of its eight numbers. A thrown \<open>Error\<close> is its message.
\<close>

section \<open>Constants\<close>

definition GHOST_OVERLAY_SCHEMA :: string where "GHOST_OVERLAY_SCHEMA = ''forge-ghost-overlay''"
definition GHOST_OVERLAY_VERSION :: string where "GHOST_OVERLAY_VERSION = ''1.0.0''"
definition GHOST_OVERLAY_SCHEMA_VERSION :: string where
  "GHOST_OVERLAY_SCHEMA_VERSION = GHOST_OVERLAY_SCHEMA @ ''/'' @ GHOST_OVERLAY_VERSION"
definition GHOST_OVERLAY_FRAME :: string where "GHOST_OVERLAY_FRAME = ''forge-y-up-rh-m''"
definition GHOST_MAX_DURATION_S :: int where "GHOST_MAX_DURATION_S = 600"
definition GHOST_MAX_RENDER_POINTS :: int where "GHOST_MAX_RENDER_POINTS = 6001"

definition GHOST_POINT_LAYOUT :: "string list" where
  "GHOST_POINT_LAYOUT = [''timeS'', ''actualXM'', ''actualYM'', ''actualZM'',
     ''predictedXM'', ''predictedYM'', ''predictedZM'', ''divergenceM'']"

text \<open>The numeric literals that are not integers.\<close>

definition eps6 :: jsnum where "eps6 = fl64 (1 / 1000000)"
definition eps9 :: jsnum where "eps9 = fl64 (1 / 1000000000)"
definition divergence_tolerance :: jsnum where "divergence_tolerance = fl64 (2 / 100000)"
definition max_seek_spacing :: jsnum where "max_seek_spacing = fl64 (1000001 / 1000000)"

section \<open>Data\<close>

type_synonym GhostPoint = "jsnum list"
type_synonym GhostSeekEntry = "jsnum \<times> nat"

datatype DivergenceStatus = Tracking | Diverged | Missing

datatype SourceMaturity = ControlledSynthetic | Unverified

record GhostDivergence =
  gd_sampleCount :: int
  gd_maxM :: "jsnum option"
  gd_rmsM :: "jsnum option"
  gd_warnM :: jsnum
  gd_status :: DivergenceStatus

record GhostReplay =
  gr_sourceMaturity :: SourceMaturity
  gr_sourceSampleCount :: int
  gr_sourceSampleRateHz :: jsnum
  gr_startS :: jsnum
  gr_endS :: jsnum
  gr_durationS :: jsnum
  gr_renderRateHz :: jsnum
  gr_points :: "GhostPoint list"
  gr_seekIndex :: "GhostSeekEntry list"
  gr_divergence :: GhostDivergence

record GhostFrame =
  gf_timeS :: jsnum
  gf_actualPositionM :: "jsnum list"
  gf_predictedPositionM :: "jsnum list"
  gf_divergenceM :: jsnum
  gf_beforePoint :: nat
  gf_afterPoint :: nat

section \<open>Checks on single values\<close>

definition outside_bound :: "string \<Rightarrow> string" where
  "outside_bound label = ''ghost overlay '' @ label @ '' is outside the supported bound''"

definition finiteNumber :: "jsval \<Rightarrow> string \<Rightarrow> jsnum \<Rightarrow> jsnum \<Rightarrow> string + jsnum" where
  "finiteNumber v label minimum maximum =
     (case v of
        JNum n \<Rightarrow> if \<not> isFinite n \<or> num_lt n minimum \<or> num_lt maximum n then Inl (outside_bound label) else Inr n
      | _ \<Rightarrow> Inl (outside_bound label))"

definition whole_of :: "jsnum \<Rightarrow> int" where
  "whole_of n = (case n of Fin x \<Rightarrow> \<lfloor>x\<rfloor> | _ \<Rightarrow> 0)"

definition integer_field :: "jsval \<Rightarrow> string \<Rightarrow> int \<Rightarrow> int \<Rightarrow> string + int" where
  "integer_field v label minimum maximum =
     bindE (finiteNumber v label (IntN minimum) (IntN maximum)) (\<lambda>parsed.
     if \<not> isInteger parsed then Inl (''ghost overlay '' @ label @ '' must be an integer'') else Inr (whole_of parsed))"

definition requireExact :: "jsval \<Rightarrow> jsval \<Rightarrow> string \<Rightarrow> string + unit" where
  "requireExact actual expected label =
     guardE (strict_eq actual expected) (''ghost overlay '' @ label @ '' is unsupported'')"

definition requireStringArray :: "jsval \<Rightarrow> string list \<Rightarrow> string \<Rightarrow> string + unit" where
  "requireStringArray actual expected label =
     guardE (sameStringArray actual expected) (''ghost overlay '' @ label @ '' is unsupported'')"

definition ghost_record :: "jsval \<Rightarrow> string \<Rightarrow> string + jsval" where
  "ghost_record v label = (if isRecord v then Inr v else Inl (label @ '' must be an object''))"

section \<open>Points, seek entries, divergence\<close>

definition point_field :: "nat \<Rightarrow> nat \<times> jsval \<Rightarrow> string + jsnum" where
  "point_field index = (\<lambda>(itemIndex, item).
     finiteNumber item (''points['' @ nat_text index @ ''][''  @ nat_text itemIndex @ '']'')
       (if itemIndex = 0 then Fin 0 else Fin (-1000000)) (if itemIndex = 0 then IntN 1000000000000 else Fin 1000000))"

definition parsePoint :: "(jsnum \<Rightarrow> jsnum \<Rightarrow> jsnum \<Rightarrow> jsnum) \<Rightarrow> jsval \<Rightarrow> nat \<Rightarrow> string + GhostPoint" where
  "parsePoint hypot v index =
     (case v of
        JArr items \<Rightarrow>
          if length items \<noteq> length GHOST_POINT_LAYOUT
          then Inl (''ghost overlay point '' @ nat_text index @ '' has the wrong layout'')
          else
            bindE (mapE (point_field index) (enumerate 0 items)) (\<lambda>point.
            if num_lt (point ! 7) (Fin 0)
            then Inl (''ghost overlay point '' @ nat_text index @ '' has negative divergence'')
            else if num_lt divergence_tolerance (num_abs (num_sub
                   (hypot (num_sub (point ! 1) (point ! 4)) (num_sub (point ! 2) (point ! 5)) (num_sub (point ! 3) (point ! 6)))
                   (point ! 7)))
            then Inl (''ghost overlay point '' @ nat_text index @ '' divergence is inconsistent'')
            else Inr point)
      | _ \<Rightarrow> Inl (''ghost overlay point '' @ nat_text index @ '' has the wrong layout''))"

definition parseSeekEntry :: "jsval \<Rightarrow> nat \<Rightarrow> GhostPoint list \<Rightarrow> string + GhostSeekEntry" where
  "parseSeekEntry v index points =
     (case v of
        JArr [t, p] \<Rightarrow>
          bindE (finiteNumber t (''seekIndex['' @ nat_text index @ ''][0]'') (hd points ! 0) (last points ! 0)) (\<lambda>timeS.
          bindE (integer_field p (''seekIndex['' @ nat_text index @ ''][1]'') 0 (int (length points) - 1)) (\<lambda>k.
          let pointIndex = nat k in
          if num_lt timeS (points ! pointIndex ! 0)
             \<or> (pointIndex + 1 < length points \<and> num_le (points ! (pointIndex + 1) ! 0) timeS)
          then Inl (''ghost overlay seekIndex entry '' @ nat_text index @ '' does not address the preceding point'')
          else Inr (timeS, pointIndex)))
      | _ \<Rightarrow> Inl (''ghost overlay seekIndex entry '' @ nat_text index @ '' has the wrong layout''))"

definition nullable :: "jsval \<Rightarrow> string \<Rightarrow> string + jsnum option" where
  "nullable item label =
     (if item = JNull then Inr None
      else bindE (finiteNumber item label (Fin 0) (Fin 1000000)) (\<lambda>n. Inr (Some n)))"

definition divergence_status :: "jsval \<Rightarrow> DivergenceStatus option" where
  "divergence_status v =
     (if v = JStr ''tracking'' then Some Tracking else if v = JStr ''diverged'' then Some Diverged
      else if v = JStr ''missing'' then Some Missing else None)"

definition check_divergence :: "GhostDivergence \<Rightarrow> string + GhostDivergence" where
  "check_divergence d =
     (if (if gd_status d = Missing then gd_maxM d \<noteq> None \<or> gd_rmsM d \<noteq> None else gd_maxM d = None \<or> gd_rmsM d = None)
      then Inl ''ghost divergence values do not match status''
      else case (gd_maxM d, gd_rmsM d) of
             (Some maxM, Some rmsM) \<Rightarrow>
               if num_lt (num_add maxM eps6) rmsM then Inl ''ghost divergence RMS exceeds its maximum''
               else if (gd_status d = Diverged \<and> num_lt maxM (gd_warnM d))
                       \<or> (gd_status d = Tracking \<and> num_le (gd_warnM d) maxM)
               then Inl ''ghost divergence status does not match its threshold''
               else Inr d
           | _ \<Rightarrow> Inr d)"

definition parseDivergence :: "jsval \<Rightarrow> string + GhostDivergence" where
  "parseDivergence v =
     bindE (ghost_record v ''ghost divergence'') (\<lambda>source.
     case divergence_status (getProp source ''status'') of
       None \<Rightarrow> Inl ''ghost divergence status is unsupported''
     | Some status \<Rightarrow>
         bindE (integer_field (getProp source ''sampleCount'') ''divergence.sampleCount'' 0 100000) (\<lambda>sampleCount.
         bindE (nullable (getProp source ''maxM'') ''divergence.maxM'') (\<lambda>maxM.
         bindE (nullable (getProp source ''rmsM'') ''divergence.rmsM'') (\<lambda>rmsM.
         bindE (finiteNumber (getProp source ''warnM'') ''divergence.warnM'' (Fin 0) (Fin 1000000)) (\<lambda>warnM.
         check_divergence \<lparr>gd_sampleCount = sampleCount, gd_maxM = maxM, gd_rmsM = rmsM, gd_warnM = warnM,
           gd_status = status\<rparr>)))))"

section \<open>The overlay document\<close>

definition source_maturity :: "jsval \<Rightarrow> SourceMaturity option" where
  "source_maturity v =
     (if v = JStr ''controlled-synthetic'' then Some ControlledSynthetic
      else if v = JStr ''unverified'' then Some Unverified else None)"

definition check_contract :: "jsval \<Rightarrow> string + SourceMaturity" where
  "check_contract source =
     bindE (requireExact (getProp source ''schemaVersion'') (JStr GHOST_OVERLAY_SCHEMA_VERSION) ''schemaVersion'') (\<lambda>_.
     bindE (requireExact (getProp source ''enabled'') (JBool True) ''enabled'') (\<lambda>_.
     bindE (requireExact (getProp source ''frame'') (JStr GHOST_OVERLAY_FRAME) ''frame'') (\<lambda>_.
     bindE (requireExact (getProp source ''divergenceMetric'') (JStr ''position-rmse'') ''divergenceMetric'') (\<lambda>_.
     bindE (requireStringArray (getProp source ''pointLayout'') GHOST_POINT_LAYOUT ''pointLayout'') (\<lambda>_.
     case source_maturity (getProp source ''sourceMaturity'') of
       None \<Rightarrow> Inl ''ghost overlay sourceMaturity is unsupported''
     | Some maturity \<Rightarrow>
         bindE (requireExact (getProp source ''deviceIdentityVerified'') (JBool False) ''deviceIdentityVerified'') (\<lambda>_.
         bindE (requireExact (getProp source ''recordedDeviceVerified'') (JBool False) ''recordedDeviceVerified'') (\<lambda>_.
         bindE (requireExact (getProp source ''fieldSessionVerified'') (JBool False) ''fieldSessionVerified'') (\<lambda>_.
         Inr maturity))))))))"

definition array_of :: "jsval \<Rightarrow> int \<Rightarrow> int \<Rightarrow> string \<Rightarrow> string + jsval list" where
  "array_of v lo hi message =
     (case v of
        JArr xs \<Rightarrow> if int (length xs) < lo \<or> hi < int (length xs) then Inl message else Inr xs
      | _ \<Rightarrow> Inl message)"

definition parsePoints :: "(jsnum \<Rightarrow> jsnum \<Rightarrow> jsnum \<Rightarrow> jsnum) \<Rightarrow> jsval \<Rightarrow> jsnum \<Rightarrow> jsnum \<Rightarrow> string + GhostPoint list" where
  "parsePoints hypot source startS endS =
     bindE (array_of (getProp source ''points'') 2 GHOST_MAX_RENDER_POINTS
       ''ghost overlay points are outside the supported bound'') (\<lambda>items.
     bindE (requireExact (getProp source ''renderPointCount'') (JNum (IntN (int (length items)))) ''renderPointCount'') (\<lambda>_.
     bindE (mapE (\<lambda>(index, point). parsePoint hypot point index) (enumerate 0 items)) (\<lambda>points.
     if \<not> num_eq (hd points ! 0) startS \<or> \<not> num_eq (last points ! 0) endS
     then Inl ''ghost overlay endpoints do not match its time bounds''
     else if list_ex (\<lambda>index. num_le (points ! index ! 0) (points ! (index - 1) ! 0)) [1..<length points]
     then Inl ''ghost overlay point time must be strictly increasing''
     else Inr points)))"

text \<open>The checks inside the loop over the index, in the order of the source: the first violation wins.\<close>

fun check_seek :: "GhostSeekEntry list \<Rightarrow> string + unit" where
  "check_seek (a # b # rest) =
     (if num_le (fst b) (fst a) \<or> snd b < snd a then Inl ''ghost overlay seekIndex must be monotonic''
      else if num_lt max_seek_spacing (num_sub (fst b) (fst a))
      then Inl ''ghost overlay seekIndex spacing exceeds one second''
      else check_seek (b # rest))"
| "check_seek _ = Inr ()"

definition parseSeekIndex :: "jsval \<Rightarrow> jsnum \<Rightarrow> jsnum \<Rightarrow> GhostPoint list \<Rightarrow> string + GhostSeekEntry list" where
  "parseSeekIndex source startS endS points =
     bindE (array_of (getProp source ''seekIndex'') 2 602 ''ghost overlay seekIndex is outside the supported bound'') (\<lambda>items.
     bindE (mapE (\<lambda>(index, entry). parseSeekEntry entry index points) (enumerate 0 items)) (\<lambda>seekIndex.
     if \<not> num_eq (fst (hd seekIndex)) startS \<or> \<not> num_eq (fst (last seekIndex)) endS
     then Inl ''ghost overlay seekIndex does not span the trace''
     else bindE (check_seek seekIndex) (\<lambda>_. Inr seekIndex)))"

definition computed_rate :: "GhostPoint list \<Rightarrow> jsnum \<Rightarrow> jsnum" where
  "computed_rate points durationS =
     (if num_lt (Fin 0) durationS then num_div (IntN (int (length points) - 1)) durationS else Fin 0)"

definition parseGhostReplay :: "(jsnum \<Rightarrow> jsnum \<Rightarrow> jsnum \<Rightarrow> jsnum) \<Rightarrow> jsval \<Rightarrow> string + GhostReplay" where
  "parseGhostReplay hypot v =
     bindE (ghost_record v ''ghost overlay'') (\<lambda>source.
     bindE (check_contract source) (\<lambda>maturity.
     bindE (finiteNumber (getProp source ''startS'') ''startS'' (Fin 0) (IntN 1000000000000)) (\<lambda>startS.
     bindE (finiteNumber (getProp source ''endS'') ''endS'' startS (num_add startS (IntN GHOST_MAX_DURATION_S))) (\<lambda>endS.
     bindE (finiteNumber (getProp source ''durationS'') ''durationS'' (Fin 0) (IntN GHOST_MAX_DURATION_S)) (\<lambda>durationS.
     if num_lt eps6 (num_abs (num_sub (num_sub endS startS) durationS))
     then Inl ''ghost overlay duration does not match its time bounds''
     else
     bindE (integer_field (getProp source ''sourceSampleCount'') ''sourceSampleCount'' 2 100000) (\<lambda>sourceSampleCount.
     bindE (finiteNumber (getProp source ''sourceSampleRateHz'') ''sourceSampleRateHz'' (Fin 0) (IntN 10000)) (\<lambda>sourceSampleRateHz.
     bindE (finiteNumber (getProp source ''renderRateHz'') ''renderRateHz'' (Fin 0) (IntN 1000)) (\<lambda>renderRateHz.
     bindE (requireExact (getProp source ''maxRenderPointCount'') (JNum (IntN GHOST_MAX_RENDER_POINTS)) ''maxRenderPointCount'') (\<lambda>_.
     bindE (parsePoints hypot source startS endS) (\<lambda>points.
     if sourceSampleCount < int (length points)
     then Inl ''ghost overlay cannot contain more render points than source samples''
     else if num_lt eps6 (num_abs (num_sub (computed_rate points durationS) renderRateHz))
     then Inl ''ghost overlay renderRateHz does not match its point/time bounds''
     else
     bindE (parseSeekIndex source startS endS points) (\<lambda>seekIndex.
     bindE (parseDivergence (getProp source ''divergence'')) (\<lambda>divergence.
     Inr \<lparr>gr_sourceMaturity = maturity, gr_sourceSampleCount = sourceSampleCount, gr_sourceSampleRateHz = sourceSampleRateHz,
          gr_startS = startS, gr_endS = endS, gr_durationS = durationS, gr_renderRateHz = renderRateHz,
          gr_points = points, gr_seekIndex = seekIndex, gr_divergence = divergence\<rparr>))))))))))))"

definition tryParseGhostReplay :: "(jsnum \<Rightarrow> jsnum \<Rightarrow> jsnum \<Rightarrow> jsnum) \<Rightarrow> jsval \<Rightarrow> GhostReplay option" where
  "tryParseGhostReplay hypot v = (case parseGhostReplay hypot v of Inl _ \<Rightarrow> None | Inr replay \<Rightarrow> Some replay)"

section \<open>Seeking\<close>

text \<open>Both loops of \<open>seekGhostReplay\<close>: the upper of the two middles is tested.\<close>

function seek_loop :: "(nat \<Rightarrow> bool) \<Rightarrow> nat \<Rightarrow> nat \<Rightarrow> nat" where
  "seek_loop ok low high =
     (if low < high
      then let middle = (low + high + 1) div 2
           in if ok middle then seek_loop ok middle high else seek_loop ok low (middle - 1)
      else low)"
  by pat_completeness auto
termination
  by (relation "measure (\<lambda>(ok, low, high). high - low)") auto

declare seek_loop.simps [simp del]

definition mix :: "jsnum \<Rightarrow> jsnum \<Rightarrow> jsnum \<Rightarrow> jsnum" where
  "mix left right ratio = num_add left (num_mul (num_sub right left) ratio)"

definition mix_field :: "GhostPoint \<Rightarrow> GhostPoint \<Rightarrow> jsnum \<Rightarrow> nat \<Rightarrow> jsnum" where
  "mix_field left right ratio k = mix (left ! k) (right ! k) ratio"

definition clamp_time :: "GhostReplay \<Rightarrow> jsnum \<Rightarrow> jsnum" where
  "clamp_time replay requestedTimeS = num_min (gr_endS replay) (num_max (gr_startS replay) requestedTimeS)"

definition point_range :: "GhostReplay \<Rightarrow> nat \<Rightarrow> nat \<times> nat" where
  "point_range replay indexLow =
     (snd (gr_seekIndex replay ! indexLow),
      min (length (gr_points replay) - 1)
        (if indexLow + 1 < length (gr_seekIndex replay) then snd (gr_seekIndex replay ! (indexLow + 1)) + 1
         else length (gr_points replay) - 1))"

definition interpolate :: "GhostReplay \<Rightarrow> jsnum \<Rightarrow> nat \<Rightarrow> GhostFrame" where
  "interpolate replay timeS before =
     (let after = min (length (gr_points replay) - 1) (before + 1);
          left = gr_points replay ! before;
          right = gr_points replay ! after;
          span = num_sub (right ! 0) (left ! 0);
          ratio = (if num_lt (Fin 0) span then num_div (num_sub timeS (left ! 0)) span else Fin 0)
      in \<lparr>gf_timeS = timeS,
          gf_actualPositionM = map (mix_field left right ratio) [1, 2, 3],
          gf_predictedPositionM = map (mix_field left right ratio) [4, 5, 6],
          gf_divergenceM = mix_field left right ratio 7,
          gf_beforePoint = before, gf_afterPoint = after\<rparr>)"

text \<open>A replay without points or whose index points outside them is not of the parsed kind; reading it
  throws a \<open>TypeError\<close>.\<close>

definition seekGhostReplay :: "GhostReplay \<Rightarrow> jsnum \<Rightarrow> string + GhostFrame" where
  "seekGhostReplay replay requestedTimeS =
     (let timeS = clamp_time replay requestedTimeS in
      if gr_seekIndex replay = [] then Inl ''TypeError''
      else
        let indexLow = seek_loop (\<lambda>middle. num_le (fst (gr_seekIndex replay ! middle)) timeS) 0
              (length (gr_seekIndex replay) - 1);
            (pointLow, pointHigh) = point_range replay indexLow;
            before = seek_loop (\<lambda>middle. num_le (gr_points replay ! middle ! 0) timeS) pointLow pointHigh
        in if length (gr_points replay) \<le> before then Inl ''TypeError''
           else Inr (interpolate replay timeS before))"

section \<open>Projection\<close>

text \<open>\<open>x.toFixed(3)\<close>: the decimal with three digits nearest to the number, the larger one of two.\<close>

definition fixed_digits :: "rat \<Rightarrow> string" where
  "fixed_digits x =
     (let n = \<lfloor>x * 1000 + 1 / 2\<rfloor>; ds = dec_digits n; padded = replicate (4 - length ds) (CHR ''0'') @ ds
      in take (length padded - 3) padded @ ''.'' @ drop (length padded - 3) padded)"

definition toFixed3 :: "jsnum \<Rightarrow> string" where
  "toFixed3 n =
     (case n of
        Fin x \<Rightarrow>
          if 10 ^ 21 \<le> \<bar>x\<bar> then num_to_string n
          else if x < 0 then ''-'' @ fixed_digits (- x) else fixed_digits x
      | _ \<Rightarrow> num_to_string n)"

record GhostProjection =
  gp_width :: jsnum
  gp_height :: jsnum
  gp_padding :: jsnum
  gp_minX :: jsnum
  gp_maxX :: jsnum
  gp_minZ :: jsnum
  gp_maxZ :: jsnum

definition project_axis :: "jsnum \<Rightarrow> jsnum \<Rightarrow> jsnum \<Rightarrow> jsnum \<Rightarrow> jsnum \<Rightarrow> jsnum" where
  "project_axis p lo hi extent padding =
     num_mul (num_div (num_sub p lo) (num_sub hi lo)) (num_sub extent (num_mul (Fin 2) padding))"

definition projectGhostPosition :: "GhostProjection \<Rightarrow> jsnum list \<Rightarrow> jsnum \<times> jsnum" where
  "projectGhostPosition pr positionM =
     (let x = num_add (gp_padding pr)
            (project_axis (positionM ! 0) (gp_minX pr) (gp_maxX pr) (gp_width pr) (gp_padding pr));
          y = num_sub (num_sub (gp_height pr) (gp_padding pr))
            (project_axis (positionM ! 2) (gp_minZ pr) (gp_maxZ pr) (gp_height pr) (gp_padding pr))
      in (js_Number (toFixed3 x), js_Number (toFixed3 y)))"

definition min_over :: "nat \<Rightarrow> nat \<Rightarrow> GhostPoint list \<Rightarrow> jsnum" where
  "min_over i j points = foldl (\<lambda>m p. num_min (num_min m (p ! i)) (p ! j)) PosInf points"

definition max_over :: "nat \<Rightarrow> nat \<Rightarrow> GhostPoint list \<Rightarrow> jsnum" where
  "max_over i j points = foldl (\<lambda>m p. num_max (num_max m (p ! i)) (p ! j)) NegInf points"

definition widen :: "jsnum \<Rightarrow> jsnum \<Rightarrow> jsnum" where
  "widen lo hi = (if num_lt (num_sub hi lo) eps9 then num_add lo (Fin 1) else hi)"

definition pair_text :: "jsnum \<times> jsnum \<Rightarrow> string" where
  "pair_text p = num_to_string (fst p) @ '','' @ num_to_string (snd p)"

definition projectGhostReplay :: "GhostReplay \<Rightarrow> jsnum \<Rightarrow> jsnum \<Rightarrow> jsnum \<Rightarrow> GhostProjection \<times> string \<times> string" where
  "projectGhostReplay replay width height padding =
     (let minX = min_over 1 4 (gr_points replay); maxX = max_over 1 4 (gr_points replay);
          minZ = min_over 3 6 (gr_points replay); maxZ = max_over 3 6 (gr_points replay);
          projection = \<lparr>gp_width = width, gp_height = height, gp_padding = padding,
            gp_minX = minX, gp_maxX = widen minX maxX, gp_minZ = minZ, gp_maxZ = widen minZ maxZ\<rparr>
      in (projection,
          join '' '' (map (\<lambda>p. pair_text (projectGhostPosition projection [p ! 1, p ! 2, p ! 3])) (gr_points replay)),
          join '' '' (map (\<lambda>p. pair_text (projectGhostPosition projection [p ! 4, p ! 5, p ! 6])) (gr_points replay))))"

end
