(* ===== verification/Js_Rounding.thy ===== *)
theory Js_Rounding
  imports Js_Number
begin

text \<open>
  Facts on rounding to binary64 that arithmetic on bounded numbers needs: the exponent of the leading
  digit is right, rounding moves a number by at most half a unit, and a number of moderate size never
  rounds to an infinity.
\<close>

lemma int_log2_upper: "1 \<le> n \<Longrightarrow> n < 2 ^ (nat (int_log2 n) + 1)"
proof (induction n rule: int_log2.induct)
  case (1 n)
  show ?case
  proof (cases "n < 2")
    case True
    then show ?thesis using "1.prems" by (simp add: int_log2.simps)
  next
    case False
    then have ih: "n div 2 < 2 ^ (nat (int_log2 (n div 2)) + 1)" and pos: "0 \<le> int_log2 (n div 2)"
      using "1.IH" int_log2_bound [of "n div 2"] by auto
    have "int_log2 n = 1 + int_log2 (n div 2)" using False by (simp add: int_log2.simps)
    then have "nat (int_log2 n) = nat (int_log2 (n div 2)) + 1" using pos by simp
    with ih show ?thesis by simp
  qed
qed

lemma two_powi_le: "1 \<le> n \<Longrightarrow> (2 :: rat) powi int_log2 n \<le> of_int n"
  using int_log2_bound [of n] by (metis of_int_le_iff of_int_numeral of_int_power power_int_def)

lemma le_two_powi: "1 \<le> n \<Longrightarrow> of_int n \<le> (2 :: rat) powi (int_log2 n + 1)"
proof -
  assume n: "1 \<le> n"
  then have pos: "0 \<le> int_log2 n" using int_log2_bound by blast
  have "(of_int n :: rat) \<le> of_int (2 ^ (nat (int_log2 n) + 1))"
    using int_log2_upper [OF n] by (simp only: of_int_le_iff)
  also have "\<dots> = 2 powi (int_log2 n + 1)" using pos by (simp add: power_int_def nat_add_distrib)
  finally show ?thesis .
qed

lemma ilog2_lower:
  assumes "x \<noteq> 0"
  shows "2 powi ilog2 x \<le> \<bar>x\<bar>"
proof -
  obtain p q where pq: "quotient_of \<bar>x\<bar> = (p, q)" by (cases "quotient_of \<bar>x\<bar>")
  have q: "0 < q" and x: "\<bar>x\<bar> = of_int p / of_int q"
    using pq quotient_of_denom_pos quotient_of_div by auto
  then have p: "0 < p" using assms by (metis abs_le_zero_iff divide_le_0_iff less_imp_le not_less of_int_0_less_iff of_int_le_0_iff)
  let ?e = "int_log2 p - int_log2 q"
  have "(2 :: rat) powi (?e - 1) = 2 powi int_log2 p / 2 powi (int_log2 q + 1)"
    by (simp add: power_int_diff power_int_add)
  also have "\<dots> \<le> of_int p / of_int q"
    using two_powi_le [of p] le_two_powi [of q] p q by (intro frac_le) auto
  finally have "(2 :: rat) powi (?e - 1) \<le> \<bar>x\<bar>" by (simp add: x)
  then show ?thesis using pq by (simp add: ilog2_def Let_def)
qed

lemma round_half_even_near: "\<bar>of_int (round_half_even x) - x\<bar> \<le> 1 / 2"
  unfolding round_half_even_def Let_def
  using of_int_floor_le [of x] real_of_int_floor_add_one_gt by (auto simp: abs_if field_simps) linarith+

definition rounded :: "rat \<Rightarrow> int \<Rightarrow> rat" where
  "rounded x e = of_int (round_half_even (x / 2 powi e)) * 2 powi e"

lemma fl64_rounded:
  assumes "x \<noteq> 0" "\<bar>x\<bar> \<le> 2 ^ 1000"
  shows "fl64 x = Fin (rounded x (max (ilog2 x - 52) (-1074)))"
proof -
  define e where "e = max (ilog2 x - 52) (-1074)"
  define y where "y = rounded x e"
  have pos: "0 < (2 :: rat) powi e" by simp
  have "(2 :: rat) powi (ilog2 x - 52) \<le> 2 powi ilog2 x" by (intro power_int_increasing) auto
  also have "\<dots> \<le> \<bar>x\<bar>" by (rule ilog2_lower [OF assms(1)])
  finally have "(2 :: rat) powi (ilog2 x - 52) \<le> 2 ^ 1000" using assms(2) by simp
  moreover have "(2 :: rat) powi (-1074) \<le> 2 powi (1000 :: int)" by (intro power_int_increasing) auto
  ultimately have e: "(2 :: rat) powi e \<le> 2 ^ 1000" by (cases "ilog2 x - 52 \<le> -1074") (auto simp: e_def max_def)
  have "y - x = (of_int (round_half_even (x / 2 powi e)) - x / 2 powi e) * 2 powi e"
    using pos by (simp add: y_def rounded_def left_diff_distrib)
  then have "\<bar>y - x\<bar> = \<bar>of_int (round_half_even (x / 2 powi e)) - x / 2 powi e\<bar> * 2 powi e"
    using pos by (simp add: abs_mult)
  also have "\<dots> \<le> 1 / 2 * 2 powi e"
    using round_half_even_near [of "x / 2 powi e"] pos by (intro mult_right_mono) auto
  finally have "\<bar>y\<bar> \<le> 2 ^ 1000 + 2 ^ 1000" using e assms by linarith
  also have "\<dots> < (2 :: rat) ^ 1024" by (simp flip: power_Suc2)
  finally have "\<not> 2 ^ 1024 \<le> y" "\<not> y \<le> - (2 ^ 1024)" by linarith+
  with assms(1) show ?thesis
    by (simp add: fl64_def Let_def e_def [symmetric] y_def [symmetric] rounded_def [symmetric])
qed

lemma fl64_finite: "\<bar>x\<bar> \<le> 2 ^ 1000 \<Longrightarrow> \<exists>y. fl64 x = Fin y"
  using fl64_rounded [of x] by (cases "x = 0") (auto simp: fl64_def)

section \<open>Evaluation\<close>

text \<open>Code equations that compute with integers: the comparison with the largest number is only made for
  numbers above \<open>2 ^ 60\<close>, and powers of two are integer powers.\<close>

lemma powi_two: "(2 :: rat) powi e = (if 0 \<le> e then of_int (2 ^ nat e) else 1 / of_int (2 ^ nat (- e)))"
  by (simp add: power_int_def inverse_eq_divide power_one_over)

lemma ilog2_code [code]:
  "ilog2 x = (case quotient_of \<bar>x\<bar> of (p, q) \<Rightarrow>
     (let e = int_log2 p - int_log2 q
      in if (if 0 \<le> e then 2 ^ nat e * q \<le> p else q \<le> p * 2 ^ nat (- e)) then e else e - 1))"
proof -
  obtain p q where pq: "quotient_of \<bar>x\<bar> = (p, q)" by (cases "quotient_of \<bar>x\<bar>")
  have q: "0 < q" and x: "\<bar>x\<bar> = of_int p / of_int q" using pq quotient_of_denom_pos quotient_of_div by auto
  let ?e = "int_log2 p - int_log2 q"
  have "2 powi ?e \<le> \<bar>x\<bar> \<longleftrightarrow> (if 0 \<le> ?e then 2 ^ nat ?e * q \<le> p else q \<le> p * 2 ^ nat (- ?e))"
  proof (cases "0 \<le> ?e")
    case True
    have "2 powi ?e \<le> \<bar>x\<bar> \<longleftrightarrow> of_int (2 ^ nat ?e * q) \<le> (of_int p :: rat)"
      unfolding x powi_two using True q by (simp add: pos_le_divide_eq)
    with True show ?thesis by (simp only: of_int_le_iff if_True)
  next
    case False
    have "2 powi ?e \<le> \<bar>x\<bar> \<longleftrightarrow> of_int q \<le> (of_int (p * 2 ^ nat (- ?e)) :: rat)"
      unfolding x powi_two using False q by (simp add: field_simps)
    with False show ?thesis by (simp only: of_int_le_iff if_False)
  qed
  then show ?thesis using pq by (simp add: ilog2_def Let_def)
qed

lemma rounded_code [code]:
  "rounded x e =
     (if 0 \<le> e then let d = of_int (2 ^ nat e) in of_int (round_half_even (x / d)) * d
      else let d = of_int (2 ^ nat (- e)) in of_int (round_half_even (x * d)) / d)"
  by (simp add: rounded_def powi_two Let_def)

lemma fl64_fast [code]:
  "fl64 x =
     (if of_int \<lfloor>x\<rfloor> = x \<and> \<bar>\<lfloor>x\<rfloor>\<bar> < 9007199254740992 then Fin x
      else if \<bar>x\<bar> \<le> 1152921504606846976 then Fin (rounded x (max (ilog2 x - 52) (-1074)))
      else let y = rounded x (max (ilog2 x - 52) (-1074))
           in if 2 ^ 1024 \<le> y then PosInf else if y \<le> - (2 ^ 1024) then NegInf else Fin y)"
proof -
  have "(1152921504606846976 :: rat) \<le> 2 ^ 1000"
    using power_increasing [of 60 1000 "2 :: rat"] by (simp add: order_trans [rotated])
  then have "fl64 x = Fin (rounded x (max (ilog2 x - 52) (-1074)))" if "x \<noteq> 0" "\<bar>x\<bar> \<le> 1152921504606846976"
    using fl64_rounded that by force
  note small = this
  consider "of_int \<lfloor>x\<rfloor> = x \<and> \<bar>\<lfloor>x\<rfloor>\<bar> < 9007199254740992"
    | "\<not> (of_int \<lfloor>x\<rfloor> = x \<and> \<bar>\<lfloor>x\<rfloor>\<bar> < 9007199254740992)" "\<bar>x\<bar> \<le> 1152921504606846976"
    | "\<not> (of_int \<lfloor>x\<rfloor> = x \<and> \<bar>\<lfloor>x\<rfloor>\<bar> < 9007199254740992)" "\<not> \<bar>x\<bar> \<le> 1152921504606846976" by blast
  then show ?thesis
  proof cases
    case 1
    then show ?thesis by (simp only: fl64_code [of x] if_P if_True)
  next
    case 2
    then have "x \<noteq> 0" by auto
    from small [OF this 2(2)] show ?thesis by (simp only: if_not_P [OF 2(1)] if_P [OF 2(2)])
  next
    case 3
    then show ?thesis by (simp only: fl64_code [of x] if_not_P rounded_def Let_def if_False)
  qed
qed

lemma num_add_zero: "is_double (Fin x) \<Longrightarrow> num_add (Fin x) (Fin 0) = Fin x"
  by (simp add: is_double_def)

lemma fl64_zero [simp]: "fl64 0 = Fin 0"
  by (simp add: fl64_def)

end
