(* ===== verification/Ghost_Claims.thy ===== *)
theory Ghost_Claims
  imports Ghost_Replay Js_Rounding
begin

text \<open>
  Properties of the ghost overlay: what the parser guarantees of a replay, that seeking with the index
  finds the same point as a scan of the whole recording, and that seeking to a recorded time gives
  back the recorded sample.
\<close>

section \<open>The contract of a parsed replay\<close>

abbreviation point_time :: "GhostReplay \<Rightarrow> nat \<Rightarrow> jsnum" where
  "point_time r i \<equiv> gr_points r ! i ! 0"

definition finite_point :: "GhostPoint \<Rightarrow> bool" where
  "finite_point p \<longleftrightarrow> length p = 8 \<and> (\<exists>t. p ! 0 = Fin t \<and> 0 \<le> t \<and> t \<le> 1000000000000)
     \<and> (\<forall>k. 1 \<le> k \<and> k < 8 \<longrightarrow> (\<exists>x. p ! k = Fin x \<and> \<bar>x\<bar> \<le> 1000000))"

definition points_wf :: "GhostReplay \<Rightarrow> bool" where
  "points_wf r \<longleftrightarrow>
     2 \<le> length (gr_points r) \<and> length (gr_points r) \<le> 6001 \<and> (\<forall>p \<in> set (gr_points r). finite_point p)
     \<and> (\<forall>i. Suc i < length (gr_points r) \<longrightarrow> num_lt (point_time r i) (point_time r (Suc i)))
     \<and> point_time r 0 = gr_startS r \<and> last (gr_points r) ! 0 = gr_endS r"

definition addresses :: "GhostReplay \<Rightarrow> GhostSeekEntry \<Rightarrow> bool" where
  "addresses r = (\<lambda>(t, p). p < length (gr_points r) \<and> num_le (point_time r p) t
     \<and> (Suc p < length (gr_points r) \<longrightarrow> num_lt t (point_time r (Suc p))))"

definition seek_wf :: "GhostReplay \<Rightarrow> bool" where
  "seek_wf r \<longleftrightarrow>
     2 \<le> length (gr_seekIndex r) \<and> length (gr_seekIndex r) \<le> 602
     \<and> (\<forall>e \<in> set (gr_seekIndex r). addresses r e \<and> isFinite (fst e))
     \<and> (\<forall>i. Suc i < length (gr_seekIndex r) \<longrightarrow>
          num_lt (fst (gr_seekIndex r ! i)) (fst (gr_seekIndex r ! Suc i))
          \<and> snd (gr_seekIndex r ! i) \<le> snd (gr_seekIndex r ! Suc i))
     \<and> fst (gr_seekIndex r ! 0) = gr_startS r \<and> fst (last (gr_seekIndex r)) = gr_endS r"

definition ghost_wf :: "GhostReplay \<Rightarrow> bool" where
  "ghost_wf r \<longleftrightarrow> points_wf r \<and> seek_wf r"

section \<open>Increasing sequences of numbers\<close>

lemma num_lt_trans: "num_lt a b \<Longrightarrow> num_lt b c \<Longrightarrow> num_lt a c"
  by (cases a; cases b; cases c) auto

lemma num_lt_le_trans: "num_lt a b \<Longrightarrow> num_le b c \<Longrightarrow> num_lt a c"
  by (cases a; cases b; cases c) auto

lemma num_lt_imp_le: "num_lt a b \<Longrightarrow> num_le a b"
  by (cases a; cases b) auto

lemma num_le_refl: "a \<noteq> NaN \<Longrightarrow> num_le a a"
  by (cases a) auto

lemma num_le_not_lt: "num_le a b \<Longrightarrow> \<not> num_lt b a"
  by (cases a; cases b) auto

lemma increasing_less:
  assumes "\<And>i. Suc i < n \<Longrightarrow> num_lt (f i) (f (Suc i))"
  shows "i < j \<Longrightarrow> j < n \<Longrightarrow> num_lt (f i) (f j)"
proof (induction j)
  case (Suc j)
  show ?case
  proof (cases "i = j")
    case True
    with Suc.prems assms show ?thesis by simp
  next
    case False
    with Suc have "num_lt (f i) (f j)" by simp
    with assms [of j] Suc.prems num_lt_trans show ?thesis by blast
  qed
qed simp

lemma increasing_downward:
  assumes "\<And>i. Suc i < n \<Longrightarrow> num_lt (f i) (f (Suc i))" and "i \<le> j" "j < n" "num_le (f j) t"
  shows "num_le (f i) t"
proof (cases "i = j")
  case False
  with assms(2,3) have "num_lt (f i) (f j)" by (intro increasing_less [where f = f and n = n, OF assms(1)]) auto
  with assms(4) show ?thesis by (meson num_le_trans num_lt_imp_le)
qed (use assms in simp)

section \<open>Binary search\<close>

text \<open>On a predicate that holds up to some index and not after it, the loop returns that index.\<close>

lemma seek_loop_greatest:
  assumes "low \<le> high" "ok low" "\<And>i j. low \<le> i \<Longrightarrow> i \<le> j \<Longrightarrow> j \<le> high \<Longrightarrow> ok j \<Longrightarrow> ok i"
  shows "low \<le> seek_loop ok low high \<and> seek_loop ok low high \<le> high \<and> ok (seek_loop ok low high)
    \<and> (\<forall>j. seek_loop ok low high < j \<and> j \<le> high \<longrightarrow> \<not> ok j)"
  using assms
proof (induction ok low high rule: seek_loop.induct)
  case (1 ok low high)
  define m where "m = (low + high + 1) div 2"
  show ?case
  proof (cases "low < high")
    case False
    with "1.prems" show ?thesis by (auto simp: seek_loop.simps)
  next
    case True
    then have m: "low < m" "m \<le> high" by (auto simp: m_def)
    show ?thesis
    proof (cases "ok m")
      case ok: True
      have step: "seek_loop ok low high = seek_loop ok m high"
        using True ok by (subst seek_loop.simps) (simp add: Let_def m_def)
      have "m \<le> seek_loop ok m high \<and> seek_loop ok m high \<le> high \<and> ok (seek_loop ok m high)
          \<and> (\<forall>j. seek_loop ok m high < j \<and> j \<le> high \<longrightarrow> \<not> ok j)"
        using "1.IH"(1) [OF True m_def] ok m "1.prems"(3) by (meson le_trans less_imp_le)
      with m step show ?thesis by auto
    next
      case no: False
      have step: "seek_loop ok low high = seek_loop ok low (m - 1)"
        using True no by (subst seek_loop.simps) (simp add: Let_def m_def)
      have "low \<le> seek_loop ok low (m - 1) \<and> seek_loop ok low (m - 1) \<le> m - 1 \<and> ok (seek_loop ok low (m - 1))
          \<and> (\<forall>j. seek_loop ok low (m - 1) < j \<and> j \<le> m - 1 \<longrightarrow> \<not> ok j)"
        using "1.IH"(2) [OF True m_def] no m "1.prems"(2,3) by auto
      moreover have "\<not> ok j" if "m \<le> j" "j \<le> high" for j
        using "1.prems"(3) [of m j] that no m by auto
      ultimately show ?thesis using m step by (metis (no_types, lifting) Suc_pred' le_trans less_Suc_eq_le not_less not_less_eq_eq diff_le_self less_imp_le gr_implies_not0 neq0_conv)
    qed
  qed
qed

section \<open>Seeking\<close>

lemma point_time_Fin: "points_wf r \<Longrightarrow> i < length (gr_points r) \<Longrightarrow> \<exists>x. point_time r i = Fin x"
  unfolding points_wf_def finite_point_def by (meson nth_mem)

lemma last_point: "points_wf r \<Longrightarrow> last (gr_points r) = gr_points r ! (length (gr_points r) - 1)"
  unfolding points_wf_def by (intro last_conv_nth) auto

lemma last_seek: "seek_wf r \<Longrightarrow> last (gr_seekIndex r) = gr_seekIndex r ! (length (gr_seekIndex r) - 1)"
  unfolding seek_wf_def by (intro last_conv_nth) auto

lemma clamp_time_range:
  assumes "ghost_wf r" "t \<noteq> NaN"
  shows "num_le (gr_startS r) (clamp_time r t)" "num_le (clamp_time r t) (gr_endS r)"
proof -
  have wf: "points_wf r" and len: "2 \<le> length (gr_points r)" using assms by (auto simp: ghost_wf_def points_wf_def)
  note last = last_point [OF wf]
  have start: "gr_startS r = point_time r 0" and stop: "gr_endS r = point_time r (length (gr_points r) - 1)"
    using wf last by (simp_all add: points_wf_def)
  obtain a where a: "gr_startS r = Fin a" unfolding start using point_time_Fin [OF wf, of 0] len by fastforce
  obtain b where b: "gr_endS r = Fin b"
    unfolding stop using point_time_Fin [OF wf, of "length (gr_points r) - 1"] len by fastforce
  have "num_lt (point_time r 0) (point_time r (length (gr_points r) - 1))"
    by (rule increasing_less [where n = "length (gr_points r)"]) (use wf len in \<open>auto simp: points_wf_def\<close>)
  then have "a < b" using a b by (simp add: start stop)
  then show "num_le (gr_startS r) (clamp_time r t)" "num_le (clamp_time r t) (gr_endS r)"
    using a b assms(2) by (cases t; auto simp: clamp_time_def num_min_def num_max_def)+
qed

text \<open>The reference: a scan for the last point not after the time.\<close>

definition scan_before :: "GhostReplay \<Rightarrow> jsnum \<Rightarrow> nat" where
  "scan_before r t = length (takeWhile (\<lambda>p. num_le (p ! 0) t) (gr_points r)) - 1"

lemma scan_before_eq:
  assumes "\<And>i. i \<le> k \<Longrightarrow> num_le (point_time r i) t" "k < length (gr_points r)"
    and "Suc k < length (gr_points r) \<Longrightarrow> \<not> num_le (point_time r (Suc k)) t"
  shows "scan_before r t = k"
proof -
  have "takeWhile (\<lambda>p. num_le (p ! 0) t) (gr_points r) = take (Suc k) (gr_points r)"
    by (rule takeWhile_eq_take_P_nth) (use assms in auto)
  with assms(2) show ?thesis by (simp add: scan_before_def)
qed


text \<open>The coarse search ends at the last index entry not after the time.\<close>

lemma coarse_search:
  assumes "seek_wf r" "num_le (gr_startS r) t"
  defines "k \<equiv> seek_loop (\<lambda>m. num_le (fst (gr_seekIndex r ! m)) t) 0 (length (gr_seekIndex r) - 1)"
  shows "k < length (gr_seekIndex r)" "num_le (fst (gr_seekIndex r ! k)) t"
    "Suc k < length (gr_seekIndex r) \<Longrightarrow> \<not> num_le (fst (gr_seekIndex r ! Suc k)) t"
proof -
  let ?n = "length (gr_seekIndex r)"
  have n: "2 \<le> ?n" using assms(1) by (simp add: seek_wf_def)
  have up: "num_lt (fst (gr_seekIndex r ! i)) (fst (gr_seekIndex r ! Suc i))" if "Suc i < ?n" for i
    using assms(1) that by (simp add: seek_wf_def)
  have down: "num_le (fst (gr_seekIndex r ! i)) t" if "i \<le> j" "j \<le> ?n - 1" "num_le (fst (gr_seekIndex r ! j)) t" for i j
    using increasing_downward [where f = "\<lambda>i. fst (gr_seekIndex r ! i)" and n = ?n, OF up] that n by simp
  have "0 \<le> k \<and> k \<le> ?n - 1 \<and> num_le (fst (gr_seekIndex r ! k)) t
      \<and> (\<forall>j. k < j \<and> j \<le> ?n - 1 \<longrightarrow> \<not> num_le (fst (gr_seekIndex r ! j)) t)"
    unfolding k_def by (rule seek_loop_greatest) (use assms(1,2) down in \<open>auto simp: seek_wf_def\<close>)
  then show "k < ?n" "num_le (fst (gr_seekIndex r ! k)) t"
    "Suc k < ?n \<Longrightarrow> \<not> num_le (fst (gr_seekIndex r ! Suc k)) t"
    using n by auto
qed

lemma points_downward:
  assumes "points_wf r" "i \<le> j" "j < length (gr_points r)" "num_le (point_time r j) t"
  shows "num_le (point_time r i) t"
  by (rule increasing_downward [where f = "point_time r" and n = "length (gr_points r)"])
    (use assms in \<open>auto simp: points_wf_def\<close>)

lemma point_range_ok:
  assumes pw: "points_wf r" and sw: "seek_wf r" and k: "k < length (gr_seekIndex r)" and range: "point_range r k = (lo, hi)"
  shows "lo \<le> hi" "hi < length (gr_points r)" "num_le (point_time r lo) (fst (gr_seekIndex r ! k))"
proof -
  have "addresses r (gr_seekIndex r ! k)" using sw k by (simp add: seek_wf_def)
  then have lo: "lo < length (gr_points r)" "num_le (point_time r lo) (fst (gr_seekIndex r ! k))"
    using range by (auto simp: addresses_def point_range_def split: prod.splits)
  show "num_le (point_time r lo) (fst (gr_seekIndex r ! k))" by (rule lo(2))
  show "hi < length (gr_points r)" using range lo by (auto simp: point_range_def)
  show "lo \<le> hi"
  proof (cases "Suc k < length (gr_seekIndex r)")
    case True
    then have "snd (gr_seekIndex r ! k) \<le> snd (gr_seekIndex r ! Suc k)" using sw by (simp add: seek_wf_def)
    with True range lo(1) show ?thesis by (auto simp: point_range_def)
  qed (use range lo(1) in \<open>auto simp: point_range_def\<close>)
qed

lemma beyond_range:
  assumes pw: "points_wf r" and sw: "seek_wf r" and nan: "t \<noteq> NaN" and range: "point_range r k = (lo, hi)"
    and after: "Suc k < length (gr_seekIndex r) \<Longrightarrow> \<not> num_le (fst (gr_seekIndex r ! Suc k)) t"
    and j: "hi < j" "j < length (gr_points r)"
  shows "\<not> num_le (point_time r j) t"
proof (cases "Suc k < length (gr_seekIndex r)")
  case False
  then show ?thesis using range j by (auto simp: point_range_def)
next
  case True
  let ?e = "gr_seekIndex r ! Suc k"
  have hi: "hi = min (length (gr_points r) - 1) (snd ?e + 1)" using True range by (auto simp: point_range_def)
  then have p: "Suc (snd ?e) < length (gr_points r)" "Suc (snd ?e) \<le> j" using j by auto
  have e: "addresses r ?e" "isFinite (fst ?e)" using sw True by (simp_all add: seek_wf_def)
  with p(1) have "num_lt (fst ?e) (point_time r (Suc (snd ?e)))" by (auto simp: addresses_def split: prod.splits)
  moreover have "num_lt t (fst ?e)"
    using nan e(2) after [OF True] num_lt_iff [of t "fst ?e"] by (auto simp: isFinite_def split: jsnum.splits)
  ultimately have "num_lt t (point_time r (Suc (snd ?e)))" using num_lt_trans by blast
  then have "\<not> num_le (point_time r (Suc (snd ?e))) t" using num_le_not_lt by blast
  then show ?thesis using points_downward [OF pw p(2) j(2)] by blast
qed

lemma seek_finds_scan:
  assumes wf: "ghost_wf r" and "t \<noteq> NaN"
  defines "T \<equiv> clamp_time r t"
  shows "seekGhostReplay r t = Inr (interpolate r T (scan_before r T))" "scan_before r T < length (gr_points r)"
    "num_le (point_time r (scan_before r T)) T"
proof -
  let ?n = "length (gr_points r)"
  have pw: "points_wf r" and sw: "seek_wf r" using wf by (simp_all add: ghost_wf_def)
  have start: "num_le (gr_startS r) T" using clamp_time_range [OF wf assms(2)] by (simp add: T_def)
  then have nan: "T \<noteq> NaN" by (cases "gr_startS r") auto
  have ne: "gr_seekIndex r \<noteq> []" using sw by (auto simp: seek_wf_def)
  define k where "k = seek_loop (\<lambda>m. num_le (fst (gr_seekIndex r ! m)) T) 0 (length (gr_seekIndex r) - 1)"
  note k = coarse_search [OF sw start, folded k_def]
  obtain lo hi where lohi: "point_range r k = (lo, hi)" by (cases "point_range r k")
  note range = point_range_ok [OF pw sw k(1) lohi]
  note beyond = beyond_range [OF pw sw nan lohi k(3)]
  have lo: "num_le (point_time r lo) T" using range(3) k(2) num_le_trans by blast
  define b where "b = seek_loop (\<lambda>m. num_le (point_time r m) T) lo hi"
  have "lo \<le> b \<and> b \<le> hi \<and> num_le (point_time r b) T \<and> (\<forall>j. b < j \<and> j \<le> hi \<longrightarrow> \<not> num_le (point_time r j) T)"
    unfolding b_def by (rule seek_loop_greatest) (use range lo points_downward [OF pw] in auto)
  then have b: "b < ?n" "num_le (point_time r b) T" "\<And>j. b < j \<Longrightarrow> j \<le> hi \<Longrightarrow> \<not> num_le (point_time r j) T"
    using range(2) by auto
  have scan: "scan_before r T = b"
  proof (rule scan_before_eq)
    show "\<not> num_le (point_time r (Suc b)) T" if "Suc b < ?n"
      using b(3) [of "Suc b"] beyond [of "Suc b"] that by (cases "Suc b \<le> hi") auto
  qed (use points_downward [OF pw] b in auto)
  show "scan_before r T < ?n" "num_le (point_time r (scan_before r T)) T" using b scan by simp_all
  show "seekGhostReplay r t = Inr (interpolate r T (scan_before r T))"
    unfolding seekGhostReplay_def Let_def T_def [symmetric] k_def [symmetric]
    using ne b(1) by (simp add: lohi b_def [symmetric] scan)
qed

section \<open>What the parser guarantees\<close>

lemma finiteNumber_Inr:
  "finiteNumber v label lo hi = Inr n \<longleftrightarrow> v = JNum n \<and> isFinite n \<and> \<not> num_lt n lo \<and> \<not> num_lt hi n"
  by (auto simp: finiteNumber_def split: jsval.splits if_splits)

lemma finiteNumber_Fin:
  "finiteNumber v label (Fin a) (Fin b) = Inr n \<longleftrightarrow> (\<exists>x. v = JNum (Fin x) \<and> n = Fin x \<and> a \<le> x \<and> x \<le> b)"
  by (auto simp: finiteNumber_Inr isFinite_def split: jsnum.splits)

lemma integer_field_Inr:
  "integer_field v label lo hi = Inr k \<longleftrightarrow> v = JNum (IntN k) \<and> lo \<le> k \<and> k \<le> hi"
  by (auto simp: integer_field_def finiteNumber_Fin resE isInteger_iff whole_of_def)

lemma length_layout: "length GHOST_POINT_LAYOUT = 8"
  by (simp add: GHOST_POINT_LAYOUT_def)

lemma array_of_Inr: "array_of v lo hi m = Inr xs \<longleftrightarrow> v = JArr xs \<and> lo \<le> int (length xs) \<and> int (length xs) \<le> hi"
  by (auto simp: array_of_def split: jsval.splits)

lemma parsePoint_Inr: "parsePoint hypot v index = Inr p \<Longrightarrow> finite_point p"
proof -
  assume "parsePoint hypot v index = Inr p"
  then obtain items where len: "length items = 8" and items: "mapE (point_field index) (enumerate 0 items) = Inr p"
    by (auto simp: parsePoint_def length_layout resE split: jsval.splits if_splits)
  have "length p = 8" using mapE_length [OF items] len by simp
  moreover have "point_field index (i, items ! i) = Inr (p ! i)" if "i < 8" for i
    using mapE_nth [OF items, of i] that len by (simp add: nth_enumerate_eq)
  ultimately show ?thesis
    unfolding finite_point_def point_field_def finiteNumber_Fin [of _ _ "-1000000" 1000000]
    by (force simp: finiteNumber_Fin abs_le_iff)
qed


lemma parsePoints_Inr:
  assumes "parsePoints hypot source startS endS = Inr points"
  shows "2 \<le> length points" "length points \<le> 6001" "\<forall>p \<in> set points. finite_point p"
    "points ! 0 ! 0 = startS" "last points ! 0 = endS"
    "\<And>i. Suc i < length points \<Longrightarrow> num_lt (points ! i ! 0) (points ! Suc i ! 0)"
proof -
  from assms obtain items where len: "2 \<le> length items" "length items \<le> 6001"
    and pts: "mapE (\<lambda>(index, point). parsePoint hypot point index) (enumerate 0 items) = Inr points"
    and ends: "num_eq (hd points ! 0) startS" "num_eq (last points ! 0) endS"
    and inc: "\<not> list_ex (\<lambda>index. num_le (points ! index ! 0) (points ! (index - 1) ! 0)) [1..<length points]"
    by (auto simp: parsePoints_def resE array_of_Inr GHOST_MAX_RENDER_POINTS_def)
  have "length points = length items" using mapE_length [OF pts] by simp
  with len show two: "2 \<le> length points" "length points \<le> 6001" by simp_all
  show fin: "\<forall>p \<in> set points. finite_point p"
    using mapE_set [OF pts] by (force simp: parsePoint_Inr)
  have "hd points = points ! 0" using two(1) by (intro hd_conv_nth) auto
  with ends show "points ! 0 ! 0 = startS" "last points ! 0 = endS" by (simp_all add: num_eq_iff)
  show "num_lt (points ! i ! 0) (points ! Suc i ! 0)" if i: "Suc i < length points" for i
  proof -
    have "finite_point (points ! i)" "finite_point (points ! Suc i)" using fin i by auto
    then obtain a b where "points ! i ! 0 = Fin a" "points ! Suc i ! 0 = Fin b" by (auto simp: finite_point_def)
    moreover have "\<not> num_le (points ! Suc i ! 0) (points ! i ! 0)"
      using inc i by (auto simp: list_ex_iff dest!: bspec [of _ _ "Suc i"])
    ultimately show ?thesis by simp
  qed
qed

lemma parseSeekEntry_Inr:
  assumes "parseSeekEntry v index points = Inr (t, p)" and "points \<noteq> []" and "\<forall>q \<in> set points. finite_point q"
  shows "p < length points" "num_le (points ! p ! 0) t" "Suc p < length points \<Longrightarrow> num_lt t (points ! Suc p ! 0)" "isFinite t"
proof -
  from assms(1) obtain k where fin: "isFinite t" and p: "p = nat k" "0 \<le> k" "k \<le> int (length points) - 1"
    and pre: "\<not> num_lt t (points ! p ! 0)" "\<not> (Suc p < length points \<and> num_le (points ! Suc p ! 0) t)"
    by (auto simp: parseSeekEntry_def resE finiteNumber_Inr integer_field_Inr Let_def split: jsval.splits list.splits if_splits)
  show p_in: "p < length points" using p by linarith
  have "finite_point (points ! p)" using assms(3) p_in by simp
  then obtain a where "points ! p ! 0 = Fin a" by (auto simp: finite_point_def)
  with pre(1) fin show "num_le (points ! p ! 0) t" by (auto simp: isFinite_def split: jsnum.splits)
  show "num_lt t (points ! Suc p ! 0)" if "Suc p < length points"
  proof -
    have "finite_point (points ! Suc p)" using assms(3) that by simp
    then obtain b where "points ! Suc p ! 0 = Fin b" by (auto simp: finite_point_def)
    with pre(2) that fin show ?thesis by (auto simp: isFinite_def split: jsnum.splits)
  qed
  show "isFinite t" by (rule fin)
qed

lemma check_seek_Inr:
  "check_seek xs = Inr u \<Longrightarrow> Suc i < length xs \<Longrightarrow>
     \<not> num_le (fst (xs ! Suc i)) (fst (xs ! i)) \<and> snd (xs ! i) \<le> snd (xs ! Suc i)"
proof (induction xs arbitrary: i rule: check_seek.induct)
  case (1 a b rest)
  then show ?case by (cases i) (auto split: if_splits)
qed simp_all

lemma parseSeekIndex_Inr:
  assumes "parseSeekIndex source startS endS points = Inr xs" and "points \<noteq> []" and "\<forall>q \<in> set points. finite_point q"
  shows "2 \<le> length xs" "length xs \<le> 602" "fst (xs ! 0) = startS" "fst (last xs) = endS"
    "\<And>e. e \<in> set xs \<Longrightarrow> \<exists>v index. parseSeekEntry v index points = Inr e"
    "\<And>i. Suc i < length xs \<Longrightarrow> num_lt (fst (xs ! i)) (fst (xs ! Suc i)) \<and> snd (xs ! i) \<le> snd (xs ! Suc i)"
proof -
  from assms(1) obtain items where len: "2 \<le> length items" "length items \<le> 602"
    and ents: "mapE (\<lambda>(index, entry). parseSeekEntry entry index points) (enumerate 0 items) = Inr xs"
    and ends: "num_eq (fst (hd xs)) startS" "num_eq (fst (last xs)) endS" and chk: "check_seek xs = Inr ()"
    by (auto simp: parseSeekIndex_def resE array_of_Inr)
  have "length xs = length items" using mapE_length [OF ents] by simp
  with len show two: "2 \<le> length xs" "length xs \<le> 602" by simp_all
  have "hd xs = xs ! 0" using two(1) by (intro hd_conv_nth) auto
  with ends show "fst (xs ! 0) = startS" "fst (last xs) = endS" by (simp_all add: num_eq_iff)
  show ent: "\<exists>v index. parseSeekEntry v index points = Inr e" if "e \<in> set xs" for e
    using mapE_set [OF ents that] by auto
  have fin: "isFinite (fst (xs ! i))" if "i < length xs" for i
    using ent [of "xs ! i"] that parseSeekEntry_Inr(4) [OF _ assms(2,3)] by (metis nth_mem prod.collapse)
  show "num_lt (fst (xs ! i)) (fst (xs ! Suc i)) \<and> snd (xs ! i) \<le> snd (xs ! Suc i)" if i: "Suc i < length xs" for i
    using check_seek_Inr [OF chk i] fin [of i] fin [OF i] i by (auto simp: isFinite_def split: jsnum.splits)
qed

lemma ghost_record_Inr: "ghost_record v label = Inr w \<longleftrightarrow> isRecord v \<and> w = v"
  by (auto simp: ghost_record_def)

lemma parse_parts:
  assumes "parseGhostReplay hypot v = Inr r"
  shows "parsePoints hypot v (gr_startS r) (gr_endS r) = Inr (gr_points r)"
    "parseSeekIndex v (gr_startS r) (gr_endS r) (gr_points r) = Inr (gr_seekIndex r)"
    "int (length (gr_points r)) \<le> gr_sourceSampleCount r"
    "parseDivergence (getProp v ''divergence'') = Inr (gr_divergence r)"
  using assms by (auto simp: parseGhostReplay_def ghost_record_Inr resE)

lemma parsed_wf:
  assumes "parseGhostReplay hypot v = Inr r"
  shows "ghost_wf r"
proof -
  note pts = parsePoints_Inr [OF parse_parts(1) [OF assms]]
  have ne: "gr_points r \<noteq> []" using pts(1) by auto
  note idx = parseSeekIndex_Inr [OF parse_parts(2) [OF assms] ne pts(3)]
  have "addresses r e \<and> isFinite (fst e)" if "e \<in> set (gr_seekIndex r)" for e
    using idx(5) [OF that] parseSeekEntry_Inr [OF _ ne pts(3)]
    by (cases e) (auto simp: addresses_def)
  with idx have "seek_wf r" unfolding seek_wf_def by blast
  moreover have "points_wf r" unfolding points_wf_def using pts by blast
  ultimately show ?thesis by (simp add: ghost_wf_def)
qed


section \<open>Interpolation at a recorded time\<close>

lemma mix_zero:
  assumes "\<bar>a\<bar> \<le> 1000000" "\<bar>b\<bar> \<le> 1000000" "is_double (Fin a)"
  shows "mix (Fin a) (Fin b) (Fin 0) = Fin a"
proof -
  have "\<bar>b - a\<bar> \<le> 2000000" using assms(1,2) by linarith
  also have "(2000000 :: rat) \<le> 2 ^ 1000"
    using power_increasing [of 21 1000 "2 :: rat"] by (simp add: order_trans [rotated])
  finally obtain y where "fl64 (b - a) = Fin y" using fl64_finite by blast
  then show ?thesis using assms(3) by (simp add: mix_def num_sub_def is_double_def)
qed

lemma mix_field_zero:
  assumes "finite_point p" "finite_point q" "list_all is_double p" "1 \<le> k" "k < 8"
  shows "mix_field p q (Fin 0) k = p ! k"
proof -
  obtain a where a: "p ! k = Fin a" "\<bar>a\<bar> \<le> 1000000" using assms(1,4,5) unfolding finite_point_def by blast
  obtain b where b: "q ! k = Fin b" "\<bar>b\<bar> \<le> 1000000" using assms(2,4,5) unfolding finite_point_def by blast
  have "is_double (p ! k)" using assms(1,3,5) by (auto simp: finite_point_def list_all_length)
  with a b show ?thesis by (simp add: mix_field_def mix_zero)
qed

lemma ratio_zero: "num_div (num_sub (Fin x) (Fin x)) s = Fin 0 \<or> \<not> num_lt (Fin 0) s"
  by (cases s) (auto simp: num_sub_def)

lemma interpolate_at_sample:
  assumes wf: "points_wf r" and i: "i < length (gr_points r)" and dbl: "list_all is_double (gr_points r ! i)"
  shows "gf_actualPositionM (interpolate r (point_time r i) i) = map ((!) (gr_points r ! i)) [1, 2, 3]"
    "gf_predictedPositionM (interpolate r (point_time r i) i) = map ((!) (gr_points r ! i)) [4, 5, 6]"
    "gf_divergenceM (interpolate r (point_time r i) i) = gr_points r ! i ! 7"
proof -
  let ?after = "min (length (gr_points r) - 1) (i + 1)"
  obtain x where x: "point_time r i = Fin x" using point_time_Fin [OF wf i] by blast
  have fin: "finite_point (gr_points r ! i)" "finite_point (gr_points r ! ?after)"
    using wf i by (auto simp: points_wf_def)
  note zero = mix_field_zero [OF fin dbl]
  have ratio: "(if num_lt (Fin 0) s then num_div (num_sub (point_time r i) (point_time r i)) s else Fin 0) = Fin 0" for s
    using ratio_zero [of x s] by (auto simp: x)
  show "gf_actualPositionM (interpolate r (point_time r i) i) = map ((!) (gr_points r ! i)) [1, 2, 3]"
    "gf_predictedPositionM (interpolate r (point_time r i) i) = map ((!) (gr_points r ! i)) [4, 5, 6]"
    "gf_divergenceM (interpolate r (point_time r i) i) = gr_points r ! i ! 7"
    by (simp_all add: interpolate_def Let_def ratio zero del: One_nat_def)
qed

lemma scan_at_sample:
  assumes wf: "ghost_wf r" and i: "i < length (gr_points r)"
  shows "clamp_time r (point_time r i) = point_time r i" "scan_before r (point_time r i) = i"
proof -
  have pw: "points_wf r" using wf by (simp add: ghost_wf_def)
  have up: "num_lt (point_time r a) (point_time r (Suc a))" if "Suc a < length (gr_points r)" for a
    using pw that by (simp add: points_wf_def)
  have le: "num_le (point_time r a) (point_time r b)" if "a \<le> b" "b < length (gr_points r)" for a b
    using points_downward [OF pw that] point_time_Fin [OF pw that(2)] num_le_refl by fastforce
  have "num_le (gr_startS r) (point_time r i)" "num_le (point_time r i) (gr_endS r)"
    using le [of 0 i] le [of i "length (gr_points r) - 1"] i pw last_point [OF pw] by (auto simp: points_wf_def)
  then show "clamp_time r (point_time r i) = point_time r i"
    by (cases "gr_startS r"; cases "point_time r i"; cases "gr_endS r") (auto simp: clamp_time_def num_min_def num_max_def)
  show "scan_before r (point_time r i) = i"
    by (rule scan_before_eq) (use le i up num_le_not_lt in blast)+
qed

section \<open>Properties\<close>

text \<open>
  An accepted overlay is well formed: 2 to 6001 points of eight finite numbers in range, with
  strictly increasing times from the start to the end; a seek index of 2 to 602 entries over the same
  span, each addressing the last point not after its time; and no more points than source samples.
\<close>

theorem ghost_parse_type:
  assumes "parseGhostReplay hypot v = Inr r"
  shows "points_wf r \<and> seek_wf r \<and> int (length (gr_points r)) \<le> gr_sourceSampleCount r"
  using parsed_wf [OF assms] parse_parts(3) [OF assms] by (simp add: ghost_wf_def)

text \<open>
  C37. Seeking in an accepted overlay always returns a frame, and the two binary searches through the
  seek index find exactly the point that a scan of all points finds: the last one not after the
  requested time, clamped to the recording.
\<close>

theorem ghost_seek_equals_scan:
  assumes "parseGhostReplay hypot v = Inr r" and "t \<noteq> NaN"
  shows "seekGhostReplay r t = Inr (interpolate r (clamp_time r t) (scan_before r (clamp_time r t)))
    \<and> scan_before r (clamp_time r t) < length (gr_points r)
    \<and> num_le (gr_startS r) (clamp_time r t) \<and> num_le (clamp_time r t) (gr_endS r)"
  using seek_finds_scan [OF parsed_wf [OF assms(1)] assms(2)] clamp_time_range [OF parsed_wf [OF assms(1)] assms(2)]
  by simp

text \<open>
  Seeking to the time of a recorded point gives back that point: its positions and its divergence,
  with no rounding, since every stored number is a binary64 number.
\<close>

theorem ghost_seek_returns_sample:
  assumes "parseGhostReplay hypot v = Inr r" and "i < length (gr_points r)" and "list_all is_double (gr_points r ! i)"
  shows "\<exists>f. seekGhostReplay r (gr_points r ! i ! 0) = Inr f
    \<and> gf_beforePoint f = i \<and> gf_timeS f = gr_points r ! i ! 0
    \<and> gf_actualPositionM f = map ((!) (gr_points r ! i)) [1, 2, 3]
    \<and> gf_predictedPositionM f = map ((!) (gr_points r ! i)) [4, 5, 6] \<and> gf_divergenceM f = gr_points r ! i ! 7"
proof -
  have wf: "ghost_wf r" by (rule parsed_wf [OF assms(1)])
  then have pw: "points_wf r" by (simp add: ghost_wf_def)
  have "point_time r i \<noteq> NaN" using point_time_Fin [OF pw assms(2)] by auto
  from seek_finds_scan(1) [OF wf this] scan_at_sample [OF wf assms(2)]
  have "seekGhostReplay r (point_time r i) = Inr (interpolate r (point_time r i) i)" by simp
  moreover have "gf_beforePoint (interpolate r (point_time r i) i) = i" "gf_timeS (interpolate r (point_time r i) i) = point_time r i"
    by (simp_all add: interpolate_def Let_def)
  ultimately show ?thesis using interpolate_at_sample [OF pw assms(2,3)] by blast
qed

section \<open>Concrete instances\<close>

definition sample_point :: "int \<Rightarrow> int \<Rightarrow> jsval" where
  "sample_point t x = JArr (map (\<lambda>n. JNum (IntN n)) [t, x, 0, 0, x, 0, 0, 0])"

definition sample_overlay :: jsval where
  "sample_overlay = JObj
    [(''schemaVersion'', JStr ''forge-ghost-overlay/1.0.0''), (''enabled'', JBool True), (''frame'', JStr ''forge-y-up-rh-m''),
     (''divergenceMetric'', JStr ''position-rmse''), (''pointLayout'', JArr (map JStr GHOST_POINT_LAYOUT)),
     (''sourceMaturity'', JStr ''unverified''), (''deviceIdentityVerified'', JBool False),
     (''recordedDeviceVerified'', JBool False), (''fieldSessionVerified'', JBool False),
     (''startS'', JNum (IntN 5)), (''endS'', JNum (IntN 7)), (''durationS'', JNum (IntN 2)),
     (''sourceSampleCount'', JNum (IntN 3)), (''sourceSampleRateHz'', JNum (IntN 1)), (''renderRateHz'', JNum (IntN 1)),
     (''maxRenderPointCount'', JNum (IntN 6001)), (''renderPointCount'', JNum (IntN 3)),
     (''points'', JArr [sample_point 5 10, sample_point 6 20, sample_point 7 40]),
     (''seekIndex'', JArr [JArr [JNum (IntN 5), JNum (IntN 0)], JArr [JNum (IntN 6), JNum (IntN 1)], JArr [JNum (IntN 7), JNum (IntN 2)]]),
     (''divergence'', JObj [(''sampleCount'', JNum (IntN 3)), (''maxM'', JNum (IntN 0)), (''rmsM'', JNum (IntN 0)),
        (''warnM'', JNum (IntN 1)), (''status'', JStr ''tracking'')])]"

definition no_distance :: "jsnum \<Rightarrow> jsnum \<Rightarrow> jsnum \<Rightarrow> jsnum" where
  "no_distance a b c = Fin 0"

definition sample_replay :: GhostReplay where
  "sample_replay = (case parseGhostReplay no_distance sample_overlay of Inr r \<Rightarrow> r)"

definition sample_check :: "GhostReplay \<Rightarrow> bool" where
  "sample_check r \<longleftrightarrow> length (gr_points r) = 3 \<and> list_all is_double (gr_points r ! 1)
     \<and> gr_points r ! 1 = map IntN [6, 20, 0, 0, 20, 0, 0, 0]"

lemma sample_replay_checked: "case_sum (\<lambda>_. False) sample_check (parseGhostReplay no_distance sample_overlay)"
  by code_simp

lemma sample_replay_facts:
  "parseGhostReplay no_distance sample_overlay = Inr sample_replay" "length (gr_points sample_replay) = 3"
  "list_all is_double (gr_points sample_replay ! 1)" "gr_points sample_replay ! 1 = map IntN [6, 20, 0, 0, 20, 0, 0, 0]"
  using sample_replay_checked by (auto simp: sample_replay_def sample_check_def split: sum.splits)

theorem ghost_parse_type_witness: "points_wf sample_replay \<and> seek_wf sample_replay"
  using ghost_parse_type [OF sample_replay_facts(1)] by simp

theorem ghost_seek_equals_scan_witness:
  "\<exists>f. seekGhostReplay sample_replay (fl64 (13 / 2)) = Inr f \<and> gf_beforePoint f < 3"
proof -
  have "fl64 (13 / 2) \<noteq> NaN" by code_simp
  from ghost_seek_equals_scan [OF sample_replay_facts(1) this] show ?thesis
    by (simp add: sample_replay_facts(2) interpolate_def Let_def)
qed

theorem ghost_seek_returns_sample_witness:
  "\<exists>f. seekGhostReplay sample_replay (gr_points sample_replay ! 1 ! 0) = Inr f \<and> gf_actualPositionM f = map IntN [20, 0, 0]"
proof -
  have "map ((!) (gr_points sample_replay ! 1)) [1, 2, 3] = map IntN [20, 0, 0]"
    unfolding sample_replay_facts(4) by simp
  then show ?thesis
    using ghost_seek_returns_sample [OF sample_replay_facts(1) _ sample_replay_facts(3)] sample_replay_facts(2) by auto
qed

end
