(* ===== verification/Object_Blobs.thy ===== *)
theory Object_Blobs
  imports Json_Limits Js_Number Js_Objects
begin

text \<open>
  Object declarations of the gateway, packages/gateway/src/platform.ts: \<open>registerObjectBlob\<close> declares an
  object before it is uploaded, \<open>completeObjectBlobUpload\<close> accepts the upload once the stored object has
  the declared size, content type and checksum. \<open>env\<close> is what other requests do to the database between
  the two statements of an operation that is not one transaction; \<open>newId\<close> and \<open>uuid\<close> are the identifiers
  that the database and \<open>randomUUID\<close> draw. The caller is a row of \<open>users\<close>, as the authentication makes sure.
\<close>

section \<open>Keys\<close>

definition segment_char :: "char \<Rightarrow> bool" where
  "segment_char c \<longleftrightarrow> in_range (CHR ''a'') (CHR ''z'') c \<or> is_digit c \<or> c \<in> set ''._-''"

text \<open>\<open>replace(/[^a-z0-9._-]+/g, "-")\<close>: every maximal run of other characters becomes one dash.\<close>

fun dash_runs :: "bool \<Rightarrow> string \<Rightarrow> string" where
  "dash_runs inside [] = []"
| "dash_runs inside (c # s) =
     (if segment_char c then c # dash_runs False s
      else if inside then dash_runs True s else CHR ''-'' # dash_runs True s)"

definition strip_dashes :: "string \<Rightarrow> string" where
  "strip_dashes s = rev (dropWhile ((=) (CHR ''-'')) (rev (dropWhile ((=) (CHR ''-'')) s)))"

definition safeObjectSegment :: "string \<Rightarrow> string" where
  "safeObjectSegment value =
     (let s = take 80 (strip_dashes (dash_runs False (toLowerCase value))) in if s = [] then ''artifact'' else s)"

definition blobCacheKey :: "CurrentUser \<Rightarrow> string option \<Rightarrow> string option \<Rightarrow> string option" where
  "blobCacheKey user cacheKey sha =
     (case cacheKey of
        Some (c # k) \<Rightarrow> Some (safeObjectSegment (user_id user) @ '':'' @ (c # k))
      | _ \<Rightarrow>
        (case sha of
           Some (c # h) \<Rightarrow> Some (safeObjectSegment (user_id user) @ '':sha256:'' @ toLowerCase (c # h))
         | _ \<Rightarrow> None))"

definition defaultObjectKey :: "CurrentUser \<Rightarrow> string \<Rightarrow> string option \<Rightarrow> string \<Rightarrow> string" where
  "defaultObjectKey user purpose sha uuid =
     ''users/'' @ safeObjectSegment (user_id user) @ ''/'' @ safeObjectSegment purpose @ ''/''
       @ (case sha of Some (c # h) \<Rightarrow> toLowerCase (c # h) | _ \<Rightarrow> uuid)"

section \<open>Records\<close>

record ObjectBlobRecord =
  bl_id :: string
  bl_ownerUserId :: "string option"
  bl_visibility :: Visibility
  bl_cacheKey :: "string option"
  bl_bucket :: string
  bl_objectKey :: string
  bl_contentType :: "string option"
  bl_byteSize :: "int option"
  bl_sha256 :: "string option"
  bl_uploadStatus :: UploadStatus
  bl_verifiedAt :: "int option"
  bl_verificationErrorCode :: "string option"
  bl_metadata :: jsval
  bl_createdAt :: int

definition mapObjectBlob :: "ObjectBlobRow \<Rightarrow> ObjectBlobRecord" where
  "mapObjectBlob row =
     \<lparr>bl_id = ob_id row, bl_ownerUserId = ob_owner_user_id row, bl_visibility = ob_visibility row,
      bl_cacheKey = ob_cache_key row, bl_bucket = ob_bucket row, bl_objectKey = ob_object_key row,
      bl_contentType = ob_content_type row, bl_byteSize = ob_byte_size row, bl_sha256 = ob_sha256 row,
      bl_uploadStatus = ob_upload_status row, bl_verifiedAt = ob_verified_at row,
      bl_verificationErrorCode = ob_verification_error_code row, bl_metadata = ob_metadata row,
      bl_createdAt = ob_created_at row\<rparr>"

record StoredObjectInspection =
  si_byteSize :: int
  si_contentType :: "string option"
  si_sha256 :: "string option"

record BlobInput =
  bi_bucket :: string
  bi_purpose :: string
  bi_contentType :: "string option"
  bi_byteSize :: "jsnum option"
  bi_sha256 :: "string option"
  bi_metadata :: jsval
  bi_cacheKey :: "string option"

section \<open>Registering\<close>

definition MAX_OBJECT_BYTES :: int where "MAX_OBJECT_BYTES = 2 * 1024 * 1024 * 1024"

definition purpose_ok :: "string \<Rightarrow> bool" where
  "purpose_ok s \<longleftrightarrow> s \<noteq> [] \<and> length s \<le> 80 \<and> list_all (\<lambda>c. is_alnum c \<or> c \<in> set ''._:-'') s"

definition declared_type :: "string option \<Rightarrow> string option" where
  "declared_type t = map_option (\<lambda>s. toLowerCase (trim (hd (split_on (CHR '';'') s)))) t"

definition archiveTypes :: "string list" where
  "archiveTypes = [''application/zip'', ''application/x-7z-compressed'', ''application/x-rar-compressed'',
     ''application/x-tar'', ''application/gzip'']"

definition original_name :: "jsval \<Rightarrow> string" where
  "original_name metadata =
     (if isRecord metadata then case getProp metadata ''originalName'' of JStr s \<Rightarrow> toLowerCase s | _ \<Rightarrow> [] else [])"

definition archive_name :: "string \<Rightarrow> bool" where
  "archive_name name \<longleftrightarrow> list_ex (\<lambda>suffix. endsWith suffix name) [''.zip'', ''.7z'', ''.rar'', ''.tar'', ''.tgz'', ''.tar.gz'']"

definition lower_alnum :: "char \<Rightarrow> bool" where
  "lower_alnum c \<longleftrightarrow> in_range (CHR ''a'') (CHR ''z'') c \<or> is_digit c"

definition type_ok :: "string \<Rightarrow> bool" where
  "type_ok s \<longleftrightarrow> s \<noteq> [] \<and> length s \<le> 160 \<and> lower_alnum (hd s)
     \<and> list_all (\<lambda>c. lower_alnum c \<or> c \<in> set ''!#$&^_.+/-'') s"

definition size_ok :: "jsnum option \<Rightarrow> bool" where
  "size_ok n = (case n of None \<Rightarrow> True | Some x \<Rightarrow> isSafeInteger x \<and> num_le (Fin 0) x \<and> num_le x (IntN MAX_OBJECT_BYTES))"

definition sha_ok :: "string \<Rightarrow> bool" where
  "sha_ok s \<longleftrightarrow> length s = 64 \<and> list_all is_lower_hex s"

definition metadata_limits :: JsonLimits where
  "metadata_limits = no_limits\<lparr>jl_maxBytes := Some (128 * 1024), jl_maxDepth := Some 12,
     jl_maxNodes := Some 5000, jl_maxObjectKeys := Some 256\<rparr>"

definition or_empty :: "jsval \<Rightarrow> jsval" where
  "or_empty v = (if v = JUndef \<or> v = JNull then JObj [] else v)"

definition check_blob_input :: "BlobInput \<Rightarrow> gw_error + unit" where
  "check_blob_input input =
     bindE (guardE (purpose_ok (bi_purpose input)) (HttpError 400 ''object purpose is invalid'')) (\<lambda>_.
     let contentType = declared_type (bi_contentType input) in
     bindE (guardE (\<not> (case contentType of Some t \<Rightarrow> t \<in> set archiveTypes | None \<Rightarrow> False)
              \<and> \<not> archive_name (original_name (bi_metadata input)))
            (HttpError 400 ''archive uploads are not accepted by the current object boundary'')) (\<lambda>_.
     bindE (guardE (case contentType of Some t \<Rightarrow> t = [] \<or> type_ok t | None \<Rightarrow> True)
            (HttpError 400 ''object content type is invalid'')) (\<lambda>_.
     bindE (guardE (size_ok (bi_byteSize input)) (HttpError 400 ''object byte size is outside the supported range'')) (\<lambda>_.
     bindE (guardE (case bi_cacheKey input of Some k \<Rightarrow> 1 \<le> length k \<and> length k \<le> 200 | None \<Rightarrow> True)
            (HttpError 400 ''object cache key is outside the supported range'')) (\<lambda>_.
     bindE (assertBoundedJson (or_empty (bi_metadata input)) ''object metadata'' metadata_limits) (\<lambda>_.
     guardE (case bi_sha256 input of Some h \<Rightarrow> sha_ok (toLowerCase h) | None \<Rightarrow> True)
       (HttpError 400 ''object SHA-256 is invalid'')))))))"

text \<open>\<open>{...metadata, purpose}\<close>.\<close>

definition with_purpose :: "jsval \<Rightarrow> string \<Rightarrow> (string \<times> jsval) list" where
  "with_purpose metadata purpose =
     (let kvs = own_fields metadata
      in if list_ex (\<lambda>kv. fst kv = ''purpose'') kvs
         then map (\<lambda>(k, v). if k = ''purpose'' then (k, JStr purpose) else (k, v)) kvs
         else kvs @ [(''purpose'', JStr purpose)])"

definition whole_number :: "jsnum \<Rightarrow> int" where
  "whole_number n = (case n of Fin x \<Rightarrow> \<lfloor>x\<rfloor> | _ \<Rightarrow> 0)"

definition blob_row :: "string \<Rightarrow> string \<Rightarrow> int \<Rightarrow> CurrentUser \<Rightarrow> BlobInput \<Rightarrow> ObjectBlobRow" where
  "blob_row newId uuid now user input =
     (let sha = map_option toLowerCase (bi_sha256 input) in
      \<lparr>ob_id = newId, ob_owner_user_id = Some (user_id user), ob_visibility = VPrivate,
       ob_cache_key = blobCacheKey user (bi_cacheKey input) sha, ob_bucket = bi_bucket input,
       ob_object_key = defaultObjectKey user (bi_purpose input) sha uuid,
       ob_content_type = declared_type (bi_contentType input),
       ob_byte_size = map_option whole_number (bi_byteSize input), ob_sha256 = sha,
       ob_upload_status = UStaged, ob_verified_at = None, ob_verification_error_code = None,
       ob_metadata = JObj (with_purpose (bi_metadata input) (bi_purpose input)), ob_created_at = now\<rparr>)"

definition same_cache_key :: "ObjectBlobRow \<Rightarrow> ObjectBlobRow \<Rightarrow> bool" where
  "same_cache_key a b \<longleftrightarrow> ob_cache_key a \<noteq> None \<and> ob_cache_key a = ob_cache_key b"

definition blob_clash :: "ObjectBlobRow \<Rightarrow> ObjectBlobRow \<Rightarrow> bool" where
  "blob_clash a b \<longleftrightarrow> ob_id a = ob_id b \<or> (ob_bucket a = ob_bucket b \<and> ob_object_key a = ob_object_key b)"

definition same_declaration :: "ObjectBlobRow \<Rightarrow> ObjectBlobRow \<Rightarrow> bool" where
  "same_declaration a b \<longleftrightarrow> ob_owner_user_id a = ob_owner_user_id b \<and> ob_content_type a = ob_content_type b
     \<and> ob_byte_size a = ob_byte_size b \<and> ob_sha256 a = ob_sha256 b"

definition merge_metadata :: "ObjectBlobRow \<Rightarrow> ObjectBlobRow \<Rightarrow> ObjectBlobRow" where
  "merge_metadata row r = r\<lparr>ob_metadata := json_concat (ob_metadata r) (own_fields (ob_metadata row))\<rparr>"

text \<open>The upsert on the cache key: \<open>None\<close> when the conflicting row is a different declaration.\<close>

definition upsert_blob :: "ObjectBlobRow \<Rightarrow> gateway_db \<Rightarrow> gw_error + (ObjectBlobRow option \<times> gateway_db)" where
  "upsert_blob row db =
     (case find (same_cache_key row) (object_blobs db) of
        Some r \<Rightarrow>
          if same_declaration r row
          then Inr (Some (merge_metadata row r),
                 db\<lparr>object_blobs := map (\<lambda>q. if ob_id q = ob_id r then merge_metadata row q else q) (object_blobs db)\<rparr>)
          else Inr (None, db)
      | None \<Rightarrow>
          bindE (insert_unique blob_clash (DbError ''unique constraint'') row (object_blobs db))
            (\<lambda>rows. Inr (Some row, db\<lparr>object_blobs := rows\<rparr>)))"

definition tx_state :: "('s \<Rightarrow> 'e + ('a \<times> 's)) \<Rightarrow> ('s, 'e, 'a) tx" where
  "tx_state f = (\<lambda>s. case f s of Inl e \<Rightarrow> (Inl e, s) | Inr (a, t) \<Rightarrow> (Inr a, t))"

definition registerObjectBlob :: "string \<Rightarrow> string \<Rightarrow> int \<Rightarrow> CurrentUser \<Rightarrow> BlobInput \<Rightarrow> ObjectBlobRecord gtx" where
  "registerObjectBlob newId uuid now user input =
     tx_bind (tx_lift (check_blob_input input)) (\<lambda>_.
     tx_bind (tx_state (upsert_blob (blob_row newId uuid now user input))) (\<lambda>result.
     case result of
       None \<Rightarrow> tx_throw (HttpError 409 ''object cache key is already bound to a different declaration'')
     | Some row \<Rightarrow>
         let blob = mapObjectBlob row in
         if bl_ownerUserId blob \<noteq> Some (user_id user)
         then tx_throw (HttpError 403 ''object blob cache key is not owned by the current user'')
         else tx_return blob))"

section \<open>Reading and completing\<close>

definition getOwnedObjectBlob :: "CurrentUser \<Rightarrow> string \<Rightarrow> ObjectBlobRecord option gtx" where
  "getOwnedObjectBlob user blobId =
     tx_bind (tx_gets (owned_blob blobId (user_id user))) (\<lambda>row. tx_return (map_option mapObjectBlob row))"

definition upload_error :: "ObjectBlobRecord \<Rightarrow> StoredObjectInspection \<Rightarrow> string option" where
  "upload_error blob i =
     (if bl_byteSize blob \<noteq> Some (si_byteSize i) then Some ''partial-object-upload''
      else if bl_contentType blob \<noteq> None \<and> si_contentType i \<noteq> map_option toLowerCase (bl_contentType blob)
      then Some ''object-content-type-mismatch''
      else if bl_sha256 blob \<noteq> None \<and> si_sha256 i \<noteq> map_option toLowerCase (bl_sha256 blob)
      then Some ''object-checksum-mismatch''
      else None)"

definition same_upload :: "CurrentUser \<Rightarrow> ObjectBlobRecord \<Rightarrow> ObjectBlobRow \<Rightarrow> bool" where
  "same_upload user blob r \<longleftrightarrow> ob_id r = bl_id blob \<and> ob_owner_user_id r = Some (user_id user)
     \<and> ob_byte_size r = bl_byteSize blob \<and> ob_content_type r = bl_contentType blob \<and> ob_sha256 r = bl_sha256 blob"

definition declarationChanged :: gw_error where
  "declarationChanged = CodedError 409 ''object-declaration-changed'' ''object declaration changed during upload verification'' []"

definition complete_blob :: "int \<Rightarrow> ObjectBlobRow \<Rightarrow> ObjectBlobRow" where
  "complete_blob now r =
     r\<lparr>ob_upload_status := UComplete,
       ob_verified_at := Some (case ob_verified_at r of None \<Rightarrow> now | Some t \<Rightarrow> t),
       ob_verification_error_code := None\<rparr>"

definition reject_blob :: "string \<Rightarrow> ObjectBlobRow \<Rightarrow> ObjectBlobRow" where
  "reject_blob code r =
     r\<lparr>ob_upload_status := UStaged, ob_verified_at := None, ob_verification_error_code := Some code\<rparr>"

text \<open>\<open>UPDATE object_blobs SET ... WHERE ... RETURNING\<close>: the updated row, if there is one.\<close>

definition update_blob :: "(ObjectBlobRow \<Rightarrow> bool) \<Rightarrow> (ObjectBlobRow \<Rightarrow> ObjectBlobRow) \<Rightarrow> ObjectBlobRow option gtx" where
  "update_blob P f = (\<lambda>db.
     (Inr (map_option f (find P (object_blobs db))),
      db\<lparr>object_blobs := map (\<lambda>r. if P r then f r else r) (object_blobs db)\<rparr>))"

definition completeObjectBlobUpload ::
  "(gateway_db \<Rightarrow> gateway_db) \<Rightarrow> int \<Rightarrow> CurrentUser \<Rightarrow> string \<Rightarrow> StoredObjectInspection \<Rightarrow> ObjectBlobRecord gtx" where
  "completeObjectBlobUpload env now user blobId inspection =
     tx_bind (getOwnedObjectBlob user blobId) (\<lambda>found.
     case found of
       None \<Rightarrow> tx_throw (HttpError 404 ''object blob not found'')
     | Some blob \<Rightarrow>
         tx_bind (tx_modify env) (\<lambda>_.
         case upload_error blob inspection of
           Some errorCode \<Rightarrow>
             tx_bind (update_blob (same_upload user blob) (reject_blob errorCode)) (\<lambda>updated.
             if updated = None then tx_throw declarationChanged
             else tx_throw (CodedError 409 errorCode ''object upload is incomplete or does not match its declaration'' []))
         | None \<Rightarrow>
             tx_bind (update_blob (same_upload user blob) (complete_blob now)) (\<lambda>updated.
             case updated of
               None \<Rightarrow> tx_throw declarationChanged
             | Some row \<Rightarrow> tx_return (mapObjectBlob row))))"

end
