(* ===== verification/Recorder_Archives.thy ===== *)
theory Recorder_Archives
  imports Object_Blobs
begin

text \<open>
  Recorder archives, packages/gateway/src/recorderArchives.ts: an upload plan names the five files of a
  recording, staging declares their objects and binds them to the artifact in one transaction, and
  completion verifies the five stored objects and the bindings of manifest and receipt before the
  archive counts as materialized.

  Parameters: \<open>sha\<close> is SHA-256 in hex, \<open>newIds\<close> and \<open>uuid\<close> the identifiers drawn, \<open>inspect\<close> and \<open>readObject\<close>
  the object-storage adapters the functions receive, \<open>decode\<close> the strict UTF-8 decoding followed by
  \<open>JSON.parse\<close>, and \<open>env\<close> what other requests do to the database between two statements that are not
  in one transaction. The fields of a materialization that are constants of its schema (all the
  \<open>false\<close> authority flags and \<open>noAutoArm\<close>) are not repeated in the record.
\<close>

section \<open>Constants\<close>

definition RECORDER_UPLOAD_PLAN_SCHEMA_VERSION :: string where
  "RECORDER_UPLOAD_PLAN_SCHEMA_VERSION = ''forge-recorder-upload-plan/1.0.0''"
definition RECORDER_ARCHIVE_SCHEMA_VERSION :: string where
  "RECORDER_ARCHIVE_SCHEMA_VERSION = ''forge-recorder-archive/1.0.0''"
definition RECORDER_INSPECTION_SCHEMA_VERSION :: string where
  "RECORDER_INSPECTION_SCHEMA_VERSION = ''forge-recorder-inspection/1.0.0''"
definition RECORDER_RECEIPT_SCHEMA_VERSION :: string where
  "RECORDER_RECEIPT_SCHEMA_VERSION = ''forge-recorder-receipt/1.0.0''"
definition RECORDER_FRAME_SCHEMA_VERSION :: string where
  "RECORDER_FRAME_SCHEMA_VERSION = ''forge-telemetry-frame/1.0.0''"
definition REPLAY_SCHEMA_VERSION :: string where "REPLAY_SCHEMA_VERSION = ''1.0.0''"

definition MAX_ARCHIVE_BYTES :: int where "MAX_ARCHIVE_BYTES = 512 * 1024 * 1024"
definition MAX_METADATA_BYTES :: int where "MAX_METADATA_BYTES = 1024 * 1024"
definition MAX_FRAMES :: int where "MAX_FRAMES = 1000000"

definition D12_RIGS :: "string list" where
  "D12_RIGS = [''ref_quad_kakute-h7-source-one-5in'', ''ref_rover_waveshare-ugv-rover-pt-pi5-ros2'']"

datatype FileRole = ManifestFile | FrameFile | IndexFile | ReplayFile | ReceiptFile

record recorder_file =
  rf_name :: string
  rf_contentType :: string
  rf_role :: FileRole

definition FILES :: "recorder_file list" where
  "FILES =
    [\<lparr>rf_name = ''forge-recorder-manifest.json'', rf_contentType = ''application/json'', rf_role = ManifestFile\<rparr>,
     \<lparr>rf_name = ''telemetry.frames.jsonl'', rf_contentType = ''application/x-ndjson'', rf_role = FrameFile\<rparr>,
     \<lparr>rf_name = ''telemetry.index.jsonl'', rf_contentType = ''application/x-ndjson'', rf_role = IndexFile\<rparr>,
     \<lparr>rf_name = ''telemetry.replay.json'', rf_contentType = ''application/json'', rf_role = ReplayFile\<rparr>,
     \<lparr>rf_name = ''forge-recorder-receipt.json'', rf_contentType = ''application/json'', rf_role = ReceiptFile\<rparr>]"

fun role_text :: "FileRole \<Rightarrow> string" where
  "role_text ManifestFile = ''manifest''"
| "role_text FrameFile = ''frame''"
| "role_text IndexFile = ''index''"
| "role_text ReplayFile = ''replay''"
| "role_text ReceiptFile = ''receipt''"

fun str_of :: "jsval \<Rightarrow> string" where
  "str_of (JStr s) = s"
| "str_of _ = []"

fun int_of :: "jsval \<Rightarrow> int" where
  "int_of (JNum n) = whole_number n"
| "int_of _ = 0"

definition bad_plan :: "string \<Rightarrow> gw_error" where
  "bad_plan message = HttpError 400 message"

section \<open>Validation of an upload plan\<close>

definition exactFieldsE :: "jsval \<Rightarrow> string list \<Rightarrow> string \<Rightarrow> nat \<Rightarrow> gw_error + unit" where
  "exactFieldsE v expected label statusCode =
     guardE (exactFields v expected) (HttpError statusCode (label @ '' fields do not match the recorder-v1 contract''))"

definition PLAN_FIELDS :: "string list" where
  "PLAN_FIELDS = [''schemaVersion'', ''archiveSchemaVersion'', ''inspectionSchemaVersion'', ''artifactId'',
    ''referenceRigId'', ''contractHash'', ''lockfileHash'', ''sourcePortSha256'', ''sampleRateHz'',
    ''startedAtUnixMs'', ''stoppedAtUnixMs'', ''frameCount'', ''durationS'', ''captureMaturity'',
    ''aggregateByteSize'', ''files'', ''localIntegrityVerified'', ''captureComplete'',
    ''captureConsentConfirmed'', ''userOwned'', ''sharingAuthorized'', ''trainingReuseAuthorized'',
    ''recordedDeviceAttested'', ''deviceIdentityVerified'', ''fieldSessionVerified'', ''noAutoArm'']"

definition plan_limits :: JsonLimits where
  "plan_limits = no_limits\<lparr>jl_maxBytes := Some (64 * 1024), jl_maxDepth := Some 8, jl_maxNodes := Some 512,
     jl_maxObjectKeys := Some 128\<rparr>"

definition artifact_id_ok :: "jsval \<Rightarrow> bool" where
  "artifact_id_ok v =
     (case v of
        JStr s \<Rightarrow> s \<noteq> [] \<and> length s \<le> 128 \<and> is_alnum (hd s) \<and> list_all (\<lambda>c. is_alnum c \<or> c \<in> set ''_.-'') s
      | _ \<Rightarrow> False)"

definition rig_ok :: "jsval \<Rightarrow> bool" where
  "rig_ok v = (case v of JStr s \<Rightarrow> s \<in> set D12_RIGS | _ \<Rightarrow> False)"

definition duration_ok :: "jsval \<Rightarrow> bool" where
  "duration_ok v =
     (case v of JNum n \<Rightarrow> isFinite n \<and> \<not> num_lt n (Fin 0) \<and> \<not> num_lt (IntN max_safe_integer) n | _ \<Rightarrow> False)"

definition plan_times_ok :: "jsval \<Rightarrow> bool" where
  "plan_times_ok v \<longleftrightarrow>
     safeInteger (getProp v ''sampleRateHz'') 1 1000
     \<and> safeInteger (getProp v ''startedAtUnixMs'') 0 max_safe_integer
     \<and> safeInteger (getProp v ''stoppedAtUnixMs'') 0 max_safe_integer
     \<and> \<not> int_of (getProp v ''stoppedAtUnixMs'') < int_of (getProp v ''startedAtUnixMs'')
     \<and> safeInteger (getProp v ''frameCount'') 1 MAX_FRAMES
     \<and> duration_ok (getProp v ''durationS'')"

definition flag :: "jsval \<Rightarrow> string \<Rightarrow> bool \<Rightarrow> bool" where
  "flag v field b \<longleftrightarrow> strict_eq (getProp v field) (JBool b)"

definition plan_flags_ok :: "jsval \<Rightarrow> bool" where
  "plan_flags_ok v \<longleftrightarrow>
     flag v ''localIntegrityVerified'' True \<and> flag v ''captureComplete'' True
     \<and> flag v ''captureConsentConfirmed'' True \<and> flag v ''userOwned'' True
     \<and> flag v ''sharingAuthorized'' False \<and> flag v ''trainingReuseAuthorized'' False
     \<and> flag v ''recordedDeviceAttested'' False \<and> flag v ''deviceIdentityVerified'' False
     \<and> flag v ''fieldSessionVerified'' False \<and> flag v ''noAutoArm'' True"

fun collect_files :: "jsval list \<Rightarrow> (string \<times> jsval) list \<Rightarrow> gw_error + (string \<times> jsval) list" where
  "collect_files [] byName = Inr byName"
| "collect_files (raw # rest) byName =
     bindE (guardE (isRecord raw) (bad_plan ''recorder upload file must be an object'')) (\<lambda>_.
     bindE (exactFieldsE raw [''name'', ''contentType'', ''byteSize'', ''sha256''] ''recorder upload file'' 400) (\<lambda>_.
     bindE (guardE (is_string (getProp raw ''name'') \<and> is_string (getProp raw ''contentType'')
              \<and> safeInteger (getProp raw ''byteSize'') 1 MAX_ARCHIVE_BYTES \<and> isSha256 (getProp raw ''sha256''))
            (bad_plan ''recorder upload file declaration is invalid'')) (\<lambda>_.
     bindE (guardE (map_of byName (str_of (getProp raw ''name'')) = None)
            (bad_plan ''recorder upload filenames must be unique'')) (\<lambda>_.
     collect_files rest (byName @ [(str_of (getProp raw ''name''), raw)])))))"

definition metadata_file :: "string \<Rightarrow> bool" where
  "metadata_file name \<longleftrightarrow> name = ''forge-recorder-manifest.json'' \<or> name = ''forge-recorder-receipt.json''"

fun sum_files :: "recorder_file list \<Rightarrow> (string \<times> jsval) list \<Rightarrow> int \<Rightarrow> gw_error + int" where
  "sum_files [] byName aggregate = Inr aggregate"
| "sum_files (f # fs) byName aggregate =
     (case map_of byName (rf_name f) of
        None \<Rightarrow> Inl (bad_plan ''recorder upload file names or content types have drifted'')
      | Some file \<Rightarrow>
          if \<not> strict_eq (getProp file ''contentType'') (JStr (rf_contentType f))
          then Inl (bad_plan ''recorder upload file names or content types have drifted'')
          else if metadata_file (rf_name f) \<and> MAX_METADATA_BYTES < int_of (getProp file ''byteSize'')
          then Inl (bad_plan ''recorder upload metadata file exceeds the v1 cap'')
          else sum_files fs byName (aggregate + int_of (getProp file ''byteSize'')))"

definition plan_files :: "jsval \<Rightarrow> jsval list" where
  "plan_files v = (case getProp v ''files'' of JArr xs \<Rightarrow> xs | _ \<Rightarrow> [])"

definition check_files :: "jsval \<Rightarrow> gw_error + int" where
  "check_files v =
     (case getProp v ''files'' of
        JArr xs \<Rightarrow>
          bindE (guardE (length xs = length FILES) (bad_plan ''recorder upload plan requires exactly five files'')) (\<lambda>_.
          bindE (collect_files xs []) (\<lambda>byName. sum_files FILES byName 0))
      | _ \<Rightarrow> Inl (bad_plan ''recorder upload plan requires exactly five files''))"

definition validateRecorderUploadPlan :: "jsval \<Rightarrow> gw_error + jsval" where
  "validateRecorderUploadPlan v =
     bindE (guardE (isRecord v) (bad_plan ''recorder upload plan must be an object'')) (\<lambda>_.
     bindE (exactFieldsE v PLAN_FIELDS ''recorder upload plan'' 400) (\<lambda>_.
     bindE (assertBoundedJson v ''recorder upload plan'' plan_limits) (\<lambda>_.
     bindE (guardE (strict_eq (getProp v ''schemaVersion'') (JStr RECORDER_UPLOAD_PLAN_SCHEMA_VERSION)
              \<and> strict_eq (getProp v ''archiveSchemaVersion'') (JStr RECORDER_ARCHIVE_SCHEMA_VERSION)
              \<and> strict_eq (getProp v ''inspectionSchemaVersion'') (JStr RECORDER_INSPECTION_SCHEMA_VERSION))
            (bad_plan ''recorder upload plan declares an unsupported version'')) (\<lambda>_.
     bindE (guardE (artifact_id_ok (getProp v ''artifactId'')) (bad_plan ''recorder upload artifactId is invalid'')) (\<lambda>_.
     bindE (guardE (rig_ok (getProp v ''referenceRigId'')) (bad_plan ''recorder upload referenceRigId is not a frozen D12 rig'')) (\<lambda>_.
     bindE (guardE (isSha256 (getProp v ''contractHash'') \<and> isSha256 (getProp v ''lockfileHash'')
              \<and> isSha256 (getProp v ''sourcePortSha256'')) (bad_plan ''recorder upload identity hashes are invalid'')) (\<lambda>_.
     bindE (guardE (plan_times_ok v) (bad_plan ''recorder upload time, rate, count, or duration is invalid'')) (\<lambda>_.
     bindE (guardE (strict_eq (getProp v ''captureMaturity'') (JStr ''local-serial-integration''))
            (bad_plan ''recorder upload maturity authority has drifted'')) (\<lambda>_.
     bindE (guardE (plan_flags_ok v) (bad_plan ''recorder upload authority flags have drifted'')) (\<lambda>_.
     bindE (check_files v) (\<lambda>aggregate.
     bindE (guardE (safeInteger (getProp v ''aggregateByteSize'') 1 MAX_ARCHIVE_BYTES
              \<and> strict_eq (getProp v ''aggregateByteSize'') (JNum (IntN aggregate)))
            (bad_plan ''recorder upload aggregate size is invalid'')) (\<lambda>_.
     Inr v))))))))))))"

section \<open>Stable JSON\<close>

fun stableJson :: "jsval \<Rightarrow> string" where
  "stableJson (JArr xs) = ''['' @ join '','' (map stableJson xs) @ '']''"
| "stableJson (JObj kvs) =
     ''{'' @ join '','' (map (\<lambda>(k, t). json_quote k @ '':'' @ t)
       (sort_key fst (map (\<lambda>(k, v). (k, stableJson v)) kvs))) @ ''}''"
| "stableJson (JHost kvs) =
     ''{'' @ join '','' (map (\<lambda>(k, t). json_quote k @ '':'' @ t)
       (sort_key fst (map (\<lambda>(k, v). (k, stableJson v)) kvs))) @ ''}''"
| "stableJson v = (case stringify v of None \<Rightarrow> ''undefined'' | Some t \<Rightarrow> t)"

section \<open>Materializations\<close>

record RecorderArchiveMaterialization =
  rm_id :: string
  rm_ownerUserId :: string
  rm_artifactId :: string
  rm_status :: MaterializationStatus
  rm_manifestBlobId :: string
  rm_frameBlobId :: string
  rm_indexBlobId :: string
  rm_replayBlobId :: string
  rm_receiptBlobId :: string
  rm_uploadPlan :: jsval
  rm_aggregateByteSize :: int
  rm_gatewayObjectIntegrityVerified :: bool
  rm_verificationErrorCode :: "string option"
  rm_createdAt :: int
  rm_materializedAt :: "int option"

definition mapRow :: "MaterializationRow \<Rightarrow> RecorderArchiveMaterialization" where
  "mapRow row =
     \<lparr>rm_id = ma_id row, rm_ownerUserId = ma_owner_user_id row, rm_artifactId = ma_artifact_id row,
      rm_status = ma_status row, rm_manifestBlobId = ma_manifest_blob_id row, rm_frameBlobId = ma_frame_blob_id row,
      rm_indexBlobId = ma_index_blob_id row, rm_replayBlobId = ma_replay_blob_id row,
      rm_receiptBlobId = ma_receipt_blob_id row, rm_uploadPlan = ma_upload_plan row,
      rm_aggregateByteSize = ma_aggregate_byte_size row,
      rm_gatewayObjectIntegrityVerified = ma_gateway_object_integrity_verified row,
      rm_verificationErrorCode = ma_verification_error_code row, rm_createdAt = ma_created_at row,
      rm_materializedAt = ma_materialized_at row\<rparr>"

section \<open>Staging\<close>

definition nul :: string where "nul = [CHR 0x00]"

definition fileCacheKey :: "(string \<Rightarrow> string) \<Rightarrow> CurrentUser \<Rightarrow> jsval \<Rightarrow> jsval \<Rightarrow> string" where
  "fileCacheKey sha user plan file =
     sha (''forge-recorder-materialization-v1'' @ nul @ user_id user @ nul @ str_of (getProp plan ''artifactId'') @ nul
       @ str_of (getProp file ''name'') @ nul @ str_of (getProp file ''sha256''))"

definition planned_file :: "jsval \<Rightarrow> string \<Rightarrow> jsval option" where
  "planned_file plan name = find (\<lambda>c. strict_eq (getProp c ''name'') (JStr name)) (plan_files plan)"

fun number_in :: "jsval \<Rightarrow> jsnum option" where
  "number_in (JNum n) = Some n"
| "number_in _ = None"

definition blob_input :: "(string \<Rightarrow> string) \<Rightarrow> CurrentUser \<Rightarrow> jsval \<Rightarrow> string \<Rightarrow> recorder_file \<Rightarrow> jsval \<Rightarrow> BlobInput" where
  "blob_input sha user plan bucket f file =
     (let purpose = ''recorder-v1-'' @ role_text (rf_role f) in
      \<lparr>bi_bucket = bucket, bi_purpose = purpose, bi_contentType = Some (str_of (getProp file ''contentType'')),
       bi_byteSize = number_in (getProp file ''byteSize''), bi_sha256 = Some (str_of (getProp file ''sha256'')),
       bi_metadata = JObj [(''purpose'', JStr purpose), (''originalName'', JStr (rf_name f)),
         (''artifactId'', getProp plan ''artifactId''), (''uploadPlanSchemaVersion'', JStr RECORDER_UPLOAD_PLAN_SCHEMA_VERSION)],
       bi_cacheKey = Some (fileCacheKey sha user plan file)\<rparr>)"

definition register_file ::
  "(string \<Rightarrow> string) \<Rightarrow> (FileRole \<Rightarrow> string) \<Rightarrow> string \<Rightarrow> int \<Rightarrow> CurrentUser \<Rightarrow> jsval \<Rightarrow> string \<Rightarrow> recorder_file
     \<Rightarrow> ObjectBlobRecord gtx" where
  "register_file sha newIds uuid now user plan bucket f =
     (case planned_file plan (rf_name f) of
        None \<Rightarrow> tx_throw (PlainError ''TypeError'')
      | Some file \<Rightarrow> registerObjectBlob (newIds (rf_role f)) uuid now user (blob_input sha user plan bucket f file))"

definition materialization_row ::
  "string \<Rightarrow> int \<Rightarrow> CurrentUser \<Rightarrow> jsval \<Rightarrow> string list \<Rightarrow> MaterializationRow" where
  "materialization_row newId now user plan ids =
     \<lparr>ma_id = newId, ma_owner_user_id = user_id user, ma_artifact_id = str_of (getProp plan ''artifactId''),
      ma_status = MStaged, ma_manifest_blob_id = ids ! 0, ma_frame_blob_id = ids ! 1, ma_index_blob_id = ids ! 2,
      ma_replay_blob_id = ids ! 3, ma_receipt_blob_id = ids ! 4, ma_upload_plan = plan,
      ma_aggregate_byte_size = int_of (getProp plan ''aggregateByteSize''),
      ma_gateway_object_integrity_verified = False, ma_verification_error_code = None, ma_created_at = now,
      ma_materialized_at = None\<rparr>"

definition row_blob_ids :: "MaterializationRow \<Rightarrow> string list" where
  "row_blob_ids r = [ma_manifest_blob_id r, ma_frame_blob_id r, ma_index_blob_id r, ma_replay_blob_id r, ma_receipt_blob_id r]"

text \<open>\<open>INSERT ... ON CONFLICT (owner_user_id, artifact_id) DO NOTHING RETURNING\<close> under the check that the
  five objects differ; the row returned is the inserted one or the one already there.\<close>

definition same_artifact :: "string \<Rightarrow> string \<Rightarrow> MaterializationRow \<Rightarrow> bool" where
  "same_artifact userId artifactId r \<longleftrightarrow> ma_owner_user_id r = userId \<and> ma_artifact_id r = artifactId"

definition insert_materialization :: "MaterializationRow \<Rightarrow> gateway_db \<Rightarrow> gw_error + (MaterializationRow \<times> gateway_db)" where
  "insert_materialization row db =
     bindE (guardE (distinct (row_blob_ids row)) (DbError ''check constraint'')) (\<lambda>_.
     case find (same_artifact (ma_owner_user_id row) (ma_artifact_id row)) (recorder_archive_materializations db) of
       Some existing \<Rightarrow> Inr (existing, db)
     | None \<Rightarrow>
         bindE (insert_unique (\<lambda>a b. ma_id a = ma_id b) (DbError ''unique constraint'') row
             (recorder_archive_materializations db))
           (\<lambda>rows. Inr (row, db\<lparr>recorder_archive_materializations := rows\<rparr>)))"

definition stageRecorderArchive ::
  "(string \<Rightarrow> string) \<Rightarrow> (FileRole \<Rightarrow> string) \<Rightarrow> string \<Rightarrow> string \<Rightarrow> int \<Rightarrow> CurrentUser \<Rightarrow> jsval \<Rightarrow> string
     \<Rightarrow> (RecorderArchiveMaterialization \<times> ObjectBlobRecord list) gtx" where
  "stageRecorderArchive sha newIds uuid newId now user planValue bucket =
     tx_bind (tx_lift (validateRecorderUploadPlan planValue)) (\<lambda>plan.
     withGatewayTransaction (
       tx_bind (tx_mapM (register_file sha newIds uuid now user plan bucket) FILES) (\<lambda>blobs.
       let ids = map bl_id blobs in
       tx_bind (tx_state (insert_materialization (materialization_row newId now user plan ids))) (\<lambda>existing.
       if row_blob_ids existing \<noteq> ids \<or> stableJson (ma_upload_plan existing) \<noteq> stableJson plan
       then tx_throw (HttpError 409 ''recorder artifactId is already bound to different materialization evidence'')
       else tx_return (mapRow existing, blobs)))))"

section \<open>Reading\<close>

definition owned_materialization :: "string \<Rightarrow> string \<Rightarrow> gateway_db \<Rightarrow> MaterializationRow option" where
  "owned_materialization mid userId db =
     find (\<lambda>r. ma_id r = mid \<and> ma_owner_user_id r = userId) (recorder_archive_materializations db)"

definition getRecorderArchive :: "CurrentUser \<Rightarrow> string \<Rightarrow> RecorderArchiveMaterialization option gtx" where
  "getRecorderArchive user mid = tx_gets (\<lambda>db. map_option mapRow (owned_materialization mid (user_id user) db))"

definition listRecorderArchives :: "CurrentUser \<Rightarrow> nat \<Rightarrow> RecorderArchiveMaterialization list gtx" where
  "listRecorderArchives user maxRows =
     tx_gets (\<lambda>db. map mapRow (take maxRows
       (rev (sort_key ma_created_at (sort_key ma_id
         (filter (\<lambda>r. ma_owner_user_id r = user_id user) (recorder_archive_materializations db)))))))"

section \<open>Manifest and receipt\<close>

definition metadata_json_limits :: JsonLimits where
  "metadata_json_limits = no_limits\<lparr>jl_maxBytes := Some MAX_METADATA_BYTES, jl_maxDepth := Some 32,
     jl_maxNodes := Some 4096, jl_maxObjectKeys := Some 256\<rparr>"

definition parseStrictJson :: "(nat list \<Rightarrow> jsval option) \<Rightarrow> nat list \<Rightarrow> string \<Rightarrow> string list \<Rightarrow> gw_error + jsval" where
  "parseStrictJson decode bytes label expected =
     bindE (guardE (bytes \<noteq> [] \<and> int (length bytes) \<le> MAX_METADATA_BYTES \<and> last bytes = 10)
       (HttpError 409 (''recorder '' @ label @ '' is outside the bounded newline-terminated metadata contract''))) (\<lambda>_.
     case decode bytes of
       None \<Rightarrow> Inl (HttpError 409 (''recorder '' @ label @ '' is not strict UTF-8 JSON''))
     | Some v \<Rightarrow>
         bindE (guardE (isRecord v) (HttpError 409 (''recorder '' @ label @ '' must be an object''))) (\<lambda>_.
         bindE (exactFieldsE v expected (''recorder '' @ label) 409) (\<lambda>_.
         bindE (assertBoundedJson v (''recorder '' @ label) metadata_json_limits) (\<lambda>_.
         Inr v))))"

definition MANIFEST_FIELDS :: "string list" where
  "MANIFEST_FIELDS = [''schemaVersion'', ''replaySchemaVersion'', ''frameSchemaVersion'', ''receiptSchemaVersion'',
    ''artifactId'', ''referenceRigId'', ''sampleRateHz'', ''startedAtUnixMs'', ''contractHash'',
    ''lockfileHash'', ''environment'', ''seed'', ''sourceKind'', ''sourcePortSha256'', ''sourceBaud'',
    ''captureMaturity'', ''recordedDeviceAttested'', ''frameFile'', ''indexFile'', ''replayFile'',
    ''receiptFile'', ''captureConsentConfirmed'', ''userOwned'', ''sharingAuthorized'',
    ''trainingReuseAuthorized'', ''noAutoArm'']"

definition RECEIPT_FIELDS :: "string list" where
  "RECEIPT_FIELDS = [''schemaVersion'', ''archiveSchemaVersion'', ''replaySchemaVersion'', ''frameSchemaVersion'',
    ''artifactId'', ''referenceRigId'', ''contractHash'', ''lockfileHash'', ''startedAtUnixMs'',
    ''stoppedAtUnixMs'', ''frameCount'', ''durationS'', ''frameFileSha256'', ''indexFileSha256'',
    ''replayFileSha256'', ''sourcePortSha256'', ''captureComplete'', ''captureMaturity'',
    ''captureConsentConfirmed'', ''recordedDeviceAttested'', ''userOwned'', ''sharingAuthorized'',
    ''trainingReuseAuthorized'', ''noAutoArm'']"

definition agree :: "string list \<Rightarrow> jsval \<Rightarrow> jsval \<Rightarrow> bool" where
  "agree names v w \<longleftrightarrow> list_all (\<lambda>field. strict_eq (getProp v field) (getProp w field)) names"

definition text_field :: "jsval \<Rightarrow> string \<Rightarrow> string \<Rightarrow> bool" where
  "text_field v field t \<longleftrightarrow> strict_eq (getProp v field) (JStr t)"

definition sha_field :: "jsval \<Rightarrow> string \<Rightarrow> string option \<Rightarrow> bool" where
  "sha_field v field t \<longleftrightarrow> strict_eq (getProp v field) (case t of None \<Rightarrow> JNull | Some s \<Rightarrow> JStr s)"

definition manifest_ok :: "jsval \<Rightarrow> jsval \<Rightarrow> bool" where
  "manifest_ok plan m \<longleftrightarrow>
     text_field m ''schemaVersion'' RECORDER_ARCHIVE_SCHEMA_VERSION
     \<and> text_field m ''replaySchemaVersion'' REPLAY_SCHEMA_VERSION
     \<and> text_field m ''frameSchemaVersion'' RECORDER_FRAME_SCHEMA_VERSION
     \<and> text_field m ''receiptSchemaVersion'' RECORDER_RECEIPT_SCHEMA_VERSION
     \<and> agree [''artifactId'', ''referenceRigId'', ''sampleRateHz'', ''startedAtUnixMs'', ''contractHash'', ''lockfileHash''] m plan
     \<and> text_field m ''sourceKind'' ''serial-jsonl'' \<and> agree [''sourcePortSha256''] m plan
     \<and> strict_eq (getProp m ''sourceBaud'') (JNum (IntN 115200)) \<and> text_field m ''captureMaturity'' ''local-serial-integration''
     \<and> flag m ''recordedDeviceAttested'' False \<and> text_field m ''frameFile'' (rf_name (FILES ! 1))
     \<and> text_field m ''indexFile'' (rf_name (FILES ! 2)) \<and> text_field m ''replayFile'' (rf_name (FILES ! 3))
     \<and> text_field m ''receiptFile'' (rf_name (FILES ! 4)) \<and> flag m ''captureConsentConfirmed'' True
     \<and> flag m ''userOwned'' True \<and> flag m ''sharingAuthorized'' False
     \<and> flag m ''trainingReuseAuthorized'' False \<and> flag m ''noAutoArm'' True
     \<and> isRecord (getProp m ''environment'') \<and> safeInteger (getProp m ''seed'') 0 max_safe_integer"

definition receipt_ok :: "jsval \<Rightarrow> ObjectBlobRecord list \<Rightarrow> jsval \<Rightarrow> bool" where
  "receipt_ok plan blobs r \<longleftrightarrow>
     text_field r ''schemaVersion'' RECORDER_RECEIPT_SCHEMA_VERSION
     \<and> text_field r ''archiveSchemaVersion'' RECORDER_ARCHIVE_SCHEMA_VERSION
     \<and> text_field r ''replaySchemaVersion'' REPLAY_SCHEMA_VERSION
     \<and> text_field r ''frameSchemaVersion'' RECORDER_FRAME_SCHEMA_VERSION
     \<and> agree [''artifactId'', ''referenceRigId'', ''contractHash'', ''lockfileHash'', ''startedAtUnixMs'',
          ''stoppedAtUnixMs'', ''frameCount'', ''durationS''] r plan
     \<and> sha_field r ''frameFileSha256'' (bl_sha256 (blobs ! 1)) \<and> sha_field r ''indexFileSha256'' (bl_sha256 (blobs ! 2))
     \<and> sha_field r ''replayFileSha256'' (bl_sha256 (blobs ! 3)) \<and> agree [''sourcePortSha256''] r plan
     \<and> flag r ''captureComplete'' True \<and> text_field r ''captureMaturity'' ''local-serial-integration''
     \<and> flag r ''captureConsentConfirmed'' True \<and> flag r ''recordedDeviceAttested'' False
     \<and> flag r ''userOwned'' True \<and> flag r ''sharingAuthorized'' False
     \<and> flag r ''trainingReuseAuthorized'' False \<and> flag r ''noAutoArm'' True"

definition verifyManifestReceiptBindings ::
  "(nat list \<Rightarrow> jsval option) \<Rightarrow> jsval \<Rightarrow> ObjectBlobRecord list \<Rightarrow> nat list \<Rightarrow> nat list \<Rightarrow> gw_error + unit" where
  "verifyManifestReceiptBindings decode plan blobs manifestBytes receiptBytes =
     bindE (parseStrictJson decode manifestBytes ''manifest'' MANIFEST_FIELDS) (\<lambda>manifest.
     bindE (parseStrictJson decode receiptBytes ''receipt'' RECEIPT_FIELDS) (\<lambda>receipt.
     bindE (guardE (manifest_ok plan manifest)
       (HttpError 409 ''recorder manifest does not match the staged upload authority'')) (\<lambda>_.
     guardE (receipt_ok plan blobs receipt)
       (HttpError 409 ''recorder receipt does not match the staged object authority''))))"

section \<open>Completion\<close>

definition rowBlobIds :: "RecorderArchiveMaterialization \<Rightarrow> FileRole \<Rightarrow> string" where
  "rowBlobIds m role =
     (case role of ManifestFile \<Rightarrow> rm_manifestBlobId m | FrameFile \<Rightarrow> rm_frameBlobId m | IndexFile \<Rightarrow> rm_indexBlobId m
      | ReplayFile \<Rightarrow> rm_replayBlobId m | ReceiptFile \<Rightarrow> rm_receiptBlobId m)"

text \<open>\<open>try m catch (e) { h(e) }\<close>.\<close>

definition tx_catch :: "('s, 'e, 'a) tx \<Rightarrow> ('e \<Rightarrow> ('s, 'e, 'a) tx) \<Rightarrow> ('s, 'e, 'a) tx" where
  "tx_catch m h = (\<lambda>s. case m s of (Inl e, t) \<Rightarrow> h e t | (Inr a, t) \<Rightarrow> (Inr a, t))"

type_synonym inspect_adapter = "string \<Rightarrow> string \<Rightarrow> gw_error + StoredObjectInspection"
type_synonym read_adapter = "ObjectBlobRecord \<Rightarrow> int \<Rightarrow> gw_error + nat list"
type_synonym interference = "nat \<Rightarrow> gateway_db \<Rightarrow> gateway_db"

definition blobDrift :: gw_error where
  "blobDrift = CodedError 409 ''recorder-blob-drift'' ''recorder archive blob declaration has drifted'' []"

definition complete_file ::
  "interference \<Rightarrow> int \<Rightarrow> CurrentUser \<Rightarrow> RecorderArchiveMaterialization \<Rightarrow> inspect_adapter \<Rightarrow> nat \<times> recorder_file
     \<Rightarrow> ObjectBlobRecord gtx" where
  "complete_file env now user m inspect = (\<lambda>(i, f).
     tx_bind (tx_modify (env (2 * i))) (\<lambda>_.
     tx_bind (getOwnedObjectBlob user (rowBlobIds m (rf_role f))) (\<lambda>found.
     case found of
       None \<Rightarrow> tx_throw blobDrift
     | Some blob \<Rightarrow>
         if bl_contentType blob \<noteq> Some (rf_contentType f) \<or> bl_byteSize blob = None \<or> bl_sha256 blob = None
         then tx_throw blobDrift
         else tx_bind (tx_lift (inspect (bl_bucket blob) (bl_objectKey blob))) (\<lambda>inspection.
              completeObjectBlobUpload (env (2 * i + 1)) now user (bl_id blob) inspection))))"

definition mark_materialized :: "int \<Rightarrow> MaterializationRow \<Rightarrow> MaterializationRow" where
  "mark_materialized now r =
     r\<lparr>ma_status := Materialized, ma_gateway_object_integrity_verified := True, ma_verification_error_code := None,
       ma_materialized_at := Some (case ma_materialized_at r of None \<Rightarrow> now | Some t \<Rightarrow> t)\<rparr>"

definition owns_row :: "CurrentUser \<Rightarrow> string \<Rightarrow> MaterializationRow \<Rightarrow> bool" where
  "owns_row user mid r \<longleftrightarrow> ma_id r = mid \<and> ma_owner_user_id r = user_id user"

definition update_materialization ::
  "(MaterializationRow \<Rightarrow> bool) \<Rightarrow> (MaterializationRow \<Rightarrow> MaterializationRow) \<Rightarrow> MaterializationRow option gtx" where
  "update_materialization P f = (\<lambda>db.
     (Inr (map_option f (find P (recorder_archive_materializations db))),
      db\<lparr>recorder_archive_materializations := map (\<lambda>r. if P r then f r else r) (recorder_archive_materializations db)\<rparr>))"

definition materialize :: "int \<Rightarrow> CurrentUser \<Rightarrow> string \<Rightarrow> RecorderArchiveMaterialization gtx" where
  "materialize now user mid =
     withGatewayTransaction (
       tx_bind (update_materialization (owns_row user mid) (mark_materialized now)) (\<lambda>updated.
       case updated of
         None \<Rightarrow> tx_throw (HttpError 409 ''recorder archive materialization changed during completion'')
       | Some row \<Rightarrow> tx_return (mapRow row)))"

definition complete_body ::
  "interference \<Rightarrow> int \<Rightarrow> CurrentUser \<Rightarrow> string \<Rightarrow> inspect_adapter \<Rightarrow> read_adapter \<Rightarrow> (nat list \<Rightarrow> jsval option)
     \<Rightarrow> RecorderArchiveMaterialization \<Rightarrow> RecorderArchiveMaterialization gtx" where
  "complete_body env now user mid inspect readObject decode m =
     tx_bind (tx_mapM (complete_file env now user m inspect) (enumerate 0 FILES)) (\<lambda>blobs.
     tx_bind (tx_lift (readObject (blobs ! 0) MAX_METADATA_BYTES)) (\<lambda>manifestBytes.
     tx_bind (tx_lift (readObject (blobs ! 4) MAX_METADATA_BYTES)) (\<lambda>receiptBytes.
     tx_bind (tx_lift (verifyManifestReceiptBindings decode (rm_uploadPlan m) blobs manifestBytes receiptBytes)) (\<lambda>_.
     tx_bind (tx_modify (env 10)) (\<lambda>_.
     materialize now user mid)))))"

definition error_code_ok :: "string \<Rightarrow> bool" where
  "error_code_ok s \<longleftrightarrow> s \<noteq> [] \<and> length s \<le> 80 \<and> lower_alnum (hd s) \<and> list_all (\<lambda>c. lower_alnum c \<or> c = CHR ''-'') s"

text \<open>The \<open>code\<close> of a thrown error. The only database error that can reach the handler is a refused
  commit, SQLSTATE 40001.\<close>

fun raw_code :: "gw_error \<Rightarrow> string" where
  "raw_code (CodedError _ code _ _) = code"
| "raw_code (DbError _) = ''40001''"
| "raw_code _ = ''recorder-materialization-failed''"

definition failure_code :: "gw_error \<Rightarrow> string" where
  "failure_code e = (if error_code_ok (raw_code e) then raw_code e else ''recorder-materialization-failed'')"

definition completeRecorderArchive ::
  "interference \<Rightarrow> int \<Rightarrow> CurrentUser \<Rightarrow> string \<Rightarrow> inspect_adapter \<Rightarrow> read_adapter \<Rightarrow> (nat list \<Rightarrow> jsval option)
     \<Rightarrow> RecorderArchiveMaterialization gtx" where
  "completeRecorderArchive env now user mid inspect readObject decode =
     tx_bind (getRecorderArchive user mid) (\<lambda>found.
     case found of
       None \<Rightarrow> tx_throw (HttpError 404 ''recorder archive materialization not found'')
     | Some m \<Rightarrow>
         tx_catch (complete_body env now user mid inspect readObject decode m) (\<lambda>e.
           tx_bind (tx_modify (env 11)) (\<lambda>_.
           tx_bind (update_materialization (\<lambda>r. owns_row user mid r \<and> ma_status r = MStaged)
             (\<lambda>r. r\<lparr>ma_verification_error_code := Some (failure_code e)\<rparr>)) (\<lambda>_.
           tx_throw e))))"

end
