(* ===== verification/Recorder_Admission.thy ===== *)
theory Recorder_Admission
  imports Recorder_Archives
begin

text \<open>
  Admission of a recorder archive, packages/gateway/src/recorderAdmission.ts: the five private objects are
  streamed to a temporary directory, the archive verifier runs on it, its report is checked against
  the staged plan and the declared objects, and one serializable transaction re-checks archive and
  model before it writes the telemetry log and the admission.

  Parameters: \<open>stream\<close> reads one object for the temporary directory (or fails), \<open>runVerifier\<close> is the
  verifier process with its exit code and report, \<open>env\<close> is what other requests do to the database
  while the files are streamed and verified, \<open>admissionId\<close> and \<open>logId\<close> are the identifiers drawn. The
  temporary directory is created and removed by the operation and leaves no other trace.
\<close>

section \<open>Data\<close>

definition RECORDER_VERIFICATION_SCHEMA_VERSION :: string where
  "RECORDER_VERIFICATION_SCHEMA_VERSION = ''forge-recorder-verification/1.0.0''"
definition RECORDER_TELEMETRY_REFERENCE_SCHEMA_VERSION :: string where
  "RECORDER_TELEMETRY_REFERENCE_SCHEMA_VERSION = ''forge-recorder-telemetry-reference/1.0.0''"

record RecorderArchiveAdmission =
  ra_id :: string
  ra_ownerUserId :: string
  ra_materializationId :: string
  ra_telemetryLogId :: string
  ra_modelId :: string
  ra_verification :: jsval
  ra_replayFileSha256 :: string
  ra_frameCount :: int
  ra_durationS :: jsnum
  ra_createdAt :: int

definition mapAdmission :: "AdmissionRow \<Rightarrow> RecorderArchiveAdmission" where
  "mapAdmission row =
     \<lparr>ra_id = ad_id row, ra_ownerUserId = ad_owner_user_id row, ra_materializationId = ad_materialization_id row,
      ra_telemetryLogId = ad_telemetry_log_id row, ra_modelId = ad_model_id row, ra_verification = ad_verification row,
      ra_replayFileSha256 = ad_replay_file_sha256 row, ra_frameCount = ad_frame_count row,
      ra_durationS = ad_duration_s row, ra_createdAt = ad_created_at row\<rparr>"

record ValidateResult =
  vr_exitCode :: int
  vr_report :: jsval
  vr_stderr :: string

section \<open>The verifier's report\<close>

definition REPORT_FIELDS :: "string list" where
  "REPORT_FIELDS = [''schemaVersion'', ''archiveSchemaVersion'', ''replaySchemaVersion'', ''receiptSchemaVersion'',
    ''artifactId'', ''referenceRigId'', ''contractHash'', ''lockfileHash'', ''sourcePortSha256'',
    ''sampleRateHz'', ''startedAtUnixMs'', ''stoppedAtUnixMs'', ''frameCount'', ''durationS'',
    ''aggregateByteSize'', ''frameFileSha256'', ''indexFileSha256'', ''replayFileSha256'',
    ''captureMaturity'', ''archiveSemanticsVerified'', ''captureComplete'',
    ''captureConsentConfirmed'', ''userOwned'', ''sharingAuthorized'', ''trainingReuseAuthorized'',
    ''recordedDeviceAttested'', ''deviceIdentityVerified'', ''fieldSessionVerified'', ''noAutoArm'']"

definition report_limits :: JsonLimits where
  "report_limits = no_limits\<lparr>jl_maxBytes := Some (64 * 1024), jl_maxDepth := Some 8, jl_maxNodes := Some 256,
     jl_maxObjectKeys := Some 64\<rparr>"

definition plan_fields_of_report :: "string list" where
  "plan_fields_of_report = [''artifactId'', ''referenceRigId'', ''contractHash'', ''lockfileHash'', ''sourcePortSha256'',
     ''sampleRateHz'', ''startedAtUnixMs'', ''stoppedAtUnixMs'', ''frameCount'', ''durationS'', ''aggregateByteSize'']"

definition report_duration_ok :: "jsval \<Rightarrow> bool" where
  "report_duration_ok v = (case v of JNum n \<Rightarrow> isFinite n \<and> \<not> num_lt n (Fin 0) | _ \<Rightarrow> False)"

definition report_bound :: "jsval \<Rightarrow> jsval \<Rightarrow> ObjectBlobRecord list \<Rightarrow> bool" where
  "report_bound v plan blobs \<longleftrightarrow>
     text_field v ''schemaVersion'' RECORDER_VERIFICATION_SCHEMA_VERSION
     \<and> text_field v ''archiveSchemaVersion'' RECORDER_ARCHIVE_SCHEMA_VERSION
     \<and> text_field v ''replaySchemaVersion'' REPLAY_SCHEMA_VERSION
     \<and> text_field v ''receiptSchemaVersion'' RECORDER_RECEIPT_SCHEMA_VERSION
     \<and> agree plan_fields_of_report v plan
     \<and> sha_field v ''frameFileSha256'' (bl_sha256 (blobs ! 1))
     \<and> sha_field v ''indexFileSha256'' (bl_sha256 (blobs ! 2))
     \<and> sha_field v ''replayFileSha256'' (bl_sha256 (blobs ! 3))
     \<and> text_field v ''captureMaturity'' ''local-serial-integration''
     \<and> flag v ''archiveSemanticsVerified'' True \<and> flag v ''captureComplete'' True
     \<and> flag v ''captureConsentConfirmed'' True \<and> flag v ''userOwned'' True
     \<and> flag v ''sharingAuthorized'' False \<and> flag v ''trainingReuseAuthorized'' False
     \<and> flag v ''recordedDeviceAttested'' False \<and> flag v ''deviceIdentityVerified'' False
     \<and> flag v ''fieldSessionVerified'' False \<and> flag v ''noAutoArm'' True
     \<and> safeInteger (getProp v ''sampleRateHz'') 1 1000
     \<and> safeInteger (getProp v ''startedAtUnixMs'') 0 max_safe_integer
     \<and> safeInteger (getProp v ''stoppedAtUnixMs'') 0 max_safe_integer
     \<and> safeInteger (getProp v ''frameCount'') 1 1000000
     \<and> safeInteger (getProp v ''aggregateByteSize'') 1 MAX_ARCHIVE_BYTES
     \<and> report_duration_ok (getProp v ''durationS'')
     \<and> list_all (\<lambda>field. isSha256 (getProp v field)) [''contractHash'', ''lockfileHash'', ''sourcePortSha256'',
          ''frameFileSha256'', ''indexFileSha256'', ''replayFileSha256'']"

definition validateReport :: "jsval \<Rightarrow> jsval \<Rightarrow> ObjectBlobRecord list \<Rightarrow> gw_error + jsval" where
  "validateReport v plan blobs =
     bindE (guardE (isRecord v \<and> exactFields v REPORT_FIELDS)
       (CodedError 503 ''recorder-verifier-contract-invalid'' ''recorder verifier returned an invalid report contract'' [])) (\<lambda>_.
     bindE (assertBoundedJson v ''recorder verification report'' report_limits) (\<lambda>_.
     bindE (guardE (report_bound v plan blobs)
       (CodedError 409 ''recorder-verification-binding-mismatch'' ''recorder verification report does not match staged authority'' [])) (\<lambda>_.
     Inr v)))"

definition model_proof :: "ModelRow \<Rightarrow> jsval \<Rightarrow> jsval \<Rightarrow> bool" where
  "model_proof model contractHash lockfileHash \<longleftrightarrow>
     mr_status model = ''admitted'' \<and> strict_eq (JStr (mr_contract_hash model)) contractHash
     \<and> isRecord (mr_validator_report model)
     \<and> text_field (mr_validator_report model) ''verdict'' ''admitted''
     \<and> strict_eq (getProp (mr_validator_report model) ''contractHash'') contractHash
     \<and> strict_eq (getProp (mr_validator_report model) ''lockfileHash'') lockfileHash"

definition requireAdmittedModelProof :: "ModelRow option \<Rightarrow> jsval \<Rightarrow> jsval \<Rightarrow> gw_error + unit" where
  "requireAdmittedModelProof found contractHash lockfileHash =
     (case found of
        None \<Rightarrow> Inl (HttpError 404 ''recorder admission model not found'')
      | Some model \<Rightarrow>
          guardE (model_proof model contractHash lockfileHash)
            (HttpError 409 ''recorder archive is not bound to the selected admitted model proof''))"

section \<open>Streaming and verifying\<close>

definition notMaterialized :: gw_error where
  "notMaterialized = CodedError 409 ''recorder-object-not-materialized'' ''recorder archive object is not materialized'' []"

definition blob_ready :: "ObjectBlobRecord \<Rightarrow> jsval \<Rightarrow> bool" where
  "blob_ready blob planned \<longleftrightarrow>
     bl_visibility blob = VPrivate \<and> bl_uploadStatus blob = UComplete
     \<and> sha_field planned ''contentType'' (bl_contentType blob)
     \<and> (case bl_byteSize blob of None \<Rightarrow> False | Some n \<Rightarrow> strict_eq (getProp planned ''byteSize'') (JNum (IntN n)))
     \<and> sha_field planned ''sha256'' (bl_sha256 blob)"

fun gather_blobs ::
  "CurrentUser \<Rightarrow> RecorderArchiveMaterialization \<Rightarrow> recorder_file list \<Rightarrow> string list \<Rightarrow> ObjectBlobRecord list gtx" where
  "gather_blobs user m [] observed = tx_return []"
| "gather_blobs user m (f # fs) observed =
     tx_bind (getOwnedObjectBlob user (rowBlobIds m (rf_role f))) (\<lambda>found.
     case (found, planned_file (rm_uploadPlan m) (rf_name f)) of
       (Some blob, Some planned) \<Rightarrow>
         if bl_id blob \<in> set observed \<or> \<not> blob_ready blob planned then tx_throw notMaterialized
         else tx_bind (gather_blobs user m fs (bl_id blob # observed)) (\<lambda>blobs. tx_return (blob # blobs))
     | _ \<Rightarrow> tx_throw notMaterialized)"

type_synonym stream_adapter = "ObjectBlobRecord \<Rightarrow> jsval \<Rightarrow> gw_error + nat list"

definition stream_file ::
  "stream_adapter \<Rightarrow> jsval \<Rightarrow> recorder_file \<times> ObjectBlobRecord \<Rightarrow> gw_error + (string \<times> nat list)" where
  "stream_file stream plan = (\<lambda>(f, blob).
     case planned_file plan (rf_name f) of
       None \<Rightarrow> Inl (PlainError ''TypeError'')
     | Some planned \<Rightarrow> bindE (stream blob planned) (\<lambda>bytes. Inr (rf_name f, bytes)))"

definition streamPrivateArchive ::
  "CurrentUser \<Rightarrow> RecorderArchiveMaterialization \<Rightarrow> stream_adapter \<Rightarrow> ((string \<times> nat list) list \<Rightarrow> ValidateResult)
     \<Rightarrow> jsval gtx" where
  "streamPrivateArchive user m stream runVerifier =
     tx_bind (gather_blobs user m FILES []) (\<lambda>blobs.
     tx_bind (tx_lift (mapE (stream_file stream (rm_uploadPlan m)) (zip FILES blobs))) (\<lambda>archiveDirectory.
     let result = runVerifier archiveDirectory in
     if vr_exitCode result \<noteq> 0 \<or> vr_report result = JUndef \<or> vr_report result = JNull
     then tx_throw (CodedError (if vr_exitCode result = -1 then 503 else 409)
            (if vr_exitCode result = -1 then ''recorder-verifier-unavailable'' else ''recorder-archive-semantics-invalid'')
            ''recorder archive failed sovereign archive-v1 verification''
            [(''cause'', JStr (take 4096 (vr_stderr result)))])
     else tx_lift (validateReport (vr_report result) (rm_uploadPlan m) blobs)))"

section \<open>Admission\<close>

definition admission_of :: "string \<Rightarrow> string \<Rightarrow> gateway_db \<Rightarrow> AdmissionRow option" where
  "admission_of mid userId db =
     find (\<lambda>r. ad_materialization_id r = mid \<and> ad_owner_user_id r = userId) (recorder_archive_admissions db)"

definition getRecorderArchiveAdmission :: "CurrentUser \<Rightarrow> string \<Rightarrow> RecorderArchiveAdmission option gtx" where
  "getRecorderArchiveAdmission user mid = tx_gets (\<lambda>db. map_option mapAdmission (admission_of mid (user_id user) db))"

definition same_model_or_409 :: "string \<Rightarrow> RecorderArchiveAdmission \<Rightarrow> RecorderArchiveAdmission gtx" where
  "same_model_or_409 modelId admission =
     (if ra_modelId admission \<noteq> modelId
      then tx_throw (HttpError 409 ''recorder archive is already admitted for a different model'')
      else tx_return admission)"

definition model_of :: "string \<Rightarrow> string \<Rightarrow> gateway_db \<Rightarrow> ModelRow option" where
  "model_of modelId userId db = find (\<lambda>r. mr_id r = modelId \<and> mr_owner_user_id r = Some userId) (model_registry db)"

definition telemetry_tape :: "string \<Rightarrow> string \<Rightarrow> RecorderArchiveMaterialization \<Rightarrow> jsval \<Rightarrow> jsval" where
  "telemetry_tape admissionId mid m v = JObj
    ([(''schemaVersion'', JStr RECORDER_TELEMETRY_REFERENCE_SCHEMA_VERSION), (''storage'', JStr ''object-backed''),
      (''admissionId'', JStr admissionId), (''materializationId'', JStr mid), (''replayBlobId'', JStr (rm_replayBlobId m))]
     @ map (\<lambda>field. (field, getProp v field)) [''archiveSchemaVersion'', ''replaySchemaVersion'', ''contractHash'',
         ''lockfileHash'', ''replayFileSha256'', ''aggregateByteSize'', ''frameCount'', ''durationS'']
     @ [(''gatewayArchiveSemanticsVerified'', JBool True), (''recordedDeviceAttested'', JBool False),
        (''deviceIdentityVerified'', JBool False), (''fieldSessionVerified'', JBool False),
        (''sharingAuthorized'', JBool False), (''trainingReuseAuthorized'', JBool False), (''noAutoArm'', JBool True)])"

definition telemetry_privacy :: jsval where
  "telemetry_privacy = JObj [(''sharing'', JStr ''private''), (''captureConsentConfirmed'', JBool True),
     (''userOwned'', JBool True), (''sharingAuthorized'', JBool False), (''trainingReuseAuthorized'', JBool False)]"

definition telemetry_row ::
  "string \<Rightarrow> string \<Rightarrow> CurrentUser \<Rightarrow> string \<Rightarrow> string \<Rightarrow> RecorderArchiveMaterialization \<Rightarrow> jsval \<Rightarrow> TelemetryRow" where
  "telemetry_row logId admissionId user mid modelId m v =
     \<lparr>tl_id = logId, tl_owner_user_id = Some (user_id user), tl_model_id = Some modelId, tl_source = ''desktop'',
      tl_captured_at = int_of (getProp v ''startedAtUnixMs''), tl_tape = telemetry_tape admissionId mid m v,
      tl_privacy = telemetry_privacy\<rparr>"

text \<open>\<open>new Date(startedAtUnixMs)\<close> is a date only up to 8.64e15 milliseconds; beyond that the insertion fails.\<close>

definition captured_date :: "jsval \<Rightarrow> gw_error + int" where
  "captured_date v =
     (let t = int_of (getProp v ''startedAtUnixMs'')
      in if 8640000000000000 < t then Inl (DbError ''invalid timestamp'') else Inr t)"

definition admission_row ::
  "string \<Rightarrow> string \<Rightarrow> int \<Rightarrow> CurrentUser \<Rightarrow> string \<Rightarrow> string \<Rightarrow> jsval \<Rightarrow> AdmissionRow" where
  "admission_row logId admissionId now user mid modelId v =
     \<lparr>ad_id = admissionId, ad_owner_user_id = user_id user, ad_materialization_id = mid, ad_telemetry_log_id = logId,
      ad_model_id = modelId, ad_verification = v, ad_replay_file_sha256 = str_of (getProp v ''replayFileSha256''),
      ad_frame_count = int_of (getProp v ''frameCount''),
      ad_duration_s = (case getProp v ''durationS'' of JNum n \<Rightarrow> n | _ \<Rightarrow> NaN), ad_created_at = now\<rparr>"

definition insert_telemetry :: "TelemetryRow \<Rightarrow> gateway_db \<Rightarrow> gw_error + gateway_db" where
  "insert_telemetry row db =
     bindE (insert_unique (\<lambda>a b. tl_id a = tl_id b) (DbError ''unique constraint'') row (telemetry_logs db))
       (\<lambda>rows. Inr (db\<lparr>telemetry_logs := rows\<rparr>))"

definition admission_clash :: "AdmissionRow \<Rightarrow> AdmissionRow \<Rightarrow> bool" where
  "admission_clash a b \<longleftrightarrow> ad_id a = ad_id b \<or> ad_materialization_id a = ad_materialization_id b
     \<or> ad_telemetry_log_id a = ad_telemetry_log_id b"

definition insert_admission :: "AdmissionRow \<Rightarrow> gateway_db \<Rightarrow> gw_error + gateway_db" where
  "insert_admission row db =
     bindE (insert_unique admission_clash (DbError ''unique constraint'') row (recorder_archive_admissions db))
       (\<lambda>rows. Inr (db\<lparr>recorder_archive_admissions := rows\<rparr>))"

definition materialized_row :: "string \<Rightarrow> string \<Rightarrow> gateway_db \<Rightarrow> bool" where
  "materialized_row mid userId db =
     list_ex (\<lambda>r. ma_id r = mid \<and> ma_owner_user_id r = userId \<and> ma_status r = Materialized
       \<and> ma_gateway_object_integrity_verified r) (recorder_archive_materializations db)"

definition admit_commit ::
  "string \<Rightarrow> string \<Rightarrow> int \<Rightarrow> CurrentUser \<Rightarrow> string \<Rightarrow> string \<Rightarrow> RecorderArchiveMaterialization \<Rightarrow> jsval
     \<Rightarrow> RecorderArchiveAdmission gtx" where
  "admit_commit logId admissionId now user mid modelId m verification =
     withGatewayTransaction (
       tx_bind (tx_gets (materialized_row mid (user_id user))) (\<lambda>locked.
       if \<not> locked then tx_throw (HttpError 409 ''recorder materialization changed during admission'')
       else
       tx_bind (getRecorderArchiveAdmission user mid) (\<lambda>concurrent.
       case concurrent of
         Some admission \<Rightarrow> same_model_or_409 modelId admission
       | None \<Rightarrow>
           tx_bind (tx_gets (model_of modelId (user_id user))) (\<lambda>model.
           tx_bind (tx_lift (requireAdmittedModelProof model (getProp verification ''contractHash'')
             (getProp verification ''lockfileHash''))) (\<lambda>_.
           tx_bind (tx_lift (captured_date verification)) (\<lambda>_.
           tx_bind (tx_update (insert_telemetry (telemetry_row logId admissionId user mid modelId m verification))) (\<lambda>_.
           let row = admission_row logId admissionId now user mid modelId verification in
           tx_bind (tx_update (insert_admission row)) (\<lambda>_.
           tx_return (mapAdmission row)))))))))"

definition admitRecorderArchive ::
  "(gateway_db \<Rightarrow> gateway_db) \<Rightarrow> string \<Rightarrow> string \<Rightarrow> int \<Rightarrow> CurrentUser \<Rightarrow> string \<Rightarrow> string \<Rightarrow> stream_adapter
     \<Rightarrow> ((string \<times> nat list) list \<Rightarrow> ValidateResult) \<Rightarrow> RecorderArchiveAdmission gtx" where
  "admitRecorderArchive env logId admissionId now user mid modelId stream runVerifier =
     tx_bind (getRecorderArchive user mid) (\<lambda>found.
     case found of
       None \<Rightarrow> tx_throw (HttpError 404 ''recorder archive materialization not found'')
     | Some m \<Rightarrow>
         if rm_status m \<noteq> Materialized \<or> \<not> rm_gatewayObjectIntegrityVerified m
         then tx_throw (HttpError 409 ''recorder archive must complete object materialization before admission'')
         else
         tx_bind (getRecorderArchiveAdmission user mid) (\<lambda>existing.
         case existing of
           Some admission \<Rightarrow> same_model_or_409 modelId admission
         | None \<Rightarrow>
             tx_bind (tx_gets (model_of modelId (user_id user))) (\<lambda>preflight.
             tx_bind (tx_lift (requireAdmittedModelProof preflight (getProp (rm_uploadPlan m) ''contractHash'')
               (getProp (rm_uploadPlan m) ''lockfileHash''))) (\<lambda>_.
             tx_bind (streamPrivateArchive user m stream runVerifier) (\<lambda>verification.
             tx_bind (tx_modify env) (\<lambda>_.
             admit_commit logId admissionId now user mid modelId m verification))))))"

end
