(* ===== verification/Blob_Claims.thy ===== *)
theory Blob_Claims
  imports Object_Blobs
begin

text \<open>
  Properties of object declarations: an upload counts as complete only when the stored object matches its
  declaration, also under interference; registering is idempotent per cache key; and neither operation
  touches another account's objects.
\<close>

section \<open>Runs\<close>

lemma tx_state_Inr [txE]: "tx_state f s = (Inr a, t) \<longleftrightarrow> f s = Inr (a, t)"
  by (auto simp: tx_state_def split: sum.splits prod.splits)

lemma tx_state_run: "tx_state f s = (case f s of Inl e \<Rightarrow> (Inl e, s) | Inr (a, t) \<Rightarrow> (Inr a, t))"
  by (simp add: tx_state_def)

lemma getOwnedObjectBlob_run [simp]:
  "getOwnedObjectBlob user blobId db = (Inr (map_option mapObjectBlob (owned_blob blobId (user_id user) db)), db)"
  by (simp add: getOwnedObjectBlob_def)

lemma update_blob_run [simp]:
  "update_blob P f db = (Inr (map_option f (find P (object_blobs db))),
     db\<lparr>object_blobs := map (\<lambda>r. if P r then f r else r) (object_blobs db)\<rparr>)"
  by (simp add: update_blob_def)

lemma tx_bind_Inr_run: "m s = (Inr a, t) \<Longrightarrow> tx_bind m f s = f a t"
  by (simp add: tx_bind_run)

text \<open>What a completion does, case by case.\<close>

lemma completeObjectBlobUpload_run:
  "completeObjectBlobUpload env now user blobId i db =
     (case owned_blob blobId (user_id user) db of
        None \<Rightarrow> (Inl (HttpError 404 ''object blob not found''), db)
      | Some row \<Rightarrow>
          let blob = mapObjectBlob row; P = same_upload user blob;
              upd = (\<lambda>f. (env db)\<lparr>object_blobs := map (\<lambda>r. if P r then f r else r) (object_blobs (env db))\<rparr>)
          in (case upload_error blob i of
                Some code \<Rightarrow>
                  (Inl (if find P (object_blobs (env db)) = None then declarationChanged
                        else CodedError 409 code ''object upload is incomplete or does not match its declaration'' []),
                   upd (reject_blob code))
              | None \<Rightarrow>
                  (case find P (object_blobs (env db)) of
                     None \<Rightarrow> Inl declarationChanged
                   | Some r \<Rightarrow> Inr (mapObjectBlob (complete_blob now r)), upd (complete_blob now))))"
proof (cases "owned_blob blobId (user_id user) db")
  case None
  then show ?thesis by (simp add: completeObjectBlobUpload_def tx_bind_Inr_run)
next
  case (Some row)
  then show ?thesis
    by (auto simp: completeObjectBlobUpload_def tx_bind_Inr_run Let_def split: option.split)
qed

lemma upload_error_None:
  "upload_error b i = None \<longleftrightarrow> bl_byteSize b = Some (si_byteSize i)
     \<and> (bl_contentType b = None \<or> si_contentType i = map_option toLowerCase (bl_contentType b))
     \<and> (bl_sha256 b = None \<or> si_sha256 i = map_option toLowerCase (bl_sha256 b))"
  by (auto simp: upload_error_def)

lemma owned_blob_SomeD: "owned_blob b u db = Some r \<Longrightarrow> r \<in> set (object_blobs db) \<and> ob_id r = b \<and> ob_owner_user_id r = Some u"
  by (auto simp: owned_blob_def dest: find_SomeD)

lemma same_upload_owner: "same_upload user blob r \<Longrightarrow> ob_owner_user_id r = Some (user_id user)"
  by (simp add: same_upload_def)

text \<open>Rows of other accounts pass through an update of the caller's rows.\<close>

lemma filter_foreign_update:
  assumes "\<And>r. P r \<Longrightarrow> ob_owner_user_id r = Some u" "\<And>r. ob_owner_user_id (f r) = ob_owner_user_id r"
  shows "filter (\<lambda>r. ob_owner_user_id r \<noteq> Some u) (map (\<lambda>r. if P r then f r else r) rows)
    = filter (\<lambda>r. ob_owner_user_id r \<noteq> Some u) rows"
  using assms by (induction rows) auto

lemma complete_owner [simp]:
  "ob_owner_user_id (complete_blob now r) = ob_owner_user_id r" "ob_owner_user_id (reject_blob c r) = ob_owner_user_id r"
  "ob_upload_status (reject_blob c r) = UStaged" "ob_upload_status (complete_blob now r) = UComplete"
  by (simp_all add: complete_blob_def reject_blob_def)

lemma upload_completes_core:
  assumes "completeObjectBlobUpload env now user blobId i db = (Inr b, db')"
  shows "bl_id b = blobId" "bl_uploadStatus b = UComplete" "bl_verifiedAt b \<noteq> None" "upload_error b i = None"
    "list_ex (\<lambda>r. mapObjectBlob r = b) (object_blobs db')"
proof -
  from assms obtain row r where row: "owned_blob blobId (user_id user) db = Some row"
    and ok: "upload_error (mapObjectBlob row) i = None"
    and r: "find (same_upload user (mapObjectBlob row)) (object_blobs (env db)) = Some r"
    and b: "b = mapObjectBlob (complete_blob now r)"
    and db': "db' = (env db)\<lparr>object_blobs := map (\<lambda>q. if same_upload user (mapObjectBlob row) q then complete_blob now q else q)
        (object_blobs (env db))\<rparr>"
    by (auto simp: completeObjectBlobUpload_run Let_def split: option.splits)
  from r have in_r: "r \<in> set (object_blobs (env db))" and up: "same_upload user (mapObjectBlob row) r"
    by (auto dest: find_SomeD)
  have id: "bl_id (mapObjectBlob row) = blobId" using owned_blob_SomeD [OF row] by (simp add: mapObjectBlob_def)
  show "bl_id b = blobId" "bl_uploadStatus b = UComplete" "bl_verifiedAt b \<noteq> None"
    using up id by (simp_all add: b mapObjectBlob_def complete_blob_def same_upload_def)
  have "bl_byteSize b = bl_byteSize (mapObjectBlob row)" "bl_contentType b = bl_contentType (mapObjectBlob row)"
    "bl_sha256 b = bl_sha256 (mapObjectBlob row)"
    using up by (simp_all add: b mapObjectBlob_def complete_blob_def same_upload_def)
  with ok show "upload_error b i = None" by (simp add: upload_error_None)
  show "list_ex (\<lambda>r. mapObjectBlob r = b) (object_blobs db')"
    using in_r up by (auto simp: list_ex_iff b db' intro!: bexI [of _ "complete_blob now r"])
qed

lemma upload_failure:
  assumes "completeObjectBlobUpload env now user blobId i db = (Inl e, db')"
  shows "list_all (\<lambda>r. ob_upload_status r = UStaged \<or> r \<in> set (object_blobs (env db)) \<or> r \<in> set (object_blobs db)) (object_blobs db')"
proof -
  have "map (\<lambda>q. if P q then complete_blob now q else q) rows = rows" if "find P rows = None" for P rows
    using that by (auto simp: find_None_iff_all intro: map_idI)
  then show ?thesis using assms
    by (auto simp: completeObjectBlobUpload_run Let_def list_all_iff split: option.splits if_splits)
qed

lemma upload_foreign:
  assumes "completeObjectBlobUpload env now user blobId i db = (r, db')"
  shows "filter (\<lambda>r. ob_owner_user_id r \<noteq> Some (user_id user)) (object_blobs db')
      = filter (\<lambda>r. ob_owner_user_id r \<noteq> Some (user_id user)) (object_blobs (env db)) \<or> db' = db"
  using assms
  by (auto simp: completeObjectBlobUpload_run Let_def filter_foreign_update same_upload_owner split: option.splits)

section \<open>Properties\<close>


section \<open>Registration\<close>

lemma registerObjectBlob_Inr:
  assumes "registerObjectBlob newId uuid now user input db = (Inr b, db')"
  obtains row where "check_blob_input input = Inr ()" and "b = mapObjectBlob row"
    and "upsert_blob (blob_row newId uuid now user input) db = Inr (Some row, db')"
    and "ob_owner_user_id row = Some (user_id user)"
proof -
  from assms obtain res s where "check_blob_input input = Inr ()"
    and up: "upsert_blob (blob_row newId uuid now user input) db = Inr (res, s)"
    and rest: "(case res of
       None \<Rightarrow> tx_throw (HttpError 409 ''object cache key is already bound to a different declaration'')
     | Some row \<Rightarrow>
         let blob = mapObjectBlob row in
         if bl_ownerUserId blob \<noteq> Some (user_id user)
         then tx_throw (HttpError 403 ''object blob cache key is not owned by the current user'')
         else tx_return blob) s = (Inr b, db')"
    unfolding registerObjectBlob_def by (auto simp: txE)
  show ?thesis
  proof (cases res)
    case None
    with rest show ?thesis by simp
  next
    case (Some row)
    with rest have "b = mapObjectBlob row \<and> s = db' \<and> ob_owner_user_id row = Some (user_id user)"
      by (auto simp: Let_def mapObjectBlob_def split: if_splits)
    with that [of row] Some up \<open>check_blob_input input = Inr ()\<close> show ?thesis by simp
  qed
qed

lemma merge_metadata_fields [simp]:
  "ob_id (merge_metadata row r) = ob_id r" "ob_owner_user_id (merge_metadata row r) = ob_owner_user_id r"
  "ob_cache_key (merge_metadata row r) = ob_cache_key r" "ob_content_type (merge_metadata row r) = ob_content_type r"
  "ob_byte_size (merge_metadata row r) = ob_byte_size r" "ob_sha256 (merge_metadata row r) = ob_sha256 r"
  "ob_upload_status (merge_metadata row r) = ob_upload_status r"
  by (simp_all add: merge_metadata_def)

lemma find_map_key:
  "(\<And>q. q \<in> set rows \<Longrightarrow> P (g q) = P q) \<Longrightarrow> find P (map g rows) = map_option g (find P rows)"
  by (induction rows) auto

lemma same_cache_key_row:
  "ob_cache_key a = ob_cache_key b \<Longrightarrow> same_cache_key a q = same_cache_key b q"
  by (simp add: same_cache_key_def)

lemma upsert_Some:
  assumes "upsert_blob row db = Inr (Some b, db')"
  shows "(\<exists>r. find (same_cache_key row) (object_blobs db) = Some r \<and> same_declaration r row \<and> b = merge_metadata row r
       \<and> db' = db\<lparr>object_blobs := map (\<lambda>q. if ob_id q = ob_id r then merge_metadata row q else q) (object_blobs db)\<rparr>)
    \<or> (find (same_cache_key row) (object_blobs db) = None \<and> b = row \<and> (\<forall>q \<in> set (object_blobs db). \<not> blob_clash row q)
       \<and> db' = db\<lparr>object_blobs := object_blobs db @ [row]\<rparr>)"
  using assms by (auto simp: upsert_blob_def resE split: option.splits if_splits)

text \<open>A second upsert with the same key and declaration meets the row of the first one.\<close>

lemma upsert_again:
  assumes "upsert_blob row db = Inr (Some b, db')" and "ob_cache_key row \<noteq> None"
    and "ob_cache_key row' = ob_cache_key row" "same_declaration row row'"
  obtains b' db'' where "upsert_blob row' db' = Inr (Some b', db'')" "ob_id b' = ob_id b"
    "ob_upload_status b' = ob_upload_status b" "ob_owner_user_id b' = ob_owner_user_id b"
    "map ob_id (object_blobs db'') = map ob_id (object_blobs db')"
proof -
  have key: "same_cache_key row' = same_cache_key row" by (rule ext) (rule same_cache_key_row [OF assms(3)])
  have found: "\<exists>r. find (same_cache_key row') (object_blobs db') = Some r \<and> ob_id r = ob_id b
      \<and> same_declaration r row' \<and> ob_upload_status r = ob_upload_status b \<and> ob_owner_user_id r = ob_owner_user_id b"
    using upsert_Some [OF assms(1)]
  proof (elim disjE exE conjE)
    fix r
    assume r: "find (same_cache_key row) (object_blobs db) = Some r" "same_declaration r row" "b = merge_metadata row r"
      and db': "db' = db\<lparr>object_blobs := map (\<lambda>q. if ob_id q = ob_id r then merge_metadata row q else q) (object_blobs db)\<rparr>"
    have "find (same_cache_key row) (object_blobs db') = Some (merge_metadata row r)"
      unfolding db' using r(1) by (simp add: find_map_key same_cache_key_def)
    with r assms(4) show ?thesis unfolding key by (auto simp: same_declaration_def)
  next
    assume "find (same_cache_key row) (object_blobs db) = None" "b = row"
      "db' = db\<lparr>object_blobs := object_blobs db @ [row]\<rparr>"
    with assms(2,4) show ?thesis unfolding key by (simp add: find_append same_cache_key_def)
  qed
  then obtain r where r: "find (same_cache_key row') (object_blobs db') = Some r" "ob_id r = ob_id b" "same_declaration r row'"
    "ob_upload_status r = ob_upload_status b" "ob_owner_user_id r = ob_owner_user_id b" by blast
  show ?thesis
    by (rule that [of "merge_metadata row' r"
          "db'\<lparr>object_blobs := map (\<lambda>q. if ob_id q = ob_id r then merge_metadata row' q else q) (object_blobs db')\<rparr>"])
      (use r in \<open>simp_all add: upsert_blob_def\<close>)
qed

lemma blob_row_key:
  "ob_cache_key (blob_row newId uuid now user input) =
     blobCacheKey user (bi_cacheKey input) (map_option toLowerCase (bi_sha256 input))"
  by (simp add: blob_row_def Let_def)

lemma same_declaration_rows: "same_declaration (blob_row newId uuid now user input) (blob_row newId' uuid' now' user input)"
  by (simp add: same_declaration_def blob_row_def Let_def)

lemma registerObjectBlob_again:
  assumes "registerObjectBlob newId uuid now user input db = (Inr b, db')"
    and "blobCacheKey user (bi_cacheKey input) (map_option toLowerCase (bi_sha256 input)) \<noteq> None"
  obtains b' db'' where "registerObjectBlob newId' uuid' now' user input db' = (Inr b', db'')" "bl_id b' = bl_id b"
    "bl_uploadStatus b' = bl_uploadStatus b" "map ob_id (object_blobs db'') = map ob_id (object_blobs db')"
proof -
  let ?row' = "blob_row newId' uuid' now' user input"
  obtain row where ok: "check_blob_input input = Inr ()" and b: "b = mapObjectBlob row"
    and up: "upsert_blob (blob_row newId uuid now user input) db = Inr (Some row, db')"
    and owner: "ob_owner_user_id row = Some (user_id user)"
    by (rule registerObjectBlob_Inr [OF assms(1)])
  obtain r db'' where again: "upsert_blob ?row' db' = Inr (Some r, db'')" "ob_id r = ob_id row"
    "ob_upload_status r = ob_upload_status row" "ob_owner_user_id r = ob_owner_user_id row"
    "map ob_id (object_blobs db'') = map ob_id (object_blobs db')"
    by (rule upsert_again [OF up, of ?row']) (use assms(2) in \<open>simp_all add: blob_row_key same_declaration_rows\<close>)
  show ?thesis
    by (rule that [of "mapObjectBlob r" db''])
      (use again ok owner b in \<open>simp_all add: registerObjectBlob_def tx_state_run tx_bind_run Let_def mapObjectBlob_def\<close>)
qed

text \<open>
  Registering an object again under the same cache key or checksum is idempotent: the second
  registration succeeds with the same object, keeps its upload status and adds no row.
\<close>

theorem blob_registration_idempotent:
  assumes "registerObjectBlob newId uuid now user input db = (Inr b, db')"
    and "blobCacheKey user (bi_cacheKey input) (map_option toLowerCase (bi_sha256 input)) \<noteq> None"
  shows "\<exists>b' db''. registerObjectBlob newId' uuid' now' user input db' = (Inr b', db'') \<and> bl_id b' = bl_id b
    \<and> bl_uploadStatus b' = bl_uploadStatus b \<and> map ob_id (object_blobs db'') = map ob_id (object_blobs db')"
  by (rule registerObjectBlob_again [OF assms]) blast

definition sample_blob_input :: BlobInput where
  "sample_blob_input = \<lparr>bi_bucket = ''b'', bi_purpose = ''photo'', bi_contentType = Some ''image/png'',
     bi_byteSize = Some (IntN 10), bi_sha256 = Some (replicate 64 (CHR ''a'')), bi_metadata = JObj [], bi_cacheKey = None\<rparr>"

definition blob_user :: CurrentUser where
  "blob_user = \<lparr>user_id = ''u1'', user_name = None, user_email = None, user_image = None\<rparr>"

theorem blob_registration_idempotent_witness:
  "\<exists>b' db''. registerObjectBlob ''obj-2'' ''u'' 9 blob_user sample_blob_input
       (snd (registerObjectBlob ''obj-1'' ''v'' 5 blob_user sample_blob_input empty_db)) = (Inr b', db'')
     \<and> length (object_blobs db'') = 1"
proof -
  let ?run = "registerObjectBlob ''obj-1'' ''v'' 5 blob_user sample_blob_input empty_db"
  have "isOk (fst ?run)" and len: "length (object_blobs (snd ?run)) = 1" by code_simp+
  then obtain b where run: "?run = (Inr b, snd ?run)" by (metis isOk_iff prod.collapse)
  have "blobCacheKey blob_user (bi_cacheKey sample_blob_input) (map_option toLowerCase (bi_sha256 sample_blob_input)) \<noteq> None"
    by code_simp
  from blob_registration_idempotent [OF run this, of "''obj-2''" "''u''" 9] obtain b' db'' where
    again: "registerObjectBlob ''obj-2'' ''u'' 9 blob_user sample_blob_input (snd ?run) = (Inr b', db'')"
    and ids: "map ob_id (object_blobs db'') = map ob_id (object_blobs (snd ?run))" by blast
  from ids have "length (object_blobs db'') = 1" using len by (metis length_map)
  with again show ?thesis by blast
qed

end
