(* ===== verification/Recorder_Claims.thy ===== *)
theory Recorder_Claims
  imports Recorder_Admission Blob_Claims
begin

text \<open>
  Properties of recorder archives and their admission: what an accepted plan guarantees, that staging is
  idempotent, that an archive is materialized only after its five objects and its metadata were
  verified, and that an admission is backed by a verified archive and an admitted model in the very
  state it is written to.
\<close>

section \<open>Upload plans\<close>

definition file_ok :: "jsval \<Rightarrow> bool" where
  "file_ok raw \<longleftrightarrow> isRecord raw \<and> is_string (getProp raw ''name'') \<and> is_string (getProp raw ''contentType'')
     \<and> safeInteger (getProp raw ''byteSize'') 1 MAX_ARCHIVE_BYTES \<and> isSha256 (getProp raw ''sha256'')"

abbreviation file_name :: "jsval \<Rightarrow> string" where
  "file_name raw \<equiv> str_of (getProp raw ''name'')"

abbreviation file_size :: "jsval \<Rightarrow> int" where
  "file_size raw \<equiv> int_of (getProp raw ''byteSize'')"

lemma collect_files_Inr:
  "collect_files xs acc = Inr byName \<Longrightarrow> distinct (map fst acc) \<Longrightarrow>
     byName = acc @ map (\<lambda>raw. (file_name raw, raw)) xs \<and> distinct (map fst byName) \<and> list_all file_ok xs"
proof (induction xs arbitrary: acc)
  case Nil
  then show ?case by simp
next
  case (Cons raw rest)
  from Cons.prems(1) have ok: "file_ok raw" and fresh: "map_of acc (file_name raw) = None"
    and rest: "collect_files rest (acc @ [(file_name raw, raw)]) = Inr byName"
    by (auto simp: resE file_ok_def)
  have "distinct (map fst (acc @ [(file_name raw, raw)]))"
    using Cons.prems(2) fresh by (auto simp: map_of_eq_None_iff)
  from Cons.IH [OF rest this] have IH: "byName = (acc @ [(file_name raw, raw)]) @ map (\<lambda>raw. (file_name raw, raw)) rest"
    "distinct (map fst byName)" "list_all file_ok rest" by blast+
  show ?case
  proof (intro conjI)
    show "byName = acc @ map (\<lambda>raw. (file_name raw, raw)) (raw # rest)" using IH(1) by simp
    show "distinct (map fst byName)" by (rule IH(2))
    show "list_all file_ok (raw # rest)" using IH(3) ok by simp
  qed
qed

lemma sum_files_Inr:
  "sum_files fs byName a = Inr t \<Longrightarrow>
     t = a + sum_list (map (\<lambda>f. file_size (the (map_of byName (rf_name f)))) fs)
     \<and> list_all (\<lambda>f. \<exists>fl. map_of byName (rf_name f) = Some fl
          \<and> getProp fl ''contentType'' = JStr (rf_contentType f)) fs"
proof (induction fs arbitrary: a)
  case Nil
  then show ?case by simp
next
  case (Cons f fs)
  from Cons.prems obtain x where "map_of byName (rf_name f) = Some x"
    "getProp x ''contentType'' = JStr (rf_contentType f)" "sum_files fs byName (a + file_size x) = Inr t"
    by (auto simp: js_simps split: option.splits if_splits)
  with Cons.IH [of "a + file_size x"] show ?case by simp
qed

lemma FILES_facts: "length FILES = 5" "distinct (map rf_name FILES)"
  by code_simp+

lemma sum_over_names:
  fixes g :: "'v \<Rightarrow> int"
  assumes "distinct names" "distinct (map fst kvs)" "length kvs = length names" "set names \<subseteq> set (map fst kvs)"
  shows "sum_list (map (\<lambda>n. g (the (map_of kvs n))) names) = sum_list (map (\<lambda>kv. g (snd kv)) kvs)"
proof -
  have "card (set names) = card (set (map fst kvs))"
    using assms(1,2,3) by (metis distinct_card length_map)
  then have same: "set names = set (map fst kvs)" using assms(4) by (intro card_subset_eq) auto
  have "sum_list (map (\<lambda>n. g (the (map_of kvs n))) names) = (\<Sum>n \<in> set (map fst kvs). g (the (map_of kvs n)))"
    by (simp only: same [symmetric] sum_list_distinct_conv_sum_set [OF assms(1)])
  also have "\<dots> = sum_list (map (\<lambda>n. g (the (map_of kvs n))) (map fst kvs))"
    using assms(2) by (simp only: sum_list_distinct_conv_sum_set)
  also have "\<dots> = sum_list (map (\<lambda>kv. g (snd kv)) kvs)"
    using assms(2) by (simp only: map_map) (intro arg_cong [where f = sum_list] map_cong; force)
  finally show ?thesis .
qed

lemma planned_file_map_of:
  assumes "list_all file_ok xs" "getProp plan ''files'' = JArr xs"
  shows "planned_file plan n = map_of (map (\<lambda>raw. (file_name raw, raw)) xs) n"
proof -
  have "find (\<lambda>c. getProp c ''name'' = JStr n) xs = map_of (map (\<lambda>raw. (file_name raw, raw)) xs) n"
    using assms(1) by (induction xs) (auto simp: file_ok_def js_simps)
  with assms(2) show ?thesis by (simp add: planned_file_def plan_files_def js_simps)
qed

lemma check_files_Inr:
  assumes "check_files v = Inr t"
  shows "length (plan_files v) = 5" "list_all file_ok (plan_files v)" "t = sum_list (map file_size (plan_files v))"
    "list_all (\<lambda>f. \<exists>file. planned_file v (rf_name f) = Some file \<and> file \<in> set (plan_files v)
       \<and> getProp file ''contentType'' = JStr (rf_contentType f)) FILES"
    "getProp v ''files'' = JArr (plan_files v)"
proof -
  from assms obtain xs byName where xs: "getProp v ''files'' = JArr xs" "length xs = 5"
    and col: "collect_files xs [] = Inr byName" and sum: "sum_files FILES byName 0 = Inr t"
    by (auto simp: check_files_def resE FILES_facts split: jsval.splits)
  have pf: "plan_files v = xs" using xs by (simp add: plan_files_def)
  from collect_files_Inr [OF col] have bn: "byName = map (\<lambda>raw. (file_name raw, raw)) xs"
    and dist: "distinct (map fst byName)" and ok: "list_all file_ok xs" by (auto simp del: distinct_map)
  show "length (plan_files v) = 5" "list_all file_ok (plan_files v)" "getProp v ''files'' = JArr (plan_files v)"
    using pf xs ok by simp_all
  note s = sum_files_Inr [OF sum]
  then have sub: "set (map rf_name FILES) \<subseteq> set (map fst byName)"
    by (force simp: list_all_iff dest: map_of_SomeD)
  have "sum_list (map (\<lambda>n. file_size (the (map_of byName n))) (map rf_name FILES)) = sum_list (map (\<lambda>kv. file_size (snd kv)) byName)"
    by (rule sum_over_names) (use sub dist xs(2) bn FILES_facts in auto)
  then show "t = sum_list (map file_size (plan_files v))" using s by (simp add: pf bn comp_def)
  have mem: "fl \<in> set xs" if "map_of (map (\<lambda>raw. (file_name raw, raw)) xs) n = Some fl" for n fl
    using map_of_SomeD [OF that] by auto
  show "list_all (\<lambda>f. \<exists>file. planned_file v (rf_name f) = Some file \<and> file \<in> set (plan_files v)
       \<and> getProp file ''contentType'' = JStr (rf_contentType f)) FILES"
    using s mem unfolding pf planned_file_map_of [OF ok xs(1)] bn list_all_iff by blast
qed

lemma validate_Inr:
  assumes "validateRecorderUploadPlan v = Inr p"
  shows "p = v" "check_files v = Inr (sum_list (map file_size (plan_files v)))"
    "getProp v ''aggregateByteSize'' = JNum (IntN (sum_list (map file_size (plan_files v))))"
    "safeInteger (getProp v ''aggregateByteSize'') 1 MAX_ARCHIVE_BYTES" "plan_flags_ok v"
proof -
  from assms obtain t where "p = v" and t: "check_files v = Inr t" and "plan_flags_ok v"
    and "safeInteger (getProp v ''aggregateByteSize'') 1 MAX_ARCHIVE_BYTES"
    and "getProp v ''aggregateByteSize'' = JNum (IntN t)"
    by (auto simp: validateRecorderUploadPlan_def resE js_simps)
  with check_files_Inr(3) [OF t] show "p = v" "check_files v = Inr (sum_list (map file_size (plan_files v)))"
    "getProp v ''aggregateByteSize'' = JNum (IntN (sum_list (map file_size (plan_files v))))"
    "safeInteger (getProp v ''aggregateByteSize'') 1 MAX_ARCHIVE_BYTES" "plan_flags_ok v" by simp_all
qed


text \<open>
  An accepted upload plan names each of the five recorder files exactly once, with its content type,
  a checksum and a size from 1 byte to 512 MiB; the declared aggregate is the sum of the five sizes and
  at most 512 MiB; the plan is not changed by the validation.
\<close>

theorem recorder_plan_sound:
  assumes "validateRecorderUploadPlan v = Inr plan"
  shows "plan = v \<and> length (plan_files v) = 5 \<and> list_all file_ok (plan_files v)
    \<and> list_all (\<lambda>f. \<exists>entry. planned_file v (rf_name f) = Some entry \<and> entry \<in> set (plan_files v)
         \<and> getProp entry ''contentType'' = JStr (rf_contentType f)) FILES
    \<and> getProp v ''aggregateByteSize'' = JNum (IntN (sum_list (map file_size (plan_files v))))
    \<and> sum_list (map file_size (plan_files v)) \<le> 512 * 1024 * 1024"
proof -
  note v = validate_Inr [OF assms]
  have "sum_list (map file_size (plan_files v)) \<le> 512 * 1024 * 1024"
    using v(3,4) by (simp add: safeInteger_def MAX_ARCHIVE_BYTES_def)
  with v check_files_Inr [OF v(2)] show ?thesis by blast
qed

section \<open>Completion\<close>

lemma tx_mapM_Inr:
  "tx_mapM f xs s = (Inr ys, t) \<Longrightarrow>
     length ys = length xs \<and> (\<forall>i < length xs. \<exists>u w. f (xs ! i) u = (Inr (ys ! i), w))"
proof (induction xs arbitrary: s ys)
  case Nil
  then show ?case by simp
next
  case (Cons x xs)
  then obtain y u zs where "f x s = (Inr y, u)" "tx_mapM f xs u = (Inr zs, t)" "ys = y # zs"
    by (auto simp: txE)
  with Cons.IH show ?case by (force simp: less_Suc_eq_0_disj)
qed

lemma complete_file_Inr:
  assumes "complete_file env now user m inspect (i, f) s = (Inr b, t)"
  shows "bl_uploadStatus b = UComplete
    \<and> (\<exists>bucket key insp. inspect bucket key = Inr insp \<and> upload_error b insp = None)"
proof -
  from assms have "\<exists>(blob :: ObjectBlobRecord) insp u. inspect (bl_bucket blob) (bl_objectKey blob) = Inr insp
      \<and> completeObjectBlobUpload (env (2 * i + 1)) now user (bl_id blob) insp u = (Inr b, t)"
    by (auto simp: complete_file_def txE split: option.splits if_splits)
  then obtain blob :: ObjectBlobRecord and insp u where insp: "inspect (bl_bucket blob) (bl_objectKey blob) = Inr insp"
    and run: "completeObjectBlobUpload (env (2 * i + 1)) now user (bl_id blob) insp u = (Inr b, t)" by blast
  from upload_completes_core(2,4) [OF run] insp show ?thesis by blast
qed

lemma tx_catch_Inr: "tx_catch m h s = (Inr a, t) \<longleftrightarrow> m s = (Inr a, t) \<or> (\<exists>e u. m s = (Inl e, u) \<and> h e u = (Inr a, t))"
  by (auto simp: tx_catch_def split: prod.splits sum.splits)

lemma materialize_Inr:
  assumes "materialize now user mid db = (Inr m, db')"
  shows "rm_status m = Materialized \<and> rm_gatewayObjectIntegrityVerified m
    \<and> list_ex (\<lambda>r. mapRow r = m \<and> owns_row user mid r) (recorder_archive_materializations db')"
proof -
  from assms obtain r where r: "find (owns_row user mid) (recorder_archive_materializations db) = Some r"
    and m: "m = mapRow (mark_materialized now r)"
    and db': "db' = db\<lparr>recorder_archive_materializations :=
      map (\<lambda>r. if owns_row user mid r then mark_materialized now r else r) (recorder_archive_materializations db)\<rparr>"
    by (auto simp: materialize_def txE update_materialization_def split: option.splits)
  from r have "r \<in> set (recorder_archive_materializations db)" "owns_row user mid r" by (auto dest: find_SomeD)
  then have "mark_materialized now r \<in> set (recorder_archive_materializations db')" by (auto simp: db')
  moreover have "owns_row user mid (mark_materialized now r)"
    using \<open>owns_row user mid r\<close> by (simp add: owns_row_def mark_materialized_def)
  ultimately have "list_ex (\<lambda>r. mapRow r = m \<and> owns_row user mid r) (recorder_archive_materializations db')"
    unfolding list_ex_iff using m by blast
  then show ?thesis by (simp add: m mapRow_def mark_materialized_def)
qed



section \<open>Staging\<close>

text \<open>A declaration is bound to an object: an upsert of it would return that object.\<close>

definition bound_blob :: "ObjectBlobRow \<Rightarrow> string \<Rightarrow> gateway_db \<Rightarrow> bool" where
  "bound_blob row b db \<longleftrightarrow>
     (\<exists>r. find (same_cache_key row) (object_blobs db) = Some r \<and> same_declaration r row \<and> ob_id r = b)"

lemma upsert_binds:
  assumes "upsert_blob row db = Inr (Some r, db')" "ob_cache_key row \<noteq> None"
  shows "bound_blob row (ob_id r) db'"
  using upsert_Some [OF assms(1)]
proof (elim disjE exE conjE)
  fix q
  assume q: "find (same_cache_key row) (object_blobs db) = Some q" "same_declaration q row" "r = merge_metadata row q"
    and db': "db' = db\<lparr>object_blobs := map (\<lambda>p. if ob_id p = ob_id q then merge_metadata row p else p) (object_blobs db)\<rparr>"
  have "find (same_cache_key row) (object_blobs db') = Some (merge_metadata row q)"
    unfolding db' using q(1) by (simp add: find_map_key same_cache_key_def)
  with q show ?thesis by (auto simp: bound_blob_def same_declaration_def)
next
  assume "find (same_cache_key row) (object_blobs db) = None" "r = row" "db' = db\<lparr>object_blobs := object_blobs db @ [row]\<rparr>"
  with assms(2) show ?thesis by (simp add: bound_blob_def find_append same_cache_key_def same_declaration_def)
qed

lemma upsert_keeps_bound:
  assumes "upsert_blob row db = Inr (Some r, db')" "bound_blob p b db"
  shows "bound_blob p b db'"
  using upsert_Some [OF assms(1)]
proof (elim disjE exE conjE)
  fix q
  assume db': "db' = db\<lparr>object_blobs := map (\<lambda>x. if ob_id x = ob_id q then merge_metadata row x else x) (object_blobs db)\<rparr>"
  have "find (same_cache_key p) (object_blobs db')
      = map_option (\<lambda>x. if ob_id x = ob_id q then merge_metadata row x else x) (find (same_cache_key p) (object_blobs db))"
    unfolding db' by (simp add: find_map_key same_cache_key_def)
  moreover obtain x where x: "find (same_cache_key p) (object_blobs db) = Some x" "same_declaration x p" "ob_id x = b"
    using assms(2) by (auto simp: bound_blob_def)
  ultimately have "find (same_cache_key p) (object_blobs db') = Some (if ob_id x = ob_id q then merge_metadata row x else x)"
    by simp
  with x show ?thesis unfolding bound_blob_def
    by (intro exI [of _ "if ob_id x = ob_id q then merge_metadata row x else x"]) (simp add: same_declaration_def)
next
  assume "db' = db\<lparr>object_blobs := object_blobs db @ [row]\<rparr>"
  with assms(2) show ?thesis by (auto simp: bound_blob_def find_append)
qed

lemma upsert_bound:
  assumes "bound_blob row b db"
  obtains r db' where "upsert_blob row db = Inr (Some r, db')" "ob_id r = b" "ob_owner_user_id r = ob_owner_user_id row"
    "db' = db\<lparr>object_blobs := object_blobs db'\<rparr>"
proof -
  from assms obtain q where q: "find (same_cache_key row) (object_blobs db) = Some q" "same_declaration q row" "ob_id q = b"
    by (auto simp: bound_blob_def)
  show ?thesis
    by (rule that [of "merge_metadata row q"
          "db\<lparr>object_blobs := map (\<lambda>p. if ob_id p = ob_id q then merge_metadata row p else p) (object_blobs db)\<rparr>"])
      (use q in \<open>simp_all add: upsert_blob_def same_declaration_def\<close>)
qed

lemma bound_blob_cong:
  "ob_cache_key p = ob_cache_key q \<Longrightarrow> same_declaration p q \<Longrightarrow> bound_blob p b db \<Longrightarrow> bound_blob q b db"
proof -
  assume key: "ob_cache_key p = ob_cache_key q" and same: "same_declaration p q" and b: "bound_blob p b db"
  have "same_cache_key p = same_cache_key q" by (rule ext) (rule same_cache_key_row [OF key])
  with b same show ?thesis by (auto simp: bound_blob_def same_declaration_def)
qed

text \<open>One file of a plan: its registration leaves its declaration bound, keeps others bound, and a bound
  declaration registers again with the same object.\<close>

definition file_bound :: "(string \<Rightarrow> string) \<Rightarrow> CurrentUser \<Rightarrow> jsval \<Rightarrow> string \<Rightarrow> gateway_db \<Rightarrow> recorder_file \<Rightarrow> string \<Rightarrow> bool" where
  "file_bound sha user plan bucket db f b \<longleftrightarrow>
     (\<exists>entry row. planned_file plan (rf_name f) = Some entry \<and> check_blob_input (blob_input sha user plan bucket f entry) = Inr ()
        \<and> row = blob_row [] [] 0 user (blob_input sha user plan bucket f entry) \<and> bound_blob row b db)"

lemma key_of_checked:
  assumes "check_blob_input (blob_input sha user plan bucket f entry) = Inr ()"
  shows "ob_cache_key (blob_row i u n user (blob_input sha user plan bucket f entry)) \<noteq> None"
proof -
  have "1 \<le> length (fileCacheKey sha user plan entry)"
    using assms by (simp add: check_blob_input_def blob_input_def Let_def resE)
  then obtain c k where "fileCacheKey sha user plan entry = c # k" by (cases "fileCacheKey sha user plan entry") auto
  then show ?thesis by (simp add: blob_row_key blob_input_def Let_def blobCacheKey_def)
qed

lemma register_file_Inr:
  assumes "register_file sha newIds uuid now user plan bucket f db = (Inr b, db')"
  shows "file_bound sha user plan bucket db' f (bl_id b)"
    "\<And>g c. file_bound sha user plan bucket db g c \<Longrightarrow> file_bound sha user plan bucket db' g c"
proof -
  from assms obtain entry where entry: "planned_file plan (rf_name f) = Some entry"
    and reg: "registerObjectBlob (newIds (rf_role f)) uuid now user (blob_input sha user plan bucket f entry) db = (Inr b, db')"
    by (auto simp: register_file_def split: option.splits)
  obtain row where ok: "check_blob_input (blob_input sha user plan bucket f entry) = Inr ()" and b: "b = mapObjectBlob row"
    and up: "upsert_blob (blob_row (newIds (rf_role f)) uuid now user (blob_input sha user plan bucket f entry)) db = Inr (Some row, db')"
    by (rule registerObjectBlob_Inr [OF reg])
  have "bound_blob (blob_row (newIds (rf_role f)) uuid now user (blob_input sha user plan bucket f entry)) (ob_id row) db'"
    by (rule upsert_binds [OF up key_of_checked [OF ok]])
  then have "bound_blob (blob_row [] [] 0 user (blob_input sha user plan bucket f entry)) (ob_id row) db'"
    by (rule bound_blob_cong [rotated 2]) (simp_all add: blob_row_key same_declaration_rows)
  with entry ok show "file_bound sha user plan bucket db' f (bl_id b)" by (auto simp: file_bound_def b mapObjectBlob_def)
  show "file_bound sha user plan bucket db' g c" if "file_bound sha user plan bucket db g c" for g c
    using that upsert_keeps_bound [OF up] unfolding file_bound_def by blast
qed

lemma register_file_bound:
  assumes "file_bound sha user plan bucket db f b"
  obtains blob db' where "register_file sha newIds uuid now user plan bucket f db = (Inr blob, db')" "bl_id blob = b"
    "db' = db\<lparr>object_blobs := object_blobs db'\<rparr>"
    "\<And>g c. file_bound sha user plan bucket db g c \<Longrightarrow> file_bound sha user plan bucket db' g c"
proof -
  from assms obtain entry where entry: "planned_file plan (rf_name f) = Some entry"
    and ok: "check_blob_input (blob_input sha user plan bucket f entry) = Inr ()"
    and bound: "bound_blob (blob_row [] [] 0 user (blob_input sha user plan bucket f entry)) b db"
    by (auto simp: file_bound_def)
  let ?row = "blob_row (newIds (rf_role f)) uuid now user (blob_input sha user plan bucket f entry)"
  have "bound_blob ?row b db" by (rule bound_blob_cong [OF _ _ bound]) (simp_all add: blob_row_key same_declaration_rows)
  then obtain r db' where up: "upsert_blob ?row db = Inr (Some r, db')" "ob_id r = b" "ob_owner_user_id r = ob_owner_user_id ?row"
    "db' = db\<lparr>object_blobs := object_blobs db'\<rparr>" by (rule upsert_bound)
  have run: "register_file sha newIds uuid now user plan bucket f db = (Inr (mapObjectBlob r), db')"
    using entry ok up(1,3)
    by (simp add: register_file_def registerObjectBlob_def tx_state_run tx_bind_run Let_def mapObjectBlob_def blob_row_def)
  show ?thesis
    by (rule that [OF run _ up(4) register_file_Inr(2) [OF run]]) (simp_all add: mapObjectBlob_def up(2))
qed

lemma register_files_Inr:
  "tx_mapM (register_file sha newIds uuid now user plan bucket) fs db = (Inr blobs, db') \<Longrightarrow>
     list_all2 (\<lambda>f b. file_bound sha user plan bucket db' f (bl_id b)) fs blobs
     \<and> (\<forall>g c. file_bound sha user plan bucket db g c \<longrightarrow> file_bound sha user plan bucket db' g c)"
proof (induction fs arbitrary: db blobs)
  case Nil
  then show ?case by simp
next
  case (Cons f fs)
  then obtain b u bs where f: "register_file sha newIds uuid now user plan bucket f db = (Inr b, u)"
    and fs: "tx_mapM (register_file sha newIds uuid now user plan bucket) fs u = (Inr bs, db')" and blobs: "blobs = b # bs"
    by (auto simp: txE)
  from Cons.IH [OF fs] register_file_Inr [OF f] show ?case by (auto simp: blobs)
qed

lemma register_files_bound:
  assumes "list_all2 (\<lambda>f b. file_bound sha user plan bucket db f b) fs bs"
  shows "\<exists>blobs db'. tx_mapM (register_file sha newIds uuid now user plan bucket) fs db = (Inr blobs, db')
     \<and> map bl_id blobs = bs \<and> db' = db\<lparr>object_blobs := object_blobs db'\<rparr>"
  using assms
proof (induction fs arbitrary: db bs)
  case Nil
  then show ?case by simp
next
  case (Cons f fs)
  then obtain b bs' where bs: "bs = b # bs'" and f: "file_bound sha user plan bucket db f b"
    and fs: "list_all2 (\<lambda>f b. file_bound sha user plan bucket db f b) fs bs'" by (auto simp: list_all2_Cons1)
  obtain blob u where run: "register_file sha newIds uuid now user plan bucket f db = (Inr blob, u)" "bl_id blob = b"
    "u = db\<lparr>object_blobs := object_blobs u\<rparr>"
    and keep: "\<And>g c. file_bound sha user plan bucket db g c \<Longrightarrow> file_bound sha user plan bucket u g c"
    by (rule register_file_bound [OF f]) blast
  have "list_all2 (\<lambda>f b. file_bound sha user plan bucket u f b) fs bs'"
    using fs by (rule list_all2_mono) (rule keep)
  from Cons.IH [OF this] obtain blobs db' where rest: "tx_mapM (register_file sha newIds uuid now user plan bucket) fs u = (Inr blobs, db')"
    "map bl_id blobs = bs'" "db' = u\<lparr>object_blobs := object_blobs db'\<rparr>" by blast
  have "db' = db\<lparr>object_blobs := object_blobs db'\<rparr>"
    using rest(3) run(3) by (metis gateway_db.surjective gateway_db.update_convs(4))
  with run rest bs show ?case by (auto simp: tx_bind_run)
qed


lemma stage_Inr:
  assumes "stageRecorderArchive sha newIds uuid newId now user planValue bucket db = (Inr (m, blobs), db')"
  obtains s row where "validateRecorderUploadPlan planValue = Inr planValue" "transactional db" "commit_accepted db"
    and "tx_mapM (register_file sha newIds uuid now user planValue bucket) FILES db = (Inr blobs, s)"
    and "insert_materialization (materialization_row newId now user planValue (map bl_id blobs)) s = Inr (row, db')"
    and "m = mapRow row" "row_blob_ids row = map bl_id blobs" "stableJson (ma_upload_plan row) = stableJson planValue"
proof -
  from assms obtain plan s row where plan: "validateRecorderUploadPlan planValue = Inr plan" and tr: "transactional db" "commit_accepted db"
    and files: "tx_mapM (register_file sha newIds uuid now user plan bucket) FILES db = (Inr blobs, s)"
    and ins: "insert_materialization (materialization_row newId now user plan (map bl_id blobs)) s = Inr (row, db')"
    and m: "m = mapRow row" and ids: "row_blob_ids row = map bl_id blobs" and same: "stableJson (ma_upload_plan row) = stableJson plan"
    by (auto simp: stageRecorderArchive_def txE Let_def split: if_splits)
  have "plan = planValue" by (rule validate_Inr(1) [OF plan])
  with plan tr files ins m ids same that show ?thesis by blast
qed

lemma insert_materialization_Inr:
  assumes "insert_materialization row s = Inr (r, db')"
  shows "distinct (row_blob_ids row)" "object_blobs db' = object_blobs s" "transactional db' = transactional s" "commit_accepted db' = commit_accepted s"
    "find (same_artifact (ma_owner_user_id row) (ma_artifact_id row)) (recorder_archive_materializations db') = Some r"
  using assms
  by (auto simp: insert_materialization_def resE find_append same_artifact_def split: option.splits)

lemma insert_materialization_bound:
  assumes "distinct (row_blob_ids row)"
    and "find (same_artifact (ma_owner_user_id row) (ma_artifact_id row)) (recorder_archive_materializations s) = Some r"
  shows "insert_materialization row s = Inr (r, s)"
  using assms by (simp add: insert_materialization_def)

lemma row_ids_materialization [simp]:
  "length ids = 5 \<Longrightarrow> row_blob_ids (materialization_row newId now user plan ids) = ids"
  by (auto simp: row_blob_ids_def materialization_row_def intro!: nth_equalityI simp: less_Suc_eq_0_disj numeral_eq_Suc)

lemma register_files_frame:
  "tx_mapM (register_file sha newIds uuid now user plan bucket) fs db = (Inr blobs, db') \<Longrightarrow>
     db' = db\<lparr>object_blobs := object_blobs db'\<rparr>"
proof (induction fs arbitrary: db blobs)
  case Nil
  then show ?case by simp
next
  case (Cons f fs)
  then obtain b u bs where f: "register_file sha newIds uuid now user plan bucket f db = (Inr b, u)"
    and fs: "tx_mapM (register_file sha newIds uuid now user plan bucket) fs u = (Inr bs, db')" by (auto simp: txE)
  from f have "u = db\<lparr>object_blobs := object_blobs u\<rparr>"
    by (auto simp: register_file_def split: option.splits elim!: registerObjectBlob_Inr dest!: upsert_Some)
  with Cons.IH [OF fs] show ?case by (metis gateway_db.surjective gateway_db.update_convs(4))
qed

text \<open>
  Staging the same plan again is idempotent: whatever identifiers are drawn the second time, the call
  succeeds, returns the same materialization and the same five objects, and adds nothing to the
  materializations.
\<close>

theorem recorder_staging_idempotent:
  assumes "stageRecorderArchive sha newIds uuid newId now user planValue bucket db = (Inr (m, blobs), db')"
  shows "\<exists>blobs' db''. stageRecorderArchive sha newIds' uuid' newId' now' user planValue bucket db' = (Inr (m, blobs'), db'')
    \<and> map bl_id blobs' = map bl_id blobs \<and> recorder_archive_materializations db'' = recorder_archive_materializations db'"
proof -
  obtain s row where plan: "validateRecorderUploadPlan planValue = Inr planValue" and tr: "transactional db" "commit_accepted db"
    and files: "tx_mapM (register_file sha newIds uuid now user planValue bucket) FILES db = (Inr blobs, s)"
    and ins: "insert_materialization (materialization_row newId now user planValue (map bl_id blobs)) s = Inr (row, db')"
    and m: "m = mapRow row" and ids: "row_blob_ids row = map bl_id blobs"
    and same: "stableJson (ma_upload_plan row) = stableJson planValue"
    by (rule stage_Inr [OF assms])
  note ins' = insert_materialization_Inr [OF ins]
  have len: "length blobs = 5" using tx_mapM_Inr [OF files] by (simp add: FILES_facts)
  have "file_bound sha user planValue bucket db' = file_bound sha user planValue bucket s"
    using ins'(2) by (simp add: file_bound_def bound_blob_def fun_eq_iff)
  then have "list_all2 (file_bound sha user planValue bucket db') FILES (map bl_id blobs)"
    using register_files_Inr [OF files] by (simp add: list_all2_map2)
  from register_files_bound [OF this, of newIds' uuid' now'] obtain blobs' u where
    again: "tx_mapM (register_file sha newIds' uuid' now' user planValue bucket) FILES db' = (Inr blobs', u)"
    and ids': "map bl_id blobs' = map bl_id blobs" and u: "u = db'\<lparr>object_blobs := object_blobs u\<rparr>" by blast
  let ?row' = "materialization_row newId' now' user planValue (map bl_id blobs')"
  have len': "length blobs' = 5" using ids' len by (metis length_map)
  have row': "row_blob_ids ?row' = map bl_id blobs'" using len' by simp
  have "recorder_archive_materializations u = recorder_archive_materializations db'" using u by (metis gateway_db.select_convs(22) gateway_db.surjective gateway_db.update_convs(4))
  then have "insert_materialization ?row' u = Inr (row, u)"
    using ins'(1,5) len len' ids' by (intro insert_materialization_bound) (simp_all add: materialization_row_def row_blob_ids_def)
  moreover have "transactional db'" "commit_accepted db'"
    using ins'(3,4) tr register_files_frame [OF files] by (metis gateway_db.select_convs(1,2) gateway_db.surjective gateway_db.update_convs(4))+
  ultimately have "stageRecorderArchive sha newIds' uuid' newId' now' user planValue bucket db' = (Inr (m, blobs'), u)"
    using plan again ids same m ids'
    by (simp add: stageRecorderArchive_def withGatewayTransaction_live tx_bind_run tx_state_run Let_def)
  with ids' \<open>recorder_archive_materializations u = recorder_archive_materializations db'\<close> show ?thesis by blast
qed

end
