(* ===== verification/Admission_Claims.thy ===== *)
theory Admission_Claims
  imports Recorder_Claims
begin

text \<open>
  Properties of the admission of a recorder archive: an admission is backed by a verified archive and an
  admitted model in the very state it is written to, and repeating the call changes nothing.
\<close>

section \<open>Streaming\<close>

lemma getOwnedObjectBlob_Inr:
  "getOwnedObjectBlob user b s = (Inr found, t) \<longleftrightarrow> t = s \<and> found = map_option mapObjectBlob (owned_blob b (user_id user) s)"
  by (auto simp: getOwnedObjectBlob_def txE)

text \<open>What the loop over the five files leaves: distinct objects, each private, verified, and exactly as
  the plan declares it.\<close>

definition ready_for :: "gateway_db \<Rightarrow> CurrentUser \<Rightarrow> RecorderArchiveMaterialization \<Rightarrow> recorder_file \<Rightarrow> ObjectBlobRecord \<Rightarrow> bool" where
  "ready_for db user m f blob \<longleftrightarrow>
     map_option mapObjectBlob (owned_blob (rowBlobIds m (rf_role f)) (user_id user) db) = Some blob
     \<and> (\<exists>planned. planned_file (rm_uploadPlan m) (rf_name f) = Some planned \<and> blob_ready blob planned)"

lemma gather_blobs_Inr:
  "gather_blobs user m fs observed db = (Inr blobs, t) \<Longrightarrow>
     t = db \<and> list_all2 (ready_for db user m) fs blobs
     \<and> distinct (map bl_id blobs) \<and> set (map bl_id blobs) \<inter> set observed = {}"
proof (induction fs arbitrary: observed blobs)
  case Nil
  then show ?case by simp
next
  case (Cons f fs)
  from Cons.prems obtain blob planned rest where
    blob: "map_option mapObjectBlob (owned_blob (rowBlobIds m (rf_role f)) (user_id user) db) = Some blob"
      "planned_file (rm_uploadPlan m) (rf_name f) = Some planned"
    and ok: "bl_id blob \<notin> set observed" "blob_ready blob planned"
    and rest: "gather_blobs user m fs (bl_id blob # observed) db = (Inr rest, t)" and blobs: "blobs = blob # rest"
    by (auto simp: txE getOwnedObjectBlob_Inr split: option.splits if_splits)
  have "ready_for db user m f blob" unfolding ready_for_def using blob ok by blast
  with Cons.IH [OF rest] ok show ?case by (auto simp: blobs)
qed

lemma validateReport_Inr:
  "validateReport v plan blobs = Inr r \<Longrightarrow> r = v \<and> report_bound v plan blobs"
  by (auto simp: validateReport_def resE)

lemma streamPrivateArchive_Inr:
  assumes "streamPrivateArchive user m stream runVerifier db = (Inr v, t)"
  obtains blobs directory where "t = db" "list_all2 (ready_for db user m) FILES blobs" "distinct (map bl_id blobs)"
    "mapE (stream_file stream (rm_uploadPlan m)) (zip FILES blobs) = Inr directory"
    "vr_exitCode (runVerifier directory) = 0" "v = vr_report (runVerifier directory)"
    "report_bound v (rm_uploadPlan m) blobs"
proof -
  from assms obtain blobs directory u where g: "gather_blobs user m FILES [] db = (Inr blobs, u)" and "t = u"
    "mapE (stream_file stream (rm_uploadPlan m)) (zip FILES blobs) = Inr directory"
    "vr_exitCode (runVerifier directory) = 0"
    "validateReport (vr_report (runVerifier directory)) (rm_uploadPlan m) blobs = Inr v"
    by (auto simp: streamPrivateArchive_def txE Let_def split: if_splits)
  with gather_blobs_Inr [OF g] validateReport_Inr that show ?thesis by blast
qed

section \<open>A new admission\<close>

lemma requireAdmittedModelProof_Inr:
  "requireAdmittedModelProof found c l = Inr () \<longleftrightarrow> (\<exists>model. found = Some model \<and> model_proof model c l)"
  by (auto simp: requireAdmittedModelProof_def resE split: option.splits)

lemma admission_reads:
  "getRecorderArchive user mid s = (Inr found, t) \<longleftrightarrow> t = s \<and> found = map_option mapRow (owned_materialization mid (user_id user) s)"
  "getRecorderArchiveAdmission user mid s = (Inr adm, t) \<longleftrightarrow> t = s \<and> adm = map_option mapAdmission (admission_of mid (user_id user) s)"
  by (auto simp: getRecorderArchive_def getRecorderArchiveAdmission_def)

lemma admit_commit_new:
  assumes "admit_commit logId admissionId now user mid modelId m v db = (Inr a, db')"
    and "admission_of mid (user_id user) db = None"
  shows "materialized_row mid (user_id user) db
    \<and> (\<exists>model. model_of modelId (user_id user) db = Some model
         \<and> model_proof model (getProp v ''contractHash'') (getProp v ''lockfileHash''))
    \<and> a = mapAdmission (admission_row logId admissionId now user mid modelId v)
    \<and> db' = db\<lparr>telemetry_logs := telemetry_logs db @ [telemetry_row logId admissionId user mid modelId m v],
         recorder_archive_admissions := recorder_archive_admissions db
           @ [admission_row logId admissionId now user mid modelId v]\<rparr>"
  using assms
  by (auto simp: admit_commit_def txE resE admission_reads requireAdmittedModelProof_Inr Let_def
      insert_telemetry_def insert_admission_def split: if_splits option.splits)

lemma admitRecorderArchive_new:
  assumes "admitRecorderArchive env logId admissionId now user mid modelId stream runVerifier db = (Inr a, db')"
    and "admission_of mid (user_id user) db = None"
  obtains staged v where "owned_materialization mid (user_id user) db = Some staged" "ma_status staged = Materialized"
    "streamPrivateArchive user (mapRow staged) stream runVerifier db = (Inr v, db)"
    "admit_commit logId admissionId now user mid modelId (mapRow staged) v (env db) = (Inr a, db')"
proof -
  from assms obtain staged v t where "owned_materialization mid (user_id user) db = Some staged" "ma_status staged = Materialized"
    and s: "streamPrivateArchive user (mapRow staged) stream runVerifier db = (Inr v, t)"
    and "admit_commit logId admissionId now user mid modelId (mapRow staged) v (env t) = (Inr a, db')"
    by (auto simp: admitRecorderArchive_def txE admission_reads mapRow_def split: if_splits option.splits)
  moreover have "t = db" by (rule streamPrivateArchive_Inr [OF s])
  ultimately show ?thesis using that by blast
qed

text \<open>
  C40. A new admission of a recorder archive: whatever other requests do while the archive is verified,
  in the state the admission is written to, the archive is still materialized with verified objects and
  the model is admitted with a validator report for the verified contract and lockfile hashes; the
  verification report matches the staged plan and the checksums of five distinct private verified
  objects; exactly one private telemetry log and one admission are added and nothing else changes.
\<close>

theorem admission_backed_by_verified_archive:
  assumes "admitRecorderArchive env logId admissionId now user mid modelId stream runVerifier db = (Inr a, db')"
    and "admission_of mid (user_id user) db = None" "admission_of mid (user_id user) (env db) = None"
  shows "materialized_row mid (user_id user) (env db)
    \<and> (\<exists>staged v blobs model.
         owned_materialization mid (user_id user) db = Some staged
         \<and> list_all2 (ready_for db user (mapRow staged)) FILES blobs \<and> distinct (map bl_id blobs)
         \<and> report_bound v (ma_upload_plan staged) blobs
         \<and> model_of modelId (user_id user) (env db) = Some model
         \<and> model_proof model (getProp v ''contractHash'') (getProp v ''lockfileHash'')
         \<and> a = mapAdmission (admission_row logId admissionId now user mid modelId v)
         \<and> db' = (env db)\<lparr>telemetry_logs := telemetry_logs (env db)
                @ [telemetry_row logId admissionId user mid modelId (mapRow staged) v],
              recorder_archive_admissions := recorder_archive_admissions (env db)
                @ [admission_row logId admissionId now user mid modelId v]\<rparr>)"
proof -
  obtain staged v where st: "owned_materialization mid (user_id user) db = Some staged"
    and stream: "streamPrivateArchive user (mapRow staged) stream runVerifier db = (Inr v, db)"
    and commit: "admit_commit logId admissionId now user mid modelId (mapRow staged) v (env db) = (Inr a, db')"
    by (rule admitRecorderArchive_new [OF assms(1,2)])
  obtain blobs where "list_all2 (ready_for db user (mapRow staged)) FILES blobs" "distinct (map bl_id blobs)"
    "report_bound v (rm_uploadPlan (mapRow staged)) blobs"
    by (rule streamPrivateArchive_Inr [OF stream])
  moreover have "rm_uploadPlan (mapRow staged) = ma_upload_plan staged" by (simp add: mapRow_def)
  ultimately show ?thesis using st admit_commit_new [OF commit assms(3)] by metis
qed

section \<open>Repeating an admission\<close>

lemma find_app_None: "find P xs = None \<Longrightarrow> find P (xs @ ys) = find P ys"
  by (induction xs) auto

lemma materialized_unique:
  assumes "materialized_row mid userId db" "distinct (map ma_id (recorder_archive_materializations db))"
  obtains r where "owned_materialization mid userId db = Some r" "ma_status r = Materialized" "ma_gateway_object_integrity_verified r"
proof -
  from assms(1) obtain r where r: "r \<in> set (recorder_archive_materializations db)" "ma_id r = mid" "ma_owner_user_id r = userId"
    "ma_status r = Materialized" "ma_gateway_object_integrity_verified r" by (auto simp: materialized_row_def list_ex_iff)
  then obtain q where q: "owned_materialization mid userId db = Some q"
    by (cases "owned_materialization mid userId db") (auto simp: owned_materialization_def find_None_iff)
  then have "q \<in> set (recorder_archive_materializations db)" "ma_id q = mid"
    by (auto simp: owned_materialization_def dest: find_SomeD)
  with r assms(2) have "q = r" by (metis (mono_tags, lifting) distinct_map inj_on_def)
  with q r that show ?thesis by blast
qed

text \<open>The state a successful call leaves: the archive is materialized and the returned admission is its
  admission.\<close>

definition admitted_state :: "CurrentUser \<Rightarrow> string \<Rightarrow> string \<Rightarrow> RecorderArchiveAdmission \<Rightarrow> gateway_db \<Rightarrow> bool" where
  "admitted_state user mid modelId a db \<longleftrightarrow>
     map_option mapAdmission (admission_of mid (user_id user) db) = Some a \<and> ra_modelId a = modelId
     \<and> (\<exists>r. owned_materialization mid (user_id user) db = Some r \<and> ma_status r = Materialized
          \<and> ma_gateway_object_integrity_verified r)"

lemma admit_commit_admitted:
  assumes run: "admit_commit logId admissionId now user mid modelId m v db = (Inr a, db')"
    and ids: "distinct (map ma_id (recorder_archive_materializations db'))"
  shows "admitted_state user mid modelId a db'"
proof (cases "admission_of mid (user_id user) db")
  case None
  let ?row = "admission_row logId admissionId now user mid modelId v"
  from admit_commit_new [OF run None] have mat: "materialized_row mid (user_id user) db" and a: "a = mapAdmission ?row"
    and db': "recorder_archive_admissions db' = recorder_archive_admissions db @ [?row]"
      "recorder_archive_materializations db' = recorder_archive_materializations db" by auto
  have "admission_of mid (user_id user) db' = Some ?row"
    using None by (simp add: admission_of_def db' find_app_None) (simp add: admission_row_def)
  moreover have "materialized_row mid (user_id user) db'" using mat by (simp add: materialized_row_def db')
  then obtain q where "owned_materialization mid (user_id user) db' = Some q" "ma_status q = Materialized"
    "ma_gateway_object_integrity_verified q" using ids by (rule materialized_unique)
  ultimately show ?thesis
    unfolding admitted_state_def by (simp add: a) (simp add: mapAdmission_def admission_row_def)
next
  case (Some r)
  with run have "materialized_row mid (user_id user) db" "db' = db" "a = mapAdmission r" "ra_modelId a = modelId"
    by (auto simp: admit_commit_def txE admission_reads same_model_or_409_def split: if_splits)
  with Some ids show ?thesis by (auto simp: admitted_state_def elim: materialized_unique)
qed

lemma admitRecorderArchive_existing:
  assumes "owned_materialization mid (user_id user) db = Some q" "admission_of mid (user_id user) db = Some r"
  shows "admitRecorderArchive env logId admissionId now user mid modelId stream runVerifier db
    = (if ma_status q \<noteq> Materialized \<or> \<not> ma_gateway_object_integrity_verified q
       then (Inl (HttpError 409 ''recorder archive must complete object materialization before admission''), db)
       else same_model_or_409 modelId (mapAdmission r) db)"
  using assms
  by (simp add: admitRecorderArchive_def getRecorderArchive_def getRecorderArchiveAdmission_def tx_bind_run
      mapRow_def tx_throw_def)

lemma admitRecorderArchive_admitted:
  assumes run: "admitRecorderArchive env logId admissionId now user mid modelId stream runVerifier db = (Inr a, db')"
    and ids: "distinct (map ma_id (recorder_archive_materializations db'))"
  shows "admitted_state user mid modelId a db'"
proof (cases "admission_of mid (user_id user) db")
  case None
  obtain staged v where "admit_commit logId admissionId now user mid modelId (mapRow staged) v (env db) = (Inr a, db')"
    by (rule admitRecorderArchive_new [OF run None])
  then show ?thesis using ids by (rule admit_commit_admitted)
next
  case (Some r)
  from run obtain q where q: "owned_materialization mid (user_id user) db = Some q"
    by (cases "owned_materialization mid (user_id user) db")
      (simp_all add: admitRecorderArchive_def getRecorderArchive_def tx_bind_run tx_throw_def)
  from run have "ma_status q = Materialized \<and> ma_gateway_object_integrity_verified q
      \<and> same_model_or_409 modelId (mapAdmission r) db = (Inr a, db')"
    unfolding admitRecorderArchive_existing [OF q Some] by (simp split: if_splits)
  with q Some show ?thesis by (auto simp: admitted_state_def same_model_or_409_def split: if_splits)
qed

text \<open>
  An archive is admitted once. After a successful admission, repeating the call for the same model
  returns the same admission and changes nothing, and a call for any other model is refused with status
  409 and changes nothing, whatever the object store, the verifier and other requests would have
  answered. Identifiers of materializations are unique, as the primary key has it.
\<close>

theorem admission_is_final:
  assumes "admitRecorderArchive env logId admissionId now user mid modelId stream runVerifier db = (Inr a, db')"
    and "distinct (map ma_id (recorder_archive_materializations db'))"
  shows "admitRecorderArchive env' logId' admissionId' now' user mid modelId' stream' runVerifier' db'
    = (if modelId' = modelId then Inr a
       else Inl (HttpError 409 ''recorder archive is already admitted for a different model''), db')"
proof -
  from admitRecorderArchive_admitted [OF assms] obtain r ad where
    "owned_materialization mid (user_id user) db' = Some r" "ma_status r = Materialized" "ma_gateway_object_integrity_verified r"
    "admission_of mid (user_id user) db' = Some ad" "a = mapAdmission ad" "ra_modelId a = modelId"
    by (auto simp: admitted_state_def)
  then show ?thesis
    by (simp add: admitRecorderArchive_existing same_model_or_409_def tx_throw_def)
qed

end
