(* ===== verification/Recorder_Samples.thy ===== *)
theory Recorder_Samples
  imports Admission_Claims
begin

text \<open>
  A concrete recording: its plan, its five objects, manifest, receipt and verification report, taken
  through staging, completion and admission, for the instances of the properties.
\<close>

section \<open>The recording\<close>

definition hash_text :: "char \<Rightarrow> string" where
  "hash_text c = replicate 64 c"

definition sample_hash :: "string \<Rightarrow> string" where
  "sample_hash s = take 100 (rev s)"

definition sample_file :: "recorder_file \<Rightarrow> char \<Rightarrow> jsval" where
  "sample_file f c = JObj [(''name'', JStr (rf_name f)), (''contentType'', JStr (rf_contentType f)),
     (''byteSize'', JNum (IntN 10)), (''sha256'', JStr (hash_text c))]"

definition sample_plan :: jsval where
  "sample_plan = JObj
    [(''schemaVersion'', JStr RECORDER_UPLOAD_PLAN_SCHEMA_VERSION), (''archiveSchemaVersion'', JStr RECORDER_ARCHIVE_SCHEMA_VERSION),
     (''inspectionSchemaVersion'', JStr RECORDER_INSPECTION_SCHEMA_VERSION), (''artifactId'', JStr ''rec-1''),
     (''referenceRigId'', JStr ''ref_quad_kakute-h7-source-one-5in''), (''contractHash'', JStr (hash_text (CHR ''c''))),
     (''lockfileHash'', JStr (hash_text (CHR ''d''))), (''sourcePortSha256'', JStr (hash_text (CHR ''e''))),
     (''sampleRateHz'', JNum (IntN 50)), (''startedAtUnixMs'', JNum (IntN 1000)), (''stoppedAtUnixMs'', JNum (IntN 3000)),
     (''frameCount'', JNum (IntN 100)), (''durationS'', JNum (IntN 2)), (''captureMaturity'', JStr ''local-serial-integration''),
     (''aggregateByteSize'', JNum (IntN 50)),
     (''files'', JArr (map2 sample_file FILES ''12345'')),
     (''localIntegrityVerified'', JBool True), (''captureComplete'', JBool True), (''captureConsentConfirmed'', JBool True),
     (''userOwned'', JBool True), (''sharingAuthorized'', JBool False), (''trainingReuseAuthorized'', JBool False),
     (''recordedDeviceAttested'', JBool False), (''deviceIdentityVerified'', JBool False), (''fieldSessionVerified'', JBool False),
     (''noAutoArm'', JBool True)]"

definition stage_sample :: "string \<Rightarrow> gateway_db \<Rightarrow> (gw_error + (RecorderArchiveMaterialization \<times> ObjectBlobRecord list)) \<times> gateway_db" where
  "stage_sample newId db = stageRecorderArchive sample_hash role_text ''uuid'' newId 5 blob_user sample_plan ''bucket'' db"

theorem recorder_plan_sound_witness:
  "length (plan_files sample_plan) = 5 \<and> sum_list (map file_size (plan_files sample_plan)) \<le> 512 * 1024 * 1024"
proof -
  have "validateRecorderUploadPlan sample_plan = Inr sample_plan" by code_simp
  from recorder_plan_sound [OF this] show ?thesis by blast
qed

definition staged_db :: gateway_db where
  "staged_db = snd (stage_sample ''ram-1'' empty_db)"

lemma staged_ok: "isOk (fst (stage_sample ''ram-1'' empty_db))"
  by code_simp

theorem recorder_staging_idempotent_witness:
  "\<exists>m blobs' db''. stage_sample ''ram-2'' staged_db = (Inr (m, blobs'), db'')
     \<and> recorder_archive_materializations db'' = recorder_archive_materializations staged_db"
proof -
  obtain m blobs where "stage_sample ''ram-1'' empty_db = (Inr (m, blobs), staged_db)"
    using isOk_run [OF staged_ok] unfolding staged_db_def by fast
  from recorder_staging_idempotent [OF this [unfolded stage_sample_def], of role_text "''uuid''" "''ram-2''" 5]
  show ?thesis unfolding stage_sample_def by blast
qed

section \<open>The objects, the metadata and the verifier\<close>

definition sample_blob :: "UploadStatus \<Rightarrow> recorder_file \<Rightarrow> char \<Rightarrow> ObjectBlobRow" where
  "sample_blob st f c =
     \<lparr>ob_id = role_text (rf_role f), ob_owner_user_id = Some ''u1'', ob_visibility = VPrivate, ob_cache_key = None,
      ob_bucket = ''bucket'', ob_object_key = role_text (rf_role f), ob_content_type = Some (rf_contentType f),
      ob_byte_size = Some 10, ob_sha256 = Some (hash_text c), ob_upload_status = st, ob_verified_at = None,
      ob_verification_error_code = None, ob_metadata = JObj [], ob_created_at = 5\<rparr>"

definition sample_row :: MaterializationRow where
  "sample_row = materialization_row ''ram-1'' 5 blob_user sample_plan (map (\<lambda>f. role_text (rf_role f)) FILES)"

definition waiting_db :: gateway_db where
  "waiting_db = empty_db\<lparr>object_blobs := map2 (sample_blob UStaged) FILES ''12345'',
     recorder_archive_materializations := [sample_row]\<rparr>"

definition sample_inspect :: inspect_adapter where
  "sample_inspect bucket key =
     (case find (\<lambda>(f, c). role_text (rf_role f) = key) (zip FILES ''12345'') of
        None \<Rightarrow> Inl (HttpError 409 ''object missing'')
      | Some (f, c) \<Rightarrow> Inr \<lparr>si_byteSize = 10, si_contentType = Some (rf_contentType f), si_sha256 = Some (hash_text c)\<rparr>)"

definition sample_read :: read_adapter where
  "sample_read blob cap = Inr (if bl_id blob = ''manifest'' then [1, 10] else [2, 10])"

definition plan_part :: "string list \<Rightarrow> (string \<times> jsval) list" where
  "plan_part names = map (\<lambda>n. (n, getProp sample_plan n)) names"

definition sample_manifest :: jsval where
  "sample_manifest = JObj
    ([(''schemaVersion'', JStr RECORDER_ARCHIVE_SCHEMA_VERSION), (''replaySchemaVersion'', JStr REPLAY_SCHEMA_VERSION),
      (''frameSchemaVersion'', JStr RECORDER_FRAME_SCHEMA_VERSION), (''receiptSchemaVersion'', JStr RECORDER_RECEIPT_SCHEMA_VERSION)]
     @ plan_part [''artifactId'', ''referenceRigId'', ''sampleRateHz'', ''startedAtUnixMs'', ''contractHash'', ''lockfileHash'',
         ''sourcePortSha256'', ''captureMaturity'', ''recordedDeviceAttested'', ''captureConsentConfirmed'', ''userOwned'',
         ''sharingAuthorized'', ''trainingReuseAuthorized'', ''noAutoArm'']
     @ [(''environment'', JObj []), (''seed'', JNum (IntN 7)), (''sourceKind'', JStr ''serial-jsonl''),
        (''sourceBaud'', JNum (IntN 115200)), (''frameFile'', JStr (rf_name (FILES ! 1))), (''indexFile'', JStr (rf_name (FILES ! 2))),
        (''replayFile'', JStr (rf_name (FILES ! 3))), (''receiptFile'', JStr (rf_name (FILES ! 4)))])"

definition file_hashes :: "(string \<times> jsval) list" where
  "file_hashes = [(''frameFileSha256'', JStr (hash_text (CHR ''2''))), (''indexFileSha256'', JStr (hash_text (CHR ''3''))),
     (''replayFileSha256'', JStr (hash_text (CHR ''4'')))]"

definition sample_receipt :: jsval where
  "sample_receipt = JObj
    ([(''schemaVersion'', JStr RECORDER_RECEIPT_SCHEMA_VERSION), (''archiveSchemaVersion'', JStr RECORDER_ARCHIVE_SCHEMA_VERSION),
      (''replaySchemaVersion'', JStr REPLAY_SCHEMA_VERSION), (''frameSchemaVersion'', JStr RECORDER_FRAME_SCHEMA_VERSION)]
     @ plan_part [''artifactId'', ''referenceRigId'', ''contractHash'', ''lockfileHash'', ''startedAtUnixMs'', ''stoppedAtUnixMs'',
         ''frameCount'', ''durationS'', ''sourcePortSha256'', ''captureComplete'', ''captureMaturity'', ''captureConsentConfirmed'',
         ''recordedDeviceAttested'', ''userOwned'', ''sharingAuthorized'', ''trainingReuseAuthorized'', ''noAutoArm'']
     @ file_hashes)"

definition sample_decode :: "nat list \<Rightarrow> jsval option" where
  "sample_decode bytes = Some (if hd bytes = 1 then sample_manifest else sample_receipt)"

definition complete_sample :: "(gw_error + RecorderArchiveMaterialization) \<times> gateway_db" where
  "complete_sample = completeRecorderArchive (\<lambda>_ db. db) 9 blob_user ''ram-1'' sample_inspect sample_read sample_decode waiting_db"

lemma complete_sample_ok: "isOk (fst complete_sample)"
  by code_simp


section \<open>The admission\<close>

definition sample_report :: jsval where
  "sample_report = JObj
    ([(''schemaVersion'', JStr RECORDER_VERIFICATION_SCHEMA_VERSION), (''archiveSchemaVersion'', JStr RECORDER_ARCHIVE_SCHEMA_VERSION),
      (''replaySchemaVersion'', JStr REPLAY_SCHEMA_VERSION), (''receiptSchemaVersion'', JStr RECORDER_RECEIPT_SCHEMA_VERSION)]
     @ plan_part plan_fields_of_report @ file_hashes
     @ [(''captureMaturity'', JStr ''local-serial-integration''), (''archiveSemanticsVerified'', JBool True)]
     @ plan_part [''captureComplete'', ''captureConsentConfirmed'', ''userOwned'', ''sharingAuthorized'', ''trainingReuseAuthorized'',
         ''recordedDeviceAttested'', ''deviceIdentityVerified'', ''fieldSessionVerified'', ''noAutoArm''])"

definition sample_model :: ModelRow where
  "sample_model = \<lparr>mr_id = ''m1'', mr_owner_user_id = Some ''u1'', mr_status = ''admitted'', mr_contract_hash = hash_text (CHR ''c''),
     mr_validator_report = JObj [(''verdict'', JStr ''admitted''), (''contractHash'', JStr (hash_text (CHR ''c''))),
       (''lockfileHash'', JStr (hash_text (CHR ''d'')))], mr_contract = JObj [], mr_source_artifact_id = None,
     mr_visibility = VPrivate, mr_name = ''m'', mr_archetype = None, mr_lineage = JObj [], mr_created_at = 1, mr_updated_at = 1\<rparr>"

definition ready_db :: gateway_db where
  "ready_db = empty_db\<lparr>object_blobs := map2 (sample_blob UComplete) FILES ''12345'',
     recorder_archive_materializations := [mark_materialized 9 sample_row], model_registry := [sample_model]\<rparr>"

definition sample_verifier :: "(string \<times> nat list) list \<Rightarrow> ValidateResult" where
  "sample_verifier directory = \<lparr>vr_exitCode = 0, vr_report = sample_report, vr_stderr = []\<rparr>"

definition admit_sample :: "string \<Rightarrow> gateway_db \<Rightarrow> (gw_error + RecorderArchiveAdmission) \<times> gateway_db" where
  "admit_sample modelId db =
     admitRecorderArchive (\<lambda>db. db) ''log-1'' ''raa-1'' 11 blob_user ''ram-1'' modelId (\<lambda>_ _. Inr [7]) sample_verifier db"

definition admitted_db :: gateway_db where
  "admitted_db = snd (admit_sample ''m1'' ready_db)"

lemma admit_sample_ok: "isOk (fst (admit_sample ''m1'' ready_db)) \<and> admission_of ''ram-1'' (user_id blob_user) ready_db = None"
  by code_simp

lemma admit_sample_run: obtains a where "admit_sample ''m1'' ready_db = (Inr a, admitted_db)"
  using isOk_run [OF admit_sample_ok [THEN conjunct1]] unfolding admitted_db_def by fast

theorem admission_backed_by_verified_archive_witness:
  "materialized_row ''ram-1'' ''u1'' ready_db \<and> length (telemetry_logs admitted_db) = 1"
proof -
  obtain a where run: "admit_sample ''m1'' ready_db = (Inr a, admitted_db)" by (rule admit_sample_run)
  note none = admit_sample_ok [THEN conjunct2]
  have "telemetry_logs ready_db = []" by (simp add: ready_db_def empty_db_def)
  have id: "user_id blob_user = ''u1''" by (simp add: blob_user_def)
  note backed = admission_backed_by_verified_archive [OF run [unfolded admit_sample_def] none none]
  then obtain row rows where "admitted_db = ready_db\<lparr>telemetry_logs := telemetry_logs ready_db @ [row], recorder_archive_admissions := rows\<rparr>"
    by blast
  from arg_cong [OF this, of telemetry_logs] \<open>telemetry_logs ready_db = []\<close> backed id show ?thesis by simp
qed

theorem admission_is_final_witness:
  "\<exists>a. admit_sample ''m1'' admitted_db = (Inr a, admitted_db)
     \<and> admit_sample ''m2'' admitted_db
         = (Inl (HttpError 409 ''recorder archive is already admitted for a different model''), admitted_db)"
proof -
  obtain a where run: "admit_sample ''m1'' ready_db = (Inr a, admitted_db)" by (rule admit_sample_run)
  have ids: "distinct (map ma_id (recorder_archive_materializations admitted_db))" by code_simp
  note final = admission_is_final [OF run [unfolded admit_sample_def] ids]
  show ?thesis unfolding admit_sample_def by (intro exI conjI) (simp_all add: final)
qed

end
