(* ===== verification/Job_Checks.thy ===== *)
theory Job_Checks
  imports Consent Json_Limits Js_Number Js_Objects
begin

text \<open>
  What the job system of packages/gateway/src/platform.ts checks before a job is stored: the environment, the
  platform gates, the hardware gate, the quotas of the Modal provider and the payloads of the job kinds
  with a contract of their own.

  \<open>penv\<close> is the process environment. A payload has passed the JSON limits when these checks read it, so
  only the constructors of JSON values reach them.
\<close>

type_synonym proc_env = "string \<Rightarrow> string option"

section \<open>Environment\<close>

definition env_trim :: "proc_env \<Rightarrow> string \<Rightarrow> string" where
  "env_trim penv name = (case penv name of None \<Rightarrow> [] | Some s \<Rightarrow> trim s)"

definition envEnabled :: "proc_env \<Rightarrow> string \<Rightarrow> bool" where
  "envEnabled penv name \<longleftrightarrow> toLowerCase (env_trim penv name) \<in> set [''1'', ''true'', ''yes'']"

definition envConfigured :: "proc_env \<Rightarrow> string list \<Rightarrow> bool" where
  "envConfigured penv names \<longleftrightarrow> list_all (\<lambda>name. env_trim penv name \<noteq> []) names"

section \<open>Platform gates\<close>

definition PLATFORM_GATE_KEYS :: "string list" where
  "PLATFORM_GATE_KEYS = [''d28.hardware'', ''p11.policy-sharing'', ''p11.marketplace-economics'']"

definition D12_RIG_ALLOWLIST :: "string list" where
  "D12_RIG_ALLOWLIST = [''ref_quad_kakute-h7-source-one-5in'', ''ref_rover_waveshare-ugv-rover-pt-pi5-ros2'']"

record PlatformGateSignoff =
  pg_id :: string
  pg_gateKey :: string
  pg_status :: GateStatus
  pg_policyVersion :: string
  pg_jurisdiction :: string
  pg_reviewer :: string
  pg_evidence :: jsval
  pg_evidenceUrl :: "string option"
  pg_effectiveAt :: "int option"
  pg_revokedAt :: "int option"
  pg_createdAt :: int
  pg_updatedAt :: int

definition mapPlatformGate :: "GateRow \<Rightarrow> PlatformGateSignoff" where
  "mapPlatformGate row =
     \<lparr>pg_id = gs_id row, pg_gateKey = gs_gate_key row, pg_status = gs_status row,
      pg_policyVersion = gs_policy_version row, pg_jurisdiction = gs_jurisdiction row, pg_reviewer = gs_reviewer row,
      pg_evidence = gs_evidence row, pg_evidenceUrl = gs_evidence_url row, pg_effectiveAt = gs_effective_at row,
      pg_revokedAt = gs_revoked_at row, pg_createdAt = gs_created_at row, pg_updatedAt = gs_updated_at row\<rparr>"

definition gate_reason :: "string \<Rightarrow> string" where
  "gate_reason gateKey =
     (case map_of [(''d28.hardware'', ''D28 legal/hardware signoff has not been recorded''),
         (''p11.policy-sharing'', ''dual-use/export-control platform signoff has not been recorded''),
         (''p11.marketplace-economics'', ''usage-beta economics decision is active; payout economics are deferred'')] gateKey
      of None \<Rightarrow> [] | Some r \<Rightarrow> r)"

text \<open>2026-06-14T00:00:00.000Z in milliseconds.\<close>

definition GATE_EPOCH :: int where "GATE_EPOCH = 1781395200000"

definition defaultGate :: "string \<Rightarrow> PlatformGateSignoff" where
  "defaultGate gateKey =
     \<lparr>pg_id = ''default-'' @ gateKey, pg_gateKey = gateKey, pg_status = GBlocked,
      pg_policyVersion = ''p4-p12-live-gates-2026-06-14'', pg_jurisdiction = ''unspecified'', pg_reviewer = ''system'',
      pg_evidence = JObj [(''reason'', JStr (gate_reason gateKey))], pg_evidenceUrl = None, pg_effectiveAt = None,
      pg_revokedAt = None, pg_createdAt = GATE_EPOCH, pg_updatedAt = GATE_EPOCH\<rparr>"

definition gate_of :: "string \<Rightarrow> gateway_db \<Rightarrow> PlatformGateSignoff" where
  "gate_of gateKey db =
     (case latest_by gs_created_at (filter (\<lambda>r. gs_gate_key r = gateKey) (platform_gate_signoffs db)) of
        None \<Rightarrow> defaultGate gateKey
      | Some row \<Rightarrow> mapPlatformGate row)"

definition currentPlatformGate :: "string \<Rightarrow> PlatformGateSignoff gtx" where
  "currentPlatformGate gateKey = tx_gets (gate_of gateKey)"

definition listPlatformGates :: "PlatformGateSignoff list gtx" where
  "listPlatformGates = tx_gets (\<lambda>db. map (\<lambda>key. gate_of key db) PLATFORM_GATE_KEYS)"

record GateInput =
  gi_gateKey :: string
  gi_status :: GateStatus
  gi_policyVersion :: string
  gi_jurisdiction :: "string option"
  gi_reviewer :: string
  gi_evidence :: jsval
  gi_evidenceUrl :: "string option"
  gi_effectiveAt :: "int option"

definition or_else :: "'a option \<Rightarrow> 'a \<Rightarrow> 'a" where
  "or_else x d = (case x of None \<Rightarrow> d | Some y \<Rightarrow> y)"

definition empty_if_null :: "jsval \<Rightarrow> jsval" where
  "empty_if_null v = (if v = JUndef \<or> v = JNull then JObj [] else v)"

definition gate_row :: "string \<Rightarrow> int \<Rightarrow> GateInput \<Rightarrow> GateRow" where
  "gate_row newId now input =
     \<lparr>gs_id = newId, gs_gate_key = gi_gateKey input, gs_status = gi_status input,
      gs_policy_version = gi_policyVersion input, gs_jurisdiction = or_else (gi_jurisdiction input) ''unspecified'',
      gs_reviewer = gi_reviewer input, gs_evidence = empty_if_null (gi_evidence input), gs_evidence_url = gi_evidenceUrl input,
      gs_effective_at = (if gi_status input = GAccepted then Some (or_else (gi_effectiveAt input) now) else gi_effectiveAt input),
      gs_revoked_at = (if gi_status input = GRevoked then Some now else None), gs_created_at = now, gs_updated_at = now\<rparr>"

definition recordPlatformGateSignoff :: "string \<Rightarrow> int \<Rightarrow> GateInput \<Rightarrow> PlatformGateSignoff gtx" where
  "recordPlatformGateSignoff newId now input =
     tx_bind (tx_update (\<lambda>db. bindE (insert_unique (\<lambda>a b. gs_id a = gs_id b) (DbError ''unique constraint'')
         (gate_row newId now input) (platform_gate_signoffs db)) (\<lambda>rows. Inr (db\<lparr>platform_gate_signoffs := rows\<rparr>)))) (\<lambda>_.
     tx_return (mapPlatformGate (gate_row newId now input)))"

section \<open>Hardware gate\<close>

definition string_prop :: "jsval \<Rightarrow> string \<Rightarrow> string option" where
  "string_prop v k = (case getProp v k of JStr s \<Rightarrow> Some s | _ \<Rightarrow> None)"

definition modelIdFrom :: "jsval \<Rightarrow> string option" where
  "modelIdFrom v = (if isRecord v then string_prop v ''modelId'' else None)"

definition rigIdFrom :: "jsval \<Rightarrow> string option" where
  "rigIdFrom v =
     (if \<not> isRecord v then None
      else case string_prop v ''rigId'' of Some s \<Rightarrow> Some s | None \<Rightarrow> string_prop v ''referenceRigId'')"

definition hardwareTouchingJob :: "string \<Rightarrow> Provider \<Rightarrow> jsval \<Rightarrow> bool" where
  "hardwareTouchingJob kind provider payload \<longleftrightarrow>
     provider \<noteq> Fixture
     \<and> (kind = ''bridge.telemetry-ingest'' \<or> kind = ''bridge.supervisor-check''
        \<or> kind = ''bridge.config-diff'' \<and> isRecord payload
          \<and> (strict_eq (getProp payload ''hardware'') (JBool True)
             \<or> list_ex (\<lambda>st. strict_eq (getProp payload ''stage'') (JStr st)) [''hitl'', ''constrained'', ''free'']))"

definition assertHardwareGateForJob :: "proc_env \<Rightarrow> string \<Rightarrow> Provider \<Rightarrow> jsval \<Rightarrow> unit gtx" where
  "assertHardwareGateForJob penv kind provider payload =
     (if \<not> hardwareTouchingJob kind provider payload then tx_return ()
      else
      tx_bind (currentPlatformGate ''d28.hardware'') (\<lambda>gate.
      if pg_status gate \<noteq> GAccepted \<or> pg_revokedAt gate \<noteq> None
      then tx_throw (HttpError 409 ''D30 controlled D12 lab signoff is required before live hardware bridge jobs'')
      else if \<not> envEnabled penv ''FORGE_HARDWARE_LAB_MODE''
      then tx_throw (HttpError 409 ''FORGE_HARDWARE_LAB_MODE=1 is required for D30 lab hardware jobs'')
      else if (case rigIdFrom payload of None \<Rightarrow> True | Some rig \<Rightarrow> rig = [] \<or> rig \<notin> set D12_RIG_ALLOWLIST)
      then tx_throw (HttpError 409 ''live hardware jobs are limited to D12 reference rigs in lab mode'')
      else if provider \<noteq> Local
      then tx_throw (HttpError 409 ''hardware bridge jobs must run on the local provider, never modal'')
      else tx_return ()))"

section \<open>Capabilities\<close>

record JobCapabilityState =
  jc_enabled :: bool
  jc_configured :: bool
  jc_mode :: string
  jc_reason :: "string option"

definition capability :: "bool \<Rightarrow> bool \<Rightarrow> string \<Rightarrow> string option \<Rightarrow> JobCapabilityState" where
  "capability enabled configured mode reason =
     \<lparr>jc_enabled = enabled, jc_configured = configured, jc_mode = mode, jc_reason = (if enabled then None else reason)\<rparr>"

record JobCapabilities =
  cap_providers :: "(string \<times> JobCapabilityState) list"
  cap_live :: "(string \<times> JobCapabilityState) list"
  cap_gates :: "PlatformGateSignoff list"
  cap_labMode :: bool
  cap_d12RigAllowlist :: "string list"
  cap_noAutoArm :: bool

definition modalTrainingVars :: "string list" where
  "modalTrainingVars = [''FORGE_MODAL_ENVIRONMENT'', ''FORGE_MODAL_FUNCTION_VERSION'', ''FORGE_MODAL_SOURCE_REVISION'',
     ''FORGE_MODAL_DEPLOYMENT_CONTRACT_HASH'']"

definition live_capabilities :: "proc_env \<Rightarrow> (string \<times> JobCapabilityState) list" where
  "live_capabilities penv =
     (let cfg = (\<lambda>n. envConfigured penv [n]); en = envEnabled penv in
      [(''rapier'', capability (en ''FORGE_RAPIER_ENGINE'') (en ''FORGE_RAPIER_ENGINE'') ''feature-gated''
          (Some ''FORGE_RAPIER_ENGINE=1 is required'')),
       (''mujoco'', capability (cfg ''FORGE_MUJOCO_PARITY_CMD'' \<or> en ''FORGE_MUJOCO_ENABLED'') (cfg ''FORGE_MUJOCO_PARITY_CMD'')
          (if cfg ''FORGE_MUJOCO_PARITY_CMD'' then ''external-runner'' else ''feature-gated'')
          (Some ''FORGE_MUJOCO_PARITY_CMD or FORGE_MUJOCO_ENABLED=1 is required'')),
       (''sb3'', capability (cfg ''FORGE_SB3_TRAIN_CMD'' \<or> penv ''FORGE_TRAINING_BACKEND'' = Some ''sb3'') (cfg ''FORGE_SB3_TRAIN_CMD'')
          (if cfg ''FORGE_SB3_TRAIN_CMD'' then ''external-runner'' else ''python-import'')
          (Some ''FORGE_SB3_TRAIN_CMD or FORGE_TRAINING_BACKEND=sb3 is required'')),
       (''claudeExtraction'', capability (cfg ''FORGE_CLAUDE_EXTRACT_CMD'' \<or> cfg ''ANTHROPIC_API_KEY'') (cfg ''FORGE_CLAUDE_EXTRACT_CMD'')
          (if cfg ''FORGE_CLAUDE_EXTRACT_CMD'' then ''external-runner'' else ''deployment-owned'')
          (Some ''FORGE_CLAUDE_EXTRACT_CMD or ANTHROPIC_API_KEY is required'')),
       (''occt'', capability (cfg ''FORGE_OCCT_TESSELLATE_CMD'' \<or> en ''FORGE_OCCT_ENABLED'') (cfg ''FORGE_OCCT_TESSELLATE_CMD'')
          (if cfg ''FORGE_OCCT_TESSELLATE_CMD'' then ''external-runner'' else ''feature-gated'')
          (Some ''FORGE_OCCT_TESSELLATE_CMD or FORGE_OCCT_ENABLED=1 is required'')),
       (''colmap'', capability (cfg ''FORGE_COLMAP_CMD'' \<or> cfg ''FORGE_PHOTOSCAN_CMD'') (cfg ''FORGE_COLMAP_CMD'' \<or> cfg ''FORGE_PHOTOSCAN_CMD'')
          (if cfg ''FORGE_COLMAP_CMD'' then ''colmap-command'' else ''photoscan-command'')
          (Some ''FORGE_COLMAP_CMD or FORGE_PHOTOSCAN_CMD is required'')),
       (''onnxRuntime'', capability True True ''studio-web-wasm'' None),
       (''vendorRefresh'', capability (cfg ''FORGE_VENDOR_REFRESH_CMD'' \<or> en ''FORGE_VENDOR_REFRESH_SANDBOX'') (cfg ''FORGE_VENDOR_REFRESH_CMD'')
          (if cfg ''FORGE_VENDOR_REFRESH_CMD'' then ''worker-command'' else ''sandbox'')
          (Some ''FORGE_VENDOR_REFRESH_CMD or FORGE_VENDOR_REFRESH_SANDBOX=1 is required'')),
       (''printQuotes'', capability (cfg ''FORGE_PRINT_QUOTE_ENDPOINT'' \<or> en ''FORGE_PRINT_QUOTE_SANDBOX'') (cfg ''FORGE_PRINT_QUOTE_ENDPOINT'')
          (if cfg ''FORGE_PRINT_QUOTE_ENDPOINT'' then ''http-endpoint'' else ''sandbox'')
          (Some ''FORGE_PRINT_QUOTE_ENDPOINT or FORGE_PRINT_QUOTE_SANDBOX=1 is required''))])"

definition hardware_accepted :: "PlatformGateSignoff list \<Rightarrow> bool" where
  "hardware_accepted gates =
     (case find (\<lambda>g. pg_gateKey g = ''d28.hardware'') gates of
        None \<Rightarrow> False
      | Some g \<Rightarrow> pg_status g = GAccepted \<and> pg_revokedAt g = None)"

definition jobCapabilities :: "proc_env \<Rightarrow> JobCapabilities gtx" where
  "jobCapabilities penv =
     tx_bind listPlatformGates (\<lambda>gates.
     let modalConfigured = envConfigured penv [''MODAL_TOKEN_ID'', ''MODAL_TOKEN_SECRET''];
         modalEndpoint = env_trim penv ''FORGE_MODAL_ENDPOINT'' \<noteq> [];
         modalTrainingDeployment = envConfigured penv modalTrainingVars in
     tx_return
       \<lparr>cap_providers =
          [(''fixture'', capability True True ''fixture'' None),
           (''local'', capability True True ''postgres-queue'' None),
           (''modal'', capability modalConfigured (modalConfigured \<and> (modalEndpoint \<or> modalTrainingDeployment))
              (if modalTrainingDeployment then ''modal-versioned-function'' else if modalEndpoint then ''modal-endpoint'' else ''disabled'')
              (Some ''Modal tokens plus an endpoint or exact training deployment identity are required''))],
        cap_live = live_capabilities penv, cap_gates = gates,
        cap_labMode = (hardware_accepted gates \<and> envEnabled penv ''FORGE_HARDWARE_LAB_MODE''),
        cap_d12RigAllowlist = D12_RIG_ALLOWLIST, cap_noAutoArm = True\<rparr>)"

section \<open>Job input\<close>

record CreateJobInput =
  ji_kind :: string
  ji_provider :: "Provider option"
  ji_payload :: jsval
  ji_idempotencyKey :: "string option"

definition provider_of :: "CreateJobInput \<Rightarrow> Provider" where
  "provider_of input = or_else (ji_provider input) Fixture"

definition bad_job :: "string \<Rightarrow> gw_error" where
  "bad_job message = HttpError 400 message"

definition one_of :: "jsval \<Rightarrow> string list \<Rightarrow> bool" where
  "one_of v names \<longleftrightarrow> js_String v \<in> set names"

definition only_keys :: "jsval \<Rightarrow> string list \<Rightarrow> bool" where
  "only_keys payload allowedKeys \<longleftrightarrow> list_all (\<lambda>key. key \<in> set allowedKeys) (objectKeys payload)"

definition hasOwn :: "jsval \<Rightarrow> string \<Rightarrow> bool" where
  "hasOwn v key \<longleftrightarrow> key \<in> set (objectKeys v)"

definition integer_between :: "jsval \<Rightarrow> int \<Rightarrow> int \<Rightarrow> bool" where
  "integer_between v lower upper =
     (case v of JNum n \<Rightarrow> isInteger n \<and> \<not> num_lt n (IntN lower) \<and> \<not> num_lt (IntN upper) n | _ \<Rightarrow> False)"

definition number_between :: "jsval \<Rightarrow> int \<Rightarrow> int \<Rightarrow> bool" where
  "number_between v lower upper =
     (case v of JNum n \<Rightarrow> isFinite n \<and> \<not> num_lt n (IntN lower) \<and> \<not> num_lt (IntN upper) n | _ \<Rightarrow> False)"

definition TASKS :: "string list" where
  "TASKS = [''hover-hold'', ''waypoint-chain'', ''line-follow'', ''walk-to-target'']"

section \<open>Modal\<close>

definition environment_ok :: "string \<Rightarrow> bool" where
  "environment_ok s \<longleftrightarrow> length s \<le> 80 \<and> s \<noteq> [] \<and> is_alnum (hd s) \<and> list_all (\<lambda>c. is_alnum c \<or> c \<in> set ''_.-'') s"

definition version_ok :: "string \<Rightarrow> bool" where
  "version_ok s \<longleftrightarrow> s \<noteq> [] \<and> hd s \<noteq> CHR ''0'' \<and> list_all is_digit s \<and> \<not> num_lt (IntN max_safe_integer) (js_Number s)"

definition hex_text :: "nat \<Rightarrow> string \<Rightarrow> bool" where
  "hex_text n s \<longleftrightarrow> length s = n \<and> list_all is_lower_hex s"

definition assertModalProviderConfigured :: "proc_env \<Rightarrow> string \<Rightarrow> gw_error + unit" where
  "assertModalProviderConfigured penv kind =
     bindE (guardE (envConfigured penv [''MODAL_TOKEN_ID'', ''MODAL_TOKEN_SECRET''])
       (HttpError 409 ''Modal worker credentials are not configured'')) (\<lambda>_.
     if kind = ''train.policy''
     then bindE (guardE (envConfigured penv modalTrainingVars)
            (HttpError 409 ''Modal training deployment identity is not configured'')) (\<lambda>_.
          bindE (guardE (environment_ok (env_trim penv ''FORGE_MODAL_ENVIRONMENT''))
            (HttpError 409 ''Modal training environment is invalid'')) (\<lambda>_.
          bindE (guardE (version_ok (env_trim penv ''FORGE_MODAL_FUNCTION_VERSION''))
            (HttpError 409 ''Modal training function version is invalid'')) (\<lambda>_.
          guardE (hex_text 40 (env_trim penv ''FORGE_MODAL_SOURCE_REVISION'')
              \<and> hex_text 64 (env_trim penv ''FORGE_MODAL_DEPLOYMENT_CONTRACT_HASH''))
            (HttpError 409 ''Modal training source or deployment contract identity is invalid''))))
     else guardE (envConfigured penv [''FORGE_MODAL_ENDPOINT''])
            (HttpError 409 (''Modal '' @ kind @ '' endpoint is not configured'')))"

definition integerBounds :: "(string \<times> int \<times> int) list" where
  "integerBounds = [(''seed'', 0, 2147483647), (''totalTimesteps'', 64, 20000000), (''episodeSteps'', 20, 100000),
     (''evalEpisodes'', 1, 100), (''curriculumStage'', 1, 100)]"

definition training_keys :: "string list" where
  "training_keys = [''modelId'', ''contractHash'', ''task'', ''recipe'', ''algorithm'', ''seed'', ''timeoutS'',
     ''totalTimesteps'', ''episodeSteps'', ''evalEpisodes'', ''curriculumStage'']"

definition check_bound :: "jsval \<Rightarrow> string \<times> int \<times> int \<Rightarrow> gw_error + unit" where
  "check_bound payload = (\<lambda>(key, lower, upper).
     guardE (getProp payload key = JUndef \<or> integer_between (getProp payload key) lower upper)
       (bad_job (''Modal train.policy '' @ key @ '' is outside the supported range'')))"

definition assertModalTrainingPayload :: "CreateJobInput \<Rightarrow> gw_error + unit" where
  "assertModalTrainingPayload input =
     (let payload = ji_payload input; optional = (\<lambda>key names. getProp payload key = JUndef \<or> one_of (getProp payload key) names) in
      if ji_provider input \<noteq> Some Modal \<or> ji_kind input \<noteq> ''train.policy'' then Inr ()
      else
      bindE (guardE (isRecord payload) (bad_job ''Modal train.policy requires a bounded payload'')) (\<lambda>_.
      bindE (guardE (only_keys payload training_keys) (bad_job ''Modal train.policy payload contains unsupported fields'')) (\<lambda>_.
      bindE (guardE (one_of (getProp payload ''task'') TASKS) (bad_job ''Modal train.policy task is unsupported'')) (\<lambda>_.
      bindE (guardE (optional ''recipe'' [''direct-v1'', ''p7-overnight-v1'']) (bad_job ''Modal train.policy recipe is unsupported'')) (\<lambda>_.
      bindE (guardE (optional ''algorithm'' [''ppo'', ''sac'']) (bad_job ''Modal train.policy algorithm is unsupported'')) (\<lambda>_.
      bindE (mapE (check_bound payload) integerBounds) (\<lambda>_.
      guardE (getProp payload ''timeoutS'' = JUndef \<or> number_between (getProp payload ''timeoutS'') 1 28800)
        (bad_job ''Modal train.policy timeoutS is outside the supported range'')))))))) "

definition modalQuota :: "proc_env \<Rightarrow> string \<Rightarrow> int \<Rightarrow> gw_error + int" where
  "modalQuota penv name fallback =
     (let raw = env_trim penv name in
      if raw = [] then Inr fallback
      else case js_Number raw of
             Fin x \<Rightarrow> if of_int \<lfloor>x\<rfloor> = x \<and> 1 \<le> x \<and> x \<le> 10000 then Inr \<lfloor>x\<rfloor>
                      else Inl (HttpError 503 (name @ '' must be an integer between 1 and 10000''))
           | _ \<Rightarrow> Inl (HttpError 503 (name @ '' must be an integer between 1 and 10000'')))"

definition DAY_MS :: int where "DAY_MS = 86400000"

text \<open>\<open>date_trunc('day', now() AT TIME ZONE 'UTC') AT TIME ZONE 'UTC'\<close>.\<close>

definition day_start :: "int \<Rightarrow> int" where
  "day_start now = now div DAY_MS * DAY_MS"

definition counts_for_quota :: "string option \<Rightarrow> JobRow \<Rightarrow> bool" where
  "counts_for_quota key j \<longleftrightarrow> jb_provider j = Modal \<and> (key = None \<or> jb_idempotency_key j \<noteq> key)"

definition active_job :: "JobRow \<Rightarrow> bool" where
  "active_job j \<longleftrightarrow> jb_status j = JQueued \<or> jb_status j = JRunning"

definition activeJobs :: "string option \<Rightarrow> gateway_db \<Rightarrow> int" where
  "activeJobs key db = int (length (filter (\<lambda>j. counts_for_quota key j \<and> active_job j) (jobs db)))"

definition dailyCredits :: "string option \<Rightarrow> int \<Rightarrow> gateway_db \<Rightarrow> int" where
  "dailyCredits key now db =
     sum_list (map jb_cost_credits (filter (\<lambda>j. counts_for_quota key j \<and> day_start now \<le> jb_created_at j) (jobs db)))"

definition assertModalJobQuota :: "proc_env \<Rightarrow> int \<Rightarrow> int \<Rightarrow> string option \<Rightarrow> unit gtx" where
  "assertModalJobQuota penv now costCredits key =
     tx_bind (tx_lift (modalQuota penv ''FORGE_MODAL_MAX_ACTIVE_JOBS'' 1)) (\<lambda>maxActive.
     tx_bind (tx_lift (modalQuota penv ''FORGE_MODAL_DAILY_CREDIT_LIMIT'' 10)) (\<lambda>dailyCreditLimit.
     tx_bind (tx_gets (activeJobs key)) (\<lambda>active.
     tx_bind (tx_gets (dailyCredits key now)) (\<lambda>daily.
     if maxActive \<le> active then tx_throw (HttpError 429 ''Modal active-job quota is exhausted'')
     else if dailyCreditLimit < daily + costCredits then tx_throw (HttpError 429 ''Modal daily credit quota is exhausted'')
     else tx_return ()))))"

section \<open>Vendor refresh and offline training\<close>

definition component_ok :: "jsval \<Rightarrow> bool" where
  "component_ok v = (case v of JStr s \<Rightarrow> trim s \<noteq> [] \<and> length s \<le> 200 | _ \<Rightarrow> False)"

definition componentIds_ok :: "jsval \<Rightarrow> bool" where
  "componentIds_ok v = (case v of JArr xs \<Rightarrow> xs \<noteq> [] \<and> length xs \<le> 50 \<and> list_all component_ok xs | _ \<Rightarrow> False)"

definition assertCommerceVendorRefreshJob :: "CreateJobInput \<Rightarrow> gw_error + unit" where
  "assertCommerceVendorRefreshJob input =
     (let payload = ji_payload input in
      bindE (guardE (ji_provider input = Some Local)
        (bad_job ''commerce vendor refresh jobs must use the local worker provider'')) (\<lambda>_.
      bindE (guardE (case ji_idempotencyKey input of None \<Rightarrow> False | Some key \<Rightarrow> trim key \<noteq> [])
        (bad_job ''commerce vendor refresh jobs require an idempotency key'')) (\<lambda>_.
      bindE (guardE (isRecord payload) (bad_job ''commerce vendor refresh jobs require a bounded payload'')) (\<lambda>_.
      bindE (guardE (only_keys payload [''componentIds'', ''timeoutS''])
        (bad_job ''commerce vendor refresh job payload contains unsupported fields'')) (\<lambda>_.
      bindE (guardE (componentIds_ok (getProp payload ''componentIds''))
        (bad_job ''commerce vendor refresh jobs require 1..50 bounded componentIds'')) (\<lambda>_.
      guardE (getProp payload ''timeoutS'' = JUndef \<or> number_between (getProp payload ''timeoutS'') 1 120)
        (bad_job ''commerce vendor refresh job timeoutS must be between 1 and 120'')))))))"

definition check_not_owned :: "jsval \<Rightarrow> string \<Rightarrow> gw_error + unit" where
  "check_not_owned payload key = guardE (\<not> hasOwn payload key) (bad_job (key @ '' is gateway-owned for train.offline-bc''))"

definition log_id_ok :: "jsval \<Rightarrow> bool" where
  "log_id_ok payload \<longleftrightarrow>
     (case getProp payload ''telemetryLogId'' of JStr s \<Rightarrow> s \<noteq> [] \<and> length s \<le> 200 | _ \<Rightarrow> False)
     \<and> length (telemetryLogIdsFromPayload payload) = 1"

definition assertOfflineTrainingJob :: "proc_env \<Rightarrow> CreateJobInput \<Rightarrow> gw_error + unit" where
  "assertOfflineTrainingJob penv input =
     (let payload = ji_payload input in
      bindE (if provider_of input = Modal then assertModalProviderConfigured penv (ji_kind input) else Inr ()) (\<lambda>_.
      bindE (guardE (provider_of input \<noteq> Fixture)
        (bad_job ''train.offline-bc requires the local or modal worker provider'')) (\<lambda>_.
      bindE (guardE (isRecord payload) (bad_job ''train.offline-bc requires a bounded payload'')) (\<lambda>_.
      bindE (mapE (check_not_owned payload) [''tape'', ''frames'', ''telemetryLogIds'', ''telemetryLogSha256'', ''modelSnapshot'']) (\<lambda>_.
      bindE (guardE (only_keys payload [''modelId'', ''telemetryLogId'', ''task'', ''recipe'', ''algorithm'', ''seed'', ''timeoutS''])
        (bad_job ''train.offline-bc payload contains unsupported fields'')) (\<lambda>_.
      bindE (guardE (log_id_ok payload) (bad_job ''train.offline-bc requires exactly one owned telemetryLogId'')) (\<lambda>_.
      bindE (guardE (case modelIdFrom payload of None \<Rightarrow> False | Some s \<Rightarrow> s \<noteq> [])
        (bad_job ''train.offline-bc requires an admitted modelId'')) (\<lambda>_.
      bindE (guardE (strict_eq (getProp payload ''recipe'') (JStr ''p7-offline-bc-v1'')
            \<and> strict_eq (getProp payload ''algorithm'') (JStr ''ppo''))
        (bad_job ''train.offline-bc requires the p7-offline-bc-v1 PPO recipe'')) (\<lambda>_.
      bindE (guardE (one_of (getProp payload ''task'') TASKS) (bad_job ''train.offline-bc task is unsupported'')) (\<lambda>_.
      bindE (guardE (getProp payload ''seed'' = JUndef \<or> integer_between (getProp payload ''seed'') 0 2147483647)
        (bad_job ''train.offline-bc seed must be an integer between 0 and 2147483647'')) (\<lambda>_.
      guardE (getProp payload ''timeoutS'' = JUndef \<or> number_between (getProp payload ''timeoutS'') 1 3600)
        (bad_job ''train.offline-bc timeoutS must be between 1 and 3600''))))))))))))"

definition TIMEOUT_DEFAULTS :: "(string \<times> int) list" where
  "TIMEOUT_DEFAULTS = [(''commerce.vendor-refresh'', 120), (''photoscan.single'', 300), (''photoscan.multiview'', 300),
     (''train.policy'', 28800), (''train.offline-bc'', 3600), (''train.sysid-fit'', 3600), (''codesign.evaluate'', 28800)]"

definition jobTimeoutSeconds :: "string \<Rightarrow> jsval \<Rightarrow> int" where
  "jobTimeoutSeconds kind payload =
     (case (if isRecord payload then getProp payload ''timeoutS'' else JUndef) of
        JNum (Fin x) \<Rightarrow> max 1 (min 28800 \<lfloor>x\<rfloor>)
      | _ \<Rightarrow> or_else (map_of TIMEOUT_DEFAULTS kind) 3600)"

end
