(* ===== verification/Job_Records.thy ===== *)
theory Job_Records
  imports Job_Checks
begin

text \<open>
  The job as the API returns it, and the values jobs are made of: stable JSON and object spreads,
  packages/gateway/src/platform.ts.
\<close>

section \<open>Records\<close>

record JobRecord =
  jr_id :: string
  jr_ownerUserId :: "string option"
  jr_kind :: string
  jr_status :: JobStatus
  jr_provider :: Provider
  jr_input :: jsval
  jr_output :: jsval
  jr_error :: "string option"
  jr_lastErrorCode :: "string option"
  jr_attempts :: int
  jr_maxAttempts :: int
  jr_timeoutSeconds :: int
  jr_availableAt :: int
  jr_leaseExpiresAt :: "int option"
  jr_providerFields :: ProviderFields
  jr_cancelRequestedAt :: "int option"
  jr_creditRefundedAt :: "int option"
  jr_costCredits :: int
  jr_createdAt :: int

definition mapJob :: "JobRow \<Rightarrow> JobRecord" where
  "mapJob row =
     \<lparr>jr_id = jb_id row, jr_ownerUserId = jb_owner_user_id row, jr_kind = jb_kind row, jr_status = jb_status row,
      jr_provider = jb_provider row, jr_input = jb_input row, jr_output = jb_output row, jr_error = jb_error row,
      jr_lastErrorCode = jb_last_error_code row, jr_attempts = jb_attempts row, jr_maxAttempts = jb_max_attempts row,
      jr_timeoutSeconds = jb_timeout_seconds row, jr_availableAt = jb_available_at row,
      jr_leaseExpiresAt = jb_lease_expires_at row, jr_providerFields = jb_provider_fields row,
      jr_cancelRequestedAt = jb_cancel_requested_at row, jr_creditRefundedAt = jb_credit_refunded_at row,
      jr_costCredits = jb_cost_credits row, jr_createdAt = jb_created_at row\<rparr>"

definition no_provider_fields :: ProviderFields where
  "no_provider_fields =
     \<lparr>pf_call_id = None, pf_function_version = None, pf_environment = None, pf_deployment_contract_hash = None,
      pf_submitted_at = None, pf_completed_at = None, pf_cancelled_at = None, pf_cost_usd = None,
      pf_billing_report_id = None, pf_cost_reconciled_at = None\<rparr>"

text \<open>The insertions return fewer columns than the reads; the missing ones are mapped to \<open>null\<close>.\<close>

definition mapCreated :: "JobRow \<Rightarrow> JobRecord" where
  "mapCreated row =
     mapJob (row\<lparr>jb_provider_fields := no_provider_fields, jb_cancel_requested_at := None, jb_credit_refunded_at := None\<rparr>)"

section \<open>Stable JSON\<close>

text \<open>\<open>stable\<close> rebuilds objects with sorted keys. An object enumerates array indices first, in numeric
  order, then the other keys as inserted.\<close>

definition array_index :: "string \<Rightarrow> bool" where
  "array_index s \<longleftrightarrow> s \<noteq> [] \<and> list_all is_digit s \<and> (s = ''0'' \<or> hd s \<noteq> CHR ''0'') \<and> digits_val 10 digit_val s < 2 ^ 32 - 1"

definition enumerated :: "(string \<times> jsval) list \<Rightarrow> (string \<times> jsval) list" where
  "enumerated kvs =
     sort_key (\<lambda>kv. digits_val 10 digit_val (fst kv)) (filter (\<lambda>kv. array_index (fst kv)) kvs)
     @ filter (\<lambda>kv. \<not> array_index (fst kv)) kvs"

fun stable :: "jsval \<Rightarrow> jsval" where
  "stable (JArr xs) = JArr (map stable xs)"
| "stable (JObj kvs) = JObj (enumerated (sort_key fst (map (\<lambda>(k, v). (k, stable v)) kvs)))"
| "stable (JHost kvs) = JObj (enumerated (sort_key fst (map (\<lambda>(k, v). (k, stable v)) kvs)))"
| "stable v = v"

definition stable_text :: "jsval \<Rightarrow> string" where
  "stable_text v = (case stringify (stable v) of None \<Rightarrow> ''undefined'' | Some t \<Rightarrow> t)"

text \<open>Equality of \<open>jsonb\<close> documents: the order of keys does not matter.\<close>

definition jsonb_eq :: "jsval \<Rightarrow> jsval \<Rightarrow> bool" where
  "jsonb_eq a b \<longleftrightarrow> stable_text a = stable_text b"

end
