(* ===== verification/Artifacts.thy ===== *)
theory Artifacts
  imports Job_Records Object_Blobs
begin

text \<open>
  Artifacts of finished jobs, packages/gateway/src/platform.ts: \<open>materializeJobOutput\<close> stores the output of a
  job as a photoscan, a policy with its ONNX object, a telemetry log or a maintenance record.

  Parameters: \<open>sha\<close> is SHA-256 of a text and \<open>shaBytes\<close> of bytes, \<open>writer\<close> the object store behind
  \<open>writePolicyObject\<close> (absent when none is configured), the identifiers are those the database draws.
\<close>

section \<open>Base64\<close>

text \<open>\<open>Buffer.from(value, "base64")\<close> and \<open>toString("base64")\<close> on texts of the strict form that the
  regular expression describes: groups of four digits, the last one possibly padded.\<close>

definition b64_alphabet :: string where
  "b64_alphabet = ''ABCDEFGHIJKLMNOPQRSTUVWXYZabcdefghijklmnopqrstuvwxyz0123456789+/''"

definition b64_digit :: "char \<Rightarrow> bool" where
  "b64_digit c \<longleftrightarrow> is_alnum c \<or> c = CHR ''+'' \<or> c = CHR ''/''"

definition b64_char :: "nat \<Rightarrow> char" where
  "b64_char n = b64_alphabet ! n"

definition b64_value :: "char \<Rightarrow> nat" where
  "b64_value c = length (takeWhile (\<lambda>d. d \<noteq> c) b64_alphabet)"

fun strict_base64 :: "string \<Rightarrow> bool" where
  "strict_base64 [] = True"
| "strict_base64 [a, b, c, d] =
     (b64_digit a \<and> b64_digit b \<and> (c = CHR ''='' \<and> d = CHR ''='' \<or> b64_digit c \<and> (d = CHR ''='' \<or> b64_digit d)))"
| "strict_base64 (a # b # c # d # s) = (b64_digit a \<and> b64_digit b \<and> b64_digit c \<and> b64_digit d \<and> strict_base64 s)"
| "strict_base64 _ = False"

definition b64_group :: "char \<Rightarrow> char \<Rightarrow> char \<Rightarrow> char \<Rightarrow> nat list" where
  "b64_group a b c d =
     (let p = b64_value a; q = b64_value b; r = b64_value c; s = b64_value d in
      (4 * p + q div 16)
      # (if c = CHR ''='' then [] else (16 * (q mod 16) + r div 4) # (if d = CHR ''='' then [] else [64 * (r mod 4) + s])))"

fun from_base64 :: "string \<Rightarrow> nat list" where
  "from_base64 (a # b # c # d # s) = b64_group a b c d @ from_base64 s"
| "from_base64 _ = []"

fun to_base64 :: "nat list \<Rightarrow> string" where
  "to_base64 [] = []"
| "to_base64 [x] = [b64_char (x div 4), b64_char (16 * (x mod 4)), CHR ''='', CHR ''='']"
| "to_base64 [x, y] = [b64_char (x div 4), b64_char (16 * (x mod 4) + y div 16), b64_char (4 * (y mod 16)), CHR ''='']"
| "to_base64 (x # y # z # bs) =
     b64_char (x div 4) # b64_char (16 * (x mod 4) + y div 16) # b64_char (4 * (y mod 16) + z div 64) # b64_char (z mod 64)
     # to_base64 bs"

section \<open>Policy delivery\<close>

definition POLICY_DELIVERY_ARTIFACT_VERSION :: string where "POLICY_DELIVERY_ARTIFACT_VERSION = ''0.2.0''"
definition MAX_POLICY_MODEL_BYTES :: int where "MAX_POLICY_MODEL_BYTES = 4 * 1024 * 1024"

definition strictPolicyBytes :: "jsval \<Rightarrow> gw_error + nat list" where
  "strictPolicyBytes value =
     (case value of
        JStr s \<Rightarrow>
          if s = [] \<or> (MAX_POLICY_MODEL_BYTES + 2) div 3 * 4 + 4 < int (length s)
          then Inl (HttpError 502 ''policy output requires bounded inline ONNX bytes for materialization'')
          else if \<not> strict_base64 s then Inl (HttpError 502 ''policy ONNX bytes are not strict base64'')
          else if to_base64 (from_base64 s) \<noteq> s then Inl (HttpError 502 ''policy ONNX bytes are not canonical base64'')
          else Inr (from_base64 s)
      | _ \<Rightarrow> Inl (HttpError 502 ''policy output requires bounded inline ONNX bytes for materialization''))"

record PreparedPolicyDelivery =
  pd_bytes :: "nat list"
  pd_byteSize :: int
  pd_sha256 :: string
  pd_objectKey :: string
  pd_cacheKey :: string
  pd_output :: jsval

definition record_or :: "jsval \<Rightarrow> jsval \<Rightarrow> jsval" where
  "record_or v d = (if isRecord v then v else d)"

definition null_or_text :: "string option \<Rightarrow> jsval" where
  "null_or_text t = (case t of None \<Rightarrow> JNull | Some s \<Rightarrow> JStr s)"

definition first_some :: "'a option \<Rightarrow> 'a option \<Rightarrow> 'a option" where
  "first_some x y = (case x of None \<Rightarrow> y | Some _ \<Rightarrow> x)"

definition drop_member :: "jsval \<Rightarrow> string \<Rightarrow> jsval" where
  "drop_member v key = JObj (filter (\<lambda>kv. fst kv \<noteq> key) (own_fields v))"

definition policy_revision :: "jsval \<Rightarrow> jsval \<Rightarrow> jsval" where
  "policy_revision jobInput scorecard =
     (let input = record_or jobInput (JObj []); snapshot = record_or (getProp input ''modelSnapshot'') (JObj []);
          lineage = record_or (getProp scorecard ''lineage'') (JObj []) in
      JObj [(''modelId'', null_or_text (first_some (string_prop snapshot ''modelId'') (modelIdFrom input))),
            (''contractHash'', null_or_text (first_some (string_prop snapshot ''contractHash'')
               (first_some (string_prop input ''contractHash'') (string_prop lineage ''contractHash''))))])"

definition policy_size_ok :: "jsval \<Rightarrow> nat list \<Rightarrow> bool" where
  "policy_size_ok byteSize bytes =
     (case byteSize of
        JNum n \<Rightarrow> isSafeInteger n \<and> \<not> num_le n (IntN 0) \<and> \<not> num_lt (IntN MAX_POLICY_MODEL_BYTES) n \<and> n = IntN (int (length bytes))
      | _ \<Rightarrow> False)"

definition preparePolicyDelivery ::
  "(nat list \<Rightarrow> string) \<Rightarrow> CurrentUser \<Rightarrow> JobRecord \<Rightarrow> jsval \<Rightarrow> gw_error + PreparedPolicyDelivery" where
  "preparePolicyDelivery shaBytes user job output =
     (let onnx = getProp output ''onnx''; scorecard = getProp output ''scorecard''; io = getProp output ''io'' in
      bindE (guardE (isRecord onnx \<and> isRecord scorecard \<and> isRecord io \<and> isRecord (getProp io ''tensor''))
        (HttpError 502 ''policy output lacks ONNX, scorecard, or tensor authority'')) (\<lambda>_.
      bindE (strictPolicyBytes (getProp onnx ''modelBase64'')) (\<lambda>bytes.
      let byteSize = getProp onnx ''byteSize'';
          sha = (case getProp onnx ''sha256'' of JStr s \<Rightarrow> toLowerCase s | _ \<Rightarrow> []) in
      bindE (guardE (policy_size_ok byteSize bytes \<and> sha_ok sha \<and> shaBytes bytes = sha)
        (HttpError 502 ''policy ONNX bytes do not match their bounded size/digest authority'')) (\<lambda>_.
      case blobCacheKey user None (Some sha) of
        None \<Rightarrow> Inl (HttpError 500 ''policy object cache authority is missing'')
      | Some cacheKey \<Rightarrow>
          Inr \<lparr>pd_bytes = bytes, pd_byteSize = int (length bytes), pd_sha256 = sha,
               pd_objectKey = defaultObjectKey user ''policy-onnx'' (Some sha) [], pd_cacheKey = cacheKey,
               pd_output = spread output
                 [(''formatVersion'', JStr POLICY_DELIVERY_ARTIFACT_VERSION), (''onnx'', drop_member onnx ''modelBase64''),
                  (''delivery'', JObj [(''storage'', JStr ''s3-compatible-object''), (''objectBacked'', JBool True),
                     (''jobId'', JStr (jr_id job)), (''byteSize'', byteSize), (''sha256'', JStr sha),
                     (''modelRevision'', policy_revision (jr_input job) scorecard)])]\<rparr>))))"

text \<open>The row of the uploaded object. An upsert on the cache key accepts only the same storage evidence.\<close>

definition policy_blob_row :: "string \<Rightarrow> string \<Rightarrow> int \<Rightarrow> CurrentUser \<Rightarrow> PreparedPolicyDelivery \<Rightarrow> ObjectBlobRow" where
  "policy_blob_row newId bucket now user prepared =
     \<lparr>ob_id = newId, ob_owner_user_id = Some (user_id user), ob_visibility = VPrivate, ob_cache_key = Some (pd_cacheKey prepared),
      ob_bucket = bucket, ob_object_key = pd_objectKey prepared, ob_content_type = Some ''application/octet-stream'',
      ob_byte_size = Some (pd_byteSize prepared), ob_sha256 = Some (pd_sha256 prepared), ob_upload_status = UComplete,
      ob_verified_at = Some now, ob_verification_error_code = None,
      ob_metadata = JObj [(''purpose'', JStr ''policy-onnx''), (''sha256'', JStr (pd_sha256 prepared)),
        (''byteSize'', JNum (IntN (pd_byteSize prepared))), (''formatVersion'', JStr POLICY_DELIVERY_ARTIFACT_VERSION)],
      ob_created_at = now\<rparr>"

definition same_evidence :: "ObjectBlobRow \<Rightarrow> ObjectBlobRow \<Rightarrow> bool" where
  "same_evidence row r \<longleftrightarrow> ob_owner_user_id r = ob_owner_user_id row \<and> ob_bucket r = ob_bucket row
     \<and> ob_object_key r = ob_object_key row \<and> ob_content_type r = ob_content_type row
     \<and> ob_byte_size r = ob_byte_size row \<and> ob_sha256 r = ob_sha256 row"

text \<open>An upsert on the cache key with its conflict action: the stored row, or nothing when the condition
  of the action does not hold.\<close>

definition upsert_cached ::
  "ObjectBlobRow \<Rightarrow> (ObjectBlobRow \<Rightarrow> bool) \<Rightarrow> (ObjectBlobRow \<Rightarrow> ObjectBlobRow) \<Rightarrow> gateway_db \<Rightarrow> gw_error + (string option \<times> gateway_db)" where
  "upsert_cached row ok f db =
     (case find (same_cache_key row) (object_blobs db) of
        Some r \<Rightarrow>
          if ok r then Inr (Some (ob_id r), db\<lparr>object_blobs := map (\<lambda>q. if ob_id q = ob_id r then f q else q) (object_blobs db)\<rparr>)
          else Inr (None, db)
      | None \<Rightarrow>
          bindE (insert_unique blob_clash (DbError ''unique constraint'') row (object_blobs db))
            (\<lambda>rows. Inr (Some (ob_id row), db\<lparr>object_blobs := rows\<rparr>)))"

definition upsertCompletedPolicyBlob :: "string \<Rightarrow> string \<Rightarrow> int \<Rightarrow> CurrentUser \<Rightarrow> PreparedPolicyDelivery \<Rightarrow> string gtx" where
  "upsertCompletedPolicyBlob newId bucket now user prepared =
     (let row = policy_blob_row newId bucket now user prepared in
      tx_bind (tx_state (upsert_cached row (same_evidence row) (complete_blob now))) (\<lambda>result.
      case result of
        None \<Rightarrow> tx_throw (HttpError 409 ''policy object digest is already bound to different storage evidence'')
      | Some blobId \<Rightarrow> tx_return blobId))"

section \<open>Artifact blobs\<close>

definition nestedCacheKey :: "jsval \<Rightarrow> string \<Rightarrow> string option" where
  "nestedCacheKey output field =
     (let v = getProp output field in
      if \<not> isRecord v then None else first_some (string_prop v ''cacheKey'') (string_prop v ''key''))"

definition artifactObjectKey :: "(string \<Rightarrow> string) \<Rightarrow> CurrentUser \<Rightarrow> string \<Rightarrow> string \<Rightarrow> string" where
  "artifactObjectKey sha user purpose cacheKey =
     ''users/'' @ safeObjectSegment (user_id user) @ ''/'' @ safeObjectSegment purpose @ ''/'' @ safeObjectSegment cacheKey
       @ ''-'' @ take 16 (sha cacheKey)"

text \<open>The statement does not name \<open>upload_status\<close>, whose default is \<open>complete\<close>.\<close>

definition artifact_blob_row ::
  "(string \<Rightarrow> string) \<Rightarrow> string \<Rightarrow> string \<Rightarrow> int \<Rightarrow> CurrentUser \<Rightarrow> string \<Rightarrow> string \<Rightarrow> string \<Rightarrow> (string \<times> jsval) list \<Rightarrow> ObjectBlobRow" where
  "artifact_blob_row sha newId bucket now user purpose cacheKey contentType metadata =
     \<lparr>ob_id = newId, ob_owner_user_id = Some (user_id user), ob_visibility = VPrivate,
      ob_cache_key = blobCacheKey user (Some cacheKey) None, ob_bucket = bucket,
      ob_object_key = artifactObjectKey sha user purpose cacheKey, ob_content_type = Some contentType, ob_byte_size = None,
      ob_sha256 = None, ob_upload_status = UComplete, ob_verified_at = None, ob_verification_error_code = None,
      ob_metadata = spread (JObj metadata) [(''purpose'', JStr purpose), (''cacheKey'', JStr cacheKey)], ob_created_at = now\<rparr>"

definition absorb_artifact :: "ObjectBlobRow \<Rightarrow> ObjectBlobRow \<Rightarrow> ObjectBlobRow" where
  "absorb_artifact row r =
     r\<lparr>ob_metadata := json_concat (ob_metadata r) (own_fields (ob_metadata row)),
       ob_content_type := first_some (ob_content_type r) (ob_content_type row)\<rparr>"

definition upsertArtifactBlob ::
  "(string \<Rightarrow> string) \<Rightarrow> string \<Rightarrow> string \<Rightarrow> int \<Rightarrow> CurrentUser \<Rightarrow> string \<Rightarrow> string option \<Rightarrow> string \<Rightarrow> (string \<times> jsval) list \<Rightarrow> string option gtx" where
  "upsertArtifactBlob sha newId bucket now user purpose cacheKey contentType metadata =
     (case cacheKey of
        Some (c # k) \<Rightarrow>
          let row = artifact_blob_row sha newId bucket now user purpose (c # k) contentType metadata in
          tx_state (upsert_cached row (\<lambda>_. True) (absorb_artifact row))
      | _ \<Rightarrow> tx_return None)"

section \<open>Materialization\<close>

record PolicyObjectWriteInput =
  pw_bucket :: string
  pw_objectKey :: string
  pw_bytes :: "nat list"
  pw_contentType :: string
  pw_sha256 :: string

type_synonym PolicyObjectWriter = "PolicyObjectWriteInput \<Rightarrow> gw_error + StoredObjectInspection"

record artifact_params =
  ap_sha :: "string \<Rightarrow> string"
  ap_shaBytes :: "nat list \<Rightarrow> string"
  ap_writer :: "PolicyObjectWriter option"
  ap_bucket :: string
  ap_blobId :: string
  ap_rowId :: string
  ap_now :: int

definition objectBucket :: "proc_env \<Rightarrow> string" where
  "objectBucket penv = or_else (penv ''FORGE_OBJECT_BUCKET'') ''forge-artifacts''"

definition stringList :: "jsval \<Rightarrow> string list" where
  "stringList v = (case v of JArr xs \<Rightarrow> map (\<lambda>x. case x of JStr s \<Rightarrow> s | _ \<Rightarrow> []) (filter (\<lambda>x. case x of JStr _ \<Rightarrow> True | _ \<Rightarrow> False) xs) | _ \<Rightarrow> [])"

text \<open>\<open>value ?? fallback\<close>.\<close>

definition nullish_or :: "jsval \<Rightarrow> jsval \<Rightarrow> jsval" where
  "nullish_or v d = (if v = JUndef \<or> v = JNull then d else v)"

text \<open>A reference to a model must name an existing one.\<close>

definition model_exists :: "string option \<Rightarrow> gateway_db \<Rightarrow> bool" where
  "model_exists modelId db = (case modelId of None \<Rightarrow> True | Some m \<Rightarrow> list_ex (\<lambda>r. mr_id r = m) (model_registry db))"

definition insert_row :: "('r \<Rightarrow> string) \<Rightarrow> 'r \<Rightarrow> 'r list \<Rightarrow> gw_error + 'r list" where
  "insert_row key row rows = insert_unique (\<lambda>a b. key a = key b) (DbError ''unique constraint'') row rows"

definition check_model_key :: "string option \<Rightarrow> unit gtx" where
  "check_model_key modelId =
     tx_bind (tx_gets (model_exists modelId)) (\<lambda>ok. tx_guard ok (DbError ''foreign key constraint''))"

definition materialize_photoscan :: "artifact_params \<Rightarrow> CurrentUser \<Rightarrow> JobRecord \<Rightarrow> jsval \<Rightarrow> jsval \<Rightarrow> jsval option gtx" where
  "materialize_photoscan ap user job output input =
     tx_bind (upsertArtifactBlob (ap_sha ap) (ap_blobId ap) (ap_bucket ap) (ap_now ap) user ''photoscan-result''
         (nestedCacheKey output ''objectCache'') ''model/gltf-binary''
         [(''jobId'', JStr (jr_id job)), (''artifactKind'', JStr ''photoscan'')]) (\<lambda>artifactBlobId.
     tx_bind (tx_update (\<lambda>db. bindE (insert_row ph_id
         \<lparr>ph_id = ap_rowId ap, ph_owner_user_id = Some (user_id user), ph_job_id = Some (jr_id job),
          ph_source_blob_ids = (if stringList (getProp input ''sourceBlobIds'') \<noteq> [] then stringList (getProp input ''sourceBlobIds'')
             else stringList (getProp output ''sourceImages'')),
          ph_artifact_blob_id = artifactBlobId, ph_scale_axes_ports = nullish_or (getProp output ''alignment'') (JObj []),
          ph_refit_primitives = nullish_or (getProp output ''primitiveRefit'') (JArr []),
          ph_candidate_component = nullish_or (getProp output ''candidateComponent'') JNull,
          ph_validator_report = JObj [(''artifactKind'', JStr ''photoscan''),
            (''acceptance'', nullish_or (getProp output ''acceptance'') (JObj []))],
          ph_created_at = ap_now ap\<rparr> (photoscan_artifacts db)) (\<lambda>rows. Inr (db\<lparr>photoscan_artifacts := rows\<rparr>)))) (\<lambda>_.
     tx_return None))"

definition confirmed :: "PreparedPolicyDelivery \<Rightarrow> StoredObjectInspection \<Rightarrow> bool" where
  "confirmed prepared i \<longleftrightarrow> si_byteSize i = pd_byteSize prepared \<and> si_contentType i = Some ''application/octet-stream''
     \<and> map_option toLowerCase (si_sha256 i) = Some (pd_sha256 prepared)"

definition with_delivery :: "jsval \<Rightarrow> string \<times> jsval \<Rightarrow> jsval" where
  "with_delivery output field =
     spread output [(''delivery'', spread (record_or (getProp output ''delivery'') (JObj [])) [field])]"

definition policy_row :: "artifact_params \<Rightarrow> CurrentUser \<Rightarrow> JobRecord \<Rightarrow> jsval \<Rightarrow> jsval \<Rightarrow> string \<Rightarrow> jsval \<Rightarrow> PolicyRow" where
  "policy_row ap user job output input artifactBlobId metadata =
     \<lparr>po_id = ap_rowId ap, po_owner_user_id = Some (user_id user), po_job_id = Some (jr_id job), po_model_id = modelIdFrom input,
      po_task_kind = (if isRecord (getProp output ''task'')
         then case getProp (getProp output ''task'') ''id'' of JStr s \<Rightarrow> s | _ \<Rightarrow> ''fixture'' else ''fixture''),
      po_scorecard = nullish_or (getProp output ''scorecard'') (JObj []), po_policy_metadata = metadata,
      po_artifact_blob_id = Some artifactBlobId,
      po_export_gate = (if isRecord (getProp output ''scorecard'')
           \<and> strict_eq (getProp (getProp output ''scorecard'') ''exportable'') (JBool True) then ''exportable'' else ''blocked''),
      po_created_at = ap_now ap\<rparr>"

definition insert_policy :: "PolicyRow \<Rightarrow> unit gtx" where
  "insert_policy row =
     tx_bind (tx_gets (\<lambda>db. list_ex (\<lambda>r. po_job_id r = po_job_id row) (policy_artifacts db))) (\<lambda>owned.
     tx_bind (tx_guard (\<not> owned) (HttpError 409 ''training job already owns a policy artifact'')) (\<lambda>_.
     tx_bind (check_model_key (po_model_id row)) (\<lambda>_.
     tx_update (\<lambda>db. bindE (insert_row po_id row (policy_artifacts db)) (\<lambda>rows. Inr (db\<lparr>policy_artifacts := rows\<rparr>))))))"

definition finish_policy :: "string \<Rightarrow> CurrentUser \<Rightarrow> JobRecord \<Rightarrow> jsval \<Rightarrow> gateway_db \<Rightarrow> gateway_db" where
  "finish_policy artifactId user job persisted db =
     db\<lparr>policy_artifacts := map (\<lambda>r. if po_id r = artifactId \<and> po_owner_user_id r = Some (user_id user) \<and> po_job_id r = Some (jr_id job)
          then r\<lparr>po_policy_metadata := persisted\<rparr> else r) (policy_artifacts db),
        jobs := map (\<lambda>j. if jb_id j = jr_id job \<and> jb_owner_user_id j = Some (user_id user) \<and> jb_status j = JSucceeded
          then j\<lparr>jb_output := persisted\<rparr> else j) (jobs db)\<rparr>"

definition materialize_policy :: "artifact_params \<Rightarrow> CurrentUser \<Rightarrow> JobRecord \<Rightarrow> jsval \<Rightarrow> jsval \<Rightarrow> jsval option gtx" where
  "materialize_policy ap user job output input =
     (case ap_writer ap of
        None \<Rightarrow> tx_throw (HttpError 503 ''policy object storage writer is not configured'')
      | Some write \<Rightarrow>
          tx_bind (tx_lift (preparePolicyDelivery (ap_shaBytes ap) user job output)) (\<lambda>prepared.
          tx_bind (tx_lift (write \<lparr>pw_bucket = ap_bucket ap, pw_objectKey = pd_objectKey prepared, pw_bytes = pd_bytes prepared,
            pw_contentType = ''application/octet-stream'', pw_sha256 = pd_sha256 prepared\<rparr>)) (\<lambda>inspection.
          tx_bind (tx_guard (confirmed prepared inspection)
            (HttpError 503 ''policy object storage did not confirm exact bytes, type, and checksum'')) (\<lambda>_.
          tx_bind (upsertCompletedPolicyBlob (ap_blobId ap) (ap_bucket ap) (ap_now ap) user prepared) (\<lambda>artifactBlobId.
          let provisional = with_delivery (pd_output prepared) (''artifactBlobId'', JStr artifactBlobId);
              persisted = with_delivery provisional (''policyArtifactId'', JStr (ap_rowId ap)) in
          tx_bind (insert_policy (policy_row ap user job output input artifactBlobId provisional)) (\<lambda>_.
          tx_bind (tx_modify (finish_policy (ap_rowId ap) user job persisted)) (\<lambda>_.
          tx_return (Some persisted))))))))"

definition materialize_telemetry :: "artifact_params \<Rightarrow> CurrentUser \<Rightarrow> jsval \<Rightarrow> jsval \<Rightarrow> jsval option gtx" where
  "materialize_telemetry ap user output input =
     tx_bind (check_model_key (modelIdFrom input)) (\<lambda>_.
     tx_bind (tx_update (\<lambda>db. bindE (insert_row tl_id
         \<lparr>tl_id = ap_rowId ap, tl_owner_user_id = Some (user_id user), tl_model_id = modelIdFrom input, tl_source = ''fixture'',
          tl_captured_at = ap_now ap, tl_tape = nullish_or (getProp output ''tape'') (JObj [(''frames'', JArr [])]),
          tl_privacy = JObj [(''sharing'', JStr ''private'')]\<rparr> (telemetry_logs db)) (\<lambda>rows. Inr (db\<lparr>telemetry_logs := rows\<rparr>)))) (\<lambda>_.
     tx_return None))"

definition materialize_maintenance :: "artifact_params \<Rightarrow> CurrentUser \<Rightarrow> string \<Rightarrow> jsval \<Rightarrow> jsval \<Rightarrow> jsval option gtx" where
  "materialize_maintenance ap user artifactKind output input =
     tx_bind (check_model_key (modelIdFrom input)) (\<lambda>_.
     tx_bind (tx_update (\<lambda>db. bindE (insert_row mn_id
         \<lparr>mn_id = ap_rowId ap, mn_owner_user_id = Some (user_id user), mn_model_id = modelIdFrom input,
          mn_record_kind = (if artifactKind = ''wear-estimate'' then ''wear''
             else if artifactKind = ''crash-forensics'' then ''crash-forensics'' else ''repair-sheet''),
          mn_severity = (if artifactKind = ''crash-forensics'' \<and> strict_eq (getProp output ''crashDetected'') (JBool True)
             then ''warn'' else ''info''),
          mn_summary = artifactKind, mn_payload = output\<rparr> (maintenance_records db))
         (\<lambda>rows. Inr (db\<lparr>maintenance_records := rows\<rparr>)))) (\<lambda>_.
     tx_return None))"

definition materializeJobOutput :: "artifact_params \<Rightarrow> CurrentUser \<Rightarrow> JobRecord \<Rightarrow> jsval option gtx" where
  "materializeJobOutput ap user job =
     (let output = jr_output job; input = record_or (jr_input job) (JObj []) in
      if \<not> isRecord output then tx_return None
      else case getProp output ''artifactKind'' of
        JStr kind \<Rightarrow>
          if kind = ''photoscan'' then materialize_photoscan ap user job output input
          else if kind = ''policy'' then materialize_policy ap user job output input
          else if kind = ''telemetry-replay'' then materialize_telemetry ap user output input
          else if kind = ''wear-estimate'' \<or> kind = ''crash-forensics'' \<or> kind = ''repair-sheet''
          then materialize_maintenance ap user kind output input
          else tx_return None
      | _ \<Rightarrow> tx_return None)"

section \<open>Reading\<close>

record PhotoscanArtifactRecord =
  pr_id :: string
  pr_ownerUserId :: "string option"
  pr_jobId :: "string option"
  pr_sourceBlobIds :: "string list"
  pr_artifactBlobId :: "string option"
  pr_scaleAxesPorts :: jsval
  pr_refitPrimitives :: jsval
  pr_candidateComponent :: jsval
  pr_validatorReport :: jsval
  pr_createdAt :: int

definition mapPhotoscanArtifact :: "PhotoscanRow \<Rightarrow> PhotoscanArtifactRecord" where
  "mapPhotoscanArtifact row =
     \<lparr>pr_id = ph_id row, pr_ownerUserId = ph_owner_user_id row, pr_jobId = ph_job_id row, pr_sourceBlobIds = ph_source_blob_ids row,
      pr_artifactBlobId = ph_artifact_blob_id row, pr_scaleAxesPorts = ph_scale_axes_ports row,
      pr_refitPrimitives = ph_refit_primitives row, pr_candidateComponent = ph_candidate_component row,
      pr_validatorReport = ph_validator_report row, pr_createdAt = ph_created_at row\<rparr>"

definition listPhotoscanArtifacts :: "CurrentUser \<Rightarrow> nat \<Rightarrow> PhotoscanArtifactRecord list gtx" where
  "listPhotoscanArtifacts user maxRows =
     tx_gets (\<lambda>db. map mapPhotoscanArtifact (take maxRows (rev (sort_key ph_created_at
       (filter (\<lambda>r. ph_owner_user_id r = Some (user_id user)) (photoscan_artifacts db))))))"

definition align_photoscan :: "(string \<times> jsval) list \<Rightarrow> PhotoscanRow \<Rightarrow> PhotoscanRow" where
  "align_photoscan patch r = r\<lparr>ph_scale_axes_ports := json_concat (nullish_or (ph_scale_axes_ports r) (JObj [])) patch\<rparr>"

definition updatePhotoscanAlignment :: "CurrentUser \<Rightarrow> string \<Rightarrow> (string \<times> jsval) list \<Rightarrow> PhotoscanArtifactRecord option gtx" where
  "updatePhotoscanAlignment user artifactId patch = (\<lambda>db.
     let mine = (\<lambda>r. ph_id r = artifactId \<and> ph_owner_user_id r = Some (user_id user)) in
     (Inr (map_option (\<lambda>r. mapPhotoscanArtifact (align_photoscan patch r)) (find mine (photoscan_artifacts db))),
      db\<lparr>photoscan_artifacts := map (\<lambda>r. if mine r then align_photoscan patch r else r) (photoscan_artifacts db)\<rparr>))"

record PolicyArtifactRecord =
  pa_id :: string
  pa_ownerUserId :: "string option"
  pa_jobId :: "string option"
  pa_modelId :: "string option"
  pa_taskKind :: string
  pa_scorecard :: jsval
  pa_policyMetadata :: jsval
  pa_artifactBlobId :: "string option"
  pa_exportGate :: string
  pa_createdAt :: int

definition mapPolicyArtifact :: "PolicyRow \<Rightarrow> PolicyArtifactRecord" where
  "mapPolicyArtifact row =
     \<lparr>pa_id = po_id row, pa_ownerUserId = po_owner_user_id row, pa_jobId = po_job_id row, pa_modelId = po_model_id row,
      pa_taskKind = po_task_kind row, pa_scorecard = po_scorecard row, pa_policyMetadata = po_policy_metadata row,
      pa_artifactBlobId = po_artifact_blob_id row, pa_exportGate = po_export_gate row, pa_createdAt = po_created_at row\<rparr>"

definition listPolicyArtifacts :: "CurrentUser \<Rightarrow> nat \<Rightarrow> PolicyArtifactRecord list gtx" where
  "listPolicyArtifacts user maxRows =
     tx_gets (\<lambda>db. map mapPolicyArtifact (take maxRows (rev (sort_key po_created_at
       (filter (\<lambda>r. po_owner_user_id r = Some (user_id user)) (policy_artifacts db))))))"

definition getOwnedPolicyArtifact :: "CurrentUser \<Rightarrow> string \<Rightarrow> PolicyArtifactRecord option gtx" where
  "getOwnedPolicyArtifact user artifactId =
     tx_gets (\<lambda>db. map_option mapPolicyArtifact (find (\<lambda>r. po_id r = artifactId \<and> po_owner_user_id r = Some (user_id user)) (policy_artifacts db)))"

end
