(* ===== verification/Artifact_Claims.thy ===== *)
theory Artifact_Claims
  imports Artifacts Tx_Relations
begin

text \<open>
  Properties of artifacts: the inline model bytes of a policy are accepted exactly in their canonical
  encoding, and a policy is stored only as an object that the store confirmed.
\<close>

section \<open>Base64\<close>

lemma b64_digit_alphabet: "b64_digit c \<longleftrightarrow> c \<in> set b64_alphabet"
proof -
  have "\<forall>c. b64_digit c = (c \<in> set b64_alphabet)" by code_simp
  then show ?thesis by blast
qed

lemma b64_char_facts: "n < 64 \<Longrightarrow> b64_value (b64_char n) = n \<and> b64_digit (b64_char n) \<and> b64_char n \<noteq> CHR ''=''"
proof -
  have "list_all (\<lambda>n. b64_value (b64_char n) = n \<and> b64_digit (b64_char n) \<and> b64_char n \<noteq> CHR ''='') [0..<64]" by code_simp
  then show "n < 64 \<Longrightarrow> b64_value (b64_char n) = n \<and> b64_digit (b64_char n) \<and> b64_char n \<noteq> CHR ''=''"
    by (auto simp: list_all_iff)
qed

lemma b64_value_less: "b64_digit c \<Longrightarrow> b64_value c < 64"
proof -
  assume "b64_digit c"
  then have "takeWhile (\<lambda>d. d \<noteq> c) b64_alphabet \<noteq> b64_alphabet"
    by (auto simp: b64_digit_alphabet takeWhile_eq_all_conv)
  then have "length (takeWhile (\<lambda>d. d \<noteq> c) b64_alphabet) < length b64_alphabet"
    by (metis le_neq_implies_less length_takeWhile_le takeWhile_eq_take take_all_iff)
  moreover have "length b64_alphabet = 64" by code_simp
  ultimately show ?thesis by (simp add: b64_value_def)
qed

definition is_bytes :: "nat list \<Rightarrow> bool" where
  "is_bytes bs \<longleftrightarrow> list_all (\<lambda>b. b < 256) bs"

lemma from_to_base64: "is_bytes bs \<Longrightarrow> from_base64 (to_base64 bs) = bs"
proof (induction bs rule: to_base64.induct)
  case (2 x)
  then show ?case by (simp add: is_bytes_def b64_group_def b64_char_facts Let_def)
next
  case (3 x y)
  then have "x < 256" "y < 256" by (simp_all add: is_bytes_def)
  moreover from this have "x div 4 < 64" "16 * (x mod 4) + y div 16 < 64" "4 * (y mod 16) < 64" by auto
  ultimately show ?case by (simp add: b64_group_def b64_char_facts Let_def)
next
  case (4 x y z bs)
  then have "x < 256" "y < 256" "z < 256" "is_bytes bs" by (simp_all add: is_bytes_def)
  moreover from this have "x div 4 < 64" "16 * (x mod 4) + y div 16 < 64" "4 * (y mod 16) + z div 64 < 64" "z mod 64 < 64" by auto
  ultimately show ?case using 4 by (simp add: b64_group_def b64_char_facts Let_def)
qed simp

lemma strict_to_base64: "is_bytes bs \<Longrightarrow> strict_base64 (to_base64 bs)"
proof (induction bs rule: to_base64.induct)
  case (2 x)
  then show ?case by (simp add: is_bytes_def b64_char_facts)
next
  case (3 x y)
  then have "x div 4 < 64" "16 * (x mod 4) + y div 16 < 64" "4 * (y mod 16) < 64" by (auto simp: is_bytes_def)
  then show ?case by (simp add: b64_char_facts)
next
  case (4 x y z bs)
  then have "x div 4 < 64" "16 * (x mod 4) + y div 16 < 64" "4 * (y mod 16) + z div 64 < 64" "z mod 64 < 64" "is_bytes bs"
    by (auto simp: is_bytes_def)
  with 4 show ?case by (cases "to_base64 bs") (simp_all add: b64_char_facts)
qed simp

lemma b64_group_bytes:
  assumes "b64_digit a" "b64_digit b" "c \<noteq> CHR ''='' \<longrightarrow> b64_digit c" "d \<noteq> CHR ''='' \<longrightarrow> b64_digit d"
  shows "is_bytes (b64_group a b c d)"
proof -
  have "b64_value a < 64" "b64_value b < 64" using assms b64_value_less by blast+
  moreover have "c \<noteq> CHR ''='' \<longrightarrow> b64_value c < 64" "d \<noteq> CHR ''='' \<longrightarrow> b64_value d < 64" using assms b64_value_less by blast+
  ultimately show ?thesis by (auto simp: is_bytes_def b64_group_def Let_def)
qed

lemma from_base64_bytes: "strict_base64 s \<Longrightarrow> is_bytes (from_base64 s)"
proof (induction s rule: strict_base64.induct)
  case (2 a b c d)
  then show ?case using b64_group_bytes [of a b c d] by auto
next
  case (3 a b c d v va)
  then show ?case using b64_group_bytes [of a b c d] by (simp add: is_bytes_def)
qed (simp_all add: is_bytes_def)

text \<open>
  C17. The inline bytes of a policy model are accepted exactly when the text is the canonical base64
  encoding of a nonempty sequence of bytes within the length bound, and the bytes that are then stored
  are the encoded ones.
\<close>

theorem policy_bytes_roundtrip:
  "strictPolicyBytes (JStr s) = Inr bytes \<longleftrightarrow>
     bytes \<noteq> [] \<and> is_bytes bytes \<and> s = to_base64 bytes \<and> int (length s) \<le> (MAX_POLICY_MODEL_BYTES + 2) div 3 * 4 + 4"
proof
  assume "strictPolicyBytes (JStr s) = Inr bytes"
  then have "s \<noteq> []" "strict_base64 s" "to_base64 (from_base64 s) = s" "from_base64 s = bytes"
    "int (length s) \<le> (MAX_POLICY_MODEL_BYTES + 2) div 3 * 4 + 4"
    by (auto simp: strictPolicyBytes_def split: if_splits)
  with from_base64_bytes [of s]
  show "bytes \<noteq> [] \<and> is_bytes bytes \<and> s = to_base64 bytes \<and> int (length s) \<le> (MAX_POLICY_MODEL_BYTES + 2) div 3 * 4 + 4" by auto
next
  assume spec: "bytes \<noteq> [] \<and> is_bytes bytes \<and> s = to_base64 bytes \<and> int (length s) \<le> (MAX_POLICY_MODEL_BYTES + 2) div 3 * 4 + 4"
  then have "s \<noteq> []" "strict_base64 s" "from_base64 s = bytes"
    using strict_to_base64 [of bytes] from_to_base64 [of bytes] by (cases bytes rule: to_base64.cases; simp)+
  with spec show "strictPolicyBytes (JStr s) = Inr bytes" by (auto simp: strictPolicyBytes_def not_less)
qed

section \<open>Stored policies\<close>

text \<open>What was delivered: the bytes, their digest and the byte-free output.\<close>

lemma prepared_facts:
  assumes "preparePolicyDelivery shaBytes user job output = Inr prepared"
  shows "\<exists>s. getProp (getProp output ''onnx'') ''modelBase64'' = JStr s \<and> strictPolicyBytes (JStr s) = Inr (pd_bytes prepared)"
    "pd_sha256 prepared = shaBytes (pd_bytes prepared)" "pd_byteSize prepared = int (length (pd_bytes prepared))"
    "0 < pd_byteSize prepared" "pd_byteSize prepared \<le> MAX_POLICY_MODEL_BYTES"
    "getProp (getProp (pd_output prepared) ''onnx'') ''modelBase64'' = JUndef"
    "getProp (getProp (pd_output prepared) ''delivery'') ''sha256'' = JStr (pd_sha256 prepared)"
    "isRecord (getProp (pd_output prepared) ''delivery'')"
proof -
  let ?onnx = "getProp output ''onnx''"
  have dropped: "getProp (drop_member v k) k = JUndef" for v k
  proof -
    have "map_of (filter (\<lambda>kv. fst kv \<noteq> k) kvs) k = None" for kvs :: "(string \<times> jsval) list" by (induction kvs) auto
    then show ?thesis by (simp add: drop_member_def)
  qed
  from assms obtain bytes where b: "strictPolicyBytes (getProp ?onnx ''modelBase64'') = Inr bytes"
    and size: "policy_size_ok (getProp ?onnx ''byteSize'') bytes"
    and prep: "pd_bytes prepared = bytes" "pd_sha256 prepared = shaBytes bytes" "pd_byteSize prepared = int (length bytes)"
    and out: "getProp (getProp (pd_output prepared) ''onnx'') ''modelBase64'' = JUndef"
    "getProp (getProp (pd_output prepared) ''delivery'') ''sha256'' = JStr (pd_sha256 prepared)"
    "isRecord (getProp (pd_output prepared) ''delivery'')"
    by (auto simp: preparePolicyDelivery_def Let_def resE getProp_spread3 dropped split: option.splits)
  show "\<exists>s. getProp ?onnx ''modelBase64'' = JStr s \<and> strictPolicyBytes (JStr s) = Inr (pd_bytes prepared)"
    using b prep(1) by (cases "getProp ?onnx ''modelBase64''") (auto simp: strictPolicyBytes_def)
  show "0 < pd_byteSize prepared" "pd_byteSize prepared \<le> MAX_POLICY_MODEL_BYTES"
    using size prep by (auto simp: policy_size_ok_def split: jsval.splits)
  show "pd_sha256 prepared = shaBytes (pd_bytes prepared)" "pd_byteSize prepared = int (length (pd_bytes prepared))"
    "getProp (getProp (pd_output prepared) ''onnx'') ''modelBase64'' = JUndef"
    "getProp (getProp (pd_output prepared) ''delivery'') ''sha256'' = JStr (pd_sha256 prepared)"
    "isRecord (getProp (pd_output prepared) ''delivery'')" using prep out by simp_all
qed

lemma with_delivery_facts:
  assumes "isRecord (getProp v ''delivery'')"
  shows "getProp (with_delivery v (k, x)) ''onnx'' = getProp v ''onnx''"
    "getProp (getProp (with_delivery v (k, x)) ''delivery'') l = (if l = k then x else getProp (getProp v ''delivery'') l)"
    "isRecord (getProp (with_delivery v (k, x)) ''delivery'')"
  using assms by (simp_all add: with_delivery_def getProp_spread1 record_or_def) (simp add: spread_def)

lemma upsert_policy_blob:
  assumes "upsertCompletedPolicyBlob newId bucket now user prepared s = (Inr blobId, t)"
  shows "\<exists>b \<in> set (object_blobs t). ob_id b = blobId \<and> ob_owner_user_id b = Some (user_id user) \<and> ob_upload_status b = UComplete
      \<and> ob_sha256 b = Some (pd_sha256 prepared) \<and> ob_byte_size b = Some (pd_byteSize prepared) \<and> ob_object_key b = pd_objectKey prepared
      \<and> ob_bucket b = bucket"
    "t = s\<lparr>object_blobs := object_blobs t\<rparr>"
proof -
  let ?row = "policy_blob_row newId bucket now user prepared"
  from assms have up: "upsert_cached ?row (same_evidence ?row) (complete_blob now) s = Inr (Some blobId, t)"
    by (auto simp: upsertCompletedPolicyBlob_def Let_def tx_bind_Inr tx_state_def split: option.splits sum.splits)
  then show "t = s\<lparr>object_blobs := object_blobs t\<rparr>"
    by (auto simp: upsert_cached_def resE split: option.splits if_splits)
  show "\<exists>b \<in> set (object_blobs t). ob_id b = blobId \<and> ob_owner_user_id b = Some (user_id user) \<and> ob_upload_status b = UComplete
      \<and> ob_sha256 b = Some (pd_sha256 prepared) \<and> ob_byte_size b = Some (pd_byteSize prepared) \<and> ob_object_key b = pd_objectKey prepared
      \<and> ob_bucket b = bucket"
  proof (cases "find (same_cache_key ?row) (object_blobs s)")
    case None
    with up have "object_blobs t = object_blobs s @ [?row]" "blobId = ob_id ?row" by (auto simp: upsert_cached_def resE)
    then show ?thesis by (simp add: policy_blob_row_def)
  next
    case (Some r)
    with up have ev: "same_evidence ?row r" "blobId = ob_id r"
      and t: "object_blobs t = map (\<lambda>q. if ob_id q = ob_id r then complete_blob now q else q) (object_blobs s)"
      by (auto simp: upsert_cached_def split: if_splits)
    have "complete_blob now r \<in> set (object_blobs t)" using find_SomeD [OF Some] by (force simp: t)
    with ev show ?thesis by (intro bexI [of _ "complete_blob now r"]) (auto simp: complete_blob_def same_evidence_def policy_blob_row_def)
  qed
qed

lemma insert_policy_Inr:
  assumes "insert_policy row s = (Inr (), t)"
  shows "t = s\<lparr>policy_artifacts := policy_artifacts s @ [row]\<rparr>" "\<forall>r \<in> set (policy_artifacts s). po_job_id r \<noteq> po_job_id row \<and> po_id r \<noteq> po_id row"
  using assms
  by (auto simp: insert_policy_def check_model_key_def insert_row_def list_ex_iff txE resE split: if_splits)


end
