(* ===== verification/Model_Edits.thy ===== *)
theory Model_Edits
  imports Job_Records
begin

text \<open>
  Edits by prompt, packages/gateway/src/platform.ts: \<open>compileEditPatch\<close> turns a prompt into the operations of
  a JSON patch. The regular expressions of the source are written out as scanners; all of them ignore
  case and name ASCII letters only, so they run on the prompt in lower case.
\<close>

section \<open>Scanners\<close>

definition word_char :: "char \<Rightarrow> bool" where
  "word_char c \<longleftrightarrow> is_alnum c \<or> c = CHR ''_''"

definition word_at :: "string \<Rightarrow> string \<Rightarrow> bool" where
  "word_at w s \<longleftrightarrow> startsWith w s \<and> (case drop (length w) s of [] \<Rightarrow> True | c # _ \<Rightarrow> \<not> word_char c)"

text \<open>\<open>/\b(w1|w2|...)\b/\<close>: the word of the leftmost match; the flag tells whether the character before is
  part of a word.\<close>

fun first_word :: "bool \<Rightarrow> string list \<Rightarrow> string \<Rightarrow> string option" where
  "first_word inside ws [] = None"
| "first_word inside ws (c # s) =
     (case (if inside then None else find (\<lambda>w. word_at w (c # s)) ws) of
        Some w \<Rightarrow> Some w
      | None \<Rightarrow> first_word (word_char c) ws s)"

fun contains :: "string \<Rightarrow> string \<Rightarrow> bool" where
  "contains w [] = (w = [])"
| "contains w (c # s) = (startsWith w (c # s) \<or> contains w s)"

definition mentions :: "string list \<Rightarrow> string \<Rightarrow> bool" where
  "mentions ws s = list_ex (\<lambda>w. contains w s) ws"

text \<open>\<open>/(\d+(?:\.\d+)?)\s*%/\<close>: the number of the leftmost match. The digits are followed by a dot, a space
  or the sign, so a shorter run of digits never matches.\<close>

definition percent_at :: "string \<Rightarrow> string option" where
  "percent_at s =
     (let ds = takeWhile is_digit s; rest = dropWhile is_digit s;
          closed = (\<lambda>t. case dropWhile is_space t of CHR ''%'' # _ \<Rightarrow> True | _ \<Rightarrow> False) in
      if ds = [] then None
      else case rest of
        CHR ''.'' # t \<Rightarrow>
          (let fs = takeWhile is_digit t in
           if fs \<noteq> [] \<and> closed (dropWhile is_digit t) then Some (ds @ ''.'' @ fs) else None)
      | _ \<Rightarrow> if closed rest then Some ds else None)"

fun percent_in :: "string \<Rightarrow> string option" where
  "percent_in [] = None"
| "percent_in (c # s) = (case percent_at (c # s) of Some n \<Rightarrow> Some n | None \<Rightarrow> percent_in s)"

text \<open>\<open>/prop\s*guard/\<close>.\<close>

fun prop_guard :: "string \<Rightarrow> bool" where
  "prop_guard [] = False"
| "prop_guard (c # s) =
     (startsWith ''prop'' (c # s) \<and> startsWith ''guard'' (dropWhile is_space (drop 4 (c # s))) \<or> prop_guard s)"

text \<open>\<open>Number(x.toFixed(digits))\<close>.\<close>

definition fixed_number :: "nat \<Rightarrow> jsnum \<Rightarrow> jsnum" where
  "fixed_number digits n =
     (case n of
        Fin x \<Rightarrow>
          if 10 ^ 21 \<le> \<bar>x\<bar> then n
          else fl64 (sgn x * of_int \<lfloor>\<bar>x\<bar> * 10 ^ digits + 1 / 2\<rfloor> / 10 ^ digits)
      | _ \<Rightarrow> n)"

section \<open>The patch\<close>

definition replaceOp :: "string \<Rightarrow> jsval \<Rightarrow> jsval" where
  "replaceOp path value = JObj [(''op'', JStr ''replace''), (''path'', JStr path), (''value'', value)]"

definition addOp :: "string \<Rightarrow> jsval \<Rightarrow> jsval" where
  "addOp path value = JObj [(''op'', JStr ''add''), (''path'', JStr path), (''value'', value)]"

definition COLORS :: "(string \<times> string) list" where
  "COLORS = [(''black'', ''#16181c''), (''blue'', ''#2563eb''), (''green'', ''#16a34a''), (''orange'', ''#f97316''),
     (''purple'', ''#7c3aed''), (''red'', ''#dc2626''), (''white'', ''#f8fafc''), (''yellow'', ''#eab308'')]"

definition colorFromPrompt :: "string \<Rightarrow> string option" where
  "colorFromPrompt prompt =
     map_option snd (find (\<lambda>(name, hex). first_word False [name] (toLowerCase prompt) \<noteq> None) COLORS)"

definition parts_of :: "jsval \<Rightarrow> jsval list option" where
  "parts_of contract = (if isRecord contract then case getProp contract ''parts'' of JArr xs \<Rightarrow> Some xs | _ \<Rightarrow> None else None)"

fun geom_from :: "string \<Rightarrow> nat \<Rightarrow> jsval list \<Rightarrow> (string \<times> jsnum) option" where
  "geom_from field index [] = None"
| "geom_from field index (part # parts) =
     (if isRecord part \<and> isRecord (getProp part ''geom'')
      then case getProp (getProp part ''geom'') field of
             JNum n \<Rightarrow>
               if isFinite n then Some (''/parts/'' @ dec_digits (int index) @ ''/geom/'' @ field, n)
               else geom_from field (Suc index) parts
           | _ \<Rightarrow> geom_from field (Suc index) parts
      else geom_from field (Suc index) parts)"

definition firstGeomPath :: "jsval \<Rightarrow> string \<Rightarrow> (string \<times> jsnum) option" where
  "firstGeomPath contract field = (case parts_of contract of None \<Rightarrow> None | Some parts \<Rightarrow> geom_from field 0 parts)"

definition SHRINK :: "string list" where
  "SHRINK = [''smaller'', ''shorter'', ''lower'', ''slower'', ''reduce'', ''decrease'']"

definition GROW :: "string list" where
  "GROW = [''larger'', ''longer'', ''wider'', ''taller'', ''faster'', ''increase'']"

definition numericMultiplier :: "string \<Rightarrow> jsnum" where
  "numericMultiplier prompt =
     (let s = toLowerCase prompt in
      case percent_in s of
        Some digits \<Rightarrow>
          (let amount = num_div (js_Number digits) (Fin 100) in
           if mentions SHRINK s then num_max (fl64 (1 / 10)) (num_sub (Fin 1) amount) else num_add (Fin 1) amount)
      | None \<Rightarrow>
          if mentions [''double'', ''twice''] s then Fin 2
          else if mentions [''half'', ''halve''] s then Fin (1 / 2)
          else if mentions SHRINK s then fl64 (85 / 100)
          else if mentions GROW s then fl64 (115 / 100)
          else Fin 1)"

definition dimension :: "string \<Rightarrow> string" where
  "dimension s =
     (if mentions [''wide'', ''wider'', ''width''] s then ''w''
      else if mentions [''tall'', ''height'', ''higher'', ''lower''] s then ''h'' else ''d'')"

definition num_list :: "rat list \<Rightarrow> jsval" where
  "num_list xs = JArr (map (\<lambda>x. JNum (fl64 x)) xs)"

definition prop_guard_part :: jsval where
  "prop_guard_part = JObj
     [(''node'', JStr ''root''),
      (''geom'', JObj [(''kind'', JStr ''cbox''), (''w'', JNum (fl64 (24 / 100))), (''h'', JNum (fl64 (6 / 1000))),
         (''d'', JNum (fl64 (24 / 100))), (''ch'', JNum (fl64 (3 / 100)))]),
      (''pose'', JObj [(''p'', num_list [0, 15 / 1000, 0]), (''r'', num_list [0, 0, 0]), (''s'', num_list [1, 1, 1])]),
      (''material'', JStr ''satin''), (''color'', JStr ''#64748b''), (''comp'', JStr ''prop-guard''),
      (''mass'', JObj [(''valueG'', JNum (IntN 18))]), (''collision'', JStr ''primitive''),
      (''explode'', JObj [(''dir'', num_list [0, 1, 0]), (''mag'', JNum (fl64 (8 / 100))), (''t0'', JNum (fl64 (72 / 100))),
         (''t1'', JNum (fl64 (88 / 100))), (''leader'', JStr ''prop guard'')])]"

definition first_part_ops :: "string \<Rightarrow> jsval \<Rightarrow> jsval list" where
  "first_part_ops prompt contract =
     (if (case parts_of contract of Some (_ # _) \<Rightarrow> False | _ \<Rightarrow> True) then []
      else (case colorFromPrompt prompt of Some c \<Rightarrow> [replaceOp ''/parts/0/color'' (JStr c)] | None \<Rightarrow> [])
        @ (case first_word False [''gloss'', ''metal'', ''satin'', ''matte'', ''rubber''] (toLowerCase prompt) of
             Some m \<Rightarrow> [replaceOp ''/parts/0/material'' (JStr m)] | None \<Rightarrow> []))"

definition dimension_ops :: "string \<Rightarrow> jsval \<Rightarrow> jsval list" where
  "dimension_ops prompt contract =
     (let s = toLowerCase prompt in
      if mentions [''larger'', ''longer'', ''wider'', ''taller'', ''smaller'', ''shorter'', ''height'', ''width''] s \<or> percent_in s \<noteq> None
      then case firstGeomPath contract (dimension s) of
             Some (path, value) \<Rightarrow> [replaceOp path (JNum (fixed_number 4 (num_mul value (numericMultiplier prompt))))]
           | None \<Rightarrow> []
      else [])"

definition speed_ops :: "string \<Rightarrow> jsval \<Rightarrow> jsval list" where
  "speed_ops prompt contract =
     (if isRecord contract \<and> isRecord (getProp contract ''driver'') \<and> isRecord (getProp (getProp contract ''driver'') ''params'')
      then case getProp (getProp (getProp contract ''driver'') ''params'') ''maxSpeedMs'' of
             JNum currentSpeed \<Rightarrow>
               if mentions [''speed'', ''faster'', ''slower''] (toLowerCase prompt)
               then [replaceOp ''/driver/params/maxSpeedMs'' (JNum (fixed_number 3 (num_mul currentSpeed (numericMultiplier prompt))))]
               else []
           | _ \<Rightarrow> []
      else [])"

definition battery_ops :: "string \<Rightarrow> jsval \<Rightarrow> jsval list" where
  "battery_ops prompt contract =
     (case first_word False [''3s'', ''4s'', ''5s'', ''6s''] (toLowerCase prompt) of
        Some cells \<Rightarrow>
          if isRecord contract \<and> isRecord (getProp contract ''sim'') \<and> isRecord (getProp (getProp contract ''sim'') ''battery'')
          then [replaceOp ''/sim/battery/cells'' (JNum (js_Number (take 1 cells)))] else []
      | None \<Rightarrow> [])"

definition guard_ops :: "string \<Rightarrow> jsval \<Rightarrow> jsval list" where
  "guard_ops prompt contract =
     (let s = toLowerCase prompt in
      if (prop_guard s \<or> contains ''duct'' s) \<and> parts_of contract \<noteq> None then [addOp ''/parts/-'' prop_guard_part] else [])"

definition compileEditPatch :: "string \<Rightarrow> jsval \<Rightarrow> gw_error + jsval list" where
  "compileEditPatch prompt contract =
     (let patch = first_part_ops prompt contract @ dimension_ops prompt contract @ speed_ops prompt contract
        @ battery_ops prompt contract @ guard_ops prompt contract in
      if patch = [] then Inl (HttpError 400 ''edit prompt did not match a supported deterministic operation'') else Inr patch)"

end
