(* ===== verification/Models.thy ===== *)
theory Models
  imports Model_Edits Artifacts Recorder_Admission
begin

text \<open>
  The model registry, packages/gateway/src/platform.ts: models with their validator report and contract hash,
  edits by prompt, and public snapshots of admitted models.

  Parameters: \<open>sha\<close> is SHA-256, \<open>runValidator\<close> and \<open>runPatch\<close> the processes of validator.ts, \<open>parse\<close> is
  \<open>JSON.parse\<close> (\<open>None\<close> for a syntax error), \<open>env\<close> what other requests do to the database while the
  processes run, \<open>newId\<close> the identifier the database draws. The reference to a generated artifact is not checked:
  that table is not modelled.
\<close>

section \<open>Records\<close>

record ModelRecord =
  ml_id :: string
  ml_ownerUserId :: "string option"
  ml_sourceArtifactId :: "string option"
  ml_status :: string
  ml_visibility :: Visibility
  ml_name :: string
  ml_archetype :: "string option"
  ml_contractHash :: string
  ml_contract :: jsval
  ml_validatorReport :: jsval
  ml_lineage :: jsval
  ml_createdAt :: int
  ml_updatedAt :: int

definition mapModel :: "ModelRow \<Rightarrow> ModelRecord" where
  "mapModel row =
     \<lparr>ml_id = mr_id row, ml_ownerUserId = mr_owner_user_id row, ml_sourceArtifactId = mr_source_artifact_id row,
      ml_status = mr_status row, ml_visibility = mr_visibility row, ml_name = mr_name row, ml_archetype = mr_archetype row,
      ml_contractHash = mr_contract_hash row, ml_contract = mr_contract row, ml_validatorReport = mr_validator_report row,
      ml_lineage = mr_lineage row, ml_createdAt = mr_created_at row, ml_updatedAt = mr_updated_at row\<rparr>"

record ShareSnapshot =
  ss_id :: string
  ss_modelId :: string
  ss_ownerUserId :: string
  ss_contractHash :: string
  ss_contract :: jsval
  ss_validatorReport :: jsval
  ss_createdAt :: int

definition mapShare :: "ShareRow \<Rightarrow> ShareSnapshot" where
  "mapShare row =
     \<lparr>ss_id = sh_id row, ss_modelId = sh_model_id row, ss_ownerUserId = sh_owner_user_id row, ss_contractHash = sh_contract_hash row,
      ss_contract = sh_contract row, ss_validatorReport = sh_validator_report row, ss_createdAt = sh_created_at row\<rparr>"

section \<open>Verdict, metadata, hash\<close>

definition reportVerdict :: "jsval \<Rightarrow> string" where
  "reportVerdict report =
     (case (if isRecord report then getProp report ''verdict'' else JUndef) of
        JStr v \<Rightarrow> if v = ''admitted'' \<or> v = ''draft'' \<or> v = ''rejected'' then v else ''rejected''
      | _ \<Rightarrow> ''rejected'')"

definition contractMeta :: "jsval \<Rightarrow> string \<times> string option" where
  "contractMeta contract =
     (if \<not> isRecord contract \<or> \<not> isRecord (getProp contract ''meta'') then (''Untitled model'', None)
      else (or_else (string_prop (getProp contract ''meta'') ''name'') ''Untitled model'',
            string_prop (getProp contract ''meta'') ''archetype''))"

text \<open>\<open>sha256(stableJson(contract))\<close>; a value without a JSON text cannot be hashed.\<close>

definition contractHash :: "(string \<Rightarrow> string) \<Rightarrow> jsval \<Rightarrow> gw_error + string" where
  "contractHash sha contract =
     (case stringify (stable contract) of
        None \<Rightarrow> Inl (PlainError ''The data argument must be of type string'')
      | Some t \<Rightarrow> Inr (sha t))"

section \<open>Registering\<close>

record ModelInput =
  mi_contract :: jsval
  mi_validatorReport :: jsval
  mi_sourceArtifactId :: "string option"
  mi_visibility :: "Visibility option"
  mi_lineage :: jsval

definition model_row :: "string \<Rightarrow> int \<Rightarrow> CurrentUser \<Rightarrow> ModelInput \<Rightarrow> string \<Rightarrow> ModelRow" where
  "model_row newId now user input hash =
     \<lparr>mr_id = newId, mr_owner_user_id = Some (user_id user), mr_status = reportVerdict (mi_validatorReport input),
      mr_contract_hash = hash, mr_validator_report = nullish_or (mi_validatorReport input) JNull, mr_contract = mi_contract input,
      mr_source_artifact_id = mi_sourceArtifactId input, mr_visibility = or_else (mi_visibility input) VPrivate,
      mr_name = fst (contractMeta (mi_contract input)), mr_archetype = snd (contractMeta (mi_contract input)),
      mr_lineage = nullish_or (mi_lineage input) (JObj []), mr_created_at = now, mr_updated_at = now\<rparr>"

definition insertModel :: "(string \<Rightarrow> string) \<Rightarrow> string \<Rightarrow> int \<Rightarrow> CurrentUser \<Rightarrow> ModelInput \<Rightarrow> ModelRecord gtx" where
  "insertModel sha newId now user input =
     tx_bind (tx_lift (contractHash sha (mi_contract input))) (\<lambda>hash.
     tx_bind (tx_update (\<lambda>db. bindE (insert_row mr_id (model_row newId now user input hash) (model_registry db))
         (\<lambda>rows. Inr (db\<lparr>model_registry := rows\<rparr>)))) (\<lambda>_.
     tx_return (mapModel (model_row newId now user input hash))))"

text \<open>\<open>JSON.stringify(value)\<close> written to a file; a value without a JSON text cannot be written.\<close>

definition json_text :: "jsval \<Rightarrow> gw_error + string" where
  "json_text v =
     (case stringify v of None \<Rightarrow> Inl (PlainError ''The data argument must be of type string'') | Some t \<Rightarrow> Inr t)"

definition contract_text :: "jsval \<Rightarrow> gw_error + string" where
  "contract_text contract = (case contract of JStr s \<Rightarrow> Inr s | _ \<Rightarrow> json_text contract)"

definition no_report :: "ValidateResult \<Rightarrow> bool" where
  "no_report v \<longleftrightarrow> vr_exitCode v = -1 \<or> vr_report v = JNull"

definition or_message :: "string \<Rightarrow> string \<Rightarrow> string" where
  "or_message s d = (if s = [] then d else s)"

definition createModel ::
  "(string \<Rightarrow> string) \<Rightarrow> (string \<Rightarrow> bool \<Rightarrow> ValidateResult) \<Rightarrow> (string \<Rightarrow> jsval option) \<Rightarrow> string \<Rightarrow> int \<Rightarrow> CurrentUser \<Rightarrow> jsval \<Rightarrow> bool
     \<Rightarrow> (ModelRecord \<times> jsval) gtx" where
  "createModel sha runValidator parse newId now user contract asDraft =
     tx_bind (tx_lift (contract_text contract)) (\<lambda>contractJson.
     let validation = runValidator contractJson asDraft; report = vr_report validation in
     if no_report validation
     then tx_throw (HttpError 503 (or_message (vr_stderr validation) ''validator unavailable''))
     else if reportVerdict report = ''rejected'' \<and> \<not> asDraft
     then tx_throw (CodedError 422 [] ''model rejected by validator'' [(''report'', report)])
     else case parse contractJson of
       None \<Rightarrow> tx_throw (PlainError ''Unexpected token in JSON'')
     | Some parsed \<Rightarrow>
         tx_bind (insertModel sha newId now user
           \<lparr>mi_contract = parsed, mi_validatorReport = report, mi_sourceArtifactId = None, mi_visibility = None,
            mi_lineage = JObj [(''sourceKind'', JStr ''model-crud'')]\<rparr>) (\<lambda>model.
         tx_return (model, report)))"

section \<open>Reading\<close>

definition listModels :: "CurrentUser \<Rightarrow> nat \<Rightarrow> ModelRecord list gtx" where
  "listModels user maxRows =
     tx_gets (\<lambda>db. map mapModel (take maxRows (rev (sort_key mr_updated_at
       (filter (\<lambda>m. mr_owner_user_id m = Some (user_id user)) (model_registry db))))))"

definition getOwnedModel :: "CurrentUser \<Rightarrow> string \<Rightarrow> ModelRecord option gtx" where
  "getOwnedModel user modelId = tx_gets (\<lambda>db. map_option mapModel (owned_model modelId (user_id user) db))"

section \<open>Edits\<close>

definition edited_row :: "int \<Rightarrow> jsval \<Rightarrow> jsval \<Rightarrow> (string \<times> jsval) list \<Rightarrow> string \<Rightarrow> ModelRow \<Rightarrow> ModelRow" where
  "edited_row now contract report lineage hash m =
     m\<lparr>mr_status := reportVerdict report, mr_name := fst (contractMeta contract), mr_archetype := snd (contractMeta contract),
       mr_contract_hash := hash, mr_contract := contract, mr_validator_report := nullish_or report JNull,
       mr_lineage := json_concat (mr_lineage m) lineage, mr_updated_at := now\<rparr>"

definition updateModelContract ::
  "(string \<Rightarrow> string) \<Rightarrow> int \<Rightarrow> string \<Rightarrow> jsval \<Rightarrow> jsval \<Rightarrow> (string \<times> jsval) list \<Rightarrow> ModelRecord gtx" where
  "updateModelContract sha now modelId contract report lineage =
     tx_bind (tx_lift (contractHash sha contract)) (\<lambda>hash.
     tx_bind (tx_modify (\<lambda>db. db\<lparr>model_registry := map (\<lambda>m. if mr_id m = modelId
         then edited_row now contract report lineage hash m else m) (model_registry db)\<rparr>)) (\<lambda>_.
     tx_bind (tx_gets (\<lambda>db. find (\<lambda>m. mr_id m = modelId) (model_registry db))) (\<lambda>row.
     case row of
       None \<Rightarrow> tx_throw (PlainError ''Cannot read properties of undefined'')
     | Some m \<Rightarrow> tx_return (mapModel m))))"

definition editModel ::
  "(string \<Rightarrow> string) \<Rightarrow> (string \<Rightarrow> bool \<Rightarrow> ValidateResult) \<Rightarrow> (string \<Rightarrow> string \<Rightarrow> ValidateResult) \<Rightarrow> (gateway_db \<Rightarrow> gateway_db)
     \<Rightarrow> int \<Rightarrow> string \<Rightarrow> CurrentUser \<Rightarrow> string \<Rightarrow> string \<Rightarrow> (ModelRecord \<times> jsval list \<times> jsval) gtx" where
  "editModel sha runValidator runPatch env now nowText user modelId prompt =
     tx_bind (getOwnedModel user modelId) (\<lambda>current.
     case current of
       None \<Rightarrow> tx_throw (HttpError 404 ''model not found'')
     | Some model \<Rightarrow>
         tx_bind (tx_lift (compileEditPatch prompt (ml_contract model))) (\<lambda>patch.
         tx_bind (tx_lift (json_text (ml_contract model))) (\<lambda>contractJson.
         let patched = runPatch contractJson (or_else (stringify (JArr patch)) []) in
         if vr_exitCode patched \<noteq> 0 \<or> vr_report patched = JNull
         then tx_throw (HttpError (if vr_exitCode patched = -1 then 503 else 422)
           (or_message (vr_stderr patched) ''patch rejected by contract boundary''))
         else
         tx_bind (tx_lift (json_text (vr_report patched))) (\<lambda>patchedJson.
         let validation = runValidator patchedJson True in
         if no_report validation
         then tx_throw (HttpError 503 (or_message (vr_stderr validation) ''validator unavailable''))
         else
         tx_bind (tx_modify env) (\<lambda>_.
         tx_bind (updateModelContract sha now modelId (vr_report patched) (vr_report validation)
           [(''lastEdit'', JObj [(''promptHash'', JStr (sha (trim prompt))), (''patch'', JArr patch), (''at'', JStr nowText)])]) (\<lambda>edited.
         tx_return (edited, patch, vr_report validation)))))))"

section \<open>Snapshots\<close>

definition share_row :: "string \<Rightarrow> int \<Rightarrow> CurrentUser \<Rightarrow> ModelRecord \<Rightarrow> ShareRow" where
  "share_row newId now user model =
     \<lparr>sh_id = newId, sh_model_id = ml_id model, sh_owner_user_id = user_id user, sh_contract_hash = ml_contractHash model,
      sh_contract = ml_contract model, sh_validator_report = ml_validatorReport model, sh_created_at = now, sh_revoked_at = None\<rparr>"

definition shareModel :: "string \<Rightarrow> int \<Rightarrow> CurrentUser \<Rightarrow> string \<Rightarrow> ShareSnapshot gtx" where
  "shareModel newId now user modelId =
     tx_bind (getOwnedModel user modelId) (\<lambda>found.
     case found of
       None \<Rightarrow> tx_throw (HttpError 404 ''model not found'')
     | Some model \<Rightarrow>
         if ml_status model \<noteq> ''admitted'' then tx_throw (HttpError 409 ''only admitted models can be shared'')
         else
         tx_bind (tx_update (\<lambda>db. bindE (insert_row sh_id (share_row newId now user model) (share_snapshots db))
             (\<lambda>rows. Inr (db\<lparr>share_snapshots := rows\<rparr>)))) (\<lambda>_.
         tx_bind (tx_modify (\<lambda>db. db\<lparr>model_registry := map (\<lambda>m. if mr_id m = ml_id model
             then m\<lparr>mr_visibility := VUnlisted, mr_updated_at := now\<rparr> else m) (model_registry db)\<rparr>)) (\<lambda>_.
         tx_return (mapShare (share_row newId now user model)))))"

definition getShare :: "string \<Rightarrow> ShareSnapshot option gtx" where
  "getShare shareId =
     tx_gets (\<lambda>db. map_option mapShare (find (\<lambda>r. sh_id r = shareId \<and> sh_revoked_at r = None) (share_snapshots db)))"

end
