(* ===== verification/Jobs.thy ===== *)
theory Jobs
  imports Artifacts
begin

text \<open>
  Jobs and credits, packages/gateway/src/platform.ts: createJob with its consent gate, model revision, quota,
  idempotent insertion and debit; cancelOwnedJob with its refund; the reads.

  Parameters: \<open>sha\<close> is SHA-256, \<open>penv\<close> the process environment,
  \<open>newId\<close> the proposed job identifier, \<open>trace\<close> a random trace identifier, \<open>now\<close> the clock.
  \<open>fixtureOutput\<close> stands for the canned outputs of the fixture provider (\<open>fixtureJobOutput\<close>): nothing is
  assumed about it. The writer of policy objects and the identifiers of artifacts are those of
  \<open>Artifacts\<close>.
\<close>

section \<open>Observability context\<close>

definition hex_groups :: "nat list \<Rightarrow> string \<Rightarrow> bool" where
  "hex_groups lengths s \<longleftrightarrow>
     (let parts = split_on (CHR ''-'') s in map length parts = lengths \<and> list_all (list_all is_lower_hex) parts)"

definition uuid_v4 :: "string \<Rightarrow> bool" where
  "uuid_v4 s \<longleftrightarrow> hex_groups [8, 4, 4, 4, 12] s \<and> s ! 14 = CHR ''4'' \<and> s ! 19 \<in> set ''89ab''"

definition nonzero_hex :: "nat \<Rightarrow> string \<Rightarrow> bool" where
  "nonzero_hex n s \<longleftrightarrow> hex_text n s \<and> s \<noteq> replicate n (CHR ''0'')"

record JobObservabilityContext =
  oc_requestId :: string
  oc_traceId :: string
  oc_parentSpanId :: string

record ObservabilityFields =
  of_requestId :: "string option"
  of_traceId :: string
  of_parentSpanId :: "string option"

definition jobObservabilityContext :: "string \<Rightarrow> JobObservabilityContext option \<Rightarrow> gw_error + ObservabilityFields" where
  "jobObservabilityContext trace context =
     (case context of
        None \<Rightarrow> Inr \<lparr>of_requestId = None, of_traceId = trace, of_parentSpanId = None\<rparr>
      | Some c \<Rightarrow>
          bindE (guardE (uuid_v4 (oc_requestId c) \<and> nonzero_hex 32 (oc_traceId c) \<and> nonzero_hex 16 (oc_parentSpanId c))
            (HttpError 500 ''trusted job observability context is invalid'')) (\<lambda>_.
          Inr \<lparr>of_requestId = Some (oc_requestId c), of_traceId = oc_traceId c, of_parentSpanId = Some (oc_parentSpanId c)\<rparr>))"

section \<open>Credits and usage\<close>

definition ensureCreditAccount :: "CurrentUser \<Rightarrow> unit gtx" where
  "ensureCreditAccount user =
     tx_modify (\<lambda>db. if list_ex (\<lambda>a. ca_user_id a = user_id user) (credit_accounts db) then db
       else db\<lparr>credit_accounts := credit_accounts db @ [\<lparr>ca_user_id = user_id user, ca_balance_credits = 0\<rparr>]\<rparr>)"

text \<open>\<open>INSERT ... ON CONFLICT (idempotency_key) DO NOTHING\<close>: whether the row was inserted.\<close>

definition insert_ledger :: "CreditLedgerRow \<Rightarrow> bool gtx" where
  "insert_ledger row = (\<lambda>db.
     if cl_idempotency_key row \<noteq> None \<and> list_ex (\<lambda>r. cl_idempotency_key r = cl_idempotency_key row) (credit_ledger db)
     then (Inr False, db)
     else (Inr True, db\<lparr>credit_ledger := credit_ledger db @ [row]\<rparr>))"

definition add_balance :: "string \<Rightarrow> int \<Rightarrow> unit gtx" where
  "add_balance userId delta =
     tx_modify (\<lambda>db. db\<lparr>credit_accounts := map (\<lambda>a. if ca_user_id a = userId
        then a\<lparr>ca_balance_credits := ca_balance_credits a + delta\<rparr> else a) (credit_accounts db)\<rparr>)"

definition recordUsageEvent :: "CurrentUser option \<Rightarrow> string \<Rightarrow> string option \<Rightarrow> jsval \<Rightarrow> int option \<Rightarrow> string option \<Rightarrow> unit gtx" where
  "recordUsageEvent user eventKind provider units costCredits key =
     tx_modify (\<lambda>db.
       if key \<noteq> None \<and> list_ex (\<lambda>r. us_idempotency_key r = key) (usage_events db) then db
       else db\<lparr>usage_events := usage_events db @
         [\<lparr>us_user_id = map_option user_id user, us_event_kind = eventKind, us_provider = provider,
           us_units = empty_if_null units, us_cost_credits = or_else costCredits 0, us_idempotency_key = key\<rparr>]\<rparr>)"

section \<open>The authoritative payload\<close>

definition ADMITTED_MODEL_JOB_KINDS :: "string list" where
  "ADMITTED_MODEL_JOB_KINDS = [''occt.tessellate'', ''train.policy'', ''train.offline-bc'', ''train.sysid-fit'',
     ''codesign.evaluate'', ''bridge.config-diff'']"

definition assertAdmittedModelReference :: "CurrentUser \<Rightarrow> string option \<Rightarrow> string \<Rightarrow> ModelRow option gtx" where
  "assertAdmittedModelReference user modelId surface =
     (case modelId of
        None \<Rightarrow> tx_return None
      | Some mid \<Rightarrow>
          tx_bind (tx_gets (owned_model mid (user_id user))) (\<lambda>found.
          case found of
            None \<Rightarrow> tx_throw (HttpError 404 (surface @ '' model not found''))
          | Some model \<Rightarrow>
              if mr_status model \<noteq> ''admitted''
              then tx_throw (HttpError 409 (surface @ '' requires an admitted model; drafts cannot train, export, deploy, or share''))
              else tx_return (Some model)))"

definition model_snapshot :: "ModelRow \<Rightarrow> jsval" where
  "model_snapshot model = JObj
     [(''schemaVersion'', JStr ''forge-admitted-model-snapshot/1.0.0''), (''modelId'', JStr (mr_id model)),
      (''contractHash'', JStr (mr_contract_hash model)), (''contractJson'', JStr (stable_text (mr_contract model)))]"

definition model_payload :: "(string \<Rightarrow> string) \<Rightarrow> Provider \<Rightarrow> jsval \<Rightarrow> ModelRow \<Rightarrow> gw_error + jsval" where
  "model_payload sha provider payload model =
     bindE (guardE (\<not> hasOwn payload ''contractHash'' \<or> strict_eq (getProp payload ''contractHash'') (JStr (mr_contract_hash model)))
       (HttpError 409 ''job contractHash does not match the admitted model revision'')) (\<lambda>_.
     bindE (guardE (sha (stable_text (mr_contract model)) = mr_contract_hash model)
       (HttpError 500 ''admitted model storage hash is inconsistent'')) (\<lambda>_.
     Inr (spread payload ((''contractHash'', JStr (mr_contract_hash model))
       # (if provider = Fixture then [] else [(''modelSnapshot'', model_snapshot model)])))))"

definition resolve_model :: "(string \<Rightarrow> string) \<Rightarrow> CurrentUser \<Rightarrow> CreateJobInput \<Rightarrow> jsval gtx" where
  "resolve_model sha user input =
     (let kind = ji_kind input; provider = provider_of input; payload = ji_payload input in
      if kind \<notin> set ADMITTED_MODEL_JOB_KINDS then tx_return (empty_if_null payload)
      else
      tx_bind (assertAdmittedModelReference user (modelIdFrom payload) (kind @ '' job'')) (\<lambda>found.
      case found of
        None \<Rightarrow>
          if provider \<noteq> Fixture \<and> (kind = ''train.policy'' \<or> kind = ''train.offline-bc'')
          then tx_throw (bad_job (''live '' @ kind @ '' jobs require an admitted modelId''))
          else tx_return (empty_if_null payload)
      | Some model \<Rightarrow> tx_lift (model_payload sha provider payload model)))"

definition tape_usable :: "jsval \<Rightarrow> bool" where
  "tape_usable tape \<longleftrightarrow>
     \<not> strict_eq (getProp tape ''schemaVersion'') (JStr ''forge-recorder-telemetry-reference/1.0.0'')
     \<and> \<not> strict_eq (getProp tape ''storage'') (JStr ''object-backed'')"

definition resolve_telemetry :: "(string \<Rightarrow> string) \<Rightarrow> CurrentUser \<Rightarrow> jsval \<Rightarrow> jsval gtx" where
  "resolve_telemetry sha user payload =
     (case telemetryLogIdsFromPayload payload of
        [] \<Rightarrow> tx_throw (HttpError 404 ''train.offline-bc telemetry log not found'')
      | telemetryLogId # _ \<Rightarrow>
          tx_bind (tx_gets (owned_telemetry telemetryLogId (user_id user))) (\<lambda>found.
          case found of
            None \<Rightarrow> tx_throw (HttpError 404 ''train.offline-bc telemetry log not found'')
          | Some telemetry \<Rightarrow>
              if tl_model_id telemetry \<noteq> modelIdFrom payload
              then tx_throw (HttpError 409 ''train.offline-bc telemetry log belongs to a different model'')
              else if \<not> isRecord (tl_tape telemetry)
              then tx_throw (HttpError 409 ''train.offline-bc telemetry tape is malformed'')
              else if \<not> tape_usable (tl_tape telemetry)
              then tx_throw (HttpError 409 ''object-backed recorder telemetry is not authorized for offline training'')
              else tx_return (spread payload
                [(''telemetryLogId'', JStr telemetryLogId), (''telemetryLogIds'', JArr [JStr telemetryLogId]),
                 (''telemetryLogSha256'', JStr (sha (stable_text (tl_tape telemetry)))), (''tape'', tl_tape telemetry)])))"

definition payload_limits :: "string \<Rightarrow> JsonLimits" where
  "payload_limits kind =
     (if kind = ''train.offline-bc''
      then no_limits\<lparr>jl_maxBytes := Some (4 * 1024 * 1024), jl_maxDepth := Some 32, jl_maxNodes := Some 100000\<rparr>
      else no_limits\<lparr>jl_maxBytes := Some (512 * 1024), jl_maxDepth := Some 16, jl_maxNodes := Some 20000\<rparr>)"

definition authoritative_payload :: "(string \<Rightarrow> string) \<Rightarrow> CurrentUser \<Rightarrow> CreateJobInput \<Rightarrow> jsval gtx" where
  "authoritative_payload sha user input =
     tx_bind (tx_guard (\<not> (isRecord (ji_payload input) \<and> hasOwn (ji_payload input) ''modelSnapshot''))
       (bad_job ''modelSnapshot is gateway-owned and cannot be supplied by clients'')) (\<lambda>_.
     tx_bind (resolve_model sha user input) (\<lambda>p.
     tx_bind (if ji_kind input = ''train.offline-bc'' then resolve_telemetry sha user p else tx_return p) (\<lambda>payload.
     tx_bind (tx_lift (assertBoundedJson payload ''authoritative job payload'' (payload_limits (ji_kind input)))) (\<lambda>_.
     tx_return payload))))"

section \<open>Storing a job\<close>

definition scopedJobIdempotencyKey :: "(string \<Rightarrow> string) \<Rightarrow> string \<Rightarrow> string \<Rightarrow> string" where
  "scopedJobIdempotencyKey sha userId key =
     sha (''forge-job-idempotency-v1'' @ [CHR 0x00] @ userId @ [CHR 0x00] @ key)"

definition job_row ::
  "string \<Rightarrow> int \<Rightarrow> CurrentUser \<Rightarrow> string \<Rightarrow> Provider \<Rightarrow> string option \<Rightarrow> jsval \<Rightarrow> int \<Rightarrow> int \<Rightarrow> ObservabilityFields \<Rightarrow> JobRow" where
  "job_row newId now user kind provider key payload costCredits timeout obs =
     \<lparr>jb_id = newId, jb_owner_user_id = Some (user_id user), jb_kind = kind, jb_status = JQueued, jb_input = payload,
      jb_error = None, jb_last_error_code = None, jb_created_at = now, jb_finished_at = None, jb_lease_token = None,
      jb_lease_expires_at = None, jb_provider = provider, jb_idempotency_key = key, jb_output = JNull,
      jb_cost_credits = costCredits, jb_attempts = 0, jb_max_attempts = 3, jb_timeout_seconds = timeout,
      jb_available_at = now, jb_started_at = None, jb_provider_fields = no_provider_fields,
      jb_cancel_requested_at = None, jb_credit_refunded_at = None, jb_observability_request_id = of_requestId obs,
      jb_observability_trace_id = of_traceId obs, jb_observability_parent_span_id = of_parentSpanId obs,
      jb_events = [], jb_attempt_log = [], jb_provider_calls = []\<rparr>"

definition same_request :: "JobRow \<Rightarrow> JobRow \<Rightarrow> bool" where
  "same_request row j \<longleftrightarrow>
     jb_owner_user_id j = jb_owner_user_id row \<and> jb_kind j = jb_kind row \<and> jb_provider j = jb_provider row
     \<and> jsonb_eq (jb_input j) (jb_input row)"

text \<open>The upsert on the idempotency key: the stored row, or the row of the same request, or nothing when
  the key belongs to another request.\<close>

definition upsert_job :: "JobRow \<Rightarrow> JobRow option gtx" where
  "upsert_job row = (\<lambda>db.
     case (if jb_idempotency_key row = None then None else find (\<lambda>j. jb_idempotency_key j = jb_idempotency_key row) (jobs db)) of
       Some j \<Rightarrow> (Inr (if same_request row j then Some j else None), db)
     | None \<Rightarrow>
         if list_ex (\<lambda>j. jb_id j = jb_id row) (jobs db) then (Inl (DbError ''unique constraint''), db)
         else (Inr (Some row), db\<lparr>jobs := jobs db @ [row]\<rparr>))"

definition keyClash :: gw_error where
  "keyClash = HttpError 409 ''job idempotency key is already bound to a different request''"

definition debit :: "CurrentUser \<Rightarrow> string \<Rightarrow> string \<Rightarrow> int \<Rightarrow> int \<Rightarrow> unit gtx" where
  "debit user kind jobId costCredits now =
     tx_bind (insert_ledger \<lparr>cl_user_id = user_id user, cl_delta_credits = - costCredits, cl_reason = ''modal '' @ kind,
       cl_source_kind = ''job'', cl_source_id = Some jobId, cl_idempotency_key = Some (jobId @ '':debit''), cl_created_at = now\<rparr>) (\<lambda>inserted.
     if \<not> inserted then tx_return ()
     else
     tx_bind (add_balance (user_id user) (- costCredits)) (\<lambda>_.
     recordUsageEvent (Some user) ''job.credit-debit'' (Some ''modal'')
       (JObj [(''jobId'', JStr jobId), (''kind'', JStr kind)]) (Some costCredits) (Some (jobId @ '':usage-debit''))))"

definition store_queued ::
  "proc_env \<Rightarrow> string \<Rightarrow> int \<Rightarrow> CurrentUser \<Rightarrow> CreateJobInput \<Rightarrow> string option \<Rightarrow> jsval \<Rightarrow> int \<Rightarrow> ObservabilityFields \<Rightarrow> JobRecord gtx" where
  "store_queued penv newId now user input key payload costCredits obs =
     tx_bind (if provider_of input = Modal then assertModalJobQuota penv now costCredits key else tx_return ()) (\<lambda>_.
     tx_bind (upsert_job (job_row newId now user (ji_kind input) (provider_of input) key payload costCredits
         (jobTimeoutSeconds (ji_kind input) payload) obs)) (\<lambda>stored.
     case stored of
       None \<Rightarrow> tx_throw keyClash
     | Some row \<Rightarrow>
         tx_bind (if jb_id row = newId \<and> 0 < costCredits then debit user (ji_kind input) (jb_id row) costCredits now
                  else tx_return ()) (\<lambda>_.
         tx_return (mapCreated row))))"

definition store_fixture ::
  "(string \<Rightarrow> jsval \<Rightarrow> jsval) \<Rightarrow> (JobRecord \<Rightarrow> jsval option gtx) \<Rightarrow> string \<Rightarrow> int \<Rightarrow> CurrentUser \<Rightarrow> CreateJobInput \<Rightarrow> string option
     \<Rightarrow> jsval \<Rightarrow> int \<Rightarrow> ObservabilityFields \<Rightarrow> JobRecord gtx" where
  "store_fixture fixtureOutput materialize newId now user input key payload costCredits obs =
     tx_bind (upsert_job ((job_row newId now user (ji_kind input) (provider_of input) key payload costCredits 3600 obs)
         \<lparr>jb_status := JSucceeded, jb_output := fixtureOutput (ji_kind input) payload, jb_started_at := Some now,
          jb_finished_at := Some now\<rparr>)) (\<lambda>stored.
     case stored of
       None \<Rightarrow> tx_throw keyClash
     | Some row \<Rightarrow>
         let job = mapCreated row in
         if jb_id row \<noteq> newId then tx_return job
         else tx_bind (materialize job) (\<lambda>persisted.
              tx_return (case persisted of None \<Rightarrow> job | Some v \<Rightarrow> job\<lparr>jr_output := v\<rparr>)))"

record job_params =
  jp_sha :: "string \<Rightarrow> string"
  jp_penv :: proc_env
  jp_fixtureOutput :: "string \<Rightarrow> jsval \<Rightarrow> jsval"
  jp_shaBytes :: "nat list \<Rightarrow> string"
  jp_writer :: "PolicyObjectWriter option"
  jp_blobId :: string
  jp_rowId :: string
  jp_newId :: string
  jp_trace :: string
  jp_now :: int
  jp_observability :: "JobObservabilityContext option"

definition job_artifacts :: "job_params \<Rightarrow> artifact_params" where
  "job_artifacts ps =
     \<lparr>ap_sha = jp_sha ps, ap_shaBytes = jp_shaBytes ps, ap_writer = jp_writer ps, ap_bucket = objectBucket (jp_penv ps),
      ap_blobId = jp_blobId ps, ap_rowId = jp_rowId ps, ap_now = jp_now ps\<rparr>"

definition createJobUnchecked :: "job_params \<Rightarrow> CurrentUser \<Rightarrow> CreateJobInput \<Rightarrow> JobRecord gtx" where
  "createJobUnchecked ps user input =
     tx_bind (authoritative_payload (jp_sha ps) user input) (\<lambda>payload.
     let key = map_option (scopedJobIdempotencyKey (jp_sha ps) (user_id user)) (ji_idempotencyKey input);
         costCredits = (if provider_of input = Modal then 1 else 0) in
     tx_bind (tx_guard (ji_kind input = ''commerce.vendor-refresh'' \<longrightarrow> envConfigured (jp_penv ps) [''FORGE_VENDOR_REFRESH_CMD''])
       (HttpError 409 ''commerce vendor refresh worker is not configured'')) (\<lambda>_.
     tx_bind (tx_lift (jobObservabilityContext (jp_trace ps) (jp_observability ps))) (\<lambda>obs.
     tx_bind (assertHardwareGateForJob (jp_penv ps) (ji_kind input) (provider_of input) payload) (\<lambda>_.
     tx_bind (ensureCreditAccount user) (\<lambda>_.
     if provider_of input \<noteq> Fixture
     then store_queued (jp_penv ps) (jp_newId ps) (jp_now ps) user input key payload costCredits obs
     else store_fixture (jp_fixtureOutput ps) (materializeJobOutput (job_artifacts ps) user) (jp_newId ps) (jp_now ps) user input key payload costCredits obs)))))"

section \<open>createJob\<close>

definition photoscan_kind :: "string \<Rightarrow> bool" where
  "photoscan_kind kind \<longleftrightarrow> kind = ''photoscan.single'' \<or> kind = ''photoscan.multiview''"

definition job_requirements :: "CreateJobInput \<Rightarrow> ConsentRequirement list" where
  "job_requirements input =
     (if photoscan_kind (ji_kind input)
      then map (\<lambda>i. \<lparr>cq_purpose = PhotoscanProcessing, cq_subjectKind = ObjectBlobSubject, cq_subjectId = i\<rparr>)
             (sourceBlobIdsFromPayload (ji_payload input)) else [])
     @ (if ji_kind input = ''train.policy'' \<or> ji_kind input = ''train.offline-bc''
        then map (\<lambda>i. \<lparr>cq_purpose = TrainingReuse, cq_subjectKind = TelemetryLogSubject, cq_subjectId = i\<rparr>)
               (telemetryLogIdsFromPayload (ji_payload input)) else [])"

definition source_count_ok :: "CreateJobInput \<Rightarrow> bool" where
  "source_count_ok input \<longleftrightarrow>
     (let n = length (sourceBlobIdsFromPayload (ji_payload input)) in
      (ji_kind input = ''photoscan.single'' \<longrightarrow> n = 1) \<and> (ji_kind input = ''photoscan.multiview'' \<longrightarrow> 2 \<le> n))"

definition job_payload_limits :: JsonLimits where
  "job_payload_limits = no_limits\<lparr>jl_maxBytes := Some (512 * 1024), jl_maxDepth := Some 16, jl_maxNodes := Some 20000\<rparr>"

definition check_job_input :: "proc_env \<Rightarrow> CreateJobInput \<Rightarrow> gw_error + unit" where
  "check_job_input penv input =
     bindE (assertBoundedJson (empty_if_null (ji_payload input)) ''job payload'' job_payload_limits) (\<lambda>_.
     bindE (guardE (case ji_idempotencyKey input of None \<Rightarrow> True | Some key \<Rightarrow> 1 \<le> length key \<and> length key \<le> 200)
       (bad_job ''job idempotency key is outside the supported range'')) (\<lambda>_.
     bindE (if provider_of input = Modal
            then bindE (assertModalProviderConfigured penv (ji_kind input)) (\<lambda>_. assertModalTrainingPayload input)
            else Inr ()) (\<lambda>_.
     bindE (if ji_kind input = ''commerce.vendor-refresh'' then assertCommerceVendorRefreshJob input else Inr ()) (\<lambda>_.
     bindE (if ji_kind input = ''train.offline-bc'' then assertOfflineTrainingJob penv input else Inr ()) (\<lambda>_.
     guardE (source_count_ok input) (bad_job (ji_kind input @ '' requires explicit owned sourceBlobIds'')))))))"

definition createJob :: "job_params \<Rightarrow> CurrentUser \<Rightarrow> CreateJobInput \<Rightarrow> JobRecord gtx" where
  "createJob ps user input =
     tx_bind (tx_lift (check_job_input (jp_penv ps) input)) (\<lambda>_.
     if job_requirements input \<noteq> []
     then withActiveConsents (jp_sha ps) user (job_requirements input) (createJobUnchecked ps user input)
     else if (ji_kind input = ''train.policy'' \<and> provider_of input = Fixture) \<or> provider_of input = Modal
     then withGatewayTransaction (createJobUnchecked ps user input)
     else createJobUnchecked ps user input)"

section \<open>Reading\<close>

definition owned_job :: "string \<Rightarrow> string \<Rightarrow> gateway_db \<Rightarrow> JobRow option" where
  "owned_job jobId userId db = find (\<lambda>j. jb_owner_user_id j = Some userId \<and> jb_id j = jobId) (jobs db)"

definition getOwnedJob :: "CurrentUser \<Rightarrow> string \<Rightarrow> JobRecord option gtx" where
  "getOwnedJob user jobId = tx_gets (\<lambda>db. map_option mapJob (owned_job jobId (user_id user) db))"

definition listJobs :: "CurrentUser \<Rightarrow> nat \<Rightarrow> JobRecord list gtx" where
  "listJobs user maxRows =
     tx_gets (\<lambda>db. map mapJob (take maxRows (rev (sort_key jb_created_at
       (filter (\<lambda>j. jb_owner_user_id j = Some (user_id user)) (jobs db))))))"

record JobEventRecord =
  jv_id :: nat
  jv_jobId :: string
  jv_event :: string
  jv_payload :: jsval
  jv_createdAt :: int

definition mapJobEvent :: "string \<Rightarrow> JobEventRow \<Rightarrow> JobEventRecord" where
  "mapJobEvent jobId row =
     \<lparr>jv_id = je_id row, jv_jobId = jobId, jv_event = je_event row, jv_payload = je_payload row, jv_createdAt = je_created_at row\<rparr>"

definition listJobEvents :: "CurrentUser \<Rightarrow> string \<Rightarrow> nat \<Rightarrow> JobEventRecord list gtx" where
  "listJobEvents user jobId maxRows =
     tx_gets (\<lambda>db. case owned_job jobId (user_id user) db of
        None \<Rightarrow> []
      | Some j \<Rightarrow> map (mapJobEvent jobId) (take maxRows (sort_key je_created_at (sort_key je_id (jb_events j)))))"

section \<open>Cancellation\<close>

definition refundable :: "JobRow \<Rightarrow> bool" where
  "refundable row \<longleftrightarrow> jb_provider row = Modal \<and> 0 < jb_cost_credits row \<and> (jb_output row = JNull \<or> jb_output row = JUndef)
     \<and> jb_credit_refunded_at row = None"

definition refund_job :: "CurrentUser \<Rightarrow> string \<Rightarrow> int \<Rightarrow> int \<Rightarrow> unit gtx" where
  "refund_job user jobId costCredits now =
     tx_bind (insert_ledger \<lparr>cl_user_id = user_id user, cl_delta_credits = costCredits,
       cl_reason = ''provider-cancelled-before-materialization'', cl_source_kind = ''job'', cl_source_id = Some jobId,
       cl_idempotency_key = Some (jobId @ '':refund''), cl_created_at = now\<rparr>) (\<lambda>inserted.
     if \<not> inserted then tx_return ()
     else
     tx_bind (add_balance (user_id user) costCredits) (\<lambda>_.
     recordUsageEvent (Some user) ''job.credit-refund'' (Some ''modal'')
       (JObj [(''jobId'', JStr jobId), (''reason'', JStr ''provider-cancelled-before-materialization'')])
       (Some (- costCredits)) (Some (jobId @ '':usage-refund''))))"

definition cancel_attempt :: "int \<Rightarrow> int \<Rightarrow> JobAttemptRow \<Rightarrow> JobAttemptRow" where
  "cancel_attempt now attempt a =
     (if ja_attempt a = attempt \<and> ja_outcome a = ''running''
      then a\<lparr>ja_outcome := ''cancelled'', ja_error_code := Some ''owner-cancelled'', ja_finished_at := Some now\<rparr> else a)"

definition cancel_call :: "string \<Rightarrow> ProviderCallRow \<Rightarrow> ProviderCallRow" where
  "cancel_call callId c =
     (if pc_call_id c = callId \<and> pc_status c = ''submitted'' then c\<lparr>pc_status := ''cancellation-requested''\<rparr> else c)"

definition cancelled_row :: "int \<Rightarrow> bool \<Rightarrow> JobRow \<Rightarrow> JobRow" where
  "cancelled_row now refund row =
     row\<lparr>jb_status := JCancelled, jb_error := Some ''cancelled by owner'', jb_last_error_code := Some ''owner-cancelled'',
         jb_cancel_requested_at := Some (or_else (jb_cancel_requested_at row) now),
         jb_credit_refunded_at := (if refund then Some (or_else (jb_credit_refunded_at row) now) else jb_credit_refunded_at row),
         jb_finished_at := Some now, jb_lease_token := None, jb_lease_expires_at := None\<rparr>"

definition cancelled_children :: "int \<Rightarrow> nat \<Rightarrow> bool \<Rightarrow> JobRow \<Rightarrow> JobRow \<Rightarrow> JobRow" where
  "cancelled_children now eventId refund row j =
     j\<lparr>jb_attempt_log := (if jb_status row = JRunning then map (cancel_attempt now (jb_attempts row)) (jb_attempt_log j) else jb_attempt_log j),
       jb_provider_calls := (case pf_call_id (jb_provider_fields row) of
          None \<Rightarrow> jb_provider_calls j
        | Some callId \<Rightarrow> if callId = [] then jb_provider_calls j else map (cancel_call callId) (jb_provider_calls j)),
       jb_events := jb_events j @ [\<lparr>je_id = eventId, je_event = ''cancelled'',
          je_payload = JObj [(''reason'', JStr ''owner-cancelled''), (''creditRefunded'', JBool refund)], je_created_at = now\<rparr>]\<rparr>"

definition cancel_in :: "int \<Rightarrow> bool \<Rightarrow> CurrentUser \<Rightarrow> string \<Rightarrow> JobRow \<Rightarrow> gateway_db \<Rightarrow> gateway_db" where
  "cancel_in now refund user jobId row db =
     db\<lparr>jobs := map (\<lambda>j. if jb_owner_user_id j = Some (user_id user) \<and> jb_id j = jobId
          then cancelled_children now (job_event_sequence db) refund row (cancelled_row now refund j) else j) (jobs db),
        job_event_sequence := Suc (job_event_sequence db)\<rparr>"

definition cancelOwnedJob :: "int \<Rightarrow> CurrentUser \<Rightarrow> string \<Rightarrow> JobRecord gtx" where
  "cancelOwnedJob now user jobId =
     withGatewayTransaction (
       tx_bind (tx_gets (owned_job jobId (user_id user))) (\<lambda>current.
       case current of
         None \<Rightarrow> tx_throw (HttpError 404 ''job not found'')
       | Some row \<Rightarrow>
           if jb_status row = JCancelled then tx_return (mapJob row)
           else if \<not> active_job row
           then tx_throw (HttpError 409 ''only queued or running jobs can be cancelled'')
           else
           tx_bind (if refundable row then refund_job user jobId (jb_cost_credits row) now else tx_return ()) (\<lambda>_.
           tx_bind (tx_modify (cancel_in now (refundable row) user jobId row)) (\<lambda>_.
           tx_return (mapJob (cancelled_row now (refundable row) row))))))"

end
