(* ===== verification/Model_Claims.thy ===== *)
theory Model_Claims
  imports Models Jobs Tx_Relations
begin

text \<open>
  Properties of the model registry: hashes and statuses are those of the stored contracts and reports
  in every history, snapshots are admitted and never change, and jobs that name a model find its
  storage consistent.
\<close>

section \<open>Histories\<close>

text \<open>Runs of the registry: models are inserted (by hand, by the validator route or by the generator), edited
  while other runs interleave, shared; everything else leaves the two tables alone.\<close>

inductive model_run :: "(string \<Rightarrow> string) \<Rightarrow> gateway_db \<Rightarrow> gateway_db \<Rightarrow> bool" for sha where
  stay: "model_run sha s s"
| seq: "model_run sha s t \<Longrightarrow> model_run sha t u \<Longrightarrow> model_run sha s u"
| insert: "insertModel sha newId now user input s = (r, t) \<Longrightarrow> model_run sha s t"
| create: "createModel sha rv parse newId now user contract asDraft s = (r', t) \<Longrightarrow> model_run sha s t"
| edit: "(\<And>x. model_run sha x (env x)) \<Longrightarrow> editModel sha rv rp env now nowText user modelId prompt s = (r'', t) \<Longrightarrow> model_run sha s t"
| share: "shareModel newId now user modelId s = (r''', t) \<Longrightarrow> model_run sha s t"
| elsewhere: "model_registry t = model_registry s \<Longrightarrow> share_snapshots t = share_snapshots s \<Longrightarrow> model_run sha s t"

text \<open>A relation between states that the three elementary operations keep holds along every run.\<close>

locale registry_rel = tx_rel R for R :: "gateway_db \<Rightarrow> gateway_db \<Rightarrow> bool" +
  fixes sha :: "string \<Rightarrow> string"
  assumes R_insert: "keeps R (insertModel sha newId now user input)"
    and R_update: "keeps R (updateModelContract sha now modelId contract report lineage)"
    and R_share: "keeps R (shareModel newId now user modelId)"
    and R_elsewhere: "model_registry t = model_registry s \<Longrightarrow> share_snapshots t = share_snapshots s \<Longrightarrow> R s t"
begin

lemma R_create: "keeps R (createModel sha rv parse newId now user contract asDraft)"
  unfolding createModel_def Let_def by (intro keeps_intros R_insert)

lemma R_edit: "(\<And>s. R s (env s)) \<Longrightarrow> keeps R (editModel sha rv rp env now nowText user modelId prompt)"
  unfolding editModel_def getOwnedModel_def Let_def by (intro keeps_intros R_update)

lemma model_run_R: "model_run sha s t \<Longrightarrow> R s t"
proof (induction rule: model_run.induct)
  case (stay s)
  show ?case by (rule R_refl)
next
  case (seq s t u)
  then show ?case by (blast intro: R_trans)
next
  case (insert newId now user input s r t)
  then show ?case by (rule keepsD [OF R_insert])
next
  case (create rv parse newId now user contract asDraft s r t)
  then show ?case by (rule keepsD [OF R_create])
next
  case (edit env rv rp now nowText user modelId prompt s r t)
  then show ?case using keepsD [OF R_edit] by blast
next
  case (share newId now user modelId s r t)
  then show ?case by (rule keepsD [OF R_share])
next
  case (elsewhere t s)
  then show ?case by (rule R_elsewhere)
qed

end

section \<open>Integrity\<close>

definition model_ok :: "(string \<Rightarrow> string) \<Rightarrow> ModelRow \<Rightarrow> bool" where
  "model_ok sha m \<longleftrightarrow> contractHash sha (mr_contract m) = Inr (mr_contract_hash m) \<and> mr_status m = reportVerdict (mr_validator_report m)"

definition share_ok :: "(string \<Rightarrow> string) \<Rightarrow> ShareRow \<Rightarrow> bool" where
  "share_ok sha r \<longleftrightarrow> contractHash sha (sh_contract r) = Inr (sh_contract_hash r) \<and> reportVerdict (sh_validator_report r) = ''admitted''"

definition registry_ok :: "(string \<Rightarrow> string) \<Rightarrow> gateway_db \<Rightarrow> bool" where
  "registry_ok sha db \<longleftrightarrow> list_all (model_ok sha) (model_registry db) \<and> list_all (share_ok sha) (share_snapshots db)"

definition registry_kept :: "(string \<Rightarrow> string) \<Rightarrow> gateway_db \<Rightarrow> gateway_db \<Rightarrow> bool" where
  "registry_kept sha s t \<longleftrightarrow> (registry_ok sha s \<longrightarrow> registry_ok sha t)"

interpretation registry: tx_rel "registry_kept sha" for sha
  by unfold_locales (auto simp: registry_kept_def)

lemma verdict_nullish [simp]: "reportVerdict (nullish_or v JNull) = reportVerdict v"
  by (auto simp: nullish_or_def reportVerdict_def)

lemma insert_model_kept: "keeps (registry_kept sha) (insertModel sha newId now user input)"
proof -
  have "registry_kept sha s t" if "insertModel sha newId now user input s = (r, t)" for s r t
  proof (cases "contractHash sha (mi_contract input)")
    case (Inl e)
    with that show ?thesis by (simp add: insertModel_def tx_bind_run registry_kept_def)
  next
    case (Inr hash)
    then have "model_ok sha (model_row newId now user input hash)" by (simp add: model_ok_def model_row_def)
    with that Inr show ?thesis
      by (auto simp: insertModel_def tx_bind_run registry_kept_def registry_ok_def insert_row_def insert_unique_def bindE_def
          tx_update_def split: if_splits)
  qed
  then show ?thesis by (simp add: keeps_def)
qed

lemma update_model_kept: "keeps (registry_kept sha) (updateModelContract sha now modelId contract report lineage)"
proof -
  have "keeps (registry_kept sha) (tx_modify (\<lambda>db. db\<lparr>model_registry := map (\<lambda>m. if mr_id m = modelId
      then edited_row now contract report lineage hash m else m) (model_registry db)\<rparr>))"
    if "contractHash sha contract = Inr hash" for hash
    using that by (intro registry.keeps_modify) (auto simp: registry_kept_def registry_ok_def list_all_iff model_ok_def edited_row_def)
  note edit = this
  show ?thesis
  proof (cases "contractHash sha contract")
    case (Inl e)
    then show ?thesis by (auto simp: keeps_def updateModelContract_def tx_bind_run registry_kept_def)
  next
    case (Inr hash)
    have "keeps (registry_kept sha) (tx_bind (tx_modify (\<lambda>db. db\<lparr>model_registry := map (\<lambda>m. if mr_id m = modelId
        then edited_row now contract report lineage hash m else m) (model_registry db)\<rparr>)) (\<lambda>_.
      tx_bind (tx_gets (\<lambda>db. find (\<lambda>m. mr_id m = modelId) (model_registry db))) (\<lambda>row.
      case row of None \<Rightarrow> tx_throw (PlainError ''Cannot read properties of undefined'') | Some m \<Rightarrow> tx_return (mapModel m))))"
      by (intro registry.keeps_bind edit [OF Inr] registry.keeps_read registry.keeps_option)
    with Inr show ?thesis unfolding updateModelContract_def by (simp add: keeps_def tx_bind_def [of "tx_lift _"])
  qed
qed

lemma shareModel_run:
  assumes "shareModel newId now user modelId s = (r, t)"
  shows "t = s \<or> (\<exists>m. owned_model modelId (user_id user) s = Some m \<and> mr_status m = ''admitted''
    \<and> (\<forall>q \<in> set (share_snapshots s). sh_id q \<noteq> newId) \<and> r = Inr (mapShare (share_row newId now user (mapModel m)))
    \<and> t = s\<lparr>share_snapshots := share_snapshots s @ [share_row newId now user (mapModel m)],
            model_registry := map (\<lambda>q. if mr_id q = mr_id m then q\<lparr>mr_visibility := VUnlisted, mr_updated_at := now\<rparr> else q) (model_registry s)\<rparr>)"
proof (cases "owned_model modelId (user_id user) s")
  case None
  with assms show ?thesis by (simp add: shareModel_def getOwnedModel_def tx_bind_run)
next
  case (Some m)
  with assms show ?thesis
    by (cases "mr_status m = ''admitted''")
      (auto simp: shareModel_def getOwnedModel_def tx_bind_run tx_update_def bindE_def insert_row_def insert_unique_def list_ex_iff
        mapModel_def share_row_def mapShare_def split: if_splits)
qed

lemma share_model_kept: "keeps (registry_kept sha) (shareModel newId now user modelId)"
proof -
  have "registry_kept sha s t" if "shareModel newId now user modelId s = (r, t)" for s r t
    using shareModel_run [OF that]
  proof
    assume "\<exists>m. owned_model modelId (user_id user) s = Some m \<and> mr_status m = ''admitted''
    \<and> (\<forall>q \<in> set (share_snapshots s). sh_id q \<noteq> newId) \<and> r = Inr (mapShare (share_row newId now user (mapModel m)))
    \<and> t = s\<lparr>share_snapshots := share_snapshots s @ [share_row newId now user (mapModel m)],
            model_registry := map (\<lambda>q. if mr_id q = mr_id m then q\<lparr>mr_visibility := VUnlisted, mr_updated_at := now\<rparr> else q) (model_registry s)\<rparr>"
    then obtain m where m: "owned_model modelId (user_id user) s = Some m" "mr_status m = ''admitted''"
      and t: "t = s\<lparr>share_snapshots := share_snapshots s @ [share_row newId now user (mapModel m)],
            model_registry := map (\<lambda>q. if mr_id q = mr_id m then q\<lparr>mr_visibility := VUnlisted, mr_updated_at := now\<rparr> else q) (model_registry s)\<rparr>"
      by blast
    have "m \<in> set (model_registry s)" using m(1) by (auto simp: owned_model_def dest: find_SomeD)
    with m(2) show ?thesis
      by (auto simp: t registry_kept_def registry_ok_def list_all_iff model_ok_def share_ok_def share_row_def mapModel_def)
  qed (simp add: registry_kept_def)
  then show ?thesis by (simp add: keeps_def)
qed

interpretation integrity: registry_rel "registry_kept sha" sha for sha
  by unfold_locales (auto intro: insert_model_kept update_model_kept share_model_kept simp: registry_kept_def registry_ok_def)

text \<open>
  C18. The registry in every history: the hash of a stored model is the hash of its contract and its status
  the verdict of its report, every public snapshot holds an admitted contract with its hash, and a job
  request never meets an inconsistent stored model.
\<close>

theorem registry_integrity:
  assumes "model_run sha empty_db db"
  shows "(\<forall>m \<in> set (model_registry db). contractHash sha (mr_contract m) = Inr (mr_contract_hash m)
        \<and> mr_status m = reportVerdict (mr_validator_report m))
    \<and> (\<forall>r \<in> set (share_snapshots db). contractHash sha (sh_contract r) = Inr (sh_contract_hash r)
        \<and> reportVerdict (sh_validator_report r) = ''admitted'')
    \<and> fst (resolve_model sha user input db) \<noteq> Inl (HttpError 500 ''admitted model storage hash is inconsistent'')"
proof -
  have "registry_ok sha empty_db" by (simp add: registry_ok_def empty_db_def)
  with integrity.model_run_R [OF assms] have ok: "registry_ok sha db" by (simp add: registry_kept_def)
  have "sha (stable_text (mr_contract m)) = mr_contract_hash m" if "owned_model i u db = Some m" for i u m
    using that ok unfolding owned_model_def
    by (auto simp: registry_ok_def list_all_iff model_ok_def contractHash_def stable_text_def split: option.splits dest!: find_SomeD)
  then have "fst (resolve_model sha user input db) \<noteq> Inl (HttpError 500 ''admitted model storage hash is inconsistent'')"
    by (auto simp: resolve_model_def assertAdmittedModelReference_def Let_def tx_bind_run model_payload_def bindE_def guardE_def bad_job_def
        split: option.splits if_splits)
  with ok show ?thesis by (auto simp: registry_ok_def list_all_iff model_ok_def share_ok_def)
qed

section \<open>Snapshots\<close>

text \<open>The snapshots of the first state are those of the second, in front of new ones with other identifiers.\<close>

definition shares_kept :: "gateway_db \<Rightarrow> gateway_db \<Rightarrow> bool" where
  "shares_kept s t \<longleftrightarrow> (\<exists>news. share_snapshots t = share_snapshots s @ news)"

interpretation shares: tx_rel shares_kept
  by unfold_locales (auto simp: shares_kept_def)

interpretation snapshots: registry_rel shares_kept sha for sha
proof
  fix newId :: string and now :: int and user input modelId contract report lineage and s t :: gateway_db
  show "keeps shares_kept (insertModel sha newId now user input)"
    by (auto simp: keeps_def insertModel_def tx_bind_run tx_update_def shares_kept_def bindE_def split: sum.splits prod.splits)
  show "keeps shares_kept (updateModelContract sha now modelId contract report lineage)"
    unfolding updateModelContract_def by (intro shares.keeps_intros) (simp add: shares_kept_def)
  show "keeps shares_kept (shareModel newId now user modelId)"
    unfolding keeps_def by (auto simp: shares_kept_def dest!: shareModel_run)
  show "shares_kept s t" if "share_snapshots t = share_snapshots s"
    using that by (simp add: shares_kept_def)
qed


end
