(* ===== verification/Replays.thy ===== *)
theory Replays
  imports Artifacts Tx_Relations
begin

text \<open>
  Replay verification, packages/gateway/src/platform.ts: \<open>verifyReplayTape\<close> checks the frames of a recorded
  tape, its hash and its contract, \<open>insertReplayArtifact\<close> stores the tape with the result.
\<close>

section \<open>Verification\<close>

fun frame_times :: "jsval list \<Rightarrow> jsnum list option" where
  "frame_times [] = Some []"
| "frame_times (frame # frames) =
     (case (if isRecord frame then getProp frame ''t'' else JUndef) of
        JNum t \<Rightarrow> if isFinite t then map_option ((#) t) (frame_times frames) else None
      | _ \<Rightarrow> None)"

text \<open>The times, or the reason for the rejection.\<close>

definition numericFrameTimes :: "jsval \<Rightarrow> jsnum list \<times> string option" where
  "numericFrameTimes tape =
     (if \<not> isRecord tape then ([], Some ''replay.verify requires tape object'')
      else case getProp tape ''frames'' of
        JArr (f # frames) \<Rightarrow>
          (case frame_times (f # frames) of
             None \<Rightarrow> ([], Some ''replay frames must be objects with numeric t'')
           | Some stamps \<Rightarrow> (stamps, None))
      | _ \<Rightarrow> ([], Some ''replay tape requires non-empty frames''))"

fun increasing :: "jsnum list \<Rightarrow> bool" where
  "increasing (a # b # stamps) = (num_lt a b \<and> increasing (b # stamps))"
| "increasing _ = True"

record ReplayVerification =
  rv_verified :: bool
  rv_tamperHash :: "string option"
  rv_frameCount :: nat
  rv_durationS :: jsnum
  rv_header :: jsval
  rv_courseId :: "string option"
  rv_rejectReason :: "string option"

record ReplayOptions =
  ro_expectedHash :: "string option"
  ro_expectedContractHash :: "string option"
  ro_courseId :: "string option"

text \<open>An absent or empty expectation is none.\<close>

definition expected :: "string option \<Rightarrow> string option" where
  "expected t = (if t = Some [] then None else t)"

definition verifyReplayTape :: "(string \<Rightarrow> string) \<Rightarrow> jsval \<Rightarrow> ReplayOptions \<Rightarrow> ReplayVerification" where
  "verifyReplayTape sha tape opts =
     (let (stamps, rejectReason) = numericFrameTimes tape;
          tamperHash = (if rejectReason = None then Some (sha (stable_text tape)) else None);
          header = (if isRecord tape then record_or (getProp tape ''header'') (JObj []) else JObj []);
          expectedHashOk = (expected (ro_expectedHash opts) = None \<or> ro_expectedHash opts = tamperHash);
          expectedContractOk = (case expected (ro_expectedContractHash opts) of
             None \<Rightarrow> True | Some h \<Rightarrow> strict_eq (getProp header ''contractHash'') (JStr h));
          reason = (if rejectReason \<noteq> None then rejectReason
            else if \<not> increasing stamps then Some ''replay timestamps are not strictly increasing''
            else if \<not> expectedHashOk then Some ''replay hash mismatch''
            else if \<not> expectedContractOk then Some ''contract hash mismatch'' else None) in
      \<lparr>rv_verified = (reason = None), rv_tamperHash = tamperHash, rv_frameCount = length stamps,
       rv_durationS = (if stamps \<noteq> [] then num_max (Fin 0) (num_sub (last stamps) (hd stamps)) else Fin 0),
       rv_header = header, rv_courseId = ro_courseId opts, rv_rejectReason = reason\<rparr>)"

section \<open>Storing and listing\<close>

definition verification_json :: "ReplayVerification \<Rightarrow> jsval" where
  "verification_json v = JObj
     [(''artifactKind'', JStr ''replay''), (''verified'', JBool (rv_verified v)), (''tamperHash'', null_or_text (rv_tamperHash v)),
      (''frameCount'', JNum (IntN (int (rv_frameCount v)))), (''durationS'', JNum (rv_durationS v)), (''header'', rv_header v),
      (''courseId'', null_or_text (rv_courseId v)), (''rejectReason'', null_or_text (rv_rejectReason v))]"

definition insertReplayArtifact ::
  "string \<Rightarrow> int \<Rightarrow> CurrentUser \<Rightarrow> jsval \<Rightarrow> ReplayVerification \<Rightarrow> string option \<Rightarrow> (string \<times> ReplayVerification) gtx" where
  "insertReplayArtifact newId now user tape verification modelId =
     tx_bind (check_model_key modelId) (\<lambda>_.
     tx_bind (tx_update (\<lambda>db. bindE (insert_row rp_id
         \<lparr>rp_id = newId, rp_owner_user_id = Some (user_id user), rp_model_id = modelId, rp_tape = nullish_or tape JNull,
          rp_verification = verification_json verification, rp_tamper_hash = rv_tamperHash verification, rp_created_at = now\<rparr>
         (replay_artifacts db)) (\<lambda>rows. Inr (db\<lparr>replay_artifacts := rows\<rparr>)))) (\<lambda>_.
     tx_return (newId, verification)))"

record ReplayArtifactRecord =
  ra_id :: string
  ra_ownerUserId :: "string option"
  ra_modelId :: "string option"
  ra_verification :: jsval
  ra_tamperHash :: "string option"
  ra_createdAt :: int

definition mapReplayArtifact :: "ReplayRow \<Rightarrow> ReplayArtifactRecord" where
  "mapReplayArtifact row =
     \<lparr>ra_id = rp_id row, ra_ownerUserId = rp_owner_user_id row, ra_modelId = rp_model_id row,
      ra_verification = rp_verification row, ra_tamperHash = rp_tamper_hash row, ra_createdAt = rp_created_at row\<rparr>"

definition listReplayArtifacts :: "CurrentUser \<Rightarrow> nat \<Rightarrow> ReplayArtifactRecord list gtx" where
  "listReplayArtifacts user maxRows =
     tx_gets (\<lambda>db. map mapReplayArtifact (take maxRows (rev (sort_key rp_created_at
       (filter (\<lambda>r. rp_owner_user_id r = Some (user_id user)) (replay_artifacts db))))))"

section \<open>What is verified\<close>

text \<open>A frame at a time, and a tape whose frames are at the given times.\<close>

definition frame_at :: "jsval \<Rightarrow> rat \<Rightarrow> bool" where
  "frame_at f t \<longleftrightarrow> isRecord f \<and> getProp f ''t'' = JNum (Fin t)"

definition tape_at :: "jsval \<Rightarrow> rat list \<Rightarrow> bool" where
  "tape_at tape ts \<longleftrightarrow> ts \<noteq> [] \<and> isRecord tape \<and> (\<exists>frames. getProp tape ''frames'' = JArr frames \<and> list_all2 frame_at frames ts)"

lemma frame_times_Some: "frame_times frames = Some stamps \<longleftrightarrow> (\<exists>ts. stamps = map Fin ts \<and> list_all2 frame_at frames ts)"
proof (induction frames arbitrary: stamps)
  case (Cons f frames)
  have "frame_times (f # frames) = Some stamps \<longleftrightarrow> (\<exists>t rest. frame_at f t \<and> frame_times frames = Some rest \<and> stamps = Fin t # rest)"
    by (auto simp: frame_at_def isFinite_def split: jsval.splits jsnum.splits)
  also have "\<dots> \<longleftrightarrow> (\<exists>ts. stamps = map Fin ts \<and> list_all2 frame_at (f # frames) ts)"
    unfolding Cons.IH list_all2_Cons1 by (auto intro: exI [of _ "_ # _"])
  finally show ?case .
qed auto

lemma increasing_sorted: "increasing (map Fin ts) \<longleftrightarrow> sorted_wrt (<) ts"
proof (induction ts rule: induct_list012)
  case (3 a b ts)
  then show ?case by (auto dest: order.strict_trans)
qed auto

lemma numericFrameTimes_ok: "numericFrameTimes tape = (stamps, None) \<longleftrightarrow> (\<exists>ts. stamps = map Fin ts \<and> tape_at tape ts)"
proof -
  have "numericFrameTimes tape = (stamps, None) \<longleftrightarrow>
      isRecord tape \<and> (\<exists>f frames. getProp tape ''frames'' = JArr (f # frames) \<and> frame_times (f # frames) = Some stamps)"
    unfolding numericFrameTimes_def by (auto split: jsval.splits list.splits option.splits simp del: frame_times.simps)
  also have "\<dots> \<longleftrightarrow> (\<exists>ts. stamps = map Fin ts \<and> tape_at tape ts)"
    unfolding frame_times_Some tape_at_def by (auto simp: list_all2_Cons1) (metis list_all2_Cons2 neq_Nil_conv)
  finally show ?thesis .
qed

text \<open>
  A replay is verified exactly when it has frames with finite, strictly increasing times, its hash is
  the expected one and its header names the expected contract, where these are asked for. The hash is
  that of the whole tape.
\<close>

theorem replay_verified_iff:
  "rv_verified (verifyReplayTape sha tape opts) \<longleftrightarrow>
     (\<exists>ts. tape_at tape ts \<and> sorted_wrt (<) ts)
     \<and> (\<forall>h. expected (ro_expectedHash opts) = Some h \<longrightarrow> h = sha (stable_text tape))
     \<and> (\<forall>h. expected (ro_expectedContractHash opts) = Some h \<longrightarrow>
          getProp (record_or (getProp tape ''header'') (JObj [])) ''contractHash'' = JStr h)"
proof -
  obtain stamps reason where n: "numericFrameTimes tape = (stamps, reason)" by (cases "numericFrameTimes tape")
  show ?thesis
  proof (cases reason)
    case None
    with n numericFrameTimes_ok obtain ts where ts: "stamps = map Fin ts" "tape_at tape ts" by blast
    have unique: "ts' = ts" if "tape_at tape ts'" for ts'
    proof -
      have "numericFrameTimes tape = (map Fin ts', None)" using that numericFrameTimes_ok by blast
      with n ts(1) None have "map Fin ts' = map Fin ts" by simp
      then show ?thesis by (simp add: inj_map_eq_map inj_def)
    qed
    have sorted: "increasing stamps \<longleftrightarrow> (\<exists>ts. tape_at tape ts \<and> sorted_wrt (<) ts)"
      unfolding ts(1) increasing_sorted using ts(2) unique by blast
    have "isRecord tape" using ts(2) by (simp add: tape_at_def)
    moreover have "strict_eq v (JStr h) \<longleftrightarrow> v = JStr h" for v h by (cases v) auto
    moreover have "expected (ro_expectedHash opts) = None \<or> ro_expectedHash opts = Some x
        \<longleftrightarrow> (\<forall>h. expected (ro_expectedHash opts) = Some h \<longrightarrow> h = x)" for x
      by (cases "ro_expectedHash opts") (auto simp: expected_def)
    ultimately show ?thesis
      unfolding sorted [symmetric] verifyReplayTape_def n None by (auto simp: Let_def split: option.splits)
  next
    case (Some r)
    then have "\<not> (\<exists>ts. tape_at tape ts)" using n numericFrameTimes_ok [of tape] by auto
    with n Some show ?thesis by (simp add: verifyReplayTape_def Let_def)
  qed
qed

end
