(* ===== verification/Job_Claims.thy ===== *)
theory Job_Claims
  imports Jobs Consent_Claims Tx_Relations
begin

text \<open>
  Properties of jobs and credits: what a stored job went through (consents, hardware gate, quota), that a
  request is stored and charged once, that a cancellation refunds once, and the invariant between the
  accounts, the ledger and the jobs over every history of requests.
\<close>

section \<open>Reads\<close>

text \<open>The tables the checks of a request read.\<close>

definition request_view where
  "request_view db = (model_registry db, telemetry_logs db, platform_gate_signoffs db, users db, object_blobs db, user_consent_events db)"

lemma owned_reads:
  "reads request_view (tx_gets (owned_model i u))" "reads request_view (tx_gets (owned_telemetry i u))"
  "reads request_view (tx_gets (owned_blob i u))" "reads request_view (tx_gets (gate_of k))"
  "reads request_view (tx_gets (latest_consent u p sk i))" "reads request_view (tx_gets (\<lambda>db. list_ex P (users db)))"
  by (rule reads_gets; simp add: request_view_def owned_model_def owned_telemetry_def owned_blob_def gate_of_def latest_consent_def
      consents_of_def)+

lemmas view_intros = reads_basic owned_reads reads_bind reads_if reads_option reads_list reads_forM

lemma resolve_reads:
  "reads request_view (assertAdmittedModelReference user mid surface)" "reads request_view (resolve_model sha user input)"
  "reads request_view (resolve_telemetry sha user payload)" "reads request_view (authoritative_payload sha user input)"
  "reads request_view (assertHardwareGateForJob penv kind provider payload)" "reads jobs (assertModalJobQuota penv now cost key)"
proof -
  show model: "reads request_view (assertAdmittedModelReference user mid surface)" for mid surface
    unfolding assertAdmittedModelReference_def by (intro view_intros)
  show rm: "reads request_view (resolve_model sha user input)"
    unfolding resolve_model_def Let_def by (intro view_intros model)
  show rt: "reads request_view (resolve_telemetry sha user payload)" for payload
    unfolding resolve_telemetry_def by (intro view_intros)
  show "reads request_view (authoritative_payload sha user input)"
    unfolding authoritative_payload_def by (intro view_intros rm rt)
  show "reads request_view (assertHardwareGateForJob penv kind provider payload)"
    unfolding assertHardwareGateForJob_def currentPlatformGate_def by (intro view_intros)
  show "reads jobs (assertModalJobQuota penv now cost key)"
    unfolding assertModalJobQuota_def by (intro reads_intros) (simp_all add: activeJobs_def dailyCredits_def)
qed

lemma consent_reads: "reads request_view (tx_bind (lock_account user) (\<lambda>_. tx_forM rqs (check_requirement sha user)))"
proof -
  have owned: "reads request_view (assertOwnedSubject sha user purpose kind i)" for purpose kind i
    unfolding assertOwnedSubject_def by (cases kind) (auto intro!: view_intros)
  show ?thesis
    unfolding lock_account_def check_requirement_def assertActiveConsent_def by (intro view_intros owned)
qed

lemmas resolve_state = resolve_reads [THEN reads_same]

section \<open>A successful request\<close>

definition job_key :: "job_params \<Rightarrow> CurrentUser \<Rightarrow> CreateJobInput \<Rightarrow> string option" where
  "job_key ps user input = map_option (scopedJobIdempotencyKey (jp_sha ps) (user_id user)) (ji_idempotencyKey input)"

definition job_cost :: "CreateJobInput \<Rightarrow> int" where
  "job_cost input = (if provider_of input = Modal then 1 else 0)"

definition with_account :: "CurrentUser \<Rightarrow> gateway_db \<Rightarrow> gateway_db" where
  "with_account user db = snd (ensureCreditAccount user db)"

lemma ensure_run: "ensureCreditAccount user db = (Inr (), with_account user db)"
  by (simp add: with_account_def ensureCreditAccount_def)

lemma with_account_tables [simp]:
  "jobs (with_account user db) = jobs db" "credit_ledger (with_account user db) = credit_ledger db"
  "usage_events (with_account user db) = usage_events db"
  by (simp_all add: with_account_def ensureCreditAccount_def)

lemma createJobUnchecked_queued:
  assumes "createJobUnchecked ps user input db = (Inr job, db')" "provider_of input \<noteq> Fixture"
  obtains payload obs where "authoritative_payload (jp_sha ps) user input db = (Inr payload, db)"
    "jobObservabilityContext (jp_trace ps) (jp_observability ps) = Inr obs"
    "assertHardwareGateForJob (jp_penv ps) (ji_kind input) (provider_of input) payload db = (Inr (), db)"
    "ji_kind input = ''commerce.vendor-refresh'' \<longrightarrow> envConfigured (jp_penv ps) [''FORGE_VENDOR_REFRESH_CMD'']"
    "store_queued (jp_penv ps) (jp_newId ps) (jp_now ps) user input (job_key ps user input) payload (job_cost input) obs
       (with_account user db) = (Inr job, db')"
proof -
  from assms obtain payload obs s t where "authoritative_payload (jp_sha ps) user input db = (Inr payload, s)"
    "jobObservabilityContext (jp_trace ps) (jp_observability ps) = Inr obs"
    "ji_kind input = ''commerce.vendor-refresh'' \<longrightarrow> envConfigured (jp_penv ps) [''FORGE_VENDOR_REFRESH_CMD'']"
    "assertHardwareGateForJob (jp_penv ps) (ji_kind input) (provider_of input) payload s = (Inr (), t)"
    "store_queued (jp_penv ps) (jp_newId ps) (jp_now ps) user input (job_key ps user input) payload (job_cost input) obs
       (with_account user t) = (Inr job, db')"
    by (auto simp: createJobUnchecked_def txE Let_def ensure_run job_key_def job_cost_def split: if_splits)
  moreover from this have "s = db" "t = s" by (auto dest: resolve_state)
  ultimately show ?thesis using that by blast
qed

lemma withActiveConsents_Inr:
  assumes "withActiveConsents sha user rqs operation db = (Inr x, db')"
  shows "operation db = (Inr x, db')"
    "list_all (\<lambda>rq. isOk (fst (assertActiveConsent sha user (cq_purpose rq) (cq_subjectKind rq) (cq_subjectId rq) db))) rqs"
    "transactional db" "commit_accepted db"
proof -
  from assms obtain u where chk: "tx_forM rqs (check_requirement sha user) db = (Inr (), u)" and op: "operation u = (Inr x, db')"
    and live: "transactional db" "commit_accepted db" by (auto simp: withActiveConsents_def txE)
  from check_requirements_Inr [OF chk] op live show "operation db = (Inr x, db')"
    "list_all (\<lambda>rq. isOk (fst (assertActiveConsent sha user (cq_purpose rq) (cq_subjectKind rq) (cq_subjectId rq) db))) rqs"
    "transactional db" "commit_accepted db" by auto
qed

lemma createJob_Inr:
  assumes "createJob ps user input db = (Inr job, db')"
  shows "check_job_input (jp_penv ps) input = Inr ()" "createJobUnchecked ps user input db = (Inr job, db')"
    "list_all (\<lambda>rq. isOk (fst (assertActiveConsent (jp_sha ps) user (cq_purpose rq) (cq_subjectKind rq) (cq_subjectId rq) db)))
       (job_requirements input)"
proof -
  have "check_job_input (jp_penv ps) input = Inr () \<and> createJobUnchecked ps user input db = (Inr job, db')
     \<and> list_all (\<lambda>rq. isOk (fst (assertActiveConsent (jp_sha ps) user (cq_purpose rq) (cq_subjectKind rq) (cq_subjectId rq) db)))
         (job_requirements input)"
  proof (cases "job_requirements input = []")
    case True
    let ?atomic = "ji_kind input = ''train.policy'' \<and> provider_of input = Fixture \<or> provider_of input = Modal"
    from assms True have chk: "check_job_input (jp_penv ps) input = Inr ()"
      and run: "(if ?atomic then withGatewayTransaction (createJobUnchecked ps user input) else createJobUnchecked ps user input) db = (Inr job, db')"
      by (simp_all add: createJob_def tx_bind_Inr tx_lift_Inr)
    then have "createJobUnchecked ps user input db = (Inr job, db')"
      by (cases ?atomic) (simp_all only: if_True if_False withGatewayTransaction_Inr)
    with chk True show ?thesis by simp
  next
    case False
    with assms have "check_job_input (jp_penv ps) input = Inr ()"
      and run: "withActiveConsents (jp_sha ps) user (job_requirements input) (createJobUnchecked ps user input) db = (Inr job, db')"
      by (auto simp: createJob_def txE)
    with withActiveConsents_Inr(1,2) [OF run] show ?thesis by simp
  qed
  then show "check_job_input (jp_penv ps) input = Inr ()" "createJobUnchecked ps user input db = (Inr job, db')"
    "list_all (\<lambda>rq. isOk (fst (assertActiveConsent (jp_sha ps) user (cq_purpose rq) (cq_subjectKind rq) (cq_subjectId rq) db)))
       (job_requirements input)" by blast+
qed

section \<open>Storing\<close>

lemma upsert_job_Inr:
  "upsert_job row s = (Inr (Some j), t) \<longleftrightarrow>
     (jb_idempotency_key row \<noteq> None \<and> find (\<lambda>q. jb_idempotency_key q = jb_idempotency_key row) (jobs s) = Some j
        \<and> same_request row j \<and> t = s)
   \<or> ((jb_idempotency_key row = None \<or> find (\<lambda>q. jb_idempotency_key q = jb_idempotency_key row) (jobs s) = None)
        \<and> (\<forall>q \<in> set (jobs s). jb_id q \<noteq> jb_id row) \<and> j = row \<and> t = s\<lparr>jobs := jobs s @ [row]\<rparr>)"
  by (auto simp: upsert_job_def list_ex_iff split: option.splits if_splits)

definition new_row :: "job_params \<Rightarrow> CurrentUser \<Rightarrow> CreateJobInput \<Rightarrow> jsval \<Rightarrow> ObservabilityFields \<Rightarrow> JobRow" where
  "new_row ps user input payload obs =
     job_row (jp_newId ps) (jp_now ps) user (ji_kind input) (provider_of input) (job_key ps user input) payload (job_cost input)
       (jobTimeoutSeconds (ji_kind input) payload) obs"

lemma new_row_simps [simp]:
  "jb_id (new_row ps user input payload obs) = jp_newId ps"
  "jb_idempotency_key (new_row ps user input payload obs) = job_key ps user input"
  "jb_owner_user_id (new_row ps user input payload obs) = Some (user_id user)"
  "jb_kind (new_row ps user input payload obs) = ji_kind input"
  "jb_provider (new_row ps user input payload obs) = provider_of input"
  "jb_input (new_row ps user input payload obs) = payload"
  "jb_status (new_row ps user input payload obs) = JQueued"
  "jb_cost_credits (new_row ps user input payload obs) = job_cost input"
  "jb_created_at (new_row ps user input payload obs) = jp_now ps"
  by (simp_all add: new_row_def job_row_def)

lemma store_queued_Inr:
  assumes "store_queued (jp_penv ps) (jp_newId ps) (jp_now ps) user input (job_key ps user input) payload (job_cost input) obs s
     = (Inr job, db')"
  obtains row t where "provider_of input = Modal \<longrightarrow> assertModalJobQuota (jp_penv ps) (jp_now ps) (job_cost input) (job_key ps user input) s = (Inr (), s)"
    "upsert_job (new_row ps user input payload obs) s = (Inr (Some row), t)" "job = mapCreated row"
    "(if jb_id row = jp_newId ps \<and> 0 < job_cost input then debit user (ji_kind input) (jb_id row) (job_cost input) (jp_now ps) else tx_return ()) t
       = (Inr (), db')"
proof -
  let ?quota = "if provider_of input = Modal then assertModalJobQuota (jp_penv ps) (jp_now ps) (job_cost input) (job_key ps user input) else tx_return ()"
  from assms obtain u row t where q: "?quota s = (Inr (), u)"
    and "upsert_job (new_row ps user input payload obs) u = (Inr (Some row), t)" "job = mapCreated row"
    "(if jb_id row = jp_newId ps \<and> 0 < job_cost input then debit user (ji_kind input) (jb_id row) (job_cost input) (jp_now ps) else tx_return ()) t
       = (Inr (), db')"
    unfolding store_queued_def by (auto simp: tx_bind_Inr new_row_def split: option.splits)
  moreover have u: "u = s" using q by (auto split: if_splits dest: resolve_state)
  moreover have "provider_of input = Modal \<longrightarrow>
      assertModalJobQuota (jp_penv ps) (jp_now ps) (job_cost input) (job_key ps user input) s = (Inr (), s)"
    using q u by (simp split: if_splits)
  ultimately show ?thesis using that by metis
qed

lemma createJob_queued:
  assumes "createJob ps user input db = (Inr job, db')" "provider_of input \<noteq> Fixture"
  obtains payload obs row t where "authoritative_payload (jp_sha ps) user input db = (Inr payload, db)"
    "assertHardwareGateForJob (jp_penv ps) (ji_kind input) (provider_of input) payload db = (Inr (), db)"
    "jobObservabilityContext (jp_trace ps) (jp_observability ps) = Inr obs"
    "provider_of input = Modal \<longrightarrow>
       assertModalJobQuota (jp_penv ps) (jp_now ps) (job_cost input) (job_key ps user input) (with_account user db) = (Inr (), with_account user db)"
    "upsert_job (new_row ps user input payload obs) (with_account user db) = (Inr (Some row), t)" "job = mapCreated row"
    "(if jb_id row = jp_newId ps \<and> 0 < job_cost input then debit user (ji_kind input) (jb_id row) (job_cost input) (jp_now ps) else tx_return ()) t
       = (Inr (), db')"
proof -
  obtain payload obs where 1: "authoritative_payload (jp_sha ps) user input db = (Inr payload, db)"
    "jobObservabilityContext (jp_trace ps) (jp_observability ps) = Inr obs"
    "assertHardwareGateForJob (jp_penv ps) (ji_kind input) (provider_of input) payload db = (Inr (), db)"
    and 2: "store_queued (jp_penv ps) (jp_newId ps) (jp_now ps) user input (job_key ps user input) payload (job_cost input) obs
       (with_account user db) = (Inr job, db')"
    by (rule createJobUnchecked_queued [OF createJob_Inr(2) [OF assms(1)] assms(2)])
  show ?thesis by (rule store_queued_Inr [OF 2]) (rule that [OF 1(1,3,2)])
qed

section \<open>What a job went through\<close>

lemma hardware_gate_Inr:
  assumes "assertHardwareGateForJob penv kind provider payload db = (Inr (), db)" "hardwareTouchingJob kind provider payload"
  shows "provider = Local" "\<exists>rig. rigIdFrom payload = Some rig \<and> rig \<in> set D12_RIG_ALLOWLIST" "envEnabled penv ''FORGE_HARDWARE_LAB_MODE''"
    "pg_status (gate_of ''d28.hardware'' db) = GAccepted" "pg_revokedAt (gate_of ''d28.hardware'' db) = None"
  using assms
  by (auto simp: assertHardwareGateForJob_def currentPlatformGate_def split: if_splits option.splits)

lemma gate_of_key [simp]: "pg_gateKey (gate_of key db) = key"
proof (cases "latest_by gs_created_at (filter (\<lambda>r. gs_gate_key r = key) (platform_gate_signoffs db))")
  case (Some r)
  from latest_by_in [OF this] have "gs_gate_key r = key" by auto
  with Some show ?thesis by (simp add: gate_of_def mapPlatformGate_def)
qed (simp add: gate_of_def defaultGate_def)

lemma capabilities_lab_mode:
  "\<exists>caps. jobCapabilities penv db = (Inr caps, db)
     \<and> (cap_labMode caps \<longleftrightarrow> pg_status (gate_of ''d28.hardware'' db) = GAccepted \<and> pg_revokedAt (gate_of ''d28.hardware'' db) = None
          \<and> envEnabled penv ''FORGE_HARDWARE_LAB_MODE'')"
  by (auto simp: jobCapabilities_def listPlatformGates_def PLATFORM_GATE_KEYS_def hardware_accepted_def Let_def)

text \<open>
  C14. A live job that touches hardware is stored only for the local provider, for one of the two reference
  rigs, and in a state in which the capabilities report lab mode: the hardware gate is accepted and not
  revoked, and lab mode is enabled in the environment.
\<close>

theorem hardware_job_gated:
  assumes "createJob ps user input db = (Inr job, db')" "provider_of input \<noteq> Fixture"
  shows "\<exists>payload caps. authoritative_payload (jp_sha ps) user input db = (Inr payload, db)
    \<and> jobCapabilities (jp_penv ps) db = (Inr caps, db)
    \<and> (hardwareTouchingJob (ji_kind input) (provider_of input) payload \<longrightarrow>
         provider_of input = Local \<and> cap_labMode caps \<and> (\<exists>rig. rigIdFrom payload = Some rig \<and> rig \<in> set D12_RIG_ALLOWLIST))"
proof -
  obtain payload where p: "authoritative_payload (jp_sha ps) user input db = (Inr payload, db)"
    and gate: "assertHardwareGateForJob (jp_penv ps) (ji_kind input) (provider_of input) payload db = (Inr (), db)"
    by (rule createJob_queued [OF assms])
  obtain caps where caps: "jobCapabilities (jp_penv ps) db = (Inr caps, db)"
    and lab: "cap_labMode caps \<longleftrightarrow> pg_status (gate_of ''d28.hardware'' db) = GAccepted \<and> pg_revokedAt (gate_of ''d28.hardware'' db) = None
          \<and> envEnabled (jp_penv ps) ''FORGE_HARDWARE_LAB_MODE''"
    using capabilities_lab_mode by blast
  from p caps lab hardware_gate_Inr [OF gate] show ?thesis by blast
qed

text \<open>
  C15. A photoscan job is stored only when its source objects, one for a single view and at least two for
  several views, each have an active processing consent in the state the job is stored in; a training
  job only when every telemetry log it names has an active consent for training reuse.
\<close>

theorem job_requires_consents:
  assumes "createJob ps user input db = (Inr job, db')"
  shows "(photoscan_kind (ji_kind input) \<longrightarrow>
      sourceBlobIdsFromPayload (ji_payload input) \<noteq> []
      \<and> list_all (\<lambda>i. isOk (fst (assertActiveConsent (jp_sha ps) user PhotoscanProcessing ObjectBlobSubject i db)))
          (sourceBlobIdsFromPayload (ji_payload input)))
    \<and> (ji_kind input = ''train.policy'' \<or> ji_kind input = ''train.offline-bc'' \<longrightarrow>
        list_all (\<lambda>i. isOk (fst (assertActiveConsent (jp_sha ps) user TrainingReuse TelemetryLogSubject i db)))
          (telemetryLogIdsFromPayload (ji_payload input)))"
proof -
  note run = createJob_Inr [OF assms]
  from run(1) have "source_count_ok input" by (simp add: check_job_input_def resE)
  then have "photoscan_kind (ji_kind input) \<longrightarrow> sourceBlobIdsFromPayload (ji_payload input) \<noteq> []"
    by (auto simp: source_count_ok_def photoscan_kind_def)
  with run(3) show ?thesis by (auto simp: job_requirements_def list.pred_map comp_def split: if_splits)
qed

section \<open>What the credit operations change\<close>

definition credit_frame :: "gateway_db \<Rightarrow> gateway_db \<Rightarrow> bool" where
  "credit_frame s t \<longleftrightarrow>
     t = s\<lparr>credit_accounts := credit_accounts t, credit_ledger := credit_ledger t, usage_events := usage_events t\<rparr>"

interpretation credit_frame: tx_rel credit_frame
proof
  show "credit_frame s s" for s by (simp add: credit_frame_def)
  show "credit_frame s u" if "credit_frame s t" "credit_frame t u" for s t u
    using that unfolding credit_frame_def by (cases s; cases t; cases u) simp
qed

lemma insert_ledger_Inr:
  "insert_ledger row s = (Inr b, t) \<longleftrightarrow>
     (if cl_idempotency_key row \<noteq> None \<and> (\<exists>r \<in> set (credit_ledger s). cl_idempotency_key r = cl_idempotency_key row)
      then \<not> b \<and> t = s else b \<and> t = s\<lparr>credit_ledger := credit_ledger s @ [row]\<rparr>)"
  by (auto simp: insert_ledger_def list_ex_iff)

lemma credit_ops_frame:
  "keeps credit_frame (insert_ledger row)" "keeps credit_frame (add_balance u d)"
  "keeps credit_frame (recordUsageEvent who k p us c key)" "keeps credit_frame (ensureCreditAccount user)"
  by (auto simp: keeps_def credit_frame_def insert_ledger_def add_balance_def recordUsageEvent_def ensureCreditAccount_def split: if_splits)

lemma debit_frame: "keeps credit_frame (debit user kind jobId cost now)" "keeps credit_frame (refund_job user jobId cost now)"
  unfolding debit_def refund_job_def by (intro credit_frame.keeps_intros credit_ops_frame)+

lemma credit_frame_jobs: "credit_frame s t \<Longrightarrow> jobs t = jobs s"
  by (metis credit_frame_def gateway_db.select_convs(7) gateway_db.surjective gateway_db.update_convs(24-26))

section \<open>Quotas\<close>

definition keys_unique :: "gateway_db \<Rightarrow> bool" where
  "keys_unique db \<longleftrightarrow> distinct (filter (\<lambda>k. k \<noteq> None) (map jb_idempotency_key (jobs db)))"

lemma distinct_keys_count:
  "distinct (filter (\<lambda>k. k \<noteq> None) (map key xs)) \<Longrightarrow> K \<noteq> None \<Longrightarrow> length (filter (\<lambda>j. P j \<and> key j = K) xs) \<le> 1"
proof (induction xs)
  case (Cons x xs)
  show ?case
  proof (cases "P x \<and> key x = K")
    case True
    with Cons.prems have "K \<notin> set (filter (\<lambda>k. k \<noteq> None) (map key xs))" by auto
    with Cons.prems(2) have "filter (\<lambda>j. P j \<and> key j = K) xs = []" by (force simp: filter_empty_conv)
    with True show ?thesis by simp
  next
    case False
    with Cons show ?thesis by (auto split: if_splits)
  qed
qed simp

lemma active_split:
  assumes "keys_unique db" "key \<noteq> None"
  shows "activeJobs None db \<le> activeJobs key db + 1"
proof -
  let ?P = "\<lambda>j. jb_provider j = Modal \<and> active_job j"
  have split: "length (filter P xs) = length (filter (\<lambda>j. P j \<and> jb_idempotency_key j \<noteq> key) xs)
      + length (filter (\<lambda>j. P j \<and> jb_idempotency_key j = key) xs)" for P and xs :: "JobRow list"
    by (induction xs) auto
  have "(\<lambda>j. counts_for_quota key j \<and> active_job j) = (\<lambda>j. ?P j \<and> jb_idempotency_key j \<noteq> key)"
    "(\<lambda>j. counts_for_quota None j \<and> active_job j) = ?P"
    using assms(2) by (auto simp: counts_for_quota_def)
  with distinct_keys_count [OF assms(1) [unfolded keys_unique_def] assms(2), of ?P] split [of ?P "jobs db"]
  show ?thesis unfolding activeJobs_def by simp
qed

lemma assertModalJobQuota_Inr:
  "assertModalJobQuota penv now cost key s = (Inr (), t) \<Longrightarrow>
     \<exists>maxActive limit. modalQuota penv ''FORGE_MODAL_MAX_ACTIVE_JOBS'' 1 = Inr maxActive
       \<and> modalQuota penv ''FORGE_MODAL_DAILY_CREDIT_LIMIT'' 10 = Inr limit
       \<and> activeJobs key s < maxActive \<and> dailyCredits key now s + cost \<le> limit"
  by (auto simp: assertModalJobQuota_def tx_bind_Inr tx_lift_Inr split: if_splits)

lemma quota_cong:
  "jobs s = jobs t \<Longrightarrow> activeJobs key s = activeJobs key t"
  "jobs s = jobs t \<Longrightarrow> dailyCredits key now s = dailyCredits key now t"
  by (simp_all add: activeJobs_def dailyCredits_def)

lemma active_fresh_key:
  assumes "\<forall>j \<in> set (jobs db). key = None \<or> jb_idempotency_key j \<noteq> key"
  shows "activeJobs key db = activeJobs None db"
  unfolding activeJobs_def using assms
  by (intro arg_cong [where f = "\<lambda>xs. int (length xs)"] filter_cong) (auto simp: counts_for_quota_def)

lemma active_snoc:
  "jobs t = jobs s @ [row] \<Longrightarrow> jb_provider row = Modal \<Longrightarrow> jb_status row = JQueued \<Longrightarrow> activeJobs None t = activeJobs None s + 1"
  by (simp add: activeJobs_def counts_for_quota_def active_job_def)

lemma debit_jobs:
  "(if b then debit user kind jobId cost now else tx_return ()) t = (Inr (), db') \<Longrightarrow> jobs db' = jobs t"
  by (auto split: if_splits dest: keepsD [OF debit_frame(1), THEN credit_frame_jobs])

text \<open>
  C13. Modal quotas. Idempotency keys of jobs being unique, a request for the Modal provider that succeeds
  leaves at most the configured number of active Modal jobs, whether it stored a new job or found its
  own, and the credits of the day, with the cost of the job, stay within the configured limit.
\<close>

theorem modal_quota_respected:
  assumes run: "createJob ps user input db = (Inr job, db')" and modal: "provider_of input = Modal" and keys: "keys_unique db"
  shows "\<exists>maxActive limit. modalQuota (jp_penv ps) ''FORGE_MODAL_MAX_ACTIVE_JOBS'' 1 = Inr maxActive
    \<and> modalQuota (jp_penv ps) ''FORGE_MODAL_DAILY_CREDIT_LIMIT'' 10 = Inr limit
    \<and> activeJobs None db' \<le> maxActive \<and> dailyCredits (job_key ps user input) (jp_now ps) db + job_cost input \<le> limit"
proof -
  let ?key = "job_key ps user input"
  obtain payload obs row t where quota: "assertModalJobQuota (jp_penv ps) (jp_now ps) (job_cost input) ?key (with_account user db) = (Inr (), with_account user db)"
    and up: "upsert_job (new_row ps user input payload obs) (with_account user db) = (Inr (Some row), t)"
    and db': "(if jb_id row = jp_newId ps \<and> 0 < job_cost input then debit user (ji_kind input) (jb_id row) (job_cost input) (jp_now ps) else tx_return ()) t
       = (Inr (), db')"
    by (rule createJob_queued [OF run]) (use modal in simp_all)
  obtain maxActive limit where conf: "modalQuota (jp_penv ps) ''FORGE_MODAL_MAX_ACTIVE_JOBS'' 1 = Inr maxActive"
    "modalQuota (jp_penv ps) ''FORGE_MODAL_DAILY_CREDIT_LIMIT'' 10 = Inr limit"
    and act: "activeJobs ?key db < maxActive" and daily: "dailyCredits ?key (jp_now ps) db + job_cost input \<le> limit"
    using assertModalJobQuota_Inr [OF quota] by (auto simp: quota_cong [OF with_account_tables(1)])
  note jobs' = debit_jobs [OF db']
  have "activeJobs None db' \<le> maxActive"
  proof (cases "?key \<noteq> None \<and> find (\<lambda>q. jb_idempotency_key q = ?key) (jobs db) \<noteq> None")
    case True
    with up have "jobs db' = jobs db" unfolding upsert_job_Inr by (auto simp: jobs')
    then have "activeJobs None db' = activeJobs None db" by (rule quota_cong)
    with active_split [OF keys, of ?key] True act show ?thesis by simp
  next
    case False
    with up have "jobs db' = jobs db @ [row]" "row = new_row ps user input payload obs"
      unfolding upsert_job_Inr by (auto simp: jobs')
    moreover have "activeJobs ?key db = activeJobs None db"
      by (rule active_fresh_key) (use False in \<open>auto simp: find_None_iff\<close>)
    ultimately show ?thesis using act active_snoc [of db' db row] modal by simp
  qed
  with conf daily show ?thesis by blast
qed

end
