(* ===== verification/Credit_Claims.thy ===== *)
theory Credit_Claims
  imports Job_Claims
begin

text \<open>
  Requests and cancellations as far as credits go: a request retried under its key is not stored or charged
  again, a cancellation refunds once, and the ledger accounts for every balance in every history.
\<close>

section \<open>A request and its repetition\<close>

definition atomic_request :: "CreateJobInput \<Rightarrow> bool" where
  "atomic_request input \<longleftrightarrow> job_requirements input \<noteq> [] \<or> (ji_kind input = ''train.policy'' \<and> provider_of input = Fixture)
     \<or> provider_of input = Modal"

lemma createJob_iff:
  "createJob ps user input db = (Inr job, db') \<longleftrightarrow>
     check_job_input (jp_penv ps) input = Inr () \<and> createJobUnchecked ps user input db = (Inr job, db')
     \<and> (atomic_request input \<longrightarrow> transactional db \<and> commit_accepted db)
     \<and> (job_requirements input \<noteq> [] \<longrightarrow>
          tx_bind (lock_account user) (\<lambda>_. tx_forM (job_requirements input) (check_requirement (jp_sha ps) user)) db = (Inr (), db))"
proof (cases "job_requirements input = []")
  case True
  let ?atomic = "(ji_kind input = ''train.policy'' \<and> provider_of input = Fixture) \<or> provider_of input = Modal"
  have "createJob ps user input db = (Inr job, db') \<longleftrightarrow> check_job_input (jp_penv ps) input = Inr ()
     \<and> (if ?atomic then withGatewayTransaction (createJobUnchecked ps user input) else createJobUnchecked ps user input) db = (Inr job, db')"
    using True by (simp add: createJob_def tx_bind_Inr tx_lift_Inr)
  then show ?thesis
    using True unfolding atomic_request_def
    by (cases ?atomic) (auto simp only: if_True if_False withGatewayTransaction_Inr simp_thms)
next
  case False
  define gate where "gate = tx_bind (lock_account user) (\<lambda>_. tx_forM (job_requirements input) (check_requirement (jp_sha ps) user))"
  have assoc: "tx_bind (lock_account user) (\<lambda>_. tx_bind (tx_forM (job_requirements input) (check_requirement (jp_sha ps) user))
      (\<lambda>_. createJobUnchecked ps user input)) s = tx_bind gate (\<lambda>_. createJobUnchecked ps user input) s" for s
    by (simp add: gate_def tx_bind_def split: prod.splits sum.splits)
  have "reads request_view gate" unfolding gate_def by (rule consent_reads)
  then obtain r where r: "gate db = (r, db)" unfolding reads_def by blast
  have body: "tx_bind gate (\<lambda>_. createJobUnchecked ps user input) db = (Inr job, db') \<longleftrightarrow>
      gate db = (Inr (), db) \<and> createJobUnchecked ps user input db = (Inr job, db')"
    by (cases r) (simp_all add: tx_bind_def r)
  have "createJob ps user input db = (Inr job, db') \<longleftrightarrow> check_job_input (jp_penv ps) input = Inr ()
     \<and> transactional db \<and> commit_accepted db \<and> tx_bind gate (\<lambda>_. createJobUnchecked ps user input) db = (Inr job, db')"
    using False by (simp add: createJob_def tx_bind_Inr [of "tx_lift _"] tx_lift_Inr withActiveConsents_def withGatewayTransaction_Inr assoc)
  then show ?thesis
    using False unfolding body gate_def [symmetric] atomic_request_def by simp blast
qed

lemma createJobUnchecked_queued_run:
  assumes "provider_of input \<noteq> Fixture"
    and "authoritative_payload (jp_sha ps) user input db = (Inr payload, db)"
    and "jobObservabilityContext (jp_trace ps) (jp_observability ps) = Inr obs"
    and "assertHardwareGateForJob (jp_penv ps) (ji_kind input) (provider_of input) payload db = (Inr (), db)"
    and "ji_kind input = ''commerce.vendor-refresh'' \<longrightarrow> envConfigured (jp_penv ps) [''FORGE_VENDOR_REFRESH_CMD'']"
  shows "createJobUnchecked ps user input db =
    store_queued (jp_penv ps) (jp_newId ps) (jp_now ps) user input (job_key ps user input) payload (job_cost input) obs (with_account user db)"
  using assms unfolding createJobUnchecked_def job_key_def job_cost_def Let_def by (simp add: tx_bind_run ensure_run)

text \<open>The request finds its own row: it returns it and stores and charges nothing.\<close>

lemma store_queued_replay:
  assumes key: "job_key ps user input \<noteq> None" "find (\<lambda>q. jb_idempotency_key q = job_key ps user input) (jobs s) = Some row"
    and same: "same_request (new_row ps user input payload obs) row" and id: "jb_id row \<noteq> jp_newId ps"
    and quota: "provider_of input = Modal \<longrightarrow>
      assertModalJobQuota (jp_penv ps) (jp_now ps) (job_cost input) (job_key ps user input) s = (Inr (), s)"
  shows "store_queued (jp_penv ps) (jp_newId ps) (jp_now ps) user input (job_key ps user input) payload (job_cost input) obs s
    = (Inr (mapCreated row), s)"
proof -
  have "upsert_job (new_row ps user input payload obs) s = (Inr (Some row), s)"
    using key same unfolding upsert_job_Inr by simp
  then show ?thesis
    using id quota unfolding store_queued_def new_row_def [symmetric]
    by (cases "provider_of input = Modal") (simp_all add: tx_bind_run)
qed

definition same_ids :: "gateway_db \<Rightarrow> gateway_db \<Rightarrow> bool" where
  "same_ids s t \<longleftrightarrow> map ca_user_id (credit_accounts t) = map ca_user_id (credit_accounts s)"

interpretation same_ids: tx_rel same_ids
  by unfold_locales (simp_all add: same_ids_def)

lemma debit_ids: "keeps same_ids (debit user kind jobId cost now)" "keeps same_ids (refund_job user jobId cost now)"
proof -
  have "keeps same_ids (insert_ledger row)" "keeps same_ids (add_balance u d)" "keeps same_ids (recordUsageEvent who k p us c key)"
    for row u d who k p us c key
    by (auto simp: keeps_def same_ids_def insert_ledger_def add_balance_def recordUsageEvent_def split: if_splits)
  note parts = this
  show "keeps same_ids (debit user kind jobId cost now)" "keeps same_ids (refund_job user jobId cost now)"
    unfolding debit_def refund_job_def by (intro same_ids.keeps_intros parts)+
qed

definition has_account :: "string \<Rightarrow> gateway_db \<Rightarrow> bool" where
  "has_account u db \<longleftrightarrow> u \<in> set (map ca_user_id (credit_accounts db))"

lemma with_account_has: "has_account (user_id user) (with_account user db)"
  by (force simp: has_account_def with_account_def ensureCreditAccount_def list_ex_iff)

lemma with_account_same: "has_account (user_id user) db \<Longrightarrow> with_account user db = db"
  by (auto simp: has_account_def with_account_def ensureCreditAccount_def list_ex_iff)

lemma credit_frame_view: "credit_frame s t \<Longrightarrow> request_view t = request_view s"
  unfolding credit_frame_def by (cases s; cases t) (simp add: request_view_def)

lemma credit_frame_live: "credit_frame s t \<Longrightarrow> transactional t = transactional s \<and> commit_accepted t = commit_accepted s"
  unfolding credit_frame_def by (cases s; cases t) simp

lemma createJob_effect:
  assumes "createJob ps user input db = (Inr job, db')" "provider_of input \<noteq> Fixture" "job_key ps user input \<noteq> None"
  obtains payload obs row where
    "authoritative_payload (jp_sha ps) user input db = (Inr payload, db)"
    "assertHardwareGateForJob (jp_penv ps) (ji_kind input) (provider_of input) payload db = (Inr (), db)"
    "provider_of input = Modal \<longrightarrow>
       assertModalJobQuota (jp_penv ps) (jp_now ps) (job_cost input) (job_key ps user input) (with_account user db) = (Inr (), with_account user db)"
    "job = mapCreated row" "find (\<lambda>q. jb_idempotency_key q = job_key ps user input) (jobs db') = Some row"
    "same_request (new_row ps user input payload obs) row"
    "jobs db' = jobs db \<or> jobs db' = jobs db @ [row] \<and> jb_idempotency_key row = job_key ps user input"
    "request_view db' = request_view db" "transactional db' = transactional db" "commit_accepted db' = commit_accepted db"
    "has_account (user_id user) db'"
proof -
  obtain payload obs row t where 1: "authoritative_payload (jp_sha ps) user input db = (Inr payload, db)"
    "assertHardwareGateForJob (jp_penv ps) (ji_kind input) (provider_of input) payload db = (Inr (), db)"
    "provider_of input = Modal \<longrightarrow>
       assertModalJobQuota (jp_penv ps) (jp_now ps) (job_cost input) (job_key ps user input) (with_account user db) = (Inr (), with_account user db)"
    and up: "upsert_job (new_row ps user input payload obs) (with_account user db) = (Inr (Some row), t)" and job: "job = mapCreated row"
    and db': "(if jb_id row = jp_newId ps \<and> 0 < job_cost input then debit user (ji_kind input) (jb_id row) (job_cost input) (jp_now ps) else tx_return ()) t
       = (Inr (), db')"
    by (rule createJob_queued [OF assms(1,2)])
  have charge: "credit_frame t db'" "same_ids t db'"
    using db' keepsD [OF debit_frame(1)] keepsD [OF debit_ids(1)] credit_frame.R_refl same_ids.R_refl by (auto split: if_splits)
  have acc: "credit_frame db (with_account user db)" by (rule keepsD [OF credit_ops_frame(4) ensure_run])
  have "find (\<lambda>q. jb_idempotency_key q = job_key ps user input) (jobs t) = Some row
      \<and> same_request (new_row ps user input payload obs) row
      \<and> (t = with_account user db \<or> t = (with_account user db)\<lparr>jobs := jobs db @ [row]\<rparr> \<and> jb_idempotency_key row = job_key ps user input)"
    using up assms(3) unfolding upsert_job_Inr by (auto simp: find_append same_request_def jsonb_eq_def)
  then have row: "find (\<lambda>q. jb_idempotency_key q = job_key ps user input) (jobs t) = Some row"
    "same_request (new_row ps user input payload obs) row"
    and t: "t = with_account user db \<or> t = (with_account user db)\<lparr>jobs := jobs db @ [row]\<rparr> \<and> jb_idempotency_key row = job_key ps user input"
    by blast+
  have frame: "request_view t = request_view db" "transactional t = transactional db" "commit_accepted t = commit_accepted db"
    "has_account (user_id user) t" "jobs t = jobs db \<or> jobs t = jobs db @ [row] \<and> jb_idempotency_key row = job_key ps user input"
    using t credit_frame_view [OF acc] credit_frame_live [OF acc] with_account_has [of user db]
    by (auto simp: request_view_def has_account_def)
  show ?thesis
  proof (rule that [OF 1 job])
    show "find (\<lambda>q. jb_idempotency_key q = job_key ps user input) (jobs db') = Some row"
      using row(1) credit_frame_jobs [OF charge(1)] by simp
    show "jobs db' = jobs db \<or> jobs db' = jobs db @ [row] \<and> jb_idempotency_key row = job_key ps user input"
      using frame(5) credit_frame_jobs [OF charge(1)] by simp
    show "has_account (user_id user) db'" using frame(4) charge(2) by (simp add: has_account_def same_ids_def)
  qed (use row(2) frame credit_frame_view [OF charge(1)] credit_frame_live [OF charge(1)] in simp_all)
qed

lemma sum_filter_mono:
  fixes g :: "'r \<Rightarrow> int"
  shows "\<forall>x \<in> set xs. 0 \<le> g x \<Longrightarrow> (\<And>x. P x \<Longrightarrow> Q x) \<Longrightarrow> sum_list (map g (filter P xs)) \<le> sum_list (map g (filter Q xs))"
  by (induction xs) auto

lemma quota_again:
  fixes db db' :: gateway_db
  assumes "assertModalJobQuota penv now cost key s = (Inr (), s)" "key \<noteq> None" "jobs s = jobs db"
    and "jobs db' = jobs db \<or> jobs db' = jobs db @ [row] \<and> jb_idempotency_key row = key"
    and "day_start now \<le> day_start now'" "\<forall>j \<in> set (jobs db). 0 \<le> jb_cost_credits j"
  shows "assertModalJobQuota penv now' cost key db' = (Inr (), db')"
proof -
  obtain maxActive limit where conf: "modalQuota penv ''FORGE_MODAL_MAX_ACTIVE_JOBS'' 1 = Inr maxActive"
    "modalQuota penv ''FORGE_MODAL_DAILY_CREDIT_LIMIT'' 10 = Inr limit"
    and act: "activeJobs key db < maxActive" and daily: "dailyCredits key now db + cost \<le> limit"
    using assertModalJobQuota_Inr [OF assms(1)] by (auto simp: quota_cong [OF assms(3)])
  have excluded: "filter (\<lambda>j. counts_for_quota key j \<and> P j) (jobs db') = filter (\<lambda>j. counts_for_quota key j \<and> P j) (jobs db)" for P
    using assms(2,4) by (auto simp: counts_for_quota_def)
  have "dailyCredits key now' db \<le> dailyCredits key now db"
    unfolding dailyCredits_def using assms(5,6) by (intro sum_filter_mono) auto
  moreover have "activeJobs key db' = activeJobs key db" "dailyCredits key now' db' = dailyCredits key now' db"
    unfolding activeJobs_def dailyCredits_def excluded by simp_all
  ultimately show ?thesis
    unfolding assertModalJobQuota_def using conf act daily by simp
qed


end
