(* ===== verification/Credit_History.thy ===== *)
theory Credit_History
  imports Credit_Claims Account_Purge
begin

text \<open>
  The books: in every history of job requests, cancellations, account deletions and other operations, each balance is the sum
  of the ledger entries of its account, every paid job has its debit, and every refund the debit it
  reverses. The identifiers drawn for new jobs are fresh, as random identifiers are.
\<close>

section \<open>Invariant\<close>

definition ledger_sum :: "string \<Rightarrow> gateway_db \<Rightarrow> int" where
  "ledger_sum u db = sum_list (map cl_delta_credits (filter (\<lambda>r. cl_user_id r = u) (credit_ledger db)))"

definition debit_key :: "string \<Rightarrow> string option" where "debit_key jobId = Some (jobId @ '':debit'')"
definition refund_key :: "string \<Rightarrow> string option" where "refund_key jobId = Some (jobId @ '':refund'')"

definition debited :: "gateway_db \<Rightarrow> string \<Rightarrow> string \<Rightarrow> int \<Rightarrow> bool" where
  "debited db jobId u cost \<longleftrightarrow>
     (\<exists>d \<in> set (credit_ledger db). cl_idempotency_key d = debit_key jobId \<and> cl_user_id d = u \<and> cl_delta_credits d = - cost)"

definition entry_ok :: "gateway_db \<Rightarrow> CreditLedgerRow \<Rightarrow> bool" where
  "entry_ok db r \<longleftrightarrow>
     (\<exists>jobId. cl_source_id r = Some jobId \<and>
        (cl_idempotency_key r = debit_key jobId \<and> cl_delta_credits r < 0
         \<or> cl_idempotency_key r = refund_key jobId \<and> debited db jobId (cl_user_id r) (cl_delta_credits r)))"

definition paid_jobs_debited :: "gateway_db \<Rightarrow> bool" where
  "paid_jobs_debited db \<longleftrightarrow>
     (\<forall>j \<in> set (jobs db). \<forall>u. jb_owner_user_id j = Some u \<and> 0 < jb_cost_credits j \<longrightarrow> debited db (jb_id j) u (jb_cost_credits j))"

definition credits_ok :: "gateway_db \<Rightarrow> bool" where
  "credits_ok db \<longleftrightarrow>
     distinct (map ca_user_id (credit_accounts db))
     \<and> (\<forall>a \<in> set (credit_accounts db). ca_balance_credits a = ledger_sum (ca_user_id a) db)
     \<and> (\<forall>r \<in> set (credit_ledger db). has_account (cl_user_id r) db \<and> entry_ok db r)
     \<and> distinct (map cl_idempotency_key (credit_ledger db)) \<and> paid_jobs_debited db"

lemma keys_differ [simp]:
  "debit_key a = debit_key b \<longleftrightarrow> a = b" "refund_key a = refund_key b \<longleftrightarrow> a = b" "debit_key a \<noteq> refund_key b" "refund_key b \<noteq> debit_key a"
proof -
  have "a @ '':debit'' \<noteq> b @ '':refund''" for a b :: string
  proof
    assume "a @ '':debit'' = b @ '':refund''"
    from arg_cong [OF this, of last] show False by simp
  qed
  then show "debit_key a = debit_key b \<longleftrightarrow> a = b" "refund_key a = refund_key b \<longleftrightarrow> a = b" "debit_key a \<noteq> refund_key b" "refund_key b \<noteq> debit_key a"
    unfolding debit_key_def refund_key_def by simp_all
qed

section \<open>Posting an entry\<close>

text \<open>What a debit and a refund have in common: unless its key is there, the entry is appended and the
  account of its user changes by its amount.\<close>

definition posted :: "CreditLedgerRow \<Rightarrow> gateway_db \<Rightarrow> gateway_db \<Rightarrow> bool" where
  "posted row s t \<longleftrightarrow>
     (if \<exists>r \<in> set (credit_ledger s). cl_idempotency_key r = cl_idempotency_key row then t = s
      else credit_ledger t = credit_ledger s @ [row] \<and> jobs t = jobs s
        \<and> credit_accounts t = map (\<lambda>a. if ca_user_id a = cl_user_id row
             then a\<lparr>ca_balance_credits := ca_balance_credits a + cl_delta_credits row\<rparr> else a) (credit_accounts s))"

definition debit_entry :: "CurrentUser \<Rightarrow> string \<Rightarrow> string \<Rightarrow> int \<Rightarrow> int \<Rightarrow> CreditLedgerRow" where
  "debit_entry user kind jobId cost now =
     \<lparr>cl_user_id = user_id user, cl_delta_credits = - cost, cl_reason = ''modal '' @ kind, cl_source_kind = ''job'',
      cl_source_id = Some jobId, cl_idempotency_key = Some (jobId @ '':debit''), cl_created_at = now\<rparr>"

definition refund_entry :: "CurrentUser \<Rightarrow> string \<Rightarrow> int \<Rightarrow> int \<Rightarrow> CreditLedgerRow" where
  "refund_entry user jobId cost now =
     \<lparr>cl_user_id = user_id user, cl_delta_credits = cost, cl_reason = ''provider-cancelled-before-materialization'',
      cl_source_kind = ''job'', cl_source_id = Some jobId, cl_idempotency_key = Some (jobId @ '':refund''), cl_created_at = now\<rparr>"

lemma debit_posts:
  "\<exists>t. debit user kind jobId cost now s = (Inr (), t) \<and> posted (debit_entry user kind jobId cost now) s t"
  "\<exists>t. refund_job user jobId cost now s = (Inr (), t) \<and> posted (refund_entry user jobId cost now) s t"
  unfolding debit_def refund_job_def debit_entry_def [symmetric] refund_entry_def [symmetric]
  by (auto simp: tx_bind_run insert_ledger_def add_balance_def recordUsageEvent_def posted_def list_ex_iff debit_entry_def refund_entry_def)

lemma posted_ids: "posted row s t \<Longrightarrow> map ca_user_id (credit_accounts t) = map ca_user_id (credit_accounts s)"
  by (auto simp: posted_def split: if_splits)

lemma posted_accounts: "posted row s t \<Longrightarrow> has_account u t = has_account u s"
  by (simp only: has_account_def posted_ids)

lemma posted_grows: "posted row s t \<Longrightarrow> set (credit_ledger s) \<subseteq> set (credit_ledger t)"
  by (auto simp: posted_def split: if_splits)

lemma debited_mono: "set (credit_ledger s) \<subseteq> set (credit_ledger t) \<Longrightarrow> debited s jobId u c \<Longrightarrow> debited t jobId u c"
  by (auto simp: debited_def)

lemma entry_ok_mono: "set (credit_ledger s) \<subseteq> set (credit_ledger t) \<Longrightarrow> entry_ok s r \<Longrightarrow> entry_ok t r"
  by (auto simp: entry_ok_def dest: debited_mono)

lemma posted_credits:
  assumes "posted row s t" "credits_ok s" "has_account (cl_user_id row) s" "entry_ok t row" "paid_jobs_debited t"
  shows "credits_ok t"
proof (cases "\<exists>r \<in> set (credit_ledger s). cl_idempotency_key r = cl_idempotency_key row")
  case True
  with assms(1,2) show ?thesis by (simp add: posted_def)
next
  case False
  with assms(1) have t: "credit_ledger t = credit_ledger s @ [row]" "jobs t = jobs s"
    "credit_accounts t = map (\<lambda>a. if ca_user_id a = cl_user_id row
       then a\<lparr>ca_balance_credits := ca_balance_credits a + cl_delta_credits row\<rparr> else a) (credit_accounts s)"
    by (simp_all add: posted_def)
  have ids: "map ca_user_id (credit_accounts t) = map ca_user_id (credit_accounts s)" by (simp add: t(3))
  have sums: "ledger_sum u t = ledger_sum u s + (if cl_user_id row = u then cl_delta_credits row else 0)" for u
    by (simp add: ledger_sum_def t(1))
  note old = assms(2) [unfolded credits_ok_def]
  have "\<forall>a \<in> set (credit_accounts t). ca_balance_credits a = ledger_sum (ca_user_id a) t"
    using old by (auto simp: t(3) sums)
  moreover have "\<forall>r \<in> set (credit_ledger t). has_account (cl_user_id r) t \<and> entry_ok t r"
    using old assms(3,4) posted_accounts [OF assms(1)] entry_ok_mono [OF posted_grows [OF assms(1)]] by (auto simp: t(1))
  moreover have "distinct (map cl_idempotency_key (credit_ledger t))" using old False by (auto simp: t(1) image_iff)
  ultimately show ?thesis using old ids assms(5) unfolding credits_ok_def by metis
qed

section \<open>Requests\<close>

definition fresh_job_id :: "string \<Rightarrow> gateway_db \<Rightarrow> bool" where
  "fresh_job_id jobId db \<longleftrightarrow> (\<forall>j \<in> set (jobs db). jb_id j \<noteq> jobId) \<and> (\<forall>r \<in> set (credit_ledger db). cl_source_id r \<noteq> Some jobId)"

text \<open>Operations that do not touch the books: the credit tables stay as they are and no job changes its
  identity, its owner or its cost, though jobs may change otherwise or disappear.\<close>

definition books_untouched :: "gateway_db \<Rightarrow> gateway_db \<Rightarrow> bool" where
  "books_untouched s t \<longleftrightarrow> credit_accounts t = credit_accounts s \<and> credit_ledger t = credit_ledger s
     \<and> (\<forall>j \<in> set (jobs t). \<exists>i \<in> set (jobs s). jb_id j = jb_id i \<and> jb_owner_user_id j = jb_owner_user_id i
          \<and> jb_cost_credits j = jb_cost_credits i)"

lemma books_same:
  assumes "credit_accounts t = credit_accounts s" "credit_ledger t = credit_ledger s"
  shows "has_account u t = has_account u s" "ledger_sum u t = ledger_sum u s" "debited t i u c = debited s i u c" "entry_ok t r = entry_ok s r"
  using assms by (simp_all add: has_account_def ledger_sum_def debited_def entry_ok_def)

lemma untouched_credits: "books_untouched s t \<Longrightarrow> credits_ok s \<Longrightarrow> credits_ok t"
proof -
  assume t: "books_untouched s t" and s: "credits_ok s"
  have tables: "credit_accounts t = credit_accounts s" "credit_ledger t = credit_ledger s"
    using t by (simp_all add: books_untouched_def)
  have "paid_jobs_debited t"
    using t s unfolding books_untouched_def credits_ok_def paid_jobs_debited_def books_same(3) [OF tables] by metis
  with s show ?thesis unfolding credits_ok_def books_same [OF tables] tables by blast
qed

lemma with_account_credits: "credits_ok db \<Longrightarrow> credits_ok (with_account user db)"
proof (cases "has_account (user_id user) db")
  case True
  then show "credits_ok db \<Longrightarrow> credits_ok (with_account user db)" by (simp add: with_account_same)
next
  case False
  assume ok: "credits_ok db"
  let ?db = "with_account user db"
  have acc: "credit_accounts ?db = credit_accounts db @ [\<lparr>ca_user_id = user_id user, ca_balance_credits = 0\<rparr>]"
    using False by (force simp: with_account_def ensureCreditAccount_def has_account_def list_ex_iff)
  have "filter (\<lambda>r. cl_user_id r = user_id user) (credit_ledger db) = []"
    using ok False by (auto simp: credits_ok_def filter_empty_conv)
  then have zero: "ledger_sum (user_id user) ?db = 0" by (simp add: ledger_sum_def)
  have same: "ledger_sum u ?db = ledger_sum u db" "debited ?db i u c = debited db i u c" "entry_ok ?db r = entry_ok db r" for u i c r
    by (simp_all add: ledger_sum_def debited_def entry_ok_def)
  have more: "has_account u db \<Longrightarrow> has_account u ?db" for u by (simp add: has_account_def acc)
  show "credits_ok (with_account user db)"
    using ok False zero more unfolding credits_ok_def paid_jobs_debited_def same(2,3)
    by (auto simp: acc same(1) has_account_def)
qed

lemma fresh_with_account: "fresh_job_id jobId db \<Longrightarrow> fresh_job_id jobId (with_account user db)"
  by (simp add: fresh_job_id_def)

text \<open>A new job: without a cost it needs no debit, with a cost it gets its own.\<close>

lemma new_free_job:
  assumes "credits_ok s" "jb_cost_credits row \<le> 0"
  shows "credits_ok (s\<lparr>jobs := jobs s @ [row]\<rparr>)"
  using assms by (auto simp: credits_ok_def paid_jobs_debited_def debited_def entry_ok_def has_account_def ledger_sum_def)

lemma new_paid_job:
  assumes ok: "credits_ok s" and acc: "has_account (user_id user) s" and fresh: "fresh_job_id (jb_id row) s"
    and row: "jb_owner_user_id row = Some (user_id user)" "0 < jb_cost_credits row"
    and post: "posted (debit_entry user kind (jb_id row) (jb_cost_credits row) now) (s\<lparr>jobs := jobs s @ [row]\<rparr>) t"
  shows "credits_ok t"
proof -
  let ?e = "debit_entry user kind (jb_id row) (jb_cost_credits row) now"
  let ?s = "s\<lparr>jobs := jobs s @ [row]\<rparr>"
  have key: "cl_idempotency_key ?e = debit_key (jb_id row)" by (simp add: debit_entry_def debit_key_def)
  have new: "\<not> (\<exists>r \<in> set (credit_ledger s). cl_idempotency_key r = debit_key (jb_id row))"
    using ok fresh by (auto simp: credits_ok_def entry_ok_def fresh_job_id_def)
  with post key have t: "credit_ledger t = credit_ledger s @ [?e]" "jobs t = jobs s @ [row]"
    "credit_accounts t = map (\<lambda>a. if ca_user_id a = cl_user_id ?e
       then a\<lparr>ca_balance_credits := ca_balance_credits a + cl_delta_credits ?e\<rparr> else a) (credit_accounts s)"
    by (auto simp: posted_def)
  have post': "posted ?e s (t\<lparr>jobs := jobs s\<rparr>)" using new key t by (simp add: posted_def)
  have grow: "set (credit_ledger s) \<subseteq> set (credit_ledger t)" by (auto simp: t(1))
  have e: "debited t (jb_id row) (user_id user) (jb_cost_credits row)"
    unfolding debited_def t(1) by (auto simp: key intro!: bexI [of _ ?e]) (simp_all add: debit_entry_def)
  have "paid_jobs_debited t"
    using ok e row debited_mono [OF grow] by (auto simp: paid_jobs_debited_def credits_ok_def t(2))
  moreover have "credits_ok (t\<lparr>jobs := jobs s\<rparr>)"
  proof (rule posted_credits [OF post' ok])
    show "has_account (cl_user_id ?e) s" using acc by (simp add: debit_entry_def)
    show "entry_ok (t\<lparr>jobs := jobs s\<rparr>) ?e" using row by (auto simp: entry_ok_def debit_entry_def debit_key_def)
    show "paid_jobs_debited (t\<lparr>jobs := jobs s\<rparr>)"
      using ok debited_mono [OF grow] by (auto simp: paid_jobs_debited_def credits_ok_def debited_def)
  qed
  ultimately show ?thesis by (simp add: credits_ok_def entry_ok_def debited_def has_account_def ledger_sum_def)
qed

lemma store_queued_credits:
  assumes run: "store_queued (jp_penv ps) (jp_newId ps) (jp_now ps) user input (job_key ps user input) payload (job_cost input) obs s = (r, t)"
    and ok: "credits_ok s" and acc: "has_account (user_id user) s" and fresh: "fresh_job_id (jp_newId ps) s"
  shows "credits_ok t"
proof -
  let ?quota = "if provider_of input = Modal then assertModalJobQuota (jp_penv ps) (jp_now ps) (job_cost input) (job_key ps user input) else tx_return ()"
  let ?row = "new_row ps user input payload obs"
  have "reads jobs ?quota" by (intro reads_if reads_basic resolve_reads(6))
  then obtain q where q: "?quota s = (q, s)" unfolding reads_def by blast
  obtain up u where up: "upsert_job ?row s = (up, u)" by (cases "upsert_job ?row s")
  from up have cases: "u = s \<and> (\<forall>j. up = Inr (Some j) \<longrightarrow> jb_id j \<noteq> jp_newId ps) \<or> u = s\<lparr>jobs := jobs s @ [?row]\<rparr> \<and> up = Inr (Some ?row)"
    using fresh by (auto simp: upsert_job_def fresh_job_id_def split: option.splits if_splits dest!: find_SomeD)
  have rest: "t = s \<or> (\<exists>j. up = Inr (Some j) \<and>
      (if jb_id j = jp_newId ps \<and> 0 < job_cost input then debit user (ji_kind input) (jb_id j) (job_cost input) (jp_now ps) else tx_return ()) u = (Inr (), t))
      \<or> t = u \<and> (\<forall>j. up \<noteq> Inr (Some j))"
  proof (cases q)
    case (Inl e)
    with run q show ?thesis unfolding store_queued_def by (simp add: tx_bind_run)
  next
    case (Inr x)
    let ?charge = "\<lambda>j. if jb_id j = jp_newId ps \<and> 0 < job_cost input then debit user (ji_kind input) (jb_id j) (job_cost input) (jp_now ps) else tx_return ()"
    have total: "\<exists>w. ?charge j v = (Inr (), w)" for j v
    proof (cases "jb_id j = jp_newId ps \<and> 0 < job_cost input")
      case True
      with debit_posts(1) [of user "ji_kind input" "jb_id j" "job_cost input" "jp_now ps" v] show ?thesis by auto
    qed (auto simp: tx_return_def)
    have body: "store_queued (jp_penv ps) (jp_newId ps) (jp_now ps) user input (job_key ps user input) payload (job_cost input) obs s
      = tx_bind (upsert_job ?row) (\<lambda>stored. case stored of None \<Rightarrow> tx_throw keyClash
          | Some j \<Rightarrow> tx_bind (?charge j) (\<lambda>_. tx_return (mapCreated j))) s"
      unfolding store_queued_def new_row_def [symmetric] using q Inr by (simp add: tx_bind_run)
    show ?thesis
    proof (cases "\<exists>j. up = Inr (Some j)")
      case True
      then obtain j where j: "up = Inr (Some j)" by blast
      from total obtain w where w: "?charge j u = (Inr (), w)" by blast
      from run have "t = w" unfolding body by (simp add: tx_bind_run up j w del: if_split)
      with j w show ?thesis by blast
    next
      case False
      with run have "t = u" unfolding body by (auto simp: tx_bind_def up split: sum.splits option.splits)
      with False show ?thesis by blast
    qed
  qed
  from cases show ?thesis
  proof
    assume "u = s \<and> (\<forall>j. up = Inr (Some j) \<longrightarrow> jb_id j \<noteq> jp_newId ps)"
    with rest ok show ?thesis by auto
  next
    assume new: "u = s\<lparr>jobs := jobs s @ [?row]\<rparr> \<and> up = Inr (Some ?row)"
    have free: "credits_ok u" if "\<not> 0 < job_cost input" using new_free_job [OF ok, of ?row] that new by simp
    have paid: "credits_ok t" if "0 < job_cost input" "debit user (ji_kind input) (jp_newId ps) (job_cost input) (jp_now ps) u = (Inr (), t)"
      using new_paid_job [OF ok acc _ _ _, of ?row "ji_kind input" "jp_now ps" t] debit_posts(1) [of user "ji_kind input" "jp_newId ps" "job_cost input" "jp_now ps" u]
        that fresh new by simp
    from rest new ok free paid show ?thesis by (auto split: if_splits)
  qed
qed

interpretation untouched: tx_rel books_untouched
proof
  show "books_untouched s s" for s by (auto simp: books_untouched_def)
  show "books_untouched s u" if "books_untouched s t" "books_untouched t u" for s t u
    using that unfolding books_untouched_def by metis
qed

lemma artifact_untouched:
  "keeps books_untouched (tx_state (upsert_cached row ok f))" "keeps books_untouched (check_model_key m)"
  "keeps books_untouched (tx_modify (finish_policy i user job v))"
proof -
  show "keeps books_untouched (tx_state (upsert_cached row ok f))"
    by (auto simp: keeps_def tx_state_def upsert_cached_def books_untouched_def bindE_def split: option.splits if_splits sum.splits)
  show "keeps books_untouched (check_model_key m)"
    unfolding check_model_key_def by (intro untouched.keeps_intros)
  show "keeps books_untouched (tx_modify (finish_policy i user job v))"
    by (rule untouched.keeps_modify) (force simp: books_untouched_def finish_policy_def)
qed

lemma insert_untouched:
  assumes "\<And>db rows. books_untouched db (put rows db)"
  shows "keeps books_untouched (tx_update (\<lambda>db. bindE (insert_row key row (get db)) (\<lambda>rows. Inr (put rows db))))"
  using assms untouched.R_refl by (auto simp: keeps_def tx_update_def bindE_def split: sum.splits)

lemma put_untouched:
  "books_untouched db (db\<lparr>photoscan_artifacts := a\<rparr>)" "books_untouched db (db\<lparr>policy_artifacts := b\<rparr>)"
  "books_untouched db (db\<lparr>telemetry_logs := c\<rparr>)" "books_untouched db (db\<lparr>maintenance_records := d\<rparr>)"
  by (auto simp: books_untouched_def)

lemma materialize_untouched: "keeps books_untouched (materializeJobOutput ap user job)"
proof -
  note parts = untouched.keeps_intros artifact_untouched insert_untouched put_untouched
  have "keeps books_untouched (materialize_photoscan ap user job out inp)" for out inp
    unfolding materialize_photoscan_def upsertArtifactBlob_def Let_def by (intro parts)
  moreover have "keeps books_untouched (materialize_policy ap user job out inp)" for out inp
    unfolding materialize_policy_def upsertCompletedPolicyBlob_def insert_policy_def Let_def by (intro parts)
  moreover have "keeps books_untouched (materialize_telemetry ap user out inp)" "keeps books_untouched (materialize_maintenance ap user k out inp)" for k out inp
    unfolding materialize_telemetry_def materialize_maintenance_def by (intro parts)+
  ultimately show ?thesis
    unfolding materializeJobOutput_def Let_def by (auto intro!: untouched.keeps_if untouched.keeps_read split: jsval.split)
qed

lemma store_fixture_credits:
  assumes run: "store_fixture out mat newId now user input key payload 0 obs s = (r, t)"
    and ok: "credits_ok s" and mat: "\<And>job. keeps books_untouched (mat job)"
  shows "credits_ok t"
proof -
  let ?row = "(job_row newId now user (ji_kind input) (provider_of input) key payload 0 3600 obs)
     \<lparr>jb_status := JSucceeded, jb_output := out (ji_kind input) payload, jb_started_at := Some now, jb_finished_at := Some now\<rparr>"
  obtain up u where up: "upsert_job ?row s = (up, u)" by (cases "upsert_job ?row s")
  have "jb_cost_credits ?row = 0" by (simp add: job_row_def)
  with up ok new_free_job [OF ok, of ?row] have u: "credits_ok u"
    by (auto simp: upsert_job_def split: option.splits if_splits)
  have "books_untouched u t"
  proof (cases "\<exists>j. up = Inr (Some j) \<and> jb_id j = newId")
    case True
    then obtain j where j: "up = Inr (Some j)" "jb_id j = newId" by blast
    have "keeps books_untouched (tx_bind (mat (mapCreated j)) (\<lambda>persisted.
        tx_return (case persisted of None \<Rightarrow> mapCreated j | Some v \<Rightarrow> (mapCreated j)\<lparr>jr_output := v\<rparr>)))"
      by (intro untouched.keeps_bind mat untouched.keeps_read)
    moreover from run up j have "tx_bind (mat (mapCreated j)) (\<lambda>persisted.
        tx_return (case persisted of None \<Rightarrow> mapCreated j | Some v \<Rightarrow> (mapCreated j)\<lparr>jr_output := v\<rparr>)) u = (r, t)"
      unfolding store_fixture_def by (simp add: tx_bind_def [of "upsert_job _"] Let_def)
    ultimately show ?thesis by (rule keepsD)
  next
    case False
    with run up have "t = u"
      unfolding store_fixture_def by (auto simp: tx_bind_def [of "upsert_job _"] Let_def split: sum.splits option.splits if_splits)
    then show ?thesis by (simp add: untouched.R_refl)
  qed
  with u show ?thesis by (rule untouched_credits [rotated])
qed

text \<open>A computation after one that only reads starts in the same state.\<close>

lemma reads_then: "reads f m \<Longrightarrow> tx_bind m g s = (r, t) \<Longrightarrow> t = s \<or> (\<exists>a. g a s = (r, t))"
  unfolding reads_def tx_bind_def by (auto split: sum.splits)

lemma createJobUnchecked_credits:
  assumes run: "createJobUnchecked ps user input db = (r, t)" and ok: "credits_ok db" and fresh: "fresh_job_id (jp_newId ps) db"
  shows "credits_ok t"
proof -
  define store where "store payload obs = (if provider_of input \<noteq> Fixture
     then store_queued (jp_penv ps) (jp_newId ps) (jp_now ps) user input (job_key ps user input) payload (job_cost input) obs
     else store_fixture (jp_fixtureOutput ps) (materializeJobOutput (job_artifacts ps) user) (jp_newId ps) (jp_now ps) user input (job_key ps user input)
       payload (job_cost input) obs)" for payload obs
  have "t = db \<or> (\<exists>payload obs. tx_bind (ensureCreditAccount user) (\<lambda>_. store payload obs) db = (r, t))"
    using run unfolding createJobUnchecked_def job_key_def [symmetric] job_cost_def [symmetric] Let_def store_def [symmetric]
    by (elim reads_then [OF resolve_reads(4), THEN disjE] reads_then [OF reads_basic(4), THEN disjE] reads_then [OF reads_basic(3), THEN disjE]
        reads_then [OF resolve_reads(5), THEN disjE] exE) auto
  moreover have "credits_ok t" if "tx_bind (ensureCreditAccount user) (\<lambda>_. store payload obs) db = (r, t)" for payload obs
  proof -
    from that have st: "store payload obs (with_account user db) = (r, t)" by (simp add: tx_bind_run ensure_run)
    note acc = with_account_credits [OF ok, of user]
    show ?thesis
    proof (cases "provider_of input = Fixture")
      case True
      with st show ?thesis by (auto simp: store_def job_cost_def intro: store_fixture_credits [OF _ acc materialize_untouched])
    next
      case False
      with st show ?thesis
        by (auto simp: store_def intro: store_queued_credits [OF _ acc with_account_has fresh_with_account [OF fresh]])
    qed
  qed
  ultimately show ?thesis using ok by blast
qed

lemma transaction_then: "withGatewayTransaction m s = (r, t) \<Longrightarrow> t = s \<or> (\<exists>q. m s = (q, t))"
  by (auto simp: withGatewayTransaction_def split: if_splits prod.splits sum.splits)

lemma createJob_credits:
  assumes run: "createJob ps user input db = (r, t)" and "credits_ok db" "fresh_job_id (jp_newId ps) db"
  shows "credits_ok t"
proof -
  let ?body = "createJobUnchecked ps user input"
  let ?gate = "tx_bind (lock_account user) (\<lambda>_. tx_forM (job_requirements input) (check_requirement (jp_sha ps) user))"
  have assoc: "tx_bind (lock_account user) (\<lambda>_. tx_bind (tx_forM (job_requirements input) (check_requirement (jp_sha ps) user)) (\<lambda>_. ?body)) s
      = tx_bind ?gate (\<lambda>_. ?body) s" for s
    by (simp add: tx_bind_def split: prod.splits sum.splits)
  from run have "t = db \<or> withGatewayTransaction (tx_bind ?gate (\<lambda>_. ?body)) db = (r, t)
      \<or> withGatewayTransaction ?body db = (r, t) \<or> ?body db = (r, t)"
    unfolding createJob_def withActiveConsents_def withGatewayTransaction_def assoc
    by (elim reads_then [OF reads_basic(3), THEN disjE] exE) (auto split: if_splits)
  then have "t = db \<or> (\<exists>q. ?body db = (q, t))"
    by (blast dest: transaction_then reads_then [OF consent_reads])
  with assms(2-) createJobUnchecked_credits [of ps user input db _ t] show ?thesis by blast
qed

section \<open>Cancellations\<close>

lemma owned_jobD: "owned_job jobId u db = Some row \<Longrightarrow> row \<in> set (jobs db) \<and> jb_id row = jobId \<and> jb_owner_user_id row = Some u"
  unfolding owned_job_def by (auto dest: find_SomeD)

lemma cancel_same [simp]:
  "jb_id (cancelled_children now k b row (cancelled_row now b j)) = jb_id j"
  "jb_owner_user_id (cancelled_children now k b row (cancelled_row now b j)) = jb_owner_user_id j"
  "jb_cost_credits (cancelled_children now k b row (cancelled_row now b j)) = jb_cost_credits j"
  "jb_status (cancelled_children now k b row (cancelled_row now b j)) = JCancelled"
  "mapJob (cancelled_children now k b row j) = mapJob j"
  by (simp_all add: cancelled_children_def cancelled_row_def mapJob_def)

lemma cancel_in_tables [simp]:
  "credit_accounts (cancel_in now b user jobId row s) = credit_accounts s" "credit_ledger (cancel_in now b user jobId row s) = credit_ledger s"
  "transactional (cancel_in now b user jobId row s) = transactional s" "commit_accepted (cancel_in now b user jobId row s) = commit_accepted s"
  by (simp_all add: cancel_in_def)

lemma cancel_in_untouched: "books_untouched s (cancel_in now b user jobId row s)"
  unfolding books_untouched_def by (auto simp: cancel_in_def)

lemma owned_job_cancel_in:
  assumes "owned_job jobId (user_id user) s = Some row"
  shows "owned_job jobId (user_id user) (cancel_in now b user jobId row' s)
    = Some (cancelled_children now (job_event_sequence s) b row' (cancelled_row now b row))"
proof -
  have "find P xs = Some x \<Longrightarrow> (\<And>y. P (f y) = P y) \<Longrightarrow> find P (map (\<lambda>y. if P y then f y else y) xs) = Some (f x)" for P f xs and x :: JobRow
    by (induction xs) (auto split: if_splits)
  from this [OF assms [unfolded owned_job_def]] show ?thesis by (simp add: owned_job_def cancel_in_def)
qed

text \<open>An active job: the refund, when there is one, is posted, and then its row changes.\<close>

lemma cancel_active_run:
  assumes "owned_job jobId (user_id user) s = Some row" "active_job row" "transactional s" "commit_accepted s"
  obtains u where "cancelOwnedJob now user jobId s
      = (Inr (mapJob (cancelled_row now (refundable row) row)), cancel_in now (refundable row) user jobId row u)"
    "if refundable row then posted (refund_entry user jobId (jb_cost_credits row) now) s u else u = s" "credit_frame s u"
proof -
  obtain u where u: "(if refundable row then refund_job user jobId (jb_cost_credits row) now else tx_return ()) s = (Inr (), u)"
    "if refundable row then posted (refund_entry user jobId (jb_cost_credits row) now) s u else u = s"
    using debit_posts(2) [of user jobId "jb_cost_credits row" now s] by (cases "refundable row") auto
  have "credit_frame s u" using u(1) keepsD [OF debit_frame(2)] credit_frame.R_refl by (auto split: if_splits)
  moreover have "jb_status row \<noteq> JCancelled" using assms(2) by (auto simp: active_job_def)
  then have "cancelOwnedJob now user jobId s
      = (Inr (mapJob (cancelled_row now (refundable row) row)), cancel_in now (refundable row) user jobId row u)"
    using assms u(1) unfolding cancelOwnedJob_def withGatewayTransaction_def by (simp add: tx_bind_run split: if_splits)
  ultimately show ?thesis using that u(2) by blast
qed

lemma cancel_outcomes:
  assumes "cancelOwnedJob now user jobId s = (r, t)"
  shows "t = s \<or> (\<exists>row. owned_job jobId (user_id user) s = Some row \<and> active_job row \<and> transactional s \<and> commit_accepted s)"
proof (cases "owned_job jobId (user_id user) s")
  case (Some row)
  with assms show ?thesis
    by (cases "transactional s"; cases "commit_accepted s"; cases "active_job row"; cases "jb_status row = JCancelled")
      (auto simp: cancelOwnedJob_def withGatewayTransaction_def tx_bind_run split: if_splits prod.splits sum.splits)
qed (use assms in \<open>auto simp: cancelOwnedJob_def withGatewayTransaction_def tx_bind_run split: if_splits\<close>)

lemma refund_credits:
  assumes ok: "credits_ok s" and row: "owned_job jobId (user_id user) s = Some row" "refundable row"
    and post: "posted (refund_entry user jobId (jb_cost_credits row) now) s u" and frame: "credit_frame s u"
  shows "credits_ok u"
proof (rule posted_credits [OF post ok])
  note own = owned_jobD [OF row(1)]
  have paid: "debited s jobId (user_id user) (jb_cost_credits row)"
    using ok own row(2) by (auto simp: credits_ok_def paid_jobs_debited_def refundable_def)
  have acc: "has_account (user_id user) s"
    using paid ok by (auto simp: debited_def credits_ok_def)
  then show "has_account (cl_user_id (refund_entry user jobId (jb_cost_credits row) now)) s" by (simp add: refund_entry_def)
  note grow = posted_grows [OF post]
  show "entry_ok u (refund_entry user jobId (jb_cost_credits row) now)"
    using debited_mono [OF grow paid] by (auto simp: entry_ok_def refund_entry_def refund_key_def)
  show "paid_jobs_debited u"
    using ok debited_mono [OF grow] unfolding credits_ok_def paid_jobs_debited_def credit_frame_jobs [OF frame] by blast
qed

lemma cancel_credits:
  assumes "cancelOwnedJob now user jobId s = (r, t)" "credits_ok s"
  shows "credits_ok t"
  using cancel_outcomes [OF assms(1)]
proof
  assume "\<exists>row. owned_job jobId (user_id user) s = Some row \<and> active_job row \<and> transactional s \<and> commit_accepted s"
  then obtain row where row: "owned_job jobId (user_id user) s = Some row" "active_job row" "transactional s" "commit_accepted s" by blast
  obtain u where run: "cancelOwnedJob now user jobId s
      = (Inr (mapJob (cancelled_row now (refundable row) row)), cancel_in now (refundable row) user jobId row u)"
    and u: "if refundable row then posted (refund_entry user jobId (jb_cost_credits row) now) s u else u = s" and frame: "credit_frame s u"
    by (rule cancel_active_run [OF row])
  have "credits_ok u" using refund_credits [OF assms(2) row(1) _ _ frame] u assms(2) by (cases "refundable row") auto
  with run assms(1) show ?thesis by (auto intro: untouched_credits [OF cancel_in_untouched])
qed (use assms(2) in simp)

lemma posted_sum:
  "posted row s t \<Longrightarrow> ledger_sum u t = ledger_sum u s
     + (if u = cl_user_id row \<and> \<not> (\<exists>r \<in> set (credit_ledger s). cl_idempotency_key r = cl_idempotency_key row) then cl_delta_credits row else 0)"
  by (auto simp: posted_def ledger_sum_def split: if_splits)

lemma cancelled_again:
  assumes "owned_job jobId (user_id user) t = Some row" "jb_status row = JCancelled" "transactional t" "commit_accepted t"
  shows "cancelOwnedJob now user jobId t = (Inr (mapJob row), t)"
  using assms by (simp add: cancelOwnedJob_def withGatewayTransaction_def tx_bind_run)

definition refund_due :: "gateway_db \<Rightarrow> string \<Rightarrow> JobRow \<Rightarrow> bool" where
  "refund_due db jobId row \<longleftrightarrow> active_job row \<and> refundable row \<and> \<not> (\<exists>r \<in> set (credit_ledger db). cl_idempotency_key r = refund_key jobId)"

definition not_this_job :: "CurrentUser \<Rightarrow> string \<Rightarrow> JobRow \<Rightarrow> bool" where
  "not_this_job user jobId j \<longleftrightarrow> \<not> (jb_owner_user_id j = Some (user_id user) \<and> jb_id j = jobId)"

lemma cancel_in_others: "filter (not_this_job user jobId) (jobs (cancel_in now b user jobId row s)) = filter (not_this_job user jobId) (jobs s)"
proof -
  have "(\<And>x. P (f x) = P x) \<Longrightarrow> (\<And>x. P x \<Longrightarrow> f x = x) \<Longrightarrow> filter P (map f xs) = filter P xs" for P f and xs :: "JobRow list"
    by (induction xs) auto
  note kept = this [of "not_this_job user jobId"]
  show ?thesis unfolding cancel_in_def by (simp, rule kept) (auto simp: not_this_job_def)
qed

text \<open>
  C11. Cancellation. When a cancellation succeeds, the job of the owner is cancelled and no other job
  changes; the ledger credits the owner with the cost of the job exactly when the job was still active,
  was a paid Modal job without output and had not been refunded, and no other user with anything; every
  balance still is the sum of its ledger. Cancelling again at any time returns the same job and changes nothing.
\<close>

theorem cancellation_refunds_once:
  assumes run: "cancelOwnedJob now user jobId db = (Inr job, db')" and ok: "credits_ok db"
  shows "\<exists>row. owned_job jobId (user_id user) db = Some row \<and> jr_status job = JCancelled
    \<and> filter (not_this_job user jobId) (jobs db') = filter (not_this_job user jobId) (jobs db)
    \<and> (\<forall>u. ledger_sum u db' = ledger_sum u db + (if u = user_id user \<and> refund_due db jobId row then jb_cost_credits row else 0))
    \<and> credits_ok db' \<and> (\<forall>now'. cancelOwnedJob now' user jobId db' = (Inr job, db'))"
proof -
  from run obtain row where own: "owned_job jobId (user_id user) db = Some row" and live: "transactional db" "commit_accepted db"
    by (auto simp: cancelOwnedJob_def txE split: option.splits)
  note ok' = cancel_credits [OF run ok]
  show ?thesis
  proof (cases "active_job row")
    case True
    obtain u where res: "cancelOwnedJob now user jobId db
        = (Inr (mapJob (cancelled_row now (refundable row) row)), cancel_in now (refundable row) user jobId row u)"
      and u: "if refundable row then posted (refund_entry user jobId (jb_cost_credits row) now) db u else u = db" and frame: "credit_frame db u"
      by (rule cancel_active_run [OF own True live])
    have job: "job = mapJob (cancelled_row now (refundable row) row)" and db': "db' = cancel_in now (refundable row) user jobId row u"
      using run res by simp_all
    have own_u: "owned_job jobId (user_id user) u = Some row"
      using own credit_frame_jobs [OF frame] by (simp add: owned_job_def)
    note own' = owned_job_cancel_in [OF own_u, of now "refundable row" row, folded db']
    have live': "transactional db'" "commit_accepted db'" using live credit_frame_live [OF frame] by (simp_all add: db')
    have again: "cancelOwnedJob now' user jobId db' = (Inr job, db')" for now'
      using cancelled_again [OF own' _ live'] by (simp add: job)
    have "ledger_sum v u = ledger_sum v db + (if v = user_id user \<and> refund_due db jobId row then jb_cost_credits row else 0)" for v
      using u True posted_sum [of "refund_entry user jobId (jb_cost_credits row) now" db u v]
      by (cases "refundable row") (auto simp: refund_due_def refund_entry_def refund_key_def)
    then have "ledger_sum v db' = ledger_sum v db + (if v = user_id user \<and> refund_due db jobId row then jb_cost_credits row else 0)" for v
      by (simp add: db' ledger_sum_def)
    with own again ok' credit_frame_jobs [OF frame] show ?thesis
      by (auto simp: job db' cancel_in_others cancelled_row_def mapJob_def)
  next
    case False
    with run own live have "jb_status row = JCancelled \<and> job = mapJob row \<and> db' = db"
      by (auto simp: cancelOwnedJob_def txE split: if_splits)
    with cancelled_again [OF own _ live] own False ok show ?thesis by (auto simp: refund_due_def mapJob_def)
  qed
qed

section \<open>Deleted accounts\<close>

text \<open>The purge takes the account, its ledger and its jobs together, so the books of the others stay complete.\<close>

lemma deletion_credits:
  assumes ok: "credits_ok db"
    and run: "deleteUserData sha fresh deletionId blockedId now deleteObjects user db = (r, db')"
  shows "credits_ok db'"
proof (cases r)
  case (Inl e)
  with run have "books_untouched db db'" by (auto dest!: deleteUserData_Inl simp: books_untouched_def)
  then show ?thesis using ok by (rule untouched_credits)
next
  case (Inr receipt)
  with run have "deleteUserData sha fresh deletionId blockedId now deleteObjects user db = (Inr receipt, db')" by simp
  note tables = deleteUserData_tables [OF this]
  have sums: "ledger_sum u db' = ledger_sum u db" if "u \<noteq> user_id user" for u
    using that by (auto simp: ledger_sum_def tables intro!: arg_cong [where f = "\<lambda>xs. sum_list (map _ xs)"] filter_cong)
  have debits: "debited db' i u c = debited db i u c" if "u \<noteq> user_id user" for i u c
    using that by (auto simp: debited_def tables)
  have "\<forall>q \<in> set (credit_ledger db'). has_account (cl_user_id q) db' \<and> entry_ok db' q"
    using ok debits by (force simp: credits_ok_def entry_ok_def has_account_def tables)
  moreover have "paid_jobs_debited db'"
    using ok debits by (auto simp: credits_ok_def paid_jobs_debited_def tables)
  moreover have "\<forall>a \<in> set (credit_accounts db'). ca_balance_credits a = ledger_sum (ca_user_id a) db'"
    using ok sums by (auto simp: credits_ok_def tables)
  ultimately show ?thesis using ok by (simp add: credits_ok_def tables distinct_map_filter)
qed

section \<open>Histories\<close>

inductive job_history :: "gateway_db \<Rightarrow> bool" where
  start: "credit_accounts db = [] \<Longrightarrow> credit_ledger db = [] \<Longrightarrow> jobs db = [] \<Longrightarrow> job_history db"
| request: "job_history db \<Longrightarrow> fresh_job_id (jp_newId ps) db
    \<Longrightarrow> createJob ps user input db = (r, db') \<Longrightarrow> job_history db'"
| cancellation: "job_history db \<Longrightarrow> cancelOwnedJob now user jobId db = (r, db') \<Longrightarrow> job_history db'"
| deletion: "job_history db \<Longrightarrow>
     deleteUserData sha fresh deletionId blockedId now deleteObjects user db = (result, db') \<Longrightarrow> job_history db'"
| elsewhere: "job_history db \<Longrightarrow> books_untouched db db' \<Longrightarrow> job_history db'"

lemma job_history_credits: "job_history db \<Longrightarrow> credits_ok db"
proof (induction rule: job_history.induct)
  case (start db)
  then show ?case by (simp add: credits_ok_def paid_jobs_debited_def)
next
  case (request db ps user input r db')
  then show ?case by (blast intro: createJob_credits)
next
  case (cancellation db now user jobId r db')
  then show ?case by (blast intro: cancel_credits)
next
  case (deletion db)
  then show ?case by (blast intro: deletion_credits)
next
  case (elsewhere db db')
  then show ?case by (blast intro: untouched_credits)
qed

text \<open>
  C10. The books, in every history of job requests (with any outcome, under fresh identifiers),
  cancellations, account deletions and operations that leave the books alone: every balance is the sum of the ledger entries
  of its user, no idempotency key occurs twice in the ledger, and every credit in it repays one debit of
  the same user, job and amount.
\<close>

theorem books_balance:
  assumes "job_history db"
  shows "(\<forall>a \<in> set (credit_accounts db). ca_balance_credits a = ledger_sum (ca_user_id a) db)
    \<and> distinct (map cl_idempotency_key (credit_ledger db))
    \<and> (\<forall>r \<in> set (credit_ledger db). 0 < cl_delta_credits r \<longrightarrow>
         (\<exists>d \<in> set (credit_ledger db). \<exists>jobId. cl_source_id r = Some jobId \<and> cl_idempotency_key r = refund_key jobId
            \<and> cl_idempotency_key d = debit_key jobId \<and> cl_user_id d = cl_user_id r \<and> cl_delta_credits d = - cl_delta_credits r))"
proof -
  note ok = job_history_credits [OF assms, unfolded credits_ok_def]
  have "\<forall>r \<in> set (credit_ledger db). entry_ok db r" using ok by blast
  then have "\<forall>r \<in> set (credit_ledger db). 0 < cl_delta_credits r \<longrightarrow>
         (\<exists>d \<in> set (credit_ledger db). \<exists>jobId. cl_source_id r = Some jobId \<and> cl_idempotency_key r = refund_key jobId
            \<and> cl_idempotency_key d = debit_key jobId \<and> cl_user_id d = cl_user_id r \<and> cl_delta_credits d = - cl_delta_credits r)"
    unfolding entry_ok_def debited_def by fastforce
  with ok show ?thesis by blast
qed

end
