(* ===== verification/Job_Samples.thy ===== *)
theory Job_Samples
  imports Credit_History
begin

text \<open>
  Concrete requests, a paid one that is repeated and cancelled, one for a rig and one for a photoscan,
  for the instances of the properties of jobs and credits.
\<close>

section \<open>A paid request\<close>

definition sample_env :: proc_env where
  "sample_env = map_of [(''MODAL_TOKEN_ID'', ''t''), (''MODAL_TOKEN_SECRET'', ''s''), (''FORGE_MODAL_ENDPOINT'', ''e''),
     (''FORGE_HARDWARE_LAB_MODE'', ''1'')]"

definition sample_params :: "string \<Rightarrow> int \<Rightarrow> job_params" where
  "sample_params newId now =
     \<lparr>jp_sha = \<lambda>_. ''n'', jp_penv = sample_env, jp_fixtureOutput = \<lambda>_ _. JNull, jp_shaBytes = \<lambda>_. ''n'',
      jp_writer = None, jp_blobId = ''b1'', jp_rowId = ''a1'', jp_newId = newId, jp_trace = ''trace'', jp_now = now, jp_observability = None\<rparr>"

definition paid_input :: CreateJobInput where
  "paid_input = \<lparr>ji_kind = ''occt.tessellate'', ji_provider = Some Modal, ji_payload = JObj [(''parts'', JArr [JNum (IntN 2)])],
     ji_idempotencyKey = Some ''k1''\<rparr>"

definition paid_db :: gateway_db where
  "paid_db = snd (createJob (sample_params ''j1'' 5) sample_user paid_input empty_db)"

lemma paid_ok: "isOk (fst (createJob (sample_params ''j1'' 5) sample_user paid_input empty_db))"
  by code_simp

lemma paid_run: "\<exists>job. createJob (sample_params ''j1'' 5) sample_user paid_input empty_db = (Inr job, paid_db)"
  using isOk_run [OF paid_ok] unfolding paid_db_def by blast

lemma paid_provider: "provider_of paid_input = Modal" "ji_idempotencyKey paid_input \<noteq> None"
  by code_simp+

theorem modal_quota_respected_witness: "activeJobs None paid_db = 1 \<and> (\<exists>limit. modalQuota sample_env ''FORGE_MODAL_MAX_ACTIVE_JOBS'' 1 = Inr limit
    \<and> activeJobs None paid_db \<le> limit)"
proof -
  obtain job where run: "createJob (sample_params ''j1'' 5) sample_user paid_input empty_db = (Inr job, paid_db)" using paid_run by blast
  have "keys_unique empty_db" by (simp add: keys_unique_def empty_db_def)
  from modal_quota_respected [OF run paid_provider(1) this] have
    "\<exists>limit. modalQuota sample_env ''FORGE_MODAL_MAX_ACTIVE_JOBS'' 1 = Inr limit \<and> activeJobs None paid_db \<le> limit"
    by (auto simp: sample_params_def)
  moreover have "activeJobs None paid_db = 1" by code_simp
  ultimately show ?thesis by blast
qed


section \<open>Its cancellation and the books\<close>

definition refunded_db :: gateway_db where
  "refunded_db = snd (cancelOwnedJob 11 sample_user ''j1'' paid_db)"

lemma refunded_run: "\<exists>job. cancelOwnedJob 11 sample_user ''j1'' paid_db = (Inr job, refunded_db)"
proof -
  have "isOk (fst (cancelOwnedJob 11 sample_user ''j1'' paid_db))" by code_simp
  from isOk_run [OF this] show ?thesis unfolding refunded_db_def by blast
qed

lemma paid_history: "job_history paid_db"
proof -
  have "job_history empty_db" by (rule job_history.start) (simp_all add: empty_db_def)
  moreover have "fresh_job_id (jp_newId (sample_params ''j1'' 5)) empty_db" by (simp add: fresh_job_id_def empty_db_def)
  ultimately show ?thesis using paid_run job_history.request by blast
qed

theorem cancellation_refunds_once_witness:
  "ledger_sum ''u1'' paid_db = -1 \<and> ledger_sum ''u1'' refunded_db = 0
     \<and> (\<exists>job. cancelOwnedJob 12 sample_user ''j1'' refunded_db = (Inr job, refunded_db))"
proof -
  obtain job where run: "cancelOwnedJob 11 sample_user ''j1'' paid_db = (Inr job, refunded_db)" using refunded_run by blast
  from cancellation_refunds_once [OF run job_history_credits [OF paid_history]]
  have "\<exists>job. cancelOwnedJob 12 sample_user ''j1'' refunded_db = (Inr job, refunded_db)" by blast
  moreover have "ledger_sum ''u1'' paid_db = -1" "ledger_sum ''u1'' refunded_db = 0" by code_simp+
  ultimately show ?thesis by blast
qed

theorem books_balance_witness:
  "length (credit_ledger refunded_db) = 2 \<and> list_all (\<lambda>a. ca_balance_credits a = ledger_sum (ca_user_id a) refunded_db) (credit_accounts refunded_db)"
proof -
  have "job_history refunded_db" using paid_history refunded_run job_history.cancellation by blast
  from books_balance [OF this] have "list_all (\<lambda>a. ca_balance_credits a = ledger_sum (ca_user_id a) refunded_db) (credit_accounts refunded_db)"
    by (simp add: list_all_iff)
  moreover have "length (credit_ledger refunded_db) = 2" by code_simp
  ultimately show ?thesis by blast
qed

section \<open>A rig and a photoscan\<close>

definition gate_input :: GateInput where
  "gate_input = \<lparr>gi_gateKey = ''d28.hardware'', gi_status = GAccepted, gi_policyVersion = ''1'', gi_jurisdiction = None,
     gi_reviewer = ''r'', gi_evidence = JNull, gi_evidenceUrl = None, gi_effectiveAt = None\<rparr>"

definition lab_db :: gateway_db where
  "lab_db = snd (recordPlatformGateSignoff ''g1'' 3 gate_input empty_db)"

definition rig_input :: CreateJobInput where
  "rig_input = \<lparr>ji_kind = ''bridge.supervisor-check'', ji_provider = Some Local,
     ji_payload = JObj [(''rigId'', JStr ''ref_quad_kakute-h7-source-one-5in'')], ji_idempotencyKey = None\<rparr>"

theorem hardware_job_gated_witness: "\<exists>caps. jobCapabilities sample_env lab_db = (Inr caps, lab_db) \<and> cap_labMode caps"
proof -
  have "isOk (fst (createJob (sample_params ''j1'' 5) sample_user rig_input lab_db))" by code_simp
  then obtain job db' where run: "createJob (sample_params ''j1'' 5) sample_user rig_input lab_db = (Inr job, db')" using isOk_run by blast
  have queued: "provider_of rig_input \<noteq> Fixture" by code_simp
  have touching: "hardwareTouchingJob (ji_kind rig_input) (provider_of rig_input) payload" for payload
    by (simp add: hardwareTouchingJob_def rig_input_def provider_of_def or_else_def)
  from hardware_job_gated [OF run queued] touching show ?thesis by (auto simp: sample_params_def)
qed

definition scan_blob :: ObjectBlobRow where
  "scan_blob = \<lparr>ob_id = ''b1'', ob_owner_user_id = Some ''u1'', ob_visibility = VPrivate, ob_cache_key = None, ob_bucket = ''bucket'',
     ob_object_key = ''o1'', ob_content_type = None, ob_byte_size = Some 10, ob_sha256 = None, ob_upload_status = UComplete,
     ob_verified_at = None, ob_verification_error_code = None, ob_metadata = JObj [], ob_created_at = 1\<rparr>"

definition scan_consent :: ConsentInput where
  "scan_consent = (sample_consent Grant ''k1'')\<lparr>ci_purpose := PhotoscanProcessing, ci_subjectKind := ObjectBlobSubject, ci_subjectId := ''b1''\<rparr>"

definition scan_db :: gateway_db where
  "scan_db = snd (run_consent ''e1'' scan_consent (consent_db\<lparr>object_blobs := [scan_blob]\<rparr>))"

definition scan_input :: CreateJobInput where
  "scan_input = \<lparr>ji_kind = ''photoscan.single'', ji_provider = Some Local, ji_payload = JObj [(''sourceBlobIds'', JArr [JStr ''b1''])],
     ji_idempotencyKey = None\<rparr>"

theorem job_requires_consents_witness:
  "sourceBlobIdsFromPayload (ji_payload scan_input) = [''b1'']
     \<and> isOk (fst (assertActiveConsent (\<lambda>_. ''n'') sample_user PhotoscanProcessing ObjectBlobSubject ''b1'' scan_db))"
proof -
  have "isOk (fst (createJob (sample_params ''j1'' 7) sample_user scan_input scan_db))" by code_simp
  then obtain job db' where run: "createJob (sample_params ''j1'' 7) sample_user scan_input scan_db = (Inr job, db')" using isOk_run by blast
  have scan: "photoscan_kind (ji_kind scan_input)" "sourceBlobIdsFromPayload (ji_payload scan_input) = [''b1'']" by code_simp+
  with job_requires_consents [OF run] show ?thesis by (simp add: sample_params_def)
qed

end
