(* ===== verification/Artifact_Samples.thy ===== *)
theory Artifact_Samples
  imports Artifact_Claims Model_Claims Replays Job_Samples
begin

text \<open>
  A delivered policy, a model that is created, shared and edited, and a verified replay, for the instances
  of the properties of artifacts, models and replays.
\<close>

section \<open>A policy\<close>

definition policy_output :: jsval where
  "policy_output = JObj [(''artifactKind'', JStr ''policy''), (''scorecard'', JObj [(''exportable'', JBool True)]),
     (''io'', JObj [(''tensor'', JObj [])]),
     (''onnx'', JObj [(''modelBase64'', JStr ''AQID''), (''byteSize'', JNum (IntN 3)), (''sha256'', JStr (replicate 64 (CHR ''A'')))])]"

definition confirming_writer :: PolicyObjectWriter where
  "confirming_writer w = Inr \<lparr>si_byteSize = int (length (pw_bytes w)), si_contentType = Some (pw_contentType w), si_sha256 = Some (pw_sha256 w)\<rparr>"

definition policy_params :: artifact_params where
  "policy_params = \<lparr>ap_sha = \<lambda>_. ''n'', ap_shaBytes = \<lambda>_. replicate 64 (CHR ''a''), ap_writer = Some confirming_writer,
     ap_bucket = ''bucket'', ap_blobId = ''b1'', ap_rowId = ''a1'', ap_now = 5\<rparr>"

definition policy_job :: JobRecord where
  "policy_job = mapCreated ((job_row ''j1'' 5 sample_user ''train.policy'' Fixture None (JObj []) 0 3600
     \<lparr>of_requestId = None, of_traceId = ''t'', of_parentSpanId = None\<rparr>)\<lparr>jb_status := JSucceeded, jb_output := policy_output\<rparr>)"

definition policy_db :: gateway_db where
  "policy_db = snd (materializeJobOutput policy_params sample_user policy_job empty_db)"


section \<open>A model\<close>

definition admitting :: "string \<Rightarrow> bool \<Rightarrow> ValidateResult" where
  "admitting _ _ = \<lparr>vr_exitCode = 0, vr_report = JObj [(''verdict'', JStr ''admitted'')], vr_stderr = []\<rparr>"

definition first_contract :: jsval where
  "first_contract = JObj [(''meta'', JObj [(''name'', JStr ''quad'')]), (''parts'', JArr [JObj [(''color'', JStr ''#000000'')]])]"

definition red_contract :: jsval where
  "red_contract = JObj [(''meta'', JObj [(''name'', JStr ''quad'')]), (''parts'', JArr [JObj [(''color'', JStr ''#dc2626'')]])]"

definition sample_digest :: "string \<Rightarrow> string" where
  "sample_digest s = rev s"

definition model_db :: gateway_db where
  "model_db = snd (createModel sample_digest admitting (\<lambda>_. Some first_contract) ''m1'' 5 sample_user first_contract False empty_db)"

definition shared_db :: gateway_db where
  "shared_db = snd (shareModel ''s1'' 6 sample_user ''m1'' model_db)"

definition edited_db :: gateway_db where
  "edited_db = snd (editModel sample_digest admitting (\<lambda>_ _. \<lparr>vr_exitCode = 0, vr_report = red_contract, vr_stderr = []\<rparr>) (\<lambda>s. s) 7 ''t''
     sample_user ''m1'' ''paint it red'' shared_db)"

lemma model_runs: "model_run sample_digest empty_db model_db" "model_run sample_digest shared_db edited_db"
proof -
  show "model_run sample_digest empty_db model_db"
    unfolding model_db_def by (rule model_run.create) (rule surjective_pairing)
  show "model_run sample_digest shared_db edited_db"
    unfolding edited_db_def by (rule model_run.edit [OF model_run.stay]) (rule surjective_pairing)
qed

theorem registry_integrity_witness:
  "length (model_registry model_db) = 1
     \<and> list_all (\<lambda>m. contractHash sample_digest (mr_contract m) = Inr (mr_contract_hash m) \<and> mr_status m = ''admitted'') (model_registry model_db)"
proof -
  have "length (model_registry model_db) = 1" by code_simp
  moreover have "list_all (\<lambda>m. mr_status m = ''admitted'') (model_registry model_db)" by code_simp
  ultimately show ?thesis using registry_integrity [OF model_runs(1)] by (auto simp: list_all_iff)
qed


section \<open>A replay\<close>

definition sample_tape :: jsval where
  "sample_tape = JObj [(''header'', JObj [(''contractHash'', JStr ''c'')]),
     (''frames'', JArr [JObj [(''t'', JNum (IntN 0))], JObj [(''t'', JNum (IntN 1))]])]"

definition replay_options :: ReplayOptions where
  "replay_options = \<lparr>ro_expectedHash = Some ''n'', ro_expectedContractHash = Some ''c'', ro_courseId = None\<rparr>"

theorem replay_verified_iff_witness:
  "rv_verified (verifyReplayTape (\<lambda>_. ''n'') sample_tape replay_options)
     \<and> getProp (getProp sample_tape ''header'') ''contractHash'' = JStr ''c''"
proof -
  have "rv_verified (verifyReplayTape (\<lambda>_. ''n'') sample_tape replay_options)" by code_simp
  moreover from this have "getProp (record_or (getProp sample_tape ''header'') (JObj [])) ''contractHash'' = JStr ''c''"
    unfolding replay_verified_iff by (simp add: replay_options_def expected_def)
  ultimately show ?thesis by (simp add: record_or_def sample_tape_def)
qed

end
