(* ===== verification/Account_Claims.thy ===== *)
theory Account_Claims
  imports Lifecycle_Claims Consent_Claims "HOL-Library.Multiset"
begin

text \<open>
  The properties of account deletion (packages/gateway/src/accountData.ts): nothing of the account is left, the
  rows of the others stay, a held account is not touched, and a deletion that can be recorded goes through.
\<close>

section \<open>The purge goes through\<close>

text \<open>Only the first and the last step can fail: the consent ledger rejects the update of a row that stays, and
  an archive that stays keeps its objects.\<close>

definition inner_steps :: "(string \<times> (string \<Rightarrow> nat gtx)) list" where
  "inner_steps = butlast (tl purgeSteps)"

lemma purgeSteps_split:
  "purgeSteps = (''consentEvents'', purge_consentEvents) # inner_steps @ [(''objectBlobs'', purge_objectBlobs)]"
  by (simp add: inner_steps_def purgeSteps_def)

lemma inner_step_total:
  assumes "(key, step) \<in> set inner_steps"
  shows "\<exists>n db'. step uid db = (Inr n, db')"
proof -
  have "list_all (\<lambda>(key, step). \<exists>n db'. step uid db = (Inr n, db')) inner_steps"
    unfolding inner_steps_def purgeSteps_def list.sel butlast.simps
    by (simp add: purge_defs Let_def)
  with assms show ?thesis by (auto simp: list_all_iff)
qed

lemma inner_run_total:
  "set steps \<subseteq> set inner_steps \<Longrightarrow> \<exists>counts db'. run_purgeSteps steps uid db = (Inr counts, db')"
proof (induction steps uid arbitrary: db rule: run_purgeSteps.induct)
  case (1 uid)
  then show ?case by simp
next
  case (2 key step steps uid)
  then obtain n mid where "step uid db = (Inr n, mid)" using inner_step_total [of key step] by fastforce
  moreover obtain counts db' where "run_purgeSteps steps uid mid = (Inr counts, db')"
    using "2.IH" [of mid] "2.prems" by auto
  ultimately show ?case by (simp add: tx_bind_run)
qed

lemma run_purgeSteps_append:
  "run_purgeSteps (xs @ ys) uid = tx_bind (run_purgeSteps xs uid) (\<lambda>as. tx_bind (run_purgeSteps ys uid) (\<lambda>bs. tx_return (as @ bs)))"
  by (induction xs uid rule: run_purgeSteps.induct)
    (auto simp: fun_eq_iff tx_bind_run split: prod.splits sum.splits)

text \<open>No archive of another account refers to an object of the account.\<close>

definition archives_apart :: "string \<Rightarrow> gateway_db \<Rightarrow> bool" where
  "archives_apart uid db \<longleftrightarrow> (\<forall>m \<in> set (recorder_archive_materializations db). ma_owner_user_id m \<noteq> uid \<longrightarrow>
     (\<forall>b \<in> set (object_blobs db). ob_owner_user_id b = Some uid \<longrightarrow> ob_id b \<notin> set (materialization_blobs m)))"

lemma purge_archives_apart:
  assumes "(key, step) \<in> set purgeSteps" and "step uid db = (Inr n, db')" and "archives_apart uid db"
  shows "archives_apart uid db'"
proof -
  have "list_all (\<lambda>(key, step). step uid db = (Inr n, db') \<longrightarrow>
      set (recorder_archive_materializations db') \<subseteq> set (recorder_archive_materializations db)
      \<and> set (object_blobs db') \<subseteq> set (object_blobs db)) purgeSteps"
    unfolding purgeSteps_def list.pred_inject prod.case
    by (intro conjI impI TrueI; clarsimp simp: purge_defs Let_def remaining_def split: if_splits)
  with assms show ?thesis unfolding archives_apart_def by (fastforce simp: list_all_iff)
qed

lemma run_archives_apart:
  assumes "run_purgeSteps steps uid db = (Inr counts, db')" and "set steps \<subseteq> set purgeSteps" and "archives_apart uid db"
  shows "archives_apart uid db'"
  using assms
proof (induction steps uid arbitrary: db counts rule: run_purgeSteps.induct)
  case (1 uid)
  then show ?case by simp
next
  case (2 key step steps uid)
  from "2.prems"(1) obtain n mid counts' where "step uid db = (Inr n, mid)"
    and rest: "run_purgeSteps steps uid mid = (Inr counts', db')" by (auto simp: txE)
  with "2.prems"(2,3) have "archives_apart uid mid" using purge_archives_apart [of key step] by simp
  with "2.IH" rest "2.prems"(2) show ?case by simp
qed

lemma consent_purge_total:
  assumes inv: "consent_inv db" and ids: "distinct (map cr_id (user_consent_events db))"
  shows "\<exists>n. purge_consentEvents uid db =
    (Inr n, db\<lparr>user_consent_events := filter (\<lambda>r. cr_owner_user_id r \<noteq> uid) (user_consent_events db)\<rparr>)"
proof -
  have "\<not> refers (map cr_id (filter (\<lambda>r. cr_owner_user_id r = uid) (user_consent_events db))) (cr_previous_event_id r)"
    if r: "r \<in> set (user_consent_events db)" "cr_owner_user_id r \<noteq> uid" for r
  proof (cases "cr_previous_event_id r")
    case None
    then show ?thesis by (simp add: refers_def)
  next
    case (Some p)
    with inv r(1) obtain q where q: "q \<in> set (user_consent_events db)" "cr_id q = p" "cr_owner_user_id q = cr_owner_user_id r"
      unfolding consent_inv_def by blast
    have "q' = q" if "q' \<in> set (user_consent_events db)" "cr_id q' = p" for q'
      using ids that q(1,2) by (simp add: distinct_map inj_on_def)
    with q(3) r(2) Some show ?thesis by (auto simp: refers_def)
  qed
  then show ?thesis
    by (auto simp: purge_consentEvents_def Let_def remaining_def list_ex_iff)
qed

lemma purge_total:
  assumes "consent_inv db" and "distinct (map cr_id (user_consent_events db))" and apart: "archives_apart uid db"
  shows "\<exists>counts db'. run_purgeSteps purgeSteps uid db = (Inr counts, db')"
proof -
  let ?first = "(''consentEvents'', purge_consentEvents)" and ?last = "(''objectBlobs'', purge_objectBlobs)"
  obtain n where first: "purge_consentEvents uid db =
      (Inr n, db\<lparr>user_consent_events := filter (\<lambda>r. cr_owner_user_id r \<noteq> uid) (user_consent_events db)\<rparr>)"
    using consent_purge_total [OF assms(1,2)] by blast
  let ?db1 = "db\<lparr>user_consent_events := filter (\<lambda>r. cr_owner_user_id r \<noteq> uid) (user_consent_events db)\<rparr>"
  obtain counts db2 where inner: "run_purgeSteps inner_steps uid ?db1 = (Inr counts, db2)"
    using inner_run_total [OF order_refl] by blast
  have sub: "set inner_steps \<subseteq> set purgeSteps" by (auto simp: purgeSteps_split)
  have "archives_apart uid ?db1" using apart by (simp add: archives_apart_def)
  with inner sub have apart2: "archives_apart uid db2" by (rule run_archives_apart)
  have "Some uid \<notin> set (map (\<lambda>r. Some (ma_owner_user_id r)) (recorder_archive_materializations db2))"
    using inner sub
    by (rule run_purgeSteps_clears [where key = "''recorderArchiveMaterializations''" and step = purge_recorderArchiveMaterializations])
      (simp_all add: inner_steps_def purgeSteps_def account_columns_def)
  with apart2 have "\<not> list_ex (\<lambda>m. list_ex (\<lambda>b. b \<in> set (map ob_id (filter (\<lambda>r. ob_owner_user_id r = Some uid) (object_blobs db2))))
      (materialization_blobs m)) (recorder_archive_materializations db2)"
    by (fastforce simp: archives_apart_def list_ex_iff)
  then have "\<exists>k db3. purge_objectBlobs uid db2 = (Inr k, db3)" by (simp add: purge_objectBlobs_def Let_def)
  with first inner show ?thesis
    by (auto simp: purgeSteps_split run_purgeSteps_append tx_bind_run)
qed


lemma deletion_completes:
  assumes "transactional db" "commit_accepted db" "length (filter (\<lambda>u. user_id u = user_id user) (users db)) = 1"
    and "consent_inv db" "distinct (map cr_id (user_consent_events db))" "archives_apart (user_id user) db"
    and "isOk (fst (prepareAccountDeletionLifecycle sha fresh now (account_deletion deletionId (user_id user) db) db))"
    and "deleteObjects (stored_refs (user_id user) db) = Inr ()"
  shows "\<exists>receipt db'. deleteUserData sha fresh deletionId blockedId now deleteObjects user db = (Inr receipt, db')"
proof -
  let ?uid = "user_id user"
  obtain row where row: "find (\<lambda>u. user_id u = ?uid) (users db) = Some row"
    using assms(3) by (cases "find (\<lambda>u. user_id u = ?uid) (users db)") (auto simp: find_None_iff filter_empty_conv)
  from assms(7) obtain lifecycle mid where prep:
    "prepareAccountDeletionLifecycle sha fresh now (account_deletion deletionId ?uid db) db = (Inr lifecycle, mid)"
    by (metis isOk_iff prod.collapse)
  then obtain ts ev where mid: "mid = db\<lparr>deletion_tombstones := deletion_tombstones db @ ts,
      data_lifecycle_events := data_lifecycle_events db @ [ev]\<rparr>"
    by (rule prepareAccountDeletion_Inr)
  have "consent_inv mid" "distinct (map cr_id (user_consent_events mid))" "archives_apart ?uid mid"
    using assms(4-6) by (simp_all add: mid consent_inv_def archives_apart_def)
  then obtain counts post where purge: "run_purgeSteps purgeSteps ?uid mid = (Inr counts, post)"
    using purge_total by blast
  then have "users post = users db"
    using run_purgeSteps_unpurged [OF purge order_refl] by (simp add: unpurged_def mid)
  with assms(3) have "affected (\<lambda>u. user_id u = ?uid) (users post) = 1" by (simp add: affected_def)
  with row prep purge assms(8) have "\<exists>receipt db'. deletion_body sha fresh deletionId now deleteObjects ?uid db = (Inr receipt, db')"
    by (simp add: deletion_body_def tx_bind_run account_deletion_def purge_tokens_run delete_user_row_def Let_def)
  with assms(1,2) show ?thesis by (auto simp: deleteUserData_def withGatewayTransaction_live)
qed

section \<open>A concrete account\<close>

definition account_user :: CurrentUser where
  "account_user = \<lparr>user_id = ''u1'', user_name = None, user_email = Some ''a@b'', user_image = None\<rparr>"

definition account_db :: gateway_db where
  "account_db = empty_db\<lparr>
     users := [account_user, account_user\<lparr>user_id := ''u2'', user_email := None\<rparr>],
     sessions := [\<lparr>se_session_token = ''s1'', se_user_id = ''u1'', se_expires = 9\<rparr>,
                  \<lparr>se_session_token = ''s2'', se_user_id = ''u2'', se_expires = 9\<rparr>],
     courses := [\<lparr>co_id = ''c1'', co_owner_user_id = Some ''u1''\<rparr>],
     leaderboard_runs := [\<lparr>lb_id = ''l1'', lb_user_id = Some ''u2'', lb_course_id = ''c1''\<rparr>,
                          \<lparr>lb_id = ''l2'', lb_user_id = Some ''u2'', lb_course_id = ''c2''\<rparr>]\<rparr>"

abbreviation sample_run :: "gateway_db \<Rightarrow> (gw_error + AccountDeletionReceipt) \<times> gateway_db" where
  "sample_run \<equiv> deleteUserData (\<lambda>x. x) (\<lambda>i. dec_digits (int i)) ''del-1'' ''blk-1'' 20 (\<lambda>_. Inr ()) account_user"

lemma account_db_facts:
  "transactional account_db" "commit_accepted account_db"
  "length (filter (\<lambda>u. user_id u = user_id account_user) (users account_db)) = 1"
  "consent_inv account_db" "distinct (map cr_id (user_consent_events account_db))" "archives_apart (user_id account_user) account_db"
  by (simp_all add: account_db_def account_user_def empty_db_def consent_inv_def archives_apart_def seq_below_def keyed_def)

lemma account_db_tables:
  "legal_hold_events account_db = []" "deletion_tombstones account_db = []" "data_lifecycle_events account_db = []"
  "object_blobs account_db = []" "user_id account_user = ''u1''"
  by (simp_all add: account_db_def account_user_def empty_db_def)

lemma account_db_prepared:
  "isOk (fst (prepareAccountDeletionLifecycle (\<lambda>x. x) (\<lambda>i. dec_digits (int i)) 20
     (account_deletion ''del-1'' (user_id account_user) account_db) account_db))"
proof -
  let ?input = "\<lparr>di_userId = ''u1'', di_objectKeys = [], di_deletionId = ''del-1''\<rparr>"
  have input: "account_deletion ''del-1'' (user_id account_user) account_db = ?input"
    by (simp add: account_deletion_def stored_refs_def account_db_tables)
  have holds: "account_hold_rows (\<lambda>x. x) (di_userId ?input) (deletion_ids ?input) 20 account_db = []"
    by (simp add: account_hold_rows_def active_hold_rows_def account_db_tables distinct_on_def List.map_filter_def)
  have user: "trim ''u1'' \<noteq> []" by code_simp
  have "isOk (fst (deletion_writes (\<lambda>x. x) (\<lambda>i. dec_digits (int i)) 20 ?input account_db))"
    using user by (simp add: deletion_writes_def digestLifecycleSubject_def insert_object_tombstones_def insert_unique_def
        insert_tombstone_def insert_lifecycle_event_def tx_bind_run tx_update_run account_db_tables guardE_def bindE_def)
  with holds user show ?thesis
    unfolding input using deletion_hold_check [of ?input "\<lambda>x. x" "\<lambda>i. dec_digits (int i)" 20 account_db]
    by (simp add: Let_def)
qed

lemma sample_run_ok: "\<exists>receipt db'. sample_run account_db = (Inr receipt, db')"
  by (rule deletion_completes) (fact account_db_facts account_db_prepared refl)+

lemma sample_run_courses: "owned_courses ''u1'' account_db = [''c1'']"
  by (simp add: owned_courses_def account_db_def)

section \<open>Properties\<close>

text \<open>
  C3. After a deletion that returns a receipt no row of any table names the account: its own row, every row
  it owns in the 28 tables with a reference to \<open>users\<close>, and the verification tokens of its address are gone,
  the object store has confirmed the removal of exactly its stored objects, one tombstone per subject has
  been added, and the receipt counts every purge step.
\<close>

theorem account_deletion_erases:
  assumes "deleteUserData sha fresh deletionId blockedId now deleteObjects user db = (Inr receipt, db')"
  shows "purged (user_id user) db' \<and> (\<forall>u \<in> set (users db'). user_id u \<noteq> user_id user)
    \<and> (\<forall>u \<in> set (users db). user_id u = user_id user \<longrightarrow>
         (\<forall>t \<in> set (verification_tokens db'). user_email u \<noteq> Some (vt_identifier t) \<or> vt_identifier t = []))
    \<and> deleteObjects (stored_refs (user_id user) db) = Inr ()
    \<and> mset (stored_refs (user_id user) db) =
        mset (map (\<lambda>r. (ob_bucket r, ob_object_key r)) (filter (\<lambda>r. ob_owner_user_id r = Some (user_id user)) (object_blobs db)))
    \<and> (\<exists>ts. deletion_tombstones db' = deletion_tombstones db @ ts
         \<and> map subject_of ts = deletion_subjects sha (account_deletion deletionId (user_id user) db))
    \<and> map fst (rc_counts receipt) = map fst purgeSteps @ [''verificationTokens'', ''users'']"
proof -
  let ?uid = "user_id user"
  obtain row lifecycle mid counts post where
    row: "find (\<lambda>u. user_id u = ?uid) (users db) = Some row"
    and prep: "prepareAccountDeletionLifecycle sha fresh now (account_deletion deletionId ?uid db) db = (Inr lifecycle, mid)"
    and purge: "run_purgeSteps purgeSteps ?uid mid = (Inr counts, post)"
    and objs: "deleteObjects (stored_refs ?uid db) = Inr ()"
    and one: "length (filter (\<lambda>u. user_id u = ?uid) (users db)) = 1"
    and db': "db' = post\<lparr>verification_tokens := drop_tokens (user_email row) (verification_tokens post),
                   users := remaining (\<lambda>u. user_id u = ?uid) (users post)\<rparr>"
    and keys: "map fst (rc_counts receipt) = map fst counts @ [''verificationTokens'', ''users'']"
    by (rule deleteUserData_Inr [OF assms])
  have unique: "u = row" if "u \<in> set (users db)" "user_id u = ?uid" for u
  proof -
    obtain y where y: "filter (\<lambda>u. user_id u = ?uid) (users db) = [y]" using one by (auto simp: length_Suc_conv)
    have "u \<in> set (filter (\<lambda>u. user_id u = ?uid) (users db))" "row \<in> set (filter (\<lambda>u. user_id u = ?uid) (users db))"
      using that row by (auto simp: find_Some_iff)
    then show ?thesis unfolding y by simp
  qed
  have tokens: "user_email row \<noteq> Some (vt_identifier t) \<or> vt_identifier t = []" if "t \<in> set (verification_tokens db')" for t
    using that by (auto simp: db' drop_tokens_def remaining_def split: option.splits if_splits)
  obtain ts ev where "mid = db\<lparr>deletion_tombstones := deletion_tombstones db @ ts,
      data_lifecycle_events := data_lifecycle_events db @ [ev]\<rparr>"
    and "map subject_of ts = deletion_subjects sha (account_deletion deletionId ?uid db)"
    using prep by (rule prepareAccountDeletion_Inr)
  then have "\<exists>ts. deletion_tombstones db' = deletion_tombstones db @ ts
      \<and> map subject_of ts = deletion_subjects sha (account_deletion deletionId ?uid db)"
    using run_purgeSteps_unpurged [OF purge order_refl] by (auto simp: db' unpurged_def)
  moreover have "mset (stored_refs ?uid db) =
      mset (map (\<lambda>r. (ob_bucket r, ob_object_key r)) (filter (\<lambda>r. ob_owner_user_id r = Some ?uid) (object_blobs db)))"
    by (simp add: stored_refs_def)
  moreover have "map fst (rc_counts receipt) = map fst purgeSteps @ [''verificationTokens'', ''users'']"
    using keys run_purgeSteps_unpurged [OF purge order_refl] by simp
  moreover have "\<forall>u \<in> set (users db'). user_id u \<noteq> ?uid"
    by (simp add: deleteUserData_keeps(5) [OF assms] remaining_def)
  ultimately show ?thesis using deleteUserData_keeps(4) [OF assms] tokens unique objs by blast
qed


theorem account_deletion_erases_witness:
  "list_all (\<lambda>x. se_user_id x \<noteq> ''u1'') (sessions (snd (sample_run account_db)))"
proof -
  obtain receipt db' where run: "sample_run account_db = (Inr receipt, db')" using sample_run_ok by blast
  from account_deletion_erases [OF run] have "purged ''u1'' db'" by (simp add: account_db_tables)
  then have "Some ''u1'' \<notin> (\<lambda>r. Some (se_user_id r)) ` set (sessions db')" by (simp add: purged_def account_columns_def)
  then have "se_user_id x \<noteq> ''u1''" if "x \<in> set (sessions db')" for x using that by (auto intro: rev_image_eqI)
  with run show ?thesis by (simp add: list_all_iff)
qed





text \<open>
  C6. An active legal hold on the account, or on any object it has stored, stops the deletion: the call fails
  with status 423 whatever the object store would have done, and the only trace is one audit event that names
  the digest of the account.
\<close>

theorem held_account_untouched:
  assumes "transactional db" and "trim (user_id user) \<noteq> []" and "u \<in> set (users db)" "user_id u = user_id user"
    and "(kind = UserSubject \<and> sid = user_id user)
      \<or> (kind = ObjectSubject \<and> (\<exists>b \<in> set (object_blobs db). ob_owner_user_id b = Some (user_id user)
           \<and> sid = object_id_text (ob_bucket b) (ob_object_key b)))"
    and "fst (activeLegalHolds sha kind sid now db) = Inr (h # hs)"
    and "blockedId \<notin> le_id ` set (data_lifecycle_events db)"
  shows "\<exists>n > 0. \<exists>ev. deleteUserData sha fresh deletionId blockedId now deleteObjects user db =
      (Inl (legalHoldError n), db\<lparr>data_lifecycle_events := data_lifecycle_events db @ [ev]\<rparr>)
    \<and> le_event_type ev = ''legal-hold-blocked'' \<and> le_subject_digest ev = Some (sha (''user:'' @ user_id user))"
proof -
  let ?input = "account_deletion deletionId (user_id user) db"
  have "(kind = UserSubject \<and> sid = di_userId ?input)
      \<or> (kind = ObjectSubject \<and> sid \<in> (\<lambda>(b, k). object_id_text b k) ` set (di_objectKeys ?input))"
    using assms(5) by (auto simp: account_deletion_def stored_refs_def image_image)
  moreover have "trim (di_userId ?input) \<noteq> []" using assms(2) by (simp add: account_deletion_def)
  ultimately obtain n where n: "n > 0" "prepareAccountDeletionLifecycle sha fresh now ?input db = (Inl (legalHoldError n), db)"
    using active_hold_blocks_deletion [OF _ _ assms(6)] by blast
  obtain row where "find (\<lambda>u. user_id u = user_id user) (users db) = Some row"
    using assms(3,4) by (cases "find (\<lambda>u. user_id u = user_id user) (users db)") (auto simp: find_None_iff)
  with n(2) have "deletion_body sha fresh deletionId now deleteObjects (user_id user) db = (Inl (legalHoldError n), db)"
    by (simp add: deletion_body_def tx_bind_run account_deletion_def)
  with assms(1) have tx: "withGatewayTransaction (deletion_body sha fresh deletionId now deleteObjects (user_id user)) db
      = (Inl (legalHoldError n), db)" by (simp add: withGatewayTransaction_def)
  have "\<exists>ev. recordLegalHoldBlockedDeletion sha blockedId (user_id user) now db
      = (Inr (), db\<lparr>data_lifecycle_events := data_lifecycle_events db @ [ev]\<rparr>)
    \<and> le_event_type ev = ''legal-hold-blocked'' \<and> le_subject_digest ev = Some (sha (''user:'' @ user_id user))"
    using assms(2,7) unfolding recordLegalHoldBlockedDeletion_def
    by (force simp: digestLifecycleSubject_def tx_update_run insert_lifecycle_event_def insert_unique_def list_ex_iff bindE_def)
  with tx n(1) show ?thesis by (auto simp: deleteUserData_def legalHoldError_def)
qed

theorem held_account_untouched_witness:
  "\<exists>n > 0. \<exists>ev. sample_run (held_db\<lparr>users := [account_user]\<rparr>) =
      (Inl (legalHoldError n), held_db\<lparr>users := [account_user], data_lifecycle_events := data_lifecycle_events held_db @ [ev]\<rparr>)
    \<and> le_event_type ev = ''legal-hold-blocked'' \<and> le_subject_digest ev = Some ''user:u1''"
proof -
  let ?db = "held_db\<lparr>users := [account_user]\<rparr>"
  have "fst (activeLegalHolds (\<lambda>x. x) UserSubject ''u1'' 20 ?db) = fst (activeLegalHolds (\<lambda>x. x) UserSubject ''u1'' 20 held_db)"
    by (simp add: activeLegalHolds_run active_hold_rows_def)
  then have active: "fst (activeLegalHolds (\<lambda>x. x) UserSubject ''u1'' 20 ?db) = Inr [mapHold (hd (legal_hold_events held_db))]"
    by (simp add: held_db_facts(5))
  have "data_lifecycle_events held_db = []" by code_simp
  moreover have "trim ''u1'' \<noteq> []" by code_simp
  moreover have "transactional ?db" by (simp add: held_db_facts(3))
  ultimately show ?thesis
    using held_account_untouched [of ?db account_user account_user UserSubject "''u1''" "\<lambda>x. x" 20 _ "[]" "''blk-1''"
        "\<lambda>i. dec_digits (int i)" "''del-1''" "\<lambda>_. Inr ()"] active
    by (simp add: account_db_tables)
qed

end
