(* ===== verification/Policy_Artifact.thy ===== *)
theory Policy_Artifact
  imports Artifacts Ghost_Replay Js_Rounding
begin

text \<open>
  What the studio checks before it plays a trained policy (packages/studio/src/policyRuntime.ts,
  \<open>preparePolicyArtifact\<close>): scorecard, task, header, tensor contract and model bytes of the untrusted job output
  have to agree with each other and with the active contract.

  The output is a JavaScript value, an optional chain \<open>a?.b\<close> is \<open>getProp\<close> (\<open>undefined\<close> on everything that is
  not an object; so a versioned task is never missing, which the code checks once more). A thrown \<open>Error\<close> is its message. The SHA-256 of a byte sequence is the parameter \<open>sha\<close>.
\<close>

section \<open>Constants and data\<close>

definition POLICY_TENSOR_SCHEMA :: string where "POLICY_TENSOR_SCHEMA = ''forge-policy-tensor''"
definition POLICY_TENSOR_VERSION :: string where "POLICY_TENSOR_VERSION = ''2.0.0''"
definition LEGACY_POLICY_TENSOR_VERSION :: string where "LEGACY_POLICY_TENSOR_VERSION = ''1.0.0''"

definition ALLOWED_ACTIONS :: "string list" where
  "ALLOWED_ACTIONS = [''throttle'', ''roll'', ''pitch'', ''yaw'', ''drive'', ''turn'']"

type_synonym FocusVector = "jsnum list"

datatype TargetKind = PositionTarget | WaypointTarget

record PreparedPolicyTarget =
  pt_kind :: TargetKind
  pt_xyzM :: FocusVector
  pt_radiusM :: jsnum

record PreparedPolicyArtifact =
  pa_taskId :: string
  pa_target :: FocusVector
  pa_targets :: "PreparedPolicyTarget list"
  pa_durationS :: jsnum
  pa_rateHz :: jsnum
  pa_tensorVersion :: string
  pa_inputName :: string
  pa_inputLayout :: "string list"
  pa_outputName :: string
  pa_outputLayout :: "string list"
  pa_modelBytes :: "nat list"
  pa_modelSha256 :: string

section \<open>Checks on single values\<close>

definition stringField :: "jsval \<Rightarrow> string \<Rightarrow> string + string" where
  "stringField v label =
     (case v of
        JStr s \<Rightarrow> if s = [] \<or> 8 * 1024 * 1024 < int (length s) then Inl (label @ '' is missing or out of bounds'') else Inr s
      | _ \<Rightarrow> Inl (label @ '' is missing or out of bounds''))"

definition name_char :: "char \<Rightarrow> bool" where
  "name_char c \<longleftrightarrow> is_alnum c \<or> c \<in> {CHR ''_'', CHR ''.'', CHR ''-''}"

definition name_form :: "string \<Rightarrow> bool" where
  "name_form s \<longleftrightarrow> (case s of [] \<Rightarrow> False | c # cs \<Rightarrow> is_alnum c \<and> \<not> is_digit c \<and> list_all name_char cs)"

definition boundedName :: "jsval \<Rightarrow> string \<Rightarrow> string + string" where
  "boundedName v label =
     bindE (stringField v label) (\<lambda>name.
     if 128 < length name \<or> \<not> name_form name then Inl (label @ '' is invalid'') else Inr name)"

definition finite_number :: "jsval \<Rightarrow> string \<Rightarrow> string + jsnum" where
  "finite_number v label =
     (case v of
        JNum n \<Rightarrow> if isFinite n then Inr n else Inl (label @ '' must be finite'')
      | _ \<Rightarrow> Inl (label @ '' must be finite''))"

definition indexed :: "'a list \<Rightarrow> (nat \<times> 'a) list" where
  "indexed xs = zip [0..<length xs] xs"

definition string_list :: "jsval \<Rightarrow> string \<Rightarrow> nat \<Rightarrow> nat \<Rightarrow> string + string list" where
  "string_list v label minimum maximum =
     (case v of
        JArr xs \<Rightarrow>
          if length xs < minimum \<or> maximum < length xs then Inl (label @ '' is missing or out of bounds'')
          else mapE (\<lambda>(i, entry). boundedName entry (label @ ''['' @ nat_text i @ '']'')) (indexed xs)
      | _ \<Rightarrow> Inl (label @ '' is missing or out of bounds''))"

definition assertShape :: "jsval \<Rightarrow> nat list \<Rightarrow> string \<Rightarrow> string + unit" where
  "assertShape actual expected label =
     guardE (case actual of
         JArr xs \<Rightarrow> length xs = length expected
           \<and> list_all (\<lambda>i. strict_eq (xs ! i) (JNum (IntN (int (expected ! i))))) [0..<length expected]
       | _ \<Rightarrow> False) (label @ '' does not match'')"

definition assertExactList :: "string list \<Rightarrow> string list \<Rightarrow> string \<Rightarrow> string + unit" where
  "assertExactList actual expected label =
     guardE (length actual = length expected \<and> list_all (\<lambda>i. actual ! i = expected ! i) [0..<length actual])
       (label @ '' mismatch'')"

definition hex64 :: "string \<Rightarrow> bool" where
  "hex64 s \<longleftrightarrow> length s = 64 \<and> list_all is_hex s"

definition assertSha256 :: "string \<Rightarrow> string \<Rightarrow> string + unit" where
  "assertSha256 s label = guardE (hex64 s) (label @ '' must be a 64-character hexadecimal digest'')"

definition decodeBase64 :: "string \<Rightarrow> string + nat list" where
  "decodeBase64 s =
     (if \<not> strict_base64 s then Inl ''ONNX model bytes are not strict base64''
      else if MAX_POLICY_MODEL_BYTES < int (length (from_base64 s))
           then Inl ''ONNX model exceeds the 4194304-byte playback bound''
      else Inr (from_base64 s))"

definition focusVector :: "jsval \<Rightarrow> string \<Rightarrow> string + FocusVector" where
  "focusVector v label =
     (case v of
        JArr xs \<Rightarrow>
          if length xs \<noteq> 3 then Inl (label @ '' requires one three-axis SI world target'')
          else bindE (mapE (\<lambda>(i, axis). finite_number axis (label @ '' axis '' @ nat_text i)) (indexed xs)) (\<lambda>vec.
               if list_ex (\<lambda>axis. num_lt (Fin 1000) (num_abs axis)) vec
               then Inl (label @ '' exceeds the 1 km playback bound'') else Inr vec)
      | _ \<Rightarrow> Inl (label @ '' requires one three-axis SI world target''))"

definition sameVector :: "jsval \<Rightarrow> FocusVector \<Rightarrow> bool" where
  "sameVector v expected =
     (case v of
        JArr xs \<Rightarrow> length xs = length expected
          \<and> list_all (\<lambda>i. case xs ! i of JNum n \<Rightarrow> num_eq n (expected ! i) | _ \<Rightarrow> False) [0..<length xs]
      | _ \<Rightarrow> False)"

section \<open>Targets\<close>

definition target_kind :: "jsval \<Rightarrow> TargetKind option" where
  "target_kind v =
     (if strict_eq v (JStr ''position'') then Some PositionTarget
      else if strict_eq v (JStr ''waypoint'') then Some WaypointTarget else None)"

definition policyTarget :: "nat \<Rightarrow> jsval \<Rightarrow> string + PreparedPolicyTarget" where
  "policyTarget i target =
     (let label = ''policy target '' @ nat_text i in
      case target_kind (getProp target ''kind'') of
        None \<Rightarrow> Inl (label @ '' has an unsupported kind'')
      | Some kind \<Rightarrow>
          bindE (focusVector (getProp target ''xyzM'') label) (\<lambda>xyzM.
          bindE (finite_number (getProp target ''radiusM'') (label @ '' radius'')) (\<lambda>radiusM.
          if num_lt radiusM (fl64 (1 / 100)) \<or> num_lt (Fin 100) radiusM
          then Inl (label @ '' radius is outside its supported bound'')
          else Inr \<lparr>pt_kind = kind, pt_xyzM = xyzM, pt_radiusM = radiusM\<rparr>)))"

definition policyTargets :: "jsval \<Rightarrow> string + PreparedPolicyTarget list" where
  "policyTargets output =
     (let task = getProp output ''task''; declared = getProp task ''targets'' in
      case declared of
        JUndef \<Rightarrow>
          bindE (focusVector (getProp (getProp task ''target'') ''xyzM'') ''policy target'') (\<lambda>xyzM.
          Inr [\<lparr>pt_kind = PositionTarget, pt_xyzM = xyzM, pt_radiusM = Fin (1 / 4)\<rparr>])
      | JArr xs \<Rightarrow>
          if xs = [] \<or> 32 < length xs then Inl ''versioned policy task requires between one and 32 targets''
          else bindE (mapE (\<lambda>(i, target). policyTarget i target) (indexed xs)) (\<lambda>targets.
               if strict_eq (getProp task ''id'') (JStr ''waypoint-chain'') \<and> list_ex (\<lambda>t. pt_kind t \<noteq> WaypointTarget) targets
               then Inl ''waypoint-chain policy targets must all be waypoints''
               else if strict_eq (getProp task ''id'') (JStr ''hover-hold'')
                 \<and> (length targets \<noteq> 1 \<or> pt_kind (hd targets) \<noteq> PositionTarget)
               then Inl ''hover-hold policy task requires one position target''
               else Inr targets)
      | _ \<Rightarrow> Inl ''versioned policy task requires between one and 32 targets'')"

section \<open>The artifact\<close>

definition blocking_reasons :: "jsval \<Rightarrow> bool" where
  "blocking_reasons v =
     (case v of
        JArr xs \<Rightarrow> xs \<noteq> []
      | JStr s \<Rightarrow> s \<noteq> []
      | _ \<Rightarrow> (case getProp v ''length'' of JNum n \<Rightarrow> num_lt (Fin 0) n | _ \<Rightarrow> False))"

definition check_scorecard :: "jsval \<Rightarrow> string \<Rightarrow> string + unit" where
  "check_scorecard scorecard activeContractHash =
     bindE (guardE (strict_eq (getProp scorecard ''exportable'') (JBool True))
       ''policy scorecard is held; playback is blocked'') (\<lambda>_.
     bindE (guardE (strict_eq (getProp scorecard ''trainedOnEstimator'') (JBool True)
         \<and> strict_eq (getProp scorecard ''estimatorSmoke'') (JStr ''passed''))
       ''policy scorecard lacks passed estimator-source evidence (D8)'') (\<lambda>_.
     bindE (guardE (\<not> blocking_reasons (getProp scorecard ''reasons'')) ''policy scorecard carries blocking reasons'') (\<lambda>_.
     bindE (stringField (getProp (getProp scorecard ''lineage'') ''contractHash'') ''scorecard lineage contract hash'') (\<lambda>lineageHash.
     guardE (lineageHash = activeContractHash) ''policy scorecard lineage does not match the active contract''))))"

definition versioned_task :: "jsval \<Rightarrow> bool" where
  "versioned_task task \<longleftrightarrow> (case getProp task ''targets'' of JArr _ \<Rightarrow> True | _ \<Rightarrow> False) \<or> getProp task ''version'' \<noteq> JUndef"

definition check_task :: "jsval \<Rightarrow> jsval \<Rightarrow> string \<Rightarrow> PreparedPolicyTarget list \<Rightarrow> string + unit" where
  "check_task task scorecard taskId targets =
     bindE (guardE
         ((strict_eq (getProp task ''suite'') (JStr ''p7-v2'') \<and> strict_eq (getProp task ''version'') (JStr ''2.0.0''))
          \<or> (strict_eq (getProp task ''suite'') (JStr ''p7-v3'') \<and> strict_eq (getProp task ''version'') (JStr ''3.0.0'')))
       ''unsupported versioned policy task; expected p7-v2 2.0.0 or p7-v3 3.0.0'') (\<lambda>_.
     bindE (guardE (strict_eq (getProp task ''coordinateFrame'') (JStr ''forge-y-up-rh-m''))
       ''policy task must use FORGE Y-up/right-handed/SI coordinates'') (\<lambda>_.
     bindE (stringField (getProp task ''definitionHash'') ''policy task definition hash'') (\<lambda>raw.
     bindE (assertSha256 (toLowerCase raw) ''policy task definition hash'') (\<lambda>_.
     bindE (guardE (strict_eq (getProp scorecard ''task'') (JStr taskId)
         \<and> strict_eq (getProp scorecard ''taskVersion'') (getProp task ''version''))
       ''policy scorecard does not match the versioned task'') (\<lambda>_.
     bindE (guardE (strict_eq (getProp (getProp scorecard ''lineage'') ''taskDefinitionHash'') (JStr (toLowerCase raw)))
       ''policy scorecard lineage does not match the task definition'') (\<lambda>_.
     guardE (sameVector (getProp (getProp task ''target'') ''xyzM'') (pt_xyzM (hd targets)))
       ''policy task target does not match the first declared target''))))))"

definition check_header :: "jsval \<Rightarrow> jsval \<Rightarrow> string \<Rightarrow> string \<Rightarrow> string + string" where
  "check_header io task taskId activeContractHash =
     (let header = getProp io ''onnxHeader''; tensor = getProp io ''tensor'';
          tensorVersion = getProp tensor ''schemaVersion'' in
     bindE (stringField (getProp header ''contractHash'') ''ONNX header contract hash'') (\<lambda>headerHash.
     bindE (guardE (headerHash = activeContractHash) ''ONNX header does not match the active contract'') (\<lambda>_.
     bindE (guardE (\<not> versioned_task task
         \<or> (strict_eq (getProp header ''task'') (JStr taskId)
            \<and> strict_eq (getProp header ''taskVersion'') (getProp task ''version'')
            \<and> strict_eq (getProp header ''taskDefinitionHash'') (getProp task ''definitionHash'')))
       ''ONNX header does not match the versioned task authority'') (\<lambda>_.
     bindE (guardE (strict_eq (getProp header ''tensorSchema'') (JStr POLICY_TENSOR_SCHEMA)
         \<and> strict_eq (getProp header ''tensorVersion'') tensorVersion)
       ''unsupported ONNX tensor schema; expected forge-policy-tensor'') (\<lambda>_.
     bindE (guardE (strict_eq (getProp tensor ''schema'') (JStr POLICY_TENSOR_SCHEMA)
         \<and> (strict_eq tensorVersion (JStr LEGACY_POLICY_TENSOR_VERSION) \<or> strict_eq tensorVersion (JStr POLICY_TENSOR_VERSION)))
       ''missing supported forge-policy-tensor tensor contract (1.0.0 or 2.0.0)'') (\<lambda>_.
     bindE (guardE (strict_eq (getProp tensor ''coordinateFrame'') (JStr ''forge-y-up-rh-m''))
       ''ONNX tensor contract must use FORGE Y-up/right-handed/SI coordinates'') (\<lambda>_.
     Inr (if strict_eq tensorVersion (JStr POLICY_TENSOR_VERSION) then POLICY_TENSOR_VERSION else LEGACY_POLICY_TENSOR_VERSION))))))))"

definition check_tensor ::
  "jsval \<Rightarrow> string list \<Rightarrow> string + (string \<times> string list \<times> string \<times> string list \<times> jsnum)" where
  "check_tensor io coreLayout =
     (let tensor = getProp io ''tensor''; inp = getProp tensor ''input''; out = getProp tensor ''output'' in
     bindE (boundedName (getProp inp ''name'') ''ONNX input name'') (\<lambda>inputName.
     bindE (boundedName (getProp out ''name'') ''ONNX output name'') (\<lambda>outputName.
     bindE (string_list (getProp inp ''layout'') ''ONNX input layout'' 1 256) (\<lambda>inputLayout.
     bindE (string_list (getProp out ''layout'') ''ONNX output layout'' 1 64) (\<lambda>outputLayout.
     bindE (assertExactList inputLayout coreLayout ''ONNX input layout/core observer'') (\<lambda>_.
     bindE (string_list (getProp io ''actions'') ''policy action layout'' 1 64) (\<lambda>declaredActions.
     bindE (assertExactList outputLayout declaredActions ''ONNX output/action layout'') (\<lambda>_.
     bindE (guardE (distinct outputLayout \<and> list_all (\<lambda>n. n \<in> set ALLOWED_ACTIONS) outputLayout)
       ''ONNX action layout contains duplicate or unsupported motion targets'') (\<lambda>_.
     bindE (assertShape (getProp inp ''shape'') [1, length inputLayout] ''ONNX input shape'') (\<lambda>_.
     bindE (assertShape (getProp out ''shape'') [1, length outputLayout] ''ONNX output shape'') (\<lambda>_.
     bindE (finite_number (getProp tensor ''rateHz'') ''policy rate'') (\<lambda>rateHz.
     bindE (guardE (isInteger rateHz \<and> \<not> num_lt rateHz (Fin 1) \<and> \<not> num_lt (Fin 50) rateHz)
       ''policy rate must be an integer from 1 through 50 Hz (D9)'') (\<lambda>_.
     Inr (inputName, inputLayout, outputName, outputLayout, rateHz))))))))))))))"

definition check_model :: "(nat list \<Rightarrow> string) \<Rightarrow> jsval \<Rightarrow> nat list option \<Rightarrow> string + (nat list \<times> string)" where
  "check_model sha onnx retained =
     bindE (guardE (strict_eq (getProp onnx ''opset'') (JNum (IntN 18))) ''fixture policy must declare ONNX opset 18'') (\<lambda>_.
     bindE (finite_number (getProp onnx ''byteSize'') ''ONNX byte size'') (\<lambda>declaredSize.
     bindE (guardE (isSafeInteger declaredSize \<and> num_lt (Fin 0) declaredSize \<and> \<not> num_lt (IntN MAX_POLICY_MODEL_BYTES) declaredSize)
       ''ONNX model exceeds the 4194304-byte playback bound'') (\<lambda>_.
     bindE (case retained of
         Some bytes \<Rightarrow> Inr bytes
       | None \<Rightarrow> bindE (stringField (getProp onnx ''modelBase64'') ''ONNX model bytes'') decodeBase64) (\<lambda>modelBytes.
     bindE (guardE (num_eq (IntN (int (length modelBytes))) declaredSize)
       ''ONNX model byte count does not match its header'') (\<lambda>_.
     bindE (stringField (getProp onnx ''sha256'') ''ONNX model SHA-256'') (\<lambda>raw.
     bindE (assertSha256 (toLowerCase raw) ''ONNX model SHA-256'') (\<lambda>_.
     bindE (guardE (sha modelBytes = toLowerCase raw) ''ONNX model SHA-256 mismatch'') (\<lambda>_.
     Inr (modelBytes, toLowerCase raw)))))))))"

definition preparePolicyArtifact ::
  "(nat list \<Rightarrow> string) \<Rightarrow> jsval \<Rightarrow> string \<Rightarrow> string list \<Rightarrow> nat list option \<Rightarrow> string + PreparedPolicyArtifact" where
  "preparePolicyArtifact sha output activeContractHash coreLayout retained =
     (let task = getProp output ''task''; scorecard = getProp output ''scorecard''; io = getProp output ''io'' in
     bindE (assertSha256 activeContractHash ''active contract hash'') (\<lambda>_.
     bindE (check_scorecard scorecard activeContractHash) (\<lambda>_.
     bindE (boundedName (nullish_or (getProp task ''id'') (getProp scorecard ''task'')) ''policy task ID'') (\<lambda>taskId.
     bindE (policyTargets output) (\<lambda>targets.
     bindE (if versioned_task task then check_task task scorecard taskId targets else Inr ()) (\<lambda>_.
     bindE (check_header io task taskId activeContractHash) (\<lambda>tensorVersion.
     bindE (check_tensor io coreLayout) (\<lambda>(inputName, inputLayout, outputName, outputLayout, rateHz).
     bindE (check_model sha (getProp output ''onnx'') retained) (\<lambda>(modelBytes, modelSha256).
     bindE (finite_number (nullish_or (getProp task ''horizonS'') (JNum (Fin 60))) ''policy task horizon'') (\<lambda>horizonS.
     Inr \<lparr>pa_taskId = taskId, pa_target = pt_xyzM (hd targets), pa_targets = targets,
          pa_durationS = num_max (Fin 2) (num_min (Fin 8) (num_div horizonS (Fin 10))), pa_rateHz = rateHz,
          pa_tensorVersion = tensorVersion, pa_inputName = inputName, pa_inputLayout = inputLayout,
          pa_outputName = outputName, pa_outputLayout = outputLayout,
          pa_modelBytes = modelBytes, pa_modelSha256 = modelSha256\<rparr>))))))))))"

end
