(* ===== verification/Policy_Control.thy ===== *)
theory Policy_Control
  imports Policy_Artifact
begin

text \<open>
  The controller that plays a policy in the browser (packages/studio/src/policyRuntime.ts,
  \<open>BrowserPolicyController\<close>), as a state machine. A method runs until its first \<open>await\<close>; what it waits for
  is the \<open>phase\<close>, and the settlement of that promise is a step of its own, so that \<open>dispose\<close> and
  \<open>schedule\<close> can come in between. The observer (\<open>policySnapshot\<close>), the ONNX runtime (\<open>session.run\<close>,
  \<open>getData\<close>) and \<open>Math.hypot\<close> are parameters: a \<open>Settlement\<close> holds what each of the three promises may
  settle with, an \<open>Inl\<close> being a rejection with its message.
\<close>

section \<open>Data\<close>

record DriveInput =
  di_throttle :: jsnum
  di_pitch :: jsnum
  di_roll :: jsnum
  di_yaw :: jsnum
  di_drive :: jsnum
  di_turn :: jsnum

definition ZERO_INPUT :: DriveInput where
  "ZERO_INPUT = \<lparr>di_throttle = Fin 0, di_pitch = Fin 0, di_roll = Fin 0, di_yaw = Fin 0, di_drive = Fin 0, di_turn = Fin 0\<rparr>"

text \<open>\<open>next[action] = value\<close> for the six members of the input.\<close>

definition set_action :: "string \<Rightarrow> jsnum \<Rightarrow> DriveInput \<Rightarrow> DriveInput" where
  "set_action action v inp =
     (if action = ''throttle'' then inp\<lparr>di_throttle := v\<rparr>
      else if action = ''pitch'' then inp\<lparr>di_pitch := v\<rparr>
      else if action = ''roll'' then inp\<lparr>di_roll := v\<rparr>
      else if action = ''yaw'' then inp\<lparr>di_yaw := v\<rparr>
      else if action = ''drive'' then inp\<lparr>di_drive := v\<rparr>
      else if action = ''turn'' then inp\<lparr>di_turn := v\<rparr>
      else inp)"

record PolicyObservationSnapshot =
  os_layout :: "string list"
  os_observations :: "jsnum list"

record OrtTensor =
  ot_dims :: "jsnum list"
  ot_type :: string

record Settlement =
  st_snapshot :: "string + PolicyObservationSnapshot"
  st_run :: "string + OrtTensor option"
  st_data :: "string + jsnum list"

datatype Phase = Idle | AwaitSnapshot | AwaitRun | AwaitData

record BrowserPolicyController =
  bc_latestInput :: DriveInput
  bc_inferenceCount :: nat
  bc_nextInferenceS :: jsnum
  bc_pending :: bool
  bc_failure :: "string option"
  bc_disposed :: bool
  bc_releaseStarted :: bool
  bc_targetIndex :: nat
  bc_targetsCompleted :: nat
  bc_taskCompleted :: bool
  bc_phase :: Phase

definition new_controller :: BrowserPolicyController where
  "new_controller = \<lparr>bc_latestInput = ZERO_INPUT, bc_inferenceCount = 0, bc_nextInferenceS = Fin 0, bc_pending = False,
     bc_failure = None, bc_disposed = False, bc_releaseStarted = False, bc_targetIndex = 0, bc_targetsCompleted = 0,
     bc_taskCompleted = False, bc_phase = Idle\<rparr>"

type_synonym hypot_fun = "jsnum \<Rightarrow> jsnum \<Rightarrow> jsnum \<Rightarrow> jsnum"

section \<open>Observation and inference\<close>

definition check_snapshot :: "PreparedPolicyArtifact \<Rightarrow> PolicyObservationSnapshot \<Rightarrow> string + unit" where
  "check_snapshot artifact snapshot =
     bindE (assertExactList (os_layout snapshot) (pa_inputLayout artifact) ''runtime core observation layout'') (\<lambda>_.
     bindE (guardE (length (os_observations snapshot) = length (pa_inputLayout artifact))
       ''runtime core observation count changed'') (\<lambda>_.
     guardE (list_all isFinite (os_observations snapshot)) ''runtime core observation is non-finite''))"

definition index_of :: "string list \<Rightarrow> string \<Rightarrow> nat option" where
  "index_of names name = (if name \<in> set names then Some (length (takeWhile (\<lambda>n. n \<noteq> name) names)) else None)"

definition currentTargetReached ::
  "hypot_fun \<Rightarrow> PreparedPolicyArtifact \<Rightarrow> BrowserPolicyController \<Rightarrow> PolicyObservationSnapshot \<Rightarrow> string + bool" where
  "currentTargetReached hypot artifact c snapshot =
     (let target = pa_targets artifact ! bc_targetIndex c in
      if pt_kind target \<noteq> WaypointTarget then Inr False
      else bindE (check_snapshot artifact snapshot) (\<lambda>_.
        case (index_of (pa_inputLayout artifact) ''target.error.bodyXM'',
              index_of (pa_inputLayout artifact) ''target.error.bodyYM'',
              index_of (pa_inputLayout artifact) ''target.error.bodyZM'') of
          (Some x, Some y, Some z) \<Rightarrow>
            Inr (num_le (hypot (os_observations snapshot ! x) (os_observations snapshot ! y) (os_observations snapshot ! z))
                   (pt_radiusM target))
        | _ \<Rightarrow> Inl ''runtime tensor omits estimator target error''))"

text \<open>\<open>infer\<close> checks the snapshot and starts the run; the answer of the runtime is checked when it comes, its
  data when they are read.\<close>

definition check_tensor_answer :: "PreparedPolicyArtifact \<Rightarrow> OrtTensor option \<Rightarrow> string + unit" where
  "check_tensor_answer artifact candidate =
     (case candidate of
        None \<Rightarrow> Inl ''ONNX runtime omitted the declared action tensor''
      | Some t \<Rightarrow>
          bindE (assertShape (JArr (map JNum (ot_dims t))) [1, length (pa_outputLayout artifact)] ''runtime ONNX output shape'') (\<lambda>_.
          guardE (ot_type t = ''float32'') ''runtime ONNX output must be float32''))"

definition clamp_action :: "jsnum \<Rightarrow> jsnum" where
  "clamp_action v = num_max (Fin (- 1)) (num_min (Fin 1) v)"

definition action_bound :: jsnum where "action_bound = fl64 (1000001 / 1000000)"

definition actions :: "PreparedPolicyArtifact \<Rightarrow> jsnum list \<Rightarrow> string + DriveInput" where
  "actions artifact vals =
     bindE (guardE (length vals = length (pa_outputLayout artifact) \<and> list_all isFinite vals)
       ''runtime ONNX action tensor is malformed or non-finite'') (\<lambda>_.
     bindE (guardE (\<not> list_ex (\<lambda>v. num_lt v (num_neg action_bound) \<or> num_lt action_bound v) vals)
       ''runtime ONNX action exceeds normalized motion bounds'') (\<lambda>_.
     Inr (foldl (\<lambda>inp (action, v). set_action action (clamp_action v) inp) ZERO_INPUT (zip (pa_outputLayout artifact) vals))))"

section \<open>Steps\<close>

definition releaseRuntime :: "BrowserPolicyController \<Rightarrow> BrowserPolicyController" where
  "releaseRuntime c = (if bc_releaseStarted c then c else c\<lparr>bc_releaseStarted := True\<rparr>)"

text \<open>The \<open>finally\<close> handler of \<open>schedule\<close>.\<close>

definition finish :: "BrowserPolicyController \<Rightarrow> BrowserPolicyController" where
  "finish c = (let c' = c\<lparr>bc_pending := False, bc_phase := Idle\<rparr> in if bc_disposed c' then releaseRuntime c' else c')"

text \<open>The \<open>catch\<close> handler, followed by \<open>finally\<close>.\<close>

definition fail :: "string \<Rightarrow> BrowserPolicyController \<Rightarrow> BrowserPolicyController" where
  "fail message c =
     finish (if bc_disposed c then c else c\<lparr>bc_latestInput := ZERO_INPUT, bc_failure := Some message\<rparr>)"

text \<open>One round of the loop of \<open>processSnapshot\<close>, up to the next \<open>await\<close> or the return.\<close>

datatype Progress = Returned | WaitSnapshot | WaitRun

definition process_round ::
  "hypot_fun \<Rightarrow> PreparedPolicyArtifact \<Rightarrow> PolicyObservationSnapshot \<Rightarrow> BrowserPolicyController
     \<Rightarrow> string + (Progress \<times> BrowserPolicyController)" where
  "process_round hypot artifact snapshot c =
     (if bc_disposed c then Inr (Returned, c)
      else bindE (currentTargetReached hypot artifact c snapshot) (\<lambda>reached.
        if reached then
          (let c' = c\<lparr>bc_targetsCompleted := bc_targetsCompleted c + 1\<rparr> in
           if length (pa_targets artifact) \<le> bc_targetsCompleted c'
           then Inr (Returned, c'\<lparr>bc_taskCompleted := True, bc_latestInput := ZERO_INPUT\<rparr>)
           else Inr (WaitSnapshot, c'\<lparr>bc_targetIndex := bc_targetIndex c + 1\<rparr>))
        else bindE (check_snapshot artifact snapshot) (\<lambda>_. Inr (WaitRun, c))))"

definition deliver_actions :: "DriveInput \<Rightarrow> BrowserPolicyController \<Rightarrow> BrowserPolicyController" where
  "deliver_actions inp c = c\<lparr>bc_latestInput := inp, bc_inferenceCount := bc_inferenceCount c + 1\<rparr>"

definition settle ::
  "hypot_fun \<Rightarrow> PreparedPolicyArtifact \<Rightarrow> Settlement \<Rightarrow> BrowserPolicyController \<Rightarrow> BrowserPolicyController" where
  "settle hypot artifact s c =
     (case bc_phase c of
        Idle \<Rightarrow> c
      | AwaitSnapshot \<Rightarrow>
          (case bindE (st_snapshot s) (\<lambda>snapshot. process_round hypot artifact snapshot c) of
             Inl e \<Rightarrow> fail e c
           | Inr (Returned, c') \<Rightarrow> finish c'
           | Inr (WaitSnapshot, c') \<Rightarrow> c'
           | Inr (WaitRun, c') \<Rightarrow> c'\<lparr>bc_phase := AwaitRun\<rparr>)
      | AwaitRun \<Rightarrow>
          (case bindE (st_run s) (check_tensor_answer artifact) of
             Inl e \<Rightarrow> fail e c
           | Inr _ \<Rightarrow> c\<lparr>bc_phase := AwaitData\<rparr>)
      | AwaitData \<Rightarrow>
          (case bindE (st_data s) (actions artifact) of
             Inl e \<Rightarrow> fail e c
           | Inr inp \<Rightarrow> finish (deliver_actions inp c)))"

definition schedule :: "PreparedPolicyArtifact \<Rightarrow> jsnum \<Rightarrow> BrowserPolicyController \<Rightarrow> BrowserPolicyController" where
  "schedule artifact elapsedS c =
     (if bc_disposed c \<or> bc_pending c \<or> (case bc_failure c of None \<Rightarrow> False | Some m \<Rightarrow> m \<noteq> []) \<or> bc_taskCompleted c
         \<or> num_lt (num_add elapsedS eps9) (bc_nextInferenceS c)
      then c
      else c\<lparr>bc_nextInferenceS := num_add elapsedS (num_div (Fin 1) (pa_rateHz artifact)),
             bc_pending := True, bc_phase := AwaitSnapshot\<rparr>)"

definition dispose :: "BrowserPolicyController \<Rightarrow> BrowserPolicyController" where
  "dispose c =
     (if bc_disposed c then c
      else let c' = c\<lparr>bc_disposed := True, bc_latestInput := ZERO_INPUT\<rparr>
           in if bc_pending c' then c' else releaseRuntime c')"

section \<open>Creation\<close>

text \<open>
  \<open>create\<close> runs \<open>processSnapshot\<close> to its end before anybody else has the controller. The observer answers
  the \<open>k\<close>-th request with \<open>source k target version\<close>; the runtime answers the only run.
\<close>

definition infer ::
  "PreparedPolicyArtifact \<Rightarrow> (string + OrtTensor option) \<Rightarrow> (string + jsnum list) \<Rightarrow> BrowserPolicyController
     \<Rightarrow> string + BrowserPolicyController" where
  "infer artifact answer data c =
     bindE answer (\<lambda>candidate. bindE (check_tensor_answer artifact candidate) (\<lambda>_.
     bindE data (\<lambda>vals. bindE (actions artifact vals) (\<lambda>inp. Inr (deliver_actions inp c)))))"

type_synonym snapshot_source = "nat \<Rightarrow> FocusVector \<Rightarrow> string \<Rightarrow> string + PolicyObservationSnapshot"

lemma process_round_progress:
  assumes "process_round hypot artifact snapshot c = Inr (WaitSnapshot, c')"
  shows "bc_targetsCompleted c' = bc_targetsCompleted c + 1" "bc_targetIndex c' = bc_targetIndex c + 1"
    "bc_targetsCompleted c' < length (pa_targets artifact)" "\<not> bc_disposed c"
  using assms by (auto simp: process_round_def Let_def bindE_Inr split: if_splits)

lemma process_round_measure:
  "process_round hypot artifact snapshot c = Inr (WaitSnapshot, c') \<Longrightarrow>
     length (pa_targets artifact) - bc_targetsCompleted c' < length (pa_targets artifact) - bc_targetsCompleted c"
  using process_round_progress by fastforce

function processSnapshot ::
  "hypot_fun \<Rightarrow> PreparedPolicyArtifact \<Rightarrow> snapshot_source \<Rightarrow> (string + OrtTensor option) \<Rightarrow> (string + jsnum list)
     \<Rightarrow> nat \<Rightarrow> PolicyObservationSnapshot \<Rightarrow> BrowserPolicyController \<Rightarrow> nat \<times> (string + BrowserPolicyController)" where
  "processSnapshot hypot artifact source answer data k snapshot c =
     (case process_round hypot artifact snapshot c of
        Inl e \<Rightarrow> (k, Inl e)
      | Inr (Returned, c') \<Rightarrow> (k, Inr c')
      | Inr (WaitRun, c') \<Rightarrow> (k, infer artifact answer data c')
      | Inr (WaitSnapshot, c') \<Rightarrow>
          (case source k (pt_xyzM (pa_targets artifact ! bc_targetIndex c')) (pa_tensorVersion artifact) of
             Inl e \<Rightarrow> (k + 1, Inl e)
           | Inr next \<Rightarrow> processSnapshot hypot artifact source answer data (k + 1) next c'))"
  by pat_completeness auto

termination
  by (relation "measure (\<lambda>(_, artifact, _, _, _, _, _, c). length (pa_targets artifact) - bc_targetsCompleted c)")
    (auto dest: process_round_measure)

declare processSnapshot.simps [simp del]

definition create ::
  "(nat list \<Rightarrow> string) \<Rightarrow> hypot_fun \<Rightarrow> snapshot_source \<Rightarrow> (nat list \<Rightarrow> string + (string list \<times> string list))
     \<Rightarrow> (string + OrtTensor option) \<Rightarrow> (string + jsnum list) \<Rightarrow> jsval \<Rightarrow> string \<Rightarrow> nat list option
     \<Rightarrow> string + (PreparedPolicyArtifact \<times> BrowserPolicyController)" where
  "create sha hypot source session answer data output activeContractHash retained =
     bindE (policyTargets output) (\<lambda>declaredTargets.
     bindE (stringField (getProp (getProp (getProp output ''io'') ''tensor'') ''schemaVersion'') ''policy tensor version'') (\<lambda>tensorVersion.
     bindE (source 0 (pt_xyzM (hd declaredTargets)) tensorVersion) (\<lambda>initial.
     bindE (preparePolicyArtifact sha output activeContractHash (os_layout initial) retained) (\<lambda>artifact.
     bindE (session (pa_modelBytes artifact)) (\<lambda>(inputNames, outputNames).
     bindE (assertExactList inputNames [pa_inputName artifact] ''runtime ONNX input names'') (\<lambda>_.
     bindE (assertExactList outputNames [pa_outputName artifact] ''runtime ONNX output names'') (\<lambda>_.
     bindE (snd (processSnapshot hypot artifact source answer data 1 initial new_controller)) (\<lambda>controller.
     Inr (artifact, controller\<lparr>bc_nextInferenceS := num_div (Fin 1) (pa_rateHz artifact)\<rparr>)))))))))"

end
