(* ===== verification/Policy_Claims.thy ===== *)
theory Policy_Claims
  imports Policy_Control
begin

text \<open>
  The properties of policy playback in the studio: what an accepted artifact looks like, and what holds in
  every interleaving of scheduling, answers and disposal.
\<close>

section \<open>Motion commands\<close>

definition get_action :: "string \<Rightarrow> DriveInput \<Rightarrow> jsnum" where
  "get_action action inp =
     (if action = ''throttle'' then di_throttle inp
      else if action = ''pitch'' then di_pitch inp
      else if action = ''roll'' then di_roll inp
      else if action = ''yaw'' then di_yaw inp
      else if action = ''drive'' then di_drive inp
      else if action = ''turn'' then di_turn inp
      else Fin 0)"

definition normalized :: "jsnum \<Rightarrow> bool" where
  "normalized v \<longleftrightarrow> (case v of Fin x \<Rightarrow> - 1 \<le> x \<and> x \<le> 1 | _ \<Rightarrow> False)"

definition input_ok :: "PreparedPolicyArtifact \<Rightarrow> DriveInput \<Rightarrow> bool" where
  "input_ok artifact inp \<longleftrightarrow> list_all (\<lambda>a. normalized (get_action a inp)
     \<and> (a \<notin> set (pa_outputLayout artifact) \<longrightarrow> get_action a inp = Fin 0)) ALLOWED_ACTIONS"

lemma zero_input_ok [simp]: "input_ok artifact ZERO_INPUT"
  by (simp add: input_ok_def ALLOWED_ACTIONS_def get_action_def ZERO_INPUT_def normalized_def)

lemma clamp_normalized: "isFinite v \<Longrightarrow> normalized (clamp_action v)"
  by (cases v) (auto simp: isFinite_def clamp_action_def num_max_def num_min_def normalized_def)

lemma get_set_action:
  "a \<in> set ALLOWED_ACTIONS \<Longrightarrow> get_action a (set_action b v inp) = (if a = b then v else get_action a inp)"
  by (auto simp: ALLOWED_ACTIONS_def get_action_def set_action_def)

lemma set_action_ok:
  assumes "input_ok artifact inp" "normalized v" "b \<in> set (pa_outputLayout artifact)"
  shows "input_ok artifact (set_action b v inp)"
  using assms by (auto simp: input_ok_def list_all_iff get_set_action)

lemma actions_ok:
  assumes "actions artifact vals = Inr inp"
  shows "input_ok artifact inp"
proof -
  let ?f = "\<lambda>inp (action, v). set_action action (clamp_action v) inp"
  from assms have fin: "list_all isFinite vals" and len: "length vals = length (pa_outputLayout artifact)"
    and inp: "inp = foldl ?f ZERO_INPUT (zip (pa_outputLayout artifact) vals)"
    unfolding actions_def by (auto simp: resE)
  have "input_ok artifact (foldl ?f acc xs)"
    if "input_ok artifact acc" "\<forall>(a, v) \<in> set xs. isFinite v \<and> a \<in> set (pa_outputLayout artifact)" for acc xs
    using that
  proof (induction xs arbitrary: acc)
    case Nil
    then show ?case by simp
  next
    case (Cons x xs)
    then show ?case by (auto simp: set_action_ok clamp_normalized split: prod.splits)
  qed
  moreover have "\<forall>(a, v) \<in> set (zip (pa_outputLayout artifact) vals). isFinite v \<and> a \<in> set (pa_outputLayout artifact)"
    using fin by (auto simp: list_all_iff dest: set_zip_leftD set_zip_rightD)
  ultimately show ?thesis unfolding inp by simp
qed

section \<open>The controller's invariant\<close>

definition stopped :: "BrowserPolicyController \<Rightarrow> bool" where
  "stopped c \<longleftrightarrow> bc_taskCompleted c \<or> (case bc_failure c of None \<Rightarrow> False | Some m \<Rightarrow> m \<noteq> [])"

definition policy_inv :: "PreparedPolicyArtifact \<Rightarrow> BrowserPolicyController \<Rightarrow> bool" where
  "policy_inv artifact c \<longleftrightarrow>
     input_ok artifact (bc_latestInput c)
     \<and> (bc_pending c \<longleftrightarrow> bc_phase c \<noteq> Idle)
     \<and> (bc_releaseStarted c \<longleftrightarrow> bc_disposed c \<and> \<not> bc_pending c)
     \<and> (stopped c \<longrightarrow> bc_phase c = Idle \<and> bc_latestInput c = ZERO_INPUT)
     \<and> bc_targetIndex c < length (pa_targets artifact)
     \<and> bc_targetsCompleted c = (if bc_taskCompleted c then length (pa_targets artifact) else bc_targetIndex c)"

lemma round_Returned:
  assumes "process_round hypot artifact snapshot c = Inr (Returned, c')" and "policy_inv artifact c" "\<not> stopped c"
  shows "c' = c \<and> bc_disposed c
    \<or> (\<not> bc_disposed c \<and> c' = c\<lparr>bc_targetsCompleted := length (pa_targets artifact), bc_taskCompleted := True, bc_latestInput := ZERO_INPUT\<rparr>)"
  using assms by (auto simp: process_round_def Let_def bindE_Inr policy_inv_def stopped_def split: if_splits)

lemma round_WaitRun: "process_round hypot artifact snapshot c = Inr (WaitRun, c') \<Longrightarrow> c' = c"
  by (auto simp: process_round_def Let_def bindE_Inr split: if_splits)

lemma round_WaitSnapshot:
  "process_round hypot artifact snapshot c = Inr (WaitSnapshot, c') \<Longrightarrow>
     c' = c\<lparr>bc_targetsCompleted := bc_targetsCompleted c + 1, bc_targetIndex := bc_targetIndex c + 1\<rparr>"
  by (auto simp: process_round_def Let_def bindE_Inr split: if_splits)

lemmas handler_defs = finish_def fail_def releaseRuntime_def Let_def

lemma fail_inv: "policy_inv artifact c \<Longrightarrow> \<not> stopped c \<Longrightarrow> bc_pending c \<Longrightarrow> policy_inv artifact (fail e c)"
  by (auto simp: policy_inv_def handler_defs stopped_def)

lemma finish_inv: "policy_inv artifact c \<Longrightarrow> bc_pending c \<Longrightarrow> policy_inv artifact (finish c)"
  by (auto simp: policy_inv_def handler_defs stopped_def)

lemma settle_inv:
  assumes inv: "policy_inv artifact c"
  shows "policy_inv artifact (settle hypot artifact s c)"
proof (cases "bc_phase c = Idle")
  case True
  with inv show ?thesis by (simp add: settle_def)
next
  case False
  with inv have live: "\<not> stopped c" "bc_pending c" by (auto simp: policy_inv_def)
  show ?thesis
  proof (cases "bc_phase c")
    case Idle
    with False show ?thesis by simp
  next
    case AwaitSnapshot
    show ?thesis
    proof (cases "bindE (st_snapshot s) (\<lambda>snapshot. process_round hypot artifact snapshot c)")
      case (Inl e)
      with AwaitSnapshot fail_inv [OF inv live] show ?thesis by (simp add: settle_def)
    next
      case (Inr p)
      then obtain snapshot prog c' where p: "p = (prog, c')" "process_round hypot artifact snapshot c = Inr (prog, c')"
        by (cases p) (auto simp: bindE_Inr)
      show ?thesis
      proof (cases prog)
        case Returned
        with p have "process_round hypot artifact snapshot c = Inr (Returned, c')" by simp
        from round_Returned [OF this inv live(1)] have "policy_inv artifact (finish c')"
          using inv live by (elim disjE conjE) (auto simp: policy_inv_def handler_defs stopped_def)
        with Returned p show ?thesis by (simp add: settle_def AwaitSnapshot Inr)
      next
        case WaitSnapshot
        with p have "c' = c\<lparr>bc_targetsCompleted := bc_targetsCompleted c + 1, bc_targetIndex := bc_targetIndex c + 1\<rparr>"
          "bc_targetsCompleted c' < length (pa_targets artifact)" by (auto dest: round_WaitSnapshot process_round_progress)
        with WaitSnapshot p inv live show ?thesis
          by (auto simp: settle_def AwaitSnapshot Inr policy_inv_def stopped_def)
      next
        case WaitRun
        with p have "c' = c" by (auto dest: round_WaitRun)
        with WaitRun p inv live show ?thesis by (auto simp: settle_def AwaitSnapshot Inr policy_inv_def stopped_def)
      qed
    qed
  next
    case AwaitRun
    then show ?thesis using inv live fail_inv [OF inv live]
      by (auto simp: settle_def policy_inv_def stopped_def split: sum.splits)
  next
    case AwaitData
    show ?thesis
    proof (cases "bindE (st_data s) (actions artifact)")
      case (Inl e)
      with AwaitData fail_inv [OF inv live] show ?thesis by (simp add: settle_def)
    next
      case (Inr inp)
      then have "input_ok artifact inp" by (auto simp: bindE_Inr dest: actions_ok)
      with inv live have "policy_inv artifact (deliver_actions inp c)"
        by (auto simp: policy_inv_def deliver_actions_def stopped_def)
      with live AwaitData Inr show ?thesis by (auto simp: settle_def deliver_actions_def intro: finish_inv)
    qed
  qed
qed

lemma schedule_inv: "policy_inv artifact c \<Longrightarrow> policy_inv artifact (schedule artifact elapsedS c)"
  by (auto simp: schedule_def policy_inv_def stopped_def)

lemma dispose_inv: "policy_inv artifact c \<Longrightarrow> policy_inv artifact (dispose c)"
  by (auto simp: dispose_def policy_inv_def stopped_def releaseRuntime_def Let_def)


section \<open>Creation\<close>

text \<open>While \<open>create\<close> runs, nothing is pending and nobody can dispose the controller.\<close>

definition fresh_inv :: "PreparedPolicyArtifact \<Rightarrow> BrowserPolicyController \<Rightarrow> bool" where
  "fresh_inv artifact c \<longleftrightarrow> policy_inv artifact c \<and> \<not> bc_disposed c \<and> \<not> bc_pending c \<and> \<not> stopped c"

lemma processSnapshot_inv:
  assumes "processSnapshot hypot artifact source answer data k snapshot c = (n, Inr c')" and "fresh_inv artifact c"
  shows "policy_inv artifact c' \<and> \<not> bc_disposed c' \<and> \<not> bc_pending c'"
  using assms
proof (induction hypot artifact source answer data k snapshot c rule: processSnapshot.induct)
  case (1 hypot artifact source answer data k snapshot c)
  from "1.prems"(2) have inv: "policy_inv artifact c" and free: "\<not> stopped c" "\<not> bc_disposed c" "\<not> bc_pending c"
    by (simp_all add: fresh_inv_def)
  from "1.prems"(1) obtain prog d where round: "process_round hypot artifact snapshot c = Inr (prog, d)"
    by (subst (asm) processSnapshot.simps) (auto split: sum.splits)
  show ?case
  proof (cases prog)
    case Returned
    with round have "process_round hypot artifact snapshot c = Inr (Returned, d)" by simp
    from round_Returned [OF this inv free(1)] round Returned "1.prems"(1) inv free show ?thesis
      by (subst (asm) processSnapshot.simps) (auto simp: policy_inv_def stopped_def)
  next
    case WaitRun
    with round have d: "d = c" by (auto dest: round_WaitRun)
    with round WaitRun "1.prems"(1) obtain inp where "input_ok artifact inp" "c' = deliver_actions inp c"
      by (subst (asm) processSnapshot.simps) (auto simp: infer_def bindE_Inr dest: actions_ok)
    with inv free show ?thesis by (auto simp: policy_inv_def deliver_actions_def stopped_def)
  next
    case WaitSnapshot
    with round have d: "d = c\<lparr>bc_targetsCompleted := bc_targetsCompleted c + 1, bc_targetIndex := bc_targetIndex c + 1\<rparr>"
      "bc_targetsCompleted d < length (pa_targets artifact)" by (auto dest: round_WaitSnapshot process_round_progress)
    from "1.prems"(1) round WaitSnapshot obtain snap where
      src: "source k (pt_xyzM (pa_targets artifact ! bc_targetIndex d)) (pa_tensorVersion artifact) = Inr snap"
      and rec: "processSnapshot hypot artifact source answer data (k + 1) snap d = (n, Inr c')"
      by (subst (asm) processSnapshot.simps) (auto split: sum.splits)
    have "fresh_inv artifact d" using d inv free by (auto simp: fresh_inv_def policy_inv_def stopped_def)
    with "1.IH" [OF round _ _ src rec] WaitSnapshot show ?thesis by simp
  qed
qed

text \<open>The observer is asked at most once per target.\<close>

lemma processSnapshot_requests:
  "fst (processSnapshot hypot artifact source answer data k snapshot c) \<le> k + (length (pa_targets artifact) - bc_targetsCompleted c)"
proof (induction hypot artifact source answer data k snapshot c rule: processSnapshot.induct)
  case (1 hypot artifact source answer data k snapshot c)
  show ?case
  proof (cases "\<exists>d. process_round hypot artifact snapshot c = Inr (WaitSnapshot, d)")
    case False
    then show ?thesis
      by (subst processSnapshot.simps) (auto split: sum.split Progress.split)
  next
    case True
    then obtain d where d: "process_round hypot artifact snapshot c = Inr (WaitSnapshot, d)" by blast
    note less = process_round_measure [OF d]
    show ?thesis
    proof (cases "source k (pt_xyzM (pa_targets artifact ! bc_targetIndex d)) (pa_tensorVersion artifact)")
      case (Inl e)
      with d less show ?thesis by (subst processSnapshot.simps) simp
    next
      case (Inr snap)
      from "1.IH" [OF d refl refl Inr] less d Inr show ?thesis by (subst processSnapshot.simps) simp
    qed
  qed
qed

lemma policyTargets_nonempty: "policyTargets output = Inr targets \<Longrightarrow> targets \<noteq> []"
  by (auto simp: policyTargets_def Let_def bindE_Inr mapE_length indexed_def split: jsval.splits if_splits dest!: mapE_length)

lemma prepare_targets:
  "preparePolicyArtifact sha output h layout retained = Inr artifact \<Longrightarrow> policyTargets output = Inr (pa_targets artifact)"
  by (auto simp: preparePolicyArtifact_def Let_def bindE_Inr)

lemma create_Inr:
  assumes "create sha hypot source session answer data output h retained = Inr (artifact, c)"
  obtains initial controller where "preparePolicyArtifact sha output h (os_layout initial) retained = Inr artifact"
    and "snd (processSnapshot hypot artifact source answer data 1 initial new_controller) = Inr controller"
    and "c = controller\<lparr>bc_nextInferenceS := num_div (Fin 1) (pa_rateHz artifact)\<rparr>"
  using assms by (auto simp: create_def bindE_Inr)

lemma create_inv:
  assumes "create sha hypot source session answer data output h retained = Inr (artifact, c)"
  shows "policy_inv artifact c \<and> \<not> bc_disposed c \<and> \<not> bc_pending c"
proof -
  obtain initial controller where prep: "preparePolicyArtifact sha output h (os_layout initial) retained = Inr artifact"
    and run: "snd (processSnapshot hypot artifact source answer data 1 initial new_controller) = Inr controller"
    and c: "c = controller\<lparr>bc_nextInferenceS := num_div (Fin 1) (pa_rateHz artifact)\<rparr>"
    using assms by (rule create_Inr)
  have "pa_targets artifact \<noteq> []" using prep by (auto dest!: prepare_targets policyTargets_nonempty)
  then have "fresh_inv artifact new_controller"
    by (simp add: fresh_inv_def policy_inv_def new_controller_def stopped_def)
  then have "policy_inv artifact controller \<and> \<not> bc_disposed controller \<and> \<not> bc_pending controller"
    using run by (metis prod.collapse processSnapshot_inv)
  then show ?thesis by (auto simp: c policy_inv_def stopped_def)
qed


section \<open>Accepted artifacts\<close>

lemma stringField_Inr: "stringField v label = Inr s \<longleftrightarrow> v = JStr s \<and> s \<noteq> [] \<and> int (length s) \<le> 8 * 1024 * 1024"
  by (auto simp: stringField_def split: jsval.splits)

lemma finite_number_Inr: "finite_number v label = Inr n \<longleftrightarrow> v = JNum n \<and> isFinite n"
  by (auto simp: finite_number_def split: jsval.splits)

lemma focusVector_Inr:
  assumes "focusVector v label = Inr xs"
  shows "length xs = 3 \<and> (\<forall>y \<in> set xs. \<exists>x. y = Fin x \<and> \<bar>x\<bar> \<le> 1000)"
proof -
  from assms obtain ys where ys: "length ys = 3"
    "mapE (\<lambda>(i, axis). finite_number axis (label @ '' axis '' @ nat_text i)) (indexed ys) = Inr xs"
    and small: "\<not> list_ex (\<lambda>axis. num_lt (Fin 1000) (num_abs axis)) xs"
    by (auto simp: focusVector_def bindE_Inr split: jsval.splits if_splits)
  have "isFinite y" if "y \<in> set xs" for y
    using mapE_set [OF ys(2) that] by (auto simp: finite_number_Inr)
  moreover have "length xs = 3" using mapE_length [OF ys(2)] ys(1) by (simp add: indexed_def)
  ultimately show ?thesis using small by (fastforce simp: isFinite_def list_ex_iff split: jsnum.splits)
qed

lemma policyTargets_bounds:
  assumes "policyTargets output = Inr targets"
  shows "1 \<le> length targets \<and> length targets \<le> 32
    \<and> (\<forall>t \<in> set targets. length (pt_xyzM t) = 3 \<and> (\<forall>v \<in> set (pt_xyzM t). \<exists>x. v = Fin x \<and> \<bar>x\<bar> \<le> 1000))"
proof (cases "getProp (getProp output ''task'') ''targets''")
  case JUndef
  with assms show ?thesis by (auto simp: policyTargets_def Let_def bindE_Inr dest!: focusVector_Inr)
next
  case (JArr xs)
  with assms have xs: "xs \<noteq> []" "length xs \<le> 32"
    and map: "mapE (\<lambda>(i, target). policyTarget i target) (indexed xs) = Inr targets"
    by (auto simp: policyTargets_def Let_def bindE_Inr split: if_splits)
  have "length (pt_xyzM t) = 3 \<and> (\<forall>v \<in> set (pt_xyzM t). \<exists>x. v = Fin x \<and> \<bar>x\<bar> \<le> 1000)" if "t \<in> set targets" for t
    using mapE_set [OF map that]
    by (auto simp: policyTarget_def Let_def bindE_Inr split: option.splits if_splits dest!: focusVector_Inr)
  with xs mapE_length [OF map] show ?thesis by (simp add: indexed_def Suc_le_eq)
qed (use assms in \<open>simp_all add: policyTargets_def Let_def\<close>)

lemma assertExactList_Inr: "assertExactList actual expected label = Inr u \<longleftrightarrow> actual = expected"
  by (auto simp: assertExactList_def guardE_Inr list_all_iff intro: nth_equalityI)

lemma check_tensor_Inr:
  assumes "check_tensor io coreLayout = Inr (inputName, inputLayout, outputName, outputLayout, rateHz)"
  shows "inputLayout = coreLayout \<and> distinct outputLayout \<and> set outputLayout \<subseteq> set ALLOWED_ACTIONS
    \<and> (\<exists>r. rateHz = IntN r \<and> 1 \<le> r \<and> r \<le> 50)"
proof -
  from assms have "inputLayout = coreLayout" "distinct outputLayout" "list_all (\<lambda>n. n \<in> set ALLOWED_ACTIONS) outputLayout"
    and rate: "isInteger rateHz" "\<not> num_lt rateHz (Fin 1)" "\<not> num_lt (Fin 50) rateHz"
    unfolding check_tensor_def Let_def by (auto simp: bindE_Inr guardE_Inr assertExactList_Inr)
  moreover from rate obtain r where "rateHz = IntN r" "1 \<le> r" "r \<le> 50" by (auto simp: isInteger_iff not_less)
  ultimately show ?thesis by (auto simp: list_all_iff)
qed

lemma check_model_Inr:
  assumes "check_model sha onnx retained = Inr (modelBytes, modelSha)"
  shows "sha modelBytes = modelSha \<and> int (length modelBytes) \<le> 4 * 1024 * 1024"
  using assms by (auto simp: check_model_def bindE_Inr guardE_Inr num_eq_iff MAX_POLICY_MODEL_BYTES_def)

lemma duration_bounds:
  assumes "isFinite h"
  shows "\<exists>d. num_max (Fin 2) (num_min (Fin 8) (num_div h (Fin 10))) = Fin d \<and> 2 \<le> d \<and> d \<le> 8"
proof -
  obtain a where h: "h = Fin a" using assms by (cases h) (auto simp: isFinite_def)
  have "fl64 (a / 10) \<noteq> NaN" by (simp add: fl64_def Let_def)
  then show ?thesis by (cases "fl64 (a / 10)") (auto simp: h num_max_def num_min_def)
qed

section \<open>Playback\<close>

text \<open>Everything that can happen to a controller after its creation, in any order: a frame asks for an
  inference, a promise settles in whatever way, the owner disposes it.\<close>

inductive playback :: "PreparedPolicyArtifact \<Rightarrow> BrowserPolicyController \<Rightarrow> bool" for artifact where
  created: "create sha hypot source session answer data output h retained = Inr (artifact, c) \<Longrightarrow> playback artifact c"
| frame: "playback artifact c \<Longrightarrow> playback artifact (schedule artifact elapsedS c)"
| settled: "playback artifact c \<Longrightarrow> playback artifact (settle hypot artifact s c)"
| disposal: "playback artifact c \<Longrightarrow> playback artifact (dispose c)"

lemma playback_inv: "playback artifact c \<Longrightarrow> policy_inv artifact c"
proof (induction rule: playback.induct)
  case created
  then show ?case by (blast dest: create_inv)
next
  case frame
  then show ?case by (blast intro: schedule_inv)
next
  case settled
  then show ?case by (blast intro: settle_inv)
next
  case disposal
  then show ?case by (blast intro: dispose_inv)
qed

section \<open>Pending work ends\<close>

definition work :: "PreparedPolicyArtifact \<Rightarrow> BrowserPolicyController \<Rightarrow> nat" where
  "work artifact c = (case bc_phase c of
     Idle \<Rightarrow> 0
   | AwaitSnapshot \<Rightarrow> length (pa_targets artifact) - bc_targetsCompleted c + 2
   | AwaitRun \<Rightarrow> 2
   | AwaitData \<Rightarrow> 1)"

lemma finish_phase [simp]: "bc_phase (finish c) = Idle" "bc_phase (fail e c) = Idle"
  by (simp_all add: handler_defs)

lemma settle_work:
  assumes inv: "policy_inv artifact c" and "bc_phase c \<noteq> Idle"
  shows "work artifact (settle hypot artifact s c) < work artifact c"
proof (cases "bc_phase c")
  case Idle
  with assms show ?thesis by simp
next
  case AwaitSnapshot
  with inv have some: "bc_targetsCompleted c < length (pa_targets artifact)" by (auto simp: policy_inv_def stopped_def)
  show ?thesis
  proof (cases "bindE (st_snapshot s) (\<lambda>snapshot. process_round hypot artifact snapshot c)")
    case (Inl e)
    with AwaitSnapshot show ?thesis by (simp add: settle_def work_def)
  next
    case (Inr p)
    then obtain snapshot prog c' where p: "p = (prog, c')" "process_round hypot artifact snapshot c = Inr (prog, c')"
      by (cases p) (auto simp: bindE_Inr)
    show ?thesis
    proof (cases prog)
      case WaitSnapshot
      with p have "c' = c\<lparr>bc_targetsCompleted := bc_targetsCompleted c + 1, bc_targetIndex := bc_targetIndex c + 1\<rparr>"
        by (auto dest: round_WaitSnapshot)
      with WaitSnapshot p AwaitSnapshot Inr some show ?thesis by (simp add: settle_def work_def)
    qed (use p AwaitSnapshot Inr some in \<open>simp_all add: settle_def work_def\<close>)
  qed
qed (auto simp: settle_def work_def split: sum.splits)

definition play :: "hypot_fun \<Rightarrow> PreparedPolicyArtifact \<Rightarrow> Settlement list \<Rightarrow> BrowserPolicyController \<Rightarrow> BrowserPolicyController" where
  "play hypot artifact ss c = foldl (\<lambda>c s. settle hypot artifact s c) c ss"

lemma play_idle: "bc_phase c = Idle \<Longrightarrow> play hypot artifact ss c = c"
  by (induction ss) (simp_all add: play_def settle_def)

lemma play_ends:
  assumes "policy_inv artifact c" and "work artifact c \<le> length ss"
  shows "bc_phase (play hypot artifact ss c) = Idle"
  using assms
proof (induction ss arbitrary: c)
  case Nil
  then show ?case by (auto simp: play_def work_def split: Phase.splits)
next
  case (Cons s ss)
  show ?case
  proof (cases "bc_phase c = Idle")
    case True
    then show ?thesis by (simp add: play_idle)
  next
    case False
    have "work artifact (settle hypot artifact s c) \<le> length ss"
      using settle_work [OF Cons.prems(1) False, of hypot s] Cons.prems(2) by simp
    with Cons.IH [OF settle_inv [OF Cons.prems(1)]] show ?thesis by (simp add: play_def)
  qed
qed

section \<open>A concrete policy\<close>

definition hex_a :: string where "hex_a = replicate 64 (CHR ''a'')"

definition sample_output :: jsval where
  "sample_output = JObj
     [(''task'', JObj [(''id'', JStr ''hover''), (''target'', JObj [(''xyzM'', JArr [JNum (Fin 0), JNum (Fin 1), JNum (Fin 0)])])]),
      (''scorecard'', JObj [(''exportable'', JBool True), (''trainedOnEstimator'', JBool True), (''estimatorSmoke'', JStr ''passed''),
         (''lineage'', JObj [(''contractHash'', JStr hex_a)])]),
      (''io'', JObj [(''onnxHeader'', JObj [(''contractHash'', JStr hex_a), (''tensorSchema'', JStr ''forge-policy-tensor''),
                                     (''tensorVersion'', JStr ''2.0.0'')]),
         (''actions'', JArr [JStr ''throttle'']),
         (''tensor'', JObj [(''schema'', JStr ''forge-policy-tensor''), (''schemaVersion'', JStr ''2.0.0''),
            (''coordinateFrame'', JStr ''forge-y-up-rh-m''), (''rateHz'', JNum (Fin 50)),
            (''input'', JObj [(''name'', JStr ''obs''), (''shape'', JArr [JNum (Fin 1), JNum (Fin 1)]), (''layout'', JArr [JStr ''x''])]),
            (''output'', JObj [(''name'', JStr ''act''), (''shape'', JArr [JNum (Fin 1), JNum (Fin 1)]), (''layout'', JArr [JStr ''throttle''])])])]),
      (''onnx'', JObj [(''opset'', JNum (Fin 18)), (''byteSize'', JNum (Fin 1)), (''sha256'', JStr hex_a)])]"

definition sample_snapshot :: PolicyObservationSnapshot where
  "sample_snapshot = \<lparr>os_layout = [''x''], os_observations = [Fin 0]\<rparr>"

definition sample_tensor :: OrtTensor where "sample_tensor = \<lparr>ot_dims = [Fin 1, Fin 1], ot_type = ''float32''\<rparr>"

definition sample_create :: "string + (PreparedPolicyArtifact \<times> BrowserPolicyController)" where
  "sample_create = create (\<lambda>_. hex_a) (\<lambda>x y z. x) (\<lambda>k t v. Inr sample_snapshot) (\<lambda>_. Inr ([''obs''], [''act'']))
     (Inr (Some sample_tensor)) (Inr [Fin (1 / 2)]) sample_output hex_a (Some [7])"

lemma sample_create_ok: "isOk sample_create"
  by code_simp


definition sample_artifact :: PreparedPolicyArtifact where "sample_artifact = fst (projr sample_create)"
definition sample_controller :: BrowserPolicyController where "sample_controller = snd (projr sample_create)"

lemma sample_created: "sample_create = Inr (sample_artifact, sample_controller)"
proof -
  obtain p where p: "sample_create = Inr p" using sample_create_ok unfolding isOk_iff by blast
  show ?thesis unfolding sample_artifact_def sample_controller_def p by simp
qed

lemma sample_playback: "playback sample_artifact sample_controller"
  by (rule playback.created) (rule sample_created [unfolded sample_create_def])

definition sample_settlement :: Settlement where
  "sample_settlement = \<lparr>st_snapshot = Inr sample_snapshot, st_run = Inr (Some sample_tensor), st_data = Inr [Fin (1 / 2)]\<rparr>"

section \<open>Properties\<close>

text \<open>
  C33. Whatever the observer and the ONNX runtime answer and in whatever order frames, answers and disposal
  come, the motion commands of a controller are finite numbers between -1 and 1, and a command that the
  artifact does not declare is zero; once the task is complete or a failure is reported all of them are zero and
  no frame starts another inference.
\<close>

theorem policy_commands_bounded:
  assumes "playback artifact c"
  shows "(\<forall>a \<in> set ALLOWED_ACTIONS. \<exists>x. get_action a (bc_latestInput c) = Fin x \<and> - 1 \<le> x \<and> x \<le> 1
      \<and> (a \<notin> set (pa_outputLayout artifact) \<longrightarrow> x = 0))
    \<and> (stopped c \<longrightarrow> bc_latestInput c = ZERO_INPUT \<and> (\<forall>elapsedS. schedule artifact elapsedS c = c))"
proof -
  note inv = playback_inv [OF assms, unfolded policy_inv_def input_ok_def list_all_iff]
  have "\<exists>x. get_action a (bc_latestInput c) = Fin x \<and> - 1 \<le> x \<and> x \<le> 1 \<and> (a \<notin> set (pa_outputLayout artifact) \<longrightarrow> x = 0)"
    if "a \<in> set ALLOWED_ACTIONS" for a
    using inv that by (cases "get_action a (bc_latestInput c)") (force simp: normalized_def)+
  moreover have "schedule artifact elapsedS c = c" if "stopped c" for elapsedS
    using that by (auto simp: schedule_def stopped_def)
  ultimately show ?thesis using inv by blast
qed

theorem policy_commands_bounded_witness:
  "\<exists>x. di_throttle (bc_latestInput sample_controller) = Fin x \<and> - 1 \<le> x \<and> x \<le> 1"
  using policy_commands_bounded [OF sample_playback] by (auto simp: ALLOWED_ACTIONS_def get_action_def)

text \<open>
  C34. The ONNX session is released exactly when the controller is disposed and nothing is in flight: never
  while a call to it is outstanding, and always in the end.
\<close>

theorem policy_runtime_released_when_idle:
  assumes "playback artifact c"
  shows "bc_releaseStarted c \<longleftrightarrow> bc_disposed c \<and> bc_phase c = Idle"
  using playback_inv [OF assms] by (auto simp: policy_inv_def)

theorem policy_runtime_released_when_idle_witness: "bc_releaseStarted (dispose sample_controller)"
proof -
  have "\<not> bc_disposed sample_controller \<and> \<not> bc_pending sample_controller"
    using sample_created [unfolded sample_create_def] by (blast dest: create_inv)
  with playback_inv [OF sample_playback] have "bc_disposed (dispose sample_controller)" "bc_phase (dispose sample_controller) = Idle"
    by (simp_all add: dispose_def Let_def releaseRuntime_def policy_inv_def)
  with policy_runtime_released_when_idle [OF playback.disposal [OF sample_playback]] show ?thesis by simp
qed

text \<open>
  C35. The loop over waypoints ends. A pending request comes to its end after at most as many settlements as
  there are targets left, plus the run and the reading of its data, however the promises settle; and the
  creation of a controller asks the observer at most once per target after the first snapshot.
\<close>

theorem policy_work_terminates:
  assumes "playback artifact c" and "length (pa_targets artifact) - bc_targetsCompleted c + 2 \<le> length ss"
  shows "\<not> bc_pending (play hypot artifact ss c) \<and> bc_phase (play hypot artifact ss c) = Idle
    \<and> fst (processSnapshot hypot artifact source answer data 1 snapshot new_controller) \<le> 1 + length (pa_targets artifact)"
proof -
  have inv: "policy_inv artifact c" using assms(1) by (rule playback_inv)
  have "work artifact c \<le> length ss" using assms(2) by (auto simp: work_def split: Phase.split)
  with inv have "bc_phase (play hypot artifact ss c) = Idle" by (rule play_ends)
  moreover have "playback artifact (play hypot artifact ss c)"
    using assms(1) unfolding play_def by (induction ss arbitrary: c) (auto intro: playback.settled)
  then have "policy_inv artifact (play hypot artifact ss c)" by (rule playback_inv)
  moreover have "fst (processSnapshot hypot artifact source answer data 1 snapshot new_controller) \<le> 1 + length (pa_targets artifact)"
    using processSnapshot_requests [of hypot artifact source answer data 1 snapshot new_controller]
    by (simp add: new_controller_def)
  ultimately show ?thesis by (simp add: policy_inv_def)
qed

theorem policy_work_terminates_witness:
  "\<not> bc_pending (play (\<lambda>x y z. x) sample_artifact
     (replicate (length (pa_targets sample_artifact) + 2) sample_settlement) (schedule sample_artifact (Fin 1) sample_controller))"
  using policy_work_terminates [OF playback.frame [OF sample_playback],
      of "Fin 1" "replicate (length (pa_targets sample_artifact) + 2) sample_settlement" "\<lambda>x y z. x"
        "\<lambda>k t v. Inr sample_snapshot" "Inr None" "Inr []" sample_snapshot] by simp

text \<open>
  C36. An artifact that passes the checks is safe to run: at most 4 MiB of model bytes with the declared
  size and hash, a whole rate from 1 to 50 Hz, a duration from 2 to 8 s, one to 32 targets with finite
  coordinates within 1 km, distinct known actions, the observation layout of the core, and header and scorecard
  lineage that name the active contract.
\<close>

theorem prepared_policy_sound:
  assumes "preparePolicyArtifact sha output activeContractHash coreLayout retained = Inr artifact"
  shows "hex64 activeContractHash
    \<and> getProp (getProp (getProp output ''scorecard'') ''lineage'') ''contractHash'' = JStr activeContractHash
    \<and> getProp (getProp (getProp output ''io'') ''onnxHeader'') ''contractHash'' = JStr activeContractHash
    \<and> pa_inputLayout artifact = coreLayout
    \<and> distinct (pa_outputLayout artifact) \<and> set (pa_outputLayout artifact) \<subseteq> set ALLOWED_ACTIONS
    \<and> (\<exists>r. pa_rateHz artifact = IntN r \<and> 1 \<le> r \<and> r \<le> 50)
    \<and> (\<exists>d. pa_durationS artifact = Fin d \<and> 2 \<le> d \<and> d \<le> 8)
    \<and> sha (pa_modelBytes artifact) = pa_modelSha256 artifact \<and> int (length (pa_modelBytes artifact)) \<le> 4 * 1024 * 1024
    \<and> (1 \<le> length (pa_targets artifact) \<and> length (pa_targets artifact) \<le> 32)
    \<and> (\<forall>t \<in> set (pa_targets artifact). length (pt_xyzM t) = 3 \<and> (\<forall>v \<in> set (pt_xyzM t). \<exists>x. v = Fin x \<and> \<bar>x\<bar> \<le> 1000))"
proof -
  let ?io = "getProp output ''io''"
  from assms obtain taskId tensorVersion inputName inputLayout outputName outputLayout rateHz modelBytes modelSha horizonS targets where
    hash: "assertSha256 activeContractHash ''active contract hash'' = Inr ()"
    and score: "check_scorecard (getProp output ''scorecard'') activeContractHash = Inr ()"
    and targets: "policyTargets output = Inr targets"
    and header: "check_header ?io (getProp output ''task'') taskId activeContractHash = Inr tensorVersion"
    and tensor: "check_tensor ?io coreLayout = Inr (inputName, inputLayout, outputName, outputLayout, rateHz)"
    and model: "check_model sha (getProp output ''onnx'') retained = Inr (modelBytes, modelSha)"
    and horizon: "isFinite horizonS"
    and art: "pa_targets artifact = targets" "pa_durationS artifact = num_max (Fin 2) (num_min (Fin 8) (num_div horizonS (Fin 10)))"
      "pa_rateHz artifact = rateHz" "pa_inputLayout artifact = inputLayout" "pa_outputLayout artifact = outputLayout"
      "pa_modelBytes artifact = modelBytes" "pa_modelSha256 artifact = modelSha"
    unfolding preparePolicyArtifact_def Let_def
    by (auto simp: bindE_Inr finite_number_Inr)
  show ?thesis
    using hash score header duration_bounds [OF horizon] check_tensor_Inr [OF tensor] check_model_Inr [OF model]
      policyTargets_bounds [OF targets]
    by (auto simp: art assertSha256_def guardE_Inr check_scorecard_def check_header_def Let_def bindE_Inr stringField_Inr)
qed

theorem prepared_policy_sound_witness: "\<exists>d. pa_durationS sample_artifact = Fin d \<and> 2 \<le> d \<and> d \<le> 8"
proof -
  obtain initial :: PolicyObservationSnapshot where prep: "preparePolicyArtifact (\<lambda>_. hex_a) sample_output hex_a (os_layout initial) (Some [7]) = Inr sample_artifact"
    by (rule create_Inr [OF sample_created [unfolded sample_create_def]]) blast
  show ?thesis using prepared_policy_sound [OF prep] by simp
qed

section \<open>Disposal during an inference\<close>

text \<open>\<open>dispose\<close> sets the commands to zero, but when the runtime answers a call that was in flight, the answer is
  stored all the same: a disposed controller can hold commands that are not zero.\<close>

lemma disposed_controller_commands:
  assumes "bc_phase c = AwaitData" "bc_pending c" "\<not> bc_disposed c"
    and "st_data s = Inr vals" "actions artifact vals = Inr inp"
  shows "bc_disposed (settle hypot artifact s (dispose c)) \<and> bc_latestInput (settle hypot artifact s (dispose c)) = inp"
  using assms by (simp add: settle_def dispose_def deliver_actions_def finish_def releaseRuntime_def Let_def)

end
