(* ===== verification/Desktop_Recorder.thy ===== *)
theory Desktop_Recorder
  imports Deployment_Ladder Js_Number Js_Objects
begin

text \<open>
  The recorder client of the studio, packages/studio/src/desktopRecorder.ts: it starts and stops recordings of
  the desktop process, probes the adapter, inspects archives and has their files uploaded. As in the ladder
  client the desktop process is the parameter \<open>ladder_runtime\<close> (an arbitrary function from a command and its
  arguments to an answer or a failure), a thrown \<open>Error\<close> is its message, and an accepted answer is the value
  itself. The small checks that the two clients spell in the same way (\<open>requireExactFields\<close>, \<open>isD12Rig\<close>, the
  pattern of identifiers \<open>isSafeId\<close>) are those of Deployment_Ladder. Where the source tests a pattern on a
  value that it has not checked to be a string, JavaScript turns the value into text first (\<open>js_String\<close>).
\<close>

section \<open>Constants\<close>

definition RECORDER_INSPECTION_SCHEMA_VERSION_studio :: string where
  "RECORDER_INSPECTION_SCHEMA_VERSION_studio = ''forge-recorder-inspection/1.0.0''"
definition RECORDER_ARCHIVE_SCHEMA_VERSION_studio :: string where
  "RECORDER_ARCHIVE_SCHEMA_VERSION_studio = ''forge-recorder-archive/1.0.0''"
definition RECORDER_RECEIPT_SCHEMA_VERSION_studio :: string where
  "RECORDER_RECEIPT_SCHEMA_VERSION_studio = ''forge-recorder-receipt/1.0.0''"
definition RECORDER_CONTROL_SCHEMA_VERSION :: string where
  "RECORDER_CONTROL_SCHEMA_VERSION = ''forge-recorder-control/1.0.0''"
definition RECORDER_UPLOAD_PLAN_SCHEMA_VERSION_studio :: string where
  "RECORDER_UPLOAD_PLAN_SCHEMA_VERSION_studio = ''forge-recorder-upload-plan/1.0.0''"
definition RECORDER_UPLOAD_RECEIPT_SCHEMA_VERSION :: string where
  "RECORDER_UPLOAD_RECEIPT_SCHEMA_VERSION = ''forge-recorder-upload/1.0.0''"
definition RECORDER_ADAPTER_PROBE_SCHEMA_VERSION :: string where
  "RECORDER_ADAPTER_PROBE_SCHEMA_VERSION = ''forge-recorder-adapter-probe/1.0.0''"
definition RECORDER_ADAPTER_SCHEMA_VERSION :: string where
  "RECORDER_ADAPTER_SCHEMA_VERSION = ''forge-betaflight-msp-adapter/1.0.0''"
definition RECORDER_CUSTODY_TRUST_BUNDLE_SCHEMA_VERSION :: string where
  "RECORDER_CUSTODY_TRUST_BUNDLE_SCHEMA_VERSION = ''forge-recorder-custody-trust-bundle/1.0.0''"
definition RECORDER_CUSTODY_AUTHORIZATION_SCHEMA_VERSION :: string where
  "RECORDER_CUSTODY_AUTHORIZATION_SCHEMA_VERSION = ''forge-recorder-custody-authorization/1.0.0''"
definition RECORDER_CUSTODY_PROOF_SCHEMA_VERSION :: string where
  "RECORDER_CUSTODY_PROOF_SCHEMA_VERSION = ''forge-recorder-custody-proof/1.0.0''"
definition RECORDER_CUSTODY_PURPOSE :: string where
  "RECORDER_CUSTODY_PURPOSE = ''controlled-lab-recorder-custody''"
definition RECORDER_FRAME_SCHEMA_VERSION_studio :: string where
  "RECORDER_FRAME_SCHEMA_VERSION_studio = ''forge-telemetry-frame/1.0.0''"
definition REPLAY_SCHEMA_VERSION_studio :: string where
  "REPLAY_SCHEMA_VERSION_studio = ''1.0.0''"
definition RECORDER_BAUD :: int where "RECORDER_BAUD = 115200"
definition RECORDER_PHYSICAL_CONFIRMATION :: string where
  "RECORDER_PHYSICAL_CONFIRMATION = ''I consent to record this telemetry log''"
definition RECORDER_ADAPTER_PROBE_CONFIRMATION :: string where
  "RECORDER_ADAPTER_PROBE_CONFIRMATION =
     ''I confirm propellers are removed and authorize a read-only adapter identity probe''"
definition RECORDER_ADAPTER_READ_ONLY_COMMAND_IDS :: "int list" where
  "RECORDER_ADAPTER_READ_ONLY_COMMAND_IDS = [1, 2, 3, 4, 5, 160]"
definition D12_QUAD :: string where "D12_QUAD = ''ref_quad_kakute-h7-source-one-5in''"

definition RECORDER_ARCHIVE_FILE_NAMES :: "string list" where
  "RECORDER_ARCHIVE_FILE_NAMES =
     [''forge-recorder-manifest.json'', ''telemetry.frames.jsonl'', ''telemetry.index.jsonl'',
      ''telemetry.replay.json'', ''forge-recorder-receipt.json'']"

definition INSPECTION_FIELDS :: "string list" where
  "INSPECTION_FIELDS =
     [''schemaVersion'', ''archiveSchemaVersion'', ''replaySchemaVersion'', ''receiptSchemaVersion'', ''artifactId'',
      ''archivePath'', ''replayPath'', ''referenceRigId'', ''contractHash'', ''lockfileHash'', ''sourcePortSha256'',
      ''sampleRateHz'', ''startedAtUnixMs'', ''stoppedAtUnixMs'', ''frameCount'', ''durationS'', ''captureMaturity'',
      ''integrityVerified'', ''captureComplete'', ''captureConsentConfirmed'', ''userOwned'', ''sharingAuthorized'',
      ''trainingReuseAuthorized'', ''recordedDeviceAttested'', ''deviceIdentityVerified'', ''fieldSessionVerified'',
      ''noAutoArm'']"

definition BRIDGE_STATUS_FIELDS :: "string list" where
  "BRIDGE_STATUS_FIELDS = [''enabled'', ''reason'', ''noAutoArm'', ''policyRateHz'', ''supervisorRateHz'']"

definition SERIAL_PORT_FIELDS :: "string list" where
  "SERIAL_PORT_FIELDS = [''name'', ''kind'']"

definition ADAPTER_PROBE_FIELDS :: "string list" where
  "ADAPTER_PROBE_FIELDS =
     [''schemaVersion'', ''adapterSchemaVersion'', ''probeMaturity'', ''referenceRigId'', ''sourcePortSha256'',
      ''osDescriptorSha256'', ''baud'', ''observedAtUnixMs'', ''firmware'', ''firmwareVersion'', ''mspProtocolVersion'',
      ''mspApiMajor'', ''mspApiMinor'', ''flightControllerVariant'', ''boardIdentifier'', ''targetName'', ''boardName'',
      ''manufacturerId'', ''deviceUidSha256'', ''identitySha256'', ''preIdentityResponseSha256'',
      ''postIdentityResponseSha256'', ''transcriptSha256'', ''readOnlyCommandIds'', ''adapterProtocolVerified'',
      ''stableIdentityObserved'', ''deviceIdentityVerified'', ''cryptographicDeviceAttestation'',
      ''recordedDeviceAttested'', ''fieldSessionVerified'', ''sharingAuthorized'', ''trainingReuseAuthorized'',
      ''noAutoArm'']"

definition CONTROL_STATUS_FIELDS :: "string list" where
  "CONTROL_STATUS_FIELDS =
     [''schemaVersion'', ''state'', ''artifactId'', ''archivePath'', ''manifestPath'', ''referenceRigId'', ''contractHash'',
      ''lockfileHash'', ''sourcePortSha256'', ''sourceBaud'', ''sampleRateHz'', ''startedAtUnixMs'', ''captureMaturity'',
      ''captureConsentConfirmed'', ''recordedDeviceAttested'', ''deviceIdentityVerified'', ''fieldSessionVerified'',
      ''userOwned'', ''sharingAuthorized'', ''trainingReuseAuthorized'', ''noAutoArm'']"

definition STOP_RECEIPT_FIELDS :: "string list" where
  "STOP_RECEIPT_FIELDS =
     [''schemaVersion'', ''archiveSchemaVersion'', ''replaySchemaVersion'', ''frameSchemaVersion'', ''artifactId'',
      ''referenceRigId'', ''contractHash'', ''lockfileHash'', ''startedAtUnixMs'', ''stoppedAtUnixMs'', ''frameCount'',
      ''durationS'', ''frameFileSha256'', ''indexFileSha256'', ''replayFileSha256'', ''sourcePortSha256'',
      ''captureComplete'', ''captureMaturity'', ''captureConsentConfirmed'', ''recordedDeviceAttested'', ''userOwned'',
      ''sharingAuthorized'', ''trainingReuseAuthorized'', ''noAutoArm'']"

definition CUSTODY_PROOF_FIELDS :: "string list" where
  "CUSTODY_PROOF_FIELDS =
     [''schemaVersion'', ''trustBundleSchemaVersion'', ''authorizationSchemaVersion'',
      ''recorderAdapterProbeSchemaVersion'', ''recorderAdapterSchemaVersion'', ''authorizationId'',
      ''authorizationSha256'', ''trustBundleId'', ''trustBundleSha256'', ''acceptanceAuthorityKeyId'',
      ''protectedRevision'', ''purpose'', ''evidencePackSchemaVersion'', ''evidencePackSha256'',
      ''requiredSignoffSetSha256'', ''referenceRigId'', ''artifactId'', ''modelId'', ''contractHash'', ''lockfileHash'',
      ''telemetrySourcePortSha256'', ''telemetryStartOsDescriptorSha256'', ''telemetryStopOsDescriptorSha256'',
      ''identitySourcePortSha256'', ''identityStartOsDescriptorSha256'', ''identityStopOsDescriptorSha256'',
      ''expectedIdentitySha256'', ''preIdentitySha256'', ''postIdentitySha256'', ''expectedDeviceUidSha256'',
      ''preDeviceUidSha256'', ''postDeviceUidSha256'', ''preObservedAtUnixMs'', ''postObservedAtUnixMs'',
      ''startPreIdentityResponseSha256'', ''startPostIdentityResponseSha256'', ''startTranscriptSha256'',
      ''stopPreIdentityResponseSha256'', ''stopPostIdentityResponseSha256'', ''stopTranscriptSha256'',
      ''recorderReceiptSha256'', ''captureStartedAtUnixMs'', ''captureStoppedAtUnixMs'', ''proofCreatedAtUnixMs'',
      ''acceptanceAuthoritySignatureVerified'', ''identityContinuityVerified'', ''captureConsentConfirmed'', ''noAutoArm'',
      ''cryptographicDeviceAttestation'', ''recordedDeviceAttested'', ''deviceIdentityVerified'',
      ''fieldSessionVerified'', ''sharingAuthorized'', ''trainingReuseAuthorized'']"

definition UPLOAD_PLAN_FIELDS :: "string list" where
  "UPLOAD_PLAN_FIELDS =
     [''schemaVersion'', ''archiveSchemaVersion'', ''inspectionSchemaVersion'', ''artifactId'', ''referenceRigId'',
      ''contractHash'', ''lockfileHash'', ''sourcePortSha256'', ''sampleRateHz'', ''startedAtUnixMs'',
      ''stoppedAtUnixMs'', ''frameCount'', ''durationS'', ''captureMaturity'', ''aggregateByteSize'', ''files'',
      ''localIntegrityVerified'', ''captureComplete'', ''captureConsentConfirmed'', ''userOwned'', ''sharingAuthorized'',
      ''trainingReuseAuthorized'', ''recordedDeviceAttested'', ''deviceIdentityVerified'', ''fieldSessionVerified'',
      ''noAutoArm'']"

definition UPLOAD_FILE_FIELDS :: "string list" where
  "UPLOAD_FILE_FIELDS = [''name'', ''contentType'', ''byteSize'', ''sha256'']"

definition UPLOAD_RECEIPT_FIELDS :: "string list" where
  "UPLOAD_RECEIPT_FIELDS =
     [''schemaVersion'', ''uploadPlanSchemaVersion'', ''artifactId'', ''uploadedFileCount'', ''uploadedByteSize'',
      ''localIntegrityVerified'', ''gatewayObjectIntegrityVerified'', ''recordedDeviceAttested'',
      ''deviceIdentityVerified'', ''fieldSessionVerified'', ''sharingAuthorized'', ''trainingReuseAuthorized'',
      ''noAutoArm'']"

section \<open>Checks on single values\<close>

text \<open>A conjunction of comparisons \<open>value.field === constant\<close>, and a loop that names the first field that
  fails its check.\<close>

definition fields_are :: "jsval \<Rightarrow> (string \<times> jsval) list \<Rightarrow> bool" where
  "fields_are v kvs \<longleftrightarrow> list_all (\<lambda>(field, c). strict_eq (getProp v field) c) kvs"

definition each_field :: "(jsval \<Rightarrow> bool) \<Rightarrow> string list \<Rightarrow> (string \<Rightarrow> string) \<Rightarrow> jsval \<Rightarrow> string + unit" where
  "each_field ok names message v =
     (case find (\<lambda>field. \<not> ok (getProp v field)) names of
        Some field \<Rightarrow> Inl (message field)
      | None \<Rightarrow> Inr ())"

text \<open>A nonempty string of at most \<open>maximum\<close> UTF-8 bytes.\<close>

definition bounded_text :: "int \<Rightarrow> jsval \<Rightarrow> bool" where
  "bounded_text maximum v = (case v of JStr s \<Rightarrow> s \<noteq> [] \<and> int (byteLength s) \<le> maximum | _ \<Rightarrow> False)"

definition isBoundedPrintableAscii :: "jsval \<Rightarrow> nat \<Rightarrow> nat \<Rightarrow> bool" where
  "isBoundedPrintableAscii v minimum maximum =
     (case v of
        JStr s \<Rightarrow> minimum \<le> length s \<and> length s \<le> maximum \<and> s \<noteq> [] \<and> list_all (in_range (CHR 0x20) (CHR 0x7E)) s
      | _ \<Rightarrow> False)"

definition path_separator :: "char \<Rightarrow> bool" where
  "path_separator c \<longleftrightarrow> c = CHR 0x5C \<or> c = CHR ''/''"

definition drive_path :: "string \<Rightarrow> bool" where
  "drive_path s =
     (case s of a # b # c # _ \<Rightarrow> is_alnum a \<and> \<not> is_digit a \<and> b = CHR '':'' \<and> path_separator c | _ \<Rightarrow> False)"

definition unc_path :: "string \<Rightarrow> bool" where
  "unc_path s =
     (case s of
        a # b # rest \<Rightarrow>
          a = CHR 0x5C \<and> b = CHR 0x5C \<and> takeWhile (\<lambda>c. \<not> path_separator c) rest \<noteq> []
          \<and> (case dropWhile (\<lambda>c. \<not> path_separator c) rest of _ # d # _ \<Rightarrow> \<not> path_separator d | _ \<Rightarrow> False)
      | _ \<Rightarrow> False)"

definition validAbsolutePath :: "string \<Rightarrow> bool" where
  "validAbsolutePath s \<longleftrightarrow>
     s \<noteq> [] \<and> int (byteLength s) \<le> 4096 \<and> (startsWith ''/'' s \<or> drive_path s \<or> unc_path s)"

definition path_value :: "jsval \<Rightarrow> bool" where
  "path_value v = (case v of JStr s \<Rightarrow> validAbsolutePath s | _ \<Rightarrow> False)"

definition file_in_archive :: "string \<Rightarrow> jsval \<Rightarrow> bool" where
  "file_in_archive name v =
     (case v of JStr s \<Rightarrow> endsWith (CHR ''/'' # name) s \<or> endsWith (CHR 0x5C # name) s | _ \<Rightarrow> False)"

definition normalizeArchivePath :: "string \<Rightarrow> string + string" where
  "normalizeArchivePath s =
     (if validAbsolutePath (trim s) then Inr (trim s)
      else Inl ''archive path must be absolute and contain 1 through 4096 UTF-8 bytes'')"

definition firmware_ok :: "jsval \<Rightarrow> bool" where
  "firmware_ok v =
     (case v of
        JStr s \<Rightarrow>
          startsWith ''2025.12.'' s
          \<and> (let patch = drop 8 s in patch = ''0''
               \<or> (patch \<noteq> [] \<and> length patch \<le> 3 \<and> in_range (CHR ''1'') (CHR ''9'') (hd patch) \<and> list_all is_digit patch))
          \<and> \<not> num_lt (IntN 255) (js_Number (split_on (CHR ''.'') s ! 2))
      | _ \<Rightarrow> False)"

definition board_ok :: "jsval \<Rightarrow> bool" where
  "board_ok v =
     (case v of
        JStr s \<Rightarrow> s \<noteq> [] \<and> length s \<le> 4 \<and> list_all (\<lambda>c. in_range (CHR ''A'') (CHR ''Z'') c \<or> is_digit c) s
      | _ \<Rightarrow> False)"

definition duration_value :: "jsval \<Rightarrow> bool" where
  "duration_value v = (case v of JNum n \<Rightarrow> isFinite n \<and> \<not> num_lt n (Fin 0) | _ \<Rightarrow> False)"

text \<open>Start and stop of a capture: safe integers, the stop not before the start.\<close>

definition capture_times :: "jsval \<Rightarrow> bool" where
  "capture_times v \<longleftrightarrow>
     safeInteger (getProp v ''startedAtUnixMs'') 0 max_safe_integer
     \<and> safeInteger (getProp v ''stoppedAtUnixMs'') (- max_safe_integer) max_safe_integer
     \<and> \<not> num_lt (number_of (getProp v ''stoppedAtUnixMs'')) (number_of (getProp v ''startedAtUnixMs''))"

section \<open>Parsers of the answers\<close>

definition parseDesktopBridgeStatus :: "jsval \<Rightarrow> string + jsval" where
  "parseDesktopBridgeStatus v =
     bindE (requireExactFields v BRIDGE_STATUS_FIELDS ''Desktop bridge status'') (\<lambda>_.
     bindE (guardE (is_boolean (getProp v ''enabled'') \<and> bounded_text 4096 (getProp v ''reason'')
         \<and> fields_are v [(''noAutoArm'', JBool True), (''policyRateHz'', JNum (IntN 50)), (''supervisorRateHz'', JNum (IntN 200))])
       ''Desktop bridge status fields or safety authority have drifted'') (\<lambda>_.
     Inr v))"

definition parse_serial_port :: "nat \<Rightarrow> jsval \<Rightarrow> string + jsval" where
  "parse_serial_port i port =
     (let label = ''Desktop serial port '' @ nat_text i in
     bindE (requireExactFields port SERIAL_PORT_FIELDS label) (\<lambda>_.
     bindE (guardE (bounded_text 4096 (getProp port ''name'') \<and> bounded_text 512 (getProp port ''kind''))
       (label @ '' is invalid'')) (\<lambda>_.
     Inr port)))"

definition parseDesktopSerialPorts :: "jsval \<Rightarrow> string + jsval list" where
  "parseDesktopSerialPorts v =
     (case v of
        JArr xs \<Rightarrow>
          if 256 < length xs then Inl ''Desktop serial-port response must be an array of at most 256 ports''
          else mapE (\<lambda>(i, port). parse_serial_port i port) (zip [0..<length xs] xs)
      | _ \<Rightarrow> Inl ''Desktop serial-port response must be an array of at most 256 ports'')"

definition probe_identity :: "jsval \<Rightarrow> bool" where
  "probe_identity v \<longleftrightarrow>
     fields_are v [(''referenceRigId'', JStr D12_QUAD), (''baud'', JNum (IntN RECORDER_BAUD))]
     \<and> safeInteger (getProp v ''observedAtUnixMs'') 0 max_safe_integer
     \<and> fields_are v [(''firmware'', JStr ''betaflight'')] \<and> firmware_ok (getProp v ''firmwareVersion'')
     \<and> fields_are v [(''mspProtocolVersion'', JNum (IntN 0)), (''mspApiMajor'', JNum (IntN 1)),
         (''mspApiMinor'', JNum (IntN 47)), (''flightControllerVariant'', JStr ''BTFL'')]
     \<and> board_ok (getProp v ''boardIdentifier'') \<and> fields_are v [(''targetName'', JStr ''KAKUTEH7'')]
     \<and> isBoundedPrintableAscii (getProp v ''boardName'') 1 64
     \<and> isBoundedPrintableAscii (getProp v ''manufacturerId'') 1 32"

definition read_only_commands :: "jsval \<Rightarrow> bool" where
  "read_only_commands v =
     (case v of
        JArr xs \<Rightarrow> length xs = length RECORDER_ADAPTER_READ_ONLY_COMMAND_IDS
          \<and> list_all (\<lambda>i. strict_eq (xs ! i) (JNum (IntN (RECORDER_ADAPTER_READ_ONLY_COMMAND_IDS ! i)))) [0..<length xs]
      | _ \<Rightarrow> False)"

definition parseRecorderAdapterProbe :: "jsval \<Rightarrow> string + jsval" where
  "parseRecorderAdapterProbe v =
     bindE (requireExactFields v ADAPTER_PROBE_FIELDS ''Desktop recorder adapter probe'') (\<lambda>_.
     bindE (guardE (fields_are v [(''schemaVersion'', JStr RECORDER_ADAPTER_PROBE_SCHEMA_VERSION),
         (''adapterSchemaVersion'', JStr RECORDER_ADAPTER_SCHEMA_VERSION),
         (''probeMaturity'', JStr ''unattested-read-only-probe'')])
       ''Desktop recorder adapter probe declares an unsupported contract version'') (\<lambda>_.
     bindE (guardE (probe_identity v) ''Desktop recorder adapter probe identity or numeric bounds are invalid'') (\<lambda>_.
     bindE (each_field isSha256 [''sourcePortSha256'', ''osDescriptorSha256'', ''deviceUidSha256'', ''identitySha256'',
         ''preIdentityResponseSha256'', ''postIdentityResponseSha256'', ''transcriptSha256'']
       (\<lambda>field. ''Desktop recorder adapter probe '' @ field @ '' is not a lowercase SHA-256'') v) (\<lambda>_.
     bindE (guardE (read_only_commands (getProp v ''readOnlyCommandIds''))
       ''Desktop recorder adapter probe command allowlist has drifted'') (\<lambda>_.
     bindE (guardE (strict_eq (getProp v ''preIdentityResponseSha256'') (getProp v ''postIdentityResponseSha256'')
         \<and> fields_are v [(''adapterProtocolVerified'', JBool True), (''stableIdentityObserved'', JBool True),
             (''deviceIdentityVerified'', JBool False), (''cryptographicDeviceAttestation'', JBool False),
             (''recordedDeviceAttested'', JBool False), (''fieldSessionVerified'', JBool False),
             (''sharingAuthorized'', JBool False), (''trainingReuseAuthorized'', JBool False), (''noAutoArm'', JBool True)])
       ''Desktop recorder adapter probe stability or authority flags have drifted'') (\<lambda>_.
     Inr v))))))"

definition inactive_status :: "jsval \<Rightarrow> bool" where
  "inactive_status v \<longleftrightarrow>
     fields_are v [(''artifactId'', JNull), (''archivePath'', JNull), (''manifestPath'', JNull), (''referenceRigId'', JNull),
       (''contractHash'', JNull), (''lockfileHash'', JNull), (''sourcePortSha256'', JNull), (''sourceBaud'', JNull),
       (''sampleRateHz'', JNull), (''startedAtUnixMs'', JNull), (''captureMaturity'', JNull),
       (''captureConsentConfirmed'', JBool False), (''userOwned'', JBool False)]"

definition active_status :: "jsval \<Rightarrow> bool" where
  "active_status v \<longleftrightarrow>
     isSafeId (getProp v ''artifactId'') \<and> path_value (getProp v ''archivePath'') \<and> path_value (getProp v ''manifestPath'')
     \<and> file_in_archive ''forge-recorder-manifest.json'' (getProp v ''manifestPath'')
     \<and> isD12Rig (getProp v ''referenceRigId'') \<and> isSha256 (getProp v ''contractHash'')
     \<and> isSha256 (getProp v ''lockfileHash'') \<and> isSha256 (getProp v ''sourcePortSha256'')
     \<and> fields_are v [(''sourceBaud'', JNum (IntN RECORDER_BAUD))]
     \<and> safeInteger (getProp v ''sampleRateHz'') 1 1000
     \<and> safeInteger (getProp v ''startedAtUnixMs'') 0 max_safe_integer
     \<and> fields_are v [(''captureMaturity'', JStr ''local-serial-integration''), (''captureConsentConfirmed'', JBool True),
         (''userOwned'', JBool True)]"

definition parseRecorderControlStatus :: "jsval \<Rightarrow> string + jsval" where
  "parseRecorderControlStatus v =
     bindE (requireExactFields v CONTROL_STATUS_FIELDS ''Desktop recorder control status'') (\<lambda>_.
     bindE (guardE (fields_are v [(''schemaVersion'', JStr RECORDER_CONTROL_SCHEMA_VERSION)]
         \<and> list_ex (\<lambda>s. strict_eq (getProp v ''state'') (JStr s)) [''inactive'', ''recording'', ''finished''])
       ''Desktop recorder control status declares an unsupported version or state'') (\<lambda>_.
     bindE (guardE (fields_are v [(''recordedDeviceAttested'', JBool False), (''deviceIdentityVerified'', JBool False),
         (''fieldSessionVerified'', JBool False), (''sharingAuthorized'', JBool False),
         (''trainingReuseAuthorized'', JBool False), (''noAutoArm'', JBool True)])
       ''Desktop recorder control status promotes unsupported authority'') (\<lambda>_.
     bindE (if strict_eq (getProp v ''state'') (JStr ''inactive'')
         then guardE (inactive_status v) ''inactive Desktop recorder status contains active-capture authority''
         else guardE (active_status v) ''active Desktop recorder status fields have drifted'') (\<lambda>_.
     Inr v))))"

definition parseRecorderStopReceipt :: "jsval \<Rightarrow> string + jsval" where
  "parseRecorderStopReceipt v =
     bindE (requireExactFields v STOP_RECEIPT_FIELDS ''Desktop recorder stop receipt'') (\<lambda>_.
     bindE (guardE (fields_are v [(''schemaVersion'', JStr RECORDER_RECEIPT_SCHEMA_VERSION_studio),
         (''archiveSchemaVersion'', JStr RECORDER_ARCHIVE_SCHEMA_VERSION_studio),
         (''replaySchemaVersion'', JStr REPLAY_SCHEMA_VERSION_studio),
         (''frameSchemaVersion'', JStr RECORDER_FRAME_SCHEMA_VERSION_studio)])
       ''Desktop recorder stop receipt declares an unsupported format version'') (\<lambda>_.
     bindE (guardE (isSafeId (getProp v ''artifactId'') \<and> isD12Rig (getProp v ''referenceRigId''))
       ''Desktop recorder stop receipt identity fields are invalid'') (\<lambda>_.
     bindE (each_field isSha256 [''contractHash'', ''lockfileHash'', ''frameFileSha256'', ''indexFileSha256'',
         ''replayFileSha256'', ''sourcePortSha256'']
       (\<lambda>field. ''Desktop recorder stop receipt '' @ field @ '' is not a lowercase SHA-256'') v) (\<lambda>_.
     bindE (guardE (capture_times v \<and> safeInteger (getProp v ''frameCount'') 1 1000000
         \<and> duration_value (getProp v ''durationS''))
       ''Desktop recorder stop receipt numeric bounds are invalid'') (\<lambda>_.
     bindE (guardE (fields_are v [(''captureComplete'', JBool True), (''captureMaturity'', JStr ''local-serial-integration''),
         (''captureConsentConfirmed'', JBool True), (''recordedDeviceAttested'', JBool False), (''userOwned'', JBool True),
         (''sharingAuthorized'', JBool False), (''trainingReuseAuthorized'', JBool False), (''noAutoArm'', JBool True)])
       ''Desktop recorder stop receipt authority or privacy flags have drifted'') (\<lambda>_.
     Inr v))))))"

definition CUSTODY_HASHES :: "string list" where
  "CUSTODY_HASHES =
     [''trustBundleSha256'', ''authorizationSha256'', ''evidencePackSha256'', ''requiredSignoffSetSha256'',
      ''contractHash'', ''lockfileHash'', ''telemetrySourcePortSha256'', ''telemetryStartOsDescriptorSha256'',
      ''telemetryStopOsDescriptorSha256'', ''identitySourcePortSha256'', ''identityStartOsDescriptorSha256'',
      ''identityStopOsDescriptorSha256'', ''expectedIdentitySha256'', ''preIdentitySha256'', ''postIdentitySha256'',
      ''expectedDeviceUidSha256'', ''preDeviceUidSha256'', ''postDeviceUidSha256'', ''startPreIdentityResponseSha256'',
      ''startPostIdentityResponseSha256'', ''startTranscriptSha256'', ''stopPreIdentityResponseSha256'',
      ''stopPostIdentityResponseSha256'', ''stopTranscriptSha256'', ''recorderReceiptSha256'']"

definition same_field :: "jsval \<Rightarrow> string \<Rightarrow> string \<Rightarrow> bool" where
  "same_field v f g \<longleftrightarrow> strict_eq (getProp v f) (getProp v g)"

definition not_after :: "jsval \<Rightarrow> string \<Rightarrow> string \<Rightarrow> bool" where
  "not_after v f g \<longleftrightarrow> \<not> num_lt (number_of (getProp v g)) (number_of (getProp v f))"

definition custody_continuity :: "jsval \<Rightarrow> bool" where
  "custody_continuity v \<longleftrightarrow>
     not_after v ''preObservedAtUnixMs'' ''captureStartedAtUnixMs''
     \<and> not_after v ''captureStartedAtUnixMs'' ''captureStoppedAtUnixMs''
     \<and> not_after v ''captureStoppedAtUnixMs'' ''postObservedAtUnixMs''
     \<and> not_after v ''postObservedAtUnixMs'' ''proofCreatedAtUnixMs''
     \<and> same_field v ''telemetryStartOsDescriptorSha256'' ''telemetryStopOsDescriptorSha256''
     \<and> same_field v ''identityStartOsDescriptorSha256'' ''identityStopOsDescriptorSha256''
     \<and> \<not> same_field v ''telemetrySourcePortSha256'' ''identitySourcePortSha256''
     \<and> \<not> same_field v ''telemetryStartOsDescriptorSha256'' ''identityStartOsDescriptorSha256''
     \<and> same_field v ''expectedIdentitySha256'' ''preIdentitySha256''
     \<and> same_field v ''preIdentitySha256'' ''postIdentitySha256''
     \<and> same_field v ''expectedDeviceUidSha256'' ''preDeviceUidSha256''
     \<and> same_field v ''preDeviceUidSha256'' ''postDeviceUidSha256''
     \<and> same_field v ''startPreIdentityResponseSha256'' ''startPostIdentityResponseSha256''
     \<and> same_field v ''stopPreIdentityResponseSha256'' ''stopPostIdentityResponseSha256''
     \<and> same_field v ''startPreIdentityResponseSha256'' ''stopPreIdentityResponseSha256''
     \<and> same_field v ''startTranscriptSha256'' ''stopTranscriptSha256''"

definition revision_ok :: "jsval \<Rightarrow> bool" where
  "revision_ok v = (case v of JStr s \<Rightarrow> length s = 40 \<and> list_all is_lower_hex s | _ \<Rightarrow> False)"

definition parseRecorderCustodyProof :: "jsval \<Rightarrow> string + jsval" where
  "parseRecorderCustodyProof v =
     bindE (requireExactFields v CUSTODY_PROOF_FIELDS ''Desktop recorder custody proof'') (\<lambda>_.
     bindE (guardE (fields_are v [(''schemaVersion'', JStr RECORDER_CUSTODY_PROOF_SCHEMA_VERSION),
         (''trustBundleSchemaVersion'', JStr RECORDER_CUSTODY_TRUST_BUNDLE_SCHEMA_VERSION),
         (''authorizationSchemaVersion'', JStr RECORDER_CUSTODY_AUTHORIZATION_SCHEMA_VERSION),
         (''recorderAdapterProbeSchemaVersion'', JStr RECORDER_ADAPTER_PROBE_SCHEMA_VERSION),
         (''recorderAdapterSchemaVersion'', JStr RECORDER_ADAPTER_SCHEMA_VERSION),
         (''purpose'', JStr RECORDER_CUSTODY_PURPOSE),
         (''evidencePackSchemaVersion'', JStr ''forge.external-acceptance.v1'')])
       ''Desktop recorder custody proof declares an unsupported contract version'') (\<lambda>_.
     bindE (each_field isSafeId [''authorizationId'', ''trustBundleId'', ''acceptanceAuthorityKeyId'', ''artifactId'', ''modelId'']
       (\<lambda>field. ''Desktop recorder custody proof '' @ field @ '' is invalid'') v) (\<lambda>_.
     bindE (guardE (revision_ok (getProp v ''protectedRevision'') \<and> fields_are v [(''referenceRigId'', JStr D12_QUAD)])
       ''Desktop recorder custody proof revision or D12 scope is invalid'') (\<lambda>_.
     bindE (each_field isSha256 CUSTODY_HASHES
       (\<lambda>field. ''Desktop recorder custody proof '' @ field @ '' is not a lowercase SHA-256'') v) (\<lambda>_.
     bindE (each_field (\<lambda>x. safeInteger x 0 max_safe_integer) [''preObservedAtUnixMs'', ''postObservedAtUnixMs'',
         ''captureStartedAtUnixMs'', ''captureStoppedAtUnixMs'', ''proofCreatedAtUnixMs'']
       (\<lambda>field. ''Desktop recorder custody proof '' @ field @ '' is outside the safe time range'') v) (\<lambda>_.
     bindE (guardE (custody_continuity v) ''Desktop recorder custody proof continuity bindings have drifted'') (\<lambda>_.
     bindE (guardE (fields_are v [(''acceptanceAuthoritySignatureVerified'', JBool True),
         (''identityContinuityVerified'', JBool True), (''captureConsentConfirmed'', JBool True), (''noAutoArm'', JBool True),
         (''cryptographicDeviceAttestation'', JBool False), (''recordedDeviceAttested'', JBool False),
         (''deviceIdentityVerified'', JBool False), (''fieldSessionVerified'', JBool False),
         (''sharingAuthorized'', JBool False), (''trainingReuseAuthorized'', JBool False)])
       ''Desktop recorder custody proof authority flags have drifted'') (\<lambda>_.
     Inr v))))))))"

definition plan_numbers :: "jsval \<Rightarrow> bool" where
  "plan_numbers v \<longleftrightarrow>
     safeInteger (getProp v ''sampleRateHz'') 1 1000 \<and> capture_times v
     \<and> safeInteger (getProp v ''frameCount'') 1 1000000
     \<and> duration_value (getProp v ''durationS'') \<and> \<not> num_lt (IntN max_safe_integer) (number_of (getProp v ''durationS''))
     \<and> safeInteger (getProp v ''aggregateByteSize'') 1 (512 * 1024 * 1024)"

definition upload_file_type :: "nat \<Rightarrow> string" where
  "upload_file_type i = (if i = 1 \<or> i = 2 then ''application/x-ndjson'' else ''application/json'')"

definition parse_upload_file :: "nat \<Rightarrow> jsval \<Rightarrow> string + jsval" where
  "parse_upload_file i file =
     (let label = ''Desktop recorder upload file '' @ nat_text i in
     bindE (requireExactFields file UPLOAD_FILE_FIELDS label) (\<lambda>_.
     bindE (guardE (fields_are file [(''name'', JStr (RECORDER_ARCHIVE_FILE_NAMES ! i)), (''contentType'', JStr (upload_file_type i))]
         \<and> safeInteger (getProp file ''byteSize'') 1 (512 * 1024 * 1024) \<and> isSha256 (getProp file ''sha256''))
       (label @ '' has drifted'')) (\<lambda>_.
     Inr file)))"

definition total_bytes :: "jsval list \<Rightarrow> jsnum" where
  "total_bytes files = foldl (\<lambda>total file. num_add total (number_of (getProp file ''byteSize''))) (Fin 0) files"

definition parseRecorderUploadPlan :: "jsval \<Rightarrow> string + jsval" where
  "parseRecorderUploadPlan v =
     bindE (requireExactFields v UPLOAD_PLAN_FIELDS ''Desktop recorder upload plan'') (\<lambda>_.
     bindE (guardE (fields_are v [(''schemaVersion'', JStr RECORDER_UPLOAD_PLAN_SCHEMA_VERSION_studio),
         (''archiveSchemaVersion'', JStr RECORDER_ARCHIVE_SCHEMA_VERSION_studio),
         (''inspectionSchemaVersion'', JStr RECORDER_INSPECTION_SCHEMA_VERSION_studio)])
       ''Desktop recorder upload plan declares an unsupported format version'') (\<lambda>_.
     bindE (guardE (isSafeId (getProp v ''artifactId'') \<and> isD12Rig (getProp v ''referenceRigId''))
       ''Desktop recorder upload plan identity is invalid'') (\<lambda>_.
     bindE (each_field isSha256 [''contractHash'', ''lockfileHash'', ''sourcePortSha256'']
       (\<lambda>field. ''Desktop recorder upload plan '' @ field @ '' is not a lowercase SHA-256'') v) (\<lambda>_.
     bindE (guardE (plan_numbers v) ''Desktop recorder upload plan numeric bounds are invalid'') (\<lambda>_.
     bindE (guardE (fields_are v [(''captureMaturity'', JStr ''local-serial-integration''),
         (''localIntegrityVerified'', JBool True), (''captureComplete'', JBool True), (''captureConsentConfirmed'', JBool True),
         (''userOwned'', JBool True), (''sharingAuthorized'', JBool False), (''trainingReuseAuthorized'', JBool False),
         (''recordedDeviceAttested'', JBool False), (''deviceIdentityVerified'', JBool False),
         (''fieldSessionVerified'', JBool False), (''noAutoArm'', JBool True)])
       ''Desktop recorder upload plan authority or privacy flags have drifted'') (\<lambda>_.
     case getProp v ''files'' of
       JArr xs \<Rightarrow>
         bindE (guardE (length xs = length RECORDER_ARCHIVE_FILE_NAMES)
           ''Desktop recorder upload plan must declare exactly five files'') (\<lambda>_.
         bindE (mapE (\<lambda>(i, file). parse_upload_file i file) (zip [0..<length xs] xs)) (\<lambda>files.
         bindE (guardE (strict_eq (JNum (total_bytes files)) (getProp v ''aggregateByteSize''))
           ''Desktop recorder upload plan aggregate byte size has drifted'') (\<lambda>_.
         Inr v)))
     | _ \<Rightarrow> Inl ''Desktop recorder upload plan must declare exactly five files''))))))"

definition parseRecorderUploadReceipt :: "jsval \<Rightarrow> string + jsval" where
  "parseRecorderUploadReceipt v =
     bindE (requireExactFields v UPLOAD_RECEIPT_FIELDS ''Desktop recorder upload receipt'') (\<lambda>_.
     bindE (guardE (fields_are v [(''schemaVersion'', JStr RECORDER_UPLOAD_RECEIPT_SCHEMA_VERSION),
         (''uploadPlanSchemaVersion'', JStr RECORDER_UPLOAD_PLAN_SCHEMA_VERSION_studio)])
       ''Desktop recorder upload receipt declares an unsupported format version'') (\<lambda>_.
     bindE (guardE (isSafeId (getProp v ''artifactId'') \<and> fields_are v [(''uploadedFileCount'', JNum (IntN 5))]
         \<and> safeInteger (getProp v ''uploadedByteSize'') 1 (512 * 1024 * 1024)
         \<and> fields_are v [(''localIntegrityVerified'', JBool True), (''gatewayObjectIntegrityVerified'', JBool False),
             (''recordedDeviceAttested'', JBool False), (''deviceIdentityVerified'', JBool False),
             (''fieldSessionVerified'', JBool False), (''sharingAuthorized'', JBool False),
             (''trainingReuseAuthorized'', JBool False), (''noAutoArm'', JBool True)])
       ''Desktop recorder upload receipt fields or authority have drifted'') (\<lambda>_.
     Inr v)))"

definition short_text :: "jsval \<Rightarrow> bool" where
  "short_text v = (case v of JStr s \<Rightarrow> s \<noteq> [] \<and> int (length s) \<le> 4096 | _ \<Rightarrow> False)"

definition parseRecorderArchiveInspection :: "jsval \<Rightarrow> string + jsval" where
  "parseRecorderArchiveInspection v =
     (if \<not> isRecord v then Inl ''Desktop recorder inspection response must be an object'' else
     bindE (guardE (exactFields v INSPECTION_FIELDS) ''Desktop recorder inspection response fields have drifted'') (\<lambda>_.
     bindE (guardE (fields_are v [(''schemaVersion'', JStr RECORDER_INSPECTION_SCHEMA_VERSION_studio),
         (''archiveSchemaVersion'', JStr RECORDER_ARCHIVE_SCHEMA_VERSION_studio),
         (''replaySchemaVersion'', JStr REPLAY_SCHEMA_VERSION_studio),
         (''receiptSchemaVersion'', JStr RECORDER_RECEIPT_SCHEMA_VERSION_studio)])
       ''Desktop recorder inspection response declares an unsupported format version'') (\<lambda>_.
     bindE (each_field short_text [''artifactId'', ''archivePath'', ''replayPath'', ''referenceRigId'']
       (\<lambda>field. ''Desktop recorder inspection '' @ field @ '' is invalid'') v) (\<lambda>_.
     bindE (guardE (isSafeId (getProp v ''artifactId'')) ''Desktop recorder inspection artifactId is outside archive v1'') (\<lambda>_.
     bindE (guardE (isD12Rig (getProp v ''referenceRigId''))
       ''Desktop recorder inspection referenceRigId is not a frozen D12 rig'') (\<lambda>_.
     bindE (guardE (file_in_archive ''telemetry.replay.json'' (getProp v ''replayPath''))
       ''Desktop recorder inspection replayPath is not the archive-v1 replay'') (\<lambda>_.
     bindE (each_field isSha256 [''contractHash'', ''lockfileHash'', ''sourcePortSha256'']
       (\<lambda>field. ''Desktop recorder inspection '' @ field @ '' is not a lowercase SHA-256'') v) (\<lambda>_.
     bindE (guardE (safeInteger (getProp v ''sampleRateHz'') 1 1000 \<and> capture_times v
         \<and> safeInteger (getProp v ''frameCount'') 1 1000000 \<and> duration_value (getProp v ''durationS''))
       ''Desktop recorder inspection numeric bounds are invalid'') (\<lambda>_.
     bindE (guardE (fields_are v [(''captureMaturity'', JStr ''local-serial-integration''), (''integrityVerified'', JBool True),
         (''captureComplete'', JBool True), (''captureConsentConfirmed'', JBool True), (''userOwned'', JBool True),
         (''sharingAuthorized'', JBool False), (''trainingReuseAuthorized'', JBool False),
         (''recordedDeviceAttested'', JBool False), (''deviceIdentityVerified'', JBool False),
         (''fieldSessionVerified'', JBool False), (''noAutoArm'', JBool True)])
       ''Desktop recorder inspection authority or privacy flags have drifted'') (\<lambda>_.
     Inr v))))))))))"

end
