(* ===== verification/Desktop_Client.thy ===== *)
theory Desktop_Client
  imports Desktop_Recorder
begin

text \<open>
  The operations of the recorder client (packages/studio/src/desktopRecorder.ts): every request is checked
  before it leaves the studio, every answer is parsed and compared with the request before it is used.
  \<open>start_request\<close> and the other requests are JavaScript values: \<open>request.field.trim()\<close> of a value that is not a
  string throws a \<open>TypeError\<close>.
\<close>

section \<open>Requests\<close>

definition desktop_required :: "ladder_runtime \<Rightarrow> string \<Rightarrow> string + unit" where
  "desktop_required rt surface = guardE (lr_available rt) (surface @ '' require FORGE Desktop'')"

definition trimmed :: "jsval \<Rightarrow> string + string" where
  "trimmed v = (case v of JStr s \<Rightarrow> Inr (trim s) | _ \<Rightarrow> Inl ''TypeError'')"

text \<open>\<open>value?.trim()\<close>.\<close>

definition trimmed_if_present :: "jsval \<Rightarrow> string + jsval" where
  "trimmed_if_present v =
     (case v of
        JStr s \<Rightarrow> Inr (JStr (trim s))
      | JUndef \<Rightarrow> Inr JUndef
      | JNull \<Rightarrow> Inr JUndef
      | _ \<Rightarrow> Inl ''TypeError'')"

definition env_enter :: "int \<Rightarrow> int \<Rightarrow> string + int" where
  "env_enter depth nodes =
     (if 32 < depth \<or> 2048 < nodes + 1 then Inl ''recorder environment exceeds the depth or node bound'' else Inr (nodes + 1))"

text \<open>The inner function \<open>visit\<close>. A reference back to an enclosing object (\<open>JBack\<close>) is visited again and again
  until the bound is hit.\<close>

fun env_visit :: "jsval \<Rightarrow> int \<Rightarrow> int \<Rightarrow> string + int"
  and env_items :: "jsval list \<Rightarrow> int \<Rightarrow> int \<Rightarrow> string + int"
  and env_members :: "(string \<times> jsval) list \<Rightarrow> int \<Rightarrow> int \<Rightarrow> string + int" where
  "env_visit (JNum n) depth nodes =
     bindE (env_enter depth nodes) (\<lambda>k.
     if isFinite n then Inr k else Inl ''recorder environment numbers must be finite'')"
| "env_visit JNull depth nodes = env_enter depth nodes"
| "env_visit (JStr s) depth nodes = env_enter depth nodes"
| "env_visit (JBool b) depth nodes = env_enter depth nodes"
| "env_visit (JArr xs) depth nodes = bindE (env_enter depth nodes) (\<lambda>k. env_items xs (depth + 1) k)"
| "env_visit (JObj kvs) depth nodes = bindE (env_enter depth nodes) (\<lambda>k. env_members kvs (depth + 1) k)"
| "env_visit (JHost kvs) depth nodes = bindE (env_enter depth nodes) (\<lambda>k. env_members kvs (depth + 1) k)"
| "env_visit (JBack i) depth nodes = Inl ''recorder environment exceeds the depth or node bound''"
| "env_visit JUndef depth nodes =
     bindE (env_enter depth nodes) (\<lambda>k. Inl ''recorder environment contains an unsupported JSON value'')"
| "env_visit JOther depth nodes =
     bindE (env_enter depth nodes) (\<lambda>k. Inl ''recorder environment contains an unsupported JSON value'')"
| "env_items [] depth nodes = Inr nodes"
| "env_items (x # xs) depth nodes = bindE (env_visit x depth nodes) (\<lambda>k. env_items xs depth k)"
| "env_members [] depth nodes = Inr nodes"
| "env_members ((key, x) # kvs) depth nodes = bindE (env_visit x depth nodes) (\<lambda>k. env_members kvs depth k)"

definition validateBoundedEnvironment :: "jsval \<Rightarrow> string + unit" where
  "validateBoundedEnvironment v =
     bindE (guardE (isRecord v) ''recorder environment must be an object'') (\<lambda>_.
     bindE (env_visit v 0 0) (\<lambda>_.
     case stringify v of
       None \<Rightarrow> Inl ''TypeError''
     | Some encoded \<Rightarrow>
         guardE (int (byteLength encoded) \<le> 64 * 1024) ''recorder environment exceeds 65536 UTF-8 bytes''))"

definition validateRecorderStartRequest :: "jsval \<Rightarrow> string + jsval" where
  "validateRecorderStartRequest request =
     bindE (trimmed (getProp request ''artifactId'')) (\<lambda>artifactId.
     bindE (trimmed (getProp request ''outputDir'')) (\<lambda>outputDir.
     bindE (trimmed (getProp request ''port'')) (\<lambda>port.
     bindE (guardE (isSafeId (JStr artifactId)) ''recorder artifact ID must use 1 through 128 safe ASCII characters'') (\<lambda>_.
     bindE (guardE (validAbsolutePath outputDir)
       ''recorder output directory must be an absolute path of at most 4096 UTF-8 bytes'') (\<lambda>_.
     bindE (guardE (safeInteger (getProp request ''sampleRateHz'') 1 1000)
       ''recorder sample rate must be an integer from 1 through 1000 Hz'') (\<lambda>_.
     bindE (guardE (isD12Rig (getProp request ''referenceRigId'')) ''recorder reference rig must be one frozen D12 rig'') (\<lambda>_.
     bindE (guardE (strict_eq (getProp request ''physicalConfirmation'') (JStr RECORDER_PHYSICAL_CONFIRMATION))
       ''recorder capture consent phrase mismatch'') (\<lambda>_.
     bindE (guardE (port \<noteq> [] \<and> int (byteLength port) \<le> 4096 \<and> strict_eq (getProp request ''baud'') (JNum (IntN RECORDER_BAUD)))
       ''recorder capture requires one bounded serial port at 115200 baud'') (\<lambda>_.
     bindE (guardE (isSha256 (JStr (js_String (getProp request ''contractHash'')))
         \<and> isSha256 (JStr (js_String (getProp request ''lockfileHash''))))
       ''recorder contract and lockfile hashes must be lowercase SHA-256 values'') (\<lambda>_.
     bindE (validateBoundedEnvironment (getProp request ''environment'')) (\<lambda>_.
     bindE (guardE (safeInteger (getProp request ''seed'') 0 max_safe_integer)
       ''recorder seed must be a non-negative safe integer'') (\<lambda>_.
     Inr (spread request [(''artifactId'', JStr artifactId), (''outputDir'', JStr outputDir), (''port'', JStr port)])))))))))))))"

definition outside_of :: "string \<Rightarrow> jsval \<Rightarrow> bool" where
  "outside_of dir v =
     (case v of
        JStr s \<Rightarrow> s \<noteq> dir \<and> \<not> startsWith (dir @ ''/'') s \<and> \<not> startsWith (dir @ [CHR 0x5C]) s
      | _ \<Rightarrow> False)"

definition text_of :: "jsval \<Rightarrow> string" where
  "text_of v = (case v of JStr s \<Rightarrow> s | _ \<Rightarrow> [])"

definition validateRecorderCustodyStartRequest :: "jsval \<Rightarrow> string + jsval" where
  "validateRecorderCustodyStartRequest request =
     bindE (guardE (isRecord request) ''Desktop recorder custody start request must be an object'') (\<lambda>_.
     bindE (validateRecorderStartRequest (getProp request ''recorder'')) (\<lambda>recorder.
     bindE (trimmed_if_present (getProp request ''modelId'')) (\<lambda>modelId.
     bindE (trimmed_if_present (getProp request ''identityPort'')) (\<lambda>identityPort.
     bindE (trimmed_if_present (getProp request ''authorizationPath'')) (\<lambda>authorizationPath.
     bindE (trimmed_if_present (getProp request ''custodyProofPath'')) (\<lambda>custodyProofPath.
     bindE (guardE (strict_eq (getProp recorder ''referenceRigId'') (JStr D12_QUAD)
         \<and> isSafeId modelId \<and> bounded_text 4096 identityPort \<and> \<not> strict_eq identityPort (getProp recorder ''port'')
         \<and> strict_eq (getProp request ''identityBaud'') (JNum (IntN RECORDER_BAUD))
         \<and> strict_eq (getProp request ''identityPhysicalConfirmation'') (JStr RECORDER_ADAPTER_PROBE_CONFIRMATION)
         \<and> path_value authorizationPath \<and> path_value custodyProofPath
         \<and> outside_of (text_of (getProp recorder ''outputDir'')) custodyProofPath)
       ''Desktop recorder custody start request is outside the signed D12 contract'') (\<lambda>_.
     Inr (spread request [(''recorder'', recorder), (''modelId'', modelId), (''identityPort'', identityPort),
       (''authorizationPath'', authorizationPath), (''custodyProofPath'', custodyProofPath)]))))))))"

definition sorted_headers :: "jsval \<Rightarrow> string list" where
  "sorted_headers headers = (if isRecord headers then sort (map toLowerCase (objectKeys headers)) else [])"

definition upload_matches :: "jsval \<Rightarrow> jsval \<Rightarrow> bool" where
  "upload_matches file upload \<longleftrightarrow>
     isRecord upload \<and> strict_eq (getProp upload ''name'') (getProp file ''name'')
     \<and> strict_eq (getProp upload ''method'') (JStr ''PUT'')
     \<and> strict_eq (getProp upload ''byteSize'') (getProp file ''byteSize'')
     \<and> strict_eq (getProp upload ''sha256'') (getProp file ''sha256'')
     \<and> bounded_text 8192 (getProp upload ''url'') \<and> isRecord (getProp upload ''headers'')
     \<and> join [CHR 0x00] (sorted_headers (getProp upload ''headers''))
         = ''content-type'' @ [CHR 0x00] @ ''x-amz-checksum-sha256''
     \<and> strict_eq (getProp (getProp upload ''headers'') ''content-type'') (getProp file ''contentType'')
     \<and> is_string (getProp (getProp upload ''headers'') ''x-amz-checksum-sha256'')"

fun array_of :: "jsval \<Rightarrow> jsval list" where
  "array_of (JArr xs) = xs"
| "array_of _ = []"

definition validateRecorderObjectUploads :: "jsval \<Rightarrow> jsval \<Rightarrow> string + unit" where
  "validateRecorderObjectUploads plan uploads =
     (case uploads of
        JArr us \<Rightarrow>
          let files = array_of (getProp plan ''files'') in
          if length us \<noteq> length files then Inl ''recorder materialization requires exactly five upload contracts''
          else case find (\<lambda>i. \<not> upload_matches (files ! i) (us ! i)) [0..<length us] of
                 Some i \<Rightarrow> Inl (''recorder upload contract '' @ nat_text i @ '' does not match the prepared file plan'')
               | None \<Rightarrow> Inr ()
      | _ \<Rightarrow> Inl ''recorder materialization requires exactly five upload contracts'')"

section \<open>Operations\<close>

definition desktopRecorderAvailable :: "ladder_runtime \<Rightarrow> bool" where
  "desktopRecorderAvailable rt = lr_available rt"

definition getDesktopBridgeStatus :: "ladder_runtime \<Rightarrow> string + jsval" where
  "getDesktopBridgeStatus rt =
     bindE (desktop_required rt ''recorder controls'') (\<lambda>_.
     bindE (lr_invoke rt ''bridge_status'' JUndef) parseDesktopBridgeStatus)"

definition listDesktopSerialPorts :: "ladder_runtime \<Rightarrow> string + jsval list" where
  "listDesktopSerialPorts rt =
     bindE (desktop_required rt ''recorder controls'') (\<lambda>_.
     bindE (lr_invoke rt ''list_serial_ports'' JUndef) parseDesktopSerialPorts)"

definition probe_request_ok :: "jsval \<Rightarrow> bool" where
  "probe_request_ok request \<longleftrightarrow>
     isRecord request
     \<and> fields_are request [(''referenceRigId'', JStr D12_QUAD),
         (''physicalConfirmation'', JStr RECORDER_ADAPTER_PROBE_CONFIRMATION), (''baud'', JNum (IntN RECORDER_BAUD))]
     \<and> (case getProp request ''port'' of JStr s \<Rightarrow> trim s = s \<and> s \<noteq> [] \<and> int (byteLength s) \<le> 4096 | _ \<Rightarrow> False)"

definition probeDesktopRecorderAdapter :: "jsval \<Rightarrow> ladder_runtime \<Rightarrow> string + jsval" where
  "probeDesktopRecorderAdapter request rt =
     bindE (desktop_required rt ''recorder adapter probing'') (\<lambda>_.
     bindE (guardE (probe_request_ok request)
       ''Desktop adapter probe request is outside the props-off D12 quad contract'') (\<lambda>_.
     bindE (lr_invoke rt ''probe_recorder_adapter'' (JObj [(''request'', request)])) parseRecorderAdapterProbe))"

definition getRecorderStatus :: "ladder_runtime \<Rightarrow> string + jsval" where
  "getRecorderStatus rt =
     bindE (desktop_required rt ''recorder controls'') (\<lambda>_.
     bindE (lr_invoke rt ''recorder_status'' JUndef) parseRecorderControlStatus)"

text \<open>The comparison \<open>status.f !== request.g\<close> for pairs of fields.\<close>

definition bound_to :: "(string \<times> string) list \<Rightarrow> jsval \<Rightarrow> jsval \<Rightarrow> bool" where
  "bound_to pairs answer request \<longleftrightarrow> list_all (\<lambda>(f, g). strict_eq (getProp answer f) (getProp request g)) pairs"

definition START_BINDING :: "(string \<times> string) list" where
  "START_BINDING =
     [(''artifactId'', ''artifactId''), (''archivePath'', ''outputDir''), (''referenceRigId'', ''referenceRigId''),
      (''contractHash'', ''contractHash''), (''lockfileHash'', ''lockfileHash''), (''sourceBaud'', ''baud''),
      (''sampleRateHz'', ''sampleRateHz'')]"

definition startDesktopRecorder :: "jsval \<Rightarrow> ladder_runtime \<Rightarrow> string + jsval" where
  "startDesktopRecorder request rt =
     bindE (desktop_required rt ''recorder controls'') (\<lambda>_.
     bindE (validateRecorderStartRequest request) (\<lambda>normalized.
     bindE (lr_invoke rt ''start_background_recording'' (JObj [(''request'', normalized)])) (\<lambda>answer.
     bindE (parseRecorderControlStatus answer) (\<lambda>status.
     if strict_eq (getProp status ''state'') (JStr ''recording'') \<and> bound_to START_BINDING status normalized
     then Inr status
     else Inl ''Desktop recorder start status does not match the admitted capture request''))))"

definition CUSTODY_START_BINDING :: "(string \<times> string) list" where
  "CUSTODY_START_BINDING =
     [(''artifactId'', ''artifactId''), (''archivePath'', ''outputDir''), (''contractHash'', ''contractHash''),
      (''lockfileHash'', ''lockfileHash''), (''sourceBaud'', ''baud''), (''sampleRateHz'', ''sampleRateHz'')]"

definition startDesktopCustodiedRecorder :: "jsval \<Rightarrow> ladder_runtime \<Rightarrow> string + jsval" where
  "startDesktopCustodiedRecorder request rt =
     bindE (desktop_required rt ''signed recorder custody'') (\<lambda>_.
     bindE (validateRecorderCustodyStartRequest request) (\<lambda>normalized.
     bindE (lr_invoke rt ''start_custodied_background_recording'' (JObj [(''request'', normalized)])) (\<lambda>answer.
     bindE (parseRecorderControlStatus answer) (\<lambda>status.
     if strict_eq (getProp status ''state'') (JStr ''recording'')
        \<and> strict_eq (getProp status ''referenceRigId'') (JStr D12_QUAD)
        \<and> bound_to CUSTODY_START_BINDING status (getProp normalized ''recorder'')
     then Inr status
     else Inl ''Desktop custodied recorder start status does not match the signed capture request''))))"

definition STOP_BINDING :: "(string \<times> string) list" where
  "STOP_BINDING =
     [(''artifactId'', ''artifactId''), (''referenceRigId'', ''referenceRigId''), (''contractHash'', ''contractHash''),
      (''lockfileHash'', ''lockfileHash''), (''sourcePortSha256'', ''sourcePortSha256''),
      (''startedAtUnixMs'', ''startedAtUnixMs'')]"

definition stopDesktopRecorder :: "jsval \<Rightarrow> ladder_runtime \<Rightarrow> string + jsval" where
  "stopDesktopRecorder expectedStatus rt =
     bindE (desktop_required rt ''recorder controls'') (\<lambda>_.
     bindE (guardE (\<not> strict_eq (getProp expectedStatus ''state'') (JStr ''inactive''))
       ''cannot stop an inactive Desktop recorder'') (\<lambda>_.
     bindE (lr_invoke rt ''stop_background_recording'' JUndef) (\<lambda>answer.
     bindE (parseRecorderStopReceipt answer) (\<lambda>receipt.
     if bound_to STOP_BINDING receipt expectedStatus then Inr receipt
     else Inl ''Desktop recorder stop receipt does not match the active capture identity''))))"

definition CUSTODY_STOP_BINDING :: "(string \<times> string) list" where
  "CUSTODY_STOP_BINDING =
     [(''artifactId'', ''artifactId''), (''referenceRigId'', ''referenceRigId''), (''contractHash'', ''contractHash''),
      (''lockfileHash'', ''lockfileHash''), (''telemetrySourcePortSha256'', ''sourcePortSha256''),
      (''captureStartedAtUnixMs'', ''startedAtUnixMs'')]"

definition stopDesktopCustodiedRecorder :: "jsval \<Rightarrow> string \<Rightarrow> jsval \<Rightarrow> ladder_runtime \<Rightarrow> string + jsval" where
  "stopDesktopCustodiedRecorder expectedStatus expectedModelId request rt =
     bindE (desktop_required rt ''signed recorder custody'') (\<lambda>_.
     bindE (guardE (\<not> strict_eq (getProp expectedStatus ''state'') (JStr ''inactive''))
       ''cannot stop an inactive Desktop recorder under custody'') (\<lambda>_.
     bindE (guardE (isSafeId (JStr expectedModelId) \<and> isSafeId (JStr (js_String (getProp request ''authorizationId'')))
         \<and> strict_eq (getProp request ''physicalConfirmation'') (JStr RECORDER_ADAPTER_PROBE_CONFIRMATION))
       ''Desktop custody stop request is outside the active signed capture contract'') (\<lambda>_.
     bindE (lr_invoke rt ''stop_custodied_background_recording'' (JObj [(''request'', request)])) (\<lambda>answer.
     bindE (parseRecorderCustodyProof answer) (\<lambda>proved.
     if strict_eq (getProp proved ''authorizationId'') (getProp request ''authorizationId'')
        \<and> strict_eq (getProp proved ''modelId'') (JStr expectedModelId)
        \<and> bound_to CUSTODY_STOP_BINDING proved expectedStatus
     then Inr proved
     else Inl ''Desktop custody proof does not match the active capture identity'')))))"

definition inspectRecorderArchive :: "string \<Rightarrow> ladder_runtime \<Rightarrow> string + jsval" where
  "inspectRecorderArchive archivePath rt =
     bindE (guardE (lr_available rt) ''recorder archive inspection requires FORGE Desktop'') (\<lambda>_.
     bindE (guardE (trim archivePath \<noteq> [] \<and> int (byteLength (trim archivePath)) \<le> 4096)
       ''archive path must contain 1 through 4096 UTF-8 bytes'') (\<lambda>_.
     bindE (lr_invoke rt ''inspect_recorder_archive'' (JObj [(''archivePath'', JStr (trim archivePath))]))
       parseRecorderArchiveInspection))"

definition prepareRecorderArchiveUpload :: "string \<Rightarrow> ladder_runtime \<Rightarrow> string + jsval" where
  "prepareRecorderArchiveUpload archivePath rt =
     bindE (desktop_required rt ''recorder archive materialization'') (\<lambda>_.
     bindE (normalizeArchivePath archivePath) (\<lambda>normalizedPath.
     bindE (lr_invoke rt ''prepare_recorder_archive_upload'' (JObj [(''archivePath'', JStr normalizedPath)]))
       parseRecorderUploadPlan))"

definition uploadRecorderArchiveFiles :: "string \<Rightarrow> jsval \<Rightarrow> jsval \<Rightarrow> ladder_runtime \<Rightarrow> string + jsval" where
  "uploadRecorderArchiveFiles archivePath plan uploads rt =
     bindE (desktop_required rt ''recorder archive materialization'') (\<lambda>_.
     bindE (normalizeArchivePath archivePath) (\<lambda>normalizedPath.
     bindE (parseRecorderUploadPlan plan) (\<lambda>normalizedPlan.
     bindE (validateRecorderObjectUploads normalizedPlan uploads) (\<lambda>_.
     bindE (lr_invoke rt ''upload_recorder_archive_files''
         (JObj [(''archivePath'', JStr normalizedPath), (''uploads'', uploads)])) (\<lambda>answer.
     bindE (parseRecorderUploadReceipt answer) (\<lambda>receipt.
     if strict_eq (getProp receipt ''artifactId'') (getProp normalizedPlan ''artifactId'')
        \<and> strict_eq (getProp receipt ''uploadedFileCount'')
            (JNum (IntN (int (length (array_of (getProp normalizedPlan ''files''))))))
        \<and> strict_eq (getProp receipt ''uploadedByteSize'') (getProp normalizedPlan ''aggregateByteSize'')
     then Inr receipt
     else Inl ''Desktop recorder upload receipt does not match the prepared upload plan''))))))"

end
