(* ===== verification/Desktop_Claims.thy ===== *)
theory Desktop_Claims
  imports Desktop_Client Recorder_Claims
begin

text \<open>
  Properties of the recorder client: whatever the desktop process answers, no accepted answer grants authority,
  receipts and custody proofs belong to the capture that was requested, and the upload plans that the studio
  accepts are related to those that the gateway accepts.
\<close>

section \<open>Accepted answers\<close>

lemma fields_are_simps [simp]:
  "fields_are v []"
  "fields_are v ((field, c) # kvs) \<longleftrightarrow> strict_eq (getProp v field) c \<and> fields_are v kvs"
  by (simp_all add: fields_are_def)

lemma each_field_Inr [resE]: "each_field ok names message v = Inr u \<longleftrightarrow> list_all (\<lambda>field. ok (getProp v field)) names"
proof -
  have "find (\<lambda>field. \<not> ok (getProp v field)) names = None \<longleftrightarrow> list_all (\<lambda>field. ok (getProp v field)) names"
    by (auto simp: find_None_iff list_all_iff)
  then show ?thesis by (auto simp: each_field_def split: option.splits)
qed

lemma requireExactFields_Inr [resE]: "requireExactFields v fs label = Inr u \<longleftrightarrow> isRecord v \<and> exactFields v fs"
  by (simp add: requireExactFields_def)

lemma getProp_absent:
  assumes "exactFields v fs" "field \<notin> set fs"
  shows "getProp v field = JUndef"
proof -
  have "field \<notin> set (objectKeys v)" using assms exactFields_keys by blast
  then show ?thesis by (cases v) (simp_all add: map_of_eq_None_iff [THEN iffD2])
qed

definition AUTHORITY :: "string list" where
  "AUTHORITY = [''sharingAuthorized'', ''trainingReuseAuthorized'', ''recordedDeviceAttested'', ''deviceIdentityVerified'',
     ''fieldSessionVerified'', ''cryptographicDeviceAttestation'', ''gatewayObjectIntegrityVerified'']"

definition grants_nothing :: "jsval \<Rightarrow> bool" where
  "grants_nothing v \<longleftrightarrow> getProp v ''noAutoArm'' = JBool True
     \<and> list_all (\<lambda>field. getProp v field = JBool False \<or> getProp v field = JUndef) AUTHORITY"

lemma grants_nothingI:
  assumes "exactFields v fs" "getProp v ''noAutoArm'' = JBool True"
    and "list_all (\<lambda>field. field \<in> set fs \<longrightarrow> getProp v field = JBool False) AUTHORITY"
  shows "grants_nothing v"
  using assms getProp_absent [OF assms(1)] by (auto simp: grants_nothing_def list_all_iff)

lemma parse_bridge_Inr:
  assumes "parseDesktopBridgeStatus v = Inr w"
  shows "w = v" "grants_nothing v"
proof -
  show "grants_nothing v"
    by (rule grants_nothingI [of v BRIDGE_STATUS_FIELDS]; use assms in \<open>force simp: parseDesktopBridgeStatus_def BRIDGE_STATUS_FIELDS_def AUTHORITY_def resE js_simps\<close>)
qed (use assms in \<open>auto simp: parseDesktopBridgeStatus_def resE js_simps\<close>)

lemma parse_probe_Inr:
  assumes "parseRecorderAdapterProbe v = Inr w"
  shows "w = v" "grants_nothing v"
proof -
  show "grants_nothing v"
    by (rule grants_nothingI [of v ADAPTER_PROBE_FIELDS]; use assms in \<open>force simp: parseRecorderAdapterProbe_def ADAPTER_PROBE_FIELDS_def AUTHORITY_def resE js_simps\<close>)
qed (use assms in \<open>auto simp: parseRecorderAdapterProbe_def resE js_simps\<close>)

lemma parse_status_Inr:
  assumes "parseRecorderControlStatus v = Inr w"
  shows "w = v" "grants_nothing v" "getProp v ''state'' \<noteq> JStr ''inactive'' \<Longrightarrow> active_status v"
proof -
  show "grants_nothing v"
    by (rule grants_nothingI [of v CONTROL_STATUS_FIELDS]; use assms in \<open>force simp: parseRecorderControlStatus_def CONTROL_STATUS_FIELDS_def AUTHORITY_def resE js_simps split: if_splits\<close>)
qed (use assms in \<open>auto simp: parseRecorderControlStatus_def resE js_simps split: if_splits\<close>)

lemma parse_receipt_Inr:
  assumes "parseRecorderStopReceipt v = Inr w"
  shows "w = v" "grants_nothing v" "capture_times v" "safeInteger (getProp v ''frameCount'') 1 1000000"
    "isSha256 (getProp v ''contractHash'')" "isSha256 (getProp v ''lockfileHash'')" "isSafeId (getProp v ''artifactId'')"
    "isD12Rig (getProp v ''referenceRigId'')" "isSha256 (getProp v ''sourcePortSha256'')"
    "getProp v ''captureConsentConfirmed'' = JBool True"
proof -
  show "grants_nothing v"
    by (rule grants_nothingI [of v STOP_RECEIPT_FIELDS]; use assms in \<open>force simp: parseRecorderStopReceipt_def STOP_RECEIPT_FIELDS_def AUTHORITY_def resE js_simps\<close>)
qed (use assms in \<open>auto simp: parseRecorderStopReceipt_def resE js_simps\<close>)

lemma parse_proof_Inr:
  assumes "parseRecorderCustodyProof v = Inr w"
  shows "w = v" "grants_nothing v" "custody_continuity v"
    "list_all (\<lambda>field. isSha256 (getProp v field)) CUSTODY_HASHES"
    "list_all (\<lambda>field. safeInteger (getProp v field) 0 max_safe_integer) [''preObservedAtUnixMs'', ''postObservedAtUnixMs'',
       ''captureStartedAtUnixMs'', ''captureStoppedAtUnixMs'', ''proofCreatedAtUnixMs'']"
    "isSafeId (getProp v ''artifactId'')" "isSafeId (getProp v ''authorizationId'')"
    "getProp v ''acceptanceAuthoritySignatureVerified'' = JBool True"
proof -
  show "grants_nothing v"
    by (rule grants_nothingI [of v CUSTODY_PROOF_FIELDS]; use assms in \<open>force simp: parseRecorderCustodyProof_def CUSTODY_PROOF_FIELDS_def AUTHORITY_def resE js_simps\<close>)
qed (use assms in \<open>auto simp: parseRecorderCustodyProof_def resE js_simps\<close>)

lemma parse_plan_Inr:
  assumes "parseRecorderUploadPlan v = Inr w"
  shows "w = v" "grants_nothing v"
proof -
  show "grants_nothing v"
    by (rule grants_nothingI [of v UPLOAD_PLAN_FIELDS]; use assms in \<open>force simp: parseRecorderUploadPlan_def UPLOAD_PLAN_FIELDS_def AUTHORITY_def resE js_simps split: jsval.splits\<close>)
qed (use assms in \<open>auto simp: parseRecorderUploadPlan_def resE js_simps split: jsval.splits\<close>)

lemma parse_upload_receipt_Inr:
  assumes "parseRecorderUploadReceipt v = Inr w"
  shows "w = v" "grants_nothing v"
proof -
  show "grants_nothing v"
    by (rule grants_nothingI [of v UPLOAD_RECEIPT_FIELDS]; use assms in \<open>force simp: parseRecorderUploadReceipt_def UPLOAD_RECEIPT_FIELDS_def AUTHORITY_def resE js_simps\<close>)
qed (use assms in \<open>auto simp: parseRecorderUploadReceipt_def resE js_simps\<close>)

lemma parse_inspection_Inr:
  assumes "parseRecorderArchiveInspection v = Inr w"
  shows "w = v" "grants_nothing v"
proof -
  show "grants_nothing v"
    by (rule grants_nothingI [of v INSPECTION_FIELDS]; use assms in \<open>force simp: parseRecorderArchiveInspection_def INSPECTION_FIELDS_def AUTHORITY_def resE js_simps split: if_splits\<close>)
qed (use assms in \<open>auto simp: parseRecorderArchiveInspection_def resE js_simps split: if_splits\<close>)

lemmas parsers_Inr = parse_bridge_Inr parse_probe_Inr parse_status_Inr(1,2) parse_receipt_Inr(1,2) parse_proof_Inr(1,2)
  parse_plan_Inr parse_upload_receipt_Inr parse_inspection_Inr

text \<open>The values that the operations of the client hand to the studio, whatever the desktop process is.\<close>

inductive desktop_answer :: "jsval \<Rightarrow> bool" where
  bridge: "getDesktopBridgeStatus rt = Inr v \<Longrightarrow> desktop_answer v"
| probe: "probeDesktopRecorderAdapter request rt = Inr v \<Longrightarrow> desktop_answer v"
| status: "getRecorderStatus rt = Inr v \<Longrightarrow> desktop_answer v"
| start: "startDesktopRecorder request rt = Inr v \<Longrightarrow> desktop_answer v"
| custodied_start: "startDesktopCustodiedRecorder request rt = Inr v \<Longrightarrow> desktop_answer v"
| stop: "stopDesktopRecorder expected rt = Inr v \<Longrightarrow> desktop_answer v"
| custodied_stop: "stopDesktopCustodiedRecorder expected model request rt = Inr v \<Longrightarrow> desktop_answer v"
| inspection: "inspectRecorderArchive path rt = Inr v \<Longrightarrow> desktop_answer v"
| plan: "prepareRecorderArchiveUpload path rt = Inr v \<Longrightarrow> desktop_answer v"
| uploaded: "uploadRecorderArchiveFiles path plan uploads rt = Inr v \<Longrightarrow> desktop_answer v"

lemmas client_operations = getDesktopBridgeStatus_def probeDesktopRecorderAdapter_def getRecorderStatus_def
  startDesktopRecorder_def startDesktopCustodiedRecorder_def stopDesktopRecorder_def stopDesktopCustodiedRecorder_def
  inspectRecorderArchive_def prepareRecorderArchiveUpload_def uploadRecorderArchiveFiles_def

lemma desktop_answer_grants_nothing: "desktop_answer v \<Longrightarrow> grants_nothing v"
  by (induction rule: desktop_answer.induct) (auto simp: client_operations resE dest: parsers_Inr split: if_splits)

section \<open>The plans of the studio and of the gateway\<close>

text \<open>What the gateway checks of one file, and that its loop over the files is this check for each of them
  and the distinctness of their names.\<close>

definition declared_file :: "jsval \<Rightarrow> bool" where
  "declared_file raw \<longleftrightarrow> isRecord raw \<and> exactFields raw UPLOAD_FILE_FIELDS \<and> is_string (getProp raw ''name'')
     \<and> is_string (getProp raw ''contentType'') \<and> safeInteger (getProp raw ''byteSize'') 1 MAX_ARCHIVE_BYTES
     \<and> isSha256 (getProp raw ''sha256'')"

lemma collect_files_iff:
  "distinct (map fst acc) \<Longrightarrow> collect_files xs acc = Inr byName \<longleftrightarrow>
     byName = acc @ map (\<lambda>raw. (file_name raw, raw)) xs \<and> distinct (map fst acc @ map file_name xs) \<and> list_all declared_file xs"
proof (induction xs arbitrary: acc)
  case Nil
  then show ?case by auto
next
  case (Cons raw xs)
  have "collect_files (raw # xs) acc = Inr byName \<longleftrightarrow>
      declared_file raw \<and> file_name raw \<notin> fst ` set acc \<and> collect_files xs (acc @ [(file_name raw, raw)]) = Inr byName"
    by (auto simp: resE declared_file_def exactFieldsE_def UPLOAD_FILE_FIELDS_def map_of_eq_None_iff)
  also have "\<dots> \<longleftrightarrow> byName = acc @ map (\<lambda>raw. (file_name raw, raw)) (raw # xs)
      \<and> distinct (map fst acc @ map file_name (raw # xs)) \<and> list_all declared_file (raw # xs)"
    using Cons.IH [of "acc @ [(file_name raw, raw)]"] Cons.prems by auto
  finally show ?case .
qed

lemma five_elements: "length xs = 5 \<longleftrightarrow> (\<exists>a b c d e. xs = [a, b, c, d, e])"
  by (auto simp: numeral_eq_Suc length_Suc_conv)

lemma safe_size: "safeInteger v 1 MAX_ARCHIVE_BYTES \<longleftrightarrow> (\<exists>n. v = JNum (IntN n) \<and> 1 \<le> n \<and> n \<le> 536870912)"
  by (auto simp: safeInteger_iff MAX_ARCHIVE_BYTES_def max_safe_integer_def)

lemma num_add_int: "\<bar>m + n\<bar> < 2 ^ 53 \<Longrightarrow> num_add (IntN m) (IntN n) = IntN (m + n)"
  using fl64_of_int [of "m + n"] by simp

definition metadata_capped :: "jsval \<Rightarrow> bool" where
  "metadata_capped v \<longleftrightarrow> list_all (\<lambda>file. metadata_file (file_name file) \<longrightarrow> file_size file \<le> MAX_METADATA_BYTES) (plan_files v)"

definition files_in_order :: "jsval \<Rightarrow> bool" where
  "files_in_order v \<longleftrightarrow> map file_name (plan_files v) = RECORDER_ARCHIVE_FILE_NAMES"

definition studio_files :: "jsval \<Rightarrow> bool" where
  "studio_files v \<longleftrightarrow> (case getProp v ''files'' of
       JArr xs \<Rightarrow> length xs = 5 \<and> (\<exists>files. mapE (\<lambda>(i, file). parse_upload_file i file) (zip [0..<length xs] xs) = Inr files
         \<and> strict_eq (JNum (total_bytes files)) (getProp v ''aggregateByteSize''))
     | _ \<Rightarrow> False)"

lemma parse_upload_file_iff:
  "i < 5 \<Longrightarrow> parse_upload_file i file = Inr w \<longleftrightarrow> w = file \<and> declared_file file
     \<and> getProp file ''name'' = JStr (RECORDER_ARCHIVE_FILE_NAMES ! i) \<and> getProp file ''contentType'' = JStr (upload_file_type i)"
  by (auto simp: parse_upload_file_def resE js_simps declared_file_def MAX_ARCHIVE_BYTES_def)

lemma declared_size: "declared_file file \<Longrightarrow> \<exists>n. getProp file ''byteSize'' = JNum (IntN n) \<and> 1 \<le> n \<and> n \<le> 536870912"
  by (simp add: declared_file_def safe_size)

lemma file_size_of [simp]: "getProp file ''byteSize'' = JNum (IntN n) \<Longrightarrow> file_size file = n"
  by (simp add: whole_number_def)

lemma foldl_bytes:
  "list_all declared_file xs \<Longrightarrow> 0 \<le> m \<Longrightarrow> m + 536870912 * int (length xs) < 2 ^ 53 \<Longrightarrow>
     foldl (\<lambda>total file. num_add total (number_of (getProp file ''byteSize''))) (IntN m) xs = IntN (m + sum_list (map file_size xs))"
proof (induction xs arbitrary: m)
  case Nil
  then show ?case by simp
next
  case (Cons x xs)
  from Cons.prems(1) obtain n where n: "getProp x ''byteSize'' = JNum (IntN n)" "1 \<le> n" "n \<le> 536870912"
    using declared_size [of x] by auto
  have "num_add (IntN m) (IntN n) = IntN (m + n)" by (rule num_add_int) (use Cons.prems n in simp)
  moreover have "foldl (\<lambda>total file. num_add total (number_of (getProp file ''byteSize''))) (IntN (m + n)) xs
      = IntN (m + n + sum_list (map file_size xs))"
    by (rule Cons.IH) (use Cons.prems n in simp_all)
  ultimately show ?case using n(1) by (simp add: add.assoc whole_number_def)
qed

lemma total_bytes_declared:
  "list_all declared_file xs \<Longrightarrow> length xs = 5 \<Longrightarrow> total_bytes xs = IntN (sum_list (map file_size xs))"
  using foldl_bytes [of xs 0] by (simp add: total_bytes_def)

lemma upload_file_type_FILES: "i < 5 \<Longrightarrow> upload_file_type i = rf_contentType (FILES ! i)"
proof -
  assume "i < 5"
  then consider "i = 0" | "i = 1" | "i = 2" | "i = 3" | "i = 4" by linarith
  then show ?thesis by cases (simp_all add: upload_file_type_def FILES_def)
qed

lemma declared_name: "declared_file file \<Longrightarrow> getProp file ''name'' = JStr n \<longleftrightarrow> file_name file = n"
  by (auto simp: declared_file_def js_simps)

lemma studio_five:
  assumes "length xs = 5"
  shows "mapE (\<lambda>(i, file). parse_upload_file i file) (zip [0..<5] xs) = Inr files \<longleftrightarrow>
     files = xs \<and> list_all declared_file xs \<and> map file_name xs = RECORDER_ARCHIVE_FILE_NAMES
     \<and> map (\<lambda>file. getProp file ''contentType'') xs = map (JStr \<circ> rf_contentType) FILES"
proof -
  have names: "map file_name xs = RECORDER_ARCHIVE_FILE_NAMES \<longleftrightarrow> (\<forall>i < 5. file_name (xs ! i) = RECORDER_ARCHIVE_FILE_NAMES ! i)"
    using assms by (simp add: list_eq_iff_nth_eq RECORDER_ARCHIVE_FILE_NAMES_def)
  have types: "map (\<lambda>file. getProp file ''contentType'') xs = map (JStr \<circ> rf_contentType) FILES \<longleftrightarrow>
      (\<forall>i < 5. getProp (xs ! i) ''contentType'' = JStr (upload_file_type i))"
    using assms by (simp add: list_eq_iff_nth_eq FILES_facts(1) upload_file_type_FILES)
  have "mapE (\<lambda>(i, file). parse_upload_file i file) (zip [0..<5] xs) = Inr files \<longleftrightarrow>
      length files = 5 \<and> (\<forall>i < 5. parse_upload_file i (xs ! i) = Inr (files ! i))"
    using assms by (simp add: mapE_Inr_iff)
  also have "\<dots> \<longleftrightarrow> files = xs \<and> (\<forall>i < 5. declared_file (xs ! i) \<and> file_name (xs ! i) = RECORDER_ARCHIVE_FILE_NAMES ! i
      \<and> getProp (xs ! i) ''contentType'' = JStr (upload_file_type i))"
    using assms by (auto simp: parse_upload_file_iff declared_name list_eq_iff_nth_eq)
  finally show ?thesis using assms unfolding names types by (auto simp: list_all_length)
qed

text \<open>The gateway looks the files up by name; on a plan in the order of the studio it sees the same five files.\<close>

lemma length_names: "length RECORDER_ARCHIVE_FILE_NAMES = 5"
  by (simp add: RECORDER_ARCHIVE_FILE_NAMES_def)

lemma FILES_names: "map rf_name FILES = RECORDER_ARCHIVE_FILE_NAMES"
  by (simp add: FILES_def RECORDER_ARCHIVE_FILE_NAMES_def)

lemma sum_files_iff:
  "sum_files fs byName m = Inr t \<longleftrightarrow>
     list_all (\<lambda>f. \<exists>x. map_of byName (rf_name f) = Some x \<and> getProp x ''contentType'' = JStr (rf_contentType f)
       \<and> (metadata_file (rf_name f) \<longrightarrow> file_size x \<le> MAX_METADATA_BYTES)) fs
     \<and> t = m + sum_list (map (\<lambda>f. file_size (the (map_of byName (rf_name f)))) fs)"
proof (induction fs arbitrary: m)
  case Nil
  then show ?case by auto
next
  case (Cons f fs)
  show ?case
  proof (cases "map_of byName (rf_name f)")
    case None
    then show ?thesis by simp
  next
    case (Some x)
    then show ?thesis
      using Cons.IH [of "m + file_size x"] by (simp add: js_simps not_less add.assoc)
  qed
qed

lemma sum_ordered:
  assumes "map file_name xs = map rf_name fs" "distinct (map rf_name fs)"
  shows "sum_files fs (map (\<lambda>raw. (file_name raw, raw)) xs) 0 = Inr t \<longleftrightarrow>
     map (\<lambda>file. getProp file ''contentType'') xs = map (JStr \<circ> rf_contentType) fs
     \<and> list_all (\<lambda>file. metadata_file (file_name file) \<longrightarrow> file_size file \<le> MAX_METADATA_BYTES) xs
     \<and> t = sum_list (map file_size xs)"
proof -
  have len: "length xs = length fs" using assms(1) by (metis length_map)
  have name: "rf_name (fs ! i) = file_name (xs ! i)" if "i < length fs" for i
    using assms(1) len that by (metis nth_map)
  have found: "map_of (map (\<lambda>raw. (file_name raw, raw)) xs) (rf_name (fs ! i)) = Some (xs ! i)" if "i < length fs" for i
  proof (rule map_of_is_SomeI)
    show "distinct (map fst (map (\<lambda>raw. (file_name raw, raw)) xs))" using assms by (simp add: comp_def)
    show "(rf_name (fs ! i), xs ! i) \<in> set (map (\<lambda>raw. (file_name raw, raw)) xs)"
      using that len by (simp add: name image_iff)
  qed
  have "map (\<lambda>f. file_size (the (map_of (map (\<lambda>raw. (file_name raw, raw)) xs) (rf_name f)))) fs = map file_size xs"
    using len by (intro nth_equalityI) (simp_all add: found)
  moreover have "map (\<lambda>file. getProp file ''contentType'') xs = map (JStr \<circ> rf_contentType) fs \<longleftrightarrow>
      (\<forall>i < length fs. getProp (xs ! i) ''contentType'' = JStr (rf_contentType (fs ! i)))"
    using len by (simp add: list_eq_iff_nth_eq)
  moreover have "list_all (\<lambda>f. \<exists>x. map_of (map (\<lambda>raw. (file_name raw, raw)) xs) (rf_name f) = Some x
        \<and> getProp x ''contentType'' = JStr (rf_contentType f)
        \<and> (metadata_file (rf_name f) \<longrightarrow> file_size x \<le> MAX_METADATA_BYTES)) fs \<longleftrightarrow>
      (\<forall>i < length fs. getProp (xs ! i) ''contentType'' = JStr (rf_contentType (fs ! i))
        \<and> (metadata_file (rf_name (fs ! i)) \<longrightarrow> file_size (xs ! i) \<le> MAX_METADATA_BYTES))"
    unfolding list_all_length by (simp only: found option.inject cong: imp_cong) simp
  moreover have "list_all (\<lambda>file. metadata_file (file_name file) \<longrightarrow> file_size file \<le> MAX_METADATA_BYTES) xs \<longleftrightarrow>
      (\<forall>i < length fs. metadata_file (rf_name (fs ! i)) \<longrightarrow> file_size (xs ! i) \<le> MAX_METADATA_BYTES)"
    unfolding list_all_length len by (simp only: name cong: imp_cong)
  ultimately show ?thesis unfolding sum_files_iff by (simp only: add_0) blast
qed

lemma strict_eq_number: "strict_eq (JNum (Fin x)) w \<longleftrightarrow> w = JNum (Fin x)"
  by (cases w) (auto simp: num_eq_iff)

lemma files_agree:
  "(\<exists>t. check_files v = Inr t \<and> getProp v ''aggregateByteSize'' = JNum (IntN t)) \<and> files_in_order v \<longleftrightarrow>
     studio_files v \<and> metadata_capped v"
proof (cases "\<exists>xs. getProp v ''files'' = JArr xs \<and> length xs = 5")
  case False
  then show ?thesis by (auto simp: check_files_def studio_files_def FILES_facts resE split: jsval.splits)
next
  case True
  then obtain xs where xs: "getProp v ''files'' = JArr xs" "length xs = 5" by blast
  then have pf: "plan_files v = xs" by (simp add: plan_files_def)
  have "check_files v = Inr t \<longleftrightarrow> list_all declared_file xs
      \<and> map (\<lambda>file. getProp file ''contentType'') xs = map (JStr \<circ> rf_contentType) FILES
      \<and> metadata_capped v \<and> t = sum_list (map file_size xs)" if "files_in_order v" for t
  proof -
    have ordered: "map file_name xs = map rf_name FILES" using that by (simp add: files_in_order_def pf FILES_names)
    then have "distinct (map file_name xs)" by (simp only: FILES_facts)
    then show ?thesis using collect_files_iff [of "[]" xs] sum_ordered [OF ordered FILES_facts(2)]
      by (simp add: check_files_def xs FILES_facts(1) resE metadata_capped_def pf del: distinct_map)
  qed
  moreover have "studio_files v \<longleftrightarrow> list_all declared_file xs \<and> files_in_order v
      \<and> map (\<lambda>file. getProp file ''contentType'') xs = map (JStr \<circ> rf_contentType) FILES
      \<and> getProp v ''aggregateByteSize'' = JNum (IntN (sum_list (map file_size xs)))"
    by (auto simp: studio_files_def xs studio_five files_in_order_def pf total_bytes_declared strict_eq_number)
  ultimately show ?thesis by (cases "files_in_order v") auto
qed

definition leads_alnum :: "jsval \<Rightarrow> bool" where
  "leads_alnum v = (case v of JStr (c # _) \<Rightarrow> is_alnum c | _ \<Rightarrow> False)"

lemma artifact_id_agree: "artifact_id_ok v \<longleftrightarrow> isSafeId v \<and> leads_alnum v"
  by (auto simp: artifact_id_ok_def isSafeId_def leads_alnum_def list_all_iff Suc_le_eq split: jsval.splits list.splits)

lemma rig_agree: "rig_ok v \<longleftrightarrow> isD12Rig v"
  by (auto simp: rig_ok_def isD12Rig_def D12_RIGS_def js_simps split: jsval.splits)

lemma times_agree: "plan_times_ok v \<and> safeInteger (getProp v ''aggregateByteSize'') 1 MAX_ARCHIVE_BYTES \<longleftrightarrow> plan_numbers v"
proof -
  have duration: "duration_ok d \<longleftrightarrow> duration_value d \<and> \<not> num_lt (IntN max_safe_integer) (number_of d)" for d
    by (auto simp: duration_ok_def duration_value_def split: jsval.splits)
  have "safeInteger (getProp v ''startedAtUnixMs'') 0 max_safe_integer \<and> safeInteger (getProp v ''stoppedAtUnixMs'') 0 max_safe_integer
      \<and> \<not> int_of (getProp v ''stoppedAtUnixMs'') < int_of (getProp v ''startedAtUnixMs'') \<longleftrightarrow> capture_times v"
    using safeInteger_iff [of 0 max_safe_integer] safeInteger_iff [of "- max_safe_integer" max_safe_integer]
    by (auto simp: capture_times_def whole_number_def) (auto simp: max_safe_integer_def whole_number_def)
  then show ?thesis by (auto simp: plan_times_ok_def plan_numbers_def duration MAX_FRAMES_def MAX_ARCHIVE_BYTES_def)
qed

lemma studio_plan_iff:
  "isOk (parseRecorderUploadPlan v) \<longleftrightarrow> isRecord v \<and> exactFields v PLAN_FIELDS
     \<and> getProp v ''schemaVersion'' = JStr RECORDER_UPLOAD_PLAN_SCHEMA_VERSION
     \<and> getProp v ''archiveSchemaVersion'' = JStr RECORDER_ARCHIVE_SCHEMA_VERSION
     \<and> getProp v ''inspectionSchemaVersion'' = JStr RECORDER_INSPECTION_SCHEMA_VERSION
     \<and> isSafeId (getProp v ''artifactId'') \<and> isD12Rig (getProp v ''referenceRigId'')
     \<and> isSha256 (getProp v ''contractHash'') \<and> isSha256 (getProp v ''lockfileHash'') \<and> isSha256 (getProp v ''sourcePortSha256'')
     \<and> plan_numbers v \<and> getProp v ''captureMaturity'' = JStr ''local-serial-integration'' \<and> plan_flags_ok v \<and> studio_files v"
proof -
  note constants = UPLOAD_PLAN_FIELDS_def PLAN_FIELDS_def RECORDER_UPLOAD_PLAN_SCHEMA_VERSION_studio_def
    RECORDER_UPLOAD_PLAN_SCHEMA_VERSION_def RECORDER_ARCHIVE_SCHEMA_VERSION_studio_def RECORDER_ARCHIVE_SCHEMA_VERSION_def
    RECORDER_INSPECTION_SCHEMA_VERSION_studio_def RECORDER_INSPECTION_SCHEMA_VERSION_def
  have "(\<exists>w. (case getProp v ''files'' of
       JArr xs \<Rightarrow>
         bindE (guardE (length xs = length RECORDER_ARCHIVE_FILE_NAMES)
           ''Desktop recorder upload plan must declare exactly five files'') (\<lambda>_.
         bindE (mapE (\<lambda>(i, file). parse_upload_file i file) (zip [0..<length xs] xs)) (\<lambda>files.
         bindE (guardE (strict_eq (JNum (total_bytes files)) (getProp v ''aggregateByteSize''))
           ''Desktop recorder upload plan aggregate byte size has drifted'') (\<lambda>_. Inr v)))
     | _ \<Rightarrow> Inl ''Desktop recorder upload plan must declare exactly five files'') = Inr w) \<longleftrightarrow> studio_files v"
    by (simp add: studio_files_def resE length_names split: jsval.split)
  then show ?thesis
    by (auto simp: isOk_iff parseRecorderUploadPlan_def resE js_simps constants plan_flags_ok_def flag_def)
qed

text \<open>
  C32. The studio and the gateway check upload plans independently, and where they differ is this: a plan is
  acceptable to both exactly when the studio accepts it, its artifact identifier starts with a letter or a digit, its
  manifest and receipt are at most 1 MiB, and it is within the JSON limits of the gateway; and every plan that
  the gateway accepts with its files in the order of the archive is accepted by the studio.
\<close>

theorem recorder_plans_agree:
  "isOk (validateRecorderUploadPlan v) \<and> files_in_order v \<longleftrightarrow>
     isOk (parseRecorderUploadPlan v) \<and> leads_alnum (getProp v ''artifactId'') \<and> metadata_capped v
     \<and> isOk (assertBoundedJson v ''recorder upload plan'' plan_limits)"
proof -
  have "isOk (validateRecorderUploadPlan v) \<longleftrightarrow> isRecord v \<and> exactFields v PLAN_FIELDS
     \<and> isOk (assertBoundedJson v ''recorder upload plan'' plan_limits)
     \<and> getProp v ''schemaVersion'' = JStr RECORDER_UPLOAD_PLAN_SCHEMA_VERSION
     \<and> getProp v ''archiveSchemaVersion'' = JStr RECORDER_ARCHIVE_SCHEMA_VERSION
     \<and> getProp v ''inspectionSchemaVersion'' = JStr RECORDER_INSPECTION_SCHEMA_VERSION
     \<and> artifact_id_ok (getProp v ''artifactId'') \<and> rig_ok (getProp v ''referenceRigId'')
     \<and> isSha256 (getProp v ''contractHash'') \<and> isSha256 (getProp v ''lockfileHash'') \<and> isSha256 (getProp v ''sourcePortSha256'')
     \<and> plan_times_ok v \<and> getProp v ''captureMaturity'' = JStr ''local-serial-integration'' \<and> plan_flags_ok v
     \<and> (\<exists>t. check_files v = Inr t \<and> getProp v ''aggregateByteSize'' = JNum (IntN t))
     \<and> safeInteger (getProp v ''aggregateByteSize'') 1 MAX_ARCHIVE_BYTES"
    by (auto simp: isOk_iff validateRecorderUploadPlan_def exactFieldsE_def resE js_simps)
  with files_agree [of v] times_agree [of v] studio_plan_iff [of v] show ?thesis
    unfolding artifact_id_agree rig_agree by blast
qed

text \<open>The client accepts a recording whose identifier starts with a dot, an underscore or a hyphen, from the request to
  the plan; the gateway refuses every plan with such an identifier.\<close>

lemma hidden_artifact_refused:
  assumes "getProp v ''artifactId'' = JStr (c # s)" "\<not> is_alnum c"
  shows "\<not> isOk (validateRecorderUploadPlan v)"
  using assms by (auto simp: isOk_iff validateRecorderUploadPlan_def resE artifact_id_ok_def)

section \<open>Captures\<close>

lemma bound_to_Cons [simp]:
  "bound_to [] answer request"
  "bound_to ((f, g) # pairs) answer request \<longleftrightarrow> strict_eq (getProp answer f) (getProp request g) \<and> bound_to pairs answer request"
  by (simp_all add: bound_to_def)

lemma strict_eq_text: "strict_eq (JStr s) w \<longleftrightarrow> w = JStr s"
  by (cases w) auto

lemma trimmed_Inr [resE]: "trimmed v = Inr t \<longleftrightarrow> (\<exists>s. v = JStr s \<and> t = trim s)"
  by (auto simp: trimmed_def split: jsval.splits)

lemma start_request_Inr:
  assumes "validateRecorderStartRequest request = Inr normalized"
  shows "\<exists>a. getProp request ''artifactId'' = JStr a \<and> getProp normalized ''artifactId'' = JStr (trim a)"
    "\<exists>d. getProp request ''outputDir'' = JStr d \<and> getProp normalized ''outputDir'' = JStr (trim d) \<and> validAbsolutePath (trim d)"
    "field \<notin> {''artifactId'', ''outputDir'', ''port''} \<Longrightarrow> getProp normalized field = getProp request field"
    "getProp request ''physicalConfirmation'' = JStr RECORDER_PHYSICAL_CONFIRMATION"
    "safeInteger (getProp request ''sampleRateHz'') 1 1000"
proof -
  from assms obtain a d p where texts: "getProp request ''artifactId'' = JStr a" "getProp request ''outputDir'' = JStr d"
    and norm: "normalized = spread request [(''artifactId'', JStr (trim a)), (''outputDir'', JStr (trim d)), (''port'', JStr p)]"
    and path: "validAbsolutePath (trim d)"
    and checks: "getProp request ''physicalConfirmation'' = JStr RECORDER_PHYSICAL_CONFIRMATION"
      "safeInteger (getProp request ''sampleRateHz'') 1 1000"
    by (auto simp: validateRecorderStartRequest_def resE js_simps)
  show "\<exists>a. getProp request ''artifactId'' = JStr a \<and> getProp normalized ''artifactId'' = JStr (trim a)"
    "\<exists>d. getProp request ''outputDir'' = JStr d \<and> getProp normalized ''outputDir'' = JStr (trim d) \<and> validAbsolutePath (trim d)"
    using texts path by (simp_all add: norm getProp_spread3 getProp_spread1)
  show "getProp normalized field = getProp request field" if "field \<notin> {''artifactId'', ''outputDir'', ''port''}"
    using that by (simp add: norm getProp_spread3 getProp_spread1)
  show "getProp request ''physicalConfirmation'' = JStr RECORDER_PHYSICAL_CONFIRMATION"
    "safeInteger (getProp request ''sampleRateHz'') 1 1000" by (fact checks)+
qed

lemma recording_start_Inr:
  assumes "startDesktopRecorder request rt = Inr status"
  obtains normalized where "validateRecorderStartRequest request = Inr normalized" "active_status status"
    "bound_to START_BINDING status normalized" "getProp status ''state'' = JStr ''recording''"
proof -
  from assms obtain normalized answer where "validateRecorderStartRequest request = Inr normalized"
    "parseRecorderControlStatus answer = Inr status" "bound_to START_BINDING status normalized"
    "getProp status ''state'' = JStr ''recording''"
    by (auto simp: startDesktopRecorder_def resE js_simps split: if_splits)
  then show thesis using that parse_status_Inr(1,3) [of answer status] by simp
qed

lemma recording_stop_Inr:
  assumes "stopDesktopRecorder status rt = Inr receipt"
  shows "bound_to STOP_BINDING receipt status" "parseRecorderStopReceipt receipt = Inr receipt"
  using assms parse_receipt_Inr(1) by (auto simp: stopDesktopRecorder_def resE split: if_splits)

lemma capture_times_iff:
  "capture_times v \<longleftrightarrow> (\<exists>started stopped. getProp v ''startedAtUnixMs'' = JNum (IntN started)
     \<and> getProp v ''stoppedAtUnixMs'' = JNum (IntN stopped) \<and> 0 \<le> started \<and> started \<le> stopped \<and> stopped \<le> max_safe_integer)"
proof -
  have "0 \<le> max_safe_integer" "- max_safe_integer \<le> 0" by (simp_all add: max_safe_integer_def)
  then show ?thesis
    using safeInteger_iff [of 0 max_safe_integer] safeInteger_iff [of "- max_safe_integer" max_safe_integer]
    by (auto simp: capture_times_def)
qed

text \<open>
  C30. A receipt belongs to the capture that was asked for. Whatever the desktop process answers, when a recording
  was started and stopped successfully the receipt names the artifact, the contract, the lockfile and the rig of the
  request, which carried the consent phrase, and the start time that was reported; it does not stop before it starts,
  has between one and a million frames, and grants no authority.
\<close>

theorem capture_bound_to_request:
  assumes "startDesktopRecorder request rt = Inr status" and "stopDesktopRecorder status rt' = Inr receipt"
  shows "(\<exists>a. getProp request ''artifactId'' = JStr a \<and> getProp receipt ''artifactId'' = JStr (trim a))
    \<and> isSha256 (getProp receipt ''contractHash'') \<and> getProp receipt ''contractHash'' = getProp request ''contractHash''
    \<and> isSha256 (getProp receipt ''lockfileHash'') \<and> getProp receipt ''lockfileHash'' = getProp request ''lockfileHash''
    \<and> isD12Rig (getProp receipt ''referenceRigId'') \<and> getProp receipt ''referenceRigId'' = getProp request ''referenceRigId''
    \<and> getProp request ''physicalConfirmation'' = JStr RECORDER_PHYSICAL_CONFIRMATION
    \<and> (\<exists>started stopped frames. getProp status ''startedAtUnixMs'' = JNum (IntN started)
         \<and> getProp receipt ''startedAtUnixMs'' = JNum (IntN started) \<and> getProp receipt ''stoppedAtUnixMs'' = JNum (IntN stopped)
         \<and> started \<le> stopped \<and> getProp receipt ''frameCount'' = JNum (IntN frames) \<and> 1 \<le> frames \<and> frames \<le> 1000000)
    \<and> grants_nothing receipt"
proof -
  obtain normalized where request: "validateRecorderStartRequest request = Inr normalized" and active: "active_status status"
    and started: "bound_to START_BINDING status normalized"
    using assms(1) by (rule recording_start_Inr)
  note receipt = parse_receipt_Inr [OF recording_stop_Inr(2) [OF assms(2)]]
  note bound = recording_stop_Inr(1) [OF assms(2), unfolded STOP_BINDING_def] started [unfolded START_BINDING_def]
  note texts = receipt(5) [unfolded isSha256_iff] receipt(6) [unfolded isSha256_iff]
  obtain start stop where times: "getProp receipt ''startedAtUnixMs'' = JNum (IntN start)"
    "getProp receipt ''stoppedAtUnixMs'' = JNum (IntN stop)" "start \<le> stop"
    using receipt(3) by (auto simp: capture_times_iff)
  obtain frames where frames: "getProp receipt ''frameCount'' = JNum (IntN frames)" "1 \<le> frames" "frames \<le> 1000000"
    using receipt(4) by (auto simp: safeInteger_iff max_safe_integer_def)
  have same: "getProp receipt field = getProp request field"
    if "field \<in> {''contractHash'', ''lockfileHash'', ''referenceRigId''}" for field
    using that bound texts receipt(8) start_request_Inr(3) [OF request, of field]
    by (auto simp: strict_eq_text isD12Rig_def js_simps)
  moreover have "\<exists>a. getProp request ''artifactId'' = JStr a \<and> getProp receipt ''artifactId'' = JStr (trim a)"
    using start_request_Inr(1) [OF request] bound by (auto simp: js_simps)
  moreover have "getProp status ''startedAtUnixMs'' = JNum (IntN start)"
    using bound(1) times(1) by (simp add: strict_eq_number)
  ultimately show ?thesis
    using receipt(2,5,6,8) start_request_Inr(4) [OF request] times frames by blast
qed

section \<open>Custody\<close>

lemma getProp_spread_all:
  "getProp (spread v kvs) l = (case map_of (rev kvs) l of Some x \<Rightarrow> x | None \<Rightarrow> getProp v l)"
proof (induction kvs rule: rev_induct)
  case Nil
  then show ?case by (cases v) (simp_all add: spread_def)
next
  case (snoc kv kvs)
  then show ?case using getProp_spread [of v kvs "fst kv" "snd kv" l] by (cases kv) simp
qed

lemma trimmed_if_present_path:
  "trimmed_if_present v = Inr w \<Longrightarrow> path_value w \<Longrightarrow> \<exists>s. v = JStr s \<and> w = JStr (trim s)"
  by (auto simp: trimmed_if_present_def path_value_def split: jsval.splits)

lemma custody_start_Inr:
  assumes "startDesktopCustodiedRecorder request rt = Inr status"
  obtains recorder d p where "validateRecorderStartRequest (getProp request ''recorder'') = Inr recorder"
    "bound_to CUSTODY_START_BINDING status recorder" "getProp status ''referenceRigId'' = JStr D12_QUAD" "active_status status"
    "getProp (getProp request ''recorder'') ''outputDir'' = JStr d" "getProp request ''custodyProofPath'' = JStr p"
    "outside_of (trim d) (JStr (trim p))"
proof -
  from assms obtain normalized answer where norm: "validateRecorderCustodyStartRequest request = Inr normalized"
    and answer: "parseRecorderControlStatus answer = Inr status" "getProp status ''state'' = JStr ''recording''"
    and rig: "getProp status ''referenceRigId'' = JStr D12_QUAD"
    and bound: "bound_to CUSTODY_START_BINDING status (getProp normalized ''recorder'')"
    by (auto simp: startDesktopCustodiedRecorder_def resE js_simps split: if_splits)
  from norm obtain recorder custodyProofPath where recorder: "validateRecorderStartRequest (getProp request ''recorder'') = Inr recorder"
    and path: "trimmed_if_present (getProp request ''custodyProofPath'') = Inr custodyProofPath" "path_value custodyProofPath"
      "outside_of (text_of (getProp recorder ''outputDir'')) custodyProofPath"
    and "getProp normalized ''recorder'' = recorder"
    by (auto simp: validateRecorderCustodyStartRequest_def resE getProp_spread_all)
  with bound answer rig show thesis
    using that [OF recorder] start_request_Inr(2) [OF recorder] trimmed_if_present_path [OF path(1,2)]
      parse_status_Inr(1,3) [OF answer(1)] path(3) by (auto simp: text_of_def)
qed

lemma custody_stop_Inr:
  assumes "stopDesktopCustodiedRecorder status model request rt = Inr proved"
  shows "parseRecorderCustodyProof proved = Inr proved" "getProp proved ''modelId'' = JStr model"
    "getProp request ''authorizationId'' = getProp proved ''authorizationId''"
    "getProp request ''physicalConfirmation'' = JStr RECORDER_ADAPTER_PROBE_CONFIRMATION"
    "bound_to CUSTODY_STOP_BINDING proved status"
proof -
  from assms obtain answer where answer: "parseRecorderCustodyProof answer = Inr proved" "getProp proved ''modelId'' = JStr model"
      "strict_eq (getProp proved ''authorizationId'') (getProp request ''authorizationId'')"
      "getProp request ''physicalConfirmation'' = JStr RECORDER_ADAPTER_PROBE_CONFIRMATION"
      "bound_to CUSTODY_STOP_BINDING proved status"
    by (auto simp: stopDesktopCustodiedRecorder_def resE js_simps split: if_splits)
  have "proved = answer" by (rule parse_proof_Inr(1) [OF answer(1)])
  then show "parseRecorderCustodyProof proved = Inr proved" "getProp proved ''modelId'' = JStr model"
    "getProp request ''authorizationId'' = getProp proved ''authorizationId''"
    "getProp request ''physicalConfirmation'' = JStr RECORDER_ADAPTER_PROBE_CONFIRMATION"
    "bound_to CUSTODY_STOP_BINDING proved status"
    using answer parse_proof_Inr(7) [OF answer(1)]
    by (auto simp: isSafeId_def strict_eq_text split: jsval.splits)
qed

text \<open>Comparisons of times and of hashes in an accepted proof.\<close>

lemma proof_hash:
  assumes "list_all (\<lambda>field. isSha256 (getProp v field)) names" "f \<in> set names"
  obtains h where "getProp v f = JStr h"
  using assms by (auto simp: list_all_iff isSha256_iff)

lemma same_hash:
  assumes "list_all (\<lambda>field. isSha256 (getProp v field)) CUSTODY_HASHES" "f \<in> set CUSTODY_HASHES"
  shows "same_field v f g \<longleftrightarrow> getProp v g = getProp v f"
proof -
  obtain h where "getProp v f = JStr h" using assms by (rule proof_hash)
  then show ?thesis by (simp add: same_field_def strict_eq_text)
qed

lemma ordered_times:
  assumes "parseRecorderCustodyProof v = Inr w"
  shows "\<exists>pre started stopped post created. getProp v ''preObservedAtUnixMs'' = JNum (IntN pre)
    \<and> getProp v ''captureStartedAtUnixMs'' = JNum (IntN started) \<and> getProp v ''captureStoppedAtUnixMs'' = JNum (IntN stopped)
    \<and> getProp v ''postObservedAtUnixMs'' = JNum (IntN post) \<and> getProp v ''proofCreatedAtUnixMs'' = JNum (IntN created)
    \<and> pre \<le> started \<and> started \<le> stopped \<and> stopped \<le> post \<and> post \<le> created"
proof -
  have "list_all (\<lambda>field. \<exists>n. getProp v field = JNum (IntN n)) [''preObservedAtUnixMs'', ''postObservedAtUnixMs'',
      ''captureStartedAtUnixMs'', ''captureStoppedAtUnixMs'', ''proofCreatedAtUnixMs'']"
    using parse_proof_Inr(5) [OF assms] by (rule list.pred_mono_strong) (auto simp: safeInteger_iff max_safe_integer_def)
  then obtain pre started stopped post created where
    pre: "getProp v ''preObservedAtUnixMs'' = JNum (IntN pre)" and started: "getProp v ''captureStartedAtUnixMs'' = JNum (IntN started)"
    and stopped: "getProp v ''captureStoppedAtUnixMs'' = JNum (IntN stopped)"
    and post: "getProp v ''postObservedAtUnixMs'' = JNum (IntN post)" and created: "getProp v ''proofCreatedAtUnixMs'' = JNum (IntN created)"
    by auto
  show ?thesis using parse_proof_Inr(3) [OF assms] pre started stopped post created
    by (simp add: custody_continuity_def not_after_def)
qed

text \<open>
  C31. A custody proof belongs to the capture that was asked for and brackets it: it names the artifact, contract and
  lockfile of the request and the model of the caller, its authority signature is verified, the identity and the
  device read before and after the capture are the expected ones, read through another port than the telemetry, the
  capture lies between the two readings, the proof is stored outside the archive, and it grants no authority.
\<close>

theorem custody_bound_to_request:
  assumes "startDesktopCustodiedRecorder request rt = Inr status"
    and "stopDesktopCustodiedRecorder status model stopRequest rt' = Inr proved"
  shows "(\<exists>a. getProp (getProp request ''recorder'') ''artifactId'' = JStr a \<and> getProp proved ''artifactId'' = JStr (trim a))
    \<and> getProp proved ''contractHash'' = getProp (getProp request ''recorder'') ''contractHash''
    \<and> getProp proved ''lockfileHash'' = getProp (getProp request ''recorder'') ''lockfileHash''
    \<and> getProp proved ''modelId'' = JStr model \<and> getProp proved ''acceptanceAuthoritySignatureVerified'' = JBool True
    \<and> getProp proved ''preIdentitySha256'' = getProp proved ''expectedIdentitySha256''
    \<and> getProp proved ''postIdentitySha256'' = getProp proved ''expectedIdentitySha256''
    \<and> getProp proved ''preDeviceUidSha256'' = getProp proved ''expectedDeviceUidSha256''
    \<and> getProp proved ''postDeviceUidSha256'' = getProp proved ''expectedDeviceUidSha256''
    \<and> getProp proved ''telemetrySourcePortSha256'' \<noteq> getProp proved ''identitySourcePortSha256''
    \<and> (\<exists>pre started stopped post created. getProp proved ''preObservedAtUnixMs'' = JNum (IntN pre)
         \<and> getProp proved ''captureStartedAtUnixMs'' = JNum (IntN started) \<and> getProp proved ''captureStoppedAtUnixMs'' = JNum (IntN stopped)
         \<and> getProp proved ''postObservedAtUnixMs'' = JNum (IntN post) \<and> getProp proved ''proofCreatedAtUnixMs'' = JNum (IntN created)
         \<and> pre \<le> started \<and> started \<le> stopped \<and> stopped \<le> post \<and> post \<le> created)
    \<and> (\<exists>d p. getProp (getProp request ''recorder'') ''outputDir'' = JStr d \<and> getProp request ''custodyProofPath'' = JStr p
         \<and> trim p \<noteq> trim d \<and> \<not> startsWith (trim d @ ''/'') (trim p))
    \<and> grants_nothing proved"
proof -
  obtain recorder d p where request: "validateRecorderStartRequest (getProp request ''recorder'') = Inr recorder"
    and started: "bound_to CUSTODY_START_BINDING status recorder"
    and dirs: "getProp (getProp request ''recorder'') ''outputDir'' = JStr d" "getProp request ''custodyProofPath'' = JStr p"
      "outside_of (trim d) (JStr (trim p))"
    using assms(1) by (rule custody_start_Inr)
  note stopped = custody_stop_Inr [OF assms(2)]
  note parsed = parse_proof_Inr [OF stopped(1)]
  note bound = stopped(5) [unfolded CUSTODY_STOP_BINDING_def] started [unfolded CUSTODY_START_BINDING_def]
  have hash: "\<exists>h. getProp proved field = JStr h" if "field \<in> set CUSTODY_HASHES" for field
    using proof_hash [OF parsed(4) that] by blast
  have same: "getProp proved field = getProp (getProp request ''recorder'') field"
    if "strict_eq (getProp proved field) (getProp status field)" "strict_eq (getProp status field) (getProp recorder field)"
      "field \<in> set CUSTODY_HASHES" "field \<notin> {''artifactId'', ''outputDir'', ''port''}" for field
    using hash [OF that(3)] that(1,2) start_request_Inr(3) [OF request that(4)] by (auto simp: strict_eq_text)
  have "getProp proved ''contractHash'' = getProp (getProp request ''recorder'') ''contractHash''"
    by (rule same) (use bound in \<open>simp_all add: CUSTODY_HASHES_def\<close>)
  moreover have "getProp proved ''lockfileHash'' = getProp (getProp request ''recorder'') ''lockfileHash''"
    by (rule same) (use bound in \<open>simp_all add: CUSTODY_HASHES_def\<close>)
  moreover have "\<exists>a. getProp (getProp request ''recorder'') ''artifactId'' = JStr a \<and> getProp proved ''artifactId'' = JStr (trim a)"
    using start_request_Inr(1) [OF request] bound by (auto simp: js_simps)
  moreover have "getProp proved ''preIdentitySha256'' = getProp proved ''expectedIdentitySha256''"
    "getProp proved ''postIdentitySha256'' = getProp proved ''expectedIdentitySha256''"
    "getProp proved ''preDeviceUidSha256'' = getProp proved ''expectedDeviceUidSha256''"
    "getProp proved ''postDeviceUidSha256'' = getProp proved ''expectedDeviceUidSha256''"
    "getProp proved ''telemetrySourcePortSha256'' \<noteq> getProp proved ''identitySourcePortSha256''"
    using parsed(3) by (auto simp: custody_continuity_def same_hash [OF parsed(4)] CUSTODY_HASHES_def)
  ultimately show ?thesis
    using parsed(2,8) stopped(2) ordered_times [OF stopped(1)] dirs by (simp add: outside_of_def)
qed

text \<open>
  C29. The desktop process cannot talk the studio into authority: whatever it answers, every status, probe, receipt,
  proof, inspection, plan or upload receipt that an operation of the client returns says that nothing is armed by
  itself, and neither attests the device, the identity or the session nor authorizes sharing or training.
\<close>

theorem desktop_grants_no_authority:
  assumes "desktop_answer v"
  shows "getProp v ''noAutoArm'' = JBool True
    \<and> (\<forall>field \<in> set AUTHORITY. getProp v field = JBool False \<or> getProp v field = JUndef)"
  using desktop_answer_grants_nothing [OF assms] by (simp add: grants_nothing_def list_all_iff)

end
