(* ===== verification/Desktop_Samples.thy ===== *)
theory Desktop_Samples
  imports Desktop_Claims
begin

text \<open>
  A recording with its answers, for the instances of the properties of the recorder client.
\<close>

text \<open>Fields in the declared order need no sorting.\<close>

lemma exactFields_code [code]:
  "exactFields v fs = (if objectKeys v = fs then True else sort (objectKeys v) = sort fs)"
  by (simp add: exactFields_sort)

section \<open>A desktop process that follows the protocol\<close>

definition sample_sha :: "char \<Rightarrow> jsval" where
  "sample_sha c = JStr (replicate 64 c)"

definition start_sample :: jsval where
  "start_sample = JObj
    [(''artifactId'', JStr '' rec-1 ''), (''outputDir'', JStr ''/data/rec-1''), (''sampleRateHz'', JNum (IntN 50)),
     (''referenceRigId'', JStr D12_QUAD), (''physicalConfirmation'', JStr RECORDER_PHYSICAL_CONFIRMATION),
     (''port'', JStr ''/dev/ttyUSB0''), (''baud'', JNum (IntN 115200)), (''contractHash'', sample_sha (CHR ''c'')),
     (''lockfileHash'', sample_sha (CHR ''d'')), (''environment'', JObj [(''site'', JStr ''lab'')]), (''seed'', JNum (IntN 7))]"

definition status_sample :: jsval where
  "status_sample = JObj
    [(''schemaVersion'', JStr RECORDER_CONTROL_SCHEMA_VERSION), (''state'', JStr ''recording''), (''artifactId'', JStr ''rec-1''),
     (''archivePath'', JStr ''/data/rec-1''), (''manifestPath'', JStr ''/data/rec-1/forge-recorder-manifest.json''),
     (''referenceRigId'', JStr D12_QUAD), (''contractHash'', sample_sha (CHR ''c'')), (''lockfileHash'', sample_sha (CHR ''d'')),
     (''sourcePortSha256'', sample_sha (CHR ''e'')), (''sourceBaud'', JNum (IntN 115200)), (''sampleRateHz'', JNum (IntN 50)),
     (''startedAtUnixMs'', JNum (IntN 1000)), (''captureMaturity'', JStr ''local-serial-integration''),
     (''captureConsentConfirmed'', JBool True), (''recordedDeviceAttested'', JBool False), (''deviceIdentityVerified'', JBool False),
     (''fieldSessionVerified'', JBool False), (''userOwned'', JBool True), (''sharingAuthorized'', JBool False),
     (''trainingReuseAuthorized'', JBool False), (''noAutoArm'', JBool True)]"

definition receipt_sample :: jsval where
  "receipt_sample = JObj
    [(''schemaVersion'', JStr RECORDER_RECEIPT_SCHEMA_VERSION_studio),
     (''archiveSchemaVersion'', JStr RECORDER_ARCHIVE_SCHEMA_VERSION_studio), (''replaySchemaVersion'', JStr REPLAY_SCHEMA_VERSION_studio),
     (''frameSchemaVersion'', JStr RECORDER_FRAME_SCHEMA_VERSION_studio), (''artifactId'', JStr ''rec-1''),
     (''referenceRigId'', JStr D12_QUAD), (''contractHash'', sample_sha (CHR ''c'')), (''lockfileHash'', sample_sha (CHR ''d'')),
     (''startedAtUnixMs'', JNum (IntN 1000)), (''stoppedAtUnixMs'', JNum (IntN 3000)), (''frameCount'', JNum (IntN 100)),
     (''durationS'', JNum (IntN 2)), (''frameFileSha256'', sample_sha (CHR ''1'')), (''indexFileSha256'', sample_sha (CHR ''2'')),
     (''replayFileSha256'', sample_sha (CHR ''3'')), (''sourcePortSha256'', sample_sha (CHR ''e'')), (''captureComplete'', JBool True),
     (''captureMaturity'', JStr ''local-serial-integration''), (''captureConsentConfirmed'', JBool True),
     (''recordedDeviceAttested'', JBool False), (''userOwned'', JBool True), (''sharingAuthorized'', JBool False),
     (''trainingReuseAuthorized'', JBool False), (''noAutoArm'', JBool True)]"

definition custody_sample :: jsval where
  "custody_sample = JObj
    [(''recorder'', start_sample), (''modelId'', JStr ''model-1''), (''identityPort'', JStr ''/dev/ttyACM0''),
     (''identityBaud'', JNum (IntN 115200)), (''identityPhysicalConfirmation'', JStr RECORDER_ADAPTER_PROBE_CONFIRMATION),
     (''authorizationPath'', JStr ''/data/authorization.json''), (''custodyProofPath'', JStr ''/data/custody.json'')]"

definition stop_sample :: jsval where
  "stop_sample = JObj [(''authorizationId'', JStr ''auth-1''), (''physicalConfirmation'', JStr RECORDER_ADAPTER_PROBE_CONFIRMATION)]"

text \<open>A custody proof with the given hashes for the identity, contract, lockfile, telemetry port and identity port.\<close>

definition proof_with :: "jsval \<Rightarrow> jsval \<Rightarrow> jsval \<Rightarrow> jsval \<Rightarrow> jsval \<Rightarrow> jsval" where
  "proof_with ha hc hd' he hf = JObj
    [(''schemaVersion'', JStr RECORDER_CUSTODY_PROOF_SCHEMA_VERSION),
     (''trustBundleSchemaVersion'', JStr RECORDER_CUSTODY_TRUST_BUNDLE_SCHEMA_VERSION),
     (''authorizationSchemaVersion'', JStr RECORDER_CUSTODY_AUTHORIZATION_SCHEMA_VERSION),
     (''recorderAdapterProbeSchemaVersion'', JStr RECORDER_ADAPTER_PROBE_SCHEMA_VERSION),
     (''recorderAdapterSchemaVersion'', JStr RECORDER_ADAPTER_SCHEMA_VERSION), (''authorizationId'', JStr ''auth-1''),
     (''authorizationSha256'', ha), (''trustBundleId'', JStr ''bundle-1''),
     (''trustBundleSha256'', ha), (''acceptanceAuthorityKeyId'', JStr ''key-1''),
     (''protectedRevision'', JStr (replicate 40 (CHR ''0''))), (''purpose'', JStr RECORDER_CUSTODY_PURPOSE),
     (''evidencePackSchemaVersion'', JStr ''forge.external-acceptance.v1''),
     (''evidencePackSha256'', ha), (''requiredSignoffSetSha256'', ha),
     (''referenceRigId'', JStr D12_QUAD), (''artifactId'', JStr ''rec-1''), (''modelId'', JStr ''model-1''),
     (''contractHash'', hc), (''lockfileHash'', hd'),
     (''telemetrySourcePortSha256'', he),
     (''telemetryStartOsDescriptorSha256'', ha),
     (''telemetryStopOsDescriptorSha256'', ha), (''identitySourcePortSha256'', ha),
     (''identityStartOsDescriptorSha256'', hf),
     (''identityStopOsDescriptorSha256'', hf), (''expectedIdentitySha256'', ha),
     (''preIdentitySha256'', ha), (''postIdentitySha256'', ha),
     (''expectedDeviceUidSha256'', ha), (''preDeviceUidSha256'', ha),
     (''postDeviceUidSha256'', ha), (''preObservedAtUnixMs'', JNum (IntN 900)),
     (''postObservedAtUnixMs'', JNum (IntN 3100)), (''startPreIdentityResponseSha256'', ha),
     (''startPostIdentityResponseSha256'', ha), (''startTranscriptSha256'', ha),
     (''stopPreIdentityResponseSha256'', ha),
     (''stopPostIdentityResponseSha256'', ha), (''stopTranscriptSha256'', ha),
     (''recorderReceiptSha256'', ha), (''captureStartedAtUnixMs'', JNum (IntN 1000)),
     (''captureStoppedAtUnixMs'', JNum (IntN 3000)), (''proofCreatedAtUnixMs'', JNum (IntN 3200)),
     (''acceptanceAuthoritySignatureVerified'', JBool True), (''identityContinuityVerified'', JBool True),
     (''captureConsentConfirmed'', JBool True), (''noAutoArm'', JBool True),
     (''cryptographicDeviceAttestation'', JBool False), (''recordedDeviceAttested'', JBool False),
     (''deviceIdentityVerified'', JBool False), (''fieldSessionVerified'', JBool False),
     (''sharingAuthorized'', JBool False), (''trainingReuseAuthorized'', JBool False)]"

definition proof_sample :: jsval where
  "proof_sample = proof_with (sample_sha (CHR ''a'')) (sample_sha (CHR ''c'')) (sample_sha (CHR ''d''))
     (sample_sha (CHR ''e'')) (sample_sha (CHR ''f''))"

definition answering :: "jsval \<Rightarrow> ladder_runtime" where
  "answering v = \<lparr>lr_available = True, lr_invoke = \<lambda>command args. Inr v\<rparr>"

lemma sample_start: "startDesktopRecorder start_sample (answering status_sample) = Inr status_sample"
  by code_simp

lemma sample_stop: "stopDesktopRecorder status_sample (answering receipt_sample) = Inr receipt_sample"
  by code_simp

lemma sample_custody_start: "startDesktopCustodiedRecorder custody_sample (answering status_sample) = Inr status_sample"
  by code_simp

lemma sample_sha_simps:
  "is_lower_hex c \<Longrightarrow> isSha256 (sample_sha c)"
  "strict_eq (sample_sha c) (sample_sha d) \<longleftrightarrow> c = d"
  by (auto simp: sample_sha_def isSha256_def list_all_iff numeral_eq_Suc)

lemma proof_with_hashes:
  "map (getProp (proof_with ha hc hd' he hf)) CUSTODY_HASHES =
     [ha, ha, ha, ha, hc, hd', he, ha, ha, ha, hf, hf, ha, ha, ha, ha, ha, ha, ha, ha, ha, ha, ha, ha, ha]"
  by code_simp

lemma proof_with_times:
  "map (getProp (proof_with ha hc hd' he hf)) [''preObservedAtUnixMs'', ''postObservedAtUnixMs'', ''captureStartedAtUnixMs'',
     ''captureStoppedAtUnixMs'', ''proofCreatedAtUnixMs''] =
   [JNum (IntN 900), JNum (IntN 3100), JNum (IntN 1000), JNum (IntN 3000), JNum (IntN 3200)]"
  by code_simp

lemma proof_sample_continuity: "custody_continuity proof_sample"
  using proof_with_hashes [of "sample_sha (CHR ''a'')" "sample_sha (CHR ''c'')" "sample_sha (CHR ''d'')" "sample_sha (CHR ''e'')"
      "sample_sha (CHR ''f'')"] proof_with_times
  by (simp add: custody_continuity_def not_after_def same_field_def proof_sample_def CUSTODY_HASHES_def sample_sha_simps)

lemma proof_sample_hashes: "list_all (\<lambda>field. isSha256 (getProp proof_sample field)) CUSTODY_HASHES"
proof -
  have "is_lower_hex (CHR ''a'')" "is_lower_hex (CHR ''c'')" "is_lower_hex (CHR ''d'')" "is_lower_hex (CHR ''e'')" "is_lower_hex (CHR ''f'')"
    by code_simp+
  then have "list_all isSha256 (map (getProp proof_sample) CUSTODY_HASHES)"
    by (simp only: proof_sample_def proof_with_hashes list.pred_inject sample_sha_simps simp_thms)
  then show ?thesis by (simp only: list.pred_map comp_def)
qed

lemma proof_with_constants:
  "isRecord (proof_with ha hc hd' he hf)"
  "exactFields (proof_with ha hc hd' he hf) CUSTODY_PROOF_FIELDS"
  "fields_are (proof_with ha hc hd' he hf) [(''schemaVersion'', JStr RECORDER_CUSTODY_PROOF_SCHEMA_VERSION),
     (''trustBundleSchemaVersion'', JStr RECORDER_CUSTODY_TRUST_BUNDLE_SCHEMA_VERSION),
     (''authorizationSchemaVersion'', JStr RECORDER_CUSTODY_AUTHORIZATION_SCHEMA_VERSION),
     (''recorderAdapterProbeSchemaVersion'', JStr RECORDER_ADAPTER_PROBE_SCHEMA_VERSION),
     (''recorderAdapterSchemaVersion'', JStr RECORDER_ADAPTER_SCHEMA_VERSION),
     (''purpose'', JStr RECORDER_CUSTODY_PURPOSE),
     (''evidencePackSchemaVersion'', JStr ''forge.external-acceptance.v1'')]"
  "list_all (\<lambda>field. isSafeId (getProp (proof_with ha hc hd' he hf) field))
     [''authorizationId'', ''trustBundleId'', ''acceptanceAuthorityKeyId'', ''artifactId'', ''modelId'']"
  "revision_ok (getProp (proof_with ha hc hd' he hf) ''protectedRevision'')"
  "fields_are (proof_with ha hc hd' he hf) [(''referenceRigId'', JStr D12_QUAD)]"
  "list_all (\<lambda>field. safeInteger (getProp (proof_with ha hc hd' he hf) field) 0 max_safe_integer)
     [''preObservedAtUnixMs'', ''postObservedAtUnixMs'', ''captureStartedAtUnixMs'', ''captureStoppedAtUnixMs'', ''proofCreatedAtUnixMs'']"
  "fields_are (proof_with ha hc hd' he hf) [(''acceptanceAuthoritySignatureVerified'', JBool True),
     (''identityContinuityVerified'', JBool True), (''captureConsentConfirmed'', JBool True), (''noAutoArm'', JBool True),
     (''cryptographicDeviceAttestation'', JBool False), (''recordedDeviceAttested'', JBool False),
     (''deviceIdentityVerified'', JBool False), (''fieldSessionVerified'', JBool False),
     (''sharingAuthorized'', JBool False), (''trainingReuseAuthorized'', JBool False)]"
  by code_simp+

lemma proof_sample_accepted: "parseRecorderCustodyProof proof_sample = Inr proof_sample"
  unfolding parseRecorderCustodyProof_def resE proof_sample_def
  by (intro exI conjI; rule proof_with_constants proof_sample_hashes [unfolded proof_sample_def]
      proof_sample_continuity [unfolded proof_sample_def] refl)

lemma proof_sample_bound:
  "map (getProp (proof_with ha hc hd' he hf)) [''authorizationId'', ''modelId'', ''artifactId'', ''referenceRigId'', ''contractHash'',
     ''lockfileHash'', ''telemetrySourcePortSha256'', ''captureStartedAtUnixMs''] =
   [JStr ''auth-1'', JStr ''model-1'', JStr ''rec-1'', JStr D12_QUAD, hc, hd', he, JNum (IntN 1000)]"
  by code_simp

lemma sample_custody_stop:
  "stopDesktopCustodiedRecorder status_sample ''model-1'' stop_sample (answering proof_sample) = Inr proof_sample"
proof -
  have "desktop_required (answering proof_sample) ''signed recorder custody'' = Inr ()"
    by (simp add: desktop_required_def answering_def)
  moreover have "isSafeId (JStr ''model-1'')" "isSafeId (JStr (js_String (getProp stop_sample ''authorizationId'')))"
    "getProp stop_sample ''physicalConfirmation'' = JStr RECORDER_ADAPTER_PROBE_CONFIRMATION"
    "getProp stop_sample ''authorizationId'' = JStr ''auth-1''" "getProp status_sample ''state'' = JStr ''recording''"
    by code_simp+
  moreover have "bound_to CUSTODY_STOP_BINDING proof_sample status_sample"
    using proof_sample_bound [of "sample_sha (CHR ''a'')" "sample_sha (CHR ''c'')" "sample_sha (CHR ''d'')" "sample_sha (CHR ''e'')"
        "sample_sha (CHR ''f'')"]
    by (simp add: CUSTODY_STOP_BINDING_def proof_sample_def status_sample_def sample_sha_simps)
  moreover have "getProp proof_sample ''authorizationId'' = JStr ''auth-1''" "getProp proof_sample ''modelId'' = JStr ''model-1''"
    using proof_sample_bound unfolding proof_sample_def by simp_all
  ultimately show ?thesis
    by (simp add: stopDesktopCustodiedRecorder_def answering_def proof_sample_accepted)
qed

section \<open>Instances\<close>

theorem capture_bound_to_request_witness:
  "getProp receipt_sample ''contractHash'' = getProp start_sample ''contractHash'' \<and> grants_nothing receipt_sample"
  using capture_bound_to_request [OF sample_start sample_stop] by blast

theorem custody_bound_to_request_witness:
  "getProp proof_sample ''contractHash'' = getProp (getProp custody_sample ''recorder'') ''contractHash'' \<and> grants_nothing proof_sample"
  using custody_bound_to_request [OF sample_custody_start sample_custody_stop] by blast

theorem desktop_grants_no_authority_witness:
  "getProp status_sample ''noAutoArm'' = JBool True
    \<and> (getProp status_sample ''sharingAuthorized'' = JBool False \<or> getProp status_sample ''sharingAuthorized'' = JUndef)"
  using desktop_grants_no_authority [OF desktop_answer.start [OF sample_start]] by (simp add: AUTHORITY_def)

end
