(* ===== verification/Spec2Isabelle.thy ===== *)
theory Spec2Isabelle
  imports Lifecycle_Claims Consent_Claims Network_Claims Rate_Limiter Ladder_Claims Ghost_Claims
    Recorder_Samples Artifact_Samples
    Account_Claims Policy_Claims Desktop_Samples
begin

text \<open>
  A verification library of ForgedTTC: the decisions that the gateway (packages/gateway/src) takes on its
  database and its network, and four components of the studio (packages/studio/src) that decide what an
  operator may do and sees and what a trained policy may command.

  \<^bold>\<open>The program.\<close> The gateway is a server over PostgreSQL. A request is authenticated, limited
  (security.ts), and handed to an operation of one of these parts:
  \<^item> dataLifecycle.ts: legal holds, deletion tombstones, the catalogue of backups, the evaluation of restore
    candidates, the retention sweep, the deletion of expired backups;
  \<^item> consent.ts: the append-only ledger of consents, the gates that other operations pass, the effects of a
    withdrawal;
  \<^item> platform.ts: declared objects and their upload, platform gates and capabilities, jobs with quotas, credits
    and usage, the artifacts of finished jobs, the model registry with edits and public snapshots, replays;
  \<^item> recorderArchives.ts and recorderAdmission.ts: archives of desktop recordings, from the upload plan to the
    admission as telemetry;
  \<^item> accountData.ts: the deletion of an account, which prepares the lifecycle records, purges thirty tables and
    returns a receipt;
  \<^item> security.ts: JSON limits, the policy for outgoing requests, bounded fetches, the rate limiter.
  The parts meet in the database. A job that names source objects or telemetry runs under the consent gate
  (Jobs uses Consent), and the withdrawal of the consent cancels it; recorder archives are built from declared
  objects (Recorder_Archives uses Object_Blobs); admitted models are what jobs, admissions and snapshots refer to;
  the deletion of an account is refused by holds and leaves the tombstones that restores are checked against.
  The studio's deploymentLadder.ts guards the rehearsal of a deployment against its desktop process,
  desktopRecorder.ts starts, stops, inspects and uploads recordings through that process without trusting it,
  ghostReplay.ts parses and seeks the overlay of a recording, and policyRuntime.ts checks a policy artifact and turns
  the answers of an ONNX runtime into motion commands.

  \<^bold>\<open>Theories.\<close>
  \<^item> Forge_Prelude: results as sums (\<open>bindE\<close>, \<open>guardE\<close>), operations as state transformers with errors (\<open>tx_bind\<close>
    and relatives), the collections \<open>resE\<close>, \<open>txE\<close> and \<open>tx_simps\<close>, list forms of SQL (\<open>latest_by\<close>,
    \<open>distinct_on\<close>, \<open>insert_unique\<close>). Tx_Relations: the locale \<open>tx_rel\<close> of relations that operations keep, and
    operations that only read.
  \<^item> Js_Values, Js_Rounding, Js_Number, Js_Text: the JavaScript values, binary64 numbers with rounding, \<open>Number\<close>,
    \<open>JSON.stringify\<close>, string operations. Js_Objects: members and
    extension of objects, \<open>String\<close>.
  \<^item> Gateway_Db: the rows of the tables as records, the database as a record of tables, the transaction bracket
    of db.ts. Ledger: the locale of append-only event ledgers, interpreted by Legal_Holds and Consent_Claims.
  \<^item> Legal_Holds, Backup_Catalogue, Backup_Expiry, Retention_Sweep: dataLifecycle.ts, one definition per function.
    Restore_Safety and Sweep_Correct: the invariants over all histories of its operations and the specification
    of the sweep. Lifecycle_Claims: its properties.
  \<^item> Account_Data: deleteUserData and one definition per purge step, with the referential actions of the
    schema. Account_Purge: what every step and the whole purge remove and keep; the histories of Restore_Safety and
    Credit_History contain account deletions. Account_Claims: its properties.
  \<^item> Consent and Consent_Claims: consent.ts and its properties.
  \<^item> Json_Limits, Network_Guard, Rate_Limiter, Network_Claims: security.ts and its properties.
  \<^item> Object_Blobs and Blob_Claims: object declarations of platform.ts. Recorder_Archives, Recorder_Claims,
    Recorder_Admission, Admission_Claims, Recorder_Samples: recorderArchives.ts and recorderAdmission.ts.
  \<^item> Job_Checks, Job_Records, Jobs: gates, capabilities, payload checks, quotas, createJob and cancelOwnedJob of
    platform.ts. Job_Claims, Credit_Claims, Credit_History, Job_Samples: gates, idempotency, refunds, the books.
  \<^item> Artifacts, Artifact_Claims: the storage of job outputs (materializeJobOutput). Model_Edits, Models,
    Model_Claims: compileEditPatch and the model registry. Replays: verifyReplayTape. Artifact_Samples: instances.
  \<^item> Deployment_Ladder and Ladder_Claims, Ghost_Replay and Ghost_Claims: the first two studio components.
    Policy_Artifact: preparePolicyArtifact and its helpers. Policy_Control: BrowserPolicyController as a state machine
    whose steps are the calls of its methods and the settlements of the promises it awaits. Policy_Claims: its
    invariant over all plays (\<open>playback\<close>) and its properties.
    Desktop_Recorder: the constants and parsers of desktopRecorder.ts. Desktop_Client: its requests and operations.
    Desktop_Claims and Desktop_Samples: its properties, among them the relation to the plans that
    Recorder_Archives accepts, and their instances.

  \<^bold>\<open>State and operations.\<close> A table is the list of its rows in insertion order, with the columns that the modelled
  statements read or write; a statement is a list expression; constraints (uniqueness, checks, foreign keys where an
  operation can violate them) make an insertion fail with \<open>DbError\<close>. An operation of the source of type
  \<open>Promise<T>\<close> is a function from the database to an error or a value and the new database, every throw a branch.
  \<open>withGatewayTransaction\<close> rolls back on errors, so that serializable operations are single steps; for operations that
  are several statements without a transaction the parameter \<open>env\<close> is what other requests do in between.
  Names are those of the source; fields carry a short prefix of their table or type.

  \<^bold>\<open>Parameters.\<close> SHA-256, the clock, random identifiers, the process environment, DNS, \<open>fetch\<close>, the URL parser,
  \<open>JSON.parse\<close>, the object store, the validator, verifier and desktop processes, the backup provider, the observer and
  ONNX runtime behind a policy controller, and \<open>Math.hypot\<close> are arguments of the definitions. Nothing is assumed about them except where a property says so: identifiers drawn for new jobs are
  fresh in the histories of the books. \<open>fixtureJobOutput\<close>, a table of canned outputs, is an argument of createJob as well.

  \<^bold>\<open>What is shown.\<close> Lifecycle: an eligible restore contains no subject deleted since its backup, tombstones outlive
  backups, holds block deletions and survive the sweep, which reaches exactly its specified result. Accounts: a deletion
  erases every row of the account, spares the rows of others, completes on every consistent database without a hold,
  and a hold leaves the account untouched. Consent: gated
  operations run only under active consents, the last decision counts, withdrawals take effect, the ledger
  is append-only. Network: fetched JSON comes from an allowed public host within its bounds; JSON limits and
  private ranges are characterized; the rate limiter is exact, bounded and lets callers in again. Recorder:
  archives and admissions are backed by verified objects. Jobs: hardware jobs only in lab mode, consents, quotas,
  idempotent requests, refunds at most once, balances that are the sum of a ledger in which each credit repays a debit.
  Artifacts and models: policies are stored only when delivered, hashes and statuses of models are those of their
  contracts and reports, snapshots are frozen, replays are verified exactly by their specification. Studio: no stage of
  the ladder is skipped, seeking by binary search equals a linear scan, and the commands of a policy controller stay
  within [-1, 1] whatever the runtime answers, its requests end, and its session is released when it is idle; the
  recorder client accepts no answer that grants authority, binds receipts and custody proofs to the requested capture,
  and its upload plans are those of the gateway up to three stated differences.

  \<^bold>\<open>Bounds and fuel.\<close> Loops are structural recursions or have measures (\<open>seek_loop\<close>, \<open>dec_digits\<close>, \<open>visit\<close>; for
  \<open>processSnapshot\<close> the number of targets left).
  Decimal output of numbers searches at most 330 exponents, enough for the least positive binary64 number, and 17
  digits, enough for the shortest text of every binary64 number.

  \<^bold>\<open>Not modelled.\<close> The HTTP routes of server.ts, which call the operations above; generation.ts and
  generatedArtifacts.ts; the export of accountData.ts, a list of queries copied into a document; auth.ts, a third-party library; the
  commerce part of platform.ts; configuration, readiness, observability and fixtures; the rest of the studio (user
  interface, rendering, generated client); the Rust crates, Python workers and scripts. Strings are those over U+0000 to
  U+00FF. Concurrency appears as serializable transactions and as \<open>env\<close>; isolation below serializable is not
  modelled. Timing and memory are not modelled.
\<close>

end
